(* ===== verification/Werk_Prelude.thy ===== *)
theory Werk_Prelude
  imports Main
begin

text \<open>
  Shared vocabulary of the development: the outcome of a Rust operation, the
  saturating and checked arithmetic of \<open>u64\<close> and \<open>usize\<close>, Rust strings as
  lists of Unicode scalar values, and the state machine contract that the stateful components are proved
  against.
\<close>

named_theorems u64_simps \<open>saturating arithmetic within range\<close>
named_theorems str_simps \<open>evaluation of Rust string literals\<close>

section \<open>Outcomes\<close>

text \<open>
  A Rust function returns a value, returns an error, or panics (\<open>expect\<close>,
  \<open>unwrap\<close>, \<open>unreachable\<close>).
\<close>

datatype ('e, 'a) res = Ok 'a | Err 'e | Panic

fun res_bind :: "('e, 'a) res \<Rightarrow> ('a \<Rightarrow> ('e, 'b) res) \<Rightarrow> ('e, 'b) res" where
  "res_bind (Ok a) f = f a"
| "res_bind (Err e) f = Err e"
| "res_bind Panic f = Panic"

fun is_ok :: "('e, 'a) res \<Rightarrow> bool" where
  "is_ok (Ok a) = True"
| "is_ok (Err e) = False"
| "is_ok Panic = False"

definition ensure :: "bool \<Rightarrow> 'e \<Rightarrow> ('e, unit) res" where
  "ensure b e = (if b then Ok () else Err e)"

lemma res_bind_Ok: "res_bind r f = Ok b \<longleftrightarrow> (\<exists>a. r = Ok a \<and> f a = Ok b)"
  by (cases r) auto

lemma res_bind_Panic: "res_bind r f = Panic \<longleftrightarrow> r = Panic \<or> (\<exists>a. r = Ok a \<and> f a = Panic)"
  by (cases r) auto

lemma ensure_Ok [simp]: "ensure b e = Ok u \<longleftrightarrow> b"
  by (simp add: ensure_def)

lemma ensure_not_Panic [simp]: "ensure b e \<noteq> Panic"
  by (simp add: ensure_def)

lemma ensure_bind_Ok [simp]: "res_bind (ensure b e) f = Ok x \<longleftrightarrow> b \<and> f () = Ok x"
  by (simp add: ensure_def)

lemma is_ok_iff: "is_ok r \<longleftrightarrow> (\<exists>a. r = Ok a)"
  by (cases r) auto

section \<open>Unsigned machine integers\<close>

text \<open>
  An unsigned integer is a natural number together with the bound its width gives.
  Saturating operations clip at the bound; subtraction on \<open>nat\<close> is
  \<open>saturating_sub\<close>.
\<close>

definition u64_max :: nat where "u64_max = 18446744073709551615"
definition u32_max :: nat where "u32_max = 4294967295"

definition sat_add :: "nat \<Rightarrow> nat \<Rightarrow> nat" where
  "sat_add a b = min (a + b) u64_max"

definition sat_mul :: "nat \<Rightarrow> nat \<Rightarrow> nat" where
  "sat_mul a b = min (a * b) u64_max"

definition checked_add :: "nat \<Rightarrow> nat \<Rightarrow> nat option" where
  "checked_add a b = (if a + b \<le> u64_max then Some (a + b) else None)"

definition checked_sub :: "nat \<Rightarrow> nat \<Rightarrow> nat option" where
  "checked_sub a b = (if b \<le> a then Some (a - b) else None)"

definition checked_mul :: "nat \<Rightarrow> nat \<Rightarrow> nat option" where
  "checked_mul a b = (if a * b \<le> u64_max then Some (a * b) else None)"

lemma sat_add_exact [u64_simps]: "a + b \<le> u64_max \<Longrightarrow> sat_add a b = a + b"
  by (simp add: sat_add_def)

lemma sat_add_le: "sat_add a b \<le> a + b"
  by (simp add: sat_add_def)

lemma sat_add_max: "sat_add a b \<le> u64_max"
  by (simp add: sat_add_def)

lemma sat_add_0: "a \<le> u64_max \<Longrightarrow> sat_add a 0 = a"
  by (simp add: sat_add_def)

lemma sat_add_mono: "a \<le> a' \<Longrightarrow> b \<le> b' \<Longrightarrow> sat_add a b \<le> sat_add a' b'"
  by (auto simp: sat_add_def)

lemma sat_add_ge1: "a \<le> u64_max \<Longrightarrow> a \<le> sat_add a b"
  by (simp add: sat_add_def)

lemma sat_add_lt_max: "sat_add a b < u64_max \<Longrightarrow> sat_add a b = a + b"
  by (simp add: sat_add_def split: if_splits)

lemma sat_add_ge_iff: "n \<le> u64_max \<Longrightarrow> n \<le> sat_add a b \<longleftrightarrow> n \<le> a + b"
  by (auto simp: sat_add_def)

lemma sat_mul_exact [u64_simps]: "a * b \<le> u64_max \<Longrightarrow> sat_mul a b = a * b"
  by (simp add: sat_mul_def)

lemma checked_add_Some [simp]: "checked_add a b = Some c \<longleftrightarrow> c = a + b \<and> a + b \<le> u64_max"
  by (auto simp: checked_add_def)

lemma checked_sub_Some [simp]: "checked_sub a b = Some c \<longleftrightarrow> c = a - b \<and> b \<le> a"
  by (auto simp: checked_sub_def)

text \<open>A left fold of \<open>saturating_add\<close>, as the code writes its totals.\<close>

definition sat_sum :: "nat list \<Rightarrow> nat" where
  "sat_sum xs = foldl sat_add 0 xs"

lemma foldl_sat_add: "a \<le> u64_max \<Longrightarrow> foldl sat_add a xs = min (a + sum_list xs) u64_max"
  by (induction xs arbitrary: a) (auto simp: sat_add_def)

lemma sat_sum_eq: "sat_sum xs = min (sum_list xs) u64_max"
  by (simp add: sat_sum_def foldl_sat_add)

lemma sat_sum_exact [u64_simps]: "sum_list xs \<le> u64_max \<Longrightarrow> sat_sum xs = sum_list xs"
  by (simp add: sat_sum_eq)

text \<open>\<open>try_fold\<close> with \<open>checked_add\<close>.\<close>

fun checked_sum :: "nat \<Rightarrow> nat list \<Rightarrow> nat option" where
  "checked_sum a [] = Some a"
| "checked_sum a (x # xs) = (case checked_add a x of None \<Rightarrow> None | Some b \<Rightarrow> checked_sum b xs)"

lemma checked_sum_Some: "a \<le> u64_max \<Longrightarrow> checked_sum a xs = Some b \<longleftrightarrow>
    b = a + sum_list xs \<and> a + sum_list xs \<le> u64_max"
proof (induction xs arbitrary: a)
  case Nil
  then show ?case by (simp add: eq_commute)
next
  case (Cons x xs)
  show ?case
  proof (cases "a + x \<le> u64_max")
    case True
    with Cons.IH [OF True] show ?thesis by (simp add: checked_add_def add.assoc)
  next
    case False
    then show ?thesis by (simp add: checked_add_def)
  qed
qed

text \<open>Iterator minimum and maximum with the default of an empty iterator.\<close>

definition min_or :: "'a::linorder \<Rightarrow> 'a list \<Rightarrow> 'a" where
  "min_or d xs = (case xs of [] \<Rightarrow> d | y # ys \<Rightarrow> foldl min y ys)"

definition max_or :: "'a::linorder \<Rightarrow> 'a list \<Rightarrow> 'a" where
  "max_or d xs = (case xs of [] \<Rightarrow> d | y # ys \<Rightarrow> foldl max y ys)"

lemma foldl_min_le: "foldl min y ys \<le> y \<and> (\<forall>x \<in> set ys. foldl min y ys \<le> x)"
  for y :: "'a::linorder"
proof (induction ys arbitrary: y)
  case Nil
  then show ?case by simp
next
  case (Cons a ys)
  from Cons [of "min y a"] show ?case by auto
qed

lemma foldl_max_ge: "y \<le> foldl max y ys \<and> (\<forall>x \<in> set ys. x \<le> foldl max y ys)"
  for y :: "'a::linorder"
proof (induction ys arbitrary: y)
  case Nil
  then show ?case by simp
next
  case (Cons a ys)
  from Cons [of "max y a"] show ?case by auto
qed

lemma foldl_min_in: "foldl min y ys \<in> insert y (set ys)" for y :: "'a::linorder"
proof (induction ys arbitrary: y)
  case Nil
  then show ?case by simp
next
  case (Cons a ys)
  from Cons [of "min y a"] show ?case by (auto simp: min_def split: if_splits)
qed

lemma foldl_max_in: "foldl max y ys \<in> insert y (set ys)" for y :: "'a::linorder"
proof (induction ys arbitrary: y)
  case Nil
  then show ?case by simp
next
  case (Cons a ys)
  from Cons [of "max y a"] show ?case by (auto simp: max_def split: if_splits)
qed

lemma min_or_le: "x \<in> set xs \<Longrightarrow> min_or d xs \<le> x"
proof (cases xs)
  case (Cons y ys)
  assume "x \<in> set xs"
  with Cons foldl_min_le [of y ys] show ?thesis by (auto simp: min_or_def)
qed simp

lemma max_or_ge: "x \<in> set xs \<Longrightarrow> x \<le> max_or d xs"
proof (cases xs)
  case (Cons y ys)
  assume "x \<in> set xs"
  with Cons foldl_max_ge [of y ys] show ?thesis by (auto simp: max_or_def)
qed simp

lemma min_or_in: "xs \<noteq> [] \<Longrightarrow> min_or d xs \<in> set xs"
  using foldl_min_in by (auto simp: min_or_def split: list.splits)

lemma max_or_in: "xs \<noteq> [] \<Longrightarrow> max_or d xs \<in> set xs"
  using foldl_max_in by (auto simp: max_or_def split: list.splits)

section \<open>Rust strings\<close>

text \<open>
  A \<open>String\<close> is a list of Unicode scalar values; \<open>len\<close> counts UTF-8 bytes.
  \<open>lit\<close> reads an ASCII literal. The classes below are those of the Rust standard
  library: \<open>White_Space\<close> for \<open>trim\<close> and \<open>Cc\<close> for
  \<open>char::is_control\<close>.
\<close>

type_synonym rstr = "nat list"

definition lit :: "string \<Rightarrow> rstr" where
  "lit s = map of_char s"

definition utf8_width :: "nat \<Rightarrow> nat" where
  "utf8_width c = (if c < 128 then 1 else if c < 2048 then 2 else if c < 65536 then 3 else 4)"

definition str_len :: "rstr \<Rightarrow> nat" where
  "str_len s = sum_list (map utf8_width s)"

definition is_whitespace :: "nat \<Rightarrow> bool" where
  "is_whitespace c \<longleftrightarrow> (9 \<le> c \<and> c \<le> 13) \<or> c = 32 \<or> c = 133 \<or> c = 160 \<or> c = 5760 \<or>
     (8192 \<le> c \<and> c \<le> 8202) \<or> c = 8232 \<or> c = 8233 \<or> c = 8239 \<or> c = 8287 \<or> c = 12288"

definition is_control :: "nat \<Rightarrow> bool" where
  "is_control c \<longleftrightarrow> c \<le> 31 \<or> (127 \<le> c \<and> c \<le> 159)"

definition is_ascii_digit :: "nat \<Rightarrow> bool" where
  "is_ascii_digit c \<longleftrightarrow> 48 \<le> c \<and> c \<le> 57"

definition is_ascii_lower :: "nat \<Rightarrow> bool" where
  "is_ascii_lower c \<longleftrightarrow> 97 \<le> c \<and> c \<le> 122"

definition is_ascii_upper :: "nat \<Rightarrow> bool" where
  "is_ascii_upper c \<longleftrightarrow> 65 \<le> c \<and> c \<le> 90"

definition is_ascii_alnum :: "nat \<Rightarrow> bool" where
  "is_ascii_alnum c \<longleftrightarrow> is_ascii_digit c \<or> is_ascii_lower c \<or> is_ascii_upper c"

definition ascii_lower :: "nat \<Rightarrow> nat" where
  "ascii_lower c = (if is_ascii_upper c then c + 32 else c)"

definition to_ascii_lowercase :: "rstr \<Rightarrow> rstr" where
  "to_ascii_lowercase s = map ascii_lower s"

definition eq_ignore_ascii_case :: "rstr \<Rightarrow> rstr \<Rightarrow> bool" where
  "eq_ignore_ascii_case s t \<longleftrightarrow> to_ascii_lowercase s = to_ascii_lowercase t"

definition replace_char :: "nat \<Rightarrow> nat \<Rightarrow> rstr \<Rightarrow> rstr" where
  "replace_char a b s = map (\<lambda>c. if c = a then b else c) s"

definition trim_start :: "rstr \<Rightarrow> rstr" where
  "trim_start s = dropWhile is_whitespace s"

definition trim_end :: "rstr \<Rightarrow> rstr" where
  "trim_end s = rev (dropWhile is_whitespace (rev s))"

definition trim :: "rstr \<Rightarrow> rstr" where
  "trim s = trim_end (trim_start s)"

definition starts_with :: "rstr \<Rightarrow> rstr \<Rightarrow> bool" where
  "starts_with p s \<longleftrightarrow> take (length p) s = p"

fun contains_str :: "rstr \<Rightarrow> rstr \<Rightarrow> bool" where
  "contains_str p [] \<longleftrightarrow> p = []"
| "contains_str p (c # s) \<longleftrightarrow> starts_with p (c # s) \<or> contains_str p s"

lemma lit_Nil [simp, str_simps]: "lit [] = []"
  by (simp add: lit_def)

lemma eq_ignore_refl [simp]: "eq_ignore_ascii_case s s"
  by (simp add: eq_ignore_ascii_case_def)

lemma ascii_lower_idem [simp]: "ascii_lower (ascii_lower c) = ascii_lower c"
  by (auto simp: ascii_lower_def is_ascii_upper_def)

lemma to_ascii_lowercase_idem [simp]:
  "to_ascii_lowercase (to_ascii_lowercase s) = to_ascii_lowercase s"
  by (simp add: to_ascii_lowercase_def)

lemma to_ascii_lowercase_id: "(\<forall>c \<in> set s. \<not> is_ascii_upper c) \<Longrightarrow> to_ascii_lowercase s = s"
  by (simp add: to_ascii_lowercase_def ascii_lower_def map_idI)

lemma replace_char_id: "a \<notin> set s \<Longrightarrow> replace_char a b s = s"
  by (auto simp: replace_char_def intro!: map_idI)

lemma lit_append: "lit (s @ t) = lit s @ lit t"
  by (simp add: lit_def)

lemma starts_with_append [simp]: "starts_with p (p @ s)"
  by (simp add: starts_with_def)

lemma starts_with_iff: "starts_with p s \<longleftrightarrow> (\<exists>t. s = p @ t)"
  by (metis append_eq_conv_conj append_take_drop_id starts_with_def)

lemma contains_str_append: "contains_str p (s @ p @ t)"
proof (induction s)
  case Nil
  show ?case
  proof (cases "p @ t")
    case Nil
    then show ?thesis by simp
  next
    case (Cons c u)
    then have "starts_with p (c # u)" by (metis starts_with_append)
    with Cons show ?thesis by simp
  qed
qed simp

lemma dropWhile_id: "s = [] \<or> \<not> P (hd s) \<Longrightarrow> dropWhile P s = s"
  by (cases s) auto

lemma trim_id: "s = [] \<or> (\<not> is_whitespace (hd s) \<and> \<not> is_whitespace (last s)) \<Longrightarrow> trim s = s"
  by (auto simp: trim_def trim_start_def trim_end_def hd_rev dropWhile_id)

lemma trim_start_ends: "trim_start s = [] \<or> \<not> is_whitespace (hd (trim_start s))"
  unfolding trim_start_def using hd_dropWhile by blast

lemma trim_end_ends: "trim_end s = [] \<or> \<not> is_whitespace (last (trim_end s))"
proof -
  let ?d = "dropWhile is_whitespace (rev s)"
  have "?d = [] \<or> \<not> is_whitespace (hd ?d)" using hd_dropWhile by blast
  then show ?thesis by (auto simp: trim_end_def last_rev)
qed

lemma trim_end_prefix: "\<exists>t. s = trim_end s @ t"
proof -
  have "rev s = takeWhile is_whitespace (rev s) @ dropWhile is_whitespace (rev s)" by simp
  then have "s = rev (dropWhile is_whitespace (rev s)) @ rev (takeWhile is_whitespace (rev s))"
    by (metis rev_append rev_rev_ident)
  then show ?thesis by (auto simp: trim_end_def)
qed

lemma hd_trim: "trim s \<noteq> [] \<Longrightarrow> \<not> is_whitespace (hd (trim s))"
proof -
  assume n: "trim s \<noteq> []"
  obtain t where t: "trim_start s = trim s @ t"
    using trim_end_prefix [of "trim_start s"] by (auto simp: trim_def)
  with n have "hd (trim_start s) = hd (trim s)" "trim_start s \<noteq> []" by auto
  with trim_start_ends [of s] show ?thesis by auto
qed

lemma last_trim: "trim s \<noteq> [] \<Longrightarrow> \<not> is_whitespace (last (trim s))"
  using trim_end_ends [of "trim_start s"] by (simp add: trim_def)

lemma trim_idem [simp]: "trim (trim s) = trim s"
  by (rule trim_id) (use hd_trim last_trim in blast)

section \<open>The state machine contract\<close>

text \<open>
  A stateful component is an initial state, a total step function over events (the
  event carries what the environment supplies: clock readings, telemetry, random
  bytes) and an invariant. What every run keeps is proved once, here.
\<close>

fun run :: "('s \<Rightarrow> 'e \<Rightarrow> 's) \<Rightarrow> 's \<Rightarrow> 'e list \<Rightarrow> 's" where
  "run step s [] = s"
| "run step s (e # es) = run step (step s e) es"

lemma run_append: "run step s (es @ fs) = run step (run step s es) fs"
  by (induction es arbitrary: s) auto

locale state_machine =
  fixes init :: 's
    and step :: "'s \<Rightarrow> 'e \<Rightarrow> 's"
    and inv :: "'s \<Rightarrow> bool"
  assumes inv_init: "inv init"
    and inv_step: "inv s \<Longrightarrow> inv (step s e)"
begin

lemma run_inv_from: "inv s \<Longrightarrow> inv (run step s es)"
  by (induction es arbitrary: s) (auto intro: inv_step)

lemma run_inv: "inv (run step init es)"
  using run_inv_from inv_init by blast

end

text \<open>
  A machine with a measure of events (issued handles, completed jobs) that no step
  lowers: the measure is monotone along runs.
\<close>

locale monotone_machine = state_machine init step inv
  for init :: 's and step :: "'s \<Rightarrow> 'e \<Rightarrow> 's" and inv :: "'s \<Rightarrow> bool" +
  fixes rel :: "'s \<Rightarrow> 's \<Rightarrow> bool"
  assumes rel_refl: "rel s s"
    and rel_trans: "rel s t \<Longrightarrow> rel t u \<Longrightarrow> rel s u"
    and rel_step: "inv s \<Longrightarrow> rel s (step s e)"
begin

lemma run_rel: "inv s \<Longrightarrow> rel s (run step s es)"
proof (induction es arbitrary: s)
  case Nil
  then show ?case by (simp add: rel_refl)
next
  case (Cons e es)
  then have "rel (step s e) (run step (step s e) es)" by (simp add: inv_step)
  with rel_step [OF Cons.prems, of e] show ?case by (auto intro: rel_trans)
qed

end

end
