(* ===== verification/BTree_Map.thy ===== *)
theory BTree_Map
  imports Werk_Prelude
begin

text \<open>
  The model of \<open>BTreeMap\<close> and \<open>HashMap\<close>: an association list in strictly ascending key
  order. Iteration order is list order, lookup is \<open>map_of\<close>. The locale \<open>finite_map\<close>
  states what the components rely on; the interpretation at the end discharges it.
\<close>

type_synonym ('k, 'v) btree = "('k \<times> 'v) list"

definition bt_wf :: "('k::linorder, 'v) btree \<Rightarrow> bool" where
  "bt_wf m \<longleftrightarrow> sorted_wrt (<) (map fst m)"

fun bt_insert :: "'k::linorder \<Rightarrow> 'v \<Rightarrow> ('k, 'v) btree \<Rightarrow> ('k, 'v) btree" where
  "bt_insert k v [] = [(k, v)]"
| "bt_insert k v ((k', v') # m) =
     (if k < k' then (k, v) # (k', v') # m
      else if k = k' then (k, v) # m
      else (k', v') # bt_insert k v m)"

definition bt_remove :: "'k \<Rightarrow> ('k, 'v) btree \<Rightarrow> ('k, 'v) btree" where
  "bt_remove k m = filter (\<lambda>p. fst p \<noteq> k) m"

definition bt_modify :: "'k \<Rightarrow> ('v \<Rightarrow> 'v) \<Rightarrow> ('k, 'v) btree \<Rightarrow> ('k, 'v) btree" where
  "bt_modify k f m = map (\<lambda>p. if fst p = k then (fst p, f (snd p)) else p) m"

definition bt_values :: "('k, 'v) btree \<Rightarrow> 'v list" where
  "bt_values m = map snd m"

definition bt_contains :: "'k \<Rightarrow> ('k, 'v) btree \<Rightarrow> bool" where
  "bt_contains k m \<longleftrightarrow> map_of m k \<noteq> None"

definition bt_map_values :: "('v \<Rightarrow> 'w) \<Rightarrow> ('k, 'v) btree \<Rightarrow> ('k, 'w) btree" where
  "bt_map_values f m = map (\<lambda>p. (fst p, f (snd p))) m"

section \<open>Lookups\<close>

lemma get_insert [simp]:
  "map_of (bt_insert k v m) k' = (if k' = k then Some v else map_of m k')"
  by (induction m) auto

lemma get_remove [simp]: "map_of (bt_remove k m) k' = (if k' = k then None else map_of m k')"
  by (induction m) (auto simp: bt_remove_def)

lemma get_modify [simp]:
  "map_of (bt_modify k f m) k' = (if k' = k then map_option f (map_of m k) else map_of m k')"
  by (induction m) (auto simp: bt_modify_def)

lemma get_map_values [simp]: "map_of (bt_map_values f m) k = map_option f (map_of m k)"
  by (induction m) (auto simp: bt_map_values_def)

lemma bt_contains_iff: "bt_contains k m \<longleftrightarrow> k \<in> fst ` set m"
  by (simp add: bt_contains_def map_of_eq_None_iff)

lemma bt_contains_dom: "bt_contains k m \<longleftrightarrow> k \<in> dom (map_of m)"
  by (simp add: bt_contains_def dom_def)

section \<open>Keys and order\<close>

lemma keys_insert [simp]: "fst ` set (bt_insert k v m) = insert k (fst ` set m)"
proof (induction m)
  case (Cons p m)
  obtain k' v' where "p = (k', v')" by (cases p)
  with Cons show ?case by (simp add: insert_commute)
qed simp

lemma keys_remove [simp]: "fst ` set (bt_remove k m) = fst ` set m - {k}"
  by (auto simp: bt_remove_def)

lemma map_fst_modify [simp]: "map fst (bt_modify k f m) = map fst m"
  by (induction m) (auto simp: bt_modify_def)

lemma map_fst_map_values [simp]: "map fst (bt_map_values f m) = map fst m"
  by (simp add: bt_map_values_def comp_def)

lemma length_modify [simp]: "length (bt_modify k f m) = length m"
  by (simp add: bt_modify_def)

lemma length_map_values [simp]: "length (bt_map_values f m) = length m"
  by (simp add: bt_map_values_def)

lemma bt_wf_Nil [simp]: "bt_wf []"
  by (simp add: bt_wf_def)

lemma bt_wf_Cons: "bt_wf ((k, v) # m) \<longleftrightarrow> (\<forall>k' \<in> fst ` set m. k < k') \<and> bt_wf m"
  by (simp add: bt_wf_def)

lemma bt_wf_distinct: "bt_wf m \<Longrightarrow> distinct (map fst m)"
  by (simp add: bt_wf_def strict_sorted_iff)

lemma bt_wf_insert: "bt_wf m \<Longrightarrow> bt_wf (bt_insert k v m)"
proof (induction m)
  case Nil
  then show ?case by (simp add: bt_wf_def)
next
  case (Cons p m)
  obtain k' v' where p: "p = (k', v')" by (cases p)
  from Cons.prems p have wf: "bt_wf m" and lt: "\<forall>x \<in> fst ` set m. k' < x"
    by (simp_all add: bt_wf_Cons)
  consider "k < k'" | "k = k'" | "k' < k" by (rule linorder_cases)
  then show ?case
  proof cases
    case 1
    with p lt wf show ?thesis by (auto simp: bt_wf_Cons)
  next
    case 2
    with p lt wf show ?thesis by (simp add: bt_wf_Cons)
  next
    case 3
    then have "\<not> k < k'" "k \<noteq> k'" by auto
    moreover have "\<forall>x \<in> fst ` set (bt_insert k v m). k' < x"
      unfolding keys_insert using lt 3 by blast
    ultimately show ?thesis using p Cons.IH [OF wf] by (simp add: bt_wf_Cons)
  qed
qed

lemma bt_wf_remove: "bt_wf m \<Longrightarrow> bt_wf (bt_remove k m)"
  by (induction m) (auto simp: bt_remove_def bt_wf_Cons)

lemma bt_wf_modify [simp]: "bt_wf (bt_modify k f m) \<longleftrightarrow> bt_wf m"
  by (simp add: bt_wf_def)

lemma bt_wf_map_values [simp]: "bt_wf (bt_map_values f m) \<longleftrightarrow> bt_wf m"
  by (simp add: bt_wf_def)

lemma bt_wf_get: "bt_wf m \<Longrightarrow> (k, v) \<in> set m \<longleftrightarrow> map_of m k = Some v"
  using bt_wf_distinct by (metis map_of_SomeD map_of_is_SomeI)

lemma bt_remove_absent: "k \<notin> fst ` set m \<Longrightarrow> bt_remove k m = m"
  by (induction m) (auto simp: bt_remove_def)

lemma bt_modify_absent: "k \<notin> fst ` set m \<Longrightarrow> bt_modify k f m = m"
  by (induction m) (auto simp: bt_modify_def)

lemma length_insert: "bt_wf m \<Longrightarrow>
  length (bt_insert k v m) = (if bt_contains k m then length m else Suc (length m))"
proof (induction m)
  case Nil
  then show ?case by (simp add: bt_contains_def)
next
  case (Cons p m)
  obtain k' v' where p: "p = (k', v')" by (cases p)
  from Cons p show ?case
    by (auto simp: bt_wf_Cons bt_contains_iff)
qed

lemma length_remove: "bt_wf m \<Longrightarrow>
  length (bt_remove k m) = (if bt_contains k m then length m - 1 else length m)"
proof (induction m)
  case Nil
  then show ?case by (simp add: bt_contains_def bt_remove_def)
next
  case (Cons p m)
  obtain k' v' where p: "p = (k', v')" by (cases p)
  from Cons.prems p have wf: "bt_wf m" and lt: "\<forall>x \<in> fst ` set m. k' < x"
    by (simp_all add: bt_wf_Cons)
  show ?case
  proof (cases "k = k'")
    case True
    then have "k \<notin> fst ` set m" using lt by auto
    with True p show ?thesis
      using bt_remove_absent by (fastforce simp: bt_remove_def bt_contains_def)
  next
    case False
    have "bt_contains k m \<Longrightarrow> m \<noteq> []" by (auto simp: bt_contains_def)
    with False p Cons.IH [OF wf] show ?thesis
      by (cases m) (auto simp: bt_remove_def bt_contains_def)
  qed
qed

lemma length_remove_contained:
  "bt_wf m \<Longrightarrow> map_of m k = Some v \<Longrightarrow> Suc (length (bt_remove k m)) = length m"
  by (cases m) (auto simp: length_remove bt_contains_def)

lemma bt_modify_const: "bt_wf m \<Longrightarrow> map_of m k = Some v \<Longrightarrow> bt_modify k f m = bt_modify k (\<lambda>_. f v) m"
proof -
  assume a: "bt_wf m" "map_of m k = Some v"
  have "snd p = v" if "p \<in> set m" "fst p = k" for p
    using a that bt_wf_get [OF a(1), of k "snd p"] by (cases p) auto
  then show ?thesis by (auto simp: bt_modify_def)
qed

lemma set_modify_values: "snd ` set (bt_modify k f m) \<subseteq> snd ` set m \<union> f ` snd ` {p \<in> set m. fst p = k}"
proof
  fix v
  assume "v \<in> snd ` set (bt_modify k f m)"
  then obtain p where p: "p \<in> set m" "v = snd (if fst p = k then (fst p, f (snd p)) else p)"
    by (auto simp: bt_modify_def)
  then show "v \<in> snd ` set m \<union> f ` snd ` {p \<in> set m. fst p = k}" by (cases "fst p = k") auto
qed

lemma set_insert_values: "snd ` set (bt_insert k v m) \<subseteq> insert v (snd ` set m)"
  by (induction k v m rule: bt_insert.induct) auto

lemma bt_insert_modify: "bt_wf m \<Longrightarrow> map_of m k = Some u \<Longrightarrow> bt_insert k v m = bt_modify k (\<lambda>_. v) m"
proof (induction k v m rule: bt_insert.induct)
  case (2 k v k' v' m)
  have "\<not> k < k'" if "k \<noteq> k'"
  proof -
    have "k \<in> fst ` set m" using "2.prems"(2) that by (force dest: map_of_SomeD)
    then show ?thesis using "2.prems"(1) by (auto simp: bt_wf_Cons)
  qed
  with 2 show ?case
    by (auto simp: bt_modify_def bt_wf_Cons intro!: map_idI [symmetric])
qed simp

lemma bt_modify_id: "bt_wf m \<Longrightarrow> map_of m k = Some v \<Longrightarrow> bt_modify k (\<lambda>_. v) m = m"
  using bt_wf_get [of m k] by (auto simp: bt_modify_def intro!: map_idI)

lemma bt_insert_same: "bt_wf m \<Longrightarrow> map_of m k = Some v \<Longrightarrow> bt_insert k v m = m"
  by (simp add: bt_insert_modify bt_modify_id)

lemma bt_insert_nonempty [simp]: "bt_insert k v m \<noteq> []"
  by (induction k v m rule: bt_insert.induct) auto

lemma bt_insert_twice: "bt_insert k v (bt_insert k u m) = bt_insert k v m"
  by (induction k u m rule: bt_insert.induct) auto

section \<open>Totals over values\<close>

text \<open>
  \<open>bt_sum\<close> totals a measure of the stored values; \<open>bt_count\<close> counts the entries with a
  property. Both move by exactly one entry under insertion, removal and modification.
\<close>

definition bt_sum :: "('v \<Rightarrow> nat) \<Rightarrow> ('k, 'v) btree \<Rightarrow> nat" where
  "bt_sum f m = sum_list (map (f \<circ> snd) m)"

definition bt_count :: "('v \<Rightarrow> bool) \<Rightarrow> ('k, 'v) btree \<Rightarrow> nat" where
  "bt_count P m = length (filter (P \<circ> snd) m)"

lemma bt_sum_Nil [simp]: "bt_sum f [] = 0"
  by (simp add: bt_sum_def)

lemma bt_sum_Cons [simp]: "bt_sum f ((k, v) # m) = f v + bt_sum f m"
  by (simp add: bt_sum_def)

lemma bt_sum_insert: "\<not> bt_contains k m \<Longrightarrow> bt_sum f (bt_insert k v m) = f v + bt_sum f m"
  by (induction m) (auto simp: bt_contains_def split: if_splits)

lemma bt_sum_remove: "bt_wf m \<Longrightarrow> map_of m k = Some v \<Longrightarrow>
  bt_sum f m = f v + bt_sum f (bt_remove k m)"
proof (induction m)
  case Nil
  then show ?case by simp
next
  case (Cons p m)
  obtain k' v' where p: "p = (k', v')" by (cases p)
  from Cons.prems p have wf: "bt_wf m" and lt: "\<forall>x \<in> fst ` set m. k' < x"
    by (simp_all add: bt_wf_Cons)
  show ?case
  proof (cases "k = k'")
    case True
    then have "bt_remove k m = m" using lt by (intro bt_remove_absent) auto
    with True p Cons.prems show ?thesis by (simp add: bt_remove_def)
  next
    case False
    with p Cons.prems Cons.IH [OF wf] show ?thesis by (simp add: bt_remove_def)
  qed
qed

lemma bt_sum_modify: "bt_wf m \<Longrightarrow> map_of m k = Some v \<Longrightarrow>
  bt_sum f (bt_modify k g m) + f v = bt_sum f m + f (g v)"
proof (induction m)
  case Nil
  then show ?case by simp
next
  case (Cons p m)
  obtain k' v' where p: "p = (k', v')" by (cases p)
  from Cons.prems p have wf: "bt_wf m" and lt: "\<forall>x \<in> fst ` set m. k' < x"
    by (simp_all add: bt_wf_Cons)
  show ?case
  proof (cases "k = k'")
    case True
    then have "bt_modify k g m = m" using lt by (intro bt_modify_absent) auto
    with True p Cons.prems show ?thesis by (simp add: bt_modify_def)
  next
    case False
    with p Cons.prems Cons.IH [OF wf] show ?thesis by (simp add: bt_modify_def)
  qed
qed

lemma bt_sum_ge: "map_of m k = Some v \<Longrightarrow> f v \<le> bt_sum f m"
  by (induction m) (auto split: if_splits)

lemma bt_sum_modify_same: "(\<And>v. f (g v) = f v) \<Longrightarrow> bt_sum f (bt_modify k g m) = bt_sum f m"
  by (induction m) (auto simp: bt_modify_def)

lemma bt_sum_modify_absent: "map_of m k = None \<Longrightarrow> bt_sum f (bt_modify k g m) = bt_sum f m"
  by (simp add: bt_modify_absent map_of_eq_None_iff)

lemma bt_count_as_sum: "bt_count P m = bt_sum (\<lambda>v. if P v then 1 else 0) m"
  by (induction m) (auto simp: bt_count_def)

lemma bt_count_insert: "\<not> bt_contains k m \<Longrightarrow> bt_count P (bt_insert k v m) = (if P v then 1 else 0) + bt_count P m"
  by (simp add: bt_count_as_sum bt_sum_insert)

lemma bt_count_remove: "bt_wf m \<Longrightarrow> map_of m k = Some v \<Longrightarrow>
  bt_count P m = (if P v then 1 else 0) + bt_count P (bt_remove k m)"
  unfolding bt_count_as_sum by (rule bt_sum_remove)

lemma bt_wf_filter: "bt_wf m \<Longrightarrow> bt_wf (filter Q m)"
  by (induction m) (auto simp: bt_wf_Cons)

lemma bt_count_filter: "bt_count P (filter Q m) \<le> bt_count P m"
proof -
  have "filter (P \<circ> snd) (filter Q m) = filter Q (filter (P \<circ> snd) m)"
    by (simp add: conj_commute)
  then show ?thesis by (simp add: bt_count_def del: filter_filter)
qed

lemma get_filter:
  assumes "bt_wf m"
  shows "map_of (filter Q m) k = Some v \<longleftrightarrow> map_of m k = Some v \<and> Q (k, v)"
  unfolding bt_wf_get [OF assms, symmetric] bt_wf_get [OF bt_wf_filter [OF assms], symmetric] by auto

lemma get_filter_None: "map_of m k = None \<Longrightarrow> map_of (filter Q m) k = None"
  by (auto simp: map_of_eq_None_iff)

lemma bt_sum_values: "sum_list (map f (bt_values m)) = bt_sum f m"
  by (simp add: bt_sum_def bt_values_def)

lemma bt_sum_zero: "(\<And>v. f v = 0) \<Longrightarrow> bt_sum f m = 0"
  by (induction m) auto

lemma bt_values_in: "v \<in> set (bt_values m) \<Longrightarrow> \<exists>k. (k, v) \<in> set m"
  by (auto simp: bt_values_def)

section \<open>The finite map contract\<close>

locale finite_map =
  fixes empty :: "'m"
    and insert :: "'k \<Rightarrow> 'v \<Rightarrow> 'm \<Rightarrow> 'm"
    and remove :: "'k \<Rightarrow> 'm \<Rightarrow> 'm"
    and get :: "'m \<Rightarrow> 'k \<Rightarrow> 'v option"
    and size_of :: "'m \<Rightarrow> nat"
    and wf :: "'m \<Rightarrow> bool"
  assumes get_empty: "get empty k = None"
    and insert_get: "wf m \<Longrightarrow> get (insert k v m) k' = (if k' = k then Some v else get m k')"
    and remove_get: "wf m \<Longrightarrow> get (remove k m) k' = (if k' = k then None else get m k')"
    and wf_empty: "wf empty"
    and wf_insert: "wf m \<Longrightarrow> wf (insert k v m)"
    and wf_remove: "wf m \<Longrightarrow> wf (remove k m)"
    and size_empty: "size_of empty = 0"
    and size_insert: "wf m \<Longrightarrow> get m k = None \<Longrightarrow> size_of (insert k v m) = Suc (size_of m)"
    and size_remove: "wf m \<Longrightarrow> get m k = Some v \<Longrightarrow> Suc (size_of (remove k m)) = size_of m"
begin

text \<open>Taking an entry out and putting another one in keeps the size.\<close>

lemma replace_size:
  assumes "wf m" "get m k = Some v" "get m k' = None"
  shows "size_of (insert k' v' (remove k m)) = size_of m"
proof -
  have "get (remove k m) k' = None" using assms by (simp add: remove_get)
  with assms show ?thesis
    using size_insert [OF wf_remove] size_remove by metis
qed

text \<open>An entry that was taken out is no longer found.\<close>

lemma take_once: "wf m \<Longrightarrow> get (remove k m) k = None"
  by (simp add: remove_get)

text \<open>Insertion followed by removal restores every lookup.\<close>

lemma insert_remove: "wf m \<Longrightarrow> get m k = None \<Longrightarrow> get (remove k (insert k v m)) k' = get m k'"
  by (simp add: remove_get insert_get wf_insert)

end

interpretation btree: finite_map "[] :: ('k::linorder, 'v) btree" bt_insert bt_remove map_of length bt_wf
  by unfold_locales
    (auto simp: bt_wf_insert bt_wf_remove length_insert bt_contains_def length_remove_contained)

end
