(* ===== verification/Memory_Policy.thy ===== *)
theory Memory_Policy
  imports BTree_Map
begin

text \<open>
  Pressure policy of the memory manager (\<open>src/src/runtime_control/memory.rs\<close>): tiers,
  pressure levels, thresholds with hysteresis, utilisation in basis points, and the
  validation of the manager's configuration. Message texts of errors are constructors,
  one per text.
\<close>

section \<open>Tiers, levels and errors\<close>

datatype memory_tier = Host | Accelerator nat
datatype memory_topology = Discrete | Unified
datatype pressure_level = Normal | Soft | Hard | Emergency

fun tier_rank :: "memory_tier \<Rightarrow> nat" where
  "tier_rank Host = 0"
| "tier_rank (Accelerator i) = Suc i"

fun level_rank :: "pressure_level \<Rightarrow> nat" where
  "level_rank Normal = 0"
| "level_rank Soft = 1"
| "level_rank Hard = 2"
| "level_rank Emergency = 3"

lemma tier_rank_inject [simp]: "tier_rank s = tier_rank t \<longleftrightarrow> s = t"
  by (cases s; cases t) auto

lemma level_rank_inject [simp]: "level_rank s = level_rank t \<longleftrightarrow> s = t"
  by (cases s; cases t) auto

instantiation memory_tier :: linorder
begin

definition less_eq_memory_tier :: "memory_tier \<Rightarrow> memory_tier \<Rightarrow> bool" where
  "less_eq_memory_tier s t \<longleftrightarrow> tier_rank s \<le> tier_rank t"

definition less_memory_tier :: "memory_tier \<Rightarrow> memory_tier \<Rightarrow> bool" where
  "less_memory_tier s t \<longleftrightarrow> tier_rank s < tier_rank t"

instance
  by standard (auto simp: less_eq_memory_tier_def less_memory_tier_def dest: order_antisym)

end

instantiation pressure_level :: linorder
begin

definition less_eq_pressure_level :: "pressure_level \<Rightarrow> pressure_level \<Rightarrow> bool" where
  "less_eq_pressure_level s t \<longleftrightarrow> level_rank s \<le> level_rank t"

definition less_pressure_level :: "pressure_level \<Rightarrow> pressure_level \<Rightarrow> bool" where
  "less_pressure_level s t \<longleftrightarrow> level_rank s < level_rank t"

instance
  by standard (auto simp: less_eq_pressure_level_def less_pressure_level_def dest: order_antisym)

end

lemmas tier_order = less_eq_memory_tier_def less_memory_tier_def
lemmas level_order = less_eq_pressure_level_def less_pressure_level_def

datatype limit_kind = ManagedAllocationLimit | ActiveReservationLimit | PressureActionLimit

datatype config_fault =
    ThresholdOrder
  | HysteresisTooWide
  | TierCountOutOfRange
  | TierBudgetZero memory_tier
  | TierBudgetDuplicated memory_tier
  | HostTierMissing
  | CooldownTooLong
  | LimitOutOfRange limit_kind

datatype telemetry_fault =
    TelemetryCountOutOfRange
  | ZeroTotalBytes memory_tier
  | AvailableExceedsTotal memory_tier
  | TierReportedTwice memory_tier
  | TierNotReported memory_tier
  | TelemetrySourceFailed

datatype allocation_fault = AllocationIdZero | BadDemotionTarget

datatype denial =
    BudgetExceeded
  | AvailableInsufficient
  | ProjectedPressure
  | UnifiedPressure
  | DemotionTargetChanged

datatype reservation_fault =
    AlreadyOnTier nat memory_tier
  | PendingPromotion nat
  | NotHostToAccelerator
  | ZeroReservation
  | PromotionCannotLoad
  | LoadCannotPromote
  | NoLongerReserved nat
  | ChangedWhileReserved nat

datatype memory_error =
    InvalidConfiguration config_fault
  | InvalidTelemetry telemetry_fault
  | InvalidAllocation allocation_fault
  | UnknownTier memory_tier
  | UnknownAllocation nat
  | DuplicateAllocation nat
  | AllocationLimitReached nat
  | ReservationLimitReached nat
  | ReservationDenied memory_tier nat denial
  | InvalidReservation reservation_fault
  | ActionInFlight nat
  | StaleAction nat
  | PinnedAllocation nat

section \<open>Thresholds\<close>

definition BASIS_POINTS :: nat where "BASIS_POINTS = 10000"

record pressure_thresholds =
  soft_basis_points :: nat
  hard_basis_points :: nat
  emergency_basis_points :: nat
  hysteresis_basis_points :: nat

definition thresholds_new :: "nat \<Rightarrow> nat \<Rightarrow> nat \<Rightarrow> nat \<Rightarrow> (memory_error, pressure_thresholds) res" where
  "thresholds_new soft hard emergency hysteresis =
     (if soft = 0 \<or> soft \<ge> hard \<or> hard \<ge> emergency \<or> emergency > BASIS_POINTS
      then Err (InvalidConfiguration ThresholdOrder)
      else if hysteresis \<ge> soft \<or> hysteresis \<ge> hard - soft \<or> hysteresis \<ge> emergency - hard
      then Err (InvalidConfiguration HysteresisTooWide)
      else Ok \<lparr>soft_basis_points = soft, hard_basis_points = hard,
               emergency_basis_points = emergency, hysteresis_basis_points = hysteresis\<rparr>)"

definition default_thresholds :: pressure_thresholds where
  "default_thresholds = \<lparr>soft_basis_points = 7500, hard_basis_points = 8500,
     emergency_basis_points = 9500, hysteresis_basis_points = 500\<rparr>"

definition classify :: "pressure_thresholds \<Rightarrow> nat \<Rightarrow> pressure_level" where
  "classify t u =
     (if u \<ge> emergency_basis_points t then Emergency
      else if u \<ge> hard_basis_points t then Hard
      else if u \<ge> soft_basis_points t then Soft
      else Normal)"

text \<open>
  The loop over the three levels returns the first one, from the top, that the previous
  level had reached and the utilisation has not left by more than the hysteresis.
\<close>

definition classify_with_hysteresis ::
  "pressure_thresholds \<Rightarrow> pressure_level \<Rightarrow> nat \<Rightarrow> pressure_level" where
  "classify_with_hysteresis t previous u =
     (let candidate = classify t u
      in if candidate \<ge> previous then candidate
         else (case find (\<lambda>(level, entry). previous \<ge> level \<and> u \<ge> entry - hysteresis_basis_points t)
                   [(Emergency, emergency_basis_points t), (Hard, hard_basis_points t),
                    (Soft, soft_basis_points t)] of
                 Some (level, _) \<Rightarrow> level
               | None \<Rightarrow> candidate))"

fun action_target_basis_points :: "pressure_thresholds \<Rightarrow> pressure_level \<Rightarrow> nat option" where
  "action_target_basis_points t Normal = None"
| "action_target_basis_points t Soft = None"
| "action_target_basis_points t Hard = Some (soft_basis_points t - hysteresis_basis_points t)"
| "action_target_basis_points t Emergency = Some (hard_basis_points t - hysteresis_basis_points t)"

definition utilization_basis_points :: "nat \<Rightarrow> nat \<Rightarrow> nat" where
  "utilization_basis_points used budget =
     (if budget = 0 then u32_max else min (used * BASIS_POINTS div budget) u32_max)"

section \<open>Configuration\<close>

definition MAX_MEMORY_TIERS :: nat where "MAX_MEMORY_TIERS = 65"
definition MAX_MANAGED_ALLOCATIONS :: nat where "MAX_MANAGED_ALLOCATIONS = 65536"
definition MAX_ACTIVE_RESERVATIONS :: nat where "MAX_ACTIVE_RESERVATIONS = 65536"
definition MAX_ACTIONS_PER_CYCLE :: nat where "MAX_ACTIONS_PER_CYCLE = 4096"
definition MAX_ACTION_COOLDOWN_MILLIS :: nat where
  "MAX_ACTION_COOLDOWN_MILLIS = 24 * 60 * 60 * 1000"

record tier_budget =
  tb_tier :: memory_tier
  tb_bytes :: nat

definition tier_budget_new :: "memory_tier \<Rightarrow> nat \<Rightarrow> (memory_error, tier_budget) res" where
  "tier_budget_new t b =
     (if b = 0 then Err (InvalidConfiguration (TierBudgetZero t))
      else Ok \<lparr>tb_tier = t, tb_bytes = b\<rparr>)"

record manager_config =
  cfg_budgets :: "tier_budget list"
  cfg_topology :: memory_topology
  cfg_thresholds :: pressure_thresholds
  cfg_action_cooldown_millis :: nat
  cfg_max_allocations :: nat
  cfg_max_reservations :: nat
  cfg_max_actions_per_cycle :: nat

definition validate_limit :: "limit_kind \<Rightarrow> nat \<Rightarrow> nat \<Rightarrow> (memory_error, unit) res" where
  "validate_limit label value maximum =
     (if value = 0 \<or> value > maximum then Err (InvalidConfiguration (LimitOutOfRange label))
      else Ok ())"

fun check_budgets :: "memory_tier set \<Rightarrow> tier_budget list \<Rightarrow> (memory_error, memory_tier set) res" where
  "check_budgets tiers [] = Ok tiers"
| "check_budgets tiers (b # bs) =
     (if tb_bytes b = 0 then Err (InvalidConfiguration (TierBudgetZero (tb_tier b)))
      else if tb_tier b \<in> tiers then Err (InvalidConfiguration (TierBudgetDuplicated (tb_tier b)))
      else check_budgets (insert (tb_tier b) tiers) bs)"

definition config_new ::
  "tier_budget list \<Rightarrow> memory_topology \<Rightarrow> pressure_thresholds \<Rightarrow> nat \<Rightarrow> nat \<Rightarrow> nat \<Rightarrow> nat
     \<Rightarrow> (memory_error, manager_config) res" where
  "config_new budgets topology thresholds cooldown max_alloc max_res max_act =
     (if budgets = [] \<or> length budgets > MAX_MEMORY_TIERS
      then Err (InvalidConfiguration TierCountOutOfRange)
      else res_bind (check_budgets {} budgets) (\<lambda>tiers.
        if Host \<notin> tiers then Err (InvalidConfiguration HostTierMissing)
        else if cooldown > MAX_ACTION_COOLDOWN_MILLIS then Err (InvalidConfiguration CooldownTooLong)
        else res_bind (validate_limit ManagedAllocationLimit max_alloc MAX_MANAGED_ALLOCATIONS) (\<lambda>_.
             res_bind (validate_limit ActiveReservationLimit max_res MAX_ACTIVE_RESERVATIONS) (\<lambda>_.
             res_bind (validate_limit PressureActionLimit max_act MAX_ACTIONS_PER_CYCLE) (\<lambda>_.
             Ok \<lparr>cfg_budgets = budgets, cfg_topology = topology, cfg_thresholds = thresholds,
                 cfg_action_cooldown_millis = cooldown, cfg_max_allocations = max_alloc,
                 cfg_max_reservations = max_res, cfg_max_actions_per_cycle = max_act\<rparr>)))))"

section \<open>What valid thresholds guarantee\<close>

definition valid_thresholds :: "pressure_thresholds \<Rightarrow> bool" where
  "valid_thresholds t \<longleftrightarrow>
     0 < soft_basis_points t \<and> soft_basis_points t < hard_basis_points t \<and>
     hard_basis_points t < emergency_basis_points t \<and> emergency_basis_points t \<le> BASIS_POINTS \<and>
     hysteresis_basis_points t < soft_basis_points t \<and>
     hysteresis_basis_points t < hard_basis_points t - soft_basis_points t \<and>
     hysteresis_basis_points t < emergency_basis_points t - hard_basis_points t"

fun level_entry :: "pressure_thresholds \<Rightarrow> pressure_level \<Rightarrow> nat" where
  "level_entry t Normal = 0"
| "level_entry t Soft = soft_basis_points t"
| "level_entry t Hard = hard_basis_points t"
| "level_entry t Emergency = emergency_basis_points t"

lemma thresholds_new_valid: "thresholds_new s h e y = Ok t \<Longrightarrow> valid_thresholds t"
  by (auto simp: thresholds_new_def valid_thresholds_def split: if_splits)

lemma default_thresholds_valid: "valid_thresholds default_thresholds"
  by (simp add: default_thresholds_def valid_thresholds_def BASIS_POINTS_def)

lemma classify_ge_iff:
  assumes "valid_thresholds t" "l \<noteq> Normal"
  shows "classify t u \<ge> l \<longleftrightarrow> u \<ge> level_entry t l"
  using assms by (cases l) (auto simp: classify_def valid_thresholds_def level_order)

lemma classify_hard: "valid_thresholds t \<Longrightarrow> \<not> classify t u \<ge> Hard \<longleftrightarrow> u < hard_basis_points t"
  using classify_ge_iff [of t Hard u] by auto

lemma classify_mono: "valid_thresholds t \<Longrightarrow> u \<le> v \<Longrightarrow> classify t u \<le> classify t v"
  by (auto simp: classify_def valid_thresholds_def level_order)

lemma hysteresis_cases:
  assumes "valid_thresholds t"
  shows "classify_with_hysteresis t p u =
    (if p = Emergency \<and> u \<ge> emergency_basis_points t - hysteresis_basis_points t then Emergency
     else if p \<ge> Hard \<and> u \<ge> hard_basis_points t - hysteresis_basis_points t
       then max Hard (classify t u)
     else if p \<ge> Soft \<and> u \<ge> soft_basis_points t - hysteresis_basis_points t
       then max Soft (classify t u)
     else classify t u)"
  using assms
  by (cases p) (auto simp: classify_with_hysteresis_def classify_def valid_thresholds_def
      level_order max_def Let_def)

lemma hysteresis_ge_candidate:
  "valid_thresholds t \<Longrightarrow> classify t u \<le> classify_with_hysteresis t p u"
  by (auto simp: hysteresis_cases classify_def valid_thresholds_def level_order max_def)

lemma utilization_lt_iff:
  assumes "0 < budget" "b \<le> u32_max"
  shows "utilization_basis_points used budget < b \<longleftrightarrow> used * BASIS_POINTS < b * budget"
  using assms by (auto simp: utilization_basis_points_def div_less_iff_less_mult min_less_iff_disj)

lemma utilization_zero_budget [simp]: "utilization_basis_points used 0 = u32_max"
  by (simp add: utilization_basis_points_def)

text \<open>
  An admitted utilisation stays below the budget: below the hard threshold means used
  bytes are strictly below the budget.
\<close>

lemma not_hard_below_budget:
  assumes v: "valid_thresholds t"
    and h: "\<not> classify t (utilization_basis_points used budget) \<ge> Hard"
  shows "used < budget"
proof -
  have lt: "utilization_basis_points used budget < hard_basis_points t"
    using classify_hard [OF v] h by simp
  have b: "hard_basis_points t \<le> BASIS_POINTS" "BASIS_POINTS \<le> u32_max"
    using v by (auto simp: valid_thresholds_def BASIS_POINTS_def u32_max_def)
  have pos: "0 < budget" using lt b by (cases budget) auto
  have "used * BASIS_POINTS < hard_basis_points t * budget"
    using lt utilization_lt_iff [OF pos] b by simp
  also have "\<dots> \<le> BASIS_POINTS * budget" using b by simp
  finally show ?thesis by (simp add: BASIS_POINTS_def)
qed

lemma check_budgets_Ok:
  "check_budgets T bs = Ok T' \<longleftrightarrow>
     (\<forall>b \<in> set bs. 0 < tb_bytes b \<and> tb_tier b \<notin> T) \<and> distinct (map tb_tier bs) \<and>
     T' = T \<union> tb_tier ` set bs"
  by (induction bs arbitrary: T) (auto simp: image_iff)

definition valid_config :: "manager_config \<Rightarrow> bool" where
  "valid_config c \<longleftrightarrow>
     valid_thresholds (cfg_thresholds c) \<and>
     length (cfg_budgets c) \<le> MAX_MEMORY_TIERS \<and>
     (\<forall>b \<in> set (cfg_budgets c). 0 < tb_bytes b \<and> tb_bytes b \<le> u64_max) \<and>
     distinct (map tb_tier (cfg_budgets c)) \<and> Host \<in> tb_tier ` set (cfg_budgets c) \<and>
     cfg_action_cooldown_millis c \<le> MAX_ACTION_COOLDOWN_MILLIS \<and>
     0 < cfg_max_allocations c \<and> cfg_max_allocations c \<le> MAX_MANAGED_ALLOCATIONS \<and>
     0 < cfg_max_reservations c \<and> cfg_max_reservations c \<le> MAX_ACTIVE_RESERVATIONS \<and>
     0 < cfg_max_actions_per_cycle c \<and> cfg_max_actions_per_cycle c \<le> MAX_ACTIONS_PER_CYCLE"

lemma validate_limit_Ok: "validate_limit l v m = Ok u \<longleftrightarrow> 0 < v \<and> v \<le> m"
  by (auto simp: validate_limit_def)

lemma config_new_valid:
  assumes "config_new bs tp th cd ma mr mc = Ok c" "valid_thresholds th"
    and "\<forall>b \<in> set bs. tb_bytes b \<le> u64_max"
  shows "valid_config c"
  using assms
  by (auto simp: config_new_def valid_config_def res_bind_Ok check_budgets_Ok validate_limit_Ok
      split: if_splits)

end
