(* ===== verification/Memory_State.thy ===== *)
theory Memory_State
  imports Memory_Policy
begin

text \<open>
  State of the memory manager (\<open>src/src/runtime_control/memory.rs\<close>): tier accounts and
  managed allocations, telemetry validation, the refresh that stores observations and
  reclassifies pressure, effective accounting, snapshots and the admission predicate
  \<open>can_accept_bytes\<close>. \<open>None\<close> and \<open>Panic\<close> stand for a failed \<open>expect\<close>.
\<close>

section \<open>Records\<close>

record memory_observation =
  obs_tier :: memory_tier
  obs_total_bytes :: nat
  obs_available_bytes :: nat

record managed_allocation =
  alloc_id :: nat
  alloc_tier :: memory_tier
  alloc_bytes :: nat
  alloc_pinned :: bool
  alloc_demotion_target :: "memory_tier option"
  alloc_last_used_millis :: nat

record tier_account =
  acct_budget_bytes :: nat
  acct_managed_used_bytes :: nat
  acct_reserved_bytes :: nat
  acct_active_reservations :: nat
  acct_pressure :: pressure_level
  acct_last_action_millis :: "nat option"
  acct_observation :: "memory_observation option"

type_synonym accounts = "(memory_tier, tier_account) btree"

record manager_state =
  st_tiers :: accounts
  st_allocations :: "(nat, managed_allocation) btree"
  st_pending_loads :: "nat set"
  st_pending_promotions :: "nat set"
  st_pending_actions :: "nat set"
  st_active_reservations :: nat
  st_last_action_unix_millis :: "nat option"
  st_completed_demotions :: nat
  st_completed_evictions :: nat
  st_failed_releases :: nat
  st_orphaned_release_bytes :: nat

definition allocation_id_new :: "nat \<Rightarrow> (memory_error, nat) res" where
  "allocation_id_new v = (if v = 0 then Err (InvalidAllocation AllocationIdZero) else Ok v)"

definition new_account :: "tier_budget \<Rightarrow> tier_account" where
  "new_account b = \<lparr>acct_budget_bytes = tb_bytes b, acct_managed_used_bytes = 0,
     acct_reserved_bytes = 0, acct_active_reservations = 0, acct_pressure = Normal,
     acct_last_action_millis = None, acct_observation = None\<rparr>"

definition manager_new :: "manager_config \<Rightarrow> manager_state" where
  "manager_new c =
     \<lparr>st_tiers = foldl (\<lambda>m b. bt_insert (tb_tier b) (new_account b) m) [] (cfg_budgets c),
      st_allocations = [], st_pending_loads = {}, st_pending_promotions = {},
      st_pending_actions = {}, st_active_reservations = 0, st_last_action_unix_millis = None,
      st_completed_demotions = 0, st_completed_evictions = 0, st_failed_releases = 0,
      st_orphaned_release_bytes = 0\<rparr>"

section \<open>Telemetry\<close>

type_synonym observations = "(memory_tier, memory_observation) btree"

fun insert_samples :: "observations \<Rightarrow> memory_observation list \<Rightarrow> (memory_error, observations) res"
where
  "insert_samples m [] = Ok m"
| "insert_samples m (s # ss) =
     (if obs_total_bytes s = 0 then Err (InvalidTelemetry (ZeroTotalBytes (obs_tier s)))
      else if obs_available_bytes s > obs_total_bytes s
        then Err (InvalidTelemetry (AvailableExceedsTotal (obs_tier s)))
      else if bt_contains (obs_tier s) m then Err (InvalidTelemetry (TierReportedTwice (obs_tier s)))
      else insert_samples (bt_insert (obs_tier s) s m) ss)"

definition sample_telemetry ::
  "(memory_error, memory_observation list) res \<Rightarrow> manager_state \<Rightarrow> (memory_error, observations) res"
where
  "sample_telemetry observe st =
     res_bind observe (\<lambda>samples.
       if samples = [] \<or> length samples > MAX_MEMORY_TIERS
       then Err (InvalidTelemetry TelemetryCountOutOfRange)
       else res_bind (insert_samples [] samples) (\<lambda>obs.
         case find (\<lambda>t. \<not> bt_contains t obs) (map fst (st_tiers st)) of
           Some t \<Rightarrow> Err (InvalidTelemetry (TierNotReported t))
         | None \<Rightarrow> Ok obs))"

section \<open>Effective accounting\<close>

definition observed_used :: "memory_observation \<Rightarrow> nat" where
  "observed_used ob = obs_total_bytes ob - obs_available_bytes ob"

definition total_managed :: "accounts \<Rightarrow> nat" where
  "total_managed ts = sat_sum (map acct_managed_used_bytes (bt_values ts))"

definition total_reserved :: "accounts \<Rightarrow> nat" where
  "total_reserved ts = sat_sum (map acct_reserved_bytes (bt_values ts))"

definition account_used :: "tier_account \<Rightarrow> memory_observation \<Rightarrow> nat" where
  "account_used a ob = sat_add (max (observed_used ob) (acct_managed_used_bytes a)) (acct_reserved_bytes a)"

definition effective_accounting :: "accounts \<Rightarrow> memory_tier \<Rightarrow> memory_topology \<Rightarrow> (nat \<times> nat) option"
where
  "effective_accounting ts tier topology =
     (if topology = Discrete then
        (case map_of ts tier of
           None \<Rightarrow> None
         | Some a \<Rightarrow> (case acct_observation a of
             None \<Rightarrow> None
           | Some ob \<Rightarrow> Some (min (acct_budget_bytes a) (obs_total_bytes ob), account_used a ob)))
      else
        (case those (map acct_observation (bt_values ts)) of
           None \<Rightarrow> None
         | Some obs \<Rightarrow>
             Some (min_or 0 (map2 (\<lambda>a ob. min (acct_budget_bytes a) (obs_total_bytes ob)) (bt_values ts) obs),
                   sat_add (max (max_or 0 (map observed_used obs)) (total_managed ts))
                           (total_reserved ts))))"

section \<open>Refresh\<close>

text \<open>
  Storing the observations walks the tiers in order; a tier without an observation is a
  failed \<open>expect\<close>, with the tiers before it already updated.
\<close>

fun store_observations :: "observations \<Rightarrow> accounts \<Rightarrow> bool \<times> accounts" where
  "store_observations obs [] = (True, [])"
| "store_observations obs ((t, a) # ts) =
     (case map_of obs t of
        None \<Rightarrow> (False, (t, a) # ts)
      | Some ob \<Rightarrow> (let (ok, ts') = store_observations obs ts
                    in (ok, (t, a\<lparr>acct_observation := Some ob\<rparr>) # ts')))"

definition refresh_account :: "pressure_thresholds \<Rightarrow> tier_account \<Rightarrow> memory_observation \<Rightarrow> tier_account"
where
  "refresh_account th a ob =
     (let utilization = utilization_basis_points (account_used a ob)
                          (min (acct_budget_bytes a) (obs_total_bytes ob))
      in a\<lparr>acct_pressure := classify_with_hysteresis th (acct_pressure a) utilization,
           acct_observation := Some ob\<rparr>)"

fun refresh_discrete :: "observations \<Rightarrow> pressure_thresholds \<Rightarrow> accounts \<Rightarrow> bool \<times> accounts" where
  "refresh_discrete obs th [] = (True, [])"
| "refresh_discrete obs th ((t, a) # ts) =
     (case map_of obs t of
        None \<Rightarrow> (False, (t, a) # ts)
      | Some ob \<Rightarrow> (let (ok, ts') = refresh_discrete obs th ts
                    in (ok, (t, refresh_account th a ob) # ts')))"

definition refresh_unified :: "observations \<Rightarrow> pressure_thresholds \<Rightarrow> accounts \<Rightarrow> bool \<times> accounts" where
  "refresh_unified obs th ts =
     (let (ok, ts') = store_observations obs ts
      in if \<not> ok then (False, ts')
         else let previous = max_or Normal (map acct_pressure (bt_values ts'))
              in case effective_accounting ts' Host Unified of
                   None \<Rightarrow> (False, ts')
                 | Some (budget, used) \<Rightarrow>
                     let pressure = classify_with_hysteresis th previous
                                      (utilization_basis_points used budget)
                     in (True, bt_map_values (\<lambda>a. a\<lparr>acct_pressure := pressure\<rparr>) ts'))"

definition refresh_accounts ::
  "manager_state \<Rightarrow> observations \<Rightarrow> memory_topology \<Rightarrow> pressure_thresholds \<Rightarrow> bool \<times> manager_state"
where
  "refresh_accounts st obs topology th =
     (let (ok, ts') = (if topology = Unified then refresh_unified obs th (st_tiers st)
                       else refresh_discrete obs th (st_tiers st))
      in (ok, st\<lparr>st_tiers := ts'\<rparr>))"

text \<open>
  The prologue of every admission operation: sample the telemetry, take the lock,
  refresh the accounts, then continue.
\<close>

definition with_refresh ::
  "manager_config \<Rightarrow> (memory_error, memory_observation list) res \<Rightarrow> manager_state \<Rightarrow>
     (manager_state \<Rightarrow> (memory_error, 'a) res \<times> manager_state) \<Rightarrow> (memory_error, 'a) res \<times> manager_state"
where
  "with_refresh c observe st k =
     (case sample_telemetry observe st of
        Err e \<Rightarrow> (Err e, st)
      | Panic \<Rightarrow> (Panic, st)
      | Ok obs \<Rightarrow>
          (let (ok, st') = refresh_accounts st obs (cfg_topology c) (cfg_thresholds c)
           in if ok then k st' else (Panic, st')))"

section \<open>Snapshots\<close>

record tier_memory_snapshot =
  snap_tier :: memory_tier
  snap_total_bytes :: nat
  snap_available_bytes :: nat
  snap_observed_used_bytes :: nat
  snap_managed_used_bytes :: nat
  snap_reserved_bytes :: nat
  snap_budget_bytes :: nat
  snap_managed_available_bytes :: nat
  snap_active_reservations :: nat
  snap_managed_allocations :: nat
  snap_pressure :: pressure_level

record memory_snapshot =
  ms_observed_at_unix_millis :: nat
  ms_topology :: memory_topology
  ms_tiers :: "tier_memory_snapshot list"
  ms_last_action_unix_millis :: "nat option"
  ms_completed_demotions :: nat
  ms_completed_evictions :: nat
  ms_failed_releases :: nat
  ms_orphaned_release_bytes :: nat
  ms_actions_in_flight :: nat

definition allocations_on :: "manager_state \<Rightarrow> memory_tier \<Rightarrow> nat" where
  "allocations_on st t = length (filter (\<lambda>a. alloc_tier a = t) (bt_values (st_allocations st)))"

definition account_available :: "tier_account \<Rightarrow> nat" where
  "account_available a = acct_budget_bytes a - acct_managed_used_bytes a - acct_reserved_bytes a"

definition memory_snapshot_of :: "manager_state \<Rightarrow> nat \<Rightarrow> memory_topology \<Rightarrow>
  tier_memory_snapshot list \<Rightarrow> memory_snapshot" where
  "memory_snapshot_of st observed_at topology tiers =
     \<lparr>ms_observed_at_unix_millis = observed_at, ms_topology = topology, ms_tiers = tiers,
      ms_last_action_unix_millis = st_last_action_unix_millis st,
      ms_completed_demotions = st_completed_demotions st,
      ms_completed_evictions = st_completed_evictions st,
      ms_failed_releases = st_failed_releases st,
      ms_orphaned_release_bytes = st_orphaned_release_bytes st,
      ms_actions_in_flight = card (st_pending_actions st)\<rparr>"

definition tier_snapshot ::
  "manager_state \<Rightarrow> memory_tier \<Rightarrow> tier_account \<Rightarrow> nat \<Rightarrow> nat \<Rightarrow> nat \<Rightarrow> nat \<Rightarrow> tier_memory_snapshot"
where
  "tier_snapshot st t a total_b available_b used_b managed_available =
     \<lparr>snap_tier = t, snap_total_bytes = total_b, snap_available_bytes = available_b,
      snap_observed_used_bytes = used_b, snap_managed_used_bytes = acct_managed_used_bytes a,
      snap_reserved_bytes = acct_reserved_bytes a, snap_budget_bytes = acct_budget_bytes a,
      snap_managed_available_bytes = managed_available,
      snap_active_reservations = acct_active_reservations a,
      snap_managed_allocations = allocations_on st t, snap_pressure = acct_pressure a\<rparr>"

definition accounting_snapshot :: "manager_config \<Rightarrow> manager_state \<Rightarrow> nat \<Rightarrow> memory_snapshot" where
  "accounting_snapshot c st unix_now =
     memory_snapshot_of st unix_now (cfg_topology c)
       (map (\<lambda>(t, a). case acct_observation a of
          None \<Rightarrow> tier_snapshot st t a 0 0 0 (account_available a)
        | Some ob \<Rightarrow> tier_snapshot st t a (obs_total_bytes ob) (obs_available_bytes ob)
                       (observed_used ob) (account_available a)) (st_tiers st))"

definition unified_available :: "accounts \<Rightarrow> nat" where
  "unified_available ts =
     min_or 0 (map acct_budget_bytes (bt_values ts)) - total_managed ts - total_reserved ts"

definition snapshot_from_state :: "manager_state \<Rightarrow> nat \<Rightarrow> memory_topology \<Rightarrow> memory_snapshot option"
where
  "snapshot_from_state st observed_at topology =
     map_option (memory_snapshot_of st observed_at topology)
       (those (map (\<lambda>(t, a). map_option (\<lambda>ob.
          tier_snapshot st t a (obs_total_bytes ob) (obs_available_bytes ob) (observed_used ob)
            (if topology = Unified then unified_available (st_tiers st) else account_available a))
          (acct_observation a)) (st_tiers st)))"

definition mm_refresh ::
  "manager_config \<Rightarrow> (memory_error, memory_observation list) res \<Rightarrow> nat \<Rightarrow> manager_state \<Rightarrow>
     (memory_error, memory_snapshot) res \<times> manager_state" where
  "mm_refresh c observe unix_now st =
     with_refresh c observe st (\<lambda>st'.
       case snapshot_from_state st' unix_now (cfg_topology c) of
         None \<Rightarrow> (Panic, st')
       | Some s \<Rightarrow> (Ok s, st'))"

section \<open>The admission predicate\<close>

definition hard_pressure :: "pressure_thresholds \<Rightarrow> nat \<Rightarrow> nat \<Rightarrow> bool" where
  "hard_pressure th used budget \<longleftrightarrow> classify th (utilization_basis_points used budget) \<ge> Hard"

text \<open>
  The unified branch, shared by reservations and by \<open>can_accept_bytes\<close>: \<open>None\<close> when an
  observation is missing, \<open>Some True\<close> when the incoming bytes must be refused.
\<close>

definition unified_refuses :: "accounts \<Rightarrow> memory_tier \<Rightarrow> nat \<Rightarrow> pressure_thresholds \<Rightarrow> bool option" where
  "unified_refuses ts tier incoming th =
     (case (effective_accounting ts tier Unified, those (map acct_observation (bt_values ts))) of
        (Some (shared_budget, shared_used), Some obs) \<Rightarrow>
          Some (sat_add (total_reserved ts) incoming > min_or 0 (map obs_available_bytes obs)
                \<or> hard_pressure th (sat_add shared_used incoming) shared_budget)
      | _ \<Rightarrow> None)"

definition can_accept_bytes ::
  "accounts \<Rightarrow> memory_tier \<Rightarrow> nat \<Rightarrow> nat \<Rightarrow> memory_topology \<Rightarrow> pressure_thresholds \<Rightarrow> bool option"
where
  "can_accept_bytes ts tier bytes additional topology th =
     (case map_of ts tier of
        None \<Rightarrow> Some False
      | Some a \<Rightarrow> (case acct_observation a of
          None \<Rightarrow> Some False
        | Some ob \<Rightarrow>
            (let incoming = sat_add additional bytes
             in if sat_add (sat_add (acct_managed_used_bytes a) (acct_reserved_bytes a)) incoming
                     > acct_budget_bytes a
                   \<or> sat_add (acct_reserved_bytes a) incoming > obs_available_bytes ob
                then Some False
                else if hard_pressure th (sat_add (account_used a ob) incoming)
                          (min (acct_budget_bytes a) (obs_total_bytes ob))
                then Some False
                else if topology = Unified
                then map_option Not (unified_refuses ts tier incoming th)
                else Some True)))"

section \<open>What a refresh keeps and establishes\<close>

definition ledger_of :: "tier_account \<Rightarrow> nat \<times> nat \<times> nat \<times> nat" where
  "ledger_of a = (acct_budget_bytes a, acct_managed_used_bytes a, acct_reserved_bytes a,
     acct_active_reservations a)"

definition books :: "accounts \<Rightarrow> (memory_tier \<times> nat \<times> nat \<times> nat \<times> nat) list" where
  "books ts = map (\<lambda>p. (fst p, ledger_of (snd p))) ts"

definition observed_all :: "accounts \<Rightarrow> bool" where
  "observed_all ts \<longleftrightarrow> (\<forall>a \<in> set (bt_values ts). acct_observation a \<noteq> None)"

definition observed_sound :: "accounts \<Rightarrow> bool" where
  "observed_sound ts \<longleftrightarrow> (\<forall>a \<in> set (bt_values ts). case acct_observation a of None \<Rightarrow> False
     | Some ob \<Rightarrow> 0 < obs_total_bytes ob \<and> obs_available_bytes ob \<le> obs_total_bytes ob)"

lemma observed_soundD: "observed_sound ts \<Longrightarrow> observed_all ts"
  by (fastforce simp: observed_sound_def observed_all_def split: option.splits)

lemma books_keys: "books ts = books ts' \<Longrightarrow> map fst ts = map fst ts'"
proof -
  assume "books ts = books ts'"
  then have "map fst (books ts) = map fst (books ts')" by simp
  then show ?thesis by (simp add: books_def comp_def)
qed

lemma books_lookup: "map_of (books ts) t = map_option ledger_of (map_of ts t)"
  by (induction ts) (auto simp: books_def)

lemma books_contains:
  assumes "books ts = books ts'"
  shows "bt_contains t ts = bt_contains t ts'"
proof -
  have "map_option ledger_of (map_of ts t) = map_option ledger_of (map_of ts' t)"
    using assms books_lookup by metis
  then show ?thesis by (cases "map_of ts t"; cases "map_of ts' t") (simp_all add: bt_contains_def)
qed

lemma books_wf: "books ts = books ts' \<Longrightarrow> bt_wf ts = bt_wf ts'"
  using books_keys by (metis bt_wf_def)

lemma store_observations_books: "store_observations obs ts = (ok, ts') \<Longrightarrow> books ts' = books ts"
  by (induction obs ts arbitrary: ok ts' rule: store_observations.induct)
    (auto simp: books_def ledger_of_def split: option.splits prod.splits)

lemma refresh_discrete_books: "refresh_discrete obs th ts = (ok, ts') \<Longrightarrow> books ts' = books ts"
  by (induction obs th ts arbitrary: ok ts' rule: refresh_discrete.induct)
    (auto simp: books_def ledger_of_def refresh_account_def Let_def split: option.splits prod.splits)

lemma map_values_books:
  "(\<And>a. ledger_of (f a) = ledger_of a) \<Longrightarrow> books (bt_map_values f ts) = books ts"
  by (simp add: books_def bt_map_values_def)

lemma refresh_unified_books: "refresh_unified obs th ts = (ok, ts') \<Longrightarrow> books ts' = books ts"
  by (auto simp: refresh_unified_def Let_def ledger_of_def map_values_books
      dest: store_observations_books split: prod.splits if_splits option.splits)

lemma refresh_accounts_books:
  assumes "refresh_accounts st obs tp th = (ok, st')"
  shows "books (st_tiers st') = books (st_tiers st)" "st' = st\<lparr>st_tiers := st_tiers st'\<rparr>"
proof -
  obtain ts' where ts': "(if tp = Unified then refresh_unified obs th (st_tiers st)
      else refresh_discrete obs th (st_tiers st)) = (ok, ts')" "st' = st\<lparr>st_tiers := ts'\<rparr>"
    using assms by (auto simp: refresh_accounts_def split: prod.splits)
  then show "books (st_tiers st') = books (st_tiers st)"
    by (auto dest: refresh_unified_books refresh_discrete_books split: if_splits)
  show "st' = st\<lparr>st_tiers := st_tiers st'\<rparr>" using ts' by simp
qed

lemma insert_samples_sound:
  assumes "insert_samples m ss = Ok obs"
    and "\<forall>t ob. map_of m t = Some ob \<longrightarrow> 0 < obs_total_bytes ob \<and> obs_available_bytes ob \<le> obs_total_bytes ob"
  shows "\<forall>t ob. map_of obs t = Some ob \<longrightarrow> 0 < obs_total_bytes ob \<and> obs_available_bytes ob \<le> obs_total_bytes ob"
  using assms
proof (induction m ss rule: insert_samples.induct)
  case (1 m)
  then show ?case by simp
next
  case (2 m s ss)
  have c: "obs_total_bytes s \<noteq> 0" "\<not> obs_available_bytes s > obs_total_bytes s"
      "\<not> bt_contains (obs_tier s) m"
    and r: "insert_samples (bt_insert (obs_tier s) s m) ss = Ok obs"
    using "2.prems"(1) by (auto split: if_splits)
  show ?case by (rule "2.IH" [OF c r]) (use c "2.prems"(2) in auto)
qed

lemma sample_telemetry_sound:
  assumes "sample_telemetry observe st = Ok obs" "(t, a) \<in> set (st_tiers st)"
  obtains ob where "map_of obs t = Some ob" "0 < obs_total_bytes ob"
    "obs_available_bytes ob \<le> obs_total_bytes ob"
proof -
  from assms(1) obtain samples where i: "insert_samples [] samples = Ok obs"
    and f: "find (\<lambda>t. \<not> bt_contains t obs) (map fst (st_tiers st)) = None"
    by (auto simp: sample_telemetry_def res_bind_Ok split: if_splits option.splits)
  from f assms(2) have "bt_contains t obs" by (force simp: find_None_iff)
  then obtain ob where ob: "map_of obs t = Some ob" by (auto simp: bt_contains_def)
  with insert_samples_sound [OF i] that show ?thesis by auto
qed

lemma sample_telemetry_no_panic: "observe \<noteq> Panic \<Longrightarrow> sample_telemetry observe st \<noteq> Panic"
proof -
  have ins: "insert_samples m ss \<noteq> Panic" for m ss
    by (induction m ss rule: insert_samples.induct) auto
  show "observe \<noteq> Panic \<Longrightarrow> sample_telemetry observe st \<noteq> Panic"
    by (auto simp: sample_telemetry_def res_bind_Panic ins split: if_splits option.splits)
qed

lemma store_observations_sound:
  assumes "\<forall>p \<in> set ts. \<exists>ob. map_of obs (fst p) = Some ob \<and> 0 < obs_total_bytes ob
    \<and> obs_available_bytes ob \<le> obs_total_bytes ob"
  shows "\<exists>ts'. store_observations obs ts = (True, ts') \<and> observed_sound ts'"
  using assms
  by (induction obs ts rule: store_observations.induct)
    (fastforce simp: observed_sound_def bt_values_def)+

lemma refresh_discrete_sound:
  assumes "\<forall>p \<in> set ts. \<exists>ob. map_of obs (fst p) = Some ob \<and> 0 < obs_total_bytes ob
    \<and> obs_available_bytes ob \<le> obs_total_bytes ob"
  shows "\<exists>ts'. refresh_discrete obs th ts = (True, ts') \<and> observed_sound ts'"
  using assms
  by (induction obs th ts rule: refresh_discrete.induct)
    (fastforce simp: observed_sound_def bt_values_def refresh_account_def Let_def)+

lemma those_Some: "(\<forall>x \<in> set xs. x \<noteq> None) \<Longrightarrow> those xs = Some (map the xs)"
  by (induction xs) auto

lemma those_eq_Some: "those xs = Some ys \<longleftrightarrow> xs = map Some ys"
proof (induction xs arbitrary: ys)
  case Nil
  then show ?case by auto
next
  case (Cons x xs)
  then show ?case by (cases ys) (auto split: option.splits)
qed

lemma observed_all_those:
  "observed_all ts \<Longrightarrow> those (map acct_observation (bt_values ts)) =
     Some (map (the \<circ> acct_observation) (bt_values ts))"
  by (subst those_Some) (auto simp: observed_all_def)

lemma observed_all_lookup: "observed_all ts \<Longrightarrow> map_of ts t = Some a \<Longrightarrow> acct_observation a \<noteq> None"
  by (force simp: observed_all_def bt_values_def dest: map_of_SomeD)

lemma observed_sound_lookup:
  assumes "observed_sound ts" "map_of ts t = Some a"
  obtains ob where "acct_observation a = Some ob" "0 < obs_total_bytes ob"
    "obs_available_bytes ob \<le> obs_total_bytes ob"
proof -
  have "a \<in> set (bt_values ts)" using assms(2) by (force simp: bt_values_def dest: map_of_SomeD)
  with assms(1) that show ?thesis by (auto simp: observed_sound_def split: option.splits)
qed

lemma effective_accounting_defined:
  "observed_all ts \<Longrightarrow> topology = Unified \<or> bt_contains t ts \<Longrightarrow> effective_accounting ts t topology \<noteq> None"
  using observed_all_lookup [of ts t]
  by (cases topology) (auto simp: effective_accounting_def bt_contains_def observed_all_those
      split: option.splits)

lemma unified_refuses_defined: "observed_all ts \<Longrightarrow> unified_refuses ts t n th \<noteq> None"
  using effective_accounting_defined [of ts Unified t]
  by (auto simp: unified_refuses_def observed_all_those split: option.splits)

lemma observed_sound_map_values:
  "(\<And>a. acct_observation (f a) = acct_observation a) \<Longrightarrow> observed_sound (bt_map_values f ts) = observed_sound ts"
  by (simp add: observed_sound_def bt_values_def bt_map_values_def)

lemma refresh_unified_sound:
  assumes "\<forall>p \<in> set ts. \<exists>ob. map_of obs (fst p) = Some ob \<and> 0 < obs_total_bytes ob
    \<and> obs_available_bytes ob \<le> obs_total_bytes ob"
  shows "\<exists>ts'. refresh_unified obs th ts = (True, ts') \<and> observed_sound ts'"
proof -
  obtain ts1 where ts1: "store_observations obs ts = (True, ts1)" "observed_sound ts1"
    using store_observations_sound [OF assms] by blast
  obtain b u where "effective_accounting ts1 Host Unified = Some (b, u)"
    using effective_accounting_defined [OF observed_soundD [OF ts1(2)], of Unified Host] by auto
  with ts1 show ?thesis
    by (simp add: refresh_unified_def Let_def observed_sound_map_values)
qed

lemma refresh_after_sample:
  assumes "sample_telemetry observe st = Ok obs"
  shows "\<exists>st'. refresh_accounts st obs tp th = (True, st') \<and> observed_sound (st_tiers st')"
proof -
  have all: "\<forall>p \<in> set (st_tiers st). \<exists>ob. map_of obs (fst p) = Some ob \<and> 0 < obs_total_bytes ob
      \<and> obs_available_bytes ob \<le> obs_total_bytes ob"
    using sample_telemetry_sound [OF assms] by (metis prod.collapse)
  from refresh_unified_sound [OF all, of th] refresh_discrete_sound [OF all, of th]
  show ?thesis by (auto simp: refresh_accounts_def)
qed

text \<open>
  The case rule for the prologue: the operation fails on the telemetry with the state
  untouched, or continues in a state that differs only in pressure and observations and
  has an observation on every tier.
\<close>

lemma with_refresh_cases:
  assumes "with_refresh c observe st k = (r, st')"
  obtains (telemetry_error) e where "sample_telemetry observe st = Err e" "r = Err e" "st' = st"
  | (telemetry_panic) "sample_telemetry observe st = Panic" "r = Panic" "st' = st"
  | (refreshed) st1 where "books (st_tiers st1) = books (st_tiers st)"
      "st1 = st\<lparr>st_tiers := st_tiers st1\<rparr>" "observed_sound (st_tiers st1)" "k st1 = (r, st')"
proof (cases "sample_telemetry observe st")
  case (Ok obs)
  obtain st1 where "refresh_accounts st obs (cfg_topology c) (cfg_thresholds c) = (True, st1)"
      "observed_sound (st_tiers st1)"
    using refresh_after_sample [OF Ok] by blast
  moreover from this have "k st1 = (r, st')" using assms Ok by (simp add: with_refresh_def)
  ultimately show ?thesis using refresh_accounts_books refreshed by metis
next
  case (Err e)
  with assms have "r = Err e" "st' = st" by (simp_all add: with_refresh_def)
  with Err show ?thesis by (rule telemetry_error)
next
  case Panic
  with assms have "r = Panic" "st' = st" by (simp_all add: with_refresh_def)
  with Panic show ?thesis by (rule telemetry_panic)
qed

lemma those_map_defined: "\<forall>x \<in> set xs. f x \<noteq> None \<Longrightarrow> those (map f xs) \<noteq> None"
  by (induction xs) auto

lemma snapshot_after_refresh:
  assumes "observed_all (st_tiers st)"
  shows "snapshot_from_state st now tp \<noteq> None"
proof -
  have seen: "acct_observation (snd p) \<noteq> None" if "p \<in> set (st_tiers st)" for p
    using assms that by (simp add: observed_all_def bt_values_def)
  show ?thesis
    unfolding snapshot_from_state_def option.map_disc_iff
    by (rule those_map_defined) (use seen in \<open>simp add: case_prod_beta\<close>)
qed

end
