(* ===== verification/Memory_Ops.thy ===== *)
theory Memory_Ops
  imports Memory_State
begin

text \<open>
  The operations of the memory manager (\<open>src/src/runtime_control/memory.rs\<close>):
  reservations and their handles, promotions, allocation bookkeeping, pressure action
  permits. A handle's \<open>Drop\<close> is written out on every path that drops it, the error
  paths of the consuming commits included. Clock readings and telemetry are arguments.
\<close>

section \<open>Reservations\<close>

datatype reservation_binding =
    Load (bind_load_id: nat) (bind_pinned: bool) (bind_demotion_target: "memory_tier option")
  | Promotion (bind_promotion_id: nat) (bind_source: memory_tier)

record memory_reservation =
  res_tier :: memory_tier
  res_bytes :: nat
  res_binding :: reservation_binding

definition hold :: "nat \<Rightarrow> tier_account \<Rightarrow> tier_account" where
  "hold n a = a\<lparr>acct_reserved_bytes := sat_add (acct_reserved_bytes a) n,
     acct_active_reservations := sat_add (acct_active_reservations a) 1\<rparr>"

definition unhold :: "nat \<Rightarrow> tier_account \<Rightarrow> tier_account" where
  "unhold n a = a\<lparr>acct_reserved_bytes := acct_reserved_bytes a - n,
     acct_active_reservations := acct_active_reservations a - 1\<rparr>"

definition charge :: "nat \<Rightarrow> tier_account \<Rightarrow> tier_account" where
  "charge n a = a\<lparr>acct_managed_used_bytes := sat_add (acct_managed_used_bytes a) n\<rparr>"

definition discharge :: "nat \<Rightarrow> tier_account \<Rightarrow> tier_account" where
  "discharge n a = a\<lparr>acct_managed_used_bytes := acct_managed_used_bytes a - n\<rparr>"

definition on_tier :: "memory_tier \<Rightarrow> (tier_account \<Rightarrow> tier_account) \<Rightarrow> manager_state \<Rightarrow> manager_state"
where
  "on_tier t f st = st\<lparr>st_tiers := bt_modify t f (st_tiers st)\<rparr>"

definition reserve_locked ::
  "manager_config \<Rightarrow> memory_tier \<Rightarrow> nat \<Rightarrow> reservation_binding \<Rightarrow> manager_state \<Rightarrow>
     (memory_error, memory_reservation) res \<times> manager_state"
where
  "reserve_locked c tier bytes binding st =
     (if bytes = 0 then (Err (InvalidReservation ZeroReservation), st)
      else if st_active_reservations st \<ge> cfg_max_reservations c
        then (Err (ReservationLimitReached (cfg_max_reservations c)), st)
      else case map_of (st_tiers st) tier of
        None \<Rightarrow> (Err (UnknownTier tier), st)
      | Some a \<Rightarrow> (case acct_observation a of
          None \<Rightarrow> (Panic, st)
        | Some ob \<Rightarrow>
            if sat_add (sat_add (acct_managed_used_bytes a) (acct_reserved_bytes a)) bytes
                 > acct_budget_bytes a
            then (Err (ReservationDenied tier bytes BudgetExceeded), st)
            else if sat_add (acct_reserved_bytes a) bytes > obs_available_bytes ob
            then (Err (ReservationDenied tier bytes AvailableInsufficient), st)
            else if hard_pressure (cfg_thresholds c) (sat_add (account_used a ob) bytes)
                      (min (acct_budget_bytes a) (obs_total_bytes ob))
            then (Err (ReservationDenied tier bytes ProjectedPressure), st)
            else (case (if cfg_topology c = Unified
                        then unified_refuses (st_tiers st) tier bytes (cfg_thresholds c)
                        else Some False) of
              None \<Rightarrow> (Panic, st)
            | Some True \<Rightarrow> (Err (ReservationDenied tier bytes UnifiedPressure), st)
            | Some False \<Rightarrow>
                (Ok \<lparr>res_tier = tier, res_bytes = bytes, res_binding = binding\<rparr>,
                 (on_tier tier (hold bytes) st)
                   \<lparr>st_active_reservations := sat_add (st_active_reservations st) 1\<rparr>))))"

definition release_reservation_locked ::
  "memory_tier \<Rightarrow> nat \<Rightarrow> reservation_binding \<Rightarrow> manager_state \<Rightarrow> manager_state"
where
  "release_reservation_locked tier bytes binding st =
     (let st1 = (on_tier tier (unhold bytes) st)
                  \<lparr>st_active_reservations := st_active_reservations st - 1\<rparr>
      in case binding of
           Load aid _ _ \<Rightarrow> st1\<lparr>st_pending_loads := st_pending_loads st1 - {aid}\<rparr>
         | Promotion aid _ \<Rightarrow> st1\<lparr>st_pending_promotions := st_pending_promotions st1 - {aid}\<rparr>)"

definition drop_reservation :: "memory_reservation \<Rightarrow> manager_state \<Rightarrow> manager_state" where
  "drop_reservation r st = release_reservation_locked (res_tier r) (res_bytes r) (res_binding r) st"

definition validate_demotion_target ::
  "manager_state \<Rightarrow> memory_tier \<Rightarrow> memory_tier option \<Rightarrow> (memory_error, unit) res"
where
  "validate_demotion_target st source target =
     (case target of
        None \<Rightarrow> Ok ()
      | Some t \<Rightarrow>
          if \<not> (source \<noteq> Host \<and> t = Host) \<or> \<not> bt_contains t (st_tiers st)
          then Err (InvalidAllocation BadDemotionTarget) else Ok ())"

definition reserve_load ::
  "manager_config \<Rightarrow> (memory_error, memory_observation list) res \<Rightarrow> nat \<Rightarrow> memory_tier \<Rightarrow> nat \<Rightarrow>
     bool \<Rightarrow> memory_tier option \<Rightarrow> manager_state \<Rightarrow>
     (memory_error, memory_reservation) res \<times> manager_state"
where
  "reserve_load c observe aid tier bytes pinned target st =
     with_refresh c observe st (\<lambda>st.
       if bt_contains aid (st_allocations st) \<or> aid \<in> st_pending_loads st
       then (Err (DuplicateAllocation aid), st)
       else if length (st_allocations st) + card (st_pending_loads st) \<ge> cfg_max_allocations c
       then (Err (AllocationLimitReached (cfg_max_allocations c)), st)
       else (case validate_demotion_target st tier target of
           Err e \<Rightarrow> (Err e, st)
         | Panic \<Rightarrow> (Panic, st)
         | Ok _ \<Rightarrow> (case reserve_locked c tier bytes (Load aid pinned target) st of
             (Ok r, st') \<Rightarrow> (Ok r, st'\<lparr>st_pending_loads := insert aid (st_pending_loads st')\<rparr>)
           | (e, st') \<Rightarrow> (e, st'))))"

definition reserve_promotion ::
  "manager_config \<Rightarrow> (memory_error, memory_observation list) res \<Rightarrow> nat \<Rightarrow> memory_tier \<Rightarrow>
     manager_state \<Rightarrow> (memory_error, memory_reservation) res \<times> manager_state"
where
  "reserve_promotion c observe aid target st =
     with_refresh c observe st (\<lambda>st.
       case map_of (st_allocations st) aid of
         None \<Rightarrow> (Err (UnknownAllocation aid), st)
       | Some al \<Rightarrow>
           if alloc_tier al = target then (Err (InvalidReservation (AlreadyOnTier aid target)), st)
           else if aid \<in> st_pending_promotions st
             then (Err (InvalidReservation (PendingPromotion aid)), st)
           else if aid \<in> st_pending_actions st then (Err (ActionInFlight aid), st)
           else if alloc_tier al \<noteq> Host \<or> target = Host
             then (Err (InvalidReservation NotHostToAccelerator), st)
           else (case reserve_locked c target (alloc_bytes al) (Promotion aid (alloc_tier al)) st of
               (Ok r, st') \<Rightarrow>
                 (Ok r, st'\<lparr>st_pending_promotions := insert aid (st_pending_promotions st')\<rparr>)
             | (e, st') \<Rightarrow> (e, st')))"

text \<open>
  The commits consume the handle: an error return drops it, which releases the
  reservation; so does the unwinding of a failed \<open>expect\<close>.
\<close>

definition commit_load ::
  "memory_reservation \<Rightarrow> nat \<Rightarrow> manager_state \<Rightarrow> (memory_error, unit) res \<times> manager_state"
where
  "commit_load r now st =
     (case res_binding r of
        Promotion _ _ \<Rightarrow> (Err (InvalidReservation PromotionCannotLoad), drop_reservation r st)
      | Load aid pinned target \<Rightarrow>
          if aid \<notin> st_pending_loads st \<or> bt_contains aid (st_allocations st)
          then (Err (InvalidReservation (NoLongerReserved aid)), drop_reservation r st)
          else (let st1 = release_reservation_locked (res_tier r) (res_bytes r) (res_binding r) st
                in if \<not> bt_contains (res_tier r) (st_tiers st1) then (Panic, drop_reservation r st1)
                   else (let st2 = on_tier (res_tier r) (charge (res_bytes r)) st1
                         in (Ok (), st2\<lparr>st_allocations := bt_insert aid
                              \<lparr>alloc_id = aid, alloc_tier = res_tier r, alloc_bytes = res_bytes r,
                               alloc_pinned = pinned, alloc_demotion_target = target,
                               alloc_last_used_millis = now\<rparr> (st_allocations st2)\<rparr>))))"

definition commit_promotion ::
  "memory_reservation \<Rightarrow> nat \<Rightarrow> manager_state \<Rightarrow> (memory_error, unit) res \<times> manager_state"
where
  "commit_promotion r now st =
     (case res_binding r of
        Load _ _ _ \<Rightarrow> (Err (InvalidReservation LoadCannotPromote), drop_reservation r st)
      | Promotion aid source \<Rightarrow>
          (case map_of (st_allocations st) aid of
             None \<Rightarrow> (Err (UnknownAllocation aid), drop_reservation r st)
           | Some al \<Rightarrow>
               if alloc_tier al \<noteq> source \<or> alloc_bytes al \<noteq> res_bytes r
               then (Err (InvalidReservation (ChangedWhileReserved aid)), drop_reservation r st)
               else (let st1 = release_reservation_locked (res_tier r) (res_bytes r) (res_binding r) st
                     in if \<not> bt_contains source (st_tiers st1) then (Panic, drop_reservation r st1)
                        else (let st2 = on_tier source (discharge (res_bytes r)) st1
                          in if \<not> bt_contains (res_tier r) (st_tiers st2)
                             then (Panic, drop_reservation r st2)
                             else (let st3 = on_tier (res_tier r) (charge (res_bytes r)) st2
                               in (Ok (), st3\<lparr>st_allocations := bt_modify aid
                                    (\<lambda>al. al\<lparr>alloc_tier := res_tier r,
                                       alloc_demotion_target := Some source,
                                       alloc_last_used_millis := now\<rparr>) (st_allocations st3)\<rparr>))))))"

section \<open>Allocation bookkeeping\<close>

definition mm_touch :: "nat \<Rightarrow> nat \<Rightarrow> manager_state \<Rightarrow> (memory_error, unit) res \<times> manager_state" where
  "mm_touch aid now st =
     (if aid \<in> st_pending_actions st then (Err (ActionInFlight aid), st)
      else if \<not> bt_contains aid (st_allocations st) then (Err (UnknownAllocation aid), st)
      else (Ok (), st\<lparr>st_allocations :=
              bt_modify aid (\<lambda>al. al\<lparr>alloc_last_used_millis := now\<rparr>) (st_allocations st)\<rparr>))"

definition set_pinned :: "nat \<Rightarrow> bool \<Rightarrow> manager_state \<Rightarrow> (memory_error, unit) res \<times> manager_state"
where
  "set_pinned aid pinned st =
     (if aid \<in> st_pending_actions st then (Err (ActionInFlight aid), st)
      else if \<not> bt_contains aid (st_allocations st) then (Err (UnknownAllocation aid), st)
      else (Ok (), st\<lparr>st_allocations :=
              bt_modify aid (\<lambda>al. al\<lparr>alloc_pinned := pinned\<rparr>) (st_allocations st)\<rparr>))"

definition remove_allocation :: "nat \<Rightarrow> manager_state \<Rightarrow> (memory_error, unit) res \<times> manager_state"
where
  "remove_allocation aid st =
     (if aid \<in> st_pending_actions st \<or> aid \<in> st_pending_promotions st
      then (Err (ActionInFlight aid), st)
      else case map_of (st_allocations st) aid of
        None \<Rightarrow> (Err (UnknownAllocation aid), st)
      | Some al \<Rightarrow>
          (Ok (), (on_tier (alloc_tier al) (discharge (alloc_bytes al)) st)
             \<lparr>st_allocations := bt_remove aid (st_allocations st),
              st_pending_promotions := st_pending_promotions st - {aid}\<rparr>))"

definition record_failed_release :: "nat \<Rightarrow> manager_state \<Rightarrow> (memory_error, unit) res \<times> manager_state"
where
  "record_failed_release aid st =
     (if aid \<in> st_pending_actions st then (Err (ActionInFlight aid), st)
      else if \<not> bt_contains aid (st_allocations st) then (Err (UnknownAllocation aid), st)
      else (Ok (), st\<lparr>st_allocations :=
                bt_modify aid (\<lambda>al. al\<lparr>alloc_pinned := True\<rparr>) (st_allocations st),
              st_failed_releases := sat_add (st_failed_releases st) 1\<rparr>))"

definition orphan_bytes :: "nat option \<Rightarrow> tier_account \<Rightarrow> nat" where
  "orphan_bytes bytes a =
     (case bytes of Some n \<Rightarrow> if n > 0 then n else acct_budget_bytes a | None \<Rightarrow> acct_budget_bytes a)"

definition record_orphaned_release ::
  "memory_tier \<Rightarrow> nat option \<Rightarrow> manager_state \<Rightarrow> (memory_error, unit) res \<times> manager_state"
where
  "record_orphaned_release tier bytes st =
     (case map_of (st_tiers st) tier of
        None \<Rightarrow> (Err (UnknownTier tier), st)
      | Some a \<Rightarrow>
          (Ok (), (on_tier tier (charge (orphan_bytes bytes a)) st)
             \<lparr>st_failed_releases := sat_add (st_failed_releases st) 1,
              st_orphaned_release_bytes :=
                sat_add (st_orphaned_release_bytes st) (orphan_bytes bytes a)\<rparr>))"

section \<open>Pressure action permits\<close>

datatype pressure_action =
    Demote (act_id: nat) (act_from: memory_tier) (act_to: memory_tier) (act_bytes: nat)
  | Evict (act_id: nat) (act_tier: memory_tier) (act_bytes: nat)

definition begin_pressure_action ::
  "manager_config \<Rightarrow> pressure_action \<Rightarrow> manager_state \<Rightarrow>
     (memory_error, pressure_action) res \<times> manager_state"
where
  "begin_pressure_action c action st =
     (let aid = act_id action in
      if aid \<in> st_pending_actions st \<or> aid \<in> st_pending_promotions st
      then (Err (ActionInFlight aid), st)
      else case map_of (st_allocations st) aid of
        None \<Rightarrow> (Err (StaleAction aid), st)
      | Some al \<Rightarrow>
          if alloc_pinned al then (Err (PinnedAllocation aid), st)
          else (case action of
            Demote _ from to bytes \<Rightarrow>
              if alloc_tier al \<noteq> from \<or> alloc_bytes al \<noteq> bytes
                 \<or> alloc_demotion_target al \<noteq> Some to \<or> cfg_topology c \<noteq> Discrete
              then (Err (StaleAction aid), st)
              else if st_active_reservations st \<ge> cfg_max_reservations c
              then (Err (ReservationLimitReached (cfg_max_reservations c)), st)
              else (case can_accept_bytes (st_tiers st) to bytes 0 (cfg_topology c) (cfg_thresholds c) of
                  None \<Rightarrow> (Panic, st)
                | Some False \<Rightarrow> (Err (ReservationDenied to bytes DemotionTargetChanged), st)
                | Some True \<Rightarrow>
                    if \<not> bt_contains to (st_tiers st) then (Err (UnknownTier to), st)
                    else (Ok action, (on_tier to (hold bytes) st)
                           \<lparr>st_active_reservations := sat_add (st_active_reservations st) 1,
                            st_pending_actions := insert aid (st_pending_actions st)\<rparr>))
          | Evict _ tier bytes \<Rightarrow>
              if alloc_tier al \<noteq> tier \<or> alloc_bytes al \<noteq> bytes
              then (Err (StaleAction aid), st)
              else (Ok action, st\<lparr>st_pending_actions := insert aid (st_pending_actions st)\<rparr>)))"

definition release_pressure_action_locked :: "pressure_action \<Rightarrow> manager_state \<Rightarrow> manager_state" where
  "release_pressure_action_locked action st =
     (let st1 = st\<lparr>st_pending_actions := st_pending_actions st - {act_id action}\<rparr>
      in case action of
           Demote _ _ to bytes \<Rightarrow>
             (on_tier to (unhold bytes) st1)
               \<lparr>st_active_reservations := st_active_reservations st1 - 1\<rparr>
         | Evict _ _ _ \<Rightarrow> st1)"

definition drop_permit :: "pressure_action \<Rightarrow> manager_state \<Rightarrow> manager_state" where
  "drop_permit action st = release_pressure_action_locked action st"

definition stamp_action ::
  "manager_config \<Rightarrow> memory_tier \<Rightarrow> nat \<Rightarrow> nat \<Rightarrow> manager_state \<Rightarrow> manager_state"
where
  "stamp_action c tier now unix_now st =
     (if cfg_topology c = Discrete
      then on_tier tier (\<lambda>a. a\<lparr>acct_last_action_millis := Some now\<rparr>) st
      else st\<lparr>st_tiers :=
             bt_map_values (\<lambda>a. a\<lparr>acct_last_action_millis := Some now\<rparr>) (st_tiers st)\<rparr>)
       \<lparr>st_last_action_unix_millis := Some unix_now\<rparr>"

definition commit_demote ::
  "pressure_action \<Rightarrow> nat \<Rightarrow> memory_tier \<Rightarrow> memory_tier \<Rightarrow> nat \<Rightarrow> managed_allocation \<Rightarrow> manager_state \<Rightarrow>
     (memory_error, unit) res \<times> manager_state"
where
  "commit_demote action aid from to bytes al st =
     (if alloc_tier al \<noteq> from \<or> alloc_bytes al \<noteq> bytes \<or> alloc_demotion_target al \<noteq> Some to
      then (Err (StaleAction aid), drop_permit action st)
      else (let st1 = release_pressure_action_locked action st
            in if \<not> bt_contains from (st_tiers st1) then (Panic, drop_permit action st1)
               else (let st2 = on_tier from (discharge bytes) st1
                 in if \<not> bt_contains to (st_tiers st2) then (Panic, drop_permit action st2)
                    else (let st3 = on_tier to (charge bytes) st2
                      in (Ok (), st3\<lparr>st_allocations := bt_modify aid
                           (\<lambda>al. al\<lparr>alloc_tier := to, alloc_demotion_target := None\<rparr>)
                           (st_allocations st3),
                         st_completed_demotions := sat_add (st_completed_demotions st3) 1\<rparr>)))))"

definition commit_evict ::
  "pressure_action \<Rightarrow> nat \<Rightarrow> memory_tier \<Rightarrow> nat \<Rightarrow> managed_allocation \<Rightarrow> manager_state \<Rightarrow>
     (memory_error, unit) res \<times> manager_state"
where
  "commit_evict action aid tier bytes al st =
     (if alloc_tier al \<noteq> tier \<or> alloc_bytes al \<noteq> bytes
      then (Err (StaleAction aid), drop_permit action st)
      else (let st1 = release_pressure_action_locked action st;
                st2 = st1\<lparr>st_allocations := bt_remove aid (st_allocations st1)\<rparr>
            in if \<not> bt_contains tier (st_tiers st2) then (Panic, drop_permit action st2)
               else (let st3 = on_tier tier (discharge bytes) st2
                 in (Ok (), st3\<lparr>st_pending_promotions := st_pending_promotions st3 - {aid},
                      st_completed_evictions := sat_add (st_completed_evictions st3) 1\<rparr>))))"

definition commit_permit ::
  "manager_config \<Rightarrow> pressure_action \<Rightarrow> nat \<Rightarrow> nat \<Rightarrow> manager_state \<Rightarrow>
     (memory_error, unit) res \<times> manager_state"
where
  "commit_permit c action now unix_now st =
     (let aid = act_id action in
      if aid \<notin> st_pending_actions st then (Err (StaleAction aid), drop_permit action st)
      else case map_of (st_allocations st) aid of
        None \<Rightarrow> (Err (StaleAction aid), drop_permit action st)
      | Some al \<Rightarrow>
          (case action of
            Demote _ from to bytes \<Rightarrow>
              (case commit_demote action aid from to bytes al st of
                 (Ok _, st') \<Rightarrow> (Ok (), stamp_action c from now unix_now st')
               | (e, st') \<Rightarrow> (e, st'))
          | Evict _ tier bytes \<Rightarrow>
              (case commit_evict action aid tier bytes al st of
                 (Ok _, st') \<Rightarrow> (Ok (), stamp_action c tier now unix_now st')
               | (e, st') \<Rightarrow> (e, st'))))"

end
