(* ===== verification/Memory_Plan.thy ===== *)
theory Memory_Plan
  imports Memory_Ops "HOL-Library.Product_Lexorder"
begin

text \<open>
  The relief planner of the memory manager (\<open>src/src/runtime_control/memory.rs\<close>,
  \<open>plan_pressure_actions_for\<close> and its four entry points), and the lemmas on the two
  selection loops: demotions first on a discrete topology, evictions after.
\<close>

record pressure_action_plan =
  plan_tier :: memory_tier
  plan_pressure :: pressure_level
  plan_actions :: "pressure_action list"
  plan_relief_bytes :: nat
  plan_unresolved_bytes :: nat
  plan_deferred_by_cooldown :: bool

definition empty_action_plan :: "memory_tier \<Rightarrow> pressure_level \<Rightarrow> bool \<Rightarrow> pressure_action_plan" where
  "empty_action_plan tier pressure deferred =
     \<lparr>plan_tier = tier, plan_pressure = pressure, plan_actions = [], plan_relief_bytes = 0,
      plan_unresolved_bytes = 0, plan_deferred_by_cooldown = deferred\<rparr>"

text \<open>The local variables of the selection loops.\<close>

record plan_progress =
  pg_actions :: "pressure_action list"
  pg_ids :: "nat set"
  pg_incoming :: "(memory_tier, nat) btree"
  pg_relieved :: nat

definition no_progress :: plan_progress where
  "no_progress = \<lparr>pg_actions = [], pg_ids = {}, pg_incoming = [], pg_relieved = 0\<rparr>"

definition plan_full :: "manager_config \<Rightarrow> nat \<Rightarrow> plan_progress \<Rightarrow> bool" where
  "plan_full c required p \<longleftrightarrow>
     pg_relieved p \<ge> required \<or> length (pg_actions p) \<ge> cfg_max_actions_per_cycle c"

definition push_action :: "pressure_action \<Rightarrow> plan_progress \<Rightarrow> plan_progress" where
  "push_action a p = p\<lparr>pg_actions := pg_actions p @ [a], pg_ids := insert (act_id a) (pg_ids p),
     pg_relieved := sat_add (pg_relieved p) (act_bytes a)\<rparr>"

definition planned_for :: "plan_progress \<Rightarrow> memory_tier \<Rightarrow> nat" where
  "planned_for p t = (case map_of (pg_incoming p) t of None \<Rightarrow> 0 | Some n \<Rightarrow> n)"

fun demote_loop ::
  "manager_config \<Rightarrow> accounts \<Rightarrow> memory_tier \<Rightarrow> nat \<Rightarrow> managed_allocation list \<Rightarrow> plan_progress \<Rightarrow>
     plan_progress option"
where
  "demote_loop c ts tier required [] p = Some p"
| "demote_loop c ts tier required (al # als) p =
     (if plan_full c required p then Some p
      else case alloc_demotion_target al of
        None \<Rightarrow> None
      | Some target \<Rightarrow>
          (case can_accept_bytes ts target (alloc_bytes al) (planned_for p target)
                  (cfg_topology c) (cfg_thresholds c) of
             None \<Rightarrow> None
           | Some False \<Rightarrow> demote_loop c ts tier required als p
           | Some True \<Rightarrow> demote_loop c ts tier required als
               (push_action (Demote (alloc_id al) tier target (alloc_bytes al))
                 (p\<lparr>pg_incoming := bt_insert target
                      (sat_add (planned_for p target) (alloc_bytes al)) (pg_incoming p)\<rparr>))))"

fun evict_loop ::
  "manager_config \<Rightarrow> nat \<Rightarrow> managed_allocation list \<Rightarrow> plan_progress \<Rightarrow> plan_progress"
where
  "evict_loop c required [] p = p"
| "evict_loop c required (al # als) p =
     (if plan_full c required p then p
      else if alloc_id al \<in> pg_ids p then evict_loop c required als p
      else evict_loop c required als
             (push_action (Evict (alloc_id al) (alloc_tier al) (alloc_bytes al)) p))"

definition plan_candidate ::
  "manager_config \<Rightarrow> memory_tier \<Rightarrow> nat set option \<Rightarrow> manager_state \<Rightarrow> managed_allocation \<Rightarrow> bool"
where
  "plan_candidate c tier eligible st al \<longleftrightarrow>
     (cfg_topology c = Unified \<or> alloc_tier al = tier) \<and> \<not> alloc_pinned al
     \<and> (case eligible of None \<Rightarrow> True | Some ids \<Rightarrow> alloc_id al \<in> ids)
     \<and> alloc_id al \<notin> st_pending_promotions st \<and> alloc_id al \<notin> st_pending_actions st"

definition candidates ::
  "manager_config \<Rightarrow> memory_tier \<Rightarrow> nat set option \<Rightarrow> manager_state \<Rightarrow> managed_allocation list"
where
  "candidates c tier eligible st =
     sort_key (\<lambda>al. (alloc_last_used_millis al, alloc_id al))
       (filter (plan_candidate c tier eligible st) (bt_values (st_allocations st)))"

definition select_actions ::
  "manager_config \<Rightarrow> memory_tier \<Rightarrow> nat set option \<Rightarrow> nat \<Rightarrow> manager_state \<Rightarrow> plan_progress option"
where
  "select_actions c tier eligible required st =
     map_option (evict_loop c required (candidates c tier eligible st))
       (if cfg_topology c = Discrete
        then demote_loop c (st_tiers st) tier required
               (filter (\<lambda>al. alloc_demotion_target al \<noteq> None) (candidates c tier eligible st))
               no_progress
        else Some no_progress)"

definition plan_target_basis_points :: "pressure_thresholds \<Rightarrow> pressure_level \<Rightarrow> nat \<Rightarrow> nat option"
where
  "plan_target_basis_points th pressure requested =
     (case action_target_basis_points th pressure of
        Some t \<Rightarrow> Some t
      | None \<Rightarrow> if requested = 0 then None else Some (hard_basis_points th - 1))"

definition target_bytes_of :: "nat \<Rightarrow> nat \<Rightarrow> nat" where
  "target_bytes_of budget target = min (budget * target div BASIS_POINTS) u64_max"

definition last_action_of :: "manager_config \<Rightarrow> tier_account \<Rightarrow> accounts \<Rightarrow> nat option" where
  "last_action_of c a ts =
     (if cfg_topology c = Discrete then acct_last_action_millis a
      else (let xs = List.map_filter acct_last_action_millis (bt_values ts)
            in if xs = [] then None else Some (max_or 0 xs)))"

definition plan_in_state ::
  "manager_config \<Rightarrow> nat \<Rightarrow> memory_tier \<Rightarrow> nat \<Rightarrow> nat set option \<Rightarrow> manager_state \<Rightarrow>
     (memory_error, pressure_action_plan) res"
where
  "plan_in_state c now tier requested eligible st =
     (case map_of (st_tiers st) tier of
        None \<Rightarrow> Err (UnknownTier tier)
      | Some a \<Rightarrow>
         (case plan_target_basis_points (cfg_thresholds c) (acct_pressure a) requested of
            None \<Rightarrow> Ok (empty_action_plan tier (acct_pressure a) False)
          | Some target \<Rightarrow>
             (case effective_accounting (st_tiers st) tier (cfg_topology c) of
                None \<Rightarrow> Panic
              | Some (budget, used) \<Rightarrow>
                 (let required = sat_add used requested - target_bytes_of budget target
                  in if required = 0 then Ok (empty_action_plan tier (acct_pressure a) False)
                     else if (case last_action_of c a (st_tiers st) of None \<Rightarrow> False
                              | Some acted \<Rightarrow> now - acted < cfg_action_cooldown_millis c)
                     then Ok \<lparr>plan_tier = tier, plan_pressure = acct_pressure a, plan_actions = [],
                              plan_relief_bytes = 0, plan_unresolved_bytes = required,
                              plan_deferred_by_cooldown = True\<rparr>
                     else (case select_actions c tier eligible required st of
                         None \<Rightarrow> Panic
                       | Some p \<Rightarrow>
                           Ok \<lparr>plan_tier = tier, plan_pressure = acct_pressure a,
                               plan_actions = pg_actions p, plan_relief_bytes = pg_relieved p,
                               plan_unresolved_bytes = required - pg_relieved p,
                               plan_deferred_by_cooldown = False\<rparr>)))))"

definition plan_pressure_actions_for ::
  "manager_config \<Rightarrow> (memory_error, memory_observation list) res \<Rightarrow> nat \<Rightarrow> memory_tier \<Rightarrow> nat \<Rightarrow>
     nat set option \<Rightarrow> manager_state \<Rightarrow> (memory_error, pressure_action_plan) res \<times> manager_state"
where
  "plan_pressure_actions_for c observe now tier requested eligible st =
     with_refresh c observe st (\<lambda>st. (plan_in_state c now tier requested eligible st, st))"

definition plan_pressure_actions where
  "plan_pressure_actions c observe now tier st =
     plan_pressure_actions_for c observe now tier 0 None st"

definition plan_pressure_actions_among where
  "plan_pressure_actions_among c observe now tier eligible st =
     plan_pressure_actions_for c observe now tier 0 (Some eligible) st"

definition plan_for_reservation where
  "plan_for_reservation c observe now tier requested st =
     (if requested = 0 then (Err (InvalidReservation ZeroReservation), st)
      else plan_pressure_actions_for c observe now tier requested None st)"

definition plan_for_reservation_among where
  "plan_for_reservation_among c observe now tier requested eligible st =
     (if requested = 0 then (Err (InvalidReservation ZeroReservation), st)
      else plan_pressure_actions_for c observe now tier requested (Some eligible) st)"

section \<open>What the selection loops keep\<close>

text \<open>
  An action matches the allocation it was made from. \<open>progress_ok\<close> is the loop
  invariant: the ids are those of the actions, without repetition, every action matches a
  candidate, the relief is the saturating total, and one action fewer would not have been
  enough.
\<close>

fun action_matches :: "pressure_action \<Rightarrow> managed_allocation \<Rightarrow> bool" where
  "action_matches (Demote i from to n) al \<longleftrightarrow>
     i = alloc_id al \<and> from = alloc_tier al \<and> alloc_demotion_target al = Some to \<and> n = alloc_bytes al"
| "action_matches (Evict i t n) al \<longleftrightarrow> i = alloc_id al \<and> t = alloc_tier al \<and> n = alloc_bytes al"

definition relief :: "pressure_action list \<Rightarrow> nat" where
  "relief as = sat_sum (map act_bytes as)"

lemma relief_snoc: "relief (as @ [a]) = sat_add (relief as) (act_bytes a)"
  by (simp add: relief_def sat_sum_def)

lemma relief_Nil [simp]: "relief [] = 0"
  by (simp add: relief_def sat_sum_def)

definition progress_ok ::
  "manager_config \<Rightarrow> nat \<Rightarrow> (managed_allocation \<Rightarrow> bool) \<Rightarrow> plan_progress \<Rightarrow> bool"
where
  "progress_ok c required P p \<longleftrightarrow>
     pg_ids p = act_id ` set (pg_actions p) \<and> distinct (map act_id (pg_actions p))
     \<and> (\<forall>a \<in> set (pg_actions p). \<exists>al. P al \<and> action_matches a al)
     \<and> pg_relieved p = relief (pg_actions p)
     \<and> length (pg_actions p) \<le> cfg_max_actions_per_cycle c
     \<and> (pg_actions p \<noteq> [] \<longrightarrow> relief (butlast (pg_actions p)) < required)"

lemma progress_ok_start: "progress_ok c required P no_progress"
  by (simp add: progress_ok_def no_progress_def)

lemma progress_ok_incoming [simp]: "progress_ok c required P (p\<lparr>pg_incoming := m\<rparr>) = progress_ok c required P p"
  by (simp add: progress_ok_def)

lemma push_action_incoming: "push_action a (p\<lparr>pg_incoming := m\<rparr>) = (push_action a p)\<lparr>pg_incoming := m\<rparr>"
  by (simp add: push_action_def)

lemma plan_full_incoming [simp]: "plan_full c required (p\<lparr>pg_incoming := m\<rparr>) = plan_full c required p"
  by (simp add: plan_full_def)

lemma progress_ok_push:
  assumes "progress_ok c required P p" "\<not> plan_full c required p"
    and "act_id a \<notin> pg_ids p" "P al" "action_matches a al"
  shows "progress_ok c required P (push_action a p)"
  using assms by (auto simp: progress_ok_def push_action_def plan_full_def relief_snoc)

lemma evict_loop_ok:
  assumes "progress_ok c required P p" "\<forall>al \<in> set als. P al"
  shows "progress_ok c required P (evict_loop c required als p)"
  using assms
proof (induction c required als p rule: evict_loop.induct)
  case (2 c required al als p)
  show ?case
  proof (cases "plan_full c required p")
    case False
    show ?thesis
    proof (cases "alloc_id al \<in> pg_ids p")
      case out: False
      have "progress_ok c required P (push_action (Evict (alloc_id al) (alloc_tier al) (alloc_bytes al)) p)"
        by (rule progress_ok_push [of _ _ _ _ _ al]) (use "2.prems" False out in simp_all)
      with 2 False out show ?thesis by simp
    qed (use 2 False in auto)
  qed (use 2 in auto)
qed simp

text \<open>When the eviction loop ends without being full, every candidate has an action.\<close>

lemma push_ids [simp]: "pg_ids (push_action a p) = insert (act_id a) (pg_ids p)"
  by (simp add: push_action_def)

lemma evict_loop_ids: "pg_ids p \<subseteq> pg_ids (evict_loop c required als p)"
  by (induction c required als p rule: evict_loop.induct) auto

lemma evict_loop_complete:
  "\<not> plan_full c required (evict_loop c required als p) \<Longrightarrow>
     alloc_id ` set als \<subseteq> pg_ids (evict_loop c required als p)"
proof (induction c required als p rule: evict_loop.induct)
  case (2 c required al als p)
  then show ?case
    using evict_loop_ids [of p c required als]
      evict_loop_ids [of "push_action (Evict (alloc_id al) (alloc_tier al) (alloc_bytes al)) p" c required als]
    by (auto split: if_splits)
qed simp

lemma demote_loop_ok:
  assumes "progress_ok c required P p" "demote_loop c ts tier required als p = Some p'"
    and "\<forall>al \<in> set als. P al \<and> alloc_tier al = tier \<and> alloc_id al \<notin> pg_ids p"
    and "distinct (map alloc_id als)"
  shows "progress_ok c required P p'"
  using assms
proof (induction c ts tier required als p rule: demote_loop.induct)
  case (2 c ts tier required al als p)
  show ?case
  proof (cases "plan_full c required p")
    case False
    then obtain target b where t: "alloc_demotion_target al = Some target"
      and b: "can_accept_bytes ts target (alloc_bytes al) (planned_for p target)
                (cfg_topology c) (cfg_thresholds c) = Some b"
      using "2.prems"(2) by (auto split: option.splits)
    show ?thesis
    proof (cases b)
      case True
      let ?a = "Demote (alloc_id al) tier target (alloc_bytes al)"
      have "progress_ok c required P (push_action ?a p)"
        by (rule progress_ok_push [of _ _ _ _ _ al]) (use "2.prems" False t in simp_all)
      then have ok: "progress_ok c required P (push_action ?a (p\<lparr>pg_incoming :=
          bt_insert target (sat_add (planned_for p target) (alloc_bytes al)) (pg_incoming p)\<rparr>))"
        by (simp add: push_action_incoming)
      have rest: "\<forall>x \<in> set als. P x \<and> alloc_tier x = tier \<and> alloc_id x \<notin> pg_ids (push_action ?a
          (p\<lparr>pg_incoming := bt_insert target (sat_add (planned_for p target) (alloc_bytes al))
             (pg_incoming p)\<rparr>))"
        (is "\<forall>x \<in> _. ?R x")
      proof
        fix x assume x: "x \<in> set als"
        then have "alloc_id al \<noteq> alloc_id x" using "2.prems"(4) by force
        with x "2.prems"(3) show "?R x" by simp
      qed
      show ?thesis
        by (rule "2.IH"(1) [OF False t b _ ok _ rest])
          (use "2.prems"(2,4) False t b True in simp_all)
    next
      case out: False
      show ?thesis
        by (rule "2.IH"(2) [OF False t b _ "2.prems"(1)])
          (use "2.prems"(2,3,4) False t b out in simp_all)
    qed
  qed (use 2 in auto)
qed simp

section \<open>The candidates\<close>

definition allocations_ok :: "(nat, managed_allocation) btree \<Rightarrow> bool" where
  "allocations_ok als \<longleftrightarrow> bt_wf als \<and> (\<forall>(i, al) \<in> set als. alloc_id al = i)"

lemma allocations_ok_id: "allocations_ok als \<Longrightarrow> map_of als i = Some al \<Longrightarrow> alloc_id al = i"
  by (auto simp: allocations_ok_def dest: map_of_SomeD)

lemma allocations_ok_values:
  assumes "allocations_ok als"
  shows "al \<in> set (bt_values als) \<longleftrightarrow> map_of als (alloc_id al) = Some al"
proof -
  have "al \<in> set (bt_values als) \<longleftrightarrow> (alloc_id al, al) \<in> set als"
    using assms by (force simp: allocations_ok_def bt_values_def)
  then show ?thesis using assms bt_wf_get by (metis allocations_ok_def)
qed

lemma allocations_ok_ids: "allocations_ok als \<Longrightarrow> map alloc_id (bt_values als) = map fst als"
  by (auto simp: allocations_ok_def bt_values_def)

lemma candidates_iff:
  "allocations_ok (st_allocations st) \<Longrightarrow>
     al \<in> set (candidates c tier eligible st) \<longleftrightarrow>
       map_of (st_allocations st) (alloc_id al) = Some al \<and> plan_candidate c tier eligible st al"
  by (auto simp: candidates_def allocations_ok_values)

lemma distinct_map_sort_key: "distinct (map g (sort_key f xs)) = distinct (map g xs)"
  by (metis distinct_map distinct_sort set_sort)

lemma candidates_distinct:
  assumes "allocations_ok (st_allocations st)"
  shows "distinct (map alloc_id (candidates c tier eligible st))"
proof -
  have "distinct (map alloc_id (bt_values (st_allocations st)))"
    using assms allocations_ok_ids bt_wf_distinct by (metis allocations_ok_def)
  then show ?thesis
    by (simp add: candidates_def distinct_map_sort_key distinct_map_filter)
qed

lemma select_actions_ok:
  assumes "allocations_ok (st_allocations st)" "select_actions c tier eligible required st = Some p"
  shows "progress_ok c required (\<lambda>al. al \<in> set (candidates c tier eligible st)) p"
proof (cases "cfg_topology c = Discrete")
  case True
  let ?cs = "candidates c tier eligible st"
  let ?ds = "filter (\<lambda>al. alloc_demotion_target al \<noteq> None) ?cs"
  obtain p0 where p0: "demote_loop c (st_tiers st) tier required ?ds no_progress = Some p0"
      "p = evict_loop c required ?cs p0"
    using assms True by (auto simp: select_actions_def)
  have "progress_ok c required (\<lambda>al. al \<in> set ?cs) p0"
  proof (rule demote_loop_ok [OF progress_ok_start p0(1)])
    show "\<forall>al \<in> set ?ds. al \<in> set ?cs \<and> alloc_tier al = tier \<and> alloc_id al \<notin> pg_ids no_progress"
      using True by (auto simp: candidates_iff [OF assms(1)] plan_candidate_def no_progress_def)
    show "distinct (map alloc_id ?ds)"
      using candidates_distinct [OF assms(1)] by (simp add: distinct_map_filter)
  qed
  with p0 show ?thesis by (simp add: evict_loop_ok)
next
  case False
  with assms show ?thesis by (auto simp: select_actions_def evict_loop_ok progress_ok_start)
qed

lemma select_actions_complete:
  assumes "select_actions c tier eligible required st = Some p" "\<not> plan_full c required p"
  shows "alloc_id ` set (candidates c tier eligible st) \<subseteq> pg_ids p"
  using assms by (auto simp: select_actions_def dest: evict_loop_complete)

section \<open>Plans\<close>

lemma plan_in_state_cases:
  assumes "plan_in_state c now tier requested eligible st = Ok plan"
  obtains (idle) "plan_actions plan = []" "plan_relief_bytes plan = 0"
  | (selected) a target budget used required p where
      "map_of (st_tiers st) tier = Some a"
      "plan_target_basis_points (cfg_thresholds c) (acct_pressure a) requested = Some target"
      "effective_accounting (st_tiers st) tier (cfg_topology c) = Some (budget, used)"
      "required = sat_add used requested - target_bytes_of budget target" "0 < required"
      "select_actions c tier eligible required st = Some p"
      "plan = \<lparr>plan_tier = tier, plan_pressure = acct_pressure a, plan_actions = pg_actions p,
         plan_relief_bytes = pg_relieved p, plan_unresolved_bytes = required - pg_relieved p,
         plan_deferred_by_cooldown = False\<rparr>"
  using assms
  by (auto simp: plan_in_state_def empty_action_plan_def Let_def split: option.splits if_splits)

lemma can_accept_defined:
  "observed_all ts \<Longrightarrow> can_accept_bytes ts t n m tp th \<noteq> None"
  using unified_refuses_defined
  by (auto simp: can_accept_bytes_def Let_def split: option.splits)

lemma demote_loop_defined:
  "observed_all ts \<Longrightarrow> \<forall>al \<in> set als. alloc_demotion_target al \<noteq> None \<Longrightarrow>
     demote_loop c ts tier required als p \<noteq> None"
proof (induction c ts tier required als p rule: demote_loop.induct)
  case (2 c ts tier required al als p)
  then obtain target where t: "alloc_demotion_target al = Some target" by auto
  obtain b where b: "can_accept_bytes ts target (alloc_bytes al) (planned_for p target)
      (cfg_topology c) (cfg_thresholds c) = Some b"
    using can_accept_defined [OF "2.prems"(1)] by (metis option.exhaust)
  show ?case using 2 t b by (cases b) auto
qed simp

lemma select_actions_defined:
  "observed_all (st_tiers st) \<Longrightarrow> select_actions c tier eligible required st \<noteq> None"
  using demote_loop_defined by (simp add: select_actions_def)

lemma plan_in_state_no_panic:
  assumes "observed_all (st_tiers st)"
  shows "plan_in_state c now tier requested eligible st \<noteq> Panic"
proof (cases "map_of (st_tiers st) tier")
  case None
  then show ?thesis by (simp add: plan_in_state_def)
next
  case (Some a)
  obtain b u where e: "effective_accounting (st_tiers st) tier (cfg_topology c) = Some (b, u)"
    using effective_accounting_defined [OF assms, of "cfg_topology c" tier] Some
    by (auto simp: bt_contains_def)
  have s: "(select_actions c tier eligible n st = None) = False" for n
    using select_actions_defined [OF assms] by metis
  show ?thesis by (simp add: plan_in_state_def Let_def Some e s split: option.split)
qed

end
