(* ===== verification/Memory_System.thy ===== *)
theory Memory_System
  imports Memory_Plan "HOL-Library.Multiset"
begin

text \<open>
  The memory manager as a state machine. A world is the manager's state together with the
  handles and permits that callers hold (Rust owns them: a handle is consumed by a commit
  or dropped, never both) and, as a ghost, the bytes charged for orphaned releases. Every
  operation is an event. The invariant says that the books are exact: what a tier has
  reserved is the total of the outstanding handles, what it manages is the total of its
  allocations, and every pending set is the ids of the outstanding handles.
\<close>

section \<open>Worlds and events\<close>

record memory_world =
  mw_state :: manager_state
  mw_reservations :: "memory_reservation list"
  mw_permits :: "pressure_action list"
  mw_orphans :: "memory_tier \<Rightarrow> nat"

type_synonym telemetry = "(memory_error, memory_observation list) res"

datatype memory_event =
    EvRefresh telemetry nat
  | EvReserveLoad telemetry nat memory_tier nat bool "memory_tier option"
  | EvReservePromotion telemetry nat memory_tier
  | EvCommitLoad memory_reservation nat
  | EvCommitPromotion memory_reservation nat
  | EvDropReservation memory_reservation
  | EvTouch nat nat
  | EvSetPinned nat bool
  | EvRemove nat
  | EvFailedRelease nat
  | EvOrphanedRelease memory_tier "nat option"
  | EvPlan telemetry nat memory_tier nat "nat set option"
  | EvBegin pressure_action
  | EvCommitAction pressure_action nat nat
  | EvDropAction pressure_action

definition memory_world_new :: "manager_config \<Rightarrow> memory_world" where
  "memory_world_new c = \<lparr>mw_state = manager_new c, mw_reservations = [], mw_permits = [],
     mw_orphans = (\<lambda>_. 0)\<rparr>"

definition with_state :: "memory_world \<Rightarrow> manager_state \<Rightarrow> memory_world" where
  "with_state w st = w\<lparr>mw_state := st\<rparr>"

fun add_reservation :: "memory_world \<Rightarrow> (memory_error, memory_reservation) res \<times> manager_state \<Rightarrow> memory_world"
where
  "add_reservation w (Ok r, st) = (with_state w st)\<lparr>mw_reservations := r # mw_reservations w\<rparr>"
| "add_reservation w (_, st) = with_state w st"

fun add_permit :: "memory_world \<Rightarrow> (memory_error, pressure_action) res \<times> manager_state \<Rightarrow> memory_world"
where
  "add_permit w (Ok p, st) = (with_state w st)\<lparr>mw_permits := p # mw_permits w\<rparr>"
| "add_permit w (_, st) = with_state w st"

definition use_reservation :: "memory_world \<Rightarrow> memory_reservation \<Rightarrow> manager_state \<Rightarrow> memory_world" where
  "use_reservation w r st =
     (if r \<in> set (mw_reservations w)
      then (with_state w st)\<lparr>mw_reservations := remove1 r (mw_reservations w)\<rparr> else w)"

definition use_permit :: "memory_world \<Rightarrow> pressure_action \<Rightarrow> manager_state \<Rightarrow> memory_world" where
  "use_permit w p st =
     (if p \<in> set (mw_permits w)
      then (with_state w st)\<lparr>mw_permits := remove1 p (mw_permits w)\<rparr> else w)"

definition charge_orphan :: "memory_world \<Rightarrow> memory_tier \<Rightarrow> nat option \<Rightarrow> memory_world" where
  "charge_orphan w t bytes =
     (case map_of (st_tiers (mw_state w)) t of
        None \<Rightarrow> w
      | Some a \<Rightarrow> w\<lparr>mw_state := snd (record_orphaned_release t bytes (mw_state w)),
                   mw_orphans := (mw_orphans w)(t := mw_orphans w t + orphan_bytes bytes a)\<rparr>)"

fun mem_step :: "manager_config \<Rightarrow> memory_world \<Rightarrow> memory_event \<Rightarrow> memory_world" where
  "mem_step c w (EvRefresh ob now) = with_state w (snd (mm_refresh c ob now (mw_state w)))"
| "mem_step c w (EvReserveLoad ob i t n pin target) =
     add_reservation w (reserve_load c ob i t n pin target (mw_state w))"
| "mem_step c w (EvReservePromotion ob i t) = add_reservation w (reserve_promotion c ob i t (mw_state w))"
| "mem_step c w (EvCommitLoad r now) = use_reservation w r (snd (commit_load r now (mw_state w)))"
| "mem_step c w (EvCommitPromotion r now) =
     use_reservation w r (snd (commit_promotion r now (mw_state w)))"
| "mem_step c w (EvDropReservation r) = use_reservation w r (drop_reservation r (mw_state w))"
| "mem_step c w (EvTouch i now) = with_state w (snd (mm_touch i now (mw_state w)))"
| "mem_step c w (EvSetPinned i b) = with_state w (snd (set_pinned i b (mw_state w)))"
| "mem_step c w (EvRemove i) = with_state w (snd (remove_allocation i (mw_state w)))"
| "mem_step c w (EvFailedRelease i) = with_state w (snd (record_failed_release i (mw_state w)))"
| "mem_step c w (EvOrphanedRelease t bytes) = charge_orphan w t bytes"
| "mem_step c w (EvPlan ob now t n eligible) =
     with_state w (snd (plan_pressure_actions_for c ob now t n eligible (mw_state w)))"
| "mem_step c w (EvBegin p) = add_permit w (begin_pressure_action c p (mw_state w))"
| "mem_step c w (EvCommitAction p now unix_now) =
     use_permit w p (snd (commit_permit c p now unix_now (mw_state w)))"
| "mem_step c w (EvDropAction p) = use_permit w p (drop_permit p (mw_state w))"

section \<open>The invariant\<close>

definition budget_of :: "manager_config \<Rightarrow> memory_tier \<Rightarrow> nat option" where
  "budget_of c t = map_of (map (\<lambda>b. (tb_tier b, tb_bytes b)) (cfg_budgets c)) t"

definition tiers_inv :: "manager_config \<Rightarrow> accounts \<Rightarrow> bool" where
  "tiers_inv c ts \<longleftrightarrow> bt_wf ts \<and>
     (\<forall>t. map_option acct_budget_bytes (map_of ts t) = budget_of c t)"

type_synonym holds = "(memory_tier \<times> nat) multiset"

definition bytes_on :: "memory_tier \<Rightarrow> holds \<Rightarrow> nat" where
  "bytes_on t H = (\<Sum>h\<in>#H. if fst h = t then snd h else 0)"

definition count_on :: "memory_tier \<Rightarrow> holds \<Rightarrow> nat" where
  "count_on t H = (\<Sum>h\<in>#H. if fst h = t then 1 else 0)"

definition held_inv :: "manager_config \<Rightarrow> accounts \<Rightarrow> nat \<Rightarrow> holds \<Rightarrow> bool" where
  "held_inv c ts active H \<longleftrightarrow>
     (\<forall>t a. map_of ts t = Some a \<longrightarrow>
        acct_reserved_bytes a = bytes_on t H \<and> acct_active_reservations a = count_on t H)
     \<and> (\<forall>h \<in># H. bt_contains (fst h) ts) \<and> active = size H \<and> active \<le> cfg_max_reservations c"

definition alloc_bytes_on :: "(nat, managed_allocation) btree \<Rightarrow> memory_tier \<Rightarrow> nat" where
  "alloc_bytes_on als t = bt_sum (\<lambda>al. if alloc_tier al = t then alloc_bytes al else 0) als"

definition money_ok :: "tier_account \<Rightarrow> nat \<Rightarrow> nat \<Rightarrow> bool" where
  "money_ok a orphaned allocated \<longleftrightarrow>
     acct_managed_used_bytes a + acct_reserved_bytes a \<le> acct_budget_bytes a + orphaned
     \<and> (acct_budget_bytes a + orphaned \<le> u64_max \<longrightarrow> acct_managed_used_bytes a = allocated + orphaned)"

definition money_inv ::
  "accounts \<Rightarrow> (nat, managed_allocation) btree \<Rightarrow> (memory_tier \<Rightarrow> nat) \<Rightarrow> bool" where
  "money_inv ts als orphans \<longleftrightarrow>
     (\<forall>t a. map_of ts t = Some a \<longrightarrow> money_ok a (orphans t) (alloc_bytes_on als t))"

definition target_ok :: "accounts \<Rightarrow> memory_tier \<Rightarrow> memory_tier option \<Rightarrow> bool" where
  "target_ok ts t target \<longleftrightarrow>
     (\<forall>h. target = Some h \<longrightarrow> t \<noteq> Host \<and> h = Host \<and> bt_contains Host ts)"

definition allocs_inv :: "accounts \<Rightarrow> (nat, managed_allocation) btree \<Rightarrow> bool" where
  "allocs_inv ts als \<longleftrightarrow> allocations_ok als \<and>
     (\<forall>i al. map_of als i = Some al \<longrightarrow> bt_contains (alloc_tier al) ts \<and>
        target_ok ts (alloc_tier al) (alloc_demotion_target al))"

definition res_key :: "memory_reservation \<Rightarrow> nat + nat" where
  "res_key r = (case res_binding r of Load i _ _ \<Rightarrow> Inl i | Promotion i _ \<Rightarrow> Inr i)"

definition keys_inv :: "memory_reservation list \<Rightarrow> nat set \<Rightarrow> nat set \<Rightarrow> bool" where
  "keys_inv rs L P \<longleftrightarrow> distinct (map res_key rs) \<and>
     L = Inl -` (res_key ` set rs) \<and> P = Inr -` (res_key ` set rs)"

definition promise_ok :: "accounts \<Rightarrow> (nat, managed_allocation) btree \<Rightarrow> memory_reservation \<Rightarrow> bool" where
  "promise_ok ts als r =
     (case res_binding r of
        Load i _ target \<Rightarrow> map_of als i = None \<and> target_ok ts (res_tier r) target
      | Promotion i source \<Rightarrow> (case map_of als i of None \<Rightarrow> False
          | Some al \<Rightarrow> alloc_tier al = source \<and> alloc_bytes al = res_bytes r \<and> source = Host
                       \<and> res_tier r \<noteq> Host))"

fun is_demote :: "pressure_action \<Rightarrow> bool" where
  "is_demote (Demote _ _ _ _) = True"
| "is_demote (Evict _ _ _) = False"

definition permit_ok :: "manager_config \<Rightarrow> (nat, managed_allocation) btree \<Rightarrow> pressure_action \<Rightarrow> bool" where
  "permit_ok c als p =
     (case map_of als (act_id p) of None \<Rightarrow> False
      | Some al \<Rightarrow> action_matches p al \<and> \<not> alloc_pinned al \<and> (is_demote p \<longrightarrow> cfg_topology c = Discrete))"

definition permits_inv ::
  "manager_config \<Rightarrow> (nat, managed_allocation) btree \<Rightarrow> pressure_action list \<Rightarrow> nat set \<Rightarrow> bool" where
  "permits_inv c als ps A \<longleftrightarrow> distinct (map act_id ps) \<and> A = act_id ` set ps \<and>
     (\<forall>p \<in> set ps. permit_ok c als p)"

definition hold_of :: "memory_reservation \<Rightarrow> memory_tier \<times> nat" where
  "hold_of r = (res_tier r, res_bytes r)"

fun permit_hold :: "pressure_action \<Rightarrow> holds" where
  "permit_hold (Demote _ _ t n) = {#(t, n)#}"
| "permit_hold (Evict _ _ _) = {#}"

definition holds_of :: "memory_reservation list \<Rightarrow> pressure_action list \<Rightarrow> holds" where
  "holds_of rs ps = image_mset hold_of (mset rs) + (\<Sum>p\<in>#mset ps. permit_hold p)"

definition state_inv ::
  "manager_config \<Rightarrow> manager_state \<Rightarrow> memory_reservation list \<Rightarrow> pressure_action list \<Rightarrow>
     (memory_tier \<Rightarrow> nat) \<Rightarrow> bool"
where
  "state_inv c st rs ps orphans \<longleftrightarrow>
     tiers_inv c (st_tiers st)
     \<and> held_inv c (st_tiers st) (st_active_reservations st) (holds_of rs ps)
     \<and> money_inv (st_tiers st) (st_allocations st) orphans
     \<and> allocs_inv (st_tiers st) (st_allocations st)
     \<and> keys_inv rs (st_pending_loads st) (st_pending_promotions st)
     \<and> (\<forall>r \<in> set rs. promise_ok (st_tiers st) (st_allocations st) r)
     \<and> permits_inv c (st_allocations st) ps (st_pending_actions st)
     \<and> st_pending_promotions st \<inter> st_pending_actions st = {}
     \<and> length (st_allocations st) + card (st_pending_loads st) \<le> cfg_max_allocations c"

definition mem_inv :: "manager_config \<Rightarrow> memory_world \<Rightarrow> bool" where
  "mem_inv c w \<longleftrightarrow> state_inv c (mw_state w) (mw_reservations w) (mw_permits w) (mw_orphans w)"

section \<open>Tier updates\<close>

lemma tiers_inv_books: "books ts = books ts' \<Longrightarrow> tiers_inv c ts = tiers_inv c ts'"
proof -
  assume b: "books ts = books ts'"
  have "map_option acct_budget_bytes (map_of us t) = map_option fst (map_of (books us) t)" for us t
    by (simp add: books_lookup option.map_comp comp_def ledger_of_def)
  with b books_wf [OF b] show ?thesis by (simp add: tiers_inv_def)
qed

lemma tiers_inv_modify:
  "(\<And>a. acct_budget_bytes (f a) = acct_budget_bytes a) \<Longrightarrow> tiers_inv c ts \<Longrightarrow> tiers_inv c (bt_modify t f ts)"
  by (auto simp: tiers_inv_def option.map_comp comp_def)

lemma budgets_kept [simp]:
  "acct_budget_bytes (hold n a) = acct_budget_bytes a"
  "acct_budget_bytes (unhold n a) = acct_budget_bytes a"
  "acct_budget_bytes (charge n a) = acct_budget_bytes a"
  "acct_budget_bytes (discharge n a) = acct_budget_bytes a"
  by (simp_all add: hold_def unhold_def charge_def discharge_def)

lemma managed_kept [simp]:
  "acct_managed_used_bytes (hold n a) = acct_managed_used_bytes a"
  "acct_managed_used_bytes (unhold n a) = acct_managed_used_bytes a"
  "acct_managed_used_bytes (charge n a) = sat_add (acct_managed_used_bytes a) n"
  "acct_managed_used_bytes (discharge n a) = acct_managed_used_bytes a - n"
  by (simp_all add: hold_def unhold_def charge_def discharge_def)

lemma reserved_kept [simp]:
  "acct_reserved_bytes (hold n a) = sat_add (acct_reserved_bytes a) n"
  "acct_reserved_bytes (unhold n a) = acct_reserved_bytes a - n"
  "acct_reserved_bytes (charge n a) = acct_reserved_bytes a"
  "acct_reserved_bytes (discharge n a) = acct_reserved_bytes a"
  by (simp_all add: hold_def unhold_def charge_def discharge_def)

lemma active_kept [simp]:
  "acct_active_reservations (hold n a) = sat_add (acct_active_reservations a) 1"
  "acct_active_reservations (unhold n a) = acct_active_reservations a - 1"
  "acct_active_reservations (charge n a) = acct_active_reservations a"
  "acct_active_reservations (discharge n a) = acct_active_reservations a"
  by (simp_all add: hold_def unhold_def charge_def discharge_def)

lemma observation_kept [simp]:
  "acct_observation (hold n a) = acct_observation a"
  "acct_observation (unhold n a) = acct_observation a"
  "acct_observation (charge n a) = acct_observation a"
  "acct_observation (discharge n a) = acct_observation a"
  by (simp_all add: hold_def unhold_def charge_def discharge_def)

lemma contains_modify [simp]: "bt_contains t (bt_modify t' f ts) = bt_contains t ts"
  by (auto simp: bt_contains_def)

lemma target_ok_modify [simp]: "target_ok (bt_modify t' f ts) t target = target_ok ts t target"
  by (simp add: target_ok_def)

lemma promise_ok_modify [simp]: "promise_ok (bt_modify t' f ts) als r = promise_ok ts als r"
  by (simp add: promise_ok_def split: reservation_binding.split)

lemma allocs_inv_modify [simp]: "allocs_inv (bt_modify t' f ts) als = allocs_inv ts als"
  by (simp add: allocs_inv_def)

lemma bytes_on_simps [simp]:
  "bytes_on t {#} = 0" "bytes_on t (add_mset h H) = (if fst h = t then snd h else 0) + bytes_on t H"
  "count_on t {#} = 0" "count_on t (add_mset h H) = (if fst h = t then 1 else 0) + count_on t H"
  by (simp_all add: bytes_on_def count_on_def)

lemma count_on_le: "count_on t H \<le> size H"
  by (induction H) auto

lemma budget_le_max:
  "valid_config c \<Longrightarrow> tiers_inv c ts \<Longrightarrow> map_of ts t = Some a \<Longrightarrow> acct_budget_bytes a \<le> u64_max"
proof -
  assume v: "valid_config c" and i: "tiers_inv c ts" and m: "map_of ts t = Some a"
  have "budget_of c t = Some (acct_budget_bytes a)" using i m by (metis option.map(2) tiers_inv_def)
  then have "(t, acct_budget_bytes a) \<in> set (map (\<lambda>b. (tb_tier b, tb_bytes b)) (cfg_budgets c))"
    unfolding budget_of_def by (rule map_of_SomeD)
  with v show ?thesis by (auto simp: valid_config_def)
qed

lemma max_reservations_small: "valid_config c \<Longrightarrow> cfg_max_reservations c < u64_max"
  by (simp add: valid_config_def MAX_ACTIVE_RESERVATIONS_def u64_max_def)

text \<open>Granting a hold and giving it back.\<close>

lemma held_inv_grant:
  assumes v: "valid_config c" and h: "held_inv c ts k H" and m: "map_of ts t = Some a"
    and b: "acct_reserved_bytes a + n \<le> u64_max" and k: "k < cfg_max_reservations c"
  shows "held_inv c (bt_modify t (hold n) ts) (sat_add k 1) (add_mset (t, n) H)"
proof -
  have small: "k + 1 \<le> u64_max" using max_reservations_small [OF v] k by simp
  have cnt: "acct_active_reservations a' + 1 \<le> u64_max" if "map_of ts t' = Some a'" for t' a'
    using h that count_on_le [of t' H] small by (auto simp: held_inv_def)
  show ?thesis
    using h m b k small cnt by (auto simp: held_inv_def bt_contains_def sat_add_exact)
qed

lemma held_inv_ungrant:
  assumes h: "held_inv c ts k H" and mem: "(t, n) \<in># H"
  shows "held_inv c (bt_modify t (unhold n) ts) (k - 1) (H - {#(t, n)#})"
proof -
  obtain H' where H': "H = add_mset (t, n) H'" using mem by (metis multi_member_split)
  show ?thesis using h unfolding H' by (auto simp: held_inv_def)
qed

lemma held_inv_other:
  "(\<And>a. acct_reserved_bytes (f a) = acct_reserved_bytes a) \<Longrightarrow>
   (\<And>a. acct_active_reservations (f a) = acct_active_reservations a) \<Longrightarrow>
   held_inv c ts k H \<Longrightarrow> held_inv c (bt_modify t f ts) k H"
  by (auto simp: held_inv_def)

lemma held_inv_le:
  assumes "held_inv c ts k H" "(t, n) \<in># H" "map_of ts t = Some a"
  shows "n \<le> acct_reserved_bytes a" "1 \<le> acct_active_reservations a"
proof -
  obtain H' where H': "H = add_mset (t, n) H'" using assms(2) by (metis multi_member_split)
  show "n \<le> acct_reserved_bytes a" "1 \<le> acct_active_reservations a"
    using assms(1,3) unfolding H' by (auto simp: held_inv_def)
qed

lemma held_inv_contains: "held_inv c ts k H \<Longrightarrow> (t, n) \<in># H \<Longrightarrow> bt_contains t ts"
  by (force simp: held_inv_def)

lemma held_inv_books:
  assumes "books ts = books ts'"
  shows "held_inv c ts k H = held_inv c ts' k H"
proof -
  have "(\<forall>t a. map_of us t = Some a \<longrightarrow>
        acct_reserved_bytes a = bytes_on t H \<and> acct_active_reservations a = count_on t H) \<longleftrightarrow>
      (\<forall>t x. map_of (books us) t = Some x \<longrightarrow>
        fst (snd (snd x)) = bytes_on t H \<and> snd (snd (snd x)) = count_on t H)" for us
    by (auto simp: books_lookup ledger_of_def)
  with assms books_contains [OF assms] show ?thesis by (simp add: held_inv_def)
qed

lemma money_inv_books:
  assumes "books ts = books ts'"
  shows "money_inv ts als orphans = money_inv ts' als orphans"
proof -
  define ok where "ok t x \<longleftrightarrow> fst (snd x) + fst (snd (snd x)) \<le> fst x + orphans t
      \<and> (fst x + orphans t \<le> u64_max \<longrightarrow> fst (snd x) = alloc_bytes_on als t + orphans t)"
    for t :: memory_tier and x :: "nat \<times> nat \<times> nat \<times> nat"
  have "money_inv us als orphans \<longleftrightarrow> (\<forall>t x. map_of (books us) t = Some x \<longrightarrow> ok t x)" for us
    by (auto simp: money_inv_def money_ok_def books_lookup ledger_of_def ok_def)
  with assms show ?thesis by simp
qed

lemma target_ok_books:
  assumes "books ts = books ts'"
  shows "target_ok ts t x = target_ok ts' t x"
  by (simp add: target_ok_def books_contains [OF assms])

lemma allocs_inv_books:
  assumes "books ts = books ts'"
  shows "allocs_inv ts als = allocs_inv ts' als"
  by (simp add: allocs_inv_def books_contains [OF assms] target_ok_books [OF assms])

lemma promise_ok_books:
  assumes "books ts = books ts'"
  shows "promise_ok ts als r = promise_ok ts' als r"
  by (simp add: promise_ok_def target_ok_books [OF assms] split: reservation_binding.split)

text \<open>Refreshing, and any other change of pressure, observations or cooldown marks only.\<close>

lemma state_inv_books:
  assumes "books ts = books (st_tiers st)"
  shows "state_inv c (st\<lparr>st_tiers := ts\<rparr>) rs ps orphans = state_inv c st rs ps orphans"
  using tiers_inv_books [OF assms] held_inv_books [OF assms] money_inv_books [OF assms]
    allocs_inv_books [OF assms] promise_ok_books [OF assms]
  by (simp add: state_inv_def)

end
