(* ===== verification/Memory_Safety.thy ===== *)
theory Memory_Safety
  imports Memory_System
begin

text \<open>
  Preservation of the memory manager's invariant by every operation, and what it gives:
  the commits of outstanding handles succeed, no operation panics, admission stays within
  the budget. Ends with the interpretation of the state machine contract.
\<close>

section \<open>Handles and holds\<close>

lemma image_remove1:
  assumes "distinct (map f xs)" "x \<in> set xs"
  shows "f ` set (remove1 x xs) = f ` set xs - {f x}" "distinct (map f (remove1 x xs))"
proof -
  have d: "distinct xs" and i: "inj_on f (set xs)" using assms(1) by (auto simp: distinct_map)
  show "f ` set (remove1 x xs) = f ` set xs - {f x}"
    using assms(2) i by (auto simp: set_remove1_eq [OF d] inj_on_def)
  show "distinct (map f (remove1 x xs))"
    using d i by (auto simp: distinct_map set_remove1_eq [OF d] intro: inj_on_subset)
qed

lemma res_key_simps [simp]:
  "res_binding r = Load i b t \<Longrightarrow> res_key r = Inl i"
  "res_binding r = Promotion i s \<Longrightarrow> res_key r = Inr i"
  by (simp_all add: res_key_def)

lemma keys_inv_empty: "keys_inv [] {} {}"
  by (simp add: keys_inv_def)

lemma keys_inv_finite: "keys_inv rs L P \<Longrightarrow> finite L \<and> finite P"
  by (auto simp: keys_inv_def finite_vimageI)

lemma keys_inv_add_load:
  "keys_inv rs L P \<Longrightarrow> res_key r = Inl i \<Longrightarrow> i \<notin> L \<Longrightarrow> keys_inv (r # rs) (insert i L) P"
  by (auto simp: keys_inv_def)

lemma keys_inv_add_promotion:
  "keys_inv rs L P \<Longrightarrow> res_key r = Inr i \<Longrightarrow> i \<notin> P \<Longrightarrow> keys_inv (r # rs) L (insert i P)"
  by (auto simp: keys_inv_def)

lemma keys_inv_in: "keys_inv rs L P \<Longrightarrow> r \<in> set rs \<Longrightarrow> res_key r = Inl i \<Longrightarrow> i \<in> L"
  "keys_inv rs L P \<Longrightarrow> r \<in> set rs \<Longrightarrow> res_key r = Inr i \<Longrightarrow> i \<in> P"
  by (auto simp: keys_inv_def image_iff intro: sym)

lemma keys_inv_use:
  assumes "keys_inv rs L P" "r \<in> set rs"
  shows "keys_inv (remove1 r rs) (case res_key r of Inl i \<Rightarrow> L - {i} | Inr i \<Rightarrow> L)
    (case res_key r of Inl i \<Rightarrow> P | Inr i \<Rightarrow> P - {i})"
proof -
  have d: "distinct (map res_key rs)" using assms(1) by (simp add: keys_inv_def)
  show ?thesis
    using assms(1) image_remove1 [OF d assms(2)] by (cases "res_key r") (auto simp: keys_inv_def)
qed

lemma holds_of_simps [simp]:
  "holds_of [] [] = {#}"
  "holds_of (r # rs) ps = add_mset (hold_of r) (holds_of rs ps)"
  by (simp_all add: holds_of_def)

lemma holds_of_permit [simp]: "holds_of rs (p # ps) = permit_hold p + holds_of rs ps"
  by (simp add: holds_of_def)

lemma holds_of_use: "r \<in> set rs \<Longrightarrow> holds_of (remove1 r rs) ps = holds_of rs ps - {#hold_of r#}"
  by (simp add: holds_of_def image_mset_Diff)

lemma holds_of_in: "r \<in> set rs \<Longrightarrow> hold_of r \<in># holds_of rs ps"
  by (simp add: holds_of_def)

lemma holds_of_permit_use:
  assumes "p \<in> set ps"
  shows "holds_of rs ps = permit_hold p + holds_of rs (remove1 p ps)"
proof -
  obtain M where M: "mset ps = add_mset p M" using assms by (metis multi_member_split set_mset_mset)
  then show ?thesis by (simp add: holds_of_def)
qed

section \<open>Money\<close>

lemma money_inv_hold:
  assumes "money_inv ts als orphans" "map_of ts t = Some a"
    and "acct_managed_used_bytes a + acct_reserved_bytes a + n \<le> acct_budget_bytes a"
  shows "money_inv (bt_modify t (hold n) ts) als orphans"
  using assms sat_add_le [of "acct_reserved_bytes a" n]
  by (fastforce simp: money_inv_def money_ok_def)

lemma money_inv_unhold: "money_inv ts als orphans \<Longrightarrow> money_inv (bt_modify t (unhold n) ts) als orphans"
  by (fastforce simp: money_inv_def money_ok_def)

lemma money_ok_enter:
  assumes "money_ok a w m" "n \<le> acct_reserved_bytes a"
  shows "money_ok (charge n (unhold n a)) w (m + n)"
proof -
  have le: "acct_managed_used_bytes a + n + (acct_reserved_bytes a - n) \<le> acct_budget_bytes a + w"
    using assms by (simp add: money_ok_def)
  have "acct_budget_bytes a + w \<le> u64_max \<Longrightarrow> sat_add (acct_managed_used_bytes a) n = acct_managed_used_bytes a + n"
    using le by (simp add: sat_add_exact)
  with assms le sat_add_le [of "acct_managed_used_bytes a" n] show ?thesis
    by (auto simp: money_ok_def)
qed

lemma money_ok_leave:
  assumes "money_ok a w m" "n \<le> m"
  shows "money_ok (discharge n a) w (m - n)"
  using assms by (auto simp: money_ok_def)

lemma money_ok_orphan:
  assumes "money_ok a w m"
  shows "money_ok (charge n a) (w + n) m"
proof -
  have le: "acct_managed_used_bytes a + n \<le> acct_budget_bytes a + (w + n)"
    using assms by (simp add: money_ok_def)
  have "acct_budget_bytes a + (w + n) \<le> u64_max \<Longrightarrow>
      sat_add (acct_managed_used_bytes a) n = acct_managed_used_bytes a + n"
    using le by (simp add: sat_add_exact)
  with assms sat_add_le [of "acct_managed_used_bytes a" n] show ?thesis
    by (auto simp: money_ok_def)
qed

lemma money_inv_enter:
  assumes "money_inv ts als orphans" "map_of ts t = Some a" "n \<le> acct_reserved_bytes a"
    and "\<And>u. alloc_bytes_on als' u = alloc_bytes_on als u + (if u = t then n else 0)"
  shows "money_inv (bt_modify t (charge n) (bt_modify t (unhold n) ts)) als' orphans"
  using assms money_ok_enter by (auto simp: money_inv_def)

lemma money_inv_move:
  assumes "money_inv ts als orphans" "map_of ts t = Some a" "n \<le> acct_reserved_bytes a" "s \<noteq> t"
    and "n \<le> alloc_bytes_on als s"
    and "\<And>u. alloc_bytes_on als' u =
      (if u = t then alloc_bytes_on als u + n else if u = s then alloc_bytes_on als u - n
       else alloc_bytes_on als u)"
  shows "money_inv (bt_modify t (charge n) (bt_modify s (discharge n) (bt_modify t (unhold n) ts)))
    als' orphans"
  using assms money_ok_enter money_ok_leave by (auto simp: money_inv_def)

lemma money_inv_leave:
  assumes "money_inv ts als orphans" "n \<le> alloc_bytes_on als s"
    and "\<And>u. alloc_bytes_on als' u = alloc_bytes_on als u - (if u = s then n else 0)"
  shows "money_inv (bt_modify s (discharge n) ts) als' orphans"
  using assms money_ok_leave by (auto simp: money_inv_def)

lemma alloc_bytes_insert:
  "map_of als i = None \<Longrightarrow> alloc_bytes_on (bt_insert i al als) u =
     alloc_bytes_on als u + (if u = alloc_tier al then alloc_bytes al else 0)"
  by (auto simp: alloc_bytes_on_def bt_sum_insert bt_contains_def)

lemma alloc_bytes_ge: "map_of als i = Some al \<Longrightarrow> alloc_bytes al \<le> alloc_bytes_on als (alloc_tier al)"
  using bt_sum_ge [of als i al "\<lambda>x. if alloc_tier x = alloc_tier al then alloc_bytes x else 0"]
  by (simp add: alloc_bytes_on_def)

lemma alloc_bytes_remove:
  assumes "allocations_ok als" "map_of als i = Some al"
  shows "alloc_bytes_on (bt_remove i als) u =
    alloc_bytes_on als u - (if u = alloc_tier al then alloc_bytes al else 0)"
  using assms bt_sum_remove [of als i al "\<lambda>x. if alloc_tier x = u then alloc_bytes x else 0"]
  by (auto simp: alloc_bytes_on_def allocations_ok_def)

lemma alloc_bytes_retarget:
  assumes "allocations_ok als" "map_of als i = Some al" "t \<noteq> alloc_tier al"
    and "alloc_tier (f al) = t" "alloc_bytes (f al) = alloc_bytes al"
  shows "alloc_bytes_on (bt_modify i f als) u =
    (if u = t then alloc_bytes_on als u + alloc_bytes al
     else if u = alloc_tier al then alloc_bytes_on als u - alloc_bytes al else alloc_bytes_on als u)"
  using assms bt_sum_modify [of als i al "\<lambda>x. if alloc_tier x = u then alloc_bytes x else 0" f]
  by (auto simp: alloc_bytes_on_def allocations_ok_def)

lemma alloc_bytes_same:
  "(\<And>x. alloc_tier (f x) = alloc_tier x \<and> alloc_bytes (f x) = alloc_bytes x) \<Longrightarrow>
     alloc_bytes_on (bt_modify i f als) u = alloc_bytes_on als u"
  by (simp add: alloc_bytes_on_def bt_sum_modify_same)

section \<open>Allocations\<close>

lemma allocations_ok_insert:
  "allocations_ok als \<Longrightarrow> alloc_id al = i \<Longrightarrow> allocations_ok (bt_insert i al als)"
proof -
  assume ok: "allocations_ok als" and i: "alloc_id al = i"
  have wf: "bt_wf (bt_insert i al als)" using ok by (simp add: allocations_ok_def bt_wf_insert)
  have "alloc_id x = j" if "(j, x) \<in> set (bt_insert i al als)" for j x
    using that ok i allocations_ok_id by (auto simp: bt_wf_get [OF wf] split: if_splits)
  with wf show ?thesis by (auto simp: allocations_ok_def)
qed

lemma allocations_ok_remove: "allocations_ok als \<Longrightarrow> allocations_ok (bt_remove i als)"
proof -
  have "set (bt_remove i als) \<subseteq> set als" by (auto simp: bt_remove_def)
  then show "allocations_ok als \<Longrightarrow> allocations_ok (bt_remove i als)"
    by (auto simp: allocations_ok_def bt_wf_remove)
qed

lemma allocations_ok_modify:
  assumes "allocations_ok als" "\<And>x. alloc_id (f x) = alloc_id x"
  shows "allocations_ok (bt_modify i f als)"
proof -
  have "\<forall>(j, x) \<in> set (bt_modify i f als). alloc_id x = j"
    using assms by (auto simp: allocations_ok_def bt_modify_def)
  with assms(1) show ?thesis by (simp add: allocations_ok_def)
qed

lemma allocs_inv_insert:
  "allocs_inv ts als \<Longrightarrow> alloc_id al = i \<Longrightarrow> bt_contains (alloc_tier al) ts \<Longrightarrow>
     target_ok ts (alloc_tier al) (alloc_demotion_target al) \<Longrightarrow> allocs_inv ts (bt_insert i al als)"
  by (simp add: allocs_inv_def allocations_ok_insert)

lemma allocs_inv_remove: "allocs_inv ts als \<Longrightarrow> allocs_inv ts (bt_remove i als)"
  by (simp add: allocs_inv_def allocations_ok_remove)

lemma allocs_inv_modify_value:
  assumes "allocs_inv ts als" "\<And>x. alloc_id (f x) = alloc_id x"
    and "\<And>al. map_of als i = Some al \<Longrightarrow> bt_contains (alloc_tier (f al)) ts \<and>
       target_ok ts (alloc_tier (f al)) (alloc_demotion_target (f al))"
  shows "allocs_inv ts (bt_modify i f als)"
  using assms by (auto simp: allocs_inv_def allocations_ok_modify)

text \<open>Promises and permits only look at their own allocation.\<close>

lemma promise_ok_cong:
  "(\<And>i. res_key r \<in> {Inl i, Inr i} \<Longrightarrow> map_of als' i = map_of als i) \<Longrightarrow>
     promise_ok ts als' r = promise_ok ts als r"
  by (cases "res_binding r") (auto simp: promise_ok_def)

lemma permit_ok_cong:
  "map_of als' (act_id p) = map_of als (act_id p) \<Longrightarrow> permit_ok c als' p = permit_ok c als p"
  by (simp add: permit_ok_def)

lemma permits_inv_cong:
  assumes "\<And>i. i \<in> A \<Longrightarrow> map_of als' i = map_of als i"
  shows "permits_inv c als' ps A = permits_inv c als ps A"
proof -
  have "A = act_id ` set ps \<Longrightarrow> p \<in> set ps \<Longrightarrow> permit_ok c als' p = permit_ok c als p" for p
    using assms by (intro permit_ok_cong) blast
  then show ?thesis unfolding permits_inv_def by blast
qed

lemma permits_inv_in: "permits_inv c als ps A \<Longrightarrow> p \<in> set ps \<Longrightarrow> act_id p \<in> A \<and> permit_ok c als p"
  by (simp add: permits_inv_def)

lemma permits_inv_use:
  assumes "permits_inv c als ps A" "p \<in> set ps"
  shows "permits_inv c als (remove1 p ps) (A - {act_id p})"
proof -
  have d: "distinct (map act_id ps)" using assms(1) by (simp add: permits_inv_def)
  have "set (remove1 p ps) \<subseteq> set ps" by (rule set_remove1_subset)
  with assms image_remove1 [OF d assms(2)] show ?thesis by (auto simp: permits_inv_def)
qed

end
