(* ===== verification/Memory_Steps.thy ===== *)
theory Memory_Steps
  imports Memory_Safety
begin

text \<open>
  Every operation of the memory manager keeps the invariant \<open>state_inv\<close> of
  \<open>Memory_System\<close>, one lemma per operation, together with the outcome of the operation
  in a state that satisfies it.
\<close>

section \<open>Granting a reservation\<close>

lemma state_inv_refresh:
  assumes "state_inv c st rs ps w" "books (st_tiers st1) = books (st_tiers st)"
    and "st1 = st\<lparr>st_tiers := st_tiers st1\<rparr>"
  shows "state_inv c st1 rs ps w"
  using assms state_inv_books [OF assms(2)] by metis

lemma account_used_ge: "\<not> hard_pressure th (sat_add (account_used a ob) n) b \<Longrightarrow> valid_thresholds th \<Longrightarrow>
    b \<le> acct_budget_bytes a \<Longrightarrow> acct_budget_bytes a \<le> u64_max \<Longrightarrow>
    acct_managed_used_bytes a + acct_reserved_bytes a + n < acct_budget_bytes a"
proof -
  assume h: "\<not> hard_pressure th (sat_add (account_used a ob) n) b" and v: "valid_thresholds th"
    and b: "b \<le> acct_budget_bytes a" "acct_budget_bytes a \<le> u64_max"
  have lt: "sat_add (account_used a ob) n < acct_budget_bytes a"
    using not_hard_below_budget [OF v] h b unfolding hard_pressure_def by fastforce
  then have e: "sat_add (account_used a ob) n = account_used a ob + n"
    using b by (intro sat_add_lt_max) simp
  with lt b have "account_used a ob < u64_max" by simp
  then have "account_used a ob = max (observed_used ob) (acct_managed_used_bytes a) + acct_reserved_bytes a"
    unfolding account_used_def by (rule sat_add_lt_max)
  with e lt show ?thesis by simp
qed

definition grant :: "memory_tier \<Rightarrow> nat \<Rightarrow> manager_state \<Rightarrow> manager_state" where
  "grant t n st = (on_tier t (hold n) st)
     \<lparr>st_active_reservations := sat_add (st_active_reservations st) 1\<rparr>"

lemma grant_simps [simp]:
  "st_tiers (grant t n st) = bt_modify t (hold n) (st_tiers st)"
  "st_allocations (grant t n st) = st_allocations st"
  "st_pending_loads (grant t n st) = st_pending_loads st"
  "st_pending_promotions (grant t n st) = st_pending_promotions st"
  "st_pending_actions (grant t n st) = st_pending_actions st"
  "st_active_reservations (grant t n st) = sat_add (st_active_reservations st) 1"
  by (simp_all add: grant_def on_tier_def)

lemma reserve_locked_cases:
  assumes "reserve_locked c t n b st = (r, st')" "valid_config c" "tiers_inv c (st_tiers st)"
    and "observed_all (st_tiers st)"
  obtains (refused) e where "r = Err e" "st' = st"
  | (granted) a where "r = Ok \<lparr>res_tier = t, res_bytes = n, res_binding = b\<rparr>" "st' = grant t n st"
      "0 < n" "st_active_reservations st < cfg_max_reservations c" "map_of (st_tiers st) t = Some a"
      "acct_managed_used_bytes a + acct_reserved_bytes a + n < acct_budget_bytes a"
proof (cases r)
  case (Err e)
  then have "st' = st" using assms(1) by (auto simp: reserve_locked_def split: if_splits option.splits bool.splits)
  with Err refused show ?thesis by blast
next
  case Panic
  have "unified_refuses (st_tiers st) t n (cfg_thresholds c) \<noteq> None"
    by (rule unified_refuses_defined [OF assms(4)])
  then have "r \<noteq> Panic"
    using assms(1) observed_all_lookup [OF assms(4), of t]
    by (auto simp: reserve_locked_def split: if_splits option.splits bool.splits)
  with Panic show ?thesis by blast
next
  case (Ok x)
  then obtain a ob where a: "map_of (st_tiers st) t = Some a" "acct_observation a = Some ob"
    and h: "\<not> hard_pressure (cfg_thresholds c) (sat_add (account_used a ob) n)
        (min (acct_budget_bytes a) (obs_total_bytes ob))"
    and n: "0 < n" "st_active_reservations st < cfg_max_reservations c"
    and x: "x = \<lparr>res_tier = t, res_bytes = n, res_binding = b\<rparr>" "st' = grant t n st"
    using assms(1)
    by (auto simp: reserve_locked_def grant_def split: if_splits option.splits bool.splits)
  have "acct_managed_used_bytes a + acct_reserved_bytes a + n < acct_budget_bytes a"
    by (rule account_used_ge [OF h])
      (use assms(2) budget_le_max [OF assms(2,3) a(1)] in \<open>auto simp: valid_config_def\<close>)
  with granted a n x Ok show ?thesis by blast
qed

lemma state_inv_grant_parts:
  assumes "state_inv c st rs ps w" "valid_config c" "map_of (st_tiers st) t = Some a"
    and "st_active_reservations st < cfg_max_reservations c"
    and "acct_managed_used_bytes a + acct_reserved_bytes a + n < acct_budget_bytes a"
  shows "tiers_inv c (st_tiers (grant t n st))"
    and "held_inv c (st_tiers (grant t n st)) (st_active_reservations (grant t n st))
           (add_mset (t, n) (holds_of rs ps))"
    and "money_inv (st_tiers (grant t n st)) (st_allocations st) w"
    and "allocs_inv (st_tiers (grant t n st)) (st_allocations st)"
proof -
  have i: "tiers_inv c (st_tiers st)" "held_inv c (st_tiers st) (st_active_reservations st) (holds_of rs ps)"
      "money_inv (st_tiers st) (st_allocations st) w" "allocs_inv (st_tiers st) (st_allocations st)"
    using assms(1) by (simp_all add: state_inv_def)
  have b: "acct_budget_bytes a \<le> u64_max" by (rule budget_le_max [OF assms(2) i(1) assms(3)])
  show "tiers_inv c (st_tiers (grant t n st))" using i(1) by (simp add: tiers_inv_modify)
  show "held_inv c (st_tiers (grant t n st)) (st_active_reservations (grant t n st))
      (add_mset (t, n) (holds_of rs ps))"
    using held_inv_grant [OF assms(2) i(2) assms(3) _ assms(4)] assms(5) b by simp
  show "money_inv (st_tiers (grant t n st)) (st_allocations st) w"
    using money_inv_hold [OF i(3) assms(3)] assms(5) by simp
  show "allocs_inv (st_tiers (grant t n st)) (st_allocations st)" using i(4) by simp
qed

section \<open>Reserving\<close>

lemma validate_demotion_target_Ok:
  "validate_demotion_target st t target = Ok u \<longleftrightarrow> target_ok (st_tiers st) t target"
  by (auto simp: validate_demotion_target_def target_ok_def split: option.splits)

lemma validate_demotion_target_no_panic: "validate_demotion_target st t target \<noteq> Panic"
  by (auto simp: validate_demotion_target_def split: option.splits)

lemma reserve_load_cases:
  assumes "reserve_load c ob i t n pin target st = (r, st')" "state_inv c st rs ps w" "valid_config c"
    and "ob \<noteq> Panic"
  obtains (refused) e where "r = Err e" "state_inv c st' rs ps w"
  | (granted) st1 a where "r = Ok \<lparr>res_tier = t, res_bytes = n, res_binding = Load i pin target\<rparr>"
      "st' = (grant t n st1)\<lparr>st_pending_loads := insert i (st_pending_loads st1)\<rparr>"
      "state_inv c st1 rs ps w" "st1 = st\<lparr>st_tiers := st_tiers st1\<rparr>"
      "books (st_tiers st1) = books (st_tiers st)"
      "0 < n" "st_active_reservations st1 < cfg_max_reservations c" "map_of (st_tiers st1) t = Some a"
      "acct_managed_used_bytes a + acct_reserved_bytes a + n < acct_budget_bytes a"
      "map_of (st_allocations st1) i = None" "i \<notin> st_pending_loads st1"
      "length (st_allocations st1) + card (st_pending_loads st1) < cfg_max_allocations c"
      "target_ok (st_tiers st1) t target"
  using assms(1) unfolding reserve_load_def
proof (cases rule: with_refresh_cases)
  case (telemetry_error e)
  with assms(2) refused show ?thesis by blast
next
  case telemetry_panic
  with sample_telemetry_no_panic [OF assms(4)] show ?thesis by blast
next
  case (refreshed st1)
  have inv: "state_inv c st1 rs ps w" by (rule state_inv_refresh [OF assms(2) refreshed(1,2)])
  obtain r0 st0 where r0: "reserve_locked c t n (Load i pin target) st1 = (r0, st0)" by fastforce
  show ?thesis
  proof (cases "map_of (st_allocations st1) i = None \<and> i \<notin> st_pending_loads st1
      \<and> length (st_allocations st1) + card (st_pending_loads st1) < cfg_max_allocations c
      \<and> target_ok (st_tiers st1) t target")
    case True
    then have v: "validate_demotion_target st1 t target = Ok ()"
      by (simp add: validate_demotion_target_Ok)
    have ti: "tiers_inv c (st_tiers st1)" using inv by (simp add: state_inv_def)
    from r0 assms(3) ti observed_soundD [OF refreshed(3)] show ?thesis
    proof (cases rule: reserve_locked_cases)
      case (refused e)
      with refreshed(4) True v r0 inv show ?thesis
        by (intro that(1) [of e]) (auto simp: bt_contains_def)
    next
      case (granted a)
      with refreshed True v r0 inv show ?thesis
        by (intro that(2) [of st1 a]) (auto simp: bt_contains_def)
    qed
  next
    case False
    then have "(\<exists>e. r = Err e) \<and> st' = st1"
      using refreshed(4) validate_demotion_target_Ok [of st1 t target]
        validate_demotion_target_no_panic [of st1 t target]
      by (auto simp: bt_contains_def split: if_splits res.splits)
    with inv that(1) show ?thesis by blast
  qed
qed

lemma reserve_load_inv:
  assumes "reserve_load c ob i t n pin target st = (r, st')" "state_inv c st rs ps w" "valid_config c"
    and "ob \<noteq> Panic"
  shows "case r of Ok h \<Rightarrow> state_inv c st' (h # rs) ps w | Err e \<Rightarrow> state_inv c st' rs ps w | Panic \<Rightarrow> False"
  using assms
proof (cases rule: reserve_load_cases)
  case (granted st1 a)
  let ?h = "\<lparr>res_tier = t, res_bytes = n, res_binding = Load i pin target\<rparr>"
  note g = state_inv_grant_parts [OF granted(3) assms(3) granted(8,7,9)]
  have k: "keys_inv (?h # rs) (insert i (st_pending_loads st1)) (st_pending_promotions st1)"
    using granted(3,11) by (intro keys_inv_add_load) (auto simp: state_inv_def res_key_def)
  have f: "finite (st_pending_loads st1)"
    using granted(3) keys_inv_finite by (auto simp: state_inv_def)
  have p: "\<forall>x \<in> set (?h # rs). promise_ok (st_tiers (grant t n st1)) (st_allocations st1) x"
    using granted(3,10,13) by (auto simp: state_inv_def) (simp add: promise_ok_def)
  show ?thesis
    using granted g k p f by (simp add: state_inv_def hold_of_def)
qed simp

lemma reserve_promotion_cases:
  assumes "reserve_promotion c ob i t st = (r, st')" "state_inv c st rs ps w" "valid_config c"
    and "ob \<noteq> Panic"
  obtains (refused) e where "r = Err e" "state_inv c st' rs ps w"
  | (granted) st1 a al where
      "r = Ok \<lparr>res_tier = t, res_bytes = alloc_bytes al, res_binding = Promotion i Host\<rparr>"
      "st' = (grant t (alloc_bytes al) st1)
               \<lparr>st_pending_promotions := insert i (st_pending_promotions st1)\<rparr>"
      "state_inv c st1 rs ps w" "st1 = st\<lparr>st_tiers := st_tiers st1\<rparr>"
      "books (st_tiers st1) = books (st_tiers st)"
      "0 < alloc_bytes al" "st_active_reservations st1 < cfg_max_reservations c"
      "map_of (st_tiers st1) t = Some a"
      "acct_managed_used_bytes a + acct_reserved_bytes a + alloc_bytes al < acct_budget_bytes a"
      "map_of (st_allocations st1) i = Some al" "alloc_tier al = Host" "t \<noteq> Host"
      "i \<notin> st_pending_promotions st1" "i \<notin> st_pending_actions st1"
  using assms(1) unfolding reserve_promotion_def
proof (cases rule: with_refresh_cases)
  case (telemetry_error e)
  with assms(2) refused show ?thesis by blast
next
  case telemetry_panic
  with sample_telemetry_no_panic [OF assms(4)] show ?thesis by blast
next
  case (refreshed st1)
  have inv: "state_inv c st1 rs ps w" by (rule state_inv_refresh [OF assms(2) refreshed(1,2)])
  show ?thesis
  proof (cases "\<exists>al. map_of (st_allocations st1) i = Some al \<and> alloc_tier al = Host \<and> t \<noteq> Host
      \<and> i \<notin> st_pending_promotions st1 \<and> i \<notin> st_pending_actions st1")
    case True
    then obtain al where al: "map_of (st_allocations st1) i = Some al" "alloc_tier al = Host" "t \<noteq> Host"
        "i \<notin> st_pending_promotions st1" "i \<notin> st_pending_actions st1"
      by blast
    obtain r0 st0 where r0: "reserve_locked c t (alloc_bytes al) (Promotion i Host) st1 = (r0, st0)"
      by fastforce
    have ti: "tiers_inv c (st_tiers st1)" using inv by (simp add: state_inv_def)
    from r0 assms(3) ti observed_soundD [OF refreshed(3)] show ?thesis
    proof (cases rule: reserve_locked_cases)
      case (refused e)
      with refreshed(4) al r0 inv show ?thesis by (intro that(1) [of e]) auto
    next
      case (granted a)
      with refreshed al r0 inv show ?thesis by (intro that(2) [of al st1 a]) auto
    qed
  next
    case False
    then have "(\<exists>e. r = Err e) \<and> st' = st1"
      using refreshed(4) by (auto split: if_splits option.splits)
    with inv that(1) show ?thesis by blast
  qed
qed

lemma reserve_promotion_inv:
  assumes "reserve_promotion c ob i t st = (r, st')" "state_inv c st rs ps w" "valid_config c"
    and "ob \<noteq> Panic"
  shows "case r of Ok h \<Rightarrow> state_inv c st' (h # rs) ps w | Err e \<Rightarrow> state_inv c st' rs ps w | Panic \<Rightarrow> False"
  using assms
proof (cases rule: reserve_promotion_cases)
  case (granted st1 a al)
  let ?h = "\<lparr>res_tier = t, res_bytes = alloc_bytes al, res_binding = Promotion i Host\<rparr>"
  note g = state_inv_grant_parts [OF granted(3) assms(3) granted(8,7,9)]
  have k: "keys_inv (?h # rs) (st_pending_loads st1) (insert i (st_pending_promotions st1))"
    using granted(3,13) by (intro keys_inv_add_promotion) (auto simp: state_inv_def res_key_def)
  have p: "\<forall>x \<in> set (?h # rs). promise_ok (st_tiers (grant t (alloc_bytes al) st1)) (st_allocations st1) x"
    using granted(3,10,11,12) by (auto simp: state_inv_def) (simp add: promise_ok_def)
  show ?thesis
    using granted g k p by (simp add: state_inv_def hold_of_def)
qed simp

section \<open>Giving a reservation back\<close>

lemma release_simps [simp]:
  "st_tiers (release_reservation_locked t n b st) = bt_modify t (unhold n) (st_tiers st)"
  "st_allocations (release_reservation_locked t n b st) = st_allocations st"
  "st_pending_actions (release_reservation_locked t n b st) = st_pending_actions st"
  "st_active_reservations (release_reservation_locked t n b st) = st_active_reservations st - 1"
  by (simp_all add: release_reservation_locked_def on_tier_def Let_def split: reservation_binding.split)

lemma release_pending:
  "st_pending_loads (drop_reservation r st) =
     (case res_key r of Inl i \<Rightarrow> st_pending_loads st - {i} | Inr i \<Rightarrow> st_pending_loads st)"
  "st_pending_promotions (drop_reservation r st) =
     (case res_key r of Inl i \<Rightarrow> st_pending_promotions st | Inr i \<Rightarrow> st_pending_promotions st - {i})"
  by (simp_all add: drop_reservation_def release_reservation_locked_def on_tier_def res_key_def Let_def
      split: reservation_binding.split)

lemma drop_simps [simp]:
  "st_tiers (drop_reservation r st) = bt_modify (res_tier r) (unhold (res_bytes r)) (st_tiers st)"
  "st_allocations (drop_reservation r st) = st_allocations st"
  "st_pending_actions (drop_reservation r st) = st_pending_actions st"
  "st_active_reservations (drop_reservation r st) = st_active_reservations st - 1"
  by (simp_all add: drop_reservation_def)

lemma drop_parts:
  assumes "state_inv c st rs ps w" "r \<in> set rs"
  shows "tiers_inv c (bt_modify (res_tier r) (unhold (res_bytes r)) (st_tiers st))"
    and "held_inv c (bt_modify (res_tier r) (unhold (res_bytes r)) (st_tiers st))
           (st_active_reservations st - 1) (holds_of (remove1 r rs) ps)"
    and "keys_inv (remove1 r rs) (st_pending_loads (drop_reservation r st))
           (st_pending_promotions (drop_reservation r st))"
    and "\<forall>x \<in> set (remove1 r rs). promise_ok (st_tiers st) (st_allocations st) x"
    and "st_pending_promotions (drop_reservation r st) \<inter> st_pending_actions st = {}"
    and "\<exists>a. map_of (st_tiers st) (res_tier r) = Some a \<and> res_bytes r \<le> acct_reserved_bytes a"
proof -
  have i: "tiers_inv c (st_tiers st)"
      "held_inv c (st_tiers st) (st_active_reservations st) (holds_of rs ps)"
      "keys_inv rs (st_pending_loads st) (st_pending_promotions st)"
      "\<forall>r \<in> set rs. promise_ok (st_tiers st) (st_allocations st) r"
      "st_pending_promotions st \<inter> st_pending_actions st = {}"
    using assms(1) by (simp_all add: state_inv_def)
  have h: "(res_tier r, res_bytes r) \<in># holds_of rs ps"
    using holds_of_in [OF assms(2)] by (simp add: hold_of_def)
  show "tiers_inv c (bt_modify (res_tier r) (unhold (res_bytes r)) (st_tiers st))"
    by (rule tiers_inv_modify) (use i(1) in simp_all)
  show "held_inv c (bt_modify (res_tier r) (unhold (res_bytes r)) (st_tiers st))
      (st_active_reservations st - 1) (holds_of (remove1 r rs) ps)"
    using held_inv_ungrant [OF i(2) h] by (simp add: holds_of_use [OF assms(2)] hold_of_def)
  show "keys_inv (remove1 r rs) (st_pending_loads (drop_reservation r st))
      (st_pending_promotions (drop_reservation r st))"
    using keys_inv_use [OF i(3) assms(2)] by (simp add: release_pending)
  show "\<forall>x \<in> set (remove1 r rs). promise_ok (st_tiers st) (st_allocations st) x"
    using i(4) set_remove1_subset [of r rs] by blast
  show "st_pending_promotions (drop_reservation r st) \<inter> st_pending_actions st = {}"
    using i(5) by (auto simp: release_pending split: sum.splits)
  show "\<exists>a. map_of (st_tiers st) (res_tier r) = Some a \<and> res_bytes r \<le> acct_reserved_bytes a"
    using held_inv_contains [OF i(2) h] held_inv_le [OF i(2) h] by (auto simp: bt_contains_def)
qed

lemma drop_pending_loads_card:
  assumes "state_inv c st rs ps w" "r \<in> set rs"
  shows "card (st_pending_loads (drop_reservation r st)) \<le> card (st_pending_loads st)"
  using assms keys_inv_finite
  by (auto simp: release_pending state_inv_def intro!: card_mono split: sum.splits)

lemma drop_reservation_inv:
  assumes "state_inv c st rs ps w" "r \<in> set rs"
  shows "state_inv c (drop_reservation r st) (remove1 r rs) ps w"
proof -
  have "money_inv (bt_modify (res_tier r) (unhold (res_bytes r)) (st_tiers st)) (st_allocations st) w"
    using assms(1) by (intro money_inv_unhold) (simp add: state_inv_def)
  with assms(1) drop_parts [OF assms] drop_pending_loads_card [OF assms] show ?thesis
    by (simp add: state_inv_def)
qed

section \<open>Committing a load\<close>

lemma allocs_inv_tier: "allocs_inv ts als \<Longrightarrow> map_of als i = Some al \<Longrightarrow> bt_contains (alloc_tier al) ts"
  by (simp add: allocs_inv_def)

lemma promised_promotion:
  assumes "keys_inv rs L P" "\<forall>x \<in> set rs. promise_ok ts als x" "i \<in> P"
  shows "\<exists>al. map_of als i = Some al"
proof -
  obtain x where x: "x \<in> set rs" "res_key x = Inr i"
    using assms(1,3) by (auto simp: keys_inv_def)
  from x(2) have "\<exists>s. res_binding x = Promotion i s"
    by (auto simp: res_key_def split: reservation_binding.splits)
  with x assms(2) show ?thesis by (auto simp: promise_ok_def split: option.splits)
qed

lemma promised_load:
  assumes "keys_inv rs L P" "\<forall>x \<in> set rs. promise_ok ts als x" "i \<in> L"
  shows "map_of als i = None"
proof -
  obtain x where x: "x \<in> set rs" "res_key x = Inl i"
    using assms(1,3) by (auto simp: keys_inv_def)
  from x(2) have "\<exists>b s. res_binding x = Load i b s"
    by (auto simp: res_key_def split: reservation_binding.splits)
  with x assms(2) show ?thesis by (auto simp: promise_ok_def)
qed

lemma promises_other:
  assumes k: "keys_inv rs L P" and p: "\<forall>x \<in> set rs. promise_ok ts als x"
    and i: "i \<notin> L" "i \<notin> P" and o: "\<And>j. j \<noteq> i \<Longrightarrow> map_of als' j = map_of als j"
  shows "\<forall>x \<in> set rs. promise_ok ts als' x"
proof
  fix x assume x: "x \<in> set rs"
  have "res_key x \<noteq> Inl i" "res_key x \<noteq> Inr i" using keys_inv_in [OF k x] i by blast+
  then have "promise_ok ts als' x = promise_ok ts als x"
    using o by (intro promise_ok_cong) auto
  with p x show "promise_ok ts als' x" by blast
qed

lemma load_promised:
  assumes "state_inv c st rs ps w" "r \<in> set rs" "res_binding r = Load i pin target"
  shows "i \<in> st_pending_loads st" "map_of (st_allocations st) i = None" "target_ok (st_tiers st) (res_tier r) target"
proof -
  have p: "promise_ok (st_tiers st) (st_allocations st) r"
    and k: "keys_inv rs (st_pending_loads st) (st_pending_promotions st)"
    using assms(1,2) by (simp_all add: state_inv_def)
  show "i \<in> st_pending_loads st" by (rule keys_inv_in(1) [OF k assms(2)]) (simp add: assms(3))
  show "map_of (st_allocations st) i = None" "target_ok (st_tiers st) (res_tier r) target"
    using p assms(3) by (simp_all add: promise_ok_def)
qed

definition loaded :: "memory_reservation \<Rightarrow> nat \<Rightarrow> nat \<Rightarrow> bool \<Rightarrow> memory_tier option \<Rightarrow> managed_allocation" where
  "loaded r now i pin target = \<lparr>alloc_id = i, alloc_tier = res_tier r, alloc_bytes = res_bytes r,
     alloc_pinned = pin, alloc_demotion_target = target, alloc_last_used_millis = now\<rparr>"

lemma commit_load_result:
  assumes "state_inv c st rs ps w" "r \<in> set rs" "res_binding r = Load i pin target"
  shows "commit_load r now st = (Ok (),
    (on_tier (res_tier r) (charge (res_bytes r)) (drop_reservation r st))
      \<lparr>st_allocations := bt_insert i (loaded r now i pin target) (st_allocations st)\<rparr>)"
proof -
  have "bt_contains (res_tier r) (st_tiers st)"
    using drop_parts(6) [OF assms(1,2)] by (auto simp: bt_contains_def)
  with load_promised [OF assms] assms(3) show ?thesis
    by (simp add: commit_load_def loaded_def on_tier_def bt_contains_def drop_reservation_def Let_def)
qed

lemma commit_load_inv:
  assumes "state_inv c st rs ps w" "r \<in> set rs" "res_binding r = Load i pin target"
  shows "state_inv c (snd (commit_load r now st)) (remove1 r rs) ps w"
proof -
  let ?als = "bt_insert i (loaded r now i pin target) (st_allocations st)"
  let ?ts = "bt_modify (res_tier r) (charge (res_bytes r))
      (bt_modify (res_tier r) (unhold (res_bytes r)) (st_tiers st))"
  note d = drop_parts [OF assms(1,2)]
  note l = load_promised [OF assms]
  have i: "money_inv (st_tiers st) (st_allocations st) w" "allocs_inv (st_tiers st) (st_allocations st)"
      "permits_inv c (st_allocations st) ps (st_pending_actions st)"
      "length (st_allocations st) + card (st_pending_loads st) \<le> cfg_max_allocations c"
      "keys_inv rs (st_pending_loads st) (st_pending_promotions st)"
    using assms(1) by (simp_all add: state_inv_def)
  obtain a where a: "map_of (st_tiers st) (res_tier r) = Some a" "res_bytes r \<le> acct_reserved_bytes a"
    using d(6) by blast
  have t: "tiers_inv c ?ts" by (rule tiers_inv_modify [OF _ d(1)]) simp
  have h: "held_inv c ?ts (st_active_reservations st - 1) (holds_of (remove1 r rs) ps)"
    by (rule held_inv_other [OF _ _ d(2)]) simp_all
  have m: "money_inv ?ts ?als w"
    by (rule money_inv_enter [OF i(1) a]) (simp add: alloc_bytes_insert [OF l(2)] loaded_def)
  have al: "allocs_inv ?ts ?als"
    using i(2) l(3) a(1)
    by (simp add: loaded_def bt_contains_def allocs_inv_insert)
  have none: "\<forall>x \<in> set (remove1 r rs). promise_ok ?ts ?als x"
  proof -
    have "i \<notin> st_pending_loads (drop_reservation r st)" using assms(3) by (simp add: release_pending)
    moreover have "i \<notin> st_pending_promotions (drop_reservation r st)"
      using promised_promotion [OF d(3,4)] l(2) by force
    ultimately show ?thesis using promises_other [OF d(3,4), of i ?als] by simp
  qed
  have p: "permits_inv c ?als ps (st_pending_actions st)"
  proof -
    have "i \<notin> st_pending_actions st"
      using i(3) l(2) by (auto simp: permits_inv_def permit_ok_def)
    with i(3) show ?thesis by (subst permits_inv_cong) auto
  qed
  have n: "length ?als + card (st_pending_loads (drop_reservation r st)) \<le> cfg_max_allocations c"
  proof -
    have "Suc (card (st_pending_loads st - {i})) = card (st_pending_loads st)"
      using l(1) keys_inv_finite [OF i(5)] by (meson card_Suc_Diff1)
    moreover have "length ?als = Suc (length (st_allocations st))"
      using i(2) l(2) by (simp add: length_insert bt_contains_def allocs_inv_def allocations_ok_def)
    ultimately show ?thesis using i(4) assms(3) by (simp add: release_pending)
  qed
  show ?thesis
    using t h m al none p n d(3,5)
    by (simp add: commit_load_result [OF assms] state_inv_def on_tier_def)
qed

section \<open>Committing a promotion\<close>

lemma promotion_promised:
  assumes "state_inv c st rs ps w" "r \<in> set rs" "res_binding r = Promotion i source"
  obtains al where "map_of (st_allocations st) i = Some al" "alloc_tier al = Host" "source = Host"
    "alloc_bytes al = res_bytes r" "res_tier r \<noteq> Host" "i \<in> st_pending_promotions st"
proof -
  have p: "promise_ok (st_tiers st) (st_allocations st) r"
    and k: "keys_inv rs (st_pending_loads st) (st_pending_promotions st)"
    using assms(1,2) by (simp_all add: state_inv_def)
  have "i \<in> st_pending_promotions st" by (rule keys_inv_in(2) [OF k assms(2)]) (simp add: assms(3))
  with p assms(3) that show ?thesis by (auto simp: promise_ok_def split: option.splits)
qed

definition promoted :: "memory_reservation \<Rightarrow> nat \<Rightarrow> managed_allocation \<Rightarrow> managed_allocation" where
  "promoted r now al = al\<lparr>alloc_tier := res_tier r, alloc_demotion_target := Some Host,
     alloc_last_used_millis := now\<rparr>"

lemma commit_promotion_result:
  assumes "state_inv c st rs ps w" "r \<in> set rs" "res_binding r = Promotion i source"
  shows "commit_promotion r now st = (Ok (),
    (on_tier (res_tier r) (charge (res_bytes r)) (on_tier Host (discharge (res_bytes r)) (drop_reservation r st)))
      \<lparr>st_allocations := bt_modify i (promoted r now) (st_allocations st)\<rparr>)"
proof -
  obtain al where al: "map_of (st_allocations st) i = Some al" "alloc_tier al = Host" "source = Host"
    "alloc_bytes al = res_bytes r"
    by (rule promotion_promised [OF assms])
  have "bt_contains (res_tier r) (st_tiers st)"
    using drop_parts(6) [OF assms(1,2)] by (auto simp: bt_contains_def)
  moreover have "bt_contains Host (st_tiers st)"
    using assms(1) al(1,2) allocs_inv_tier by (fastforce simp: state_inv_def)
  ultimately show ?thesis using al assms(3)
    by (simp add: commit_promotion_def promoted_def [abs_def] on_tier_def drop_reservation_def Let_def)
qed

lemma commit_promotion_inv:
  assumes "state_inv c st rs ps w" "r \<in> set rs" "res_binding r = Promotion i source"
  shows "state_inv c (snd (commit_promotion r now st)) (remove1 r rs) ps w"
proof -
  let ?als = "bt_modify i (promoted r now) (st_allocations st)"
  let ?ts = "bt_modify (res_tier r) (charge (res_bytes r)) (bt_modify Host (discharge (res_bytes r))
      (bt_modify (res_tier r) (unhold (res_bytes r)) (st_tiers st)))"
  note d = drop_parts [OF assms(1,2)]
  obtain al where l: "map_of (st_allocations st) i = Some al" "alloc_tier al = Host" "source = Host"
    "alloc_bytes al = res_bytes r" "res_tier r \<noteq> Host" "i \<in> st_pending_promotions st"
    by (rule promotion_promised [OF assms])
  have i: "money_inv (st_tiers st) (st_allocations st) w" "allocs_inv (st_tiers st) (st_allocations st)"
      "permits_inv c (st_allocations st) ps (st_pending_actions st)"
      "length (st_allocations st) + card (st_pending_loads st) \<le> cfg_max_allocations c"
      "st_pending_promotions st \<inter> st_pending_actions st = {}"
    using assms(1) by (simp_all add: state_inv_def)
  have ok: "allocations_ok (st_allocations st)" using i(2) by (simp add: allocs_inv_def)
  obtain a where a: "map_of (st_tiers st) (res_tier r) = Some a" "res_bytes r \<le> acct_reserved_bytes a"
    using d(6) by blast
  have t: "tiers_inv c ?ts" by (intro tiers_inv_modify d(1)) simp_all
  have h: "held_inv c ?ts (st_active_reservations st - 1) (holds_of (remove1 r rs) ps)"
    by (intro held_inv_other d(2)) simp_all
  have m: "money_inv ?ts ?als w"
  proof (rule money_inv_move [OF i(1) a])
    show "Host \<noteq> res_tier r" using l(5) by simp
    show "res_bytes r \<le> alloc_bytes_on (st_allocations st) Host"
      using alloc_bytes_ge [OF l(1)] l(2,4) by simp
    show "alloc_bytes_on ?als u = (if u = res_tier r then alloc_bytes_on (st_allocations st) u + res_bytes r
        else if u = Host then alloc_bytes_on (st_allocations st) u - res_bytes r
        else alloc_bytes_on (st_allocations st) u)" for u
      using alloc_bytes_retarget [OF ok l(1), of "res_tier r" "promoted r now" u] l(2,4,5)
      by (simp add: promoted_def)
  qed
  have host: "bt_contains Host (st_tiers st)" using allocs_inv_tier [OF i(2) l(1)] l(2) by simp
  have al': "allocs_inv ?ts ?als"
    by (rule allocs_inv_modify_value)
      (use i(2) host l(5) a(1) in \<open>auto simp: promoted_def target_ok_def bt_contains_def\<close>)
  have pr: "\<forall>x \<in> set (remove1 r rs). promise_ok ?ts ?als x"
  proof -
    have "i \<notin> st_pending_loads (drop_reservation r st)"
      using promised_load [OF d(3,4)] l(1) by force
    moreover have "i \<notin> st_pending_promotions (drop_reservation r st)"
      using assms(3) by (simp add: release_pending)
    ultimately show ?thesis using promises_other [OF d(3,4), of i ?als] by simp
  qed
  have p: "permits_inv c ?als ps (st_pending_actions st)"
  proof -
    have "i \<notin> st_pending_actions st" using i(5) l(6) by blast
    with i(3) show ?thesis by (subst permits_inv_cong) auto
  qed
  have n: "length ?als + card (st_pending_loads (drop_reservation r st)) \<le> cfg_max_allocations c"
    using i(4) drop_pending_loads_card [OF assms(1,2)] by simp
  show ?thesis
    using t h m al' pr p n d(3,5)
    by (simp add: commit_promotion_result [OF assms] state_inv_def on_tier_def)
qed

text \<open>A commit of the wrong kind only drops the handle.\<close>

lemma commit_wrong_kind:
  "res_binding r = Promotion i s \<Longrightarrow>
     commit_load r now st = (Err (InvalidReservation PromotionCannotLoad), drop_reservation r st)"
  "res_binding r = Load i b x \<Longrightarrow>
     commit_promotion r now st = (Err (InvalidReservation LoadCannotPromote), drop_reservation r st)"
  by (simp_all add: commit_load_def commit_promotion_def)

lemma commit_any_inv:
  assumes "state_inv c st rs ps w" "r \<in> set rs"
  shows "state_inv c (snd (commit_load r now st)) (remove1 r rs) ps w"
    and "state_inv c (snd (commit_promotion r now st)) (remove1 r rs) ps w"
  using commit_load_inv [OF assms] commit_promotion_inv [OF assms] drop_reservation_inv [OF assms]
    commit_wrong_kind [of r] by (cases "res_binding r"; simp)+

section \<open>Bookkeeping of allocations\<close>

lemma modify_allocation_inv:
  assumes "state_inv c st rs ps w" "i \<notin> st_pending_actions st"
    and f: "\<And>x. alloc_id (f x) = alloc_id x \<and> alloc_tier (f x) = alloc_tier x \<and>
       alloc_bytes (f x) = alloc_bytes x \<and> alloc_demotion_target (f x) = alloc_demotion_target x"
  shows "state_inv c (st\<lparr>st_allocations := bt_modify i f (st_allocations st)\<rparr>) rs ps w"
proof -
  let ?als = "bt_modify i f (st_allocations st)"
  have m: "money_inv (st_tiers st) ?als w"
    using assms(1) f by (simp add: state_inv_def money_inv_def alloc_bytes_same)
  have a: "allocs_inv (st_tiers st) ?als"
    by (rule allocs_inv_modify_value) (use assms(1) f in \<open>auto simp: state_inv_def allocs_inv_def\<close>)
  have p: "permits_inv c ?als ps (st_pending_actions st)"
    using assms(1,2) by (subst permits_inv_cong) (auto simp: state_inv_def)
  have r: "\<forall>x \<in> set rs. promise_ok (st_tiers st) ?als x"
  proof
    fix x assume x: "x \<in> set rs"
    then have "promise_ok (st_tiers st) (st_allocations st) x" using assms(1) by (simp add: state_inv_def)
    then show "promise_ok (st_tiers st) ?als x"
      using f by (auto simp: promise_ok_def split: reservation_binding.splits option.splits)
  qed
  show ?thesis using assms(1) m a p r by (simp add: state_inv_def)
qed

lemma touch_inv: "state_inv c st rs ps w \<Longrightarrow> state_inv c (snd (mm_touch i now st)) rs ps w"
  by (auto simp: mm_touch_def intro!: modify_allocation_inv)

lemma set_pinned_inv: "state_inv c st rs ps w \<Longrightarrow> state_inv c (snd (set_pinned i b st)) rs ps w"
  by (auto simp: set_pinned_def intro!: modify_allocation_inv)

lemma state_inv_counters [simp]:
  "state_inv c (st\<lparr>st_failed_releases := n\<rparr>) rs ps w = state_inv c st rs ps w"
  "state_inv c (st\<lparr>st_orphaned_release_bytes := n\<rparr>) rs ps w = state_inv c st rs ps w"
  "state_inv c (st\<lparr>st_completed_demotions := n\<rparr>) rs ps w = state_inv c st rs ps w"
  "state_inv c (st\<lparr>st_completed_evictions := n\<rparr>) rs ps w = state_inv c st rs ps w"
  "state_inv c (st\<lparr>st_last_action_unix_millis := u\<rparr>) rs ps w = state_inv c st rs ps w"
  by (simp_all add: state_inv_def)

lemma failed_release_inv: "state_inv c st rs ps w \<Longrightarrow> state_inv c (snd (record_failed_release i st)) rs ps w"
  by (auto simp: record_failed_release_def intro!: modify_allocation_inv)

lemma remove_parts:
  assumes "state_inv c st rs ps w" "map_of (st_allocations st) i = Some al"
    and "i \<notin> st_pending_promotions st"
  shows "money_inv (bt_modify (alloc_tier al) (discharge (alloc_bytes al)) (st_tiers st))
           (bt_remove i (st_allocations st)) w"
    and "allocs_inv (st_tiers st) (bt_remove i (st_allocations st))"
    and "\<forall>x \<in> set rs. promise_ok (st_tiers st) (bt_remove i (st_allocations st)) x"
    and "length (bt_remove i (st_allocations st)) + card (st_pending_loads st) \<le> cfg_max_allocations c"
proof -
  have i: "money_inv (st_tiers st) (st_allocations st) w" "allocs_inv (st_tiers st) (st_allocations st)"
      "keys_inv rs (st_pending_loads st) (st_pending_promotions st)"
      "\<forall>x \<in> set rs. promise_ok (st_tiers st) (st_allocations st) x"
      "length (st_allocations st) + card (st_pending_loads st) \<le> cfg_max_allocations c"
    using assms(1) by (simp_all add: state_inv_def)
  have ok: "allocations_ok (st_allocations st)" using i(2) by (simp add: allocs_inv_def)
  show "money_inv (bt_modify (alloc_tier al) (discharge (alloc_bytes al)) (st_tiers st))
      (bt_remove i (st_allocations st)) w"
    by (rule money_inv_leave [OF i(1) alloc_bytes_ge [OF assms(2)]]) (rule alloc_bytes_remove [OF ok assms(2)])
  show "allocs_inv (st_tiers st) (bt_remove i (st_allocations st))" by (rule allocs_inv_remove [OF i(2)])
  have "i \<notin> st_pending_loads st" using promised_load [OF i(3,4)] assms(2) by force
  then show "\<forall>x \<in> set rs. promise_ok (st_tiers st) (bt_remove i (st_allocations st)) x"
    using promises_other [OF i(3,4) _ assms(3), of "bt_remove i (st_allocations st)"] by simp
  show "length (bt_remove i (st_allocations st)) + card (st_pending_loads st) \<le> cfg_max_allocations c"
  proof -
    have "length (bt_remove i (st_allocations st)) \<le> length (st_allocations st)" by (simp add: bt_remove_def)
    with i(5) show ?thesis by linarith
  qed
qed

lemma remove_allocation_inv:
  assumes "state_inv c st rs ps w"
  shows "state_inv c (snd (remove_allocation i st)) rs ps w"
proof (cases "i \<in> st_pending_actions st \<or> i \<in> st_pending_promotions st \<or> map_of (st_allocations st) i = None")
  case True
  with assms show ?thesis by (auto simp: remove_allocation_def split: option.splits)
next
  case False
  then obtain al where al: "map_of (st_allocations st) i = Some al"
    and n: "i \<notin> st_pending_promotions st" "i \<notin> st_pending_actions st" by auto
  note p = remove_parts [OF assms al n(1)]
  have h: "held_inv c (bt_modify (alloc_tier al) (discharge (alloc_bytes al)) (st_tiers st))
      (st_active_reservations st) (holds_of rs ps)"
    by (rule held_inv_other) (use assms in \<open>simp_all add: state_inv_def\<close>)
  have t: "tiers_inv c (bt_modify (alloc_tier al) (discharge (alloc_bytes al)) (st_tiers st))"
    by (rule tiers_inv_modify) (use assms in \<open>simp_all add: state_inv_def\<close>)
  have q: "permits_inv c (bt_remove i (st_allocations st)) ps (st_pending_actions st)"
    using assms n(2) by (subst permits_inv_cong) (auto simp: state_inv_def)
  show ?thesis using assms al n p h t q
    by (simp add: remove_allocation_def on_tier_def state_inv_def)
qed

lemma orphan_inv:
  assumes "state_inv c st rs ps w" "map_of (st_tiers st) t = Some a"
  shows "state_inv c (snd (record_orphaned_release t bytes st)) rs ps (w(t := w t + orphan_bytes bytes a))"
proof -
  let ?ts = "bt_modify t (charge (orphan_bytes bytes a)) (st_tiers st)"
  have "money_inv ?ts (st_allocations st) (w(t := w t + orphan_bytes bytes a))"
    using assms money_ok_orphan by (auto simp: money_inv_def state_inv_def)
  moreover have "held_inv c ?ts (st_active_reservations st) (holds_of rs ps)"
    by (rule held_inv_other) (use assms in \<open>simp_all add: state_inv_def\<close>)
  moreover have "tiers_inv c ?ts"
    by (rule tiers_inv_modify) (use assms in \<open>simp_all add: state_inv_def\<close>)
  ultimately show ?thesis using assms
    by (simp add: record_orphaned_release_def on_tier_def state_inv_def)
qed

end
