(* ===== verification/Memory_Machine.thy ===== *)
theory Memory_Machine
  imports Memory_Steps
begin

text \<open>
  Pressure action permits keep the invariant, their commits succeed, and the whole memory
  manager is an instance of the state machine contract.
\<close>

section \<open>Permits\<close>

lemma can_accept_room:
  assumes "can_accept_bytes ts t n m tp th = Some True" "valid_thresholds th" "map_of ts t = Some a"
    and "acct_budget_bytes a \<le> u64_max"
  shows "acct_managed_used_bytes a + acct_reserved_bytes a + sat_add m n < acct_budget_bytes a"
proof -
  obtain ob where h: "\<not> hard_pressure th (sat_add (account_used a ob) (sat_add m n))
      (min (acct_budget_bytes a) (obs_total_bytes ob))"
    using assms(1,3) by (auto simp: can_accept_bytes_def Let_def split: option.splits if_splits)
  show ?thesis by (rule account_used_ge [OF h assms(2)]) (use assms(4) in auto)
qed

lemma can_accept_contains: "can_accept_bytes ts t n m tp th = Some True \<Longrightarrow> bt_contains t ts"
  by (auto simp: can_accept_bytes_def bt_contains_def split: option.splits)

lemma begin_cases:
  assumes "begin_pressure_action c p st = (r, st')" "state_inv c st rs ps w" "valid_config c"
  obtains (refused) e where "r = Err e" "st' = st"
  | (evict) al t n where "r = Ok p" "p = Evict (act_id p) t n"
      "st' = st\<lparr>st_pending_actions := insert (act_id p) (st_pending_actions st)\<rparr>"
      "act_id p \<notin> st_pending_actions st" "act_id p \<notin> st_pending_promotions st"
      "map_of (st_allocations st) (act_id p) = Some al" "\<not> alloc_pinned al" "action_matches p al"
  | (demote) al a src dst n where "r = Ok p" "p = Demote (act_id p) src dst n"
      "st' = (grant dst n st)\<lparr>st_pending_actions := insert (act_id p) (st_pending_actions st)\<rparr>"
      "act_id p \<notin> st_pending_actions st" "act_id p \<notin> st_pending_promotions st"
      "map_of (st_allocations st) (act_id p) = Some al" "\<not> alloc_pinned al" "action_matches p al"
      "cfg_topology c = Discrete" "map_of (st_tiers st) dst = Some a"
      "st_active_reservations st < cfg_max_reservations c"
      "acct_managed_used_bytes a + acct_reserved_bytes a + n < acct_budget_bytes a"
  | (panic) "r = Panic" "st' = st" "cfg_topology c = Discrete" "is_demote p"
      "can_accept_bytes (st_tiers st) (act_to p) (act_bytes p) 0 (cfg_topology c) (cfg_thresholds c) = None"
proof -
  have als: "allocations_ok (st_allocations st)" and ti: "tiers_inv c (st_tiers st)"
    using assms(2) by (simp_all add: state_inv_def allocs_inv_def)
  have vt: "valid_thresholds (cfg_thresholds c)" using assms(3) by (simp add: valid_config_def)
  show ?thesis
  proof (cases p)
    case (Evict i t n)
    show ?thesis
    proof (cases r)
      case (Ok x)
      with assms(1) Evict allocations_ok_id [OF als] show ?thesis
        by (auto simp: begin_pressure_action_def Let_def intro!: that(2) split: if_splits option.splits)
    next
      case (Err e)
      with assms(1) Evict refused show ?thesis
        by (auto simp: begin_pressure_action_def Let_def split: if_splits option.splits)
    next
      case Panic
      with assms(1) Evict show ?thesis
        by (auto simp: begin_pressure_action_def Let_def split: if_splits option.splits)
    qed
  next
    case (Demote i src dst n)
    show ?thesis
    proof (cases r)
      case (Err e)
      with assms(1) Demote refused show ?thesis
        by (auto simp: begin_pressure_action_def Let_def split: if_splits option.splits bool.splits)
    next
      case Panic
      with assms(1) Demote panic show ?thesis
        by (auto simp: begin_pressure_action_def Let_def split: if_splits option.splits bool.splits)
    next
      case (Ok x)
      then obtain al where al: "map_of (st_allocations st) i = Some al" "\<not> alloc_pinned al"
          "alloc_tier al = src" "alloc_bytes al = n" "alloc_demotion_target al = Some dst"
        and o: "cfg_topology c = Discrete" "st_active_reservations st < cfg_max_reservations c"
          "i \<notin> st_pending_actions st" "i \<notin> st_pending_promotions st" "r = Ok p"
          "st' = (grant dst n st)\<lparr>st_pending_actions := insert i (st_pending_actions st)\<rparr>"
        and acc: "can_accept_bytes (st_tiers st) dst n 0 (cfg_topology c) (cfg_thresholds c) = Some True"
        using assms(1) Demote
        by (auto simp: begin_pressure_action_def Let_def grant_def on_tier_def
            split: if_splits option.splits bool.splits)
      obtain a where a: "map_of (st_tiers st) dst = Some a"
        using can_accept_contains [OF acc] by (auto simp: bt_contains_def)
      have b: "acct_budget_bytes a \<le> u64_max" by (rule budget_le_max [OF assms(3) ti a])
      have lt: "acct_managed_used_bytes a + acct_reserved_bytes a + sat_add 0 n < acct_budget_bytes a"
        by (rule can_accept_room [OF acc vt a b])
      then have "sat_add 0 n = n" using b sat_add_lt_max [of 0 n] by simp
      with lt have lt: "acct_managed_used_bytes a + acct_reserved_bytes a + n < acct_budget_bytes a" by simp
      have m: "action_matches p al" using al allocations_ok_id [OF als al(1)] Demote by simp
      show ?thesis
        by (rule demote [of src dst n al a]) (use o al m a lt Demote in simp_all)
    qed
  qed
qed

lemma permits_inv_add:
  assumes "permits_inv c als ps A" "act_id p \<notin> A" "permit_ok c als p"
  shows "permits_inv c als (p # ps) (insert (act_id p) A)"
  using assms by (auto simp: permits_inv_def)

lemma begin_inv:
  assumes "begin_pressure_action c p st = (r, st')" "state_inv c st rs ps w" "valid_config c"
  shows "case r of Ok h \<Rightarrow> state_inv c st' rs (h # ps) w | Err e \<Rightarrow> state_inv c st' rs ps w
    | Panic \<Rightarrow> state_inv c st' rs ps w"
  using assms
proof (cases rule: begin_cases)
  case (evict al t n)
  have "permit_ok c (st_allocations st) p" using evict by (simp add: permit_ok_def) (metis is_demote.simps(2))
  then have q: "permits_inv c (st_allocations st) (p # ps) (insert (act_id p) (st_pending_actions st))"
    using assms(2) evict(4) by (intro permits_inv_add) (simp_all add: state_inv_def)
  have "permit_hold p = {#}" using evict(2) by (metis permit_hold.simps(2))
  with evict q assms(2) show ?thesis by (simp add: state_inv_def)
next
  case (demote al a src dst n)
  note g = state_inv_grant_parts [OF assms(2,3) demote(10,11,12)]
  have "permit_ok c (st_allocations st) p" using demote by (simp add: permit_ok_def)
  then have q: "permits_inv c (st_allocations st) (p # ps) (insert (act_id p) (st_pending_actions st))"
    using assms(2) demote(4) by (intro permits_inv_add) (simp_all add: state_inv_def)
  have "permit_hold p = {#(dst, n)#}" using demote(2) by (metis permit_hold.simps(1))
  with demote g q assms(2) show ?thesis by (simp add: state_inv_def)
qed (use assms(2) in simp_all)

lemma drop_permit_simps [simp]:
  "st_allocations (drop_permit p st) = st_allocations st"
  "st_pending_loads (drop_permit p st) = st_pending_loads st"
  "st_pending_promotions (drop_permit p st) = st_pending_promotions st"
  "st_pending_actions (drop_permit p st) = st_pending_actions st - {act_id p}"
  by (cases p; simp add: drop_permit_def release_pressure_action_locked_def on_tier_def)+

lemma drop_permit_tiers:
  "st_tiers (drop_permit (Demote i f t n) st) = bt_modify t (unhold n) (st_tiers st)"
  "st_active_reservations (drop_permit (Demote i f t n) st) = st_active_reservations st - 1"
  "st_tiers (drop_permit (Evict i t n) st) = st_tiers st"
  "st_active_reservations (drop_permit (Evict i t n) st) = st_active_reservations st"
  by (simp_all add: drop_permit_def release_pressure_action_locked_def on_tier_def)

lemma drop_permit_held:
  assumes "state_inv c st rs ps w" "p \<in> set ps"
  shows "held_inv c (st_tiers (drop_permit p st)) (st_active_reservations (drop_permit p st))
           (holds_of rs (remove1 p ps))"
    and "tiers_inv c (st_tiers (drop_permit p st))"
    and "\<And>t. bt_contains t (st_tiers (drop_permit p st)) = bt_contains t (st_tiers st)"
    and "is_demote p \<Longrightarrow> \<exists>a. map_of (st_tiers st) (act_to p) = Some a \<and> act_bytes p \<le> acct_reserved_bytes a"
proof -
  have h: "held_inv c (st_tiers st) (st_active_reservations st) (permit_hold p + holds_of rs (remove1 p ps))"
    and t: "tiers_inv c (st_tiers st)"
    using assms holds_of_permit_use [OF assms(2)] by (simp_all add: state_inv_def)
  show "held_inv c (st_tiers (drop_permit p st)) (st_active_reservations (drop_permit p st))
      (holds_of rs (remove1 p ps))"
    using h by (cases p) (auto simp: drop_permit_tiers dest: held_inv_ungrant)
  show "tiers_inv c (st_tiers (drop_permit p st))"
    using t by (cases p) (simp_all add: drop_permit_tiers tiers_inv_modify)
  show "\<And>t. bt_contains t (st_tiers (drop_permit p st)) = bt_contains t (st_tiers st)"
    by (cases p) (simp_all add: drop_permit_tiers)
  show "is_demote p \<Longrightarrow> \<exists>a. map_of (st_tiers st) (act_to p) = Some a \<and> act_bytes p \<le> acct_reserved_bytes a"
  proof (cases p)
    case (Demote i f u n)
    then have m: "(u, n) \<in># permit_hold p + holds_of rs (remove1 p ps)" by simp
    show ?thesis using held_inv_contains [OF h m] held_inv_le [OF h m] Demote by (auto simp: bt_contains_def)
  qed simp
qed

lemma permit_given:
  assumes "state_inv c st rs ps w" "p \<in> set ps"
  obtains al where "map_of (st_allocations st) (act_id p) = Some al" "action_matches p al"
    "\<not> alloc_pinned al" "is_demote p \<Longrightarrow> cfg_topology c = Discrete"
    "act_id p \<in> st_pending_actions st" "act_id p \<notin> st_pending_promotions st"
    "bt_contains (alloc_tier al) (st_tiers st)"
    "target_ok (st_tiers st) (alloc_tier al) (alloc_demotion_target al)"
proof -
  have p: "permits_inv c (st_allocations st) ps (st_pending_actions st)"
    and a: "allocs_inv (st_tiers st) (st_allocations st)"
    and d: "st_pending_promotions st \<inter> st_pending_actions st = {}"
    using assms(1) by (simp_all add: state_inv_def)
  note q = permits_inv_in [OF p assms(2)]
  then obtain al where "map_of (st_allocations st) (act_id p) = Some al" "action_matches p al"
      "\<not> alloc_pinned al" "is_demote p \<longrightarrow> cfg_topology c = Discrete"
    by (auto simp: permit_ok_def split: option.splits)
  with q d a that show ?thesis by (auto simp: allocs_inv_def)
qed

lemma drop_permit_inv:
  assumes "state_inv c st rs ps w" "p \<in> set ps"
  shows "state_inv c (drop_permit p st) rs (remove1 p ps) w"
proof -
  note d = drop_permit_held [OF assms]
  have m: "money_inv (st_tiers (drop_permit p st)) (st_allocations st) w"
    using assms(1) by (cases p) (auto simp: drop_permit_tiers state_inv_def money_inv_unhold)
  have a: "allocs_inv (st_tiers (drop_permit p st)) (st_allocations st)"
    and r: "\<forall>r \<in> set rs. promise_ok (st_tiers (drop_permit p st)) (st_allocations st) r"
    using assms(1) by (cases p; simp add: drop_permit_tiers state_inv_def)+
  have q: "permits_inv c (st_allocations st) (remove1 p ps) (st_pending_actions st - {act_id p})"
    by (rule permits_inv_use) (use assms in \<open>simp_all add: state_inv_def\<close>)
  show ?thesis using d m a r q assms(1) by (auto simp: state_inv_def)
qed

lemma stamp_books: "books (st_tiers (stamp_action c t now u st)) = books (st_tiers st)"
  "stamp_action c t now u st = st\<lparr>st_tiers := st_tiers (stamp_action c t now u st),
     st_last_action_unix_millis := Some u\<rparr>"
proof -
  have "books (bt_modify t (\<lambda>a. a\<lparr>acct_last_action_millis := Some now\<rparr>) ts) = books ts" for ts
    by (simp add: books_def bt_modify_def ledger_of_def)
  then show "books (st_tiers (stamp_action c t now u st)) = books (st_tiers st)"
    by (simp add: stamp_action_def on_tier_def map_values_books ledger_of_def)
  show "stamp_action c t now u st = st\<lparr>st_tiers := st_tiers (stamp_action c t now u st),
     st_last_action_unix_millis := Some u\<rparr>"
    by (simp add: stamp_action_def on_tier_def)
qed

lemma stamp_inv: "state_inv c st rs ps w \<Longrightarrow> state_inv c (stamp_action c t now u st) rs ps w"
  using state_inv_books [OF stamp_books(1)] by (subst stamp_books(2)) simp

section \<open>Committing an action\<close>

lemma commit_demote_result:
  assumes "state_inv c st rs ps w" "p \<in> set ps" "p = Demote i src dst n"
    and "map_of (st_allocations st) i = Some al"
  shows "commit_demote p i src dst n al st = (Ok (),
    (on_tier dst (charge n) (on_tier src (discharge n) (drop_permit p st)))
      \<lparr>st_allocations := bt_modify i (\<lambda>al. al\<lparr>alloc_tier := dst, alloc_demotion_target := None\<rparr>)
         (st_allocations st),
       st_completed_demotions := sat_add (st_completed_demotions st) 1\<rparr>)"
proof -
  obtain al' where al': "map_of (st_allocations st) i = Some al'" "action_matches p al'"
      "bt_contains (alloc_tier al') (st_tiers st)"
      "target_ok (st_tiers st) (alloc_tier al') (alloc_demotion_target al')"
    using assms(3) by (auto intro: permit_given [OF assms(1,2)])
  then have "alloc_tier al = src" "alloc_bytes al = n" "alloc_demotion_target al = Some dst"
      "bt_contains src (st_tiers st)" "bt_contains dst (st_tiers st)"
    using assms(3,4) by (auto simp: target_ok_def)
  then show ?thesis
    using assms(3)
    by (simp add: commit_demote_def on_tier_def drop_permit_def release_pressure_action_locked_def Let_def)
qed

lemma commit_demote_inv:
  assumes "state_inv c st rs ps w" "p \<in> set ps" "p = Demote i src dst n"
    and al: "map_of (st_allocations st) i = Some al"
  shows "state_inv c (snd (commit_demote p i src dst n al st)) rs (remove1 p ps) w"
proof -
  let ?f = "\<lambda>al. al\<lparr>alloc_tier := dst, alloc_demotion_target := None\<rparr>"
  let ?als = "bt_modify i ?f (st_allocations st)"
  let ?ts = "bt_modify dst (charge n) (bt_modify src (discharge n) (bt_modify dst (unhold n) (st_tiers st)))"
  have i0: "act_id p = i" using assms(3) by simp
  have dp: "st_tiers (drop_permit p st) = bt_modify dst (unhold n) (st_tiers st)"
      "st_active_reservations (drop_permit p st) = st_active_reservations st - 1"
    using assms(3) by (simp_all add: drop_permit_tiers)
  note d = drop_permit_held [OF assms(1,2), unfolded dp]
  obtain al' where g: "map_of (st_allocations st) i = Some al'" "action_matches p al'"
      "i \<in> st_pending_actions st" "i \<notin> st_pending_promotions st"
      "target_ok (st_tiers st) (alloc_tier al') (alloc_demotion_target al')"
    using assms(3) by (auto intro: permit_given [OF assms(1,2)])
  then have m: "alloc_tier al = src" "alloc_bytes al = n" "alloc_demotion_target al = Some dst"
      "src \<noteq> Host" "dst = Host" "bt_contains dst (st_tiers st)"
    using assms(3) al by (auto simp: target_ok_def)
  have i: "money_inv (st_tiers st) (st_allocations st) w" "allocs_inv (st_tiers st) (st_allocations st)"
      "permits_inv c (st_allocations st) ps (st_pending_actions st)"
      "keys_inv rs (st_pending_loads st) (st_pending_promotions st)"
      "\<forall>x \<in> set rs. promise_ok (st_tiers st) (st_allocations st) x"
    using assms(1) by (simp_all add: state_inv_def)
  have ok: "allocations_ok (st_allocations st)" using i(2) by (simp add: allocs_inv_def)
  obtain a where a: "map_of (st_tiers st) dst = Some a" "n \<le> acct_reserved_bytes a"
    using d(4) assms(3) by auto
  have t: "tiers_inv c ?ts" by (intro tiers_inv_modify d(2)) simp_all
  have h: "held_inv c ?ts (st_active_reservations st - 1) (holds_of rs (remove1 p ps))"
    by (intro held_inv_other d(1)) simp_all
  have mo: "money_inv ?ts ?als w"
  proof (rule money_inv_move [OF i(1) a])
    show "src \<noteq> dst" using m by simp
    show "n \<le> alloc_bytes_on (st_allocations st) src" using alloc_bytes_ge [OF al] m by simp
    show "alloc_bytes_on ?als u = (if u = dst then alloc_bytes_on (st_allocations st) u + n
        else if u = src then alloc_bytes_on (st_allocations st) u - n
        else alloc_bytes_on (st_allocations st) u)" for u
      using alloc_bytes_retarget [OF ok al, of dst ?f u] m by simp
  qed
  have al': "allocs_inv ?ts ?als"
    by (rule allocs_inv_modify_value) (use i(2) m(6) in \<open>auto simp: target_ok_def\<close>)
  have "i \<notin> st_pending_loads st" using promised_load [OF i(4,5)] al by force
  then have pr: "\<forall>x \<in> set rs. promise_ok ?ts ?als x"
    using promises_other [OF i(4,5) _ g(4), of ?als] by simp
  have pe: "permits_inv c ?als (remove1 p ps) (st_pending_actions st - {i})"
    using permits_inv_use [OF i(3) assms(2)] assms(3)
    by (subst permits_inv_cong [where als = "st_allocations st"]) auto
  show ?thesis
    using t h mo al' pr pe assms(1) i0
    unfolding commit_demote_result [OF assms] state_inv_def snd_conv on_tier_def
    by (auto simp: dp)
qed

lemma commit_evict_result:
  assumes "state_inv c st rs ps w" "p \<in> set ps" "p = Evict i t n"
    and "map_of (st_allocations st) i = Some al"
  shows "commit_evict p i t n al st = (Ok (),
    (on_tier t (discharge n) (drop_permit p st))
      \<lparr>st_allocations := bt_remove i (st_allocations st),
       st_pending_promotions := st_pending_promotions st - {i},
       st_completed_evictions := sat_add (st_completed_evictions st) 1\<rparr>)"
proof -
  obtain al' where al': "map_of (st_allocations st) i = Some al'" "action_matches p al'"
      "bt_contains (alloc_tier al') (st_tiers st)"
    using assms(3) by (auto intro: permit_given [OF assms(1,2)])
  then have "alloc_tier al = t" "alloc_bytes al = n" "bt_contains t (st_tiers st)"
    using assms(3,4) by auto
  then show ?thesis
    using assms(3)
    by (simp add: commit_evict_def on_tier_def drop_permit_def release_pressure_action_locked_def Let_def)
qed

lemma commit_evict_inv:
  assumes "state_inv c st rs ps w" "p \<in> set ps" "p = Evict i t n"
    and al: "map_of (st_allocations st) i = Some al"
  shows "state_inv c (snd (commit_evict p i t n al st)) rs (remove1 p ps) w"
proof -
  have i0: "act_id p = i" using assms(3) by simp
  have dp: "st_tiers (drop_permit p st) = st_tiers st"
      "st_active_reservations (drop_permit p st) = st_active_reservations st"
    using assms(3) by (simp_all add: drop_permit_tiers)
  obtain al' where g: "map_of (st_allocations st) i = Some al'" "action_matches p al'"
      "i \<notin> st_pending_promotions st"
    using assms(3) by (auto intro: permit_given [OF assms(1,2)])
  then have m: "alloc_tier al = t" "alloc_bytes al = n" using assms(3) al by auto
  note d = drop_permit_held [OF assms(1,2), unfolded dp]
  note r = remove_parts [OF assms(1) al g(3)]
  have t: "tiers_inv c (bt_modify t (discharge n) (st_tiers st))"
    by (rule tiers_inv_modify [OF _ d(2)]) simp
  have h: "held_inv c (bt_modify t (discharge n) (st_tiers st)) (st_active_reservations st)
      (holds_of rs (remove1 p ps))"
    by (rule held_inv_other [OF _ _ d(1)]) simp_all
  have i: "permits_inv c (st_allocations st) ps (st_pending_actions st)"
    using assms(1) by (simp add: state_inv_def)
  have pe: "permits_inv c (bt_remove i (st_allocations st)) (remove1 p ps) (st_pending_actions st - {i})"
    using permits_inv_use [OF i assms(2)] assms(3)
    by (subst permits_inv_cong [where als = "st_allocations st"]) auto
  show ?thesis
    using t h r m pe g(3) assms(1) i0
    unfolding commit_evict_result [OF assms] state_inv_def snd_conv on_tier_def
    by (auto simp: dp)
qed

lemma commit_permit_ok:
  assumes "state_inv c st rs ps w" "p \<in> set ps"
  shows "fst (commit_permit c p now u st) = Ok ()"
    and "state_inv c (snd (commit_permit c p now u st)) rs (remove1 p ps) w"
proof -
  obtain al where g: "map_of (st_allocations st) (act_id p) = Some al" "act_id p \<in> st_pending_actions st"
    by (auto intro: permit_given [OF assms])
  show "fst (commit_permit c p now u st) = Ok ()"
    using g commit_demote_result [OF assms] commit_evict_result [OF assms]
    by (cases p) (simp_all add: commit_permit_def)
  show "state_inv c (snd (commit_permit c p now u st)) rs (remove1 p ps) w"
    using g commit_demote_result [OF assms] commit_evict_result [OF assms]
      stamp_inv [OF commit_demote_inv [OF assms]] stamp_inv [OF commit_evict_inv [OF assms]]
    by (cases p) (simp_all add: commit_permit_def)
qed

section \<open>The initial world\<close>

definition install :: "accounts \<Rightarrow> tier_budget list \<Rightarrow> accounts" where
  "install m bs = foldl (\<lambda>m b. bt_insert (tb_tier b) (new_account b) m) m bs"

lemma install_simps [simp]:
  "install m [] = m" "install m (b # bs) = install (bt_insert (tb_tier b) (new_account b) m) bs"
  by (simp_all add: install_def)

lemma install_wf: "bt_wf m \<Longrightarrow> bt_wf (install m bs)"
  by (induction bs arbitrary: m) (simp_all add: bt_wf_insert)

lemma install_absent: "t \<notin> tb_tier ` set bs \<Longrightarrow> map_of (install m bs) t = map_of m t"
  by (induction bs arbitrary: m) auto

lemma install_lookup:
  assumes "distinct (map tb_tier bs)"
  shows "map_of (install m bs) t =
    (case map_of (map (\<lambda>b. (tb_tier b, tb_bytes b)) bs) t of None \<Rightarrow> map_of m t
     | Some n \<Rightarrow> Some (new_account \<lparr>tb_tier = t, tb_bytes = n\<rparr>))"
  using assms
proof (induction bs arbitrary: m)
  case (Cons b bs)
  show ?case
  proof (cases "tb_tier b = t")
    case True
    then have "t \<notin> tb_tier ` set bs" using Cons.prems by auto
    with True show ?thesis by (simp add: install_absent new_account_def)
  next
    case False
    with Cons show ?thesis by (auto split: option.splits)
  qed
qed simp

lemma manager_new_tiers: "st_tiers (manager_new c) = install [] (cfg_budgets c)"
  by (simp add: manager_new_def install_def)

lemma initial_lookup:
  "valid_config c \<Longrightarrow> map_of (st_tiers (manager_new c)) t =
     map_option (\<lambda>n. new_account \<lparr>tb_tier = t, tb_bytes = n\<rparr>) (budget_of c t)"
  by (simp add: manager_new_tiers install_lookup valid_config_def budget_of_def split: option.split)

lemma mem_inv_init:
  assumes "valid_config c"
  shows "mem_inv c (memory_world_new c)"
proof -
  have f: "st_allocations (manager_new c) = []" "st_pending_loads (manager_new c) = {}"
      "st_pending_promotions (manager_new c) = {}" "st_pending_actions (manager_new c) = {}"
      "st_active_reservations (manager_new c) = 0"
    by (simp_all add: manager_new_def)
  note l = initial_lookup [OF assms]
  have "tiers_inv c (st_tiers (manager_new c))"
    by (auto simp: tiers_inv_def l new_account_def manager_new_tiers [symmetric] option.map_comp comp_def option.map_ident)
      (simp add: manager_new_tiers install_wf)
  moreover have "held_inv c (st_tiers (manager_new c)) 0 {#}"
    by (auto simp: held_inv_def l new_account_def)
  moreover have "money_inv (st_tiers (manager_new c)) [] (\<lambda>_. 0)"
    by (auto simp: money_inv_def money_ok_def l new_account_def alloc_bytes_on_def)
  ultimately show ?thesis
    by (simp add: mem_inv_def state_inv_def memory_world_new_def f keys_inv_empty allocs_inv_def
        allocations_ok_def permits_inv_def)
qed

section \<open>Every step\<close>

lemma with_refresh_inv:
  assumes "state_inv c st rs ps w" "\<And>st1. snd (k st1) = st1"
  shows "state_inv c (snd (with_refresh c ob st k)) rs ps w"
proof -
  obtain r st' where e: "with_refresh c ob st k = (r, st')" by fastforce
  then show ?thesis
  proof (cases rule: with_refresh_cases)
    case (refreshed st1)
    have "st' = st1" using refreshed(4) assms(2) [of st1] by simp
    with e state_inv_refresh [OF assms(1) refreshed(1,2)] show ?thesis by simp
  qed (use e assms(1) in simp_all)
qed

lemma add_reservation_inv:
  assumes "mem_inv c w"
    and "case r of Ok h \<Rightarrow> state_inv c st (h # mw_reservations w) (mw_permits w) (mw_orphans w)
         | Err e \<Rightarrow> state_inv c st (mw_reservations w) (mw_permits w) (mw_orphans w) | Panic \<Rightarrow> False"
  shows "mem_inv c (add_reservation w (r, st))"
  using assms by (cases r) (simp_all add: mem_inv_def with_state_def)

lemma add_permit_inv:
  assumes "mem_inv c w"
    and "case r of Ok h \<Rightarrow> state_inv c st (mw_reservations w) (h # mw_permits w) (mw_orphans w)
         | Err e \<Rightarrow> state_inv c st (mw_reservations w) (mw_permits w) (mw_orphans w)
         | Panic \<Rightarrow> state_inv c st (mw_reservations w) (mw_permits w) (mw_orphans w)"
  shows "mem_inv c (add_permit w (r, st))"
  using assms by (cases r) (simp_all add: mem_inv_def with_state_def)

lemma use_reservation_inv:
  assumes "mem_inv c w"
    and "r \<in> set (mw_reservations w) \<Longrightarrow>
      state_inv c st (remove1 r (mw_reservations w)) (mw_permits w) (mw_orphans w)"
  shows "mem_inv c (use_reservation w r st)"
  using assms by (simp add: use_reservation_def mem_inv_def with_state_def)

lemma use_permit_inv:
  assumes "mem_inv c w"
    and "p \<in> set (mw_permits w) \<Longrightarrow>
      state_inv c st (mw_reservations w) (remove1 p (mw_permits w)) (mw_orphans w)"
  shows "mem_inv c (use_permit w p st)"
  using assms by (simp add: use_permit_def mem_inv_def with_state_def)

lemma with_state_inv:
  "state_inv c st (mw_reservations w) (mw_permits w) (mw_orphans w) \<Longrightarrow> mem_inv c (with_state w st)"
  by (simp add: mem_inv_def with_state_def)

lemma telemetry_panic_state: "with_refresh c Panic st k = (Panic, st)"
  by (simp add: with_refresh_def sample_telemetry_def)

lemma reserving_step_inv:
  assumes "valid_config c" "mem_inv c w"
  shows "mem_inv c (add_reservation w (reserve_load c ob i t n pin target (mw_state w)))"
    and "mem_inv c (add_reservation w (reserve_promotion c ob i t (mw_state w)))"
proof -
  have s: "state_inv c (mw_state w) (mw_reservations w) (mw_permits w) (mw_orphans w)"
    using assms(2) by (simp add: mem_inv_def)
  obtain r st where e: "reserve_load c ob i t n pin target (mw_state w) = (r, st)" by fastforce
  obtain r' st' where e': "reserve_promotion c ob i t (mw_state w) = (r', st')" by fastforce
  show "mem_inv c (add_reservation w (reserve_load c ob i t n pin target (mw_state w)))"
  proof (cases "ob = Panic")
    case True
    then show ?thesis using assms(2) by (simp add: reserve_load_def telemetry_panic_state with_state_def)
  next
    case False
    show ?thesis unfolding e by (rule add_reservation_inv [OF assms(2) reserve_load_inv [OF e s assms(1) False]])
  qed
  show "mem_inv c (add_reservation w (reserve_promotion c ob i t (mw_state w)))"
  proof (cases "ob = Panic")
    case True
    then show ?thesis using assms(2) by (simp add: reserve_promotion_def telemetry_panic_state with_state_def)
  next
    case False
    show ?thesis unfolding e'
      by (rule add_reservation_inv [OF assms(2) reserve_promotion_inv [OF e' s assms(1) False]])
  qed
qed

lemma mem_step_inv:
  assumes v: "valid_config c" and i: "mem_inv c w"
  shows "mem_inv c (mem_step c w e)"
proof -
  have s: "state_inv c (mw_state w) (mw_reservations w) (mw_permits w) (mw_orphans w)"
    using i by (simp add: mem_inv_def)
  show ?thesis
  proof (cases e)
    case (EvRefresh ob now)
    have "state_inv c (snd (mm_refresh c ob now (mw_state w))) (mw_reservations w) (mw_permits w) (mw_orphans w)"
      unfolding mm_refresh_def by (rule with_refresh_inv [OF s]) (simp split: option.split)
    with EvRefresh show ?thesis by (simp add: with_state_inv)
  next
    case (EvPlan ob now t n el)
    have "state_inv c (snd (plan_pressure_actions_for c ob now t n el (mw_state w)))
        (mw_reservations w) (mw_permits w) (mw_orphans w)"
      unfolding plan_pressure_actions_for_def by (rule with_refresh_inv [OF s]) simp
    with EvPlan show ?thesis by (simp add: with_state_inv)
  next
    case (EvBegin p)
    obtain r st where e: "begin_pressure_action c p (mw_state w) = (r, st)" by fastforce
    show ?thesis unfolding EvBegin mem_step.simps e by (rule add_permit_inv [OF i begin_inv [OF e s v]])
  next
    case (EvOrphanedRelease t b)
    with i orphan_inv [OF s] show ?thesis
      by (auto simp: charge_orphan_def mem_inv_def split: option.splits)
  qed (use reserving_step_inv [OF v i] touch_inv [OF s] set_pinned_inv [OF s] failed_release_inv [OF s]
        remove_allocation_inv [OF s] commit_any_inv [OF s] drop_reservation_inv [OF s]
        commit_permit_ok [OF s] drop_permit_inv [OF s]
      in \<open>simp_all add: with_state_inv use_reservation_inv [OF i] use_permit_inv [OF i]\<close>)
qed

interpretation memory: state_machine "memory_world_new c" "mem_step c" "\<lambda>w. valid_config c \<longrightarrow> mem_inv c w"
  for c
  by unfold_locales (auto intro: mem_inv_init mem_step_inv)

text \<open>The worlds a sequence of events leads to.\<close>

definition memory_run :: "manager_config \<Rightarrow> memory_event list \<Rightarrow> memory_world" where
  "memory_run c es = run (mem_step c) (memory_world_new c) es"

lemma memory_run_inv: "valid_config c \<Longrightarrow> mem_inv c (memory_run c es)"
  using memory.run_inv [of c es] by (simp add: memory_run_def)

lemma memory_run_state:
  "valid_config c \<Longrightarrow> state_inv c (mw_state (memory_run c es)) (mw_reservations (memory_run c es))
     (mw_permits (memory_run c es)) (mw_orphans (memory_run c es))"
  using memory_run_inv by (simp add: mem_inv_def)

end
