(* ===== verification/Memory_Contract.thy ===== *)
theory Memory_Contract
  imports Memory_Machine
begin

text \<open>
  Supporting lemmas for the memory manager's properties: the planner agrees with admission
  (all actions of a plan can be begun in order), the relief it plans reaches the target, and
  a small configuration on which the definitions are evaluated.
\<close>

section \<open>Panic freedom of admission\<close>

lemma can_accept_discrete: "tp \<noteq> Unified \<Longrightarrow> can_accept_bytes ts t n m tp th \<noteq> None"
  by (auto simp: can_accept_bytes_def Let_def split: option.splits)

lemma begin_no_panic:
  "state_inv c st rs ps w \<Longrightarrow> valid_config c \<Longrightarrow> fst (begin_pressure_action c p st) \<noteq> Panic"
proof -
  assume i: "state_inv c st rs ps w" and v: "valid_config c"
  obtain r st' where e: "begin_pressure_action c p st = (r, st')" by fastforce
  from e i v have "r \<noteq> Panic"
  proof (cases rule: begin_cases)
    case panic
    then have "cfg_topology c \<noteq> Unified" by simp
    from can_accept_discrete [OF this] panic(5) show ?thesis by blast
  qed simp_all
  with e show ?thesis by simp
qed

lemma refresh_no_panic: "ob \<noteq> Panic \<Longrightarrow> fst (mm_refresh c ob u st) \<noteq> Panic"
proof -
  assume ob: "ob \<noteq> Panic"
  obtain r st' where e: "mm_refresh c ob u st = (r, st')" by fastforce
  from e have "r \<noteq> Panic" unfolding mm_refresh_def
  proof (cases rule: with_refresh_cases)
    case telemetry_panic
    with sample_telemetry_no_panic [OF ob] show ?thesis by blast
  next
    case (refreshed st1)
    with snapshot_after_refresh [OF observed_soundD [OF refreshed(3)], of u "cfg_topology c"]
    show ?thesis by (auto split: option.splits)
  qed simp
  with e show ?thesis by simp
qed

lemma plan_cases:
  assumes "plan_pressure_actions_for c ob now t n el st = (r, st')" "ob \<noteq> Panic"
  obtains (error) e where "r = Err e"
  | (planned) plan where "r = Ok plan" "plan_in_state c now t n el st' = Ok plan"
      "books (st_tiers st') = books (st_tiers st)" "st' = st\<lparr>st_tiers := st_tiers st'\<rparr>"
      "observed_sound (st_tiers st')"
  using assms(1) unfolding plan_pressure_actions_for_def
proof (cases rule: with_refresh_cases)
  case (telemetry_error e)
  with error show ?thesis by blast
next
  case telemetry_panic
  with sample_telemetry_no_panic [OF assms(2)] show ?thesis by blast
next
  case (refreshed st1)
  from refreshed(4) have e: "plan_in_state c now t n el st1 = r" "st' = st1" by auto
  show ?thesis
  proof (cases r)
    case (Ok plan)
    with e refreshed planned show ?thesis by metis
  next
    case Panic
    with e plan_in_state_no_panic [OF observed_soundD [OF refreshed(3)]] show ?thesis by blast
  qed (use error in blast)
qed

section \<open>A plan can be begun\<close>

fun accepts :: "manager_config \<Rightarrow> accounts \<Rightarrow> (memory_tier \<Rightarrow> nat) \<Rightarrow> pressure_action list \<Rightarrow> bool" where
  "accepts c ts m [] \<longleftrightarrow> True"
| "accepts c ts m (Demote i f t n # as) \<longleftrightarrow>
     can_accept_bytes ts t n (m t) (cfg_topology c) (cfg_thresholds c) = Some True
     \<and> accepts c ts (m(t := sat_add (m t) n)) as"
| "accepts c ts m (Evict i t n # as) \<longleftrightarrow> accepts c ts m as"

lemma planned_for_push:
  "planned_for (push_action a (p\<lparr>pg_incoming := bt_insert t x (pg_incoming p)\<rparr>)) =
     (planned_for p)(t := x)"
  by (auto simp: planned_for_def push_action_def)

lemma push_actions [simp]: "pg_actions (push_action a p) = pg_actions p @ [a]"
  by (simp add: push_action_def)

lemma demote_loop_accepts:
  "demote_loop c ts tier req als p = Some p' \<Longrightarrow>
     \<exists>D. pg_actions p' = pg_actions p @ D \<and> accepts c ts (planned_for p) D"
proof (induction c ts tier req als p arbitrary: p' rule: demote_loop.induct)
  case (2 c ts tier req al als p)
  show ?case
  proof (cases "plan_full c req p")
    case True
    with 2 show ?thesis by auto
  next
    case False
    then obtain t b where t: "alloc_demotion_target al = Some t"
      and b: "can_accept_bytes ts t (alloc_bytes al) (planned_for p t) (cfg_topology c) (cfg_thresholds c) = Some b"
      using "2.prems" by (auto split: option.splits)
    show ?thesis
    proof (cases b)
      case True
      let ?p = "push_action (Demote (alloc_id al) tier t (alloc_bytes al))
          (p\<lparr>pg_incoming := bt_insert t (sat_add (planned_for p t) (alloc_bytes al)) (pg_incoming p)\<rparr>)"
      have l: "demote_loop c ts tier req als ?p = Some p'" using "2.prems" False t b True by simp
      obtain D where D: "pg_actions p' = pg_actions ?p @ D" "accepts c ts (planned_for ?p) D"
        using "2.IH"(1) [OF False t b _ l] True by auto
      have "accepts c ts (planned_for p) (Demote (alloc_id al) tier t (alloc_bytes al) # D)"
        using D(2) b True by (simp add: planned_for_push)
      with D(1) show ?thesis by auto
    next
      case nb: False
      have l: "demote_loop c ts tier req als p = Some p'" using "2.prems" False t b nb by simp
      show ?thesis using "2.IH"(2) [OF False t b _ l] nb by auto
    qed
  qed
qed auto

lemma accepts_evictions: "\<forall>a \<in> set as. \<not> is_demote a \<Longrightarrow> accepts c ts m as"
  by (induction c ts m as rule: accepts.induct) auto

lemma accepts_append_evictions:
  "\<forall>a \<in> set bs. \<not> is_demote a \<Longrightarrow> accepts c ts m (as @ bs) = accepts c ts m as"
  by (induction c ts m as rule: accepts.induct) (auto simp: accepts_evictions)

lemma evict_loop_evicts:
  "\<exists>E. pg_actions (evict_loop c req als p) = pg_actions p @ E \<and> (\<forall>a \<in> set E. \<not> is_demote a)"
proof (induction c req als p rule: evict_loop.induct)
  case (2 c req al als p)
  show ?case
  proof (cases "plan_full c req p \<or> alloc_id al \<in> pg_ids p")
    case True
    with 2 show ?thesis by auto
  next
    case False
    then obtain E where E: "pg_actions (evict_loop c req als
          (push_action (Evict (alloc_id al) (alloc_tier al) (alloc_bytes al)) p)) =
        pg_actions p @ Evict (alloc_id al) (alloc_tier al) (alloc_bytes al) # E" "\<forall>a \<in> set E. \<not> is_demote a"
      using "2.IH"(2) by auto
    then show ?thesis using False
      by (intro exI [of _ "Evict (alloc_id al) (alloc_tier al) (alloc_bytes al) # E"]) simp
  qed
qed auto

lemma select_actions_accepts:
  assumes "select_actions c tier el req st = Some p"
  shows "accepts c (st_tiers st) (\<lambda>_. 0) (pg_actions p)"
    and "cfg_topology c \<noteq> Discrete \<Longrightarrow> \<forall>a \<in> set (pg_actions p). \<not> is_demote a"
proof -
  obtain p0 where p0: "p = evict_loop c req (candidates c tier el st) p0"
    and d: "(if cfg_topology c = Discrete then demote_loop c (st_tiers st) tier req
        (filter (\<lambda>al. alloc_demotion_target al \<noteq> None) (candidates c tier el st)) no_progress
        else Some no_progress) = Some p0"
    using assms unfolding select_actions_def map_option_eq_Some by metis
  obtain E where E: "pg_actions p = pg_actions p0 @ E" "\<forall>a \<in> set E. \<not> is_demote a"
    using evict_loop_evicts p0 by metis
  have n: "planned_for no_progress = (\<lambda>_. 0)" "pg_actions no_progress = []"
    by (auto simp: planned_for_def no_progress_def)
  have "accepts c (st_tiers st) (\<lambda>_. 0) (pg_actions p0)"
    using d n by (cases "cfg_topology c = Discrete") (auto dest: demote_loop_accepts)
  with E show "accepts c (st_tiers st) (\<lambda>_. 0) (pg_actions p)" by (simp add: accepts_append_evictions)
  show "cfg_topology c \<noteq> Discrete \<Longrightarrow> \<forall>a \<in> set (pg_actions p). \<not> is_demote a"
    using d n E by auto
qed

text \<open>Accounts that differ by holds of \<open>m t\<close> bytes on each tier.\<close>

definition held_more :: "accounts \<Rightarrow> (memory_tier \<Rightarrow> nat) \<Rightarrow> accounts \<Rightarrow> bool" where
  "held_more ts m ts' \<longleftrightarrow> (\<forall>t a. map_of ts t = Some a \<longrightarrow>
     (\<exists>a'. map_of ts' t = Some a' \<and> acct_budget_bytes a' = acct_budget_bytes a
        \<and> acct_managed_used_bytes a' = acct_managed_used_bytes a
        \<and> acct_observation a' = acct_observation a
        \<and> acct_reserved_bytes a' = acct_reserved_bytes a + m t))"

lemma can_accept_held:
  assumes acc: "can_accept_bytes ts t n (m t) Discrete th = Some True" and h: "held_more ts m ts'"
    and v: "valid_thresholds th" and b: "\<And>a. map_of ts t = Some a \<Longrightarrow> acct_budget_bytes a \<le> u64_max"
  shows "can_accept_bytes ts' t n 0 Discrete th = Some True"
    and "held_more ts (m(t := sat_add (m t) n)) (bt_modify t (hold n) ts')"
proof -
  obtain a where a: "map_of ts t = Some a"
    using can_accept_contains [OF acc] by (auto simp: bt_contains_def)
  obtain ob where ob: "acct_observation a = Some ob"
    and av: "\<not> sat_add (acct_reserved_bytes a) (sat_add (m t) n) > obs_available_bytes ob"
    and hp: "\<not> hard_pressure th (sat_add (account_used a ob) (sat_add (m t) n))
        (min (acct_budget_bytes a) (obs_total_bytes ob))"
    using acc a by (auto simp: can_accept_bytes_def Let_def split: option.splits if_splits)
  obtain a' where a': "map_of ts' t = Some a'" "acct_budget_bytes a' = acct_budget_bytes a"
      "acct_managed_used_bytes a' = acct_managed_used_bytes a" "acct_observation a' = acct_observation a"
      "acct_reserved_bytes a' = acct_reserved_bytes a + m t"
    using h a by (auto simp: held_more_def)
  have room: "acct_managed_used_bytes a + acct_reserved_bytes a + sat_add (m t) n < acct_budget_bytes a"
    by (rule can_accept_room [OF acc v a b [OF a]])
  then have e: "sat_add (m t) n = m t + n" using b [OF a] by (intro sat_add_lt_max) simp
  have lt: "sat_add (account_used a ob) (m t + n) < acct_budget_bytes a"
    using not_hard_below_budget [OF v] hp e unfolding hard_pressure_def by fastforce
  then have e2: "sat_add (account_used a ob) (m t + n) = account_used a ob + (m t + n)"
    using b [OF a] by (intro sat_add_lt_max) simp
  then have e3: "account_used a ob = max (observed_used ob) (acct_managed_used_bytes a) + acct_reserved_bytes a"
    using lt b [OF a] unfolding account_used_def by (intro sat_add_lt_max) simp
  have u: "account_used a' ob = account_used a ob + m t"
    using e2 e3 lt b [OF a] a' by (simp add: account_used_def sat_add_exact)
  have e4: "sat_add (account_used a' ob) n = sat_add (account_used a ob) (m t + n)"
    using u by (simp add: sat_add_def add.assoc)
  have s: "sat_add 0 n = n" "sat_add (sat_add (acct_managed_used_bytes a) (acct_reserved_bytes a + m t)) n
      = acct_managed_used_bytes a + acct_reserved_bytes a + m t + n"
      "sat_add (acct_reserved_bytes a + m t) n = acct_reserved_bytes a + m t + n"
    using room e b [OF a] by (simp_all add: sat_add_exact)
  show "can_accept_bytes ts' t n 0 Discrete th = Some True"
    using a' ob av hp e e4 s room
    by (simp add: can_accept_bytes_def Let_def sat_add_exact sat_add_def)
  show "held_more ts (m(t := sat_add (m t) n)) (bt_modify t (hold n) ts')"
    using h a a' s e by (auto simp: held_more_def)
qed

text \<open>Beginning every action of a list, in order.\<close>

fun begin_all :: "manager_config \<Rightarrow> pressure_action list \<Rightarrow> manager_state \<Rightarrow> manager_state option" where
  "begin_all c [] st = Some st"
| "begin_all c (a # as) st =
     (case begin_pressure_action c a st of
        (Ok _, st') \<Rightarrow> begin_all c as st'
      | _ \<Rightarrow> None)"

definition action_ready :: "manager_config \<Rightarrow> manager_state \<Rightarrow> pressure_action \<Rightarrow> bool" where
  "action_ready c st a \<longleftrightarrow>
     (\<exists>al. map_of (st_allocations st) (act_id a) = Some al \<and> action_matches a al \<and> \<not> alloc_pinned al)
     \<and> act_id a \<notin> st_pending_actions st \<and> act_id a \<notin> st_pending_promotions st
     \<and> (is_demote a \<longrightarrow> cfg_topology c = Discrete)"

lemma begin_all_ok:
  assumes "\<forall>a \<in> set as. action_ready c st a" "distinct (map act_id as)"
    and "accepts c ts m as" "held_more ts m (st_tiers st)" "valid_thresholds (cfg_thresholds c)"
    and "\<And>t a. map_of ts t = Some a \<Longrightarrow> acct_budget_bytes a \<le> u64_max"
    and "st_active_reservations st + length (filter is_demote as) \<le> cfg_max_reservations c"
    and "cfg_max_reservations c \<le> u64_max"
  shows "begin_all c as st \<noteq> None"
  using assms
proof (induction as arbitrary: st m)
  case (Cons a as)
  have ready: "action_ready c st a" using Cons.prems(1) by simp
  then obtain al where al: "map_of (st_allocations st) (act_id a) = Some al" "action_matches a al"
      "\<not> alloc_pinned al" "act_id a \<notin> st_pending_actions st" "act_id a \<notin> st_pending_promotions st"
    by (auto simp: action_ready_def)
  have others: "act_id b \<noteq> act_id a" if "b \<in> set as" for b
    using Cons.prems(2) imageI [OF that, of act_id] by auto
  show ?case
  proof (cases a)
    case (Evict i t n)
    let ?st = "st\<lparr>st_pending_actions := insert i (st_pending_actions st)\<rparr>"
    have "begin_pressure_action c a st = (Ok a, ?st)"
      using al Evict by (auto simp: begin_pressure_action_def Let_def)
    moreover have "begin_all c as ?st \<noteq> None"
      by (rule Cons.IH [of ?st m]) (use Cons.prems others Evict in \<open>auto simp: action_ready_def\<close>)
    ultimately show ?thesis by simp
  next
    case (Demote i s t n)
    let ?st = "(grant t n st)\<lparr>st_pending_actions := insert i (st_pending_actions st)\<rparr>"
    have disc: "cfg_topology c = Discrete" using ready Demote by (simp add: action_ready_def)
    have acc: "can_accept_bytes ts t n (m t) Discrete (cfg_thresholds c) = Some True"
      using Cons.prems(3) Demote disc by simp
    note ch = can_accept_held [OF acc Cons.prems(4,5) Cons.prems(6)]
    have act: "st_active_reservations st < cfg_max_reservations c" using Cons.prems(7) Demote by simp
    have "begin_pressure_action c a st = (Ok a, ?st)"
      using al Demote disc act ch(1) can_accept_contains [OF ch(1)]
      by (auto simp: begin_pressure_action_def grant_def on_tier_def Let_def)
    moreover have "begin_all c as ?st \<noteq> None"
    proof (rule Cons.IH [of ?st "m(t := sat_add (m t) n)"])
      show "\<forall>a \<in> set as. action_ready c ?st a"
        using Cons.prems(1) others Demote by (auto simp: action_ready_def)
      show "held_more ts (m(t := sat_add (m t) n)) (st_tiers ?st)" using ch(2) by simp
      show "st_active_reservations ?st + length (filter is_demote as) \<le> cfg_max_reservations c"
        using Cons.prems(7,8) Demote by (simp add: sat_add_exact)
      show "accepts c ts (m(t := sat_add (m t) n)) as" using Cons.prems(3) Demote by simp
    qed (use Cons.prems in auto)
    ultimately show ?thesis by simp
  qed
qed simp

text \<open>Beginning a demotion takes a reservation, so the limit must leave room for all of them.\<close>

lemma begin_all_active:
  assumes "begin_all c as st = Some st'" "st_active_reservations st \<le> cfg_max_reservations c"
    and "cfg_max_reservations c \<le> u64_max"
  shows "st_active_reservations st + length (filter is_demote as) \<le> cfg_max_reservations c"
  using assms
proof (induction as arbitrary: st)
  case (Cons a as)
  then obtain b st1 where b: "begin_pressure_action c a st = (Ok b, st1)" "begin_all c as st1 = Some st'"
    by (auto split: prod.splits res.splits)
  show ?case
  proof (cases a)
    case (Demote i s t n)
    with b(1) have st1: "st_active_reservations st < cfg_max_reservations c"
        "st_active_reservations st1 = sat_add (st_active_reservations st) 1"
      by (auto simp: begin_pressure_action_def on_tier_def Let_def split: if_splits option.splits bool.splits)
    then have "st_active_reservations st1 = st_active_reservations st + 1"
      using Cons.prems(3) by (simp add: sat_add_exact)
    with Cons.IH [OF b(2) _ Cons.prems(3)] st1(1) Demote show ?thesis by simp
  next
    case (Evict i t n)
    with b(1) have "st_active_reservations st1 = st_active_reservations st"
      by (auto simp: begin_pressure_action_def Let_def split: if_splits option.splits)
    with Cons.IH [OF b(2) _ Cons.prems(3)] Cons.prems(2) Evict show ?thesis by simp
  qed
qed simp

section \<open>Plans of a reachable state\<close>

text \<open>
  The bytes a plan must free: what the tier uses and what is requested, above the utilisation
  that relief aims at. Nothing is required while neither pressure nor a request sets an aim.
\<close>

definition required_relief :: "manager_config \<Rightarrow> memory_tier \<Rightarrow> nat \<Rightarrow> manager_state \<Rightarrow> nat" where
  "required_relief c tier requested st =
     (case map_of (st_tiers st) tier of
        None \<Rightarrow> 0
      | Some a \<Rightarrow>
         (case plan_target_basis_points (cfg_thresholds c) (acct_pressure a) requested of
            None \<Rightarrow> 0
          | Some target \<Rightarrow>
             (case effective_accounting (st_tiers st) tier (cfg_topology c) of
                None \<Rightarrow> 0
              | Some (budget, used) \<Rightarrow> sat_add used requested - target_bytes_of budget target)))"

lemma plan_selected:
  assumes "plan_in_state c now t n el st = Ok plan" "plan_actions plan \<noteq> []"
    and "allocations_ok (st_allocations st)"
  obtains required p where "0 < required"
    "select_actions c t el required st = Some p" "plan_actions plan = pg_actions p"
    "plan_relief_bytes plan = relief (plan_actions plan)" "plan_unresolved_bytes plan = required - pg_relieved p"
    "progress_ok c required (\<lambda>al. al \<in> set (candidates c t el st)) p"
  using assms(1)
proof (cases rule: plan_in_state_cases)
  case idle
  with assms(2) show ?thesis by simp
next
  case (selected a target budget used required p)
  have "progress_ok c required (\<lambda>al. al \<in> set (candidates c t el st)) p"
    by (rule select_actions_ok [OF assms(3) selected(6)])
  moreover from this have "pg_relieved p = relief (pg_actions p)" by (simp add: progress_ok_def)
  ultimately show ?thesis using selected(5-7) by (intro that [of required p]) simp_all
qed

lemma plan_relief_exact:
  assumes "plan_in_state c now t n el st = Ok plan" "allocations_ok (st_allocations st)"
  shows "plan_relief_bytes plan = relief (plan_actions plan)
    \<and> plan_unresolved_bytes plan = required_relief c t n st - plan_relief_bytes plan
    \<and> (plan_actions plan \<noteq> [] \<longrightarrow> relief (butlast (plan_actions plan)) < required_relief c t n st)"
proof -
  have ok: "progress_ok c required (\<lambda>al. al \<in> set (candidates c t el st)) p"
    if "select_actions c t el required st = Some p" for required p
    by (rule select_actions_ok [OF assms(2) that])
  from assms(1) show ?thesis
    by (auto simp: plan_in_state_def required_relief_def empty_action_plan_def Let_def
        split: option.splits if_splits dest!: ok)
      (auto simp: progress_ok_def)
qed

lemma plan_ready:
  assumes "plan_in_state c now t n el st = Ok plan" "allocations_ok (st_allocations st)"
  shows "\<forall>a \<in> set (plan_actions plan). action_ready c st a
      \<and> (\<exists>al. map_of (st_allocations st) (act_id a) = Some al \<and> action_matches a al \<and> plan_candidate c t el st al)"
    and "distinct (map act_id (plan_actions plan))"
    and "length (plan_actions plan) \<le> cfg_max_actions_per_cycle c"
    and "accepts c (st_tiers st) (\<lambda>_. 0) (plan_actions plan)"
proof -
  have "(\<forall>a \<in> set (plan_actions plan). action_ready c st a
      \<and> (\<exists>al. map_of (st_allocations st) (act_id a) = Some al \<and> action_matches a al \<and> plan_candidate c t el st al))
    \<and> distinct (map act_id (plan_actions plan))
    \<and> length (plan_actions plan) \<le> cfg_max_actions_per_cycle c
    \<and> accepts c (st_tiers st) (\<lambda>_. 0) (plan_actions plan)"
  proof (cases "plan_actions plan = []")
    case False
    obtain required p where p: "select_actions c t el required st = Some p" "plan_actions plan = pg_actions p"
        "progress_ok c required (\<lambda>al. al \<in> set (candidates c t el st)) p"
      by (rule plan_selected [OF assms(1) False assms(2)])
    have "\<exists>al. map_of (st_allocations st) (act_id a) = Some al \<and> action_matches a al \<and> plan_candidate c t el st al"
      if a: "a \<in> set (pg_actions p)" for a
    proof -
      obtain al where al: "al \<in> set (candidates c t el st)" "action_matches a al"
        using p(3) a by (auto simp: progress_ok_def)
      then have "act_id a = alloc_id al" by (cases a) auto
      with al show ?thesis by (auto simp: candidates_iff [OF assms(2)])
    qed
    moreover have "is_demote a \<longrightarrow> cfg_topology c = Discrete" if "a \<in> set (pg_actions p)" for a
      using select_actions_accepts(2) [OF p(1)] that by blast
    ultimately have "\<forall>a \<in> set (pg_actions p). action_ready c st a
        \<and> (\<exists>al. map_of (st_allocations st) (act_id a) = Some al \<and> action_matches a al \<and> plan_candidate c t el st al)"
      unfolding action_ready_def plan_candidate_def by (metis action_matches.simps allocations_ok_id [OF assms(2)])
    with p select_actions_accepts(1) [OF p(1)] show ?thesis by (simp add: progress_ok_def)
  qed simp
  then show "\<forall>a \<in> set (plan_actions plan). action_ready c st a
      \<and> (\<exists>al. map_of (st_allocations st) (act_id a) = Some al \<and> action_matches a al \<and> plan_candidate c t el st al)"
    and "distinct (map act_id (plan_actions plan))"
    and "length (plan_actions plan) \<le> cfg_max_actions_per_cycle c"
    and "accepts c (st_tiers st) (\<lambda>_. 0) (plan_actions plan)"
    by blast+
qed

lemma held_more_refl: "held_more ts (\<lambda>_. 0) ts"
  by (simp add: held_more_def)

section \<open>The relief target\<close>

lemma utilization_of_target:
  assumes "x \<le> target_bytes_of b target" "0 < b"
  shows "utilization_basis_points x b \<le> target"
proof -
  have "x \<le> b * target div BASIS_POINTS" using assms(1) by (simp add: target_bytes_of_def)
  then have "x * BASIS_POINTS \<le> b * target"
    by (metis div_times_less_eq_dividend le_trans mult_le_mono1)
  then have "x * BASIS_POINTS div b \<le> target"
    using assms(2) by (metis div_le_mono nonzero_mult_div_cancel_left not_gr_zero)
  then show ?thesis using assms(2) by (simp add: utilization_basis_points_def)
qed

lemma target_lowers_level:
  assumes "valid_thresholds th" "plan_target_basis_points th p n = Some target" "u \<le> target"
  shows "classify_with_hysteresis th p u < max p Hard"
  using assms
  by (cases p) (auto simp: plan_target_basis_points_def hysteresis_cases classify_def valid_thresholds_def
      level_order max_def split: if_splits)

lemma effective_budget_pos:
  assumes v: "valid_config c" and ti: "tiers_inv c ts" and o: "observed_sound ts"
    and e: "effective_accounting ts t (cfg_topology c) = Some (b, u)" and t: "bt_contains t ts"
  shows "0 < b"
proof -
  have pos: "0 < acct_budget_bytes a" if a: "a \<in> set (bt_values ts)" for a
  proof -
    obtain k where "(k, a) \<in> set ts" using bt_values_in [OF a] by blast
    then have "map_of ts k = Some a" using ti bt_wf_get by (metis tiers_inv_def)
    then have "budget_of c k = Some (acct_budget_bytes a)" using ti by (metis option.map(2) tiers_inv_def)
    then have "(k, acct_budget_bytes a) \<in> set (map (\<lambda>b. (tb_tier b, tb_bytes b)) (cfg_budgets c))"
      unfolding budget_of_def by (rule map_of_SomeD)
    with v show ?thesis by (auto simp: valid_config_def)
  qed
  have obs: "\<exists>ob. acct_observation a = Some ob \<and> 0 < obs_total_bytes ob" if "a \<in> set (bt_values ts)" for a
    using o that by (auto simp: observed_sound_def split: option.splits)
  show ?thesis
  proof (cases "cfg_topology c = Discrete")
    case True
    then obtain a ob where a: "map_of ts t = Some a" "acct_observation a = Some ob"
        "b = min (acct_budget_bytes a) (obs_total_bytes ob)"
      using e by (auto simp: effective_accounting_def split: option.splits)
    have "a \<in> set (bt_values ts)" using a(1) by (force simp: bt_values_def dest: map_of_SomeD)
    with pos [of a] obs [of a] a show ?thesis by auto
  next
    case False
    define f where "f a ob = min (acct_budget_bytes a) (obs_total_bytes ob)" for a :: tier_account and ob :: memory_observation
    let ?xs = "map2 f (bt_values ts) (map (the \<circ> acct_observation) (bt_values ts))"
    have b: "b = min_or 0 ?xs"
      using e False observed_all_those [OF observed_soundD [OF o]]
      by (simp add: effective_accounting_def f_def)
    have xs: "?xs = map (\<lambda>a. f a (the (acct_observation a))) (bt_values ts)"
      by (simp add: zip_map2 map_zip_map2 comp_def zip_same_conv_map)
    have "bt_values ts \<noteq> []" using t by (cases ts) (auto simp: bt_values_def bt_contains_def)
    then have "b \<in> set ?xs" unfolding b xs by (intro min_or_in) simp
    then obtain a where "a \<in> set (bt_values ts)" "b = f a (the (acct_observation a))"
      unfolding xs by auto
    with pos [of a] obs [of a] show ?thesis by (auto simp: f_def)
  qed
qed

lemma plan_reaches_target:
  assumes "plan_in_state c now t n el st = Ok plan" "plan_unresolved_bytes plan = 0"
    and "map_of (st_tiers st) t = Some a" "0 < n \<or> acct_pressure a \<ge> Hard"
    and "effective_accounting (st_tiers st) t (cfg_topology c) = Some (b, u)"
    and "valid_thresholds (cfg_thresholds c)" "0 < b"
  shows "classify_with_hysteresis (cfg_thresholds c) (acct_pressure a)
      (utilization_basis_points (sat_add u n - plan_relief_bytes plan) b) < max (acct_pressure a) Hard"
proof -
  obtain target where tg: "plan_target_basis_points (cfg_thresholds c) (acct_pressure a) n = Some target"
    using assms(4) by (cases "acct_pressure a") (auto simp: plan_target_basis_points_def level_order)
  have le: "sat_add u n - plan_relief_bytes plan \<le> target_bytes_of b target"
    using assms(1,2,3,5) tg
    by (auto simp: plan_in_state_def Let_def empty_action_plan_def split: option.splits if_splits)
  show ?thesis
    by (rule target_lowers_level [OF assms(6) tg utilization_of_target [OF le assms(7)]])
qed

end
