(* ===== verification/Memory_Claims.thy ===== *)
theory Memory_Claims
  imports Memory_Contract
begin

text \<open>
  The properties of the memory manager, each over the worlds that a sequence of operations
  reaches from an accepted configuration, and their evaluations on a two-tier
  configuration.
\<close>

section \<open>A configuration to evaluate on\<close>

definition demo_config :: manager_config where
  "demo_config = \<lparr>cfg_budgets = [\<lparr>tb_tier = Host, tb_bytes = 1000\<rparr>, \<lparr>tb_tier = Accelerator 0, tb_bytes = 1000\<rparr>],
     cfg_topology = Discrete, cfg_thresholds = default_thresholds, cfg_action_cooldown_millis = 5,
     cfg_max_allocations = 8, cfg_max_reservations = 8, cfg_max_actions_per_cycle = 8\<rparr>"

definition demo_telemetry :: telemetry where
  "demo_telemetry = Ok [\<lparr>obs_tier = Host, obs_total_bytes = 9000, obs_available_bytes = 8900\<rparr>,
     \<lparr>obs_tier = Accelerator 0, obs_total_bytes = 9000, obs_available_bytes = 8900\<rparr>]"

definition demo_tight :: telemetry where
  "demo_tight = Ok [\<lparr>obs_tier = Host, obs_total_bytes = 9000, obs_available_bytes = 8900\<rparr>,
     \<lparr>obs_tier = Accelerator 0, obs_total_bytes = 9000, obs_available_bytes = 8100\<rparr>]"

definition demo_handle :: memory_reservation where
  "demo_handle = \<lparr>res_tier = Accelerator 0, res_bytes = 400, res_binding = Load 1 False (Some Host)\<rparr>"

definition demo_events :: "memory_event list" where
  "demo_events = [EvReserveLoad demo_telemetry 1 (Accelerator 0) 400 False (Some Host)]"

definition demo_loaded :: "memory_event list" where
  "demo_loaded = demo_events @ [EvCommitLoad demo_handle 10]"

lemmas demo_defs = demo_config_def demo_telemetry_def demo_tight_def demo_handle_def demo_events_def
  demo_loaded_def default_thresholds_def

lemmas memory_defs = memory_run_def memory_world_new_def manager_new_def new_account_def
  with_state_def reserve_load_def with_refresh_def sample_telemetry_def MAX_MEMORY_TIERS_def
  refresh_accounts_def refresh_account_def utilization_basis_points_def BASIS_POINTS_def
  account_used_def observed_used_def classify_with_hysteresis_def classify_def level_order tier_order
  validate_demotion_target_def bt_contains_def reserve_locked_def hard_pressure_def
  on_tier_def hold_def unhold_def charge_def discharge_def bt_modify_def bt_values_def
  sat_add_def u64_max_def u32_max_def Let_def use_reservation_def commit_load_def
  release_reservation_locked_def drop_reservation_def

lemma demo_valid: "valid_config demo_config"
  by (simp add: demo_config_def valid_config_def default_thresholds_valid MAX_MEMORY_TIERS_def u64_max_def
      MAX_ACTION_COOLDOWN_MILLIS_def MAX_MANAGED_ALLOCATIONS_def MAX_ACTIVE_RESERVATIONS_def
      MAX_ACTIONS_PER_CYCLE_def)

lemma demo_reserved:
  "fst (reserve_load demo_config demo_telemetry 1 (Accelerator 0) 400 False (Some Host)
     (mw_state (memory_run demo_config []))) = Ok demo_handle"
  by (simp add: demo_defs memory_defs)

lemma demo_world:
  "demo_handle \<in> set (mw_reservations (memory_run demo_config demo_events))"
  by (simp add: demo_defs memory_defs)

lemma demo_world_loaded:
  "map_of (st_allocations (mw_state (memory_run demo_config demo_loaded))) 1 =
     Some \<lparr>alloc_id = 1, alloc_tier = Accelerator 0, alloc_bytes = 400, alloc_pinned = False,
       alloc_demotion_target = Some Host, alloc_last_used_millis = 10\<rparr>"
  by (simp add: demo_defs memory_defs)

section \<open>The books\<close>

lemma reached:
  assumes "valid_config c" "w = memory_run c es"
  shows "state_inv c (mw_state w) (mw_reservations w) (mw_permits w) (mw_orphans w)"
  using memory_run_state [OF assms(1)] assms(2) by simp

text \<open>
  C1. After any sequence of operations on a manager with an accepted configuration, every
  tier's books are exact: its reserved bytes are the bytes of the outstanding reservations
  and demotion permits, its reservation count is their number, what it manages and has
  reserved never exceeds the budget plus the bytes charged for failed releases, and (as long
  as those charges do not overflow) its managed bytes are those of the allocations on it plus
  the charges.
\<close>

theorem memory_books_exact:
  assumes "valid_config c" "w = memory_run c es" "map_of (st_tiers (mw_state w)) t = Some a"
  shows "acct_reserved_bytes a = bytes_on t (holds_of (mw_reservations w) (mw_permits w))
    \<and> acct_active_reservations a = count_on t (holds_of (mw_reservations w) (mw_permits w))
    \<and> acct_managed_used_bytes a + acct_reserved_bytes a \<le> acct_budget_bytes a + mw_orphans w t
    \<and> (acct_budget_bytes a + mw_orphans w t \<le> u64_max \<longrightarrow>
         acct_managed_used_bytes a = alloc_bytes_on (st_allocations (mw_state w)) t + mw_orphans w t)"
proof -
  have h: "held_inv c (st_tiers (mw_state w)) (st_active_reservations (mw_state w))
      (holds_of (mw_reservations w) (mw_permits w))"
    and m: "money_inv (st_tiers (mw_state w)) (st_allocations (mw_state w)) (mw_orphans w)"
    using reached [OF assms(1,2)] by (simp_all add: state_inv_def)
  have "money_ok a (mw_orphans w t) (alloc_bytes_on (st_allocations (mw_state w)) t)"
    using m assms(3) unfolding money_inv_def by blast
  moreover have "acct_reserved_bytes a = bytes_on t (holds_of (mw_reservations w) (mw_permits w))
      \<and> acct_active_reservations a = count_on t (holds_of (mw_reservations w) (mw_permits w))"
    using h assms(3) unfolding held_inv_def by blast
  ultimately show ?thesis unfolding money_ok_def by blast
qed

theorem memory_books_exact_witness:
  "\<exists>a. map_of (st_tiers (mw_state (memory_run demo_config demo_loaded))) (Accelerator 0) = Some a
     \<and> acct_managed_used_bytes a + acct_reserved_bytes a \<le> acct_budget_bytes a
     \<and> acct_managed_used_bytes a = 400"
proof -
  have a: "\<exists>a. map_of (st_tiers (mw_state (memory_run demo_config demo_loaded))) (Accelerator 0) = Some a
      \<and> mw_orphans (memory_run demo_config demo_loaded) (Accelerator 0) = 0 \<and> acct_managed_used_bytes a = 400"
    by (simp add: demo_defs memory_defs)
  then show ?thesis using memory_books_exact [OF demo_valid refl, of demo_loaded "Accelerator 0"] by auto
qed

section \<open>Admission\<close>

text \<open>
  C2. A load reservation is only granted with room to spare, and takes effect exactly: the
  tier's managed plus reserved bytes stay below its budget after the grant, without
  saturation; only the requested tier's reserved bytes and count change, by the requested
  bytes and by one; the id becomes pending and no allocation changes.
\<close>

theorem reserve_load_within_budget:
  assumes "valid_config c" "w = memory_run c es" "ob \<noteq> Panic"
    and "reserve_load c ob i t n pin target (mw_state w) = (Ok h, st')"
  shows "\<exists>a a'. map_of (st_tiers (mw_state w)) t = Some a \<and> map_of (st_tiers st') t = Some a'
    \<and> 0 < n \<and> acct_reserved_bytes a' = acct_reserved_bytes a + n
    \<and> acct_active_reservations a' = acct_active_reservations a + 1
    \<and> acct_managed_used_bytes a' + acct_reserved_bytes a' < acct_budget_bytes a'
    \<and> st_pending_loads st' = insert i (st_pending_loads (mw_state w)) \<and> i \<notin> st_pending_loads (mw_state w)
    \<and> st_allocations st' = st_allocations (mw_state w)
    \<and> (\<forall>u. u \<noteq> t \<longrightarrow> map_of (books (st_tiers st')) u = map_of (books (st_tiers (mw_state w))) u)"
  using assms(4) reached [OF assms(1,2)] assms(1,3)
proof (cases rule: reserve_load_cases)
  case (granted st1 a)
  have b: "acct_budget_bytes a \<le> u64_max"
    by (rule budget_le_max [OF assms(1) _ granted(8)]) (use granted(3) in \<open>simp add: state_inv_def\<close>)
  have "acct_active_reservations a \<le> st_active_reservations st1"
    using granted(3,8) count_on_le by (auto simp: state_inv_def held_inv_def)
  then have k: "acct_active_reservations a + 1 \<le> u64_max"
    using granted(7) max_reservations_small [OF assms(1)] by simp
  have l: "map_option ledger_of (map_of (st_tiers (mw_state w)) t) = Some (ledger_of a)"
    using granted(5,8) books_lookup by (metis option.simps(9))
  then obtain a0 where a0: "map_of (st_tiers (mw_state w)) t = Some a0" "ledger_of a0 = ledger_of a" by auto
  have st: "st_pending_loads st1 = st_pending_loads (mw_state w)" "st_allocations st1 = st_allocations (mw_state w)"
    by (subst granted(4), simp)+
  have "map_of (books (st_tiers st')) u = map_of (books (st_tiers (mw_state w))) u" if "u \<noteq> t" for u
    using that granted(2,5) by (simp add: books_lookup) (metis books_lookup)
  with granted b k a0 st show ?thesis by (auto simp: ledger_of_def sat_add_exact)
qed simp

theorem reserve_load_within_budget_witness:
  "\<exists>a'. map_of (st_tiers (snd (reserve_load demo_config demo_telemetry 1 (Accelerator 0) 400 False (Some Host)
       (mw_state (memory_run demo_config []))))) (Accelerator 0) = Some a'
     \<and> acct_managed_used_bytes a' + acct_reserved_bytes a' < acct_budget_bytes a'"
proof -
  obtain st' where "reserve_load demo_config demo_telemetry 1 (Accelerator 0) 400 False (Some Host)
      (mw_state (memory_run demo_config [])) = (Ok demo_handle, st')"
    using demo_reserved by (metis prod.collapse)
  with reserve_load_within_budget [OF demo_valid refl _ this] show ?thesis
    by (auto simp: demo_telemetry_def)
qed

text \<open>
  Dropping a reservation undoes it: after a granted load reservation, the handle's
  \<open>Drop\<close> leaves every tier's ledger, the reservation count, the pending sets and the
  allocations as they were before the call.
\<close>

theorem reserve_drop_roundtrip:
  assumes "valid_config c" "w = memory_run c es" "ob \<noteq> Panic"
    and "reserve_load c ob i t n pin target (mw_state w) = (Ok h, st')"
  shows "let st'' = drop_reservation h st' in
    books (st_tiers st'') = books (st_tiers (mw_state w))
    \<and> st_active_reservations st'' = st_active_reservations (mw_state w)
    \<and> st_pending_loads st'' = st_pending_loads (mw_state w)
    \<and> st_pending_promotions st'' = st_pending_promotions (mw_state w)
    \<and> st_pending_actions st'' = st_pending_actions (mw_state w)
    \<and> st_allocations st'' = st_allocations (mw_state w)"
  using assms(4) reached [OF assms(1,2)] assms(1,3)
proof (cases rule: reserve_load_cases)
  case (granted st1 a)
  have b: "acct_budget_bytes a \<le> u64_max"
    by (rule budget_le_max [OF assms(1) _ granted(8)]) (use granted(3) in \<open>simp add: state_inv_def\<close>)
  have "acct_active_reservations a \<le> st_active_reservations st1"
    using granted(3,8) count_on_le by (auto simp: state_inv_def held_inv_def)
  then have k: "acct_active_reservations a + 1 \<le> u64_max" "st_active_reservations st1 + 1 \<le> u64_max"
    using granted(7) max_reservations_small [OF assms(1)] by simp_all
  have wf: "bt_wf (st_tiers st1)" using granted(3) by (simp add: state_inv_def tiers_inv_def)
  have a: "x = a" if "(t, x) \<in> set (st_tiers st1)" for x
    using that granted(8) bt_wf_get [OF wf] by simp
  have "books (bt_modify t (unhold n) (bt_modify t (hold n) (st_tiers st1))) = books (st_tiers st1)"
    using a granted(9) b k
    by (auto simp: books_def bt_modify_def ledger_of_def sat_add_exact)
  moreover have st: "st_active_reservations st1 = st_active_reservations (mw_state w)"
      "st_pending_loads st1 = st_pending_loads (mw_state w)"
      "st_pending_promotions st1 = st_pending_promotions (mw_state w)"
      "st_pending_actions st1 = st_pending_actions (mw_state w)"
      "st_allocations st1 = st_allocations (mw_state w)"
    by (subst granted(4), simp)+
  ultimately show ?thesis
    using granted k by (auto simp: Let_def release_pending res_key_def sat_add_exact)
qed simp

theorem reserve_drop_roundtrip_witness:
  "st_pending_loads (drop_reservation demo_handle (snd (reserve_load demo_config demo_telemetry 1
     (Accelerator 0) 400 False (Some Host) (mw_state (memory_run demo_config []))))) = {}"
proof -
  obtain st' where e: "reserve_load demo_config demo_telemetry 1 (Accelerator 0) 400 False (Some Host)
      (mw_state (memory_run demo_config [])) = (Ok demo_handle, st')"
    using demo_reserved by (metis prod.collapse)
  with reserve_drop_roundtrip [OF demo_valid refl _ this] show ?thesis
    by (auto simp: demo_telemetry_def Let_def memory_run_def memory_world_new_def manager_new_def)
qed

text \<open>
  An outstanding handle always commits: whatever happened since it was granted, the
  commit that fits its binding returns \<open>Ok\<close> and leaves an allocation with the reserved id,
  tier and bytes.
\<close>

theorem outstanding_handle_commits:
  assumes "valid_config c" "w = memory_run c es" "r \<in> set (mw_reservations w)"
  shows "case res_binding r of
      Load i pin target \<Rightarrow> fst (commit_load r now (mw_state w)) = Ok ()
        \<and> map_of (st_allocations (snd (commit_load r now (mw_state w)))) i =
            Some \<lparr>alloc_id = i, alloc_tier = res_tier r, alloc_bytes = res_bytes r, alloc_pinned = pin,
              alloc_demotion_target = target, alloc_last_used_millis = now\<rparr>
    | Promotion i source \<Rightarrow> fst (commit_promotion r now (mw_state w)) = Ok ()
        \<and> (\<exists>al. map_of (st_allocations (snd (commit_promotion r now (mw_state w)))) i = Some al
              \<and> alloc_tier al = res_tier r \<and> alloc_bytes al = res_bytes r
              \<and> alloc_demotion_target al = Some source)"
proof (cases "res_binding r")
  case (Load i pin target)
  show ?thesis
    by (simp add: Load commit_load_result [OF reached [OF assms(1,2)] assms(3) Load] on_tier_def loaded_def)
next
  case (Promotion i source)
  obtain al where "map_of (st_allocations (mw_state w)) i = Some al" "source = Host" "alloc_bytes al = res_bytes r"
    by (rule promotion_promised [OF reached [OF assms(1,2)] assms(3) Promotion])
  then show ?thesis
    by (simp add: Promotion commit_promotion_result [OF reached [OF assms(1,2)] assms(3) Promotion]
        on_tier_def promoted_def)
qed

theorem outstanding_handle_commits_witness:
  "fst (commit_load demo_handle 10 (mw_state (memory_run demo_config demo_events))) = Ok ()"
  using outstanding_handle_commits [OF demo_valid refl demo_world, of 10]
  by (simp add: demo_handle_def)

text \<open>
  A begun pressure action always commits: an outstanding permit's commit returns
  \<open>Ok\<close>, an eviction removes its allocation, and a demotion leaves it on the target tier.
\<close>

theorem outstanding_permit_commits:
  assumes "valid_config c" "w = memory_run c es" "p \<in> set (mw_permits w)"
  shows "fst (commit_permit c p now u (mw_state w)) = Ok ()
    \<and> (case p of
         Evict i _ _ \<Rightarrow> map_of (st_allocations (snd (commit_permit c p now u (mw_state w)))) i = None
       | Demote i _ to _ \<Rightarrow> \<exists>al. map_of (st_allocations (snd (commit_permit c p now u (mw_state w)))) i = Some al
            \<and> alloc_tier al = to)"
proof -
  note s = reached [OF assms(1,2)]
  obtain al where g: "map_of (st_allocations (mw_state w)) (act_id p) = Some al"
      "act_id p \<in> st_pending_actions (mw_state w)"
    by (auto intro: permit_given [OF s assms(3)])
  have sa: "st_allocations (stamp_action c t now u st) = st_allocations st" for t st
    by (subst stamp_books(2)) simp
  show ?thesis
    using commit_permit_ok(1) [OF s assms(3)] g commit_demote_result [OF s assms(3)]
      commit_evict_result [OF s assms(3)] sa
    by (cases p) (simp_all add: commit_permit_def)
qed

definition demo_evict :: pressure_action where
  "demo_evict = Evict 1 (Accelerator 0) 400"

theorem outstanding_permit_commits_witness:
  "fst (commit_permit demo_config demo_evict 20 20
     (mw_state (memory_run demo_config (demo_loaded @ [EvBegin demo_evict])))) = Ok ()"
proof -
  have "demo_evict \<in> set (mw_permits (memory_run demo_config (demo_loaded @ [EvBegin demo_evict])))"
    by (simp add: demo_defs memory_defs demo_evict_def begin_pressure_action_def)
  from outstanding_permit_commits [OF demo_valid refl this] show ?thesis by blast
qed

text \<open>
  C7. No operation of the memory manager panics in a reachable state, whatever its
  arguments: refresh, planning, reserving and beginning an action never fail an
  \<open>expect\<close>, nor do the commits of outstanding handles and permits.
\<close>

theorem memory_never_panics:
  assumes "valid_config c" "w = memory_run c es" "ob \<noteq> Panic"
  shows "fst (mm_refresh c ob u (mw_state w)) \<noteq> Panic
    \<and> fst (plan_pressure_actions_for c ob now t n el (mw_state w)) \<noteq> Panic
    \<and> fst (reserve_load c ob i t n pin target (mw_state w)) \<noteq> Panic
    \<and> fst (reserve_promotion c ob i t (mw_state w)) \<noteq> Panic
    \<and> fst (begin_pressure_action c p (mw_state w)) \<noteq> Panic
    \<and> (r \<in> set (mw_reservations w) \<longrightarrow> fst (commit_load r now (mw_state w)) \<noteq> Panic
         \<and> fst (commit_promotion r now (mw_state w)) \<noteq> Panic)
    \<and> (p \<in> set (mw_permits w) \<longrightarrow> fst (commit_permit c p now u (mw_state w)) \<noteq> Panic)"
proof (intro conjI impI)
  note s = reached [OF assms(1,2)]
  show "fst (mm_refresh c ob u (mw_state w)) \<noteq> Panic" by (rule refresh_no_panic [OF assms(3)])
  show "fst (plan_pressure_actions_for c ob now t n el (mw_state w)) \<noteq> Panic"
    using plan_cases [OF prod.collapse [symmetric] assms(3), of c now t n el "mw_state w"] by force
  show "fst (reserve_load c ob i t n pin target (mw_state w)) \<noteq> Panic"
    using reserve_load_inv [OF prod.collapse [symmetric] s assms(1,3)] by (force split: res.splits)
  show "fst (reserve_promotion c ob i t (mw_state w)) \<noteq> Panic"
    using reserve_promotion_inv [OF prod.collapse [symmetric] s assms(1,3)] by (force split: res.splits)
  show "fst (begin_pressure_action c p (mw_state w)) \<noteq> Panic" by (rule begin_no_panic [OF s assms(1)])
  show "fst (commit_load r now (mw_state w)) \<noteq> Panic" if "r \<in> set (mw_reservations w)"
    using commit_load_result [OF s that] by (cases "res_binding r") (simp_all add: commit_wrong_kind)
  show "fst (commit_promotion r now (mw_state w)) \<noteq> Panic" if "r \<in> set (mw_reservations w)"
    using commit_promotion_result [OF s that] by (cases "res_binding r") (simp_all add: commit_wrong_kind)
  show "fst (commit_permit c p now u (mw_state w)) \<noteq> Panic" if "p \<in> set (mw_permits w)"
    using commit_permit_ok(1) [OF s that] by simp
qed

theorem memory_never_panics_witness:
  "fst (reserve_load demo_config demo_telemetry 2 Host 900 True None
     (mw_state (memory_run demo_config demo_loaded))) \<noteq> Panic"
  using memory_never_panics [OF demo_valid refl, where ob = demo_telemetry and es = demo_loaded]
  by (simp add: demo_telemetry_def)

section \<open>Plans\<close>

lemma planned_state:
  assumes "valid_config c" "w = memory_run c es" "ob \<noteq> Panic"
    and "plan_pressure_actions_for c ob now t n el (mw_state w) = (Ok plan, st')"
  shows "plan_in_state c now t n el st' = Ok plan" "observed_sound (st_tiers st')"
    and "state_inv c st' (mw_reservations w) (mw_permits w) (mw_orphans w)"
    and "allocations_ok (st_allocations st')"
proof -
  have p: "plan_in_state c now t n el st' = Ok plan \<and> books (st_tiers st') = books (st_tiers (mw_state w))
      \<and> st' = (mw_state w)\<lparr>st_tiers := st_tiers st'\<rparr> \<and> observed_sound (st_tiers st')"
    using assms(4,3) by (cases rule: plan_cases) simp_all
  then show "plan_in_state c now t n el st' = Ok plan" "observed_sound (st_tiers st')" by blast+
  show s: "state_inv c st' (mw_reservations w) (mw_permits w) (mw_orphans w)"
    using p by (intro state_inv_refresh [OF reached [OF assms(1,2)]]) blast+
  then show "allocations_ok (st_allocations st')" by (simp add: state_inv_def allocs_inv_def)
qed

text \<open>
  C8. A relief plan is sound and minimal: at most the configured number of actions, no
  allocation twice, each action matching a present allocation that is unpinned, not in
  flight, on the tier (or anywhere, on unified memory) and eligible; the planned relief is
  the total of the actions' bytes, what it leaves unresolved is the rest of the bytes that
  bring the tier below the target of its pressure with the requested bytes counted in
  (\<open>required_relief\<close>), and without its last action the plan would fall short of that
  requirement, so a plan that has met it takes no further action.
\<close>

theorem plan_sound:
  assumes "valid_config c" "w = memory_run c es" "ob \<noteq> Panic"
    and "plan_pressure_actions_for c ob now t n el (mw_state w) = (Ok plan, st')"
  shows "distinct (map act_id (plan_actions plan))
    \<and> length (plan_actions plan) \<le> cfg_max_actions_per_cycle c
    \<and> (\<forall>a \<in> set (plan_actions plan). \<exists>al. map_of (st_allocations st') (act_id a) = Some al
          \<and> action_matches a al \<and> \<not> alloc_pinned al
          \<and> (cfg_topology c = Unified \<or> alloc_tier al = t)
          \<and> (case el of None \<Rightarrow> True | Some ids \<Rightarrow> alloc_id al \<in> ids)
          \<and> alloc_id al \<notin> st_pending_promotions st' \<and> alloc_id al \<notin> st_pending_actions st')
    \<and> plan_relief_bytes plan = relief (plan_actions plan)
    \<and> plan_unresolved_bytes plan = required_relief c t n st' - plan_relief_bytes plan
    \<and> (plan_actions plan \<noteq> [] \<longrightarrow>
         relief (butlast (plan_actions plan)) < required_relief c t n st')"
proof -
  note p = planned_state [OF assms]
  show ?thesis
    using plan_ready [OF p(1,4), unfolded plan_candidate_def] plan_relief_exact [OF p(1,4)] by blast
qed

definition demo_plan :: pressure_action_plan where
  "demo_plan = \<lparr>plan_tier = Accelerator 0, plan_pressure = Hard,
     plan_actions = [Demote 1 (Accelerator 0) Host 400], plan_relief_bytes = 400,
     plan_unresolved_bytes = 0, plan_deferred_by_cooldown = False\<rparr>"

lemmas plan_defs = plan_pressure_actions_for_def plan_in_state_def plan_target_basis_points_def
  effective_accounting_def target_bytes_of_def last_action_of_def select_actions_def candidates_def
  plan_candidate_def no_progress_def plan_full_def push_action_def planned_for_def can_accept_bytes_def

lemma demo_planned:
  "fst (plan_pressure_actions_for demo_config demo_tight 20 (Accelerator 0) 0 None
     (mw_state (memory_run demo_config demo_loaded))) = Ok demo_plan"
  by (simp add: demo_defs memory_defs plan_defs demo_plan_def)

theorem plan_sound_witness:
  "\<exists>st'. plan_pressure_actions_for demo_config demo_tight 20 (Accelerator 0) 0 None
      (mw_state (memory_run demo_config demo_loaded)) = (Ok demo_plan, st')
    \<and> relief (plan_actions demo_plan) = 400 \<and> required_relief demo_config (Accelerator 0) 0 st' \<le> 400
    \<and> 0 < required_relief demo_config (Accelerator 0) 0 st'"
proof -
  obtain st' where st': "plan_pressure_actions_for demo_config demo_tight 20 (Accelerator 0) 0 None
      (mw_state (memory_run demo_config demo_loaded)) = (Ok demo_plan, st')"
    using demo_planned by (metis prod.collapse)
  have "demo_tight \<noteq> Panic" by (simp add: demo_tight_def)
  from plan_sound [OF demo_valid refl this st'] have "plan_unresolved_bytes demo_plan =
      required_relief demo_config (Accelerator 0) 0 st' - plan_relief_bytes demo_plan
    \<and> plan_relief_bytes demo_plan = relief (plan_actions demo_plan)
    \<and> 0 < required_relief demo_config (Accelerator 0) 0 st'"
    by (simp add: demo_plan_def)
  with st' show ?thesis by (simp add: demo_plan_def)
qed

text \<open>
  C35. The planner agrees with admission, up to the reservation limit. In the state a plan was
  made for, its actions can all be begun one after the other exactly when the active
  reservations and the demotions of the plan together stay within the configured limit, which
  the planner does not look at: no other check of \<open>begin_pressure_action\<close> ever refuses an
  action of the plan.
\<close>

theorem plan_can_be_begun:
  assumes "valid_config c" "w = memory_run c es" "ob \<noteq> Panic"
    and "plan_pressure_actions_for c ob now t n el (mw_state w) = (Ok plan, st')"
  shows "begin_all c (plan_actions plan) st' \<noteq> None \<longleftrightarrow>
    st_active_reservations st' + length (filter is_demote (plan_actions plan)) \<le> cfg_max_reservations c"
    (is "_ \<longleftrightarrow> ?room")
proof -
  note p = planned_state [OF assms]
  note r = plan_ready [OF p(1,4)]
  have max: "cfg_max_reservations c \<le> u64_max" using max_reservations_small [OF assms(1)] by simp
  have now: "st_active_reservations st' \<le> cfg_max_reservations c"
    using p(3) by (simp add: state_inv_def held_inv_def)
  have ti: "tiers_inv c (st_tiers st')" using p(3) by (simp add: state_inv_def)
  have "begin_all c (plan_actions plan) st' \<noteq> None" if room: ?room
  proof (rule begin_all_ok [OF _ r(2,4) held_more_refl _ _ room max])
    show "\<forall>a \<in> set (plan_actions plan). action_ready c st' a" using r(1) by blast
    show "valid_thresholds (cfg_thresholds c)" using assms(1) by (simp add: valid_config_def)
    show "\<And>t a. map_of (st_tiers st') t = Some a \<Longrightarrow> acct_budget_bytes a \<le> u64_max"
      by (rule budget_le_max [OF assms(1) ti])
  qed
  moreover have ?room if "begin_all c (plan_actions plan) st' = Some u" for u
    by (rule begin_all_active [OF that now max])
  ultimately show ?thesis by blast
qed

theorem plan_can_be_begun_witness:
  "begin_all demo_config (plan_actions demo_plan) (snd (plan_pressure_actions_for demo_config demo_tight 20
     (Accelerator 0) 0 None (mw_state (memory_run demo_config demo_loaded)))) \<noteq> None"
proof -
  let ?r = "plan_pressure_actions_for demo_config demo_tight 20 (Accelerator 0) 0 None
      (mw_state (memory_run demo_config demo_loaded))"
  have e: "?r = (Ok demo_plan, snd ?r)" using demo_planned by (metis prod.collapse)
  have a: "st_active_reservations (snd ?r) + length (filter is_demote (plan_actions demo_plan))
      \<le> cfg_max_reservations demo_config"
    by (simp add: demo_defs memory_defs plan_pressure_actions_for_def demo_plan_def)
  have "demo_tight \<noteq> Panic" by (simp add: demo_tight_def)
  from plan_can_be_begun [OF demo_valid refl this e] a show ?thesis by blast
qed

text \<open>
  A plan gives up only for a reason: if it leaves pressure unresolved without being
  deferred by the cooldown, it uses the whole action budget of the cycle or has an action
  for every candidate allocation.
\<close>

theorem plan_exhaustive:
  assumes "valid_config c" "w = memory_run c es" "ob \<noteq> Panic"
    and "plan_pressure_actions_for c ob now t n el (mw_state w) = (Ok plan, st')"
    and "0 < plan_unresolved_bytes plan" "\<not> plan_deferred_by_cooldown plan"
    and "map_of (st_allocations st') (alloc_id al) = Some al" "plan_candidate c t el st' al"
  shows "length (plan_actions plan) = cfg_max_actions_per_cycle c \<or> alloc_id al \<in> act_id ` set (plan_actions plan)"
proof -
  note p = planned_state [OF assms(1-4)]
  obtain req q where s: "select_actions c t el req st' = Some q" "plan_actions plan = pg_actions q"
      "plan_unresolved_bytes plan = req - pg_relieved q"
    using p(1) assms(5,6)
    by (auto simp: plan_in_state_def empty_action_plan_def Let_def split: option.splits if_splits)
  have ok: "progress_ok c req (\<lambda>al. al \<in> set (candidates c t el st')) q"
    by (rule select_actions_ok [OF p(4) s(1)])
  have c: "al \<in> set (candidates c t el st')" using assms(7,8) by (simp add: candidates_iff [OF p(4)])
  show ?thesis
  proof (cases "plan_full c req q")
    case True
    with s(3) assms(5) ok show ?thesis by (auto simp: plan_full_def progress_ok_def s(2))
  next
    case False
    with select_actions_complete [OF s(1)] c ok show ?thesis by (auto simp: progress_ok_def s(2))
  qed
qed

definition demo_starved :: "(memory_error, pressure_action_plan) res \<times> manager_state" where
  "demo_starved = plan_pressure_actions_for demo_config
     (Ok [\<lparr>obs_tier = Host, obs_total_bytes = 9000, obs_available_bytes = 8900\<rparr>,
          \<lparr>obs_tier = Accelerator 0, obs_total_bytes = 9000, obs_available_bytes = 1000\<rparr>])
     20 (Accelerator 0) 0 None (mw_state (memory_run demo_config demo_loaded))"

theorem plan_exhaustive_witness:
  "\<exists>plan. fst demo_starved = Ok plan \<and> 0 < plan_unresolved_bytes plan \<and> 1 \<in> act_id ` set (plan_actions plan)"
proof -
  let ?al = "\<lparr>alloc_id = 1, alloc_tier = Accelerator 0, alloc_bytes = 400, alloc_pinned = False,
      alloc_demotion_target = Some Host, alloc_last_used_millis = 10\<rparr>"
  obtain plan where f: "fst demo_starved = Ok plan"
    and u: "0 < plan_unresolved_bytes plan" "\<not> plan_deferred_by_cooldown plan"
      "length (plan_actions plan) = 1"
    by (simp add: demo_starved_def demo_defs memory_defs plan_defs)
  have g: "map_of (st_allocations (snd demo_starved)) (alloc_id ?al) = Some ?al"
      "plan_candidate demo_config (Accelerator 0) None (snd demo_starved) ?al"
    by (simp_all add: demo_starved_def demo_defs memory_defs plan_pressure_actions_for_def plan_candidate_def)
  have e: "plan_pressure_actions_for demo_config
     (Ok [\<lparr>obs_tier = Host, obs_total_bytes = 9000, obs_available_bytes = 8900\<rparr>,
          \<lparr>obs_tier = Accelerator 0, obs_total_bytes = 9000, obs_available_bytes = 1000\<rparr>])
     20 (Accelerator 0) 0 None (mw_state (memory_run demo_config demo_loaded)) = (Ok plan, snd demo_starved)"
    using f unfolding demo_starved_def by (metis prod.collapse)
  have "length (plan_actions plan) = cfg_max_actions_per_cycle demo_config \<or> alloc_id ?al \<in> act_id ` set (plan_actions plan)"
    by (rule plan_exhaustive [OF demo_valid refl _ e u(1,2) g]) simp
  with f u show ?thesis by (auto simp: demo_config_def)
qed

text \<open>
  A resolved plan is enough: once the planned relief is subtracted from the tier's
  effective use (the requested bytes included), the pressure level falls strictly below
  the current one when that is hard or worse, and stays below hard otherwise.
\<close>

theorem plan_lowers_pressure:
  assumes "valid_config c" "w = memory_run c es" "ob \<noteq> Panic"
    and "plan_pressure_actions_for c ob now t n el (mw_state w) = (Ok plan, st')"
    and "plan_unresolved_bytes plan = 0" "map_of (st_tiers st') t = Some a"
    and "0 < n \<or> acct_pressure a \<ge> Hard"
    and "effective_accounting (st_tiers st') t (cfg_topology c) = Some (budget, used)"
  shows "classify_with_hysteresis (cfg_thresholds c) (acct_pressure a)
      (utilization_basis_points (sat_add used n - plan_relief_bytes plan) budget)
    < max (acct_pressure a) Hard"
proof -
  note p = planned_state [OF assms(1-4)]
  have ti: "tiers_inv c (st_tiers st')" using p(3) by (simp add: state_inv_def)
  have "0 < budget"
    by (rule effective_budget_pos [OF assms(1) ti p(2) assms(8)]) (use assms(6) in \<open>simp add: bt_contains_def\<close>)
  with plan_reaches_target [OF p(1) assms(5-8)] assms(1) show ?thesis by (simp add: valid_config_def)
qed

theorem plan_lowers_pressure_witness:
  "classify_with_hysteresis default_thresholds Hard (utilization_basis_points (900 - 400) 1000) < Hard"
proof -
  let ?r = "plan_pressure_actions_for demo_config demo_tight 20 (Accelerator 0) 0 None
      (mw_state (memory_run demo_config demo_loaded))"
  have e: "?r = (Ok demo_plan, snd ?r)" using demo_planned by (metis prod.collapse)
  obtain a where a: "map_of (st_tiers (snd ?r)) (Accelerator 0) = Some a" "acct_pressure a = Hard"
    by (simp add: demo_defs memory_defs plan_pressure_actions_for_def)
  have f: "effective_accounting (st_tiers (snd ?r)) (Accelerator 0) (cfg_topology demo_config) = Some (1000, 900)"
    by (simp add: demo_defs memory_defs plan_pressure_actions_for_def effective_accounting_def)
  have "classify_with_hysteresis (cfg_thresholds demo_config) (acct_pressure a)
      (utilization_basis_points (sat_add 900 0 - plan_relief_bytes demo_plan) 1000) < max (acct_pressure a) Hard"
    by (rule plan_lowers_pressure [OF demo_valid refl _ e _ a(1) _ f])
      (simp_all add: demo_tight_def demo_plan_def a(2))
  then show ?thesis by (simp add: a(2) demo_config_def demo_plan_def sat_add_def u64_max_def)
qed

section \<open>Pressure levels\<close>

text \<open>
  Hysteresis does not flap: for accepted thresholds the level never falls below what the
  utilisation alone gives, a level above that is one the previous level had reached and whose
  entry is at most the hysteresis away, the result is never above the larger of the previous
  level and the plain classification, and classifying the same utilisation again changes nothing.
\<close>

theorem hysteresis_stable:
  assumes "thresholds_new s h e y = Ok th" "l = classify_with_hysteresis th previous u"
  shows "classify th u \<le> l \<and> l \<le> max previous (classify th u)
    \<and> (l \<noteq> classify th u \<longrightarrow> level_entry th l \<le> u + hysteresis_basis_points th)
    \<and> classify_with_hysteresis th l u = l"
proof -
  have v: "valid_thresholds th" by (rule thresholds_new_valid [OF assms(1)])
  note hc = hysteresis_cases [OF v]
  have inner: "previous = Normal \<Longrightarrow> l = classify th u" using hc assms(2) by (simp add: level_order)
  have le: "classify th u \<le> l" unfolding assms(2) by (rule hysteresis_ge_candidate [OF v])
  have up: "l \<le> max previous (classify th u)"
    using hc [of previous u] assms(2) by (cases previous; cases "classify th u") (auto simp: level_order max_def split: if_splits)
  have entry: "l \<noteq> classify th u \<longrightarrow> level_entry th l \<le> u + hysteresis_basis_points th"
    using hc [of previous u] assms(2) by (cases "classify th u") (auto simp: level_order max_def split: if_splits)
  have "classify_with_hysteresis th l u = l"
  proof (cases "l = classify th u")
    case True
    then show ?thesis by (simp add: classify_with_hysteresis_def)
  next
    case False
    with le entry have "classify th u < l" "level_entry th l \<le> u + hysteresis_basis_points th" by simp_all
    then show ?thesis
      using hc [of l u] by (cases l; cases "classify th u") (auto simp: level_order max_def)
  qed
  with le up entry show ?thesis by blast
qed

theorem hysteresis_stable_witness:
  "classify_with_hysteresis default_thresholds Hard 8200 = Hard
    \<and> classify_with_hysteresis default_thresholds Hard 8200 \<le> max Hard (classify default_thresholds 8200)"
proof -
  have t: "thresholds_new 7500 8500 9500 500 = Ok default_thresholds"
    by (simp add: thresholds_new_def default_thresholds_def BASIS_POINTS_def)
  from hysteresis_stable [OF t refl, where previous = Hard and u = 8200] show ?thesis
    by (simp add: classify_with_hysteresis_def classify_def default_thresholds_def level_order)
qed

end
