(* ===== verification/Handoff_Registry.thy ===== *)
theory Handoff_Registry
  imports BTree_Map "HOL-Library.List_Lexorder"
begin

text \<open>
  The registry of single-use decode handoffs (\<open>src/src/runtime_control/handoff.rs\<close>):
  capacity-checked reservations, issuing, inspection, consumption and consumption with a
  replacement. The token generator and the SHA-256 digest are arguments; the clock reading
  is an argument. A poisoned lock is not modelled.
\<close>

section \<open>State\<close>

record ('s, 'c) handoff_record =
  hr_principal_id :: rstr
  hr_model_id :: rstr
  hr_state_id :: "rstr option"
  hr_state :: 's
  hr_compatibility :: 'c
  hr_expires_unix_ms :: nat

record ('s, 'c) handoff_entries =
  he_entries :: "(rstr, ('s, 'c) handoff_record) btree"
  he_reserved_tokens :: "rstr set"
  he_reserved_by_principal :: "(rstr, nat) btree"

record handoff_reservation =
  hres_principal_id :: rstr
  hres_token :: rstr
  hres_digest :: rstr

datatype handoff_error =
    GlobalCapacity
  | PrincipalCapacity
  | TokenCollision
  | TokenUnavailable
  | ExpiredHandoff
  | PrincipalMismatch
  | RegistryInternal

definition MAX_HANDOFFS :: nat where "MAX_HANDOFFS = 1024"
definition MAX_HANDOFFS_PER_PRINCIPAL :: nat where "MAX_HANDOFFS_PER_PRINCIPAL = 128"
definition DEFAULT_HANDOFF_TTL_MS :: nat where "DEFAULT_HANDOFF_TTL_MS = 15 * 60 * 1000"

definition no_handoffs :: "('s, 'c) handoff_entries" where
  "no_handoffs = \<lparr>he_entries = [], he_reserved_tokens = {}, he_reserved_by_principal = []\<rparr>"

section \<open>Operations\<close>

definition take_expired :: "nat \<Rightarrow> ('s, 'c) handoff_entries \<Rightarrow> ('s, 'c) handoff_entries" where
  "take_expired now st = st\<lparr>he_entries := filter (\<lambda>(_, r). hr_expires_unix_ms r > now) (he_entries st)\<rparr>"

definition reserved_for :: "rstr \<Rightarrow> (rstr, nat) btree \<Rightarrow> nat" where
  "reserved_for p m = (case map_of m p of None \<Rightarrow> 0 | Some n \<Rightarrow> n)"

definition bump_principal :: "rstr \<Rightarrow> ('s, 'c) handoff_entries \<Rightarrow> ('s, 'c) handoff_entries" where
  "bump_principal p st = st\<lparr>he_reserved_by_principal :=
     bt_insert p (reserved_for p (he_reserved_by_principal st) + 1) (he_reserved_by_principal st)\<rparr>"

definition decrement_principal_reservation ::
  "rstr \<Rightarrow> ('s, 'c) handoff_entries \<Rightarrow> (handoff_error, unit) res \<times> ('s, 'c) handoff_entries"
where
  "decrement_principal_reservation p st =
     (case map_of (he_reserved_by_principal st) p of
        None \<Rightarrow> (Err RegistryInternal, st)
      | Some n \<Rightarrow>
          if n = 0 then (Err RegistryInternal, st)
          else if n = 1
          then (Ok (), st\<lparr>he_reserved_by_principal := bt_remove p (he_reserved_by_principal st)\<rparr>)
          else (Ok (), st\<lparr>he_reserved_by_principal :=
                  bt_insert p (n - 1) (he_reserved_by_principal st)\<rparr>))"

definition live_for :: "rstr \<Rightarrow> ('s, 'c) handoff_entries \<Rightarrow> nat" where
  "live_for p st = bt_count (\<lambda>r. hr_principal_id r = p) (he_entries st)"

definition ensure_capacity :: "rstr \<Rightarrow> ('s, 'c) handoff_entries \<Rightarrow> (handoff_error, unit) res" where
  "ensure_capacity p st =
     (if sat_add (length (he_entries st)) (card (he_reserved_tokens st)) \<ge> MAX_HANDOFFS
      then Err GlobalCapacity
      else if sat_add (live_for p st) (reserved_for p (he_reserved_by_principal st))
                \<ge> MAX_HANDOFFS_PER_PRINCIPAL
      then Err PrincipalCapacity
      else Ok ())"

text \<open>
  \<open>fresh\<close> is the outcome of the token generator, \<open>digest\<close> the token digest.
\<close>

definition handoff_reserve ::
  "(rstr \<Rightarrow> rstr) \<Rightarrow> (handoff_error, rstr) res \<Rightarrow> nat \<Rightarrow> rstr \<Rightarrow> ('s, 'c) handoff_entries \<Rightarrow>
     (handoff_error, handoff_reservation) res \<times> ('s, 'c) handoff_entries"
where
  "handoff_reserve digest fresh now p st =
     (case fresh of
        Err e \<Rightarrow> (Err e, st)
      | Panic \<Rightarrow> (Panic, st)
      | Ok token \<Rightarrow>
          (let st = take_expired now st; d = digest token
           in case ensure_capacity p st of
                Err e \<Rightarrow> (Err e, st)
              | Panic \<Rightarrow> (Panic, st)
              | Ok _ \<Rightarrow>
                  if bt_contains d (he_entries st) \<or> d \<in> he_reserved_tokens st
                  then (Err TokenCollision, st)
                  else (Ok \<lparr>hres_principal_id = p, hres_token = token, hres_digest = d\<rparr>,
                        bump_principal p
                          (st\<lparr>he_reserved_tokens := insert d (he_reserved_tokens st)\<rparr>))))"

definition effective_expiry :: "nat \<Rightarrow> ('s, 'c) handoff_record \<Rightarrow> ('s, 'c) handoff_record" where
  "effective_expiry now r =
     (if hr_expires_unix_ms r = 0
      then r\<lparr>hr_expires_unix_ms := sat_add now (min DEFAULT_HANDOFF_TTL_MS u64_max)\<rparr> else r)"

definition commit_reserved ::
  "nat \<Rightarrow> rstr \<Rightarrow> rstr \<Rightarrow> ('s, 'c) handoff_record \<Rightarrow> ('s, 'c) handoff_entries \<Rightarrow>
     (handoff_error, unit) res \<times> ('s, 'c) handoff_entries"
where
  "commit_reserved now p d r st =
     (if hr_principal_id r \<noteq> p then (Err PrincipalMismatch, st)
      else if d \<notin> he_reserved_tokens st then (Err RegistryInternal, st)
      else (case decrement_principal_reservation p
                   (st\<lparr>he_reserved_tokens := he_reserved_tokens st - {d}\<rparr>) of
          (Ok _, st') \<Rightarrow>
            if bt_contains d (he_entries st') then (Err TokenCollision, st')
            else (Ok (), st'\<lparr>he_entries := bt_insert d (effective_expiry now r) (he_entries st')\<rparr>)
        | (e, st') \<Rightarrow> (e, st')))"

definition drop_handoff_reservation ::
  "handoff_reservation \<Rightarrow> ('s, 'c) handoff_entries \<Rightarrow> ('s, 'c) handoff_entries"
where
  "drop_handoff_reservation h st =
     snd (decrement_principal_reservation (hres_principal_id h)
       (st\<lparr>he_reserved_tokens := he_reserved_tokens st - {hres_digest h}\<rparr>))"

text \<open>
  \<open>issue\<close> consumes the reservation: on an error its \<open>Drop\<close> runs, on success the digest
  has been taken out and \<open>Drop\<close> does nothing.
\<close>

definition issue_reserved ::
  "nat \<Rightarrow> handoff_reservation \<Rightarrow> ('s, 'c) handoff_record \<Rightarrow> ('s, 'c) handoff_entries \<Rightarrow>
     (handoff_error, rstr) res \<times> ('s, 'c) handoff_entries"
where
  "issue_reserved now h r st =
     (case commit_reserved now (hres_principal_id h) (hres_digest h) r st of
        (Ok _, st') \<Rightarrow> (Ok (hres_token h), st')
      | (Err e, st') \<Rightarrow> (Err e, drop_handoff_reservation h st')
      | (Panic, st') \<Rightarrow> (Panic, drop_handoff_reservation h st'))"

definition handoff_issue ::
  "(rstr \<Rightarrow> rstr) \<Rightarrow> (handoff_error, rstr) res \<Rightarrow> nat \<Rightarrow> nat \<Rightarrow> ('s, 'c) handoff_record \<Rightarrow>
     ('s, 'c) handoff_entries \<Rightarrow> (handoff_error, rstr) res \<times> ('s, 'c) handoff_entries"
where
  "handoff_issue digest fresh now later r st =
     (case handoff_reserve digest fresh now (hr_principal_id r) st of
        (Ok h, st') \<Rightarrow> issue_reserved later h r st'
      | (Err e, st') \<Rightarrow> (Err e, st')
      | (Panic, st') \<Rightarrow> (Panic, st'))"

definition bad_token :: "rstr \<Rightarrow> bool" where
  "bad_token token \<longleftrightarrow> str_len token > 4096 \<or> str_len token < 32"

definition owned :: "nat \<Rightarrow> rstr \<Rightarrow> ('s, 'c) handoff_record \<Rightarrow> bool" where
  "owned now p r \<longleftrightarrow> hr_principal_id r = p \<and> hr_expires_unix_ms r > now"

definition handoff_inspect ::
  "(rstr \<Rightarrow> rstr) \<Rightarrow> nat \<Rightarrow> rstr \<Rightarrow> rstr \<Rightarrow> ('s, 'c) handoff_entries \<Rightarrow>
     (handoff_error, ('s, 'c) handoff_record) res \<times> ('s, 'c) handoff_entries"
where
  "handoff_inspect digest now p token st =
     (if bad_token token then (Err ExpiredHandoff, st)
      else (let st = take_expired now st
            in case map_of (he_entries st) (digest token) of
                 None \<Rightarrow> (Err ExpiredHandoff, st)
               | Some r \<Rightarrow> if owned now p r then (Ok r, st) else (Err ExpiredHandoff, st)))"

definition handoff_take ::
  "(rstr \<Rightarrow> rstr) \<Rightarrow> nat \<Rightarrow> rstr \<Rightarrow> rstr \<Rightarrow> ('s, 'c) handoff_entries \<Rightarrow>
     (handoff_error, ('s, 'c) handoff_record) res \<times> ('s, 'c) handoff_entries"
where
  "handoff_take digest now p token st =
     (if bad_token token then (Err ExpiredHandoff, st)
      else (let st = take_expired now st
            in case map_of (he_entries st) (digest token) of
                 None \<Rightarrow> (Err ExpiredHandoff, st)
               | Some r \<Rightarrow>
                   if owned now p r
                   then (Ok r, st\<lparr>he_entries := bt_remove (digest token) (he_entries st)\<rparr>)
                   else (Err ExpiredHandoff, st)))"

definition take_with_replacement ::
  "(rstr \<Rightarrow> rstr) \<Rightarrow> (handoff_error, rstr) res \<Rightarrow> nat \<Rightarrow> rstr \<Rightarrow> rstr \<Rightarrow> ('s, 'c) handoff_entries \<Rightarrow>
     (handoff_error, ('s, 'c) handoff_record \<times> handoff_reservation) res \<times> ('s, 'c) handoff_entries"
where
  "take_with_replacement digest fresh now p token st =
     (if bad_token token then (Err ExpiredHandoff, st)
      else case fresh of
        Err e \<Rightarrow> (Err e, st)
      | Panic \<Rightarrow> (Panic, st)
      | Ok replacement \<Rightarrow>
          (let st = take_expired now st; d = digest replacement
           in case map_of (he_entries st) (digest token) of
                None \<Rightarrow> (Err ExpiredHandoff, st)
              | Some r \<Rightarrow>
                  if \<not> owned now p r then (Err ExpiredHandoff, st)
                  else if bt_contains d (he_entries st) \<or> d \<in> he_reserved_tokens st
                  then (Err TokenCollision, st)
                  else (Ok (r, \<lparr>hres_principal_id = p, hres_token = replacement, hres_digest = d\<rparr>),
                        bump_principal p
                          (st\<lparr>he_reserved_tokens := insert d (he_reserved_tokens st),
                              he_entries := bt_remove (digest token) (he_entries st)\<rparr>))))"

section \<open>The registry as a state machine\<close>

record ('s, 'c) handoff_world =
  hw_entries :: "('s, 'c) handoff_entries"
  hw_reservations :: "handoff_reservation list"

datatype ('s, 'c) handoff_event =
    HReserve "(handoff_error, rstr) res" nat rstr
  | HIssue nat handoff_reservation "('s, 'c) handoff_record"
  | HDrop handoff_reservation
  | HInspect nat rstr rstr
  | HTake nat rstr rstr
  | HTakeReplace "(handoff_error, rstr) res" nat rstr rstr

definition handoff_world_new :: "('s, 'c) handoff_world" where
  "handoff_world_new = \<lparr>hw_entries = no_handoffs, hw_reservations = []\<rparr>"

definition spend :: "handoff_reservation \<Rightarrow> ('s, 'c) handoff_entries \<Rightarrow> ('s, 'c) handoff_world \<Rightarrow> ('s, 'c) handoff_world" where
  "spend h st w = (if h \<in> set (hw_reservations w)
     then \<lparr>hw_entries = st, hw_reservations = remove1 h (hw_reservations w)\<rparr> else w)"

fun handoff_step :: "(rstr \<Rightarrow> rstr) \<Rightarrow> ('s, 'c) handoff_world \<Rightarrow> ('s, 'c) handoff_event \<Rightarrow> ('s, 'c) handoff_world" where
  "handoff_step dg w (HReserve fresh now p) =
     (case handoff_reserve dg fresh now p (hw_entries w) of
        (Ok h, st) \<Rightarrow> \<lparr>hw_entries = st, hw_reservations = h # hw_reservations w\<rparr>
      | (_, st) \<Rightarrow> w\<lparr>hw_entries := st\<rparr>)"
| "handoff_step dg w (HIssue now h r) = spend h (snd (issue_reserved now h r (hw_entries w))) w"
| "handoff_step dg w (HDrop h) = spend h (drop_handoff_reservation h (hw_entries w)) w"
| "handoff_step dg w (HInspect now p token) =
     w\<lparr>hw_entries := snd (handoff_inspect dg now p token (hw_entries w))\<rparr>"
| "handoff_step dg w (HTake now p token) =
     w\<lparr>hw_entries := snd (handoff_take dg now p token (hw_entries w))\<rparr>"
| "handoff_step dg w (HTakeReplace fresh now p token) =
     (case take_with_replacement dg fresh now p token (hw_entries w) of
        (Ok (_, h), st) \<Rightarrow> \<lparr>hw_entries = st, hw_reservations = h # hw_reservations w\<rparr>
      | (_, st) \<Rightarrow> w\<lparr>hw_entries := st\<rparr>)"

definition held_by :: "rstr \<Rightarrow> handoff_reservation list \<Rightarrow> nat" where
  "held_by p hs = length (filter (\<lambda>h. hres_principal_id h = p) hs)"

text \<open>
  The invariant of the entries against the list of outstanding reservations.
\<close>

definition handoff_inv :: "('s, 'c) handoff_entries \<Rightarrow> handoff_reservation list \<Rightarrow> bool" where
  "handoff_inv st hs \<longleftrightarrow>
     bt_wf (he_entries st) \<and> distinct (map hres_digest hs)
     \<and> he_reserved_tokens st = hres_digest ` set hs
     \<and> (\<forall>p. map_of (he_reserved_by_principal st) p = (if held_by p hs = 0 then None else Some (held_by p hs)))
     \<and> (\<forall>d \<in> he_reserved_tokens st. \<not> bt_contains d (he_entries st))
     \<and> length (he_entries st) + length hs \<le> MAX_HANDOFFS
     \<and> (\<forall>p. live_for p st + held_by p hs \<le> MAX_HANDOFFS_PER_PRINCIPAL)"

lemma held_by_simps [simp]:
  "held_by p [] = 0" "held_by p (h # hs) = (if hres_principal_id h = p then 1 else 0) + held_by p hs"
  by (simp_all add: held_by_def)

lemma held_by_remove:
  "h \<in> set hs \<Longrightarrow> held_by p hs = (if hres_principal_id h = p then 1 else 0) + held_by p (remove1 h hs)"
  by (induction hs) auto

lemma card_reserved: "handoff_inv st hs \<Longrightarrow> card (he_reserved_tokens st) = length hs"
  by (metis distinct_card handoff_inv_def length_map set_map)

lemma reserved_for_held: "handoff_inv st hs \<Longrightarrow> reserved_for p (he_reserved_by_principal st) = held_by p hs"
  by (simp add: handoff_inv_def reserved_for_def)

text \<open>Losing entries never hurts.\<close>

lemma handoff_inv_shrink:
  assumes inv: "handoff_inv st hs" and wf: "bt_wf es"
    and keys: "\<And>d. bt_contains d es \<Longrightarrow> bt_contains d (he_entries st)"
    and len: "length es \<le> length (he_entries st)"
    and live: "\<And>p. bt_count (\<lambda>r. hr_principal_id r = p) es \<le> live_for p st"
  shows "handoff_inv (st\<lparr>he_entries := es\<rparr>) hs"
proof -
  have "length es + length hs \<le> MAX_HANDOFFS" using inv len by (simp add: handoff_inv_def)
  moreover have "bt_count (\<lambda>r. hr_principal_id r = p) es + held_by p hs \<le> MAX_HANDOFFS_PER_PRINCIPAL" for p
  proof -
    have "live_for p st + held_by p hs \<le> MAX_HANDOFFS_PER_PRINCIPAL" using inv by (simp add: handoff_inv_def)
    with live [of p] show ?thesis by linarith
  qed
  moreover have "\<forall>d \<in> he_reserved_tokens st. \<not> bt_contains d es"
    using inv keys unfolding handoff_inv_def by blast
  ultimately show ?thesis
    using inv wf by (simp add: handoff_inv_def live_for_def)
qed

lemma take_expired_inv:
  assumes "handoff_inv st hs"
  shows "handoff_inv (take_expired now st) hs"
proof -
  have wf: "bt_wf (he_entries st)" using assms by (simp add: handoff_inv_def)
  show ?thesis unfolding take_expired_def
  proof (rule handoff_inv_shrink [OF assms bt_wf_filter [OF wf]])
    show "bt_contains d (filter Q (he_entries st)) \<Longrightarrow> bt_contains d (he_entries st)" for d Q
      using get_filter [OF wf] by (auto simp: bt_contains_def)
  qed (simp_all add: live_for_def bt_count_filter)
qed

lemma remove_entry_inv:
  assumes "handoff_inv st hs"
  shows "handoff_inv (st\<lparr>he_entries := bt_remove d (he_entries st)\<rparr>) hs"
proof -
  have wf: "bt_wf (he_entries st)" using assms by (simp add: handoff_inv_def)
  show ?thesis
  proof (rule handoff_inv_shrink [OF assms bt_wf_remove [OF wf]])
    show "bt_contains e (bt_remove d (he_entries st)) \<Longrightarrow> bt_contains e (he_entries st)" for e
      by (simp add: bt_contains_def split: if_splits)
  qed (simp_all add: live_for_def bt_remove_def bt_count_filter)
qed

lemma reserve_inv_step:
  assumes "handoff_inv st hs" "h = \<lparr>hres_principal_id = p, hres_token = tk, hres_digest = d\<rparr>"
    and "\<not> bt_contains d (he_entries st)" "d \<notin> he_reserved_tokens st"
    and "length (he_entries st) + length hs < MAX_HANDOFFS"
    and "live_for p st + held_by p hs < MAX_HANDOFFS_PER_PRINCIPAL"
  shows "handoff_inv (bump_principal p (st\<lparr>he_reserved_tokens := insert d (he_reserved_tokens st)\<rparr>)) (h # hs)"
  using assms reserved_for_held [OF assms(1), of p]
  by (auto simp: handoff_inv_def bump_principal_def live_for_def)

lemma release_inv:
  assumes "handoff_inv st hs" "h \<in> set hs"
  shows "\<exists>m. decrement_principal_reservation (hres_principal_id h)
      (st\<lparr>he_reserved_tokens := he_reserved_tokens st - {hres_digest h}\<rparr>) =
      (Ok (), st\<lparr>he_reserved_tokens := he_reserved_tokens st - {hres_digest h}, he_reserved_by_principal := m\<rparr>)
    \<and> handoff_inv (st\<lparr>he_reserved_tokens := he_reserved_tokens st - {hres_digest h},
        he_reserved_by_principal := m\<rparr>) (remove1 h hs)"
proof -
  let ?p = "hres_principal_id h"
  have i: "distinct (map hres_digest hs)" "he_reserved_tokens st = hres_digest ` set hs"
      "map_of (he_reserved_by_principal st) p = (if held_by p hs = 0 then None else Some (held_by p hs))" for p
    using assms(1) by (simp_all add: handoff_inv_def)
  have hb: "held_by p hs = (if ?p = p then 1 else 0) + held_by p (remove1 h hs)" for p
    by (rule held_by_remove [OF assms(2)])
  have d: "distinct hs" and inj: "inj_on hres_digest (set hs)" using i(1) by (auto simp: distinct_map)
  have tk: "he_reserved_tokens st - {hres_digest h} = hres_digest ` set (remove1 h hs)"
    using i(2) inj assms(2) by (auto simp: set_remove1_eq [OF d] inj_on_def)
  have dd: "distinct (map hres_digest (remove1 h hs))"
    using d inj by (auto simp: distinct_map set_remove1_eq [OF d] intro: inj_on_subset)
  have len: "length (remove1 h hs) \<le> length hs" by (simp add: length_remove1)
  define m where "m = (if held_by ?p hs = 1 then bt_remove ?p (he_reserved_by_principal st)
      else bt_insert ?p (held_by ?p hs - 1) (he_reserved_by_principal st))"
  have "decrement_principal_reservation ?p (st\<lparr>he_reserved_tokens := he_reserved_tokens st - {hres_digest h}\<rparr>) =
      (Ok (), st\<lparr>he_reserved_tokens := he_reserved_tokens st - {hres_digest h}, he_reserved_by_principal := m\<rparr>)"
    using hb [of ?p] i(3) [of ?p] by (simp add: decrement_principal_reservation_def m_def)
  moreover have "map_of m p = (if held_by p (remove1 h hs) = 0 then None else Some (held_by p (remove1 h hs)))" for p
    using hb [of p] hb [of ?p] i(3) [of p] by (auto simp: m_def)
  moreover have "live_for p (st\<lparr>he_reserved_tokens := T, he_reserved_by_principal := m\<rparr>) = live_for p st" for p T
    by (simp add: live_for_def)
  moreover have "live_for p st + held_by p (remove1 h hs) \<le> MAX_HANDOFFS_PER_PRINCIPAL" for p
    using assms(1) hb [of p] unfolding handoff_inv_def by (metis add_leD1 add.left_commute add.commute)
  moreover have "\<forall>d \<in> he_reserved_tokens st - {hres_digest h}. \<not> bt_contains d (he_entries st)"
    using assms(1) by (simp add: handoff_inv_def)
  moreover have "length (he_entries st) + length (remove1 h hs) \<le> MAX_HANDOFFS"
    using assms(1) len by (simp add: handoff_inv_def)
  moreover have "bt_wf (he_entries st)" using assms(1) by (simp add: handoff_inv_def)
  ultimately show ?thesis
    using dd by (intro exI [of _ m]) (simp add: handoff_inv_def tk)
qed

text \<open>What an issue does to a state that satisfies the invariant.\<close>

lemma issue_result:
  assumes "handoff_inv st hs" "h \<in> set hs"
  obtains (stored) m where "hr_principal_id r = hres_principal_id h"
      "issue_reserved now h r st = (Ok (hres_token h),
         st\<lparr>he_reserved_tokens := he_reserved_tokens st - {hres_digest h}, he_reserved_by_principal := m,
            he_entries := bt_insert (hres_digest h) (effective_expiry now r) (he_entries st)\<rparr>)"
      "handoff_inv (snd (issue_reserved now h r st)) (remove1 h hs)"
  | (mismatch) "hr_principal_id r \<noteq> hres_principal_id h"
      "issue_reserved now h r st = (Err PrincipalMismatch, drop_handoff_reservation h st)"
proof (cases "hr_principal_id r = hres_principal_id h")
  case False
  then show ?thesis using mismatch by (simp add: issue_reserved_def commit_reserved_def)
next
  case True
  let ?p = "hres_principal_id h" and ?d = "hres_digest h"
  obtain m where m: "decrement_principal_reservation ?p (st\<lparr>he_reserved_tokens := he_reserved_tokens st - {?d}\<rparr>) =
      (Ok (), st\<lparr>he_reserved_tokens := he_reserved_tokens st - {?d}, he_reserved_by_principal := m\<rparr>)"
    and inv: "handoff_inv (st\<lparr>he_reserved_tokens := he_reserved_tokens st - {?d},
        he_reserved_by_principal := m\<rparr>) (remove1 h hs)"
    using release_inv [OF assms] by blast
  have d: "?d \<in> he_reserved_tokens st" "\<not> bt_contains ?d (he_entries st)"
    using assms by (auto simp: handoff_inv_def)
  let ?st = "st\<lparr>he_reserved_tokens := he_reserved_tokens st - {?d}, he_reserved_by_principal := m,
      he_entries := bt_insert ?d (effective_expiry now r) (he_entries st)\<rparr>"
  have e: "issue_reserved now h r st = (Ok (hres_token h), ?st)"
    using m d True by (simp add: issue_reserved_def commit_reserved_def)
  have pr: "hr_principal_id (effective_expiry now r) = ?p" using True by (simp add: effective_expiry_def)
  have len: "length (bt_insert ?d (effective_expiry now r) (he_entries st)) + length (remove1 h hs) \<le> MAX_HANDOFFS"
  proof -
    have "length (remove1 h hs) + 1 = length hs"
      using assms(2) length_pos_if_in_set [OF assms(2)] by (simp add: length_remove1)
    moreover have "length (he_entries st) + length hs \<le> MAX_HANDOFFS" "bt_wf (he_entries st)"
      using assms(1) by (simp_all add: handoff_inv_def)
    moreover have "length (bt_insert ?d (effective_expiry now r) (he_entries st)) = length (he_entries st) + 1"
      using d(2) \<open>bt_wf (he_entries st)\<close> by (simp add: length_insert)
    ultimately show ?thesis by linarith
  qed
  have live: "live_for p ?st + held_by p (remove1 h hs) \<le> MAX_HANDOFFS_PER_PRINCIPAL" for p
  proof -
    have "live_for p ?st = (if ?p = p then 1 else 0) + live_for p st"
      using d(2) pr by (simp add: live_for_def bt_count_insert)
    moreover have "live_for p st + held_by p hs \<le> MAX_HANDOFFS_PER_PRINCIPAL"
      using assms(1) by (simp add: handoff_inv_def)
    ultimately show ?thesis using held_by_remove [OF assms(2), of p] by simp
  qed
  have "handoff_inv ?st (remove1 h hs)"
  proof -
    have old: "bt_wf (he_entries st)" "distinct (map hres_digest (remove1 h hs))"
        "he_reserved_tokens st - {?d} = hres_digest ` set (remove1 h hs)"
        "\<forall>p. map_of m p = (if held_by p (remove1 h hs) = 0 then None else Some (held_by p (remove1 h hs)))"
        "\<forall>e \<in> he_reserved_tokens st - {?d}. \<not> bt_contains e (he_entries st)"
      using inv by (simp_all add: handoff_inv_def)
    have "\<forall>e \<in> he_reserved_tokens st - {?d}. \<not> bt_contains e (bt_insert ?d (effective_expiry now r) (he_entries st))"
      using old(5) by (simp add: bt_contains_def)
    then show ?thesis
      unfolding handoff_inv_def using old len live by (simp add: bt_wf_insert)
  qed
  with e True stored show ?thesis by simp
qed

lemma drop_handoff_inv:
  "handoff_inv st hs \<Longrightarrow> h \<in> set hs \<Longrightarrow> handoff_inv (drop_handoff_reservation h st) (remove1 h hs)"
  using release_inv [of st hs h] by (auto simp: drop_handoff_reservation_def)

lemma issue_inv:
  assumes "handoff_inv st hs" "h \<in> set hs"
  shows "handoff_inv (snd (issue_reserved now h r st)) (remove1 h hs)"
  by (rule issue_result [OF assms, of r now]) (use drop_handoff_inv [OF assms] in simp_all)

lemma handoff_reserve_inv:
  assumes "handoff_inv st hs"
  shows "case handoff_reserve dg fresh now p st of (Ok h, st') \<Rightarrow> handoff_inv st' (h # hs) | (_, st') \<Rightarrow> handoff_inv st' hs"
proof (cases fresh)
  case (Ok token)
  let ?st = "take_expired now st"
  have inv: "handoff_inv ?st hs" by (rule take_expired_inv [OF assms])
  have cap: "length (he_entries ?st) + length hs < MAX_HANDOFFS \<and>
      live_for p ?st + held_by p hs < MAX_HANDOFFS_PER_PRINCIPAL" if "ensure_capacity p ?st = Ok ()"
    using that card_reserved [OF inv] reserved_for_held [OF inv, of p]
    by (auto simp: ensure_capacity_def sat_add_ge_iff MAX_HANDOFFS_def MAX_HANDOFFS_PER_PRINCIPAL_def u64_max_def
        split: if_splits)
  show ?thesis
  proof (cases "ensure_capacity p ?st")
    case (Ok u)
    with \<open>fresh = _\<close> inv cap reserve_inv_step [OF inv refl] show ?thesis
      by (simp add: handoff_reserve_def Let_def)
  qed (use \<open>fresh = _\<close> inv in \<open>simp_all add: handoff_reserve_def Let_def\<close>)
qed (use assms in \<open>simp_all add: handoff_reserve_def\<close>)

lemma handoff_inspect_inv: "handoff_inv st hs \<Longrightarrow> handoff_inv (snd (handoff_inspect dg now p tk st)) hs"
  using take_expired_inv [of st hs now] by (auto simp: handoff_inspect_def Let_def split: option.splits)

lemma handoff_take_inv: "handoff_inv st hs \<Longrightarrow> handoff_inv (snd (handoff_take dg now p tk st)) hs"
  using take_expired_inv [of st hs now] remove_entry_inv [of "take_expired now st" hs]
  by (auto simp: handoff_take_def Let_def split: option.splits)

lemma take_with_replacement_inv:
  assumes "handoff_inv st hs"
  shows "case take_with_replacement dg fresh now p tk st of (Ok (r, h), st') \<Rightarrow> handoff_inv st' (h # hs)
    | (_, st') \<Rightarrow> handoff_inv st' hs"
proof (cases fresh)
  case (Ok token)
  let ?st = "take_expired now st" and ?d = "dg token"
  have inv: "handoff_inv ?st hs" by (rule take_expired_inv [OF assms])
  show ?thesis
  proof (cases "bad_token tk")
    case False
    show ?thesis
    proof (cases "map_of (he_entries ?st) (dg tk)")
      case None
      with Ok False inv show ?thesis by (simp add: take_with_replacement_def Let_def)
    next
      case (Some r)
      let ?st' = "?st\<lparr>he_entries := bt_remove (dg tk) (he_entries ?st)\<rparr>"
      have inv': "handoff_inv ?st' hs" by (rule remove_entry_inv [OF inv])
      have wf: "bt_wf (he_entries ?st)" using inv by (simp add: handoff_inv_def)
      have len: "Suc (length (he_entries ?st')) = length (he_entries ?st)"
        using btree.size_remove [OF wf Some] by simp
      have live: "hr_principal_id r = p \<Longrightarrow> live_for p ?st = Suc (live_for p ?st')"
        using bt_count_remove [OF wf Some, of "\<lambda>r. hr_principal_id r = p"] by (simp add: live_for_def)
      have b: "length (he_entries ?st) + length hs \<le> MAX_HANDOFFS"
          "live_for p ?st + held_by p hs \<le> MAX_HANDOFFS_PER_PRINCIPAL"
        using inv by (simp_all add: handoff_inv_def)
      show ?thesis
      proof (cases "owned now p r \<and> \<not> bt_contains ?d (he_entries ?st) \<and> ?d \<notin> he_reserved_tokens ?st")
        case True
        have "handoff_inv (bump_principal p (?st'\<lparr>he_reserved_tokens := insert ?d (he_reserved_tokens ?st')\<rparr>))
            (\<lparr>hres_principal_id = p, hres_token = token, hres_digest = ?d\<rparr> # hs)"
          by (rule reserve_inv_step [OF inv' refl])
            (use True len live b in \<open>simp_all add: owned_def bt_contains_def\<close>)
        moreover have "?st'\<lparr>he_reserved_tokens := T\<rparr> =
            ?st\<lparr>he_reserved_tokens := T, he_entries := bt_remove (dg tk) (he_entries ?st)\<rparr>" for T
          by simp
        ultimately show ?thesis using True Ok False Some by (simp add: take_with_replacement_def Let_def)
      qed (use Ok False Some inv in \<open>auto simp: take_with_replacement_def Let_def\<close>)
    qed
  qed (use assms in \<open>simp add: take_with_replacement_def\<close>)
qed (use assms in \<open>simp_all add: take_with_replacement_def\<close>)

lemma handoff_step_inv:
  "handoff_inv (hw_entries w) (hw_reservations w) \<Longrightarrow>
     handoff_inv (hw_entries (handoff_step dg w e)) (hw_reservations (handoff_step dg w e))"
proof (cases e)
  case (HReserve fresh now p)
  assume inv: "handoff_inv (hw_entries w) (hw_reservations w)"
  from handoff_reserve_inv [OF inv, of dg fresh now p] HReserve show ?thesis
    by (auto split: prod.splits res.splits)
next
  case (HTakeReplace fresh now p tk)
  assume inv: "handoff_inv (hw_entries w) (hw_reservations w)"
  from take_with_replacement_inv [OF inv, of dg fresh now p tk] HTakeReplace show ?thesis
    by (auto split: prod.splits res.splits)
qed (simp_all add: spend_def issue_inv drop_handoff_inv handoff_inspect_inv handoff_take_inv)

interpretation handoffs: state_machine handoff_world_new "handoff_step dg"
  "\<lambda>w. handoff_inv (hw_entries w) (hw_reservations w)" for dg
  by unfold_locales
    (simp_all add: handoff_step_inv,
     simp add: handoff_world_new_def no_handoffs_def handoff_inv_def live_for_def bt_count_def)

definition handoff_run :: "(rstr \<Rightarrow> rstr) \<Rightarrow> ('s, 'c) handoff_event list \<Rightarrow> ('s, 'c) handoff_world" where
  "handoff_run dg es = run (handoff_step dg) handoff_world_new es"

lemma handoff_run_inv: "handoff_inv (hw_entries (handoff_run dg es)) (hw_reservations (handoff_run dg es))"
  unfolding handoff_run_def by (rule handoffs.run_inv)

section \<open>Properties\<close>

definition demo_token :: rstr where "demo_token = replicate 40 97"
definition demo_digest :: "rstr \<Rightarrow> rstr" where "demo_digest s = rev s"

definition demo_record :: "(unit, unit) handoff_record" where
  "demo_record = \<lparr>hr_principal_id = [1], hr_model_id = [], hr_state_id = None, hr_state = (),
     hr_compatibility = (), hr_expires_unix_ms = 0\<rparr>"

definition demo_reservation :: handoff_reservation where
  "demo_reservation = \<lparr>hres_principal_id = [1], hres_token = demo_token, hres_digest = demo_token\<rparr>"

lemmas handoff_defs = handoff_run_def handoff_world_new_def no_handoffs_def handoff_reserve_def take_expired_def
  ensure_capacity_def MAX_HANDOFFS_def MAX_HANDOFFS_PER_PRINCIPAL_def live_for_def bt_count_def
  reserved_for_def bt_contains_def bump_principal_def sat_add_def u64_max_def demo_token_def
  demo_digest_def demo_record_def demo_reservation_def Let_def

lemma demo_reserve:
  "handoff_reserve demo_digest (Ok demo_token) 5 [1] (hw_entries (handoff_run demo_digest []) :: (unit, unit) handoff_entries) =
     (Ok demo_reservation, \<lparr>he_entries = [], he_reserved_tokens = {demo_token},
        he_reserved_by_principal = [([1], 1)]\<rparr>)"
  by (simp add: handoff_defs rev_replicate)

text \<open>
  C9. The handoff registry never exceeds its bounds: after any sequence of operations the
  stored handoffs and the outstanding reservations are at most 1024 together and at most 128
  for each principal, the per-principal counters are the numbers of outstanding reservations,
  and no reserved digest is stored.
\<close>

theorem handoff_capacity:
  "let w = handoff_run dg es; st = hw_entries w in
     length (he_entries st) + card (he_reserved_tokens st) \<le> MAX_HANDOFFS
     \<and> card (he_reserved_tokens st) = length (hw_reservations w)
     \<and> live_for p st + reserved_for p (he_reserved_by_principal st) \<le> MAX_HANDOFFS_PER_PRINCIPAL
     \<and> reserved_for p (he_reserved_by_principal st) = held_by p (hw_reservations w)
     \<and> he_reserved_tokens st \<inter> fst ` set (he_entries st) = {}"
  using handoff_run_inv [of dg es] card_reserved [OF handoff_run_inv [of dg es]]
    reserved_for_held [OF handoff_run_inv [of dg es], of p]
  by (auto simp: handoff_inv_def Let_def bt_contains_iff)

text \<open>
  An outstanding reservation always issues: for a record of the same principal,
  \<open>issue\<close> returns the reserved token, stores exactly that record (with the default expiry
  when it has none) under the reserved digest, and drops the reservation exactly once: every
  principal's count is then the number of the other outstanding reservations.
\<close>

theorem outstanding_reservation_issues:
  assumes "w = handoff_run dg es" "h \<in> set (hw_reservations w)" "hr_principal_id r = hres_principal_id h"
  shows "\<exists>st'. issue_reserved now h r (hw_entries w) = (Ok (hres_token h), st')
    \<and> he_entries st' = bt_insert (hres_digest h) (effective_expiry now r) (he_entries (hw_entries w))
    \<and> he_reserved_tokens st' = he_reserved_tokens (hw_entries w) - {hres_digest h}
    \<and> (\<forall>p. reserved_for p (he_reserved_by_principal st') = held_by p (remove1 h (hw_reservations w)))"
proof -
  have inv: "handoff_inv (hw_entries w) (hw_reservations w)" unfolding assms(1) by (rule handoff_run_inv)
  show ?thesis
  proof (rule issue_result [OF inv assms(2), of r now])
    fix m
    assume e: "issue_reserved now h r (hw_entries w) = (Ok (hres_token h),
        (hw_entries w)\<lparr>he_reserved_tokens := he_reserved_tokens (hw_entries w) - {hres_digest h},
          he_reserved_by_principal := m,
          he_entries := bt_insert (hres_digest h) (effective_expiry now r) (he_entries (hw_entries w))\<rparr>)"
      and i: "handoff_inv (snd (issue_reserved now h r (hw_entries w))) (remove1 h (hw_reservations w))"
    from reserved_for_held [OF i] e show ?thesis by simp
  qed (use assms(3) in simp)
qed

theorem outstanding_reservation_issues_witness:
  "\<exists>st'. issue_reserved 6 demo_reservation demo_record
     (hw_entries (handoff_run demo_digest [HReserve (Ok demo_token) 5 [1]])) = (Ok demo_token, st')"
proof -
  have m: "demo_reservation \<in> set (hw_reservations
      (handoff_run demo_digest [HReserve (Ok demo_token) 5 [1]] :: (unit, unit) handoff_world))"
    using demo_reserve by (simp add: handoff_run_def)
  have p: "hr_principal_id demo_record = hres_principal_id demo_reservation"
    by (simp add: demo_record_def demo_reservation_def)
  have t: "hres_token demo_reservation = demo_token" by (simp add: demo_reservation_def)
  from outstanding_reservation_issues [OF refl m p, of 6] show ?thesis unfolding t by blast
qed

text \<open>
  C10. A handoff is single-use and bound to its principal: what is reserved and issued can be
  taken by its principal before it expires and is the record that was issued; no other
  principal gets it; once taken neither \<open>take\<close> nor \<open>inspect\<close> finds it again; and from its
  expiry on nobody can take or inspect it, its principal included.
\<close>

theorem handoff_single_use:
  assumes "w = handoff_run dg es" "handoff_reserve dg fresh now p (hw_entries w) = (Ok h, st1)"
    and "issue_reserved now1 h r st1 = (Ok token, st2)" "\<not> bad_token token"
    and "now2 < hr_expires_unix_ms (effective_expiry now1 r)"
  shows "\<exists>st3. handoff_take dg now2 p token st2 = (Ok (effective_expiry now1 r), st3)
    \<and> (\<forall>now3 q. fst (handoff_take dg now3 q token st3) = Err ExpiredHandoff
         \<and> fst (handoff_inspect dg now3 q token st3) = Err ExpiredHandoff)
    \<and> (\<forall>q. q \<noteq> p \<longrightarrow> fst (handoff_take dg now2 q token st2) = Err ExpiredHandoff
         \<and> fst (handoff_inspect dg now2 q token st2) = Err ExpiredHandoff)
    \<and> (\<forall>late q. hr_expires_unix_ms (effective_expiry now1 r) \<le> late \<longrightarrow>
         fst (handoff_take dg late q token st2) = Err ExpiredHandoff
         \<and> fst (handoff_inspect dg late q token st2) = Err ExpiredHandoff)"
proof -
  have inv: "handoff_inv (hw_entries w) (hw_reservations w)" unfolding assms(1) by (rule handoff_run_inv)
  have inv1: "handoff_inv st1 (h # hw_reservations w)"
    using handoff_reserve_inv [OF inv, of dg fresh now p] assms(2) by simp
  have h: "hres_principal_id h = p" "hres_digest h = dg (hres_token h)"
    using assms(2) by (auto simp: handoff_reserve_def Let_def split: res.splits if_splits)
  have inv2: "handoff_inv st2 (hw_reservations w)"
    using issue_inv [OF inv1, of h now1 r] assms(3) by simp
  have st2: "token = hres_token h" "map_of (he_entries st2) (dg token) = Some (effective_expiry now1 r)"
      "hr_principal_id r = p"
    by (rule issue_result [OF inv1, of h r now1]; use assms(3) h in simp)+
  have wf: "bt_wf (he_entries st2)" using inv2 by (simp add: handoff_inv_def)
  have e: "map_of (he_entries (take_expired now2 st2)) (dg token) = Some (effective_expiry now1 r)"
    using st2(2) assms(5) by (simp add: take_expired_def get_filter [OF wf])
  have pr: "hr_principal_id (effective_expiry now1 r) = p" using st2(3) by (simp add: effective_expiry_def)
  define st3 where "st3 = (take_expired now2 st2)\<lparr>he_entries :=
      bt_remove (dg token) (he_entries (take_expired now2 st2))\<rparr>"
  have "handoff_take dg now2 p token st2 = (Ok (effective_expiry now1 r), st3)"
    using e pr assms(4,5) by (simp add: handoff_take_def Let_def owned_def st3_def)
  moreover have gone: "map_of (he_entries (take_expired now3 st3)) (dg token) = None" for now3
  proof -
    have "map_of (he_entries st3) (dg token) = None" by (simp add: st3_def)
    then show ?thesis by (simp add: take_expired_def get_filter_None)
  qed
  moreover have "q \<noteq> p \<Longrightarrow> fst (handoff_take dg now2 q token st2) = Err ExpiredHandoff
      \<and> fst (handoff_inspect dg now2 q token st2) = Err ExpiredHandoff" for q
    using e pr assms(4) by (simp add: handoff_take_def handoff_inspect_def Let_def owned_def)
  moreover have "fst (handoff_take dg late q token st2) = Err ExpiredHandoff
      \<and> fst (handoff_inspect dg late q token st2) = Err ExpiredHandoff"
    if "hr_expires_unix_ms (effective_expiry now1 r) \<le> late" for late q
  proof -
    have "map_of (he_entries (take_expired late st2)) (dg token) \<noteq> Some v" for v
      using st2(2) that by (auto simp: take_expired_def get_filter [OF wf])
    then have "map_of (he_entries (take_expired late st2)) (dg token) = None" by (meson not_Some_eq)
    then show ?thesis using assms(4) by (simp add: handoff_take_def handoff_inspect_def Let_def)
  qed
  ultimately show ?thesis
    using assms(4) by (intro exI [of _ st3]) (simp add: handoff_take_def handoff_inspect_def Let_def)
qed

theorem handoff_single_use_witness:
  "\<exists>st2 st3. handoff_take demo_digest 7 [1] demo_token st2 = (Ok (effective_expiry 6 demo_record), st3)
     \<and> fst (handoff_take demo_digest 7 [2] demo_token st2) = Err ExpiredHandoff
     \<and> fst (handoff_take demo_digest (hr_expires_unix_ms (effective_expiry 6 demo_record)) [1] demo_token st2)
         = Err ExpiredHandoff"
proof -
  have i: "\<exists>st2. issue_reserved 6 demo_reservation demo_record \<lparr>he_entries = [], he_reserved_tokens = {demo_token},
      he_reserved_by_principal = [([1], 1)]\<rparr> = (Ok demo_token, st2)"
    by (simp add: issue_reserved_def commit_reserved_def decrement_principal_reservation_def
        demo_reservation_def demo_record_def bt_contains_def)
  then obtain st2 where st2: "issue_reserved 6 demo_reservation demo_record \<lparr>he_entries = [],
      he_reserved_tokens = {demo_token}, he_reserved_by_principal = [([1], 1)]\<rparr> = (Ok demo_token, st2)"
    by blast
  have b: "\<not> bad_token demo_token"
    by (simp add: bad_token_def demo_token_def str_len_def utf8_width_def sum_list_replicate)
  have x: "7 < hr_expires_unix_ms (effective_expiry 6 demo_record)"
    by (simp add: effective_expiry_def demo_record_def sat_add_def DEFAULT_HANDOFF_TTL_MS_def u64_max_def)
  have q: "([2] :: rstr) \<noteq> [1]" by simp
  from handoff_single_use [OF refl demo_reserve st2 b x] q show ?thesis by blast
qed

end
