(* ===== verification/Job_Store.thy ===== *)
theory Job_Store
  imports BTree_Map "HOL-Library.List_Lexorder"
begin

text \<open>
  Persisted media jobs (\<open>src/src/inference_service/jobs.rs\<close>): the job state machine, the
  store's operations and the worker that \<open>submit\<close> spawns, one step per call it makes, so
  that its steps interleave with cancellations. The directory is a map from file stems to
  parsed records (\<open>None\<close> for a file that does not parse); an atomic write happens or fails
  as a whole. Requests and results are opaque.
\<close>

section \<open>Records\<close>

datatype job_status = Queued | Loading | Running | Encoding | Completed | Failed | Cancelled

fun terminal :: "job_status \<Rightarrow> bool" where
  "terminal Completed = True"
| "terminal Failed = True"
| "terminal Cancelled = True"
| "terminal Queued = False"
| "terminal Loading = False"
| "terminal Running = False"
| "terminal Encoding = False"

text \<open>How far a job is: every accepted transition moves strictly forward.\<close>

fun job_rank :: "job_status \<Rightarrow> nat" where
  "job_rank Queued = 0"
| "job_rank Loading = 1"
| "job_rank Running = 2"
| "job_rank Encoding = 3"
| "job_rank Completed = 4"
| "job_rank Failed = 4"
| "job_rank Cancelled = 4"

record ('q, 'r) job_record =
  job_id :: rstr
  job_status_of :: job_status
  job_request :: 'q
  job_result :: "'r option"
  job_error :: "rstr option"
  job_created_unix :: nat
  job_updated_unix :: nat

datatype job_error =
    UnsafeIdentifier rstr
  | JobNotFound rstr
  | InvalidPersistedJob rstr
  | AlreadyTerminal rstr job_status
  | InvalidTransition job_status job_status
  | JobIo

type_synonym ('q, 'r) job_files = "(rstr, ('q, 'r) job_record option) btree"

definition safe_name_char :: "nat \<Rightarrow> bool" where
  "safe_name_char c \<longleftrightarrow> is_ascii_alnum c \<or> c = 45 \<or> c = 95 \<or> c = 46"

definition validate_safe_name :: "rstr \<Rightarrow> (job_error, unit) res" where
  "validate_safe_name v =
     (if v = [] \<or> str_len v > 128 \<or> list_ex (\<lambda>c. \<not> safe_name_char c) v \<or> v = [46] \<or> v = [46, 46]
      then Err (UnsafeIdentifier v) else Ok ())"

fun valid_job_transition :: "job_status \<Rightarrow> job_status \<Rightarrow> bool" where
  "valid_job_transition Queued t \<longleftrightarrow> t \<in> {Loading, Running, Failed, Cancelled}"
| "valid_job_transition Loading t \<longleftrightarrow> t \<in> {Running, Failed, Cancelled}"
| "valid_job_transition Running t \<longleftrightarrow> t \<in> {Encoding, Completed, Failed, Cancelled}"
| "valid_job_transition Encoding t \<longleftrightarrow> t \<in> {Completed, Failed, Cancelled}"
| "valid_job_transition Completed t \<longleftrightarrow> False"
| "valid_job_transition Failed t \<longleftrightarrow> False"
| "valid_job_transition Cancelled t \<longleftrightarrow> False"

lemma valid_job_transition_forward: "valid_job_transition s t \<Longrightarrow> job_rank s < job_rank t"
  by (cases s) auto

section \<open>Operations\<close>

text \<open>\<open>io\<close> says whether the atomic write of this call succeeds.\<close>

definition job_write ::
  "bool \<Rightarrow> ('q, 'r) job_record \<Rightarrow> ('q, 'r) job_files \<Rightarrow> (job_error, unit) res \<times> ('q, 'r) job_files"
where
  "job_write io r fs =
     (case validate_safe_name (job_id r) of
        Err e \<Rightarrow> (Err e, fs)
      | Panic \<Rightarrow> (Panic, fs)
      | Ok _ \<Rightarrow> if io then (Ok (), bt_insert (job_id r) (Some r) fs) else (Err JobIo, fs))"

definition job_get :: "rstr \<Rightarrow> ('q, 'r) job_files \<Rightarrow> (job_error, ('q, 'r) job_record) res" where
  "job_get i fs =
     res_bind (validate_safe_name i) (\<lambda>_.
       case map_of fs i of
         None \<Rightarrow> Err (JobNotFound i)
       | Some None \<Rightarrow> Err (InvalidPersistedJob i)
       | Some (Some r) \<Rightarrow> Ok r)"

definition job_list :: "('q, 'r) job_files \<Rightarrow> ('q, 'r) job_record list" where
  "job_list fs = sort_key job_created_unix (List.map_filter id (bt_values fs))"

definition job_create ::
  "(job_error, rstr) res \<Rightarrow> bool \<Rightarrow> nat \<Rightarrow> 'q \<Rightarrow> ('q, 'r) job_files \<Rightarrow>
     (job_error, ('q, 'r) job_record) res \<times> ('q, 'r) job_files"
where
  "job_create new_id io now q fs =
     (case new_id of
        Err e \<Rightarrow> (Err e, fs)
      | Panic \<Rightarrow> (Panic, fs)
      | Ok i \<Rightarrow>
          (let r = \<lparr>job_id = i, job_status_of = Queued, job_request = q, job_result = None,
                    job_error = None, job_created_unix = now, job_updated_unix = now\<rparr>
           in case job_write io r fs of
                (Ok _, fs') \<Rightarrow> (Ok r, fs')
              | (Err e, fs') \<Rightarrow> (Err e, fs')
              | (Panic, fs') \<Rightarrow> (Panic, fs')))"

definition store_status ::
  "bool \<Rightarrow> nat \<Rightarrow> job_status \<Rightarrow> 'r option \<Rightarrow> rstr option \<Rightarrow> ('q, 'r) job_record \<Rightarrow>
     ('q, 'r) job_files \<Rightarrow> (job_error, ('q, 'r) job_record) res \<times> ('q, 'r) job_files"
where
  "store_status io now s result error r fs =
     (let r' = r\<lparr>job_status_of := s, job_result := result, job_error := error, job_updated_unix := now\<rparr>
      in case job_write io r' fs of
           (Ok _, fs') \<Rightarrow> (Ok r', fs')
         | (Err e, fs') \<Rightarrow> (Err e, fs')
         | (Panic, fs') \<Rightarrow> (Panic, fs'))"

definition job_transition ::
  "bool \<Rightarrow> nat \<Rightarrow> rstr \<Rightarrow> job_status \<Rightarrow> 'r option \<Rightarrow> rstr option \<Rightarrow> ('q, 'r) job_files \<Rightarrow>
     (job_error, ('q, 'r) job_record) res \<times> ('q, 'r) job_files"
where
  "job_transition io now i s result error fs =
     (case job_get i fs of
        Err e \<Rightarrow> (Err e, fs)
      | Panic \<Rightarrow> (Panic, fs)
      | Ok r \<Rightarrow>
          if terminal (job_status_of r)
          then (if job_status_of r = s then (Ok r, fs)
                else (Err (AlreadyTerminal (job_id r) (job_status_of r)), fs))
          else if \<not> valid_job_transition (job_status_of r) s
          then (Err (InvalidTransition (job_status_of r) s), fs)
          else store_status io now s result error r fs)"

definition job_cancel ::
  "bool \<Rightarrow> nat \<Rightarrow> rstr \<Rightarrow> ('q, 'r) job_files \<Rightarrow>
     (job_error, ('q, 'r) job_record) res \<times> ('q, 'r) job_files"
where
  "job_cancel io now i fs =
     (case job_get i fs of
        Err e \<Rightarrow> (Err e, fs)
      | Panic \<Rightarrow> (Panic, fs)
      | Ok r \<Rightarrow>
          if terminal (job_status_of r) then (Ok r, fs)
          else if \<not> valid_job_transition (job_status_of r) Cancelled
          then (Err (InvalidTransition (job_status_of r) Cancelled), fs)
          else store_status io now Cancelled None None r fs)"

text \<open>
  Recovery fails every interrupted job of the listing, in order, and stops at the first
  transition that errors.
\<close>

definition interrupted_message :: rstr where
  "interrupted_message = lit ''job was interrupted by a Werk server restart''"

fun recover_records ::
  "(rstr \<Rightarrow> bool) \<Rightarrow> nat \<Rightarrow> ('q, 'r) job_record list \<Rightarrow> nat \<Rightarrow> ('q, 'r) job_files \<Rightarrow>
     (job_error, nat) res \<times> ('q, 'r) job_files"
where
  "recover_records io now [] n fs = (Ok n, fs)"
| "recover_records io now (r # rs) n fs =
     (case job_transition (io (job_id r)) now (job_id r) Failed None (Some interrupted_message) fs of
        (Ok _, fs') \<Rightarrow> recover_records io now rs (n + 1) fs'
      | (Err e, fs') \<Rightarrow> (Err e, fs')
      | (Panic, fs') \<Rightarrow> (Panic, fs'))"

definition recover_interrupted ::
  "(rstr \<Rightarrow> bool) \<Rightarrow> nat \<Rightarrow> ('q, 'r) job_files \<Rightarrow> (job_error, nat) res \<times> ('q, 'r) job_files"
where
  "recover_interrupted io now fs =
     recover_records io now (filter (\<lambda>r. \<not> terminal (job_status_of r)) (job_list fs)) 0 fs"

section \<open>The worker\<close>

text \<open>
  What the execution of the request gives (\<open>WorkPanic\<close> is a failed join), and the points
  between two calls of the spawned task. Each step is one call on the store.
\<close>

datatype 'r work_outcome = WorkOk 'r | WorkErr rstr | WorkPanic rstr

datatype ('q, 'r) worker =
    WStart
  | WLoading
  | WRunning
  | WRequest
  | WExecuting 'q
  | WFinished "'r work_outcome"
  | WEncoding 'r
  | WCompleting 'r
  | WFailing rstr
  | WDone

definition is_cancelled :: "(job_error, ('q, 'r) job_record) res \<Rightarrow> bool" where
  "is_cancelled x = (case x of Ok r \<Rightarrow> job_status_of r = Cancelled | _ \<Rightarrow> False)"

definition worker_failure :: "rstr \<Rightarrow> rstr" where
  "worker_failure e = lit ''job worker failed: '' @ e"

fun worker_step ::
  "rstr \<Rightarrow> bool \<Rightarrow> nat \<Rightarrow> 'r work_outcome \<Rightarrow> ('q, 'r) worker \<Rightarrow> ('q, 'r) job_files \<Rightarrow>
     ('q, 'r) worker \<times> ('q, 'r) job_files"
where
  "worker_step i io now out WStart fs = (if is_cancelled (job_get i fs) then WDone else WLoading, fs)"
| "worker_step i io now out WLoading fs =
     (let (r, fs') = job_transition io now i Loading None None fs
      in (if is_ok r then WRunning else WDone, fs'))"
| "worker_step i io now out WRunning fs =
     (let (r, fs') = job_transition io now i Running None None fs
      in (if is_ok r then WRequest else WDone, fs'))"
| "worker_step i io now out WRequest fs =
     (case job_get i fs of Ok r \<Rightarrow> (WExecuting (job_request r), fs) | _ \<Rightarrow> (WDone, fs))"
| "worker_step i io now out (WExecuting q) fs = (WFinished out, fs)"
| "worker_step i io now out (WFinished o') fs =
     (if is_cancelled (job_get i fs) then (WDone, fs)
      else (case o' of
              WorkOk res \<Rightarrow> (WEncoding res, fs)
            | WorkErr e \<Rightarrow> (WFailing e, fs)
            | WorkPanic e \<Rightarrow> (WFailing (worker_failure e), fs)))"
| "worker_step i io now out (WEncoding res) fs =
     (WCompleting res, snd (job_transition io now i Encoding None None fs))"
| "worker_step i io now out (WCompleting res) fs =
     (WDone, snd (job_transition io now i Completed (Some res) None fs))"
| "worker_step i io now out (WFailing e) fs =
     (WDone, snd (job_transition io now i Failed None (Some e) fs))"
| "worker_step i io now out WDone fs = (WDone, fs)"

section \<open>The store as a state machine\<close>

text \<open>
  A world: the files, the worker of each submitted job, and as a ghost the ids handed out
  by the generator.
\<close>

record ('q, 'r) job_world =
  jw_files :: "('q, 'r) job_files"
  jw_workers :: "(rstr, ('q, 'r) worker) btree"
  jw_created :: "rstr list"

datatype ('q, 'r) job_event =
    JSubmit "(job_error, rstr) res" bool nat 'q
  | JTransition bool nat rstr job_status "'r option" "rstr option"
  | JCancel bool nat rstr
  | JRecover "rstr \<Rightarrow> bool" nat
  | JWorker rstr bool nat "'r work_outcome"

definition job_world_new :: "('q, 'r) job_world" where
  "job_world_new = \<lparr>jw_files = [], jw_workers = [], jw_created = []\<rparr>"

fun job_step :: "('q, 'r) job_world \<Rightarrow> ('q, 'r) job_event \<Rightarrow> ('q, 'r) job_world" where
  "job_step w (JSubmit nid io now q) =
     (case job_create nid io now q (jw_files w) of
        (Ok r, fs) \<Rightarrow> \<lparr>jw_files = fs, jw_workers = bt_insert (job_id r) WStart (jw_workers w),
                       jw_created = jw_created w @ [job_id r]\<rparr>
      | (_, fs) \<Rightarrow> w\<lparr>jw_files := fs\<rparr>)"
| "job_step w (JTransition io now i s res err) =
     w\<lparr>jw_files := snd (job_transition io now i s res err (jw_files w))\<rparr>"
| "job_step w (JCancel io now i) = w\<lparr>jw_files := snd (job_cancel io now i (jw_files w))\<rparr>"
| "job_step w (JRecover io now) = w\<lparr>jw_files := snd (recover_interrupted io now (jw_files w))\<rparr>"
| "job_step w (JWorker i io now out) =
     (case map_of (jw_workers w) i of
        None \<Rightarrow> w
      | Some wk \<Rightarrow> (let (wk', fs) = worker_step i io now out wk (jw_files w)
                   in w\<lparr>jw_files := fs, jw_workers := bt_insert i wk' (jw_workers w)\<rparr>))"

definition files_ok :: "('q, 'r) job_files \<Rightarrow> bool" where
  "files_ok fs \<longleftrightarrow> bt_wf fs \<and> (\<forall>i r. map_of fs i = Some (Some r) \<longrightarrow> job_id r = i \<and> is_ok (validate_safe_name i))"

text \<open>
  Between two states of the files, outside a set of re-created ids, a terminal record does
  not change, and any other record keeps its id, request and creation time.
\<close>

definition files_evolve :: "rstr set \<Rightarrow> ('q, 'r) job_files \<Rightarrow> ('q, 'r) job_files \<Rightarrow> bool" where
  "files_evolve new fs fs' \<longleftrightarrow>
     (\<forall>i r. i \<notin> new \<longrightarrow> map_of fs i = Some (Some r) \<longrightarrow>
        (\<exists>r'. map_of fs' i = Some (Some r') \<and> (terminal (job_status_of r) \<longrightarrow> r' = r)
           \<and> job_rank (job_status_of r) \<le> job_rank (job_status_of r') \<and> job_request r' = job_request r \<and> job_created_unix r' = job_created_unix r))"

definition world_evolves :: "('q, 'r) job_world \<Rightarrow> ('q, 'r) job_world \<Rightarrow> bool" where
  "world_evolves w w' \<longleftrightarrow>
     (\<exists>new. jw_created w' = jw_created w @ new \<and> files_evolve (set new) (jw_files w) (jw_files w'))"

lemma files_evolve_refl: "files_evolve new fs fs"
  by (simp add: files_evolve_def)

lemma files_evolve_trans:
  assumes "files_evolve A f g" "files_evolve B g h"
  shows "files_evolve (A \<union> B) f h"
  unfolding files_evolve_def
proof (intro allI impI)
  fix i r assume i: "i \<notin> A \<union> B" "map_of f i = Some (Some r)"
  obtain r1 where r1: "map_of g i = Some (Some r1)" "terminal (job_status_of r) \<longrightarrow> r1 = r"
      "job_rank (job_status_of r) \<le> job_rank (job_status_of r1)"
      "job_request r1 = job_request r" "job_created_unix r1 = job_created_unix r"
    using assms(1) i by (auto simp: files_evolve_def)
  obtain r2 where "map_of h i = Some (Some r2)" "terminal (job_status_of r1) \<longrightarrow> r2 = r1"
      "job_rank (job_status_of r1) \<le> job_rank (job_status_of r2)"
      "job_request r2 = job_request r1" "job_created_unix r2 = job_created_unix r1"
    using assms(2) i(1) r1(1) by (auto simp: files_evolve_def)
  with r1 show "\<exists>r'. map_of h i = Some (Some r') \<and> (terminal (job_status_of r) \<longrightarrow> r' = r)
      \<and> job_rank (job_status_of r) \<le> job_rank (job_status_of r')
      \<and> job_request r' = job_request r \<and> job_created_unix r' = job_created_unix r" by auto
qed

lemma job_get_Ok: "job_get i fs = Ok r \<longleftrightarrow> map_of fs i = Some (Some r) \<and> is_ok (validate_safe_name i)"
  by (auto simp: job_get_def res_bind_Ok is_ok_iff split: option.splits)

lemma store_status_cases:
  assumes "store_status io now s res err r fs = (x, fs')" "is_ok (validate_safe_name (job_id r))"
  obtains (written) "io" "x = Ok (r\<lparr>job_status_of := s, job_result := res, job_error := err, job_updated_unix := now\<rparr>)"
      "fs' = bt_insert (job_id r) (Some (r\<lparr>job_status_of := s, job_result := res, job_error := err,
               job_updated_unix := now\<rparr>)) fs"
  | (failed) "\<not> io" "x = Err JobIo" "fs' = fs"
  using assms by (cases io) (auto simp: store_status_def job_write_def is_ok_iff Let_def)

text \<open>A transition or a cancellation either leaves the files alone or updates one live record.\<close>

lemma job_transition_cases:
  assumes "job_transition io now i s res err fs = (x, fs')" "files_ok fs"
  obtains (same) "fs' = fs"
  | (updated) r where "map_of fs i = Some (Some r)" "\<not> terminal (job_status_of r)" "job_id r = i"
      "is_ok (validate_safe_name i)" "valid_job_transition (job_status_of r) s"
      "x = Ok (r\<lparr>job_status_of := s, job_result := res, job_error := err, job_updated_unix := now\<rparr>)"
      "fs' = bt_insert i (Some (r\<lparr>job_status_of := s, job_result := res, job_error := err,
               job_updated_unix := now\<rparr>)) fs"
proof (cases "job_get i fs")
  case (Ok r)
  then have g: "map_of fs i = Some (Some r)" "is_ok (validate_safe_name i)" by (simp_all add: job_get_Ok)
  with assms(2) have j: "job_id r = i" by (simp add: files_ok_def)
  show ?thesis
  proof (cases "terminal (job_status_of r) \<or> \<not> valid_job_transition (job_status_of r) s")
    case True
    with Ok assms(1) have "fs' = fs" by (auto simp: job_transition_def split: if_splits)
    then show ?thesis by (rule same)
  next
    case False
    with Ok assms(1) have "store_status io now s res err r fs = (x, fs')" by (simp add: job_transition_def)
    moreover have "is_ok (validate_safe_name (job_id r))" using g j by simp
    ultimately show ?thesis
    proof (cases rule: store_status_cases)
      case written
      show ?thesis by (rule updated [of r]) (use g j False written in auto)
    next
      case failed
      show ?thesis by (rule same) (rule failed(3))
    qed
  qed
next
  case (Err e)
  with assms(1) have "fs' = fs" by (simp add: job_transition_def)
  then show ?thesis by (rule same)
next
  case Panic
  with assms(1) have "fs' = fs" by (simp add: job_transition_def)
  then show ?thesis by (rule same)
qed

lemma job_cancel_as_transition:
  "job_cancel io now i fs = job_transition io now i Cancelled None None fs
   \<or> (\<exists>r. job_get i fs = Ok r \<and> terminal (job_status_of r) \<and> job_cancel io now i fs = (Ok r, fs))"
  by (auto simp: job_cancel_def job_transition_def split: res.splits)

definition steps_ok :: "('q, 'r) job_files \<Rightarrow> ('q, 'r) job_files \<Rightarrow> bool" where
  "steps_ok fs fs' \<longleftrightarrow> files_ok fs \<longrightarrow> files_ok fs' \<and> files_evolve {} fs fs'"

lemma steps_ok_refl: "steps_ok fs fs"
  by (simp add: steps_ok_def files_evolve_refl)

lemma steps_ok_trans: "steps_ok f g \<Longrightarrow> steps_ok g h \<Longrightarrow> steps_ok f h"
  using files_evolve_trans [of "{}" f g "{}" h] by (auto simp: steps_ok_def)

lemma job_transition_steps: "steps_ok fs (snd (job_transition io now i s res err fs))"
  unfolding steps_ok_def
proof
  assume ok: "files_ok fs"
  obtain x fs' where e: "job_transition io now i s res err fs = (x, fs')" by fastforce
  from e ok show "files_ok (snd (job_transition io now i s res err fs)) \<and>
      files_evolve {} fs (snd (job_transition io now i s res err fs))"
  proof (cases rule: job_transition_cases)
    case same
    with e ok show ?thesis by (simp add: files_evolve_refl)
  next
    case (updated r)
    with e ok valid_job_transition_forward [OF updated(5)] show ?thesis
      by (auto simp: files_ok_def files_evolve_def bt_wf_insert)
  qed
qed

lemma job_cancel_steps: "steps_ok fs (snd (job_cancel io now i fs))"
  using job_cancel_as_transition [of io now i fs] job_transition_steps [of fs io now i Cancelled None None]
  by (auto simp: steps_ok_refl)

lemma recover_records_steps: "steps_ok fs (snd (recover_records io now rs n fs))"
proof (induction rs arbitrary: n fs)
  case (Cons r rs)
  obtain x fs' where e: "job_transition (io (job_id r)) now (job_id r) Failed None (Some interrupted_message) fs = (x, fs')"
    by fastforce
  have "steps_ok fs fs'" using job_transition_steps [of fs] e by (metis snd_conv)
  with e Cons.IH [where n = "n + 1" and fs = fs'] show ?case by (cases x) (auto intro: steps_ok_trans)
qed (simp add: steps_ok_refl)

lemma job_transition_steps_eq: "job_transition io now i s res err fs = (x, fs') \<Longrightarrow> steps_ok fs fs'"
  using job_transition_steps [of fs io now i s res err] by simp

lemma worker_steps: "steps_ok fs (snd (worker_step i io now out wk fs))"
  by (cases wk)
    (auto simp: steps_ok_refl job_transition_steps dest: job_transition_steps_eq
      split: prod.splits res.splits work_outcome.splits)

section \<open>The contract\<close>

lemma create_step:
  assumes "files_ok fs" "job_create nid io now q fs = (x, fs')"
  shows "files_ok fs' \<and> files_evolve (case x of Ok r \<Rightarrow> {job_id r} | _ \<Rightarrow> {}) fs fs'"
  using assms
  by (auto simp: job_create_def job_write_def Let_def files_evolve_def files_ok_def bt_wf_insert is_ok_iff
      split: res.splits if_splits)

lemma job_step_steps:
  assumes "files_ok (jw_files w)"
  shows "files_ok (jw_files (job_step w e)) \<and> world_evolves w (job_step w e)"
proof -
  have keep: "files_ok fs \<and> world_evolves w w'"
    if "steps_ok (jw_files w) fs" "jw_files w' = fs" "jw_created w' = jw_created w" for fs w'
    using that assms by (auto simp: steps_ok_def world_evolves_def)
  show ?thesis
  proof (cases e)
    case (JSubmit nid io now q)
    obtain x fs where c: "job_create nid io now q (jw_files w) = (x, fs)" by fastforce
    with create_step [OF assms c] JSubmit show ?thesis
      by (cases x) (auto simp: world_evolves_def)
  next
    case (JWorker i io now out)
    show ?thesis
    proof (cases "map_of (jw_workers w) i")
      case None
      with JWorker keep [of "jw_files w" w] show ?thesis by (simp add: steps_ok_refl)
    next
      case (Some wk)
      obtain wk' fs where s: "worker_step i io now out wk (jw_files w) = (wk', fs)" by fastforce
      then have "steps_ok (jw_files w) fs" using worker_steps [of "jw_files w" i io now out wk] by simp
      with keep [of fs "job_step w e"] JWorker Some s show ?thesis by simp
    qed
  next
    case (JTransition io now i s res err)
    with keep [where w' = "job_step w e", OF job_transition_steps] show ?thesis by simp
  next
    case (JCancel io now i)
    with keep [where w' = "job_step w e", OF job_cancel_steps] show ?thesis by simp
  next
    case (JRecover io now)
    with keep [where w' = "job_step w e", OF recover_records_steps] show ?thesis
      by (simp add: recover_interrupted_def)
  qed
qed

interpretation jobs: monotone_machine job_world_new job_step "\<lambda>w. files_ok (jw_files w)" world_evolves
proof unfold_locales
  show "files_ok (jw_files job_world_new)" by (simp add: job_world_new_def files_ok_def)
  show "files_ok (jw_files w) \<Longrightarrow> files_ok (jw_files (job_step w e))" for w :: "('a, 'b) job_world" and e
    using job_step_steps by blast
  show "world_evolves w w" for w :: "('a, 'b) job_world"
    by (simp add: world_evolves_def files_evolve_refl)
  show "files_ok (jw_files w) \<Longrightarrow> world_evolves w (job_step w e)" for w :: "('a, 'b) job_world" and e
    using job_step_steps by blast
next
  fix s t u :: "('a, 'b) job_world"
  assume "world_evolves s t" "world_evolves t u"
  then obtain A B where "jw_created t = jw_created s @ A" "files_evolve (set A) (jw_files s) (jw_files t)"
      "jw_created u = jw_created t @ B" "files_evolve (set B) (jw_files t) (jw_files u)"
    by (auto simp: world_evolves_def)
  then have "jw_created u = jw_created s @ (A @ B)" "files_evolve (set (A @ B)) (jw_files s) (jw_files u)"
    using files_evolve_trans by auto
  then show "world_evolves s u" unfolding world_evolves_def by blast
qed

section \<open>Properties\<close>

text \<open>
  C13. Jobs only move forward and terminal jobs are final: from any reachable state, whatever
  submissions, transitions, cancellations, recoveries and worker steps follow, a record whose
  id is not handed out again keeps its request and creation time, never goes back in the
  order queued, loading, running, encoding, finished, and once completed, failed or cancelled
  does not change at all (so a cancelled job never gains a result).
\<close>

theorem terminal_jobs_final:
  assumes "w = run job_step job_world_new es" "w' = run job_step w later"
    and "map_of (jw_files w) i = Some (Some r)"
    and "i \<notin> set (drop (length (jw_created w)) (jw_created w'))"
  shows "\<exists>r'. map_of (jw_files w') i = Some (Some r') \<and> (terminal (job_status_of r) \<longrightarrow> r' = r)
    \<and> job_rank (job_status_of r) \<le> job_rank (job_status_of r')
    \<and> job_request r' = job_request r \<and> job_created_unix r' = job_created_unix r"
proof -
  have ok: "files_ok (jw_files w)" unfolding assms(1) by (rule jobs.run_inv)
  from jobs.run_rel [OF ok, of later] obtain new where
    "jw_created w' = jw_created w @ new" "files_evolve (set new) (jw_files w) (jw_files w')"
    unfolding assms(2) world_evolves_def by blast
  with assms(3,4) show ?thesis by (simp add: files_evolve_def)
qed

definition demo_job :: "(nat, nat) job_record" where
  "demo_job = \<lparr>job_id = [106], job_status_of = Cancelled, job_request = 7, job_result = None,
     job_error = None, job_created_unix = 1, job_updated_unix = 2\<rparr>"

definition demo_job_events :: "(nat, nat) job_event list" where
  "demo_job_events = [JSubmit (Ok [106]) True 1 7, JCancel True 2 [106]]"

lemmas job_defs = job_world_new_def job_create_def job_write_def validate_safe_name_def str_len_def
  utf8_width_def safe_name_char_def is_ascii_alnum_def is_ascii_lower_def is_ascii_digit_def
  is_ascii_upper_def job_cancel_def job_get_def store_status_def job_transition_def Let_def

theorem terminal_jobs_final_witness:
  "\<exists>r'. map_of (jw_files (run job_step (run job_step job_world_new demo_job_events)
     [JTransition True 3 [106] Completed (Some 9) None])) [106] = Some (Some r') \<and> r' = demo_job"
proof -
  have m: "map_of (jw_files (run job_step job_world_new demo_job_events)) [106] = Some (Some demo_job)"
    by (simp add: demo_job_events_def demo_job_def job_defs)
  have c: "[106] \<notin> set (drop (length (jw_created (run job_step job_world_new demo_job_events)))
      (jw_created (run job_step (run job_step job_world_new demo_job_events)
        [JTransition True 3 [106] Completed (Some 9) None])))"
    by (simp add: demo_job_events_def job_defs)
  from terminal_jobs_final [OF refl refl m c] show ?thesis by (auto simp: demo_job_def)
qed

text \<open>The worker run alone: \<open>n\<close> steps with the given outcome of the execution.\<close>

fun worker_run ::
  "rstr \<Rightarrow> nat \<Rightarrow> 'r work_outcome \<Rightarrow> nat \<Rightarrow> ('q, 'r) worker \<Rightarrow> ('q, 'r) job_files \<Rightarrow>
     ('q, 'r) worker \<times> ('q, 'r) job_files"
where
  "worker_run i now out 0 wk fs = (wk, fs)"
| "worker_run i now out (Suc n) wk fs =
     (let (wk', fs') = worker_step i True now out wk fs in worker_run i now out n wk' fs')"

definition final_record :: "nat \<Rightarrow> 'r work_outcome \<Rightarrow> ('q, 'r) job_record \<Rightarrow> ('q, 'r) job_record" where
  "final_record now out r = (case out of
       WorkOk res \<Rightarrow> r\<lparr>job_status_of := Completed, job_result := Some res, job_error := None, job_updated_unix := now\<rparr>
     | WorkErr e \<Rightarrow> r\<lparr>job_status_of := Failed, job_result := None, job_error := Some e, job_updated_unix := now\<rparr>
     | WorkPanic e \<Rightarrow> r\<lparr>job_status_of := Failed, job_result := None, job_error := Some (worker_failure e),
                       job_updated_unix := now\<rparr>)"

lemma transition_live:
  assumes "map_of fs i = Some (Some r)" "job_id r = i" "is_ok (validate_safe_name i)"
    and "\<not> terminal (job_status_of r)" "valid_job_transition (job_status_of r) s"
  shows "job_transition True now i s res err fs =
    (Ok (r\<lparr>job_status_of := s, job_result := res, job_error := err, job_updated_unix := now\<rparr>),
     bt_insert i (Some (r\<lparr>job_status_of := s, job_result := res, job_error := err, job_updated_unix := now\<rparr>)) fs)"
  using assms job_get_Ok [of i fs r]
  by (auto simp: job_transition_def store_status_def job_write_def is_ok_iff Let_def)

text \<open>
  C21. A queued job runs to its end: with nothing interfering, the worker that \<open>submit\<close> spawns
  takes the job through loading and running, and its record ends as completed with exactly
  the execution's result, or as failed with its error; the worker is done after eight steps.
\<close>

theorem worker_finishes:
  assumes "map_of fs i = Some (Some r)" "job_id r = i" "is_ok (validate_safe_name i)" "job_status_of r = Queued"
  shows "\<exists>fs'. worker_run i now out 8 WStart fs = (WDone, fs')
    \<and> map_of fs' i = Some (Some (final_record now out r))"
proof -
  let ?q = "\<lambda>s. r\<lparr>job_status_of := s, job_result := None, job_error := None, job_updated_unix := now\<rparr>"
  define f1 where "f1 = bt_insert i (Some (?q Loading)) fs"
  define f2 where "f2 = bt_insert i (Some (?q Running)) f1"
  have m1: "map_of f1 i = Some (Some (?q Loading))" and m2: "map_of f2 i = Some (Some (?q Running))"
    by (simp_all add: f1_def f2_def)
  have g: "job_get i fs = Ok r" and g2: "job_get i f2 = Ok (?q Running)"
    using assms(1,3) m2 by (simp_all add: job_get_Ok)
  have t1: "job_transition True now i Loading None None fs = (Ok (?q Loading), f1)"
    using transition_live [OF assms(1-3)] assms(4) by (simp add: f1_def)
  have t2: "job_transition True now i Running None None f1 = (Ok (?q Running), f2)"
    using transition_live [OF m1 _ assms(3)] assms(2) by (simp add: f2_def)
  have n: "(8::nat) = Suc (Suc (Suc (Suc (Suc (Suc (Suc (Suc 0)))))))" by simp
  have five: "worker_run i now out 8 WStart fs = worker_run i now out (Suc (Suc (Suc 0))) (WFinished out) f2"
    unfolding n using g g2 t1 t2 assms(4) by (simp add: is_cancelled_def)
  show ?thesis
  proof (cases out)
    case (WorkOk x)
    define f3 where "f3 = bt_insert i (Some (?q Encoding)) f2"
    have m3: "map_of f3 i = Some (Some (?q Encoding))" by (simp add: f3_def)
    have t3: "job_transition True now i Encoding None None f2 = (Ok (?q Encoding), f3)"
      using transition_live [OF m2 _ assms(3)] assms(2) by (simp add: f3_def)
    show ?thesis unfolding five
      using transition_live [OF m3 _ assms(3), of Completed now "Some x" None] assms(2) g2 t3 WorkOk
      by (simp add: is_cancelled_def final_record_def)
  next
    case (WorkErr e)
    show ?thesis unfolding five
      using transition_live [OF m2 _ assms(3), of Failed now None "Some e"] assms(2) g2 WorkErr
      by (simp add: is_cancelled_def final_record_def)
  next
    case (WorkPanic e)
    show ?thesis unfolding five
      using transition_live [OF m2 _ assms(3), of Failed now None "Some (worker_failure e)"] assms(2) g2 WorkPanic
      by (simp add: is_cancelled_def final_record_def)
  qed
qed

theorem worker_finishes_witness:
  "\<exists>fs'. worker_run [106] 3 (WorkOk 9) 8 WStart [([106], Some (demo_job\<lparr>job_status_of := Queued\<rparr>))] = (WDone, fs')
     \<and> map_of fs' [106] = Some (Some (final_record 3 (WorkOk 9) (demo_job\<lparr>job_status_of := Queued\<rparr>)))"
  by (rule worker_finishes) (simp_all add: demo_job_def job_defs)

lemma recover_records_all:
  assumes "\<forall>r \<in> set rs. map_of fs (job_id r) = Some (Some r) \<and> \<not> terminal (job_status_of r)
      \<and> is_ok (validate_safe_name (job_id r)) \<and> io (job_id r)"
    and "distinct (map job_id rs)"
  shows "\<exists>fs'. recover_records io now rs n fs = (Ok (n + length rs), fs')
    \<and> (\<forall>i. i \<notin> job_id ` set rs \<longrightarrow> map_of fs' i = map_of fs i)
    \<and> (\<forall>r \<in> set rs. \<exists>r'. map_of fs' (job_id r) = Some (Some r') \<and> job_status_of r' = Failed
          \<and> job_error r' = Some interrupted_message)"
  using assms
proof (induction rs arbitrary: n fs)
  case (Cons r rs)
  let ?r = "r\<lparr>job_status_of := Failed, job_result := None, job_error := Some interrupted_message,
      job_updated_unix := now\<rparr>"
  have v: "valid_job_transition (job_status_of r) Failed" using Cons.prems(1) by (cases "job_status_of r") auto
  have t: "job_transition (io (job_id r)) now (job_id r) Failed None (Some interrupted_message) fs =
      (Ok ?r, bt_insert (job_id r) (Some ?r) fs)"
    using Cons.prems(1) transition_live [of fs "job_id r" r Failed now None "Some interrupted_message"] v by simp
  have ne: "job_id x \<noteq> job_id r" if "x \<in> set rs" for x
    using Cons.prems(2) imageI [OF that, of job_id] by auto
  have "\<forall>x \<in> set rs. map_of (bt_insert (job_id r) (Some ?r) fs) (job_id x) = Some (Some x)
      \<and> \<not> terminal (job_status_of x) \<and> is_ok (validate_safe_name (job_id x)) \<and> io (job_id x)"
    using Cons.prems(1) ne by simp
  moreover have "distinct (map job_id rs)" using Cons.prems(2) by simp
  ultimately obtain fs' where f: "recover_records io now rs (n + 1) (bt_insert (job_id r) (Some ?r) fs) =
        (Ok (n + 1 + length rs), fs')"
      "\<forall>i. i \<notin> job_id ` set rs \<longrightarrow> map_of fs' i = map_of (bt_insert (job_id r) (Some ?r) fs) i"
      "\<forall>x \<in> set rs. \<exists>r'. map_of fs' (job_id x) = Some (Some r') \<and> job_status_of r' = Failed
          \<and> job_error r' = Some interrupted_message"
    using Cons.IH by blast
  have "job_id r \<notin> job_id ` set rs" using Cons.prems(2) by simp
  with f(2) have "map_of fs' (job_id r) = Some (Some ?r)" by simp
  with f t show ?case by simp
qed simp

lemma job_list_files:
  assumes "files_ok fs"
  shows "r \<in> set (job_list fs) \<longleftrightarrow> map_of fs (job_id r) = Some (Some r)" "distinct (map job_id (job_list fs))"
proof -
  have wf: "bt_wf fs" using assms by (simp add: files_ok_def)
  have mem: "r \<in> set (job_list fs) \<longleftrightarrow> (\<exists>i. (i, Some r) \<in> set fs)" for r
    by (force simp: job_list_def List.map_filter_def bt_values_def)
  show m: "r \<in> set (job_list fs) \<longleftrightarrow> map_of fs (job_id r) = Some (Some r)" for r
    using assms unfolding mem bt_wf_get [OF wf] by (auto simp: files_ok_def)
  have "map job_id (List.map_filter id (bt_values gs)) = map fst (filter (\<lambda>p. snd p \<noteq> None) gs)"
    if "\<forall>i r. (i, Some r) \<in> set gs \<longrightarrow> job_id r = i" for gs
    using that by (induction gs) (auto simp: bt_values_def map_filter_simps split: option.splits)
  moreover have "\<forall>i r. (i, Some r) \<in> set fs \<longrightarrow> job_id r = i"
    using assms by (simp add: bt_wf_get [OF wf] files_ok_def)
  moreover have "distinct (map fst (filter (\<lambda>p. snd p \<noteq> None) fs))"
    using bt_wf_distinct [OF bt_wf_filter [OF wf]] by blast
  ultimately have "distinct (map job_id (List.map_filter id (bt_values fs)))" by metis
  then show "distinct (map job_id (job_list fs))"
    unfolding job_list_def by (metis distinct_map distinct_sort set_sort)
qed

text \<open>
  Recovery after a restart is complete: when its writes succeed, it returns the number of
  interrupted jobs, fails every one of them with the restart message, and leaves every other
  file untouched, so no live job remains.
\<close>

theorem recovery_complete:
  assumes "w = run job_step job_world_new es" "\<forall>i. io i"
  shows "\<exists>fs'. recover_interrupted io now (jw_files w) =
      (Ok (length (filter (\<lambda>r. \<not> terminal (job_status_of r)) (job_list (jw_files w)))), fs')
    \<and> (\<forall>i r. map_of (jw_files w) i = Some (Some r) \<longrightarrow>
         (\<exists>r'. map_of fs' i = Some (Some r') \<and> terminal (job_status_of r')
            \<and> (if terminal (job_status_of r) then r' = r
               else job_status_of r' = Failed \<and> job_error r' = Some interrupted_message)))"
proof -
  let ?fs = "jw_files w"
  let ?rs = "filter (\<lambda>r. \<not> terminal (job_status_of r)) (job_list ?fs)"
  have ok: "files_ok ?fs" unfolding assms(1) by (rule jobs.run_inv)
  note l = job_list_files [OF ok]
  have a: "\<forall>r \<in> set ?rs. map_of ?fs (job_id r) = Some (Some r) \<and> \<not> terminal (job_status_of r)
      \<and> is_ok (validate_safe_name (job_id r)) \<and> io (job_id r)"
    using ok assms(2) by (auto simp: l(1) files_ok_def)
  have d: "distinct (map job_id ?rs)" using l(2) by (simp add: distinct_map_filter)
  obtain fs' where f: "recover_records io now ?rs 0 ?fs = (Ok (0 + length ?rs), fs')"
      "\<forall>i. i \<notin> job_id ` set ?rs \<longrightarrow> map_of fs' i = map_of ?fs i"
      "\<forall>r \<in> set ?rs. \<exists>r'. map_of fs' (job_id r) = Some (Some r') \<and> job_status_of r' = Failed
          \<and> job_error r' = Some interrupted_message"
    using recover_records_all [OF a d, of now 0] by blast
  have "\<exists>r'. map_of fs' i = Some (Some r') \<and> terminal (job_status_of r')
      \<and> (if terminal (job_status_of r) then r' = r
         else job_status_of r' = Failed \<and> job_error r' = Some interrupted_message)"
    if r: "map_of ?fs i = Some (Some r)" for i r
  proof -
    have j: "job_id r = i" using ok r by (simp add: files_ok_def)
    show ?thesis
    proof (cases "terminal (job_status_of r)")
      case True
      then have "i \<notin> job_id ` set ?rs" using r by (auto simp: l(1))
      with f(2) r True show ?thesis by simp
    next
      case False
      then have "r \<in> set ?rs" using r j by (simp add: l(1))
      with f(3) j False show ?thesis by fastforce
    qed
  qed
  with f(1) show ?thesis by (simp add: recover_interrupted_def)
qed

theorem recovery_complete_witness:
  "\<exists>fs'. recover_interrupted (\<lambda>_. True) 9
      (jw_files (run job_step job_world_new [JSubmit (Ok [106]) True 1 (7::nat)] :: (nat, nat) job_world)) = (Ok 1, fs')"
proof -
  have n: "length (filter (\<lambda>r. \<not> terminal (job_status_of r)) (job_list (jw_files (run job_step job_world_new
      [JSubmit (Ok [106]) True 1 (7::nat)] :: (nat, nat) job_world)))) = 1"
    by (simp add: job_defs job_list_def bt_values_def map_filter_simps)
  have io: "\<forall>i :: rstr. True" by simp
  show ?thesis
    using recovery_complete [OF refl io, where now = 9 and
      es = "[JSubmit (Ok [106]) True 1 (7::nat)] :: (nat, nat) job_event list"] unfolding n by blast
qed

end
