(* ===== verification/Rust_Text.thy ===== *)
theory Rust_Text
  imports Werk_Prelude
begin

text \<open>
  The text operations of the Rust standard library that the program uses beyond those of
  \<open>Werk_Prelude\<close>: UTF-8 bytes, lines, splitting, joining, decimal numbers written and read.
\<close>

section \<open>Bytes\<close>

definition utf8_char :: "nat \<Rightarrow> nat list" where
  "utf8_char c =
     (if c < 128 then [c]
      else if c < 2048 then [192 + c div 64, 128 + c mod 64]
      else if c < 65536 then [224 + c div 4096, 128 + c div 64 mod 64, 128 + c mod 64]
      else [240 + c div 262144, 128 + c div 4096 mod 64, 128 + c div 64 mod 64, 128 + c mod 64])"

definition as_bytes :: "rstr \<Rightarrow> nat list" where
  "as_bytes s = concat (map utf8_char s)"

lemma as_bytes_length: "length (as_bytes s) = str_len s"
  by (induction s) (simp_all add: as_bytes_def str_len_def utf8_char_def utf8_width_def)

section \<open>Lines and pieces\<close>

text \<open>\<open>str::lines\<close>: split at line feeds, dropping one carriage return before each.\<close>

definition strip_cr :: "rstr \<Rightarrow> rstr" where
  "strip_cr l = (if l \<noteq> [] \<and> last l = 13 then butlast l else l)"

fun str_lines_from :: "rstr \<Rightarrow> rstr \<Rightarrow> rstr list" where
  "str_lines_from acc [] = (if acc = [] then [] else [acc])"
| "str_lines_from acc (c # s) =
     (if c = 10 then strip_cr acc # str_lines_from [] s else str_lines_from (acc @ [c]) s)"

definition str_lines :: "rstr \<Rightarrow> rstr list" where
  "str_lines s = str_lines_from [] s"

fun split_once_at :: "nat \<Rightarrow> rstr \<Rightarrow> (rstr \<times> rstr) option" where
  "split_once_at d [] = None"
| "split_once_at d (c # s) =
     (if c = d then Some ([], s) else map_option (\<lambda>(l, r). (c # l, r)) (split_once_at d s))"

text \<open>\<open>str::split\<close> with a predicate on characters: one piece more than there are separators.\<close>

fun split_pieces :: "(nat \<Rightarrow> bool) \<Rightarrow> rstr \<Rightarrow> rstr \<Rightarrow> rstr list" where
  "split_pieces sep acc [] = [acc]"
| "split_pieces sep acc (c # s) =
     (if sep c then acc # split_pieces sep [] s else split_pieces sep (acc @ [c]) s)"

definition split_by :: "(nat \<Rightarrow> bool) \<Rightarrow> rstr \<Rightarrow> rstr list" where
  "split_by sep s = split_pieces sep [] s"

definition split_at_char :: "nat \<Rightarrow> rstr \<Rightarrow> rstr list" where
  "split_at_char d s = split_by (\<lambda>c. c = d) s"

definition split_whitespace :: "rstr \<Rightarrow> rstr list" where
  "split_whitespace s = filter (\<lambda>p. p \<noteq> []) (split_by is_whitespace s)"

fun join :: "rstr \<Rightarrow> rstr list \<Rightarrow> rstr" where
  "join sep [] = []"
| "join sep [s] = s"
| "join sep (s # ss) = s @ sep @ join sep ss"

definition ends_with :: "rstr \<Rightarrow> rstr \<Rightarrow> bool" where
  "ends_with p s \<longleftrightarrow> starts_with (rev p) (rev s)"

definition ascii_upper :: "nat \<Rightarrow> nat" where
  "ascii_upper c = (if is_ascii_lower c then c - 32 else c)"

definition to_ascii_uppercase :: "rstr \<Rightarrow> rstr" where
  "to_ascii_uppercase s = map ascii_upper s"

section \<open>Decimal numbers\<close>

fun decimal :: "nat \<Rightarrow> rstr" where
  "decimal n = (if n < 10 then [48 + n] else decimal (n div 10) @ [48 + n mod 10])"

declare decimal.simps [simp del]

definition decimal_int :: "int \<Rightarrow> rstr" where
  "decimal_int i = (if i < 0 then 45 # decimal (nat (- i)) else decimal (nat i))"

definition digits_value :: "rstr \<Rightarrow> nat" where
  "digits_value s = foldl (\<lambda>v c. 10 * v + (c - 48)) 0 s"

text \<open>\<open>from_str\<close> of an unsigned integer with the given bound, and of an \<open>i32\<close>.\<close>

definition parse_digits :: "nat \<Rightarrow> rstr \<Rightarrow> nat option" where
  "parse_digits bound s =
     (if s \<noteq> [] \<and> list_all is_ascii_digit s \<and> digits_value s \<le> bound then Some (digits_value s) else None)"

definition strip_plus :: "rstr \<Rightarrow> rstr" where
  "strip_plus s = (if s \<noteq> [] \<and> hd s = 43 then tl s else s)"

definition parse_unsigned :: "nat \<Rightarrow> rstr \<Rightarrow> nat option" where
  "parse_unsigned bound s = parse_digits bound (strip_plus s)"

definition parse_i32 :: "rstr \<Rightarrow> int option" where
  "parse_i32 s =
     (if s \<noteq> [] \<and> hd s = 45 then map_option (\<lambda>n. - int n) (parse_digits 2147483648 (tl s))
      else map_option int (parse_digits 2147483647 (strip_plus s)))"

section \<open>Facts\<close>

lemma str_lines_step:
  "10 \<notin> set l \<Longrightarrow> str_lines_from acc (l @ 10 # s) = strip_cr (acc @ l) # str_lines_from [] s"
  by (induction l arbitrary: acc) simp_all

lemma strip_cr_id: "13 \<notin> set l \<Longrightarrow> strip_cr l = l"
  unfolding strip_cr_def by (metis last_in_set)

lemma str_lines_line: "10 \<notin> set l \<Longrightarrow> 13 \<notin> set l \<Longrightarrow> str_lines (l @ 10 # s) = l # str_lines s"
  by (simp add: str_lines_def str_lines_step strip_cr_id)

lemma set_trim: "set (trim s) \<subseteq> set s"
  unfolding trim_def trim_start_def trim_end_def by (auto dest!: set_dropWhileD)

lemma split_pieces_no_sep: "x \<in> set (split_pieces sep acc s) \<Longrightarrow> (\<forall>c \<in> set acc. \<not> sep c) \<Longrightarrow>
    c \<in> set x \<Longrightarrow> \<not> sep c"
  by (induction sep acc s rule: split_pieces.induct) (auto split: if_splits)

lemma split_by_no_sep: "x \<in> set (split_by sep s) \<Longrightarrow> c \<in> set x \<Longrightarrow> \<not> sep c"
  unfolding split_by_def by (rule split_pieces_no_sep) auto

lemma split_pieces_append:
  "list_all (\<lambda>c. \<not> sep c) s \<Longrightarrow> split_pieces sep acc (s @ t) = split_pieces sep (acc @ s) t"
  by (induction s arbitrary: acc) auto

lemma split_at_char_one: "d \<notin> set s \<Longrightarrow> split_at_char d s = [s]"
  using split_pieces_append [of "\<lambda>c. c = d" s "[]" "[]"]
  by (auto simp: split_at_char_def split_by_def list_all_iff)

lemma split_at_char_cons: "d \<notin> set s \<Longrightarrow> split_at_char d (s @ d # t) = s # split_at_char d t"
  using split_pieces_append [of "\<lambda>c. c = d" s "[]" "d # t"]
  by (auto simp: split_at_char_def split_by_def list_all_iff)

text \<open>Splitting undoes joining when no piece holds the separator.\<close>

lemma split_join: "ss \<noteq> [] \<Longrightarrow> (\<forall>s \<in> set ss. d \<notin> set s) \<Longrightarrow> split_at_char d (join [d] ss) = ss"
  by (induction "[d]" ss rule: join.induct) (auto simp: split_at_char_one split_at_char_cons)

lemma digit_char [simp]: "is_ascii_digit (48 + n) \<longleftrightarrow> n < 10"
  by (auto simp: is_ascii_digit_def)

lemma decimal_digits: "list_all is_ascii_digit (decimal n)"
proof (induction n rule: decimal.induct)
  case (1 n)
  then show ?case by (subst decimal.simps) simp
qed

lemma decimal_nonempty [simp]: "decimal n \<noteq> []"
  by (subst decimal.simps) simp

lemma digits_value_snoc: "digits_value (s @ [c]) = 10 * digits_value s + (c - 48)"
  by (simp add: digits_value_def)

lemma digits_value_decimal: "digits_value (decimal n) = n"
proof (induction n rule: decimal.induct)
  case (1 n)
  then show ?case
    by (subst decimal.simps) (auto simp: digits_value_snoc, simp add: digits_value_def)
qed

lemma decimal_strip_plus: "strip_plus (decimal n) = decimal n"
proof -
  have "is_ascii_digit (hd (decimal n))"
    using decimal_digits [of n] decimal_nonempty [of n] by (cases "decimal n") auto
  then show ?thesis by (auto simp: strip_plus_def is_ascii_digit_def)
qed

lemma parse_decimal: "n \<le> bound \<Longrightarrow> parse_unsigned bound (decimal n) = Some n"
  by (simp add: parse_unsigned_def parse_digits_def decimal_strip_plus decimal_digits digits_value_decimal)

lemma parse_unsigned_bound: "parse_unsigned bound s = Some n \<Longrightarrow> n \<le> bound"
  by (auto simp: parse_unsigned_def parse_digits_def split: if_splits)

lemma decimal_inject [simp]: "decimal m = decimal n \<longleftrightarrow> m = n"
  by (metis digits_value_decimal)

end
