(* ===== verification/Api_Keys.thy ===== *)
theory Api_Keys
  imports Rust_Text
begin

text \<open>
  The API key file (\<open>src/src/api_keys.rs\<close>): the line-based TOML reader with its comment
  and string scanners, the writer with its escaping, and key generation from random bytes.
  Environment lookups and file permissions are not modelled.
\<close>

section \<open>Entries and errors\<close>

record api_key_entry =
  entry_name :: rstr
  entry_key :: rstr

datatype api_key_error =
    ExpectedAssignment nat
  | NotQuoted nat
  | TextAfterString nat
  | Unterminated nat
  | KeyMissing nat
  | KeyEmpty nat
  | KeyControl nat
  | NoKeys

definition KEY_BYTES :: nat where "KEY_BYTES = 32"

section \<open>Scanning\<close>

fun scan_comment :: "bool \<Rightarrow> bool \<Rightarrow> rstr \<Rightarrow> rstr" where
  "scan_comment escaped in_string [] = []"
| "scan_comment escaped in_string (c # s) =
     (if escaped then c # scan_comment False in_string s
      else if c = 92 \<and> in_string then c # scan_comment True in_string s
      else if c = 34 then c # scan_comment False (\<not> in_string) s
      else if c = 35 \<and> \<not> in_string then []
      else c # scan_comment False in_string s)"

definition strip_comment :: "rstr \<Rightarrow> rstr" where
  "strip_comment line = scan_comment False False line"

definition decode_escape :: "nat \<Rightarrow> nat" where
  "decode_escape c = (if c = 110 then 10 else if c = 114 then 13 else if c = 116 then 9 else c)"

fun scan_string :: "bool \<Rightarrow> rstr \<Rightarrow> rstr \<Rightarrow> (rstr \<times> rstr) option" where
  "scan_string escaped out [] = None"
| "scan_string escaped out (c # s) =
     (if escaped then scan_string False (out @ [decode_escape c]) s
      else if c = 92 then scan_string True out s
      else if c = 34 then Some (out, s)
      else scan_string False (out @ [c]) s)"

definition parse_toml_string :: "rstr \<Rightarrow> nat \<Rightarrow> (api_key_error, rstr) res" where
  "parse_toml_string value line_no =
     (case value of
        [] \<Rightarrow> Err (NotQuoted line_no)
      | c # rest \<Rightarrow>
          if c \<noteq> 34 then Err (NotQuoted line_no)
          else (case scan_string False [] rest of
              None \<Rightarrow> Err (Unterminated line_no)
            | Some (out, trailing) \<Rightarrow>
                if trim trailing \<noteq> [] then Err (TextAfterString line_no) else Ok out))"

section \<open>Parsing\<close>

definition normalized_name :: "rstr \<Rightarrow> rstr" where
  "normalized_name v = (if trim v = [] then lit ''default'' else trim v)"

definition validate_key :: "rstr \<Rightarrow> nat \<Rightarrow> (api_key_error, rstr) res" where
  "validate_key v line_no =
     (if trim v = [] then Err (KeyEmpty line_no)
      else if list_ex is_control v then Err (KeyControl line_no)
      else Ok v)"

record parse_state =
  ps_entries :: "api_key_entry list"
  ps_name :: "rstr option"
  ps_key :: "rstr option"

definition finish_entry :: "parse_state \<Rightarrow> nat \<Rightarrow> (api_key_error, parse_state) res" where
  "finish_entry ps line_no =
     (case (ps_name ps, ps_key ps) of
        (None, None) \<Rightarrow> Ok ps
      | (name, Some key) \<Rightarrow>
          Ok \<lparr>ps_entries = ps_entries ps @
                [\<lparr>entry_name = (case name of Some n \<Rightarrow> n | None \<Rightarrow> lit ''default''), entry_key = key\<rparr>],
              ps_name = None, ps_key = None\<rparr>
      | (Some _, None) \<Rightarrow> Err (KeyMissing line_no))"

text \<open>One line. Fields other than \<open>name\<close> and \<open>key\<close> are read and ignored.\<close>

definition parse_line :: "parse_state \<Rightarrow> nat \<Rightarrow> rstr \<Rightarrow> (api_key_error, parse_state) res" where
  "parse_line ps line_no raw =
     (let line = trim (strip_comment raw)
      in if line = [] then Ok ps
         else if line = lit ''[[keys]]'' then finish_entry ps line_no
         else (case split_once_at 61 line of
             None \<Rightarrow> Err (ExpectedAssignment line_no)
           | Some (l, r) \<Rightarrow>
               res_bind (parse_toml_string (trim r) line_no) (\<lambda>value.
                 if trim l = lit ''name'' then Ok (ps\<lparr>ps_name := Some (normalized_name value)\<rparr>)
                 else if trim l = lit ''key''
                 then res_bind (validate_key value line_no) (\<lambda>k. Ok (ps\<lparr>ps_key := Some k\<rparr>))
                 else Ok ps)))"

fun parse_lines :: "parse_state \<Rightarrow> nat \<Rightarrow> rstr list \<Rightarrow> (api_key_error, parse_state) res" where
  "parse_lines ps line_no [] = Ok ps"
| "parse_lines ps line_no (l # ls) =
     res_bind (parse_line ps line_no l) (\<lambda>ps. parse_lines ps (line_no + 1) ls)"

definition parse_api_keys_toml :: "rstr \<Rightarrow> (api_key_error, api_key_entry list) res" where
  "parse_api_keys_toml text =
     res_bind (parse_lines \<lparr>ps_entries = [], ps_name = None, ps_key = None\<rparr> 1 (str_lines text)) (\<lambda>ps.
       res_bind (finish_entry ps (length (str_lines text) + 1)) (\<lambda>ps. Ok (ps_entries ps)))"

definition load_api_keys_text :: "rstr \<Rightarrow> (api_key_error, api_key_entry list) res" where
  "load_api_keys_text text =
     res_bind (parse_api_keys_toml text) (\<lambda>es. if es = [] then Err NoKeys else Ok es)"

section \<open>Writing\<close>

definition escape_char :: "nat \<Rightarrow> rstr" where
  "escape_char c =
     (if c = 34 then [92, 34] else if c = 92 then [92, 92] else if c = 10 then [92, 110]
      else if c = 13 then [92, 114] else if c = 9 then [92, 116] else [c])"

definition escape_toml_string :: "rstr \<Rightarrow> rstr" where
  "escape_toml_string v = concat (map escape_char v)"

definition quoted_field :: "rstr \<Rightarrow> rstr \<Rightarrow> rstr" where
  "quoted_field field v = field @ lit '' = '' @ [34] @ escape_toml_string v @ [34]"

definition api_keys_file_text :: "api_key_entry \<Rightarrow> rstr" where
  "api_keys_file_text e =
     lit ''# Werk1112 API keys. Keep this file private and do not commit it.'' @ [10]
     @ lit ''# Clients must send: Authorization: Bearer <key>'' @ [10] @ [10]
     @ lit ''[[keys]]'' @ [10]
     @ quoted_field (lit ''name'') (entry_name e) @ [10]
     @ quoted_field (lit ''key'') (entry_key e) @ [10]"

definition hex_digit :: "nat \<Rightarrow> nat" where
  "hex_digit n = lit ''0123456789abcdef'' ! n"

definition hex :: "nat list \<Rightarrow> rstr" where
  "hex bytes = concat (map (\<lambda>b. [hex_digit (b div 16), hex_digit (b mod 16)]) bytes)"

definition generate_api_key :: "nat list \<Rightarrow> rstr" where
  "generate_api_key bytes = lit ''sk-werk-'' @ hex bytes"

text \<open>The entry and the file contents that \<open>write_api_keys_file\<close> produces.\<close>

definition write_api_keys :: "nat list \<Rightarrow> rstr \<Rightarrow> api_key_entry \<times> rstr" where
  "write_api_keys bytes name =
     (let e = \<lparr>entry_name = normalized_name name, entry_key = generate_api_key bytes\<rparr>
      in (e, api_keys_file_text e))"

section \<open>Escaping and scanning\<close>

lemma escape_Nil [simp]: "escape_toml_string [] = []"
  by (simp add: escape_toml_string_def)

lemma escape_Cons [simp]: "escape_toml_string (c # s) = escape_char c @ escape_toml_string s"
  by (simp add: escape_toml_string_def)

lemma scan_escaped: "scan_string False out (escape_toml_string s @ 34 # t) = Some (out @ s, t)"
  by (induction s arbitrary: out) (simp_all add: escape_char_def decode_escape_def)

lemma comment_escaped: "scan_comment False True (escape_toml_string s @ t) = escape_toml_string s @ scan_comment False True t"
  by (induction s) (simp_all add: escape_char_def)

lemma escape_no_newline: "c \<in> set (escape_toml_string s) \<Longrightarrow> c \<noteq> 10 \<and> c \<noteq> 13"
  by (induction s) (auto simp: escape_char_def split: if_splits)

lemma parse_quoted: "parse_toml_string (34 # escape_toml_string v @ [34]) n = Ok v"
  by (simp add: parse_toml_string_def scan_escaped trim_def trim_start_def trim_end_def)

lemma scan_plain: "\<forall>c \<in> set l. c \<noteq> 34 \<and> c \<noteq> 35 \<Longrightarrow> scan_comment False False (l @ s) = l @ scan_comment False False s"
  by (induction l) auto

lemma strip_comment_field:
  assumes "\<forall>c \<in> set field. c \<noteq> 34 \<and> c \<noteq> 35"
  shows "strip_comment (quoted_field field v) = quoted_field field v"
proof -
  have "\<forall>c \<in> set (field @ lit '' = ''). c \<noteq> 34 \<and> c \<noteq> 35" using assms by (auto simp: lit_def)
  from scan_plain [OF this, of "[34] @ escape_toml_string v @ [34]"] show ?thesis
    by (simp add: strip_comment_def quoted_field_def comment_escaped)
qed

lemma quoted_field_ends:
  assumes "field \<noteq> []" "\<not> is_whitespace (hd field)"
  shows "trim (quoted_field field v) = quoted_field field v"
  using assms by (intro trim_id) (simp add: quoted_field_def is_whitespace_def)

lemma split_once_field: "61 \<notin> set field \<Longrightarrow>
    split_once_at 61 (quoted_field field v) = Some (field @ [32], 32 # 34 # escape_toml_string v @ [34])"
  by (induction field) (simp_all add: quoted_field_def lit_def)

lemma trim_value: "trim (32 # 34 # escape_toml_string v @ [34]) = 34 # escape_toml_string v @ [34]"
proof -
  have s: "trim_start (32 # 34 # escape_toml_string v @ [34]) = 34 # escape_toml_string v @ [34]"
    by (simp add: trim_start_def is_whitespace_def)
  show ?thesis unfolding trim_def s by (simp add: trim_end_def is_whitespace_def)
qed

lemma parse_field_line:
  assumes "field \<in> {lit ''name'', lit ''key''}"
  shows "parse_line ps n (quoted_field field v) =
    (if field = lit ''name'' then Ok (ps\<lparr>ps_name := Some (normalized_name v)\<rparr>)
     else res_bind (validate_key v n) (\<lambda>k. Ok (ps\<lparr>ps_key := Some k\<rparr>)))"
proof -
  have f: "field \<noteq> []" "\<not> is_whitespace (hd field)" "\<forall>c \<in> set field. c \<noteq> 34 \<and> c \<noteq> 35" "61 \<notin> set field"
      "hd field \<noteq> 91" "trim (field @ [32]) = field"
    using assms by (auto simp: lit_def is_whitespace_def trim_def trim_start_def trim_end_def)
  have ne: "quoted_field field v \<noteq> []" "quoted_field field v \<noteq> lit ''[[keys]]''"
    using f(1,5) by (auto simp: quoted_field_def lit_def neq_Nil_conv)
  show ?thesis
    using assms ne
    by (auto simp: parse_line_def strip_comment_field [OF f(3)] quoted_field_ends [OF f(1,2)]
        split_once_field [OF f(4)] trim_value parse_quoted f(6) lit_def)
qed

lemma file_lines:
  "str_lines (api_keys_file_text e) =
     [lit ''# Werk1112 API keys. Keep this file private and do not commit it.'',
      lit ''# Clients must send: Authorization: Bearer <key>'', [], lit ''[[keys]]'',
      quoted_field (lit ''name'') (entry_name e), quoted_field (lit ''key'') (entry_key e)]"
proof -
  have q: "10 \<notin> set (quoted_field (lit f) v)" "13 \<notin> set (quoted_field (lit f) v)"
    if "f \<in> {''name'', ''key''}" for f v
    using that escape_no_newline by (auto simp: quoted_field_def lit_def)
  have h: "10 \<notin> set (lit h)" "13 \<notin> set (lit h)"
    if "h \<in> {''# Werk1112 API keys. Keep this file private and do not commit it.'',
        ''# Clients must send: Authorization: Bearer <key>'', '''', ''[[keys]]''}" for h
    using that by (auto simp: lit_def)
  have e: "str_lines ([] @ 10 # s) = [] # str_lines s" for s by (rule str_lines_line) simp_all
  have nil: "str_lines [] = []" by (simp add: str_lines_def)
  show ?thesis
    using e by (simp add: api_keys_file_text_def str_lines_line q h nil)
qed

lemma parse_comment_line: "parse_line ps n (35 # s) = Ok ps"
  by (simp add: parse_line_def strip_comment_def trim_def trim_start_def trim_end_def)

lemma validate_key_Ok: "validate_key v n = Ok k \<longleftrightarrow> k = v \<and> trim v \<noteq> [] \<and> \<not> list_ex is_control v"
  by (auto simp: validate_key_def)

lemma parse_printed:
  assumes "normalized_name (entry_name e) = entry_name e" "trim (entry_key e) \<noteq> []"
    and "\<not> list_ex is_control (entry_key e)"
  shows "parse_api_keys_toml (api_keys_file_text e) = Ok [e]"
proof -
  have k: "parse_line ps n (lit ''[[keys]]'') = finish_entry ps n" for ps n
    by (simp add: parse_line_def strip_comment_def lit_def trim_def trim_start_def trim_end_def is_whitespace_def)
  have c: "parse_line ps n (lit (CHR ''#'' # s)) = Ok ps" for ps n s
    by (simp add: lit_def parse_comment_line)
  have b: "parse_line ps n [] = Ok ps" for ps n
    by (simp add: parse_line_def strip_comment_def trim_def trim_start_def trim_end_def)
  have v: "validate_key (entry_key e) n = Ok (entry_key e)" for n using assms(2,3) by (simp add: validate_key_Ok)
  have kn: "lit ''key'' \<noteq> lit ''name''" by (simp add: lit_def)
  show ?thesis
    by (simp add: parse_api_keys_toml_def file_lines c b k parse_field_line v kn finish_entry_def assms(1))
qed

section \<open>Properties\<close>

lemma hex_alnum: "\<forall>b \<in> set bytes. b < 256 \<Longrightarrow> c \<in> set (hex bytes) \<Longrightarrow> is_ascii_alnum c"
proof -
  assume b: "\<forall>b \<in> set bytes. b < 256" and c: "c \<in> set (hex bytes)"
  obtain x where x: "x \<in> set bytes" "c = hex_digit (x div 16) \<or> c = hex_digit (x mod 16)"
    using c by (auto simp: hex_def)
  have "x div 16 < 16" "x mod 16 < 16" using b x(1) by (auto simp: div_less_iff_less_mult)
  with x(2) obtain n where n: "n < 16" "c = hex_digit n" by blast
  have all: "\<forall>d \<in> set (lit ''0123456789abcdef''). is_ascii_alnum d"
    by (simp add: lit_def is_ascii_alnum_def is_ascii_digit_def is_ascii_lower_def)
  have "hex_digit n \<in> set (lit ''0123456789abcdef'')"
    unfolding hex_digit_def by (rule nth_mem) (use n in \<open>simp add: lit_def\<close>)
  with all n show ?thesis by blast
qed

lemma generated_key_chars:
  assumes "\<forall>b \<in> set bytes. b < 256" "c \<in> set (generate_api_key bytes)"
  shows "\<not> is_control c \<and> \<not> is_whitespace c"
proof -
  have "c \<in> set (lit ''sk-werk-'') \<or> is_ascii_alnum c"
    using assms hex_alnum by (auto simp: generate_api_key_def)
  then show ?thesis
    by (auto simp: lit_def is_ascii_alnum_def is_ascii_digit_def is_ascii_lower_def is_ascii_upper_def
        is_control_def is_whitespace_def)
qed

lemma normalized_name_idem [simp]: "normalized_name (normalized_name v) = normalized_name v"
proof -
  have "trim (lit ''default'') = lit ''default''"
    by (rule trim_id) (simp add: lit_def is_whitespace_def)
  then show ?thesis by (simp add: normalized_name_def lit_def)
qed

lemma trim_nonempty: "s \<noteq> [] \<Longrightarrow> \<forall>c \<in> set s. \<not> is_whitespace c \<Longrightarrow> trim s = s"
  by (rule trim_id) simp

text \<open>
  C36. Writing and reading the key file is a round trip: for every name (with any characters,
  quotes, backslashes and line breaks included) and any random bytes, the text that
  \<open>write_api_keys_file\<close> writes is read back as exactly the one entry it returns.
\<close>

theorem api_keys_roundtrip:
  assumes "\<forall>b \<in> set bytes. b < 256" "write_api_keys bytes name = (e, text)"
  shows "load_api_keys_text text = Ok [e] \<and> entry_name e = normalized_name name
    \<and> entry_key e = lit ''sk-werk-'' @ hex bytes"
proof -
  have e: "e = \<lparr>entry_name = normalized_name name, entry_key = generate_api_key bytes\<rparr>"
      "text = api_keys_file_text e"
    using assms(2) by (auto simp: write_api_keys_def Let_def)
  have k: "generate_api_key bytes \<noteq> []" by (simp add: generate_api_key_def lit_def)
  have "parse_api_keys_toml (api_keys_file_text e) = Ok [e]"
  proof (rule parse_printed)
    show "normalized_name (entry_name e) = entry_name e" using e by simp
    show "trim (entry_key e) \<noteq> []"
      using e k generated_key_chars [OF assms(1)] trim_nonempty [OF k] by simp
    show "\<not> list_ex is_control (entry_key e)"
      using e generated_key_chars [OF assms(1)] by (auto simp: list_ex_iff)
  qed
  with e show ?thesis by (simp add: load_api_keys_text_def generate_api_key_def)
qed

theorem api_keys_roundtrip_witness:
  "load_api_keys_text (api_keys_file_text \<lparr>entry_name = [34, 10, 92],
     entry_key = generate_api_key [255, 0]\<rparr>) =
   Ok [\<lparr>entry_name = [34, 10, 92], entry_key = generate_api_key [255, 0]\<rparr>]"
proof -
  have b: "\<forall>b \<in> set [255, 0]. b < (256::nat)" by simp
  have w: "write_api_keys [255, 0] [34, 10, 92] = (\<lparr>entry_name = [34, 10, 92],
      entry_key = generate_api_key [255, 0]\<rparr>, api_keys_file_text \<lparr>entry_name = [34, 10, 92],
      entry_key = generate_api_key [255, 0]\<rparr>)"
    by (simp add: write_api_keys_def normalized_name_def trim_def trim_start_def trim_end_def is_whitespace_def Let_def)
  from api_keys_roundtrip [OF b w] show ?thesis by blast
qed

definition good_entry :: "api_key_entry \<Rightarrow> bool" where
  "good_entry e \<longleftrightarrow> trim (entry_key e) \<noteq> [] \<and> \<not> list_ex is_control (entry_key e)
     \<and> entry_name e \<noteq> [] \<and> trim (entry_name e) = entry_name e"

definition good_state :: "parse_state \<Rightarrow> bool" where
  "good_state ps \<longleftrightarrow> (\<forall>e \<in> set (ps_entries ps). good_entry e)
     \<and> (\<forall>n. ps_name ps = Some n \<longrightarrow> n \<noteq> [] \<and> trim n = n)
     \<and> (\<forall>k. ps_key ps = Some k \<longrightarrow> trim k \<noteq> [] \<and> \<not> list_ex is_control k)"

lemma default_name: "trim (lit ''default'') = lit ''default''" "lit ''default'' \<noteq> []"
  by (rule trim_id, simp add: lit_def is_whitespace_def) (simp add: lit_def)

lemma normalized_name_good: "normalized_name v \<noteq> [] \<and> trim (normalized_name v) = normalized_name v"
  using default_name by (simp add: normalized_name_def)

lemma finish_entry_good: "good_state ps \<Longrightarrow> finish_entry ps n = Ok ps' \<Longrightarrow> good_state ps'"
  using default_name
  by (auto simp: finish_entry_def good_state_def good_entry_def split: option.splits)

lemma parse_line_good:
  assumes g: "good_state ps" and p: "parse_line ps n l = Ok ps'"
  shows "good_state ps'"
proof (cases "trim (strip_comment l) = lit ''[[keys]]''")
  case True
  then have "trim (strip_comment l) \<noteq> []" by (simp add: lit_def)
  with True p have "finish_entry ps n = Ok ps'" by (simp add: parse_line_def)
  with g show ?thesis by (rule finish_entry_good)
next
  case False
  with p g normalized_name_good show ?thesis
    by (auto simp: parse_line_def Let_def res_bind_Ok validate_key_Ok good_state_def
        split: if_splits option.splits)
qed

lemma parse_lines_good: "good_state ps \<Longrightarrow> parse_lines ps n ls = Ok ps' \<Longrightarrow> good_state ps'"
  by (induction ps n ls rule: parse_lines.induct) (auto simp: res_bind_Ok dest: parse_line_good)

text \<open>
  Whatever text is loaded, every accepted entry is usable: its key is not blank and holds
  no control character, its name is non-empty and has no surrounding white space, and the
  list is not empty. Loading never panics.
\<close>

theorem loaded_keys_valid:
  "load_api_keys_text text \<noteq> Panic \<and>
   (load_api_keys_text text = Ok es \<longrightarrow> es \<noteq> [] \<and> (\<forall>e \<in> set es. good_entry e))"
proof
  have fe: "finish_entry ps n \<noteq> Panic" for ps n by (auto simp: finish_entry_def split: option.splits)
  have ts: "parse_toml_string v n \<noteq> Panic" for v n
    by (auto simp: parse_toml_string_def split: list.splits option.splits)
  have vk: "validate_key v n \<noteq> Panic" for v n by (simp add: validate_key_def)
  have pl: "parse_line ps n l \<noteq> Panic" for ps n l
    by (auto simp: parse_line_def Let_def res_bind_Panic fe ts vk split: option.splits)
  have pls: "parse_lines ps n ls \<noteq> Panic" for ps n ls
    by (induction ps n ls rule: parse_lines.induct) (auto simp: res_bind_Panic pl)
  show "load_api_keys_text text \<noteq> Panic"
    by (auto simp: load_api_keys_text_def parse_api_keys_toml_def res_bind_Panic pls fe)
  have g: "good_state \<lparr>ps_entries = [], ps_name = None, ps_key = None\<rparr>" by (simp add: good_state_def)
  show "load_api_keys_text text = Ok es \<longrightarrow> es \<noteq> [] \<and> (\<forall>e \<in> set es. good_entry e)"
  proof
    assume "load_api_keys_text text = Ok es"
    then obtain ps ps' n where p: "parse_lines \<lparr>ps_entries = [], ps_name = None, ps_key = None\<rparr> 1 (str_lines text) = Ok ps"
        "finish_entry ps n = Ok ps'" "ps_entries ps' = es" "es \<noteq> []"
      by (auto simp: load_api_keys_text_def parse_api_keys_toml_def res_bind_Ok split: if_splits)
    have "good_state ps'" by (rule finish_entry_good [OF parse_lines_good [OF g p(1)] p(2)])
    with p show "es \<noteq> [] \<and> (\<forall>e \<in> set es. good_entry e)" by (auto simp: good_state_def)
  qed
qed

theorem loaded_keys_valid_witness:
  "load_api_keys_text (lit ''key = '' @ [34, 97, 34]) = Ok [\<lparr>entry_name = lit ''default'', entry_key = [97]\<rparr>]
   \<and> good_entry \<lparr>entry_name = lit ''default'', entry_key = [97]\<rparr>"
proof -
  have l: "load_api_keys_text (lit ''key = '' @ [34, 97, 34]) = Ok [\<lparr>entry_name = lit ''default'', entry_key = [97]\<rparr>]"
    by (simp add: load_api_keys_text_def parse_api_keys_toml_def str_lines_def lit_def parse_line_def
      strip_comment_def trim_def trim_start_def trim_end_def is_whitespace_def finish_entry_def
      parse_toml_string_def validate_key_def is_control_def Let_def)
  with loaded_keys_valid [of "lit ''key = '' @ [34, 97, 34]"
      "[\<lparr>entry_name = lit ''default'', entry_key = [97]\<rparr>]"] show ?thesis by simp
qed

end
