(* ===== verification/Device_Inventory.thy ===== *)
theory Device_Inventory
  imports BTree_Map Rust_Text
begin

text \<open>
  The inventory of graphics devices (\<open>src/src/inference_service/devices.rs\<close>): reading the
  rows that \<open>nvidia-smi\<close> prints, the visibility masks of the process and of its container,
  and \<open>detect\<close>, whose process outputs, environment variables and \<open>/sys\<close> files are arguments.
\<close>

section \<open>Devices\<close>

datatype memory_topology = Discrete | Unified | UnknownTopology

record device =
  dev_id :: rstr
  dev_physical_index :: nat
  dev_vendor :: rstr
  dev_name :: rstr
  dev_architecture :: "rstr option"
  dev_runtime :: rstr
  dev_pci_bus_id :: rstr
  dev_total_bytes :: nat
  dev_free_bytes :: "nat option"
  dev_numa_node :: "int option"
  dev_pcie_link :: "rstr option"
  dev_visible_index :: "nat option"

record inventory =
  inv_devices :: "device list"
  inv_host_available_bytes :: "nat option"
  inv_memory_topology :: "memory_topology option"
  inv_topology :: "rstr option"
  inv_warnings :: "rstr list"

definition empty_inventory :: inventory where
  "empty_inventory =
     \<lparr>inv_devices = [], inv_host_available_bytes = None, inv_memory_topology = None,
      inv_topology = None, inv_warnings = []\<rparr>"

datatype inventory_error =
    NotUtf8
  | UnrecognizedRow rstr
  | DuplicateUuid
  | NotANumber rstr
  | MemoryOverflow
  | InvalidMeasurement
  | MigUnsupported
  | UnresolvedVisibility rstr
  | DuplicateInMask

section \<open>Reading the rows\<close>

definition MIB :: nat where "MIB = 1048576"

definition mib :: "rstr \<Rightarrow> (inventory_error, nat) res" where
  "mib s = (case parse_unsigned u64_max s of
       None \<Rightarrow> Err (NotANumber s)
     | Some n \<Rightarrow> (case checked_mul n MIB of None \<Rightarrow> Err MemoryOverflow | Some b \<Rightarrow> Ok b))"

fun res_ok :: "('e, 'a) res \<Rightarrow> 'a option" where
  "res_ok (Ok a) = Some a"
| "res_ok _ = None"

definition csv_device :: "rstr list \<Rightarrow> nat \<Rightarrow> (inventory_error, device) res" where
  "csv_device cols position =
     res_bind (mib (cols ! 4)) (\<lambda>total.
       let free = res_ok (mib (cols ! 5)) in
       if total = 0 \<or> (case free of None \<Rightarrow> False | Some f \<Rightarrow> total < f) then Err InvalidMeasurement
       else (case parse_unsigned u32_max (cols ! 0) of
           None \<Rightarrow> Err (NotANumber (cols ! 0))
         | Some index \<Rightarrow> Ok
             \<lparr>dev_id = cols ! 1, dev_physical_index = index, dev_vendor = lit ''nvidia'',
              dev_name = cols ! 2, dev_architecture = None, dev_runtime = lit ''cuda'',
              dev_pci_bus_id = cols ! 3, dev_total_bytes = total, dev_free_bytes = free,
              dev_numa_node = None, dev_pcie_link = None, dev_visible_index = Some position\<rparr>))"

fun csv_rows :: "rstr list \<Rightarrow> device list \<Rightarrow> rstr list \<Rightarrow> (inventory_error, device list) res" where
  "csv_rows ids devices [] = Ok devices"
| "csv_rows ids devices (line # rest) =
     (let cols = map trim (split_at_char 44 line) in
      if length cols \<noteq> 6 \<or> \<not> starts_with (lit ''GPU-'') (cols ! 1) then Err (UnrecognizedRow line)
      else if cols ! 1 \<in> set ids then Err DuplicateUuid
      else res_bind (csv_device cols (length devices)) (\<lambda>d.
        csv_rows (cols ! 1 # ids) (devices @ [d]) rest))"

definition from_csv :: "rstr \<Rightarrow> (inventory_error, inventory) res" where
  "from_csv csv =
     res_bind (csv_rows [] [] (filter (\<lambda>l. trim l \<noteq> []) (str_lines csv))) (\<lambda>devices.
       Ok (empty_inventory\<lparr>inv_devices := devices\<rparr>))"

section \<open>Visibility\<close>

definition token_matches :: "device list \<Rightarrow> bool \<Rightarrow> rstr \<Rightarrow> device \<Rightarrow> bool" where
  "token_matches devices container_mask token d =
     (if starts_with (lit ''GPU-'') token then starts_with token (dev_id d)
      else if container_mask then parse_unsigned u32_max token = Some (dev_physical_index d)
      else length devices = 1 \<and> token = lit ''0'')"

fun resolve_tokens ::
  "device list \<Rightarrow> bool \<Rightarrow> rstr list \<Rightarrow> rstr list \<Rightarrow> (inventory_error, rstr list) res" where
  "resolve_tokens devices container_mask ids [] = Ok ids"
| "resolve_tokens devices container_mask ids (token # rest) =
     (if starts_with (lit ''MIG-'') token then Err MigUnsupported
      else (case filter (token_matches devices container_mask token) devices of
          [d] \<Rightarrow> if dev_id d \<in> set ids then Err DuplicateInMask
                 else resolve_tokens devices container_mask (ids @ [dev_id d]) rest
        | _ \<Rightarrow> Err (UnresolvedVisibility token)))"

definition mask_empty :: "rstr \<Rightarrow> bool" where
  "mask_empty m \<longleftrightarrow> trim m \<in> {lit '''', lit ''-1'', lit ''none'', lit ''void''}"

definition resolve_mask :: "device list \<Rightarrow> rstr option \<Rightarrow> bool \<Rightarrow> (inventory_error, rstr list) res" where
  "resolve_mask devices given container_mask =
     (case given of
        None \<Rightarrow> Ok (map dev_id devices)
      | Some m \<Rightarrow>
          if m = lit ''all'' \<and> container_mask then Ok (map dev_id devices)
          else if mask_empty m then Ok []
          else resolve_tokens devices container_mask [] (map trim (split_at_char 44 m)))"

fun position_of :: "'a \<Rightarrow> 'a list \<Rightarrow> nat option" where
  "position_of x [] = None"
| "position_of x (y # ys) = (if x = y then Some 0 else map_option Suc (position_of x ys))"

definition index_device :: "rstr list \<Rightarrow> device \<Rightarrow> device" where
  "index_device ids d = d\<lparr>dev_visible_index := position_of (dev_id d) ids\<rparr>"

definition apply_visibility ::
  "inventory \<Rightarrow> rstr option \<Rightarrow> rstr option \<Rightarrow> (inventory_error, inventory) res" where
  "apply_visibility i cuda container =
     res_bind (resolve_mask (inv_devices i) container True) (\<lambda>container_ids.
       res_bind (resolve_mask (inv_devices i) cuda False) (\<lambda>cuda_ids.
         let kept = filter (\<lambda>id. id \<in> set container_ids) cuda_ids in
         Ok (i\<lparr>inv_devices := map (index_device kept) (inv_devices i)\<rparr>)))"

definition is_visible :: "device \<Rightarrow> bool" where
  "is_visible d \<longleftrightarrow> dev_visible_index d \<noteq> None"

definition visible :: "inventory \<Rightarrow> device list" where
  "visible i = sort_key (\<lambda>d. the (dev_visible_index d)) (filter is_visible (inv_devices i))"

section \<open>Detection\<close>

text \<open>What the process, its environment and the file system give to \<open>detect\<close>.\<close>

record device_probes =
  dp_host_memory_bytes :: "nat option"
  dp_memory_topology :: "memory_topology option"
  dp_rows :: "rstr option option"
  dp_architectures :: "rstr option"
  dp_cuda_visible :: "rstr option"
  dp_nvidia_visible :: "rstr option"
  dp_topology :: "rstr option"
  dp_sys_file :: "rstr \<Rightarrow> rstr option"

definition remove_char :: "nat \<Rightarrow> rstr \<Rightarrow> rstr" where
  "remove_char c s = filter (\<lambda>x. x \<noteq> c) s"

fun set_architecture :: "rstr \<Rightarrow> rstr \<Rightarrow> device list \<Rightarrow> device list" where
  "set_architecture uuid a [] = []"
| "set_architecture uuid a (d # ds) =
     (if dev_id d = uuid then d\<lparr>dev_architecture := Some a\<rparr> # ds else d # set_architecture uuid a ds)"

definition architecture_line :: "device list \<Rightarrow> rstr \<Rightarrow> device list" where
  "architecture_line devices line =
     (case split_once_at 44 line of
        None \<Rightarrow> devices
      | Some (uuid, architecture) \<Rightarrow>
          set_architecture (trim uuid) (lit ''sm_'' @ remove_char 46 (trim architecture)) devices)"

definition pci_directory :: "rstr \<Rightarrow> rstr" where
  "pci_directory bus =
     (let pci = to_ascii_lowercase bus;
          pci = (if starts_with (lit ''00000000:'') pci then lit ''0000:'' @ drop 9 pci else pci)
      in lit ''/sys/bus/pci/devices/'' @ pci)"

definition probe_device :: "(rstr \<Rightarrow> rstr option) \<Rightarrow> device \<Rightarrow> device" where
  "probe_device sys d =
     (let base = pci_directory (dev_pci_bus_id d) in
      d\<lparr>dev_numa_node :=
           (case Option.bind (sys (base @ lit ''/numa_node'')) (\<lambda>s. parse_i32 (trim s)) of
              None \<Rightarrow> None
            | Some n \<Rightarrow> if 0 \<le> n then Some n else None),
        dev_pcie_link := map_option trim (sys (base @ lit ''/current_link_speed''))\<rparr>)"

definition UNAVAILABLE :: rstr where
  "UNAVAILABLE = lit ''NVIDIA inventory unavailable; no CUDA placement may be inferred. ROCm/Vulkan discovery remains on existing backend paths.''"

definition observed_host :: "device_probes \<Rightarrow> inventory \<Rightarrow> inventory" where
  "observed_host p i = i\<lparr>inv_host_available_bytes := dp_host_memory_bytes p,
                         inv_memory_topology := dp_memory_topology p\<rparr>"

definition observed_architectures :: "device_probes \<Rightarrow> inventory \<Rightarrow> inventory" where
  "observed_architectures p i =
     (case dp_architectures p of
        None \<Rightarrow> i
      | Some text \<Rightarrow> i\<lparr>inv_devices := foldl architecture_line (inv_devices i) (str_lines text)\<rparr>)"

definition observed_links :: "device_probes \<Rightarrow> inventory \<Rightarrow> inventory" where
  "observed_links p i = i\<lparr>inv_topology := map_option trim (dp_topology p),
                          inv_devices := map (probe_device (dp_sys_file p)) (inv_devices i)\<rparr>"

definition detect :: "device_probes \<Rightarrow> (inventory_error, inventory) res" where
  "detect p =
     (case dp_rows p of
        None \<Rightarrow> Ok (empty_inventory\<lparr>inv_host_available_bytes := dp_host_memory_bytes p,
                                inv_warnings := [UNAVAILABLE]\<rparr>)
      | Some None \<Rightarrow> Err NotUtf8
      | Some (Some rows) \<Rightarrow>
          res_bind (from_csv rows) (\<lambda>i.
          res_bind (apply_visibility (observed_architectures p (observed_host p i))
                      (dp_cuda_visible p) (dp_nvidia_visible p)) (\<lambda>i.
          Ok (observed_links p i))))"

section \<open>The invariant of an inventory\<close>

text \<open>
  Identifiers are distinct full UUIDs, measurements are sound, and the visible indices name
  distinct places.
\<close>

definition good_device :: "device \<Rightarrow> bool" where
  "good_device d \<longleftrightarrow> starts_with (lit ''GPU-'') (dev_id d) \<and> 0 < dev_total_bytes d \<and>
     dev_total_bytes d \<le> u64_max \<and> (\<forall>f. dev_free_bytes d = Some f \<longrightarrow> f \<le> dev_total_bytes d) \<and>
     dev_runtime d = lit ''cuda'' \<and> 44 \<notin> set (dev_id d) \<and> trim (dev_id d) = dev_id d"

definition visible_indices_distinct :: "device list \<Rightarrow> bool" where
  "visible_indices_distinct ds \<longleftrightarrow>
     (\<forall>d \<in> set ds. \<forall>e \<in> set ds. dev_visible_index d = dev_visible_index e \<longrightarrow> is_visible d \<longrightarrow> dev_id d = dev_id e)"

definition good_inventory :: "inventory \<Rightarrow> bool" where
  "good_inventory i \<longleftrightarrow> distinct (map dev_id (inv_devices i)) \<and> list_all good_device (inv_devices i) \<and>
     visible_indices_distinct (inv_devices i)"

lemma mib_positive: "mib s = Ok b \<Longrightarrow> b \<le> u64_max"
  by (auto simp: mib_def checked_mul_def split: option.splits if_splits)

lemma csv_device_good:
  assumes "csv_device cols n = Ok d" "starts_with (lit ''GPU-'') (cols ! 1)"
    "44 \<notin> set (cols ! 1)" "trim (cols ! 1) = cols ! 1"
  shows "good_device d" "dev_id d = cols ! 1" "dev_visible_index d = Some n"
  using assms mib_positive
  by (auto simp: csv_device_def good_device_def res_bind_Ok Let_def split: if_splits option.splits)

lemma csv_rows_good:
  assumes "csv_rows ids devices rows = Ok ds" "set ids = dev_id ` set devices"
    "distinct (map dev_id devices)" "list_all good_device devices"
    "map dev_visible_index devices = map Some [0..<length devices]"
  shows "distinct (map dev_id ds) \<and> list_all good_device ds \<and>
    map dev_visible_index ds = map Some [0..<length ds]"
  using assms
proof (induction ids devices rows rule: csv_rows.induct)
  case (1 ids devices)
  then show ?case by simp
next
  case (2 ids devices line rest)
  let ?cols = "map trim (split_at_char 44 line)"
  from 2(2) have g: "\<not> (length ?cols \<noteq> 6 \<or> \<not> starts_with (lit ''GPU-'') (?cols ! 1))" "?cols ! 1 \<notin> set ids"
    by (auto simp: Let_def split: if_splits)
  with 2(2) obtain d where d: "csv_device ?cols (length devices) = Ok d"
    and rest: "csv_rows (?cols ! 1 # ids) (devices @ [d]) rest = Ok ds"
    by (auto simp: Let_def res_bind_Ok)
  define piece where "piece = split_at_char 44 line ! 1"
  have len: "1 < length (split_at_char 44 line)" using g(1) by simp
  then have col: "?cols ! 1 = trim piece" unfolding piece_def by (rule nth_map)
  have "piece \<in> set (split_by (\<lambda>c. c = 44) line)"
    using len unfolding piece_def split_at_char_def by (rule nth_mem)
  then have "44 \<notin> set piece" using split_by_no_sep by blast
  then have comma: "44 \<notin> set (?cols ! 1)" "trim (?cols ! 1) = ?cols ! 1"
    unfolding col using set_trim [of piece] by auto
  have gpu: "starts_with (lit ''GPU-'') (?cols ! 1)" using g(1) by blast
  note dg = csv_device_good [OF d gpu comma]
  show ?case
  proof (rule 2(1) [OF refl g rest])
    show "set (?cols ! 1 # ids) = dev_id ` set (devices @ [d])" using 2(3) dg g by auto
    show "distinct (map dev_id (devices @ [d]))" using 2(3,4) dg g by auto
    show "list_all good_device (devices @ [d])" using 2(5) dg g by auto
    show "map dev_visible_index (devices @ [d]) = map Some [0..<length (devices @ [d])]"
      using 2(6) dg g by auto
  qed
qed

lemma nth_Some_index: "map f ds = map Some [0..<length ds] \<Longrightarrow> i < length ds \<Longrightarrow> f (ds ! i) = Some i"
  by (metis add.left_neutral length_map map_nth nth_map nth_upt)

lemma from_csv_good: "from_csv csv = Ok i \<Longrightarrow> good_inventory i"
proof -
  assume "from_csv csv = Ok i"
  then obtain ds where ds: "csv_rows [] [] (filter (\<lambda>l. trim l \<noteq> []) (str_lines csv)) = Ok ds"
    and i: "i = empty_inventory\<lparr>inv_devices := ds\<rparr>"
    by (auto simp: from_csv_def res_bind_Ok)
  from csv_rows_good [OF ds] have g: "distinct (map dev_id ds)" "list_all good_device ds"
    and v: "map dev_visible_index ds = map Some [0..<length ds]" by simp_all
  have "visible_indices_distinct ds"
    unfolding visible_indices_distinct_def
  proof (intro ballI impI)
    fix d e assume de: "d \<in> set ds" "e \<in> set ds" "dev_visible_index d = dev_visible_index e"
    then obtain m n where "m < length ds" "ds ! m = d" "n < length ds" "ds ! n = e"
      by (metis in_set_conv_nth)
    with nth_Some_index [OF v] de(3) show "dev_id d = dev_id e" by (metis option.inject)
  qed
  with g i show ?thesis by (simp add: good_inventory_def)
qed

section \<open>Visibility facts\<close>

lemma resolve_tokens_ids:
  assumes "resolve_tokens devices container ids tokens = Ok out" "distinct ids"
    "set ids \<subseteq> dev_id ` set devices"
  shows "distinct out \<and> set out \<subseteq> dev_id ` set devices"
  using assms
proof (induction devices container ids tokens rule: resolve_tokens.induct)
  case (2 devices container ids token rest)
  then have mig: "\<not> starts_with (lit ''MIG-'') token" by auto
  with 2 obtain d where d: "filter (token_matches devices container token) devices = [d]"
    "dev_id d \<notin> set ids" "resolve_tokens devices container (ids @ [dev_id d]) rest = Ok out"
    by (auto split: if_splits list.splits)
  then have "d \<in> set (filter (token_matches devices container token) devices)" by simp
  then have "d \<in> set devices" by simp
  with 2 d mig show ?case by auto
qed simp

lemma resolve_mask_ids:
  assumes "resolve_mask devices given container = Ok ids" "distinct (map dev_id devices)"
  shows "distinct ids \<and> set ids \<subseteq> dev_id ` set devices"
  using assms resolve_tokens_ids [of devices container "[]"]
  by (auto simp: resolve_mask_def split: option.splits if_splits)

lemma position_of_None [simp]: "position_of x ys = None \<longleftrightarrow> x \<notin> set ys"
  by (induction ys) auto

lemma position_of_Some: "position_of x ys = Some n \<Longrightarrow> n < length ys \<and> ys ! n = x"
  by (induction ys arbitrary: n) (auto split: if_splits)

lemma position_of_nth: "distinct ys \<Longrightarrow> n < length ys \<Longrightarrow> position_of (ys ! n) ys = Some n"
proof (induction ys arbitrary: n)
  case (Cons y ys)
  then show ?case by (cases n) auto
qed simp

lemma index_device_id [simp]: "dev_id (index_device ids d) = dev_id d"
  by (simp add: index_device_def)

lemma good_index_device [simp]: "good_device (index_device ids d) \<longleftrightarrow> good_device d"
  by (simp add: index_device_def good_device_def)

lemma is_visible_index [simp]: "is_visible (index_device ids d) \<longleftrightarrow> dev_id d \<in> set ids"
  by (auto simp: is_visible_def index_device_def)

text \<open>Sorting the visible devices by their index is reading them in the order of the mask.\<close>

lemma sorted_by_position:
  assumes "distinct ids" "distinct (map dev_id ds)" "set ids \<subseteq> dev_id ` set ds"
  shows "map dev_id (sort_key (\<lambda>d. the (dev_visible_index d))
    (filter is_visible (map (index_device ids) ds))) = ids"
proof -
  let ?k = "\<lambda>d. the (dev_visible_index d)"
  let ?f = "filter is_visible (map (index_device ids) ds)"
  let ?s = "sort_key ?k ?f"
  have pos: "dev_visible_index d = position_of (dev_id d) ids" if "d \<in> set ?s" for d
    using that by (auto simp: index_device_def)
  have inn: "dev_id d \<in> set ids" if "d \<in> set ?s" for d using that by auto
  have "map dev_id (map (index_device ids) ds) = map dev_id ds" by simp
  then have d1: "distinct (map dev_id ?f)" using assms(2) distinct_map_filter by metis
  then have dist: "distinct (map dev_id ?s)"
    by (simp only: distinct_map set_sort distinct_sort)
  have ids: "set (map dev_id ?s) = set ids" using assms(3) by (force simp: image_iff)
  have key: "?k d = the (position_of (dev_id d) ids)" if "d \<in> set ?s" for d using pos [OF that] by simp
  let ?p = "\<lambda>x. the (position_of x ids)"
  have "map ?p (map dev_id ?s) = map ?k ?s"
    unfolding map_map by (rule map_cong) (use key in auto)
  then have s1: "sorted (map ?p (map dev_id ?s))" by (simp only: sorted_sort_key)
  have s2: "sorted (map ?p ids)"
    by (simp add: sorted_iff_nth_mono position_of_nth assms(1))
  have inj: "inj_on ?p (set ids)"
    by (rule inj_onI) (metis position_of_None position_of_Some option.collapse)
  show ?thesis
  proof (rule map_sorted_distinct_set_unique [of ?p])
    show "inj_on ?p (set (map dev_id ?s) \<union> set ids)" using inj ids by simp
    show "distinct (map ?p (map dev_id ?s))"
      using dist inj ids by (simp only: distinct_map [of ?p] simp_thms)
    show "distinct (map ?p ids)" using assms(1) inj by (simp only: distinct_map simp_thms)
  qed (use s1 s2 ids in \<open>simp_all only:\<close>)
qed

lemma indexed_distinct: "visible_indices_distinct (map (index_device ids) ds)"
  unfolding visible_indices_distinct_def
proof (intro ballI impI)
  fix d e
  assume "d \<in> set (map (index_device ids) ds)" "e \<in> set (map (index_device ids) ds)"
    "dev_visible_index d = dev_visible_index e" "is_visible d"
  then obtain n where "position_of (dev_id d) ids = Some n" "position_of (dev_id e) ids = Some n"
    by (auto simp: index_device_def is_visible_def)
  then show "dev_id d = dev_id e" using position_of_Some by metis
qed

lemma apply_visibility_Ok:
  assumes "apply_visibility i cuda container = Ok j"
  obtains cs gs where "resolve_mask (inv_devices i) container True = Ok cs"
    "resolve_mask (inv_devices i) cuda False = Ok gs"
    "j = i\<lparr>inv_devices := map (index_device (filter (\<lambda>id. id \<in> set cs) gs)) (inv_devices i)\<rparr>"
  using assms that by (auto simp: apply_visibility_def res_bind_Ok Let_def)

lemma apply_visibility_good:
  assumes "good_inventory i" "apply_visibility i cuda container = Ok j"
  shows "good_inventory j"
  using assms(2)
proof (rule apply_visibility_Ok)
  fix cs gs
  assume "j = i\<lparr>inv_devices := map (index_device (filter (\<lambda>id. id \<in> set cs) gs)) (inv_devices i)\<rparr>"
  with assms(1) show ?thesis
    by (simp add: good_inventory_def indexed_distinct list_all_iff comp_def)
qed

text \<open>The later steps of \<open>detect\<close> touch neither identity, memory nor visibility.\<close>

definition same_placement :: "device \<Rightarrow> device \<Rightarrow> bool" where
  "same_placement d e \<longleftrightarrow> dev_id e = dev_id d \<and> dev_total_bytes e = dev_total_bytes d \<and>
     dev_free_bytes e = dev_free_bytes d \<and> dev_runtime e = dev_runtime d \<and>
     dev_visible_index e = dev_visible_index d"

lemma same_placement_refl [simp]: "same_placement d d"
  by (simp add: same_placement_def)

lemma same_placement_trans: "same_placement d e \<Longrightarrow> same_placement e f \<Longrightarrow> same_placement d f"
  by (simp add: same_placement_def)

lemma set_architecture_same: "list_all2 same_placement ds (set_architecture uuid a ds)"
  by (induction ds) (auto simp: same_placement_def list_all2_same)

lemma architecture_lines_same: "list_all2 same_placement ds (foldl architecture_line ds ls)"
proof (induction ls arbitrary: ds)
  case Nil
  then show ?case by (simp add: list_all2_same)
next
  case (Cons l ls)
  have "list_all2 same_placement ds (architecture_line ds l)"
    by (auto simp: architecture_line_def set_architecture_same list_all2_same split: option.splits)
  from list_all2_trans [OF same_placement_trans this Cons] show ?case by simp
qed

lemma probe_device_same: "same_placement d (probe_device sys d)"
  by (simp add: probe_device_def Let_def same_placement_def)

lemma same_placement_good:
  assumes "list_all2 same_placement ds es" "good_inventory (i\<lparr>inv_devices := ds\<rparr>)"
  shows "good_inventory (i\<lparr>inv_devices := es\<rparr>)"
proof -
  have ids: "map dev_id es = map dev_id ds" "length es = length ds"
    using assms(1) by (auto simp: list_all2_conv_all_nth same_placement_def intro: nth_equalityI)
  have origin: "\<exists>d \<in> set ds. same_placement d e" if "e \<in> set es" for e
    using assms(1) that by (metis in_set_conv_nth list_all2_conv_all_nth)
  have "good_device e" if "e \<in> set es" for e
    using origin [OF that] assms(2) by (auto simp: good_inventory_def good_device_def same_placement_def list_all_iff)
  moreover have "visible_indices_distinct es"
    using assms(2) origin unfolding good_inventory_def visible_indices_distinct_def
    by (metis (no_types, lifting) inventory.select_convs(1) inventory.surjective inventory.update_convs(1)
      is_visible_def same_placement_def)
  ultimately show ?thesis using assms(2) ids by (simp add: good_inventory_def list_all_iff)
qed

lemma observed_good:
  assumes "good_inventory i"
  shows "good_inventory (observed_host p i)" "good_inventory (observed_architectures p i)"
    "good_inventory (observed_links p i)"
proof -
  have g: "good_inventory (j\<lparr>inv_devices := ds\<rparr>)" if "list_all2 same_placement (inv_devices i) ds" for j ds
    using same_placement_good [OF that, of i] assms by (simp add: good_inventory_def)
  show "good_inventory (observed_host p i)"
    using assms by (simp add: observed_host_def good_inventory_def)
  show "good_inventory (observed_architectures p i)"
    using assms g [OF architecture_lines_same] by (simp add: observed_architectures_def split: option.splits)
  have "list_all2 same_placement (inv_devices i) (map (probe_device (dp_sys_file p)) (inv_devices i))"
    by (simp add: list_all2_conv_all_nth probe_device_same)
  from g [OF this] show "good_inventory (observed_links p i)"
    by (simp add: observed_links_def)
qed

lemma detect_good: "detect p = Ok i \<Longrightarrow> good_inventory i"
proof -
  assume ok: "detect p = Ok i"
  have "good_inventory (empty_inventory\<lparr>inv_host_available_bytes := h, inv_warnings := w\<rparr>)" for h w
    by (simp add: empty_inventory_def good_inventory_def visible_indices_distinct_def)
  with ok show ?thesis
    by (auto simp: detect_def res_bind_Ok split: option.splits
      dest!: from_csv_good apply_visibility_good [rotated] intro!: observed_good)
qed

end
