(* ===== verification/Capabilities.thy ===== *)
theory Capabilities
  imports Werk_Prelude
begin

text \<open>
  The vocabulary of inference (\<open>src/src/capabilities.rs\<close> and its modules): the tasks,
  modalities, component kinds and repository layouts, their names, the tolerant reader that the
  \<open>string_enum\<close> macro generates, and what each task consumes and produces.
\<close>

section \<open>Modalities and layouts\<close>

datatype input_modality = InText | InImage | InVideo | InAudio

datatype output_modality = OutText | OutImage | OutVideo | OutAudio | OutEmbedding

datatype repository_layout =
    SingleFile
  | LayoutGguf
  | Transformers
  | Diffusers
  | LayoutMlx
  | OnnxBundle
  | TensorRtEngine
  | Custom

definition ALL_LAYOUTS :: "repository_layout list" where
  "ALL_LAYOUTS =
    [SingleFile, LayoutGguf, Transformers, Diffusers, LayoutMlx, OnnxBundle, TensorRtEngine, Custom]"

fun layout_name :: "repository_layout \<Rightarrow> rstr" where
  "layout_name SingleFile = lit ''single-file''"
| "layout_name LayoutGguf = lit ''gguf''"
| "layout_name Transformers = lit ''transformers''"
| "layout_name Diffusers = lit ''diffusers''"
| "layout_name LayoutMlx = lit ''mlx''"
| "layout_name OnnxBundle = lit ''onnx-bundle''"
| "layout_name TensorRtEngine = lit ''tensorrt-engine''"
| "layout_name Custom = lit ''custom''"

definition ALL_INPUT_MODALITIES :: "input_modality list" where
  "ALL_INPUT_MODALITIES = [InText, InImage, InVideo, InAudio]"

fun input_modality_name :: "input_modality \<Rightarrow> rstr" where
  "input_modality_name InText = lit ''text''"
| "input_modality_name InImage = lit ''image''"
| "input_modality_name InVideo = lit ''video''"
| "input_modality_name InAudio = lit ''audio''"

definition ALL_OUTPUT_MODALITIES :: "output_modality list" where
  "ALL_OUTPUT_MODALITIES = [OutText, OutImage, OutVideo, OutAudio, OutEmbedding]"

fun output_modality_name :: "output_modality \<Rightarrow> rstr" where
  "output_modality_name OutText = lit ''text''"
| "output_modality_name OutImage = lit ''image''"
| "output_modality_name OutVideo = lit ''video''"
| "output_modality_name OutAudio = lit ''audio''"
| "output_modality_name OutEmbedding = lit ''embedding''"

section \<open>Components\<close>

datatype component_kind =
    KindMainModel
  | KindTransformer
  | KindUnet
  | KindVae
  | KindTextEncoder
  | KindTextEncoder2
  | KindTokenizer
  | KindTokenizer2
  | KindScheduler
  | KindEncoder
  | KindDecoder
  | KindVocoder
  | KindFeatureExtractor
  | KindControlNet
  | KindAdapter

definition ALL_KINDS :: "component_kind list" where
  "ALL_KINDS =
    [KindMainModel, KindTransformer, KindUnet, KindVae, KindTextEncoder,
     KindTextEncoder2, KindTokenizer, KindTokenizer2, KindScheduler, KindEncoder,
     KindDecoder, KindVocoder, KindFeatureExtractor, KindControlNet, KindAdapter]"

fun kind_name :: "component_kind \<Rightarrow> rstr" where
  "kind_name KindMainModel = lit ''main-model''"
| "kind_name KindTransformer = lit ''transformer''"
| "kind_name KindUnet = lit ''unet''"
| "kind_name KindVae = lit ''vae''"
| "kind_name KindTextEncoder = lit ''text-encoder''"
| "kind_name KindTextEncoder2 = lit ''text-encoder-2''"
| "kind_name KindTokenizer = lit ''tokenizer''"
| "kind_name KindTokenizer2 = lit ''tokenizer-2''"
| "kind_name KindScheduler = lit ''scheduler''"
| "kind_name KindEncoder = lit ''encoder''"
| "kind_name KindDecoder = lit ''decoder''"
| "kind_name KindVocoder = lit ''vocoder''"
| "kind_name KindFeatureExtractor = lit ''feature-extractor''"
| "kind_name KindControlNet = lit ''controlnet''"
| "kind_name KindAdapter = lit ''adapter''"

record model_component =
  mc_kind :: component_kind
  mc_path :: rstr
  mc_format :: "rstr option"
  mc_precision :: "rstr option"
  mc_quantization :: "rstr option"
  mc_files :: "rstr list"

definition component_new :: "component_kind \<Rightarrow> rstr \<Rightarrow> model_component" where
  "component_new kind path =
     \<lparr>mc_kind = kind, mc_path = path, mc_format = None, mc_precision = None, mc_quantization = None,
      mc_files = []\<rparr>"

section \<open>Tasks\<close>

datatype inference_task =
    TextGeneration
  | TextEmbedding
  | TextReranking
  | TextClassification
  | ImageUnderstanding
  | ImageGeneration
  | ImageEditing
  | ImageVariation
  | ImageInpainting
  | ImageOutpainting
  | ImageUpscaling
  | VideoGeneration
  | ImageToVideo
  | VideoToVideo
  | VideoInpainting
  | VideoExtension
  | VideoUpscaling
  | FrameInterpolation
  | AudioGeneration
  | MusicGeneration
  | SongContinuation
  | SongVariation
  | TextToSpeech
  | SpeechToText
  | SpeechTranslation
  | AudioEventDetection
  | VoiceActivityDetection
  | SpeakerIdentification
  | LanguageIdentification
  | SpeechEmotionRecognition
  | AudioCaptioning
  | SpeakerDiarization
  | AudioClassification
  | AudioUnderstanding
  | AudioEmbedding
  | VoiceConversion
  | StemGeneration
  | StemSeparation
  | AudioEnhancement
  | AudioEditing

definition ALL_TASKS :: "inference_task list" where
  "ALL_TASKS =
    [TextGeneration, TextEmbedding, TextReranking, TextClassification,
     ImageUnderstanding, ImageGeneration, ImageEditing, ImageVariation,
     ImageInpainting, ImageOutpainting, ImageUpscaling, VideoGeneration,
     ImageToVideo, VideoToVideo, VideoInpainting, VideoExtension,
     VideoUpscaling, FrameInterpolation, AudioGeneration, MusicGeneration,
     SongContinuation, SongVariation, TextToSpeech, SpeechToText,
     SpeechTranslation, AudioEventDetection, VoiceActivityDetection, SpeakerIdentification,
     LanguageIdentification, SpeechEmotionRecognition, AudioCaptioning, SpeakerDiarization,
     AudioClassification, AudioUnderstanding, AudioEmbedding, VoiceConversion,
     StemGeneration, StemSeparation, AudioEnhancement, AudioEditing]"

fun task_name :: "inference_task \<Rightarrow> rstr" where
  "task_name TextGeneration = lit ''text-generation''"
| "task_name TextEmbedding = lit ''text-embedding''"
| "task_name TextReranking = lit ''text-reranking''"
| "task_name TextClassification = lit ''text-classification''"
| "task_name ImageUnderstanding = lit ''image-understanding''"
| "task_name ImageGeneration = lit ''image-generation''"
| "task_name ImageEditing = lit ''image-editing''"
| "task_name ImageVariation = lit ''image-variation''"
| "task_name ImageInpainting = lit ''image-inpainting''"
| "task_name ImageOutpainting = lit ''image-outpainting''"
| "task_name ImageUpscaling = lit ''image-upscaling''"
| "task_name VideoGeneration = lit ''video-generation''"
| "task_name ImageToVideo = lit ''image-to-video''"
| "task_name VideoToVideo = lit ''video-to-video''"
| "task_name VideoInpainting = lit ''video-inpainting''"
| "task_name VideoExtension = lit ''video-extension''"
| "task_name VideoUpscaling = lit ''video-upscaling''"
| "task_name FrameInterpolation = lit ''frame-interpolation''"
| "task_name AudioGeneration = lit ''audio-generation''"
| "task_name MusicGeneration = lit ''music-generation''"
| "task_name SongContinuation = lit ''song-continuation''"
| "task_name SongVariation = lit ''song-variation''"
| "task_name TextToSpeech = lit ''text-to-speech''"
| "task_name SpeechToText = lit ''speech-to-text''"
| "task_name SpeechTranslation = lit ''speech-translation''"
| "task_name AudioEventDetection = lit ''audio-event-detection''"
| "task_name VoiceActivityDetection = lit ''voice-activity-detection''"
| "task_name SpeakerIdentification = lit ''speaker-identification''"
| "task_name LanguageIdentification = lit ''language-identification''"
| "task_name SpeechEmotionRecognition = lit ''speech-emotion-recognition''"
| "task_name AudioCaptioning = lit ''audio-captioning''"
| "task_name SpeakerDiarization = lit ''speaker-diarization''"
| "task_name AudioClassification = lit ''audio-classification''"
| "task_name AudioUnderstanding = lit ''audio-understanding''"
| "task_name AudioEmbedding = lit ''audio-embedding''"
| "task_name VoiceConversion = lit ''voice-conversion''"
| "task_name StemGeneration = lit ''stem-generation''"
| "task_name StemSeparation = lit ''stem-separation''"
| "task_name AudioEnhancement = lit ''audio-enhancement''"
| "task_name AudioEditing = lit ''audio-editing''"

fun task_output_modality :: "inference_task \<Rightarrow> output_modality" where
  "task_output_modality TextGeneration = OutText"
| "task_output_modality TextEmbedding = OutEmbedding"
| "task_output_modality TextReranking = OutText"
| "task_output_modality TextClassification = OutText"
| "task_output_modality ImageUnderstanding = OutText"
| "task_output_modality ImageGeneration = OutImage"
| "task_output_modality ImageEditing = OutImage"
| "task_output_modality ImageVariation = OutImage"
| "task_output_modality ImageInpainting = OutImage"
| "task_output_modality ImageOutpainting = OutImage"
| "task_output_modality ImageUpscaling = OutImage"
| "task_output_modality VideoGeneration = OutVideo"
| "task_output_modality ImageToVideo = OutVideo"
| "task_output_modality VideoToVideo = OutVideo"
| "task_output_modality VideoInpainting = OutVideo"
| "task_output_modality VideoExtension = OutVideo"
| "task_output_modality VideoUpscaling = OutVideo"
| "task_output_modality FrameInterpolation = OutVideo"
| "task_output_modality AudioGeneration = OutAudio"
| "task_output_modality MusicGeneration = OutAudio"
| "task_output_modality SongContinuation = OutAudio"
| "task_output_modality SongVariation = OutAudio"
| "task_output_modality TextToSpeech = OutAudio"
| "task_output_modality SpeechToText = OutText"
| "task_output_modality SpeechTranslation = OutText"
| "task_output_modality AudioEventDetection = OutText"
| "task_output_modality VoiceActivityDetection = OutText"
| "task_output_modality SpeakerIdentification = OutText"
| "task_output_modality LanguageIdentification = OutText"
| "task_output_modality SpeechEmotionRecognition = OutText"
| "task_output_modality AudioCaptioning = OutText"
| "task_output_modality SpeakerDiarization = OutText"
| "task_output_modality AudioClassification = OutText"
| "task_output_modality AudioUnderstanding = OutText"
| "task_output_modality AudioEmbedding = OutEmbedding"
| "task_output_modality VoiceConversion = OutAudio"
| "task_output_modality StemGeneration = OutAudio"
| "task_output_modality StemSeparation = OutAudio"
| "task_output_modality AudioEnhancement = OutAudio"
| "task_output_modality AudioEditing = OutAudio"

fun required_input_modalities :: "inference_task \<Rightarrow> input_modality list" where
  "required_input_modalities TextGeneration = [InText]"
| "required_input_modalities TextEmbedding = [InText]"
| "required_input_modalities TextReranking = [InText]"
| "required_input_modalities TextClassification = [InText]"
| "required_input_modalities ImageUnderstanding = [InImage]"
| "required_input_modalities ImageGeneration = [InText]"
| "required_input_modalities ImageEditing = [InImage]"
| "required_input_modalities ImageVariation = [InImage]"
| "required_input_modalities ImageInpainting = [InImage]"
| "required_input_modalities ImageOutpainting = [InImage]"
| "required_input_modalities ImageUpscaling = [InImage]"
| "required_input_modalities VideoGeneration = [InText]"
| "required_input_modalities ImageToVideo = [InImage]"
| "required_input_modalities VideoToVideo = [InVideo]"
| "required_input_modalities VideoInpainting = [InVideo]"
| "required_input_modalities VideoExtension = [InVideo]"
| "required_input_modalities VideoUpscaling = [InVideo]"
| "required_input_modalities FrameInterpolation = [InVideo]"
| "required_input_modalities AudioGeneration = [InText]"
| "required_input_modalities MusicGeneration = [InText]"
| "required_input_modalities SongContinuation = [InAudio]"
| "required_input_modalities SongVariation = [InAudio]"
| "required_input_modalities TextToSpeech = [InText]"
| "required_input_modalities SpeechToText = [InAudio]"
| "required_input_modalities SpeechTranslation = [InAudio]"
| "required_input_modalities AudioEventDetection = [InAudio]"
| "required_input_modalities VoiceActivityDetection = [InAudio]"
| "required_input_modalities SpeakerIdentification = [InAudio]"
| "required_input_modalities LanguageIdentification = [InAudio]"
| "required_input_modalities SpeechEmotionRecognition = [InAudio]"
| "required_input_modalities AudioCaptioning = [InAudio]"
| "required_input_modalities SpeakerDiarization = [InAudio]"
| "required_input_modalities AudioClassification = [InAudio]"
| "required_input_modalities AudioUnderstanding = [InAudio]"
| "required_input_modalities AudioEmbedding = [InAudio]"
| "required_input_modalities VoiceConversion = [InAudio]"
| "required_input_modalities StemGeneration = [InAudio]"
| "required_input_modalities StemSeparation = [InAudio]"
| "required_input_modalities AudioEnhancement = [InAudio]"
| "required_input_modalities AudioEditing = [InAudio]"

definition accepts_prompt :: "inference_task \<Rightarrow> bool" where
  "accepts_prompt t \<longleftrightarrow> t \<notin> set
    [SpeechToText, SpeechTranslation, AudioEventDetection,
     VoiceActivityDetection, SpeakerIdentification, LanguageIdentification,
     SpeechEmotionRecognition, SpeakerDiarization, AudioClassification,
     AudioEmbedding, AudioEnhancement]"

definition accepts_negative_prompt :: "inference_task \<Rightarrow> bool" where
  "accepts_negative_prompt t \<longleftrightarrow> t \<notin> set
    [TextToSpeech, SpeechToText, SpeechTranslation,
     AudioEventDetection, VoiceActivityDetection, SpeakerIdentification,
     LanguageIdentification, SpeechEmotionRecognition, AudioCaptioning,
     SpeakerDiarization, AudioClassification, AudioUnderstanding,
     AudioEmbedding, VoiceConversion, StemSeparation,
     AudioEnhancement, AudioEditing]"

definition requires_prompt :: "inference_task \<Rightarrow> bool" where
  "requires_prompt t \<longleftrightarrow> t \<in> set
    [TextGeneration, TextEmbedding, ImageUnderstanding,
     ImageGeneration, ImageEditing, ImageInpainting,
     ImageOutpainting, VideoGeneration, ImageToVideo,
     VideoToVideo, VideoInpainting, VideoExtension,
     AudioGeneration, MusicGeneration, TextToSpeech,
     AudioUnderstanding, AudioEditing]"

fun parameter_namespace :: "inference_task \<Rightarrow> rstr" where
  "parameter_namespace TextGeneration = lit ''text''"
| "parameter_namespace TextEmbedding = lit ''text''"
| "parameter_namespace TextReranking = lit ''text''"
| "parameter_namespace TextClassification = lit ''text''"
| "parameter_namespace ImageUnderstanding = lit ''text''"
| "parameter_namespace ImageGeneration = lit ''image''"
| "parameter_namespace ImageEditing = lit ''image''"
| "parameter_namespace ImageVariation = lit ''image''"
| "parameter_namespace ImageInpainting = lit ''image''"
| "parameter_namespace ImageOutpainting = lit ''image''"
| "parameter_namespace ImageUpscaling = lit ''image''"
| "parameter_namespace VideoGeneration = lit ''video''"
| "parameter_namespace ImageToVideo = lit ''video''"
| "parameter_namespace VideoToVideo = lit ''video''"
| "parameter_namespace VideoInpainting = lit ''video''"
| "parameter_namespace VideoExtension = lit ''video''"
| "parameter_namespace VideoUpscaling = lit ''video''"
| "parameter_namespace FrameInterpolation = lit ''video''"
| "parameter_namespace AudioGeneration = lit ''audio''"
| "parameter_namespace MusicGeneration = lit ''audio''"
| "parameter_namespace SongContinuation = lit ''audio''"
| "parameter_namespace SongVariation = lit ''audio''"
| "parameter_namespace TextToSpeech = lit ''tts''"
| "parameter_namespace SpeechToText = lit ''stt''"
| "parameter_namespace SpeechTranslation = lit ''stt''"
| "parameter_namespace AudioEventDetection = lit ''audio''"
| "parameter_namespace VoiceActivityDetection = lit ''audio''"
| "parameter_namespace SpeakerIdentification = lit ''audio''"
| "parameter_namespace LanguageIdentification = lit ''audio''"
| "parameter_namespace SpeechEmotionRecognition = lit ''audio''"
| "parameter_namespace AudioCaptioning = lit ''audio''"
| "parameter_namespace SpeakerDiarization = lit ''audio''"
| "parameter_namespace AudioClassification = lit ''audio''"
| "parameter_namespace AudioUnderstanding = lit ''audio''"
| "parameter_namespace AudioEmbedding = lit ''audio''"
| "parameter_namespace VoiceConversion = lit ''audio''"
| "parameter_namespace StemGeneration = lit ''audio''"
| "parameter_namespace StemSeparation = lit ''audio''"
| "parameter_namespace AudioEnhancement = lit ''audio''"
| "parameter_namespace AudioEditing = lit ''audio''"

section \<open>Reading a name\<close>

text \<open>
  The \<open>FromStr\<close> of the macro: trim, lower the ASCII letters, read an underscore as a
  hyphen, and take the variant of that name. The error keeps the text as it was given.
\<close>

definition enum_normalize :: "rstr \<Rightarrow> rstr" where
  "enum_normalize s = replace_char 95 45 (to_ascii_lowercase (trim s))"

definition enum_from_str :: "'a list \<Rightarrow> ('a \<Rightarrow> rstr) \<Rightarrow> rstr \<Rightarrow> (rstr, 'a) res" where
  "enum_from_str variants name s =
     (case find (\<lambda>v. name v = enum_normalize s) variants of None \<Rightarrow> Err s | Some v \<Rightarrow> Ok v)"

definition task_from_str :: "rstr \<Rightarrow> (rstr, inference_task) res" where
  "task_from_str = enum_from_str ALL_TASKS task_name"

definition layout_from_str :: "rstr \<Rightarrow> (rstr, repository_layout) res" where
  "layout_from_str = enum_from_str ALL_LAYOUTS layout_name"

definition input_modality_from_str :: "rstr \<Rightarrow> (rstr, input_modality) res" where
  "input_modality_from_str = enum_from_str ALL_INPUT_MODALITIES input_modality_name"

definition output_modality_from_str :: "rstr \<Rightarrow> (rstr, output_modality) res" where
  "output_modality_from_str = enum_from_str ALL_OUTPUT_MODALITIES output_modality_name"

definition kind_from_str :: "rstr \<Rightarrow> (rstr, component_kind) res" where
  "kind_from_str = enum_from_str ALL_KINDS kind_name"

section \<open>The contract of a string enum\<close>

text \<open>
  What every use of the macro owes: the variant list is complete, names are pairwise
  different, and a name is already normal (no capital, underscore or blank at an end).
\<close>

definition normal_name :: "rstr \<Rightarrow> bool" where
  "normal_name s \<longleftrightarrow> s \<noteq> [] \<and> (\<forall>c \<in> set s. is_ascii_lower c \<or> is_ascii_digit c \<or> c = 45)"

lemma normal_name_fixed: "normal_name s \<Longrightarrow> enum_normalize s = s"
proof -
  assume n: "normal_name s"
  have "\<forall>c \<in> set s. \<not> is_whitespace c"
    using n by (auto simp: normal_name_def is_whitespace_def is_ascii_lower_def is_ascii_digit_def)
  then have t: "trim s = s" by (intro trim_id) auto
  have u: "to_ascii_lowercase s = s"
    by (rule to_ascii_lowercase_id)
      (use n in \<open>auto simp: normal_name_def is_ascii_lower_def is_ascii_digit_def is_ascii_upper_def\<close>)
  have "95 \<notin> set s"
    using n by (auto simp: normal_name_def is_ascii_lower_def is_ascii_digit_def)
  then show ?thesis by (simp add: enum_normalize_def t u replace_char_id)
qed

locale string_enum =
  fixes variants :: "'a list"
    and name :: "'a \<Rightarrow> rstr"
  assumes complete: "v \<in> set variants"
    and distinct_names: "distinct (map name variants)"
    and normal: "\<forall>v \<in> set variants. normal_name (name v)"
begin

lemma name_inj: "name v = name w \<Longrightarrow> v = w"
  using distinct_names complete by (metis distinct_map inj_onD)

lemma from_str_iff: "enum_from_str variants name s = Ok v \<longleftrightarrow> enum_normalize s = name v"
proof
  assume "enum_from_str variants name s = Ok v"
  then have "find (\<lambda>v. name v = enum_normalize s) variants = Some v"
    by (simp add: enum_from_str_def split: option.splits)
  then show "enum_normalize s = name v" by (auto simp: find_Some_iff)
next
  assume n: "enum_normalize s = name v"
  have e: "(\<lambda>w. name w = enum_normalize s) = (\<lambda>w. w = v)" using n name_inj by auto
  have "find (\<lambda>w. w = v) variants = Some v"
    using complete [of v] by (induction variants) auto
  then show "enum_from_str variants name s = Ok v" by (simp add: enum_from_str_def e)
qed

lemma from_str_name: "enum_from_str variants name (name v) = Ok v"
  using normal complete normal_name_fixed by (simp add: from_str_iff)

lemma from_str_total: "(\<exists>v. enum_from_str variants name s = Ok v) \<or> enum_from_str variants name s = Err s"
  by (auto simp: enum_from_str_def split: option.splits)

end

lemma all_tasks: "t \<in> set ALL_TASKS"
  by (cases t) (simp_all add: ALL_TASKS_def)

lemma all_layouts: "l \<in> set ALL_LAYOUTS"
  by (cases l) (simp_all add: ALL_LAYOUTS_def)

lemma task_names_distinct: "distinct (map task_name ALL_TASKS)"
  by code_simp

lemma task_names_normal: "\<forall>t \<in> set ALL_TASKS. normal_name (task_name t)"
  by code_simp

lemma layout_names_distinct: "distinct (map layout_name ALL_LAYOUTS)"
  by code_simp

lemma layout_names_normal: "\<forall>l \<in> set ALL_LAYOUTS. normal_name (layout_name l)"
  by code_simp

interpretation tasks: string_enum ALL_TASKS task_name
  using all_tasks task_names_distinct task_names_normal by unfold_locales auto

interpretation layouts: string_enum ALL_LAYOUTS layout_name
  using all_layouts layout_names_distinct layout_names_normal by unfold_locales auto

lemma all_kinds: "k \<in> set ALL_KINDS"
  by (cases k) (simp_all add: ALL_KINDS_def)

lemma all_modalities: "m \<in> set ALL_INPUT_MODALITIES" "n \<in> set ALL_OUTPUT_MODALITIES"
  by (cases m; simp add: ALL_INPUT_MODALITIES_def) (cases n; simp add: ALL_OUTPUT_MODALITIES_def)

lemma kind_names: "distinct (map kind_name ALL_KINDS)" "\<forall>k \<in> set ALL_KINDS. normal_name (kind_name k)"
  by code_simp+

lemma modality_names:
  "distinct (map input_modality_name ALL_INPUT_MODALITIES)"
  "\<forall>m \<in> set ALL_INPUT_MODALITIES. normal_name (input_modality_name m)"
  "distinct (map output_modality_name ALL_OUTPUT_MODALITIES)"
  "\<forall>m \<in> set ALL_OUTPUT_MODALITIES. normal_name (output_modality_name m)"
  by code_simp+

interpretation kinds: string_enum ALL_KINDS kind_name
  using all_kinds kind_names by unfold_locales auto

interpretation input_modalities: string_enum ALL_INPUT_MODALITIES input_modality_name
  using all_modalities modality_names by unfold_locales auto

interpretation output_modalities: string_enum ALL_OUTPUT_MODALITIES output_modality_name
  using all_modalities modality_names by unfold_locales auto

section \<open>Properties\<close>

text \<open>
  Task and layout names read back. Printing a task and reading the text gives the
  task; a text is read as a task exactly when trimming, lowering and reading underscores
  as hyphens gives that task's name, so no two tasks share a spelling; any other text is
  the error that quotes it. The same holds of repository layouts.
\<close>

theorem names_roundtrip:
  "task_from_str (task_name t) = Ok t
   \<and> (task_from_str s = Ok t \<longleftrightarrow> enum_normalize s = task_name t)
   \<and> ((\<exists>u. task_from_str s = Ok u) \<or> task_from_str s = Err s)
   \<and> layout_from_str (layout_name l) = Ok l
   \<and> (layout_from_str s = Ok l \<longleftrightarrow> enum_normalize s = layout_name l)
   \<and> ((\<exists>k. layout_from_str s = Ok k) \<or> layout_from_str s = Err s)"
  unfolding task_from_str_def layout_from_str_def
  using tasks.from_str_name tasks.from_str_iff tasks.from_str_total
    layouts.from_str_name layouts.from_str_iff layouts.from_str_total by blast

lemma component_and_modality_names_read_back:
  "kind_from_str (kind_name k) = Ok k"
  "input_modality_from_str (input_modality_name i) = Ok i"
  "output_modality_from_str (output_modality_name m) = Ok m"
  unfolding kind_from_str_def input_modality_from_str_def output_modality_from_str_def
  by (rule kinds.from_str_name, rule input_modalities.from_str_name, rule output_modalities.from_str_name)

lemma prompt_laws:
  "requires_prompt t \<longrightarrow> accepts_prompt t"
  "accepts_negative_prompt t \<longrightarrow> accepts_prompt t"
  by (cases t; simp add: requires_prompt_def accepts_prompt_def accepts_negative_prompt_def)+

end
