(* ===== verification/Float64.thy ===== *)
theory Float64
  imports Werk_Prelude "HOL-Library.Word"
begin

text \<open>
  The \<open>f64\<close> operations that the program uses, on the 64 bits of IEEE 754 binary64: a sign
  and a magnitude that orders like the value, comparisons (not-a-number compares with
  nothing), the total order of \<open>total_cmp\<close>, and correctly rounded arithmetic (to nearest,
  ties to even) on exact fractions of natural numbers.
\<close>

section \<open>Representation and order\<close>

type_synonym f64 = "64 word"

definition f64_magnitude :: "f64 \<Rightarrow> nat" where
  "f64_magnitude w = unat w mod 9223372036854775808"

definition f64_negative :: "f64 \<Rightarrow> bool" where
  "f64_negative w \<longleftrightarrow> 9223372036854775808 \<le> unat w"

definition F64_INFINITY :: nat where "F64_INFINITY = 9218868437227405312"

definition f64_nan :: "f64 \<Rightarrow> bool" where
  "f64_nan w \<longleftrightarrow> f64_magnitude w > F64_INFINITY"

definition f64_is_finite :: "f64 \<Rightarrow> bool" where
  "f64_is_finite w \<longleftrightarrow> f64_magnitude w < F64_INFINITY"

definition f64_key :: "f64 \<Rightarrow> int" where
  "f64_key w = (if f64_negative w then - int (f64_magnitude w) else int (f64_magnitude w))"

definition f64_lt :: "f64 \<Rightarrow> f64 \<Rightarrow> bool" where
  "f64_lt a b \<longleftrightarrow> \<not> f64_nan a \<and> \<not> f64_nan b \<and> f64_key a < f64_key b"

definition f64_le :: "f64 \<Rightarrow> f64 \<Rightarrow> bool" where
  "f64_le a b \<longleftrightarrow> \<not> f64_nan a \<and> \<not> f64_nan b \<and> f64_key a \<le> f64_key b"

definition f64_eq :: "f64 \<Rightarrow> f64 \<Rightarrow> bool" where
  "f64_eq a b \<longleftrightarrow> \<not> f64_nan a \<and> \<not> f64_nan b \<and> f64_key a = f64_key b"

text \<open>The key of \<open>total_cmp\<close>: as \<open>f64_key\<close>, but every negative pattern is below every other.\<close>

definition f64_total_key :: "f64 \<Rightarrow> int" where
  "f64_total_key w = (if f64_negative w then - int (f64_magnitude w) - 1 else int (f64_magnitude w))"

definition f64_min :: "f64 \<Rightarrow> f64 \<Rightarrow> f64" where
  "f64_min a b = (if f64_nan a then b else if f64_nan b then a else if f64_lt b a then b else a)"

definition f64_clamp :: "f64 \<Rightarrow> f64 \<Rightarrow> f64 \<Rightarrow> f64" where
  "f64_clamp x lo hi = (if f64_lt x lo then lo else if f64_lt hi x then hi else x)"

section \<open>Rounding\<close>

fun bit_len :: "nat \<Rightarrow> nat" where
  "bit_len 0 = 0"
| "bit_len (Suc n) = Suc (bit_len (Suc n div 2))"

declare bit_len.simps [simp del]

lemma bit_len_rec: "bit_len n = (if n = 0 then 0 else Suc (bit_len (n div 2)))"
  by (cases n) (simp_all add: bit_len.simps)

definition div_ties_even :: "nat \<Rightarrow> nat \<Rightarrow> nat" where
  "div_ties_even n d =
     (let q = n div d; r = n mod d in if d < 2 * r \<or> (2 * r = d \<and> odd q) then q + 1 else q)"

text \<open>
  The magnitude nearest to a positive fraction: \<open>l\<close> is the weight of the last place, at
  least that of the subnormal numbers; a mantissa of 53 bits carries into the exponent, and
  what exceeds the largest finite number is infinite.
\<close>

definition f64_bits :: "nat \<Rightarrow> nat \<Rightarrow> nat" where
  "f64_bits n d =
     (let k = int (bit_len n) - int (bit_len d);
          below = (if 0 \<le> k then n < d * 2 ^ nat k else n * 2 ^ nat (- k) < d);
          l = max ((if below then k - 1 else k) - 52) (- 1074);
          m = (if 0 \<le> l then div_ties_even n (d * 2 ^ nat l) else div_ties_even (n * 2 ^ nat (- l)) d)
      in nat (l + 1074) * 2 ^ 52 + m)"

definition f64_round :: "nat \<Rightarrow> nat \<Rightarrow> nat" where
  "f64_round n d = (if n = 0 then 0 else min (f64_bits n d) F64_INFINITY)"

definition f64_make :: "bool \<Rightarrow> nat \<Rightarrow> f64" where
  "f64_make negative magnitude = of_nat ((if negative then 9223372036854775808 else 0) + magnitude)"

definition f64_ratio :: "nat \<Rightarrow> nat \<Rightarrow> f64" where
  "f64_ratio n d = f64_make False (f64_round n d)"

definition f64_of_int :: "int \<Rightarrow> f64" where
  "f64_of_int i = f64_make (i < 0) (f64_round (nat \<bar>i\<bar>) 1)"

definition f64_of_nat :: "nat \<Rightarrow> f64" where
  "f64_of_nat n = f64_ratio n 1"

section \<open>Arithmetic\<close>

text \<open>A finite number is \<open>mantissa * 2 ^ exponent\<close>.\<close>

definition f64_mantissa :: "f64 \<Rightarrow> nat" where
  "f64_mantissa w = (let m = f64_magnitude w in
     if m < 2 ^ 52 then m else 2 ^ 52 + m mod 2 ^ 52)"

definition f64_exponent :: "f64 \<Rightarrow> int" where
  "f64_exponent w = (let m = f64_magnitude w in
     if m < 2 ^ 52 then - 1074 else int (m div 2 ^ 52) - 1075)"

definition f64_scale :: "bool \<Rightarrow> nat \<Rightarrow> nat \<Rightarrow> int \<Rightarrow> f64" where
  "f64_scale negative n d e =
     f64_make negative (if 0 \<le> e then f64_round (n * 2 ^ nat e) d else f64_round n (d * 2 ^ nat (- e)))"

definition F64_NAN :: f64 where "F64_NAN = f64_make False (F64_INFINITY + 2 ^ 51)"

definition f64_neg :: "f64 \<Rightarrow> f64" where
  "f64_neg w = f64_make (\<not> f64_negative w) (f64_magnitude w)"

definition f64_signed :: "f64 \<Rightarrow> int \<Rightarrow> int" where
  "f64_signed w e = (if f64_negative w then - 1 else 1)
     * int (f64_mantissa w * 2 ^ nat (f64_exponent w - e))"

definition f64_add :: "f64 \<Rightarrow> f64 \<Rightarrow> f64" where
  "f64_add a b =
     (if f64_nan a \<or> f64_nan b then F64_NAN
      else if \<not> f64_is_finite a
      then (if \<not> f64_is_finite b \<and> f64_negative a \<noteq> f64_negative b then F64_NAN else a)
      else if \<not> f64_is_finite b then b
      else (let e = min (f64_exponent a) (f64_exponent b);
                s = f64_signed a e + f64_signed b e
            in if s = 0 then f64_make (f64_negative a \<and> f64_negative b) 0
               else f64_scale (s < 0) (nat \<bar>s\<bar>) 1 e))"

definition f64_mul :: "f64 \<Rightarrow> f64 \<Rightarrow> f64" where
  "f64_mul a b =
     (let negative = (f64_negative a \<noteq> f64_negative b)
      in if f64_nan a \<or> f64_nan b then F64_NAN
         else if \<not> f64_is_finite a \<or> \<not> f64_is_finite b
         then (if f64_magnitude a = 0 \<or> f64_magnitude b = 0 then F64_NAN else f64_make negative F64_INFINITY)
         else f64_scale negative (f64_mantissa a * f64_mantissa b) 1 (f64_exponent a + f64_exponent b))"

definition f64_div :: "f64 \<Rightarrow> f64 \<Rightarrow> f64" where
  "f64_div a b =
     (let negative = (f64_negative a \<noteq> f64_negative b)
      in if f64_nan a \<or> f64_nan b then F64_NAN
         else if \<not> f64_is_finite a
         then (if f64_is_finite b then f64_make negative F64_INFINITY else F64_NAN)
         else if \<not> f64_is_finite b then f64_make negative 0
         else if f64_magnitude b = 0
         then (if f64_magnitude a = 0 then F64_NAN else f64_make negative F64_INFINITY)
         else f64_scale negative (f64_mantissa a) (f64_mantissa b) (f64_exponent a - f64_exponent b))"

section \<open>Facts\<close>

lemma f64_round_le: "f64_round n d \<le> F64_INFINITY"
  by (simp add: f64_round_def)

lemma f64_make_parts:
  assumes "m < 9223372036854775808"
  shows "f64_magnitude (f64_make s m) = m" "f64_negative (f64_make s m) = s"
proof -
  have "unat (f64_make s m) = (if s then 9223372036854775808 else 0) + m"
    by (rule of_nat_inverse) (use assms in \<open>simp_all only: f64_make_def, auto\<close>)
  with assms show "f64_magnitude (f64_make s m) = m" "f64_negative (f64_make s m) = s"
    by (simp_all add: f64_magnitude_def f64_negative_def)
qed

lemma f64_round_parts [simp]:
  "f64_magnitude (f64_make s (f64_round n d)) = f64_round n d"
  "f64_negative (f64_make s (f64_round n d)) = s"
  "\<not> f64_nan (f64_make s (f64_round n d))"
proof -
  have "f64_round n d < 9223372036854775808"
    using f64_round_le [of n d] by (simp add: F64_INFINITY_def)
  then show "f64_magnitude (f64_make s (f64_round n d)) = f64_round n d"
    "f64_negative (f64_make s (f64_round n d)) = s"
    "\<not> f64_nan (f64_make s (f64_round n d))"
    using f64_round_le [of n d] by (simp_all add: f64_make_parts f64_nan_def)
qed

lemma f64_scale_parts [simp]: "f64_negative (f64_scale s n d e) = s" "\<not> f64_nan (f64_scale s n d e)"
  by (simp_all add: f64_scale_def)

lemmas f64_eval = f64_of_int_def f64_of_nat_def f64_ratio_def f64_round_def f64_bits_def bit_len_rec div_ties_even_def
  F64_INFINITY_def f64_make_parts f64_is_finite_def f64_nan_def f64_key_def Let_def

lemma f64_zero_parts [simp]: "f64_magnitude 0 = 0" "\<not> f64_negative 0"
  by (simp_all add: f64_magnitude_def f64_negative_def)

text \<open>Not-a-number aside, the order of the keys is the order of the numbers.\<close>

lemma f64_not_lt: "\<not> f64_nan a \<Longrightarrow> \<not> f64_nan b \<Longrightarrow> \<not> f64_lt a b \<longleftrightarrow> f64_le b a"
  by (auto simp: f64_lt_def f64_le_def)

lemma f64_finite_nan: "f64_is_finite a \<Longrightarrow> \<not> f64_nan a"
  by (simp add: f64_is_finite_def f64_nan_def)

lemma f64_key_nonneg: "\<not> f64_negative a \<Longrightarrow> f64_key a \<ge> 0"
  by (simp add: f64_key_def)

lemma f64_finite_key: "f64_is_finite a \<longleftrightarrow> \<bar>f64_key a\<bar> < int F64_INFINITY"
  by (simp add: f64_is_finite_def f64_key_def)

lemma f64_nan_key: "f64_nan a \<longleftrightarrow> int F64_INFINITY < \<bar>f64_key a\<bar>"
  by (simp add: f64_nan_def f64_key_def)

lemma f64_clamp_range:
  assumes "\<not> f64_nan x" "f64_le lo hi"
  shows "f64_le lo (f64_clamp x lo hi)" "f64_le (f64_clamp x lo hi) hi"
  using assms by (auto simp: f64_clamp_def f64_lt_def f64_le_def)

text \<open>A number with sign plus or zero: the sum of two such is one again.\<close>

lemma f64_signed_zero: "f64_key a = 0 \<Longrightarrow> f64_signed a e = 0"
  by (simp add: f64_key_def f64_signed_def f64_mantissa_def split: if_splits)

lemma f64_signed_nonneg: "0 \<le> f64_key a \<Longrightarrow> 0 \<le> f64_signed a e"
proof (cases "f64_key a = 0")
  case False
  assume "0 \<le> f64_key a"
  with False show ?thesis by (simp add: f64_key_def f64_signed_def split: if_splits)
qed (simp add: f64_signed_zero)

lemma f64_add_nonneg:
  assumes "f64_is_finite a" "f64_is_finite b" "0 \<le> f64_key a" "0 \<le> f64_key b"
  shows "\<not> f64_nan (f64_add a b) \<and> 0 \<le> f64_key (f64_add a b)"
proof -
  let ?e = "min (f64_exponent a) (f64_exponent b)"
  have s: "0 \<le> f64_signed a ?e" "0 \<le> f64_signed b ?e" using assms(3,4) f64_signed_nonneg by auto
  show ?thesis
  proof (cases "f64_signed a ?e + f64_signed b ?e = 0")
    case True
    have "f64_key (f64_make c 0) = 0" "\<not> f64_nan (f64_make c 0)" for c
      by (simp_all add: f64_key_def f64_make_parts f64_nan_def)
    with True assms(1,2) show ?thesis by (simp add: f64_add_def f64_finite_nan Let_def)
  next
    case False
    with s assms(1,2) show ?thesis
      by (simp add: f64_add_def f64_finite_nan Let_def f64_key_nonneg)
  qed
qed

lemma f64_min_range:
  assumes "\<not> f64_nan a" "0 \<le> f64_key a" "f64_is_finite b" "0 \<le> f64_key b"
  shows "f64_is_finite (f64_min a b) \<and> 0 \<le> f64_key (f64_min a b) \<and> f64_le (f64_min a b) b"
  using assms by (auto simp: f64_min_def f64_lt_def f64_le_def f64_finite_nan f64_finite_key)

end
