(* ===== verification/Inference_Types.thy ===== *)
theory Inference_Types
  imports Capabilities BTree_Map Float64 "HOL-Library.List_Lexorder"
begin

text \<open>
  The data of inference requests (\<open>src/src/inference/types.rs\<close>): parameter values and
  where they came from, tri-state and list overrides, the parameter policy, a client's
  request, and the effective request that resolution hands to the planner, with its typed
  accessors. A \<open>BTreeMap<String, _>\<close> is an ordered association list and a
  \<open>BTreeSet<String>\<close> its ordered list of elements. An \<open>f64\<close> is that of \<open>Float64\<close>.
\<close>

section \<open>Parameter values\<close>

datatype parameter_value =
    PNull
  | PBoolean bool
  | PInteger int
  | PNumber f64
  | PString rstr
  | PList "parameter_value list"
  | PObject "(rstr \<times> parameter_value) list"

definition i64_max :: int where "i64_max = 9223372036854775807"

fun as_bool :: "parameter_value \<Rightarrow> bool option" where
  "as_bool (PBoolean b) = Some b"
| "as_bool _ = None"

fun as_i64 :: "parameter_value \<Rightarrow> int option" where
  "as_i64 (PInteger i) = Some i"
| "as_i64 _ = None"

definition as_u64 :: "parameter_value \<Rightarrow> nat option" where
  "as_u64 v = (case as_i64 v of None \<Rightarrow> None | Some i \<Rightarrow> if 0 \<le> i then Some (nat i) else None)"

fun as_f64 :: "parameter_value \<Rightarrow> f64 option" where
  "as_f64 (PInteger i) = Some (f64_of_int i)"
| "as_f64 (PNumber x) = Some x"
| "as_f64 _ = None"

fun as_str :: "parameter_value \<Rightarrow> rstr option" where
  "as_str (PString s) = Some s"
| "as_str _ = None"

definition value_of_u64 :: "nat \<Rightarrow> parameter_value" where
  "value_of_u64 n = PInteger (if int n \<le> i64_max then int n else i64_max)"

fun list_parameter :: "parameter_value option \<Rightarrow> parameter_value list option" where
  "list_parameter (Some (PList vs)) = Some vs"
| "list_parameter _ = None"

lemma as_u64_of_u64: "int n \<le> i64_max \<Longrightarrow> as_u64 (value_of_u64 n) = Some n"
  by (simp add: as_u64_def value_of_u64_def)

lemma as_u64_saturates: "as_u64 (value_of_u64 n) = Some (min n (nat i64_max))"
  by (auto simp: as_u64_def value_of_u64_def i64_max_def min_def)

section \<open>Overrides\<close>

datatype override_bool = BoolInherit | Enabled | Disabled

fun override_bool_resolve :: "override_bool \<Rightarrow> bool \<Rightarrow> bool" where
  "override_bool_resolve BoolInherit inherited = inherited"
| "override_bool_resolve Enabled inherited = True"
| "override_bool_resolve Disabled inherited = False"

fun override_bool_explicit :: "override_bool \<Rightarrow> bool option" where
  "override_bool_explicit BoolInherit = None"
| "override_bool_explicit Enabled = Some True"
| "override_bool_explicit Disabled = Some False"

datatype 'a list_override = ListInherit | Replace "'a list" | Add "'a list" | Clear

fun list_override_resolve :: "'a list_override \<Rightarrow> 'a list \<Rightarrow> 'a list" where
  "list_override_resolve ListInherit inherited = inherited"
| "list_override_resolve (Replace values) inherited = values"
| "list_override_resolve (Add values) inherited = inherited @ values"
| "list_override_resolve Clear inherited = []"

lemma override_bool_resolve_explicit:
  "override_bool_resolve b inherited =
     (case override_bool_explicit b of None \<Rightarrow> inherited | Some v \<Rightarrow> v)"
  by (cases b) auto

section \<open>Sources, policies and support\<close>

datatype parameter_type = TBoolean | TInteger | TNumber | TString | TPath | TEnumeration | TList | TObject

record parameter_descriptor =
  pd_path :: rstr
  pd_cli_flag :: rstr
  pd_value_type :: parameter_type
  pd_label :: rstr
  pd_description :: rstr
  pd_category :: rstr
  pd_default :: "parameter_value option"
  pd_minimum :: "parameter_value option"
  pd_maximum :: "parameter_value option"
  pd_step :: "parameter_value option"
  pd_allowed_values :: "parameter_value list"
  pd_repeatable :: bool
  pd_list_override_operations :: "rstr list"
  pd_advanced :: bool
  pd_affects_memory :: bool
  pd_affects_quality :: bool
  pd_affects_runtime :: bool

datatype parameter_source =
    SystemDefault
  | TaskDefault
  | ModelFamilyDefault
  | ModelDefault
  | RuntimeDefault
  | HardwareProfile
  | UserProfile
  | RequestOverride
  | BackendAdjustment

record resolved_parameter =
  rp_value :: parameter_value
  rp_source :: parameter_source

datatype parameter_policy = Strict | Warn | Permissive

fun policy_name :: "parameter_policy \<Rightarrow> rstr" where
  "policy_name Strict = lit ''strict''"
| "policy_name Warn = lit ''warn''"
| "policy_name Permissive = lit ''permissive''"

definition policy_from_str :: "rstr \<Rightarrow> (rstr, parameter_policy) res" where
  "policy_from_str s = (let n = to_ascii_lowercase (trim s) in
     if n = lit ''strict'' then Ok Strict
     else if n = lit ''warn'' then Ok Warn
     else if n = lit ''permissive'' then Ok Permissive
     else Err s)"

lemma policy_roundtrip: "policy_from_str (policy_name p) = Ok p"
  by (cases p) (simp_all add: policy_from_str_def lit_def to_ascii_lowercase_def ascii_lower_def
    is_ascii_upper_def trim_def trim_start_def trim_end_def is_whitespace_def)

datatype parameter_support_status =
    Native
  | Translated
  | Emulated
  | Ignored
  | Unsupported
  | ModelDependent

text \<open>The warnings of resolution; the code renders each as a sentence with these values.\<close>

datatype resolve_warning =
    ExceedsMaximum rstr f64
  | RefusedByBackend rstr parameter_support_status

section \<open>Requests\<close>

datatype input_source = SourcePath rstr | SourceUrl rstr | SourceBase64 rstr | SourceText rstr

record inference_input =
  in_modality :: input_modality
  in_role :: rstr
  in_source :: input_source
  in_mime_type :: "rstr option"

record routing_overrides =
  ro_backend :: "rstr option"
  ro_accelerator :: "rstr option"
  ro_device :: "rstr option"
  ro_precision :: "rstr option"
  ro_quantization :: "rstr option"
  ro_profile :: "rstr option"
  ro_quality :: "rstr option"
  ro_performance_preference :: "rstr option"
  ro_fallback_policy :: "rstr option"
  ro_parameter_policy :: parameter_policy
  ro_allow_cpu_offload :: override_bool
  ro_allow_sequential_offload :: override_bool
  ro_allow_component_offload :: override_bool
  ro_allow_disk_offload :: override_bool
  ro_attention_backend :: "rstr option"
  ro_compile :: override_bool
  ro_timeout_seconds :: "nat option"

definition no_routing_overrides :: routing_overrides where
  "no_routing_overrides =
     \<lparr>ro_backend = None, ro_accelerator = None, ro_device = None, ro_precision = None,
      ro_quantization = None, ro_profile = None, ro_quality = None,
      ro_performance_preference = None, ro_fallback_policy = None, ro_parameter_policy = Strict,
      ro_allow_cpu_offload = BoolInherit, ro_allow_sequential_offload = BoolInherit,
      ro_allow_component_offload = BoolInherit, ro_allow_disk_offload = BoolInherit,
      ro_attention_backend = None, ro_compile = BoolInherit, ro_timeout_seconds = None\<rparr>"

record inference_request =
  iq_model :: rstr
  iq_task :: inference_task
  iq_prompt :: "rstr option"
  iq_negative_prompt :: "rstr option"
  iq_inputs :: "inference_input list"
  iq_parameters :: "(rstr, parameter_value) btree"
  iq_routing :: routing_overrides

definition inference_request_new :: "rstr \<Rightarrow> inference_task \<Rightarrow> inference_request" where
  "inference_request_new model task =
     \<lparr>iq_model = model, iq_task = task, iq_prompt = None, iq_negative_prompt = None, iq_inputs = [],
      iq_parameters = [], iq_routing = no_routing_overrides\<rparr>"

record effective_request =
  er_model :: rstr
  er_task :: inference_task
  er_prompt :: "rstr option"
  er_negative_prompt :: "rstr option"
  er_inputs :: "inference_input list"
  er_output_modality :: output_modality
  er_parameters :: "(rstr, resolved_parameter) btree"
  er_explicit_parameters :: "rstr list"
  er_parameter_policy :: parameter_policy
  er_warnings :: "resolve_warning list"

definition er_parameter :: "effective_request \<Rightarrow> rstr \<Rightarrow> parameter_value option" where
  "er_parameter r path = map_option rp_value (map_of (er_parameters r) path)"

definition bool_parameter :: "effective_request \<Rightarrow> rstr \<Rightarrow> bool option" where
  "bool_parameter r path = Option.bind (er_parameter r path) as_bool"

definition u64_parameter :: "effective_request \<Rightarrow> rstr \<Rightarrow> nat option" where
  "u64_parameter r path = Option.bind (er_parameter r path) as_u64"

definition f64_parameter :: "effective_request \<Rightarrow> rstr \<Rightarrow> f64 option" where
  "f64_parameter r path = Option.bind (er_parameter r path) as_f64"

definition string_parameter :: "effective_request \<Rightarrow> rstr \<Rightarrow> rstr option" where
  "string_parameter r path = Option.bind (er_parameter r path) as_str"

definition values_only :: "effective_request \<Rightarrow> (rstr, parameter_value) btree" where
  "values_only r = bt_map_values rp_value (er_parameters r)"

section \<open>Typed options\<close>

text \<open>
  Each reader gives the options of one medium: only for a task of that namespace, and only
  when every parameter is present with its type and fits its width.
\<close>

definition u32_of :: "nat \<Rightarrow> nat option" where
  "u32_of n = (if n < 4294967296 then Some n else None)"

definition u32_parameter :: "effective_request \<Rightarrow> rstr \<Rightarrow> nat option" where
  "u32_parameter r path = Option.bind (u64_parameter r path) u32_of"

record image_options =
  io_width :: nat
  io_height :: nat
  io_steps :: nat
  io_guidance :: f64
  io_seed :: nat
  io_vae_tiling :: bool
  io_loras :: "parameter_value list"

record video_options =
  vo_width :: nat
  vo_height :: nat
  vo_frames :: nat
  vo_fps :: f64
  vo_steps :: nat
  vo_seed :: nat
  vo_temporal_vae_tiling :: bool
  vo_prompt_keyframes :: "parameter_value list"

record audio_options =
  ao_duration :: f64
  ao_sample_rate :: nat
  ao_channels :: nat
  ao_seed :: nat
  ao_instrumental :: bool
  ao_instruments :: "parameter_value list"
  ao_stems :: "parameter_value list"

definition image_generation_options :: "effective_request \<Rightarrow> image_options option" where
  "image_generation_options r =
     (if parameter_namespace (er_task r) \<noteq> lit ''image'' then None
      else case (u32_parameter r (lit ''image.width''), u32_parameter r (lit ''image.height''),
                 u32_parameter r (lit ''image.steps''), f64_parameter r (lit ''image.guidance''),
                 u64_parameter r (lit ''image.seed''), bool_parameter r (lit ''image.vae_tiling''),
                 list_parameter (er_parameter r (lit ''image.loras'')))
        of (Some width, Some height, Some steps, Some guidance, Some seed, Some tiling, Some loras) \<Rightarrow>
             Some \<lparr>io_width = width, io_height = height, io_steps = steps, io_guidance = guidance,
                   io_seed = seed, io_vae_tiling = tiling, io_loras = loras\<rparr>
         | _ \<Rightarrow> None)"

definition video_generation_options :: "effective_request \<Rightarrow> video_options option" where
  "video_generation_options r =
     (if parameter_namespace (er_task r) \<noteq> lit ''video'' then None
      else case (u32_parameter r (lit ''video.width''), u32_parameter r (lit ''video.height''),
                 u32_parameter r (lit ''video.frames''), f64_parameter r (lit ''video.fps''),
                 u32_parameter r (lit ''video.steps''), u64_parameter r (lit ''video.seed''),
                 bool_parameter r (lit ''video.temporal_vae_tiling''),
                 list_parameter (er_parameter r (lit ''video.prompt_keyframes'')))
        of (Some width, Some height, Some frames, Some fps, Some steps, Some seed, Some tiling, Some keyframes) \<Rightarrow>
             Some \<lparr>vo_width = width, vo_height = height, vo_frames = frames, vo_fps = fps, vo_steps = steps,
                   vo_seed = seed, vo_temporal_vae_tiling = tiling, vo_prompt_keyframes = keyframes\<rparr>
         | _ \<Rightarrow> None)"

definition audio_generation_options :: "effective_request \<Rightarrow> audio_options option" where
  "audio_generation_options r =
     (if parameter_namespace (er_task r) \<noteq> lit ''audio'' then None
      else case (f64_parameter r (lit ''audio.duration''), u32_parameter r (lit ''audio.sample_rate''),
                 u32_parameter r (lit ''audio.channels''), u64_parameter r (lit ''audio.seed''),
                 bool_parameter r (lit ''audio.instrumental''),
                 list_parameter (er_parameter r (lit ''audio.instruments'')),
                 list_parameter (er_parameter r (lit ''audio.stems'')))
        of (Some duration, Some sample_rate, Some channels, Some seed, Some instrumental, Some instruments, Some stems) \<Rightarrow>
             Some \<lparr>ao_duration = duration, ao_sample_rate = sample_rate, ao_channels = channels, ao_seed = seed,
                   ao_instrumental = instrumental, ao_instruments = instruments, ao_stems = stems\<rparr>
         | _ \<Rightarrow> None)"

lemma values_only_get: "map_of (values_only r) path = er_parameter r path"
  by (simp add: values_only_def er_parameter_def)

end
