(* ===== verification/Inference_Planner.thy ===== *)
theory Inference_Planner
  imports Inference_Types "HOL-Library.Product_Lexorder" "HOL-Library.Multiset"
begin

text \<open>
  The execution planner (\<open>src/src/inference/planner.rs\<close>): every runtime candidate is
  judged against the model, the effective request and the workload estimate, judged
  candidates are ordered by score, and the plan records the winner, the preferred routes it
  fell back from, and the degradations it needs. Reasons are a datatype with one constructor
  for each message of the code, carrying the values the message quotes.
\<close>

section \<open>What the planner reads\<close>

datatype model_format =
    FormatGguf
  | SafeTensors
  | PyTorch
  | Onnx
  | FormatMlx
  | TensorRt
  | OpenVino
  | TensorFlow
  | CoreMl
  | UnknownFormat

record model_file =
  fl_path :: rstr
  fl_size :: nat
  fl_checksum :: rstr

text \<open>The fields of \<open>ModelManifest\<close> and its metadata that estimation and planning read.\<close>

record model_manifest =
  mf_id :: rstr
  mf_format :: model_format
  mf_architecture :: "rstr option"
  mf_family :: "rstr option"
  mf_repository_layout :: repository_layout
  mf_tasks :: "inference_task list"
  mf_files :: "model_file list"
  mf_components :: "model_component list"

definition supports_task :: "model_manifest \<Rightarrow> inference_task \<Rightarrow> bool" where
  "supports_task m t \<longleftrightarrow> t \<in> set (mf_tasks m)"

datatype estimate_confidence = Exact | BackendMeasured | ArchitectureModel | Heuristic | UnknownConfidence

datatype fit_assessment = Fits | Tight | LikelyOom | UnknownFit

record workload_estimate =
  we_task :: inference_task
  we_download_size_bytes :: "nat option"
  we_weight_payload_bytes :: "nat option"
  we_accelerator_peak_bytes :: "nat option"
  we_accelerator_memory_limit_bytes :: "nat option"
  we_host_peak_bytes :: "nat option"
  we_host_memory_limit_bytes :: "nat option"
  we_output_size_bytes :: "nat option"
  we_fit :: fit_assessment
  we_confidence :: estimate_confidence
  we_assumptions :: "rstr list"
  we_warnings :: "rstr list"
  we_recommendations :: "rstr list"

definition projected_host_peak_with_offload :: "workload_estimate \<Rightarrow> nat option" where
  "projected_host_peak_with_offload e =
     (case we_host_peak_bytes e of None \<Rightarrow> None
      | Some current_host_peak \<Rightarrow>
         (case (case we_weight_payload_bytes e of Some w \<Rightarrow> Some w | None \<Rightarrow> we_download_size_bytes e) of
            None \<Rightarrow> None
          | Some weights \<Rightarrow>
             (let accelerator_working_set =
                    (case we_accelerator_peak_bytes e of None \<Rightarrow> weights | Some p \<Rightarrow> p) - weights
              in Some (sat_add (sat_add current_host_peak weights) (accelerator_working_set div 3)))))"

datatype runtime_accelerator = Cpu | Cuda | Rocm | Mps | Mlx | OtherAccelerator

record runtime_candidate =
  rc_id :: rstr
  rc_backend :: rstr
  rc_accelerator :: runtime_accelerator
  rc_available :: bool
  rc_availability_reason :: "rstr option"
  rc_supported_tasks :: "inference_task list"
  rc_supported_layouts :: "repository_layout list"
  rc_supported_formats :: "model_format list"
  rc_supported_families :: "rstr list"
  rc_supported_architectures :: "rstr list"
  rc_parameter_support :: "(rstr, parameter_support_status) btree"
  rc_supports_offloading :: bool
  rc_supports_compile :: bool
  rc_supports_batching :: bool
  rc_priority :: int

section \<open>Decisions and plans\<close>

text \<open>
  The last reason is never given by the planner: the service records it for a runtime whose
  execution failed.
\<close>

datatype candidate_status = Accepted | Rejected

datatype degradation =
    CpuOffload
  | SequentialOffload
  | ComponentOffload
  | VaeTiling
  | TemporalWindowing
  | SlowerAttention rstr

datatype plan_reason =
    NotAvailable rstr
  | TaskUnsupported inference_task
  | LayoutUnsupported repository_layout
  | FormatUnsupported model_format
  | FamilyUnsupported rstr
  | ArchitectureUnsupported rstr
  | BackendRequested rstr
  | AcceleratorRequested rstr
  | ParameterUnsupported rstr
  | AcceleratorMemoryExceeded nat nat
  | NoPermittedOffload
  | HostMemoryExceeded nat nat
  | HostMemoryLikely
  | OffloadHostMemoryExceeded nat nat
  | ExecutionFailed rstr

record candidate_decision =
  cd_runtime_id :: rstr
  cd_backend :: rstr
  cd_status :: candidate_status
  cd_score :: "int option"
  cd_reasons :: "plan_reason list"
  cd_degradations :: "degradation list"

datatype downgrade_advice =
    SmallerModel
  | LowerImageResolution
  | FewerFrames
  | ShorterDuration
  | ShorterContext

datatype task_readiness_status =
    ReadyAvailable
  | FallbackAvailable
  | Installable
  | NotImplemented
  | ReadyUnavailable

record dependency_route =
  dr_all_of :: "rstr list"

record missing_dependency_group =
  mdg_purpose :: rstr
  mdg_any_of :: "dependency_route list"

record task_readiness =
  tr_status :: task_readiness_status
  tr_detail :: rstr
  tr_adapter :: "rstr option"
  tr_required_backend :: "rstr option"
  tr_install_command :: "rstr option"
  tr_fallback_backend :: "rstr option"
  tr_missing_dependencies :: "rstr list"
  tr_missing_dependency_groups :: "missing_dependency_group list"

record execution_plan =
  ep_task :: inference_task
  ep_selected_runtime :: "rstr option"
  ep_selected_backend :: "rstr option"
  ep_score :: "int option"
  ep_candidates :: "candidate_decision list"
  ep_fallback_chain :: "candidate_decision list"
  ep_backend_fallback :: bool
  ep_degradations :: "degradation list"
  ep_downgrades :: "downgrade_advice list"
  ep_task_readiness :: "task_readiness option"

section \<open>Reading the request\<close>

definition concrete_routing_target :: "rstr \<Rightarrow> rstr option" where
  "concrete_routing_target value = (let v = trim value in
     if v \<noteq> [] \<and> \<not> eq_ignore_ascii_case v (lit ''auto'') then Some v else None)"

definition runtime_accelerator_matches :: "runtime_accelerator \<Rightarrow> rstr \<Rightarrow> bool" where
  "runtime_accelerator_matches accelerator requested = (let n = to_ascii_lowercase requested in
     case accelerator of
       Cpu \<Rightarrow> n = lit ''cpu''
     | Cuda \<Rightarrow> n = lit ''cuda''
     | Rocm \<Rightarrow> n = lit ''rocm'' \<or> n = lit ''hip''
     | Mps \<Rightarrow> n = lit ''mps'' \<or> n = lit ''metal''
     | Mlx \<Rightarrow> n = lit ''mlx'' \<or> n = lit ''metal''
     | OtherAccelerator \<Rightarrow> False)"

definition requested_backend :: "effective_request \<Rightarrow> rstr option" where
  "requested_backend r =
     (case string_parameter r (lit ''routing.backend'') of None \<Rightarrow> None
      | Some v \<Rightarrow> if v \<noteq> lit ''auto'' then Some v else None)"

definition requested_accelerator :: "effective_request \<Rightarrow> rstr option" where
  "requested_accelerator r =
     (case Option.bind (string_parameter r (lit ''routing.device'')) concrete_routing_target of
        Some device \<Rightarrow> Some device
      | None \<Rightarrow> Option.bind (string_parameter r (lit ''routing.accelerator'')) concrete_routing_target)"

definition fallback_policy :: "effective_request \<Rightarrow> rstr" where
  "fallback_policy r =
     (case string_parameter r (lit ''routing.fallback_policy'') of None \<Rightarrow> lit ''backend'' | Some v \<Rightarrow> v)"

definition allow_degradation :: "effective_request \<Rightarrow> bool" where
  "allow_degradation r \<longleftrightarrow> fallback_policy r = lit ''degrade''"

definition reaches :: "nat option \<Rightarrow> nat option \<Rightarrow> bool" where
  "reaches peak limit = (case (peak, limit) of (Some p, Some l) \<Rightarrow> l \<le> p | _ \<Rightarrow> False)"

definition accelerator_memory_exceeded :: "workload_estimate \<Rightarrow> bool" where
  "accelerator_memory_exceeded e =
     reaches (we_accelerator_peak_bytes e) (we_accelerator_memory_limit_bytes e)"

definition host_memory_exceeded :: "workload_estimate \<Rightarrow> bool" where
  "host_memory_exceeded e = reaches (we_host_peak_bytes e) (we_host_memory_limit_bytes e)"

definition memory_pressure :: "workload_estimate \<Rightarrow> bool" where
  "memory_pressure e \<longleftrightarrow>
     we_fit e = LikelyOom \<or> accelerator_memory_exceeded e \<or> host_memory_exceeded e"

section \<open>Memory verdicts\<close>

definition CPU_OFFLOAD :: rstr where "CPU_OFFLOAD = lit ''routing.allow_cpu_offload''"
definition SEQUENTIAL_OFFLOAD :: rstr where
  "SEQUENTIAL_OFFLOAD = lit ''routing.allow_sequential_offload''"
definition COMPONENT_OFFLOAD :: rstr where
  "COMPONENT_OFFLOAD = lit ''routing.allow_component_offload''"

definition offload_options :: "(rstr \<times> degradation) list" where
  "offload_options =
     [(CPU_OFFLOAD, CpuOffload), (SEQUENTIAL_OFFLOAD, SequentialOffload),
      (COMPONENT_OFFLOAD, ComponentOffload)]"

definition is_explicit :: "effective_request \<Rightarrow> rstr \<Rightarrow> bool" where
  "is_explicit r path \<longleftrightarrow> path \<in> set (er_explicit_parameters r)"

definition selected_offload :: "effective_request \<Rightarrow> bool \<Rightarrow> degradation option" where
  "selected_offload r degrade =
     (case find (\<lambda>(path, d). is_explicit r path \<and> bool_parameter r path = Some True) offload_options of
        Some (path, d) \<Rightarrow> Some d
      | None \<Rightarrow>
         if \<not> degrade then None
         else if is_explicit r CPU_OFFLOAD \<and> bool_parameter r CPU_OFFLOAD = Some False then None
         else map_option snd (find (\<lambda>(path, d). bool_parameter r path = Some True) offload_options))"

definition memory_rejection_reason :: "workload_estimate \<Rightarrow> runtime_accelerator \<Rightarrow> plan_reason" where
  "memory_rejection_reason e accelerator =
     (case (we_accelerator_peak_bytes e, we_accelerator_memory_limit_bytes e) of
        (Some peak, Some limit) \<Rightarrow>
          if accelerator = Cuda \<and> limit \<le> peak then AcceleratorMemoryExceeded peak limit
          else NoPermittedOffload
      | _ \<Rightarrow> NoPermittedOffload)"

definition host_memory_rejection_reason :: "workload_estimate \<Rightarrow> plan_reason" where
  "host_memory_rejection_reason e =
     (case (we_host_peak_bytes e, we_host_memory_limit_bytes e) of
        (Some peak, Some limit) \<Rightarrow> HostMemoryExceeded peak limit
      | _ \<Rightarrow> HostMemoryLikely)"

definition offload_host_memory_rejection_reason :: "workload_estimate \<Rightarrow> plan_reason option" where
  "offload_host_memory_rejection_reason e =
     (case we_host_memory_limit_bytes e of None \<Rightarrow> None
      | Some limit \<Rightarrow>
         (case projected_host_peak_with_offload e of None \<Rightarrow> None
          | Some required \<Rightarrow>
             if limit \<le> required then Some (OffloadHostMemoryExceeded required limit) else None))"

definition offload_degradations :: "effective_request \<Rightarrow> degradation \<Rightarrow> degradation list" where
  "offload_degradations r offload =
     [offload]
     @ (if allow_degradation r \<and> task_output_modality (er_task r) = OutImage
           \<and> bool_parameter r (lit ''image.vae_tiling'') = Some True then [VaeTiling] else [])
     @ (if allow_degradation r \<and> task_output_modality (er_task r) = OutVideo
           \<and> (bool_parameter r (lit ''video.temporal_vae_tiling'') = Some True
              \<or> u64_parameter r (lit ''video.window_size'') \<noteq> None) then [TemporalWindowing] else [])"

definition memory_verdict ::
  "effective_request \<Rightarrow> workload_estimate \<Rightarrow> runtime_candidate \<Rightarrow> plan_reason list \<times> degradation list" where
  "memory_verdict r e c =
     (if \<not> memory_pressure e then ([], [])
      else if host_memory_exceeded e then ([host_memory_rejection_reason e], [])
      else
        (let accelerator_can_offload = (rc_accelerator c = Cuda \<or> rc_accelerator c = Rocm);
             offload = (if rc_supports_offloading c \<and> accelerator_can_offload
                        then selected_offload r (allow_degradation r) else None)
         in case offload of
              None \<Rightarrow> ([memory_rejection_reason e (rc_accelerator c)], [])
            | Some d \<Rightarrow>
               (case offload_host_memory_rejection_reason e of
                  Some reason \<Rightarrow> ([reason], [])
                | None \<Rightarrow> ([], offload_degradations r d))))"

section \<open>Judging one candidate\<close>

definition supports_layout :: "model_manifest \<Rightarrow> runtime_candidate \<Rightarrow> bool" where
  "supports_layout m c \<longleftrightarrow>
     rc_supported_layouts c = [] \<or> mf_repository_layout m \<in> set (rc_supported_layouts c)"

definition supports_format :: "model_manifest \<Rightarrow> runtime_candidate \<Rightarrow> bool" where
  "supports_format m c \<longleftrightarrow> rc_supported_formats c = [] \<or> mf_format m \<in> set (rc_supported_formats c)"

definition names_any :: "rstr list \<Rightarrow> rstr \<Rightarrow> bool" where
  "names_any supported v \<longleftrightarrow> list_ex (\<lambda>s. eq_ignore_ascii_case s v) supported"

definition backend_matches :: "effective_request \<Rightarrow> runtime_candidate \<Rightarrow> bool" where
  "backend_matches r c =
     (case requested_backend r of None \<Rightarrow> False | Some b \<Rightarrow> eq_ignore_ascii_case (rc_backend c) b)"

definition parameter_refused :: "effective_request \<Rightarrow> runtime_candidate \<Rightarrow> rstr \<Rightarrow> bool" where
  "parameter_refused r c path \<longleftrightarrow>
     (case map_of (rc_parameter_support c) path of None \<Rightarrow> ModelDependent | Some s \<Rightarrow> s)
       \<in> {Ignored, Unsupported} \<and> er_parameter_policy r = Strict"

definition unless :: "bool \<Rightarrow> plan_reason \<Rightarrow> plan_reason list" where
  "unless ok reason = (if ok then [] else [reason])"

definition static_reasons ::
  "model_manifest \<Rightarrow> effective_request \<Rightarrow> runtime_candidate \<Rightarrow> plan_reason list" where
  "static_reasons m r c =
     unless (rc_available c)
       (NotAvailable (case rc_availability_reason c of None \<Rightarrow> lit ''runtime is unavailable'' | Some s \<Rightarrow> s))
     @ unless (er_task r \<in> set (rc_supported_tasks c)) (TaskUnsupported (er_task r))
     @ unless (supports_layout m c) (LayoutUnsupported (mf_repository_layout m))
     @ unless (supports_format m c) (FormatUnsupported (mf_format m))
     @ (case mf_family m of None \<Rightarrow> []
        | Some family \<Rightarrow> unless (rc_supported_families c = [] \<or> names_any (rc_supported_families c) family)
            (FamilyUnsupported family))
     @ (case mf_architecture m of None \<Rightarrow> []
        | Some architecture \<Rightarrow>
            unless (rc_supported_architectures c = [] \<or> names_any (rc_supported_architectures c) architecture)
              (ArchitectureUnsupported architecture))
     @ (case requested_backend r of None \<Rightarrow> []
        | Some backend \<Rightarrow>
            unless (fallback_policy r \<noteq> lit ''none'' \<or> eq_ignore_ascii_case (rc_backend c) backend)
              (BackendRequested backend))
     @ (case requested_accelerator r of None \<Rightarrow> []
        | Some accelerator \<Rightarrow>
            unless (runtime_accelerator_matches (rc_accelerator c) accelerator)
              (AcceleratorRequested accelerator))
     @ map ParameterUnsupported (filter (parameter_refused r c) (er_explicit_parameters r))"

definition candidate_reasons ::
  "model_manifest \<Rightarrow> effective_request \<Rightarrow> workload_estimate \<Rightarrow> runtime_candidate \<Rightarrow> plan_reason list" where
  "candidate_reasons m r e c = static_reasons m r c @ fst (memory_verdict r e c)"

definition candidate_degradations ::
  "effective_request \<Rightarrow> workload_estimate \<Rightarrow> runtime_candidate \<Rightarrow> degradation list" where
  "candidate_degradations r e c = snd (memory_verdict r e c)"

text \<open>Scores are \<open>i32\<close>: a release build wraps.\<close>

definition i32_wrap :: "int \<Rightarrow> int" where
  "i32_wrap x = (x + 2147483648) mod 4294967296 - 2147483648"

definition candidate_score ::
  "effective_request \<Rightarrow> workload_estimate \<Rightarrow> runtime_candidate \<Rightarrow> int" where
  "candidate_score r e c =
     (let s0 = rc_priority c;
          s1 = (if backend_matches r c then i32_wrap (s0 + 500) else s0);
          s2 = i32_wrap (s1 - i32_wrap (int (length (candidate_degradations r e c)) * 35))
      in if rc_accelerator c = Cpu then i32_wrap (s2 - 120) else s2)"

definition candidate_decision_of ::
  "model_manifest \<Rightarrow> effective_request \<Rightarrow> workload_estimate \<Rightarrow> runtime_candidate \<Rightarrow> candidate_decision" where
  "candidate_decision_of m r e c =
     (let accepted = (candidate_reasons m r e c = [])
      in \<lparr>cd_runtime_id = rc_id c, cd_backend = rc_backend c,
          cd_status = (if accepted then Accepted else Rejected),
          cd_score = (if accepted then Some (candidate_score r e c) else None),
          cd_reasons = candidate_reasons m r e c,
          cd_degradations = candidate_degradations r e c\<rparr>)"

definition preferred_route ::
  "model_manifest \<Rightarrow> effective_request \<Rightarrow> runtime_candidate \<Rightarrow> bool" where
  "preferred_route m r c \<longleftrightarrow>
     er_task r \<in> set (rc_supported_tasks c) \<and> supports_layout m c \<and> supports_format m c
     \<and> (case requested_accelerator r of None \<Rightarrow> True
        | Some a \<Rightarrow> runtime_accelerator_matches (rc_accelerator c) a)
     \<and> (fallback_policy r \<noteq> lit ''none''
        \<or> (case requested_backend r of None \<Rightarrow> True
           | Some b \<Rightarrow> eq_ignore_ascii_case (rc_backend c) b))"

section \<open>The plan\<close>

text \<open>
  \<open>sort_by\<close> is stable; the keys order by score from high to low, a rejected candidate
  (score \<open>None\<close>) last, and equal scores by runtime id.
\<close>

definition decision_key :: "candidate_decision \<Rightarrow> int \<times> int \<times> rstr" where
  "decision_key d =
     (case cd_score d of Some s \<Rightarrow> (0, - s, cd_runtime_id d) | None \<Rightarrow> (1, 0, cd_runtime_id d))"

definition preference_key :: "int \<times> candidate_decision \<Rightarrow> int \<times> rstr" where
  "preference_key p = (- fst p, cd_runtime_id (snd p))"

definition fallback_chain_of ::
  "candidate_decision option \<Rightarrow> (int \<times> candidate_decision) list \<Rightarrow> candidate_decision list" where
  "fallback_chain_of selected preference_order =
     (case selected of None \<Rightarrow> []
      | Some s \<Rightarrow>
         map snd (filter (\<lambda>p. cd_status (snd p) = Rejected)
           (takeWhile (\<lambda>p. cd_runtime_id (snd p) \<noteq> cd_runtime_id s) preference_order)))"

fun downgrade_for :: "output_modality \<Rightarrow> downgrade_advice" where
  "downgrade_for OutImage = LowerImageResolution"
| "downgrade_for OutVideo = FewerFrames"
| "downgrade_for OutAudio = ShorterDuration"
| "downgrade_for OutText = ShorterContext"
| "downgrade_for OutEmbedding = ShorterContext"

definition plan_execution ::
  "model_manifest \<Rightarrow> effective_request \<Rightarrow> workload_estimate \<Rightarrow> runtime_candidate list \<Rightarrow> execution_plan" where
  "plan_execution m r e cs =
     (let decisions = sort_key decision_key (map (candidate_decision_of m r e) cs);
          preference_order = sort_key preference_key
            (map (\<lambda>c. (candidate_score r e c, candidate_decision_of m r e c)) (filter (preferred_route m r) cs));
          selected = find (\<lambda>d. cd_status d = Accepted) decisions;
          selected_backend = map_option cd_backend selected;
          fallback_chain = fallback_chain_of selected preference_order
      in \<lparr>ep_task = er_task r,
          ep_selected_runtime = map_option cd_runtime_id selected,
          ep_selected_backend = selected_backend,
          ep_score = Option.bind selected cd_score,
          ep_candidates = decisions,
          ep_fallback_chain = fallback_chain,
          ep_backend_fallback = (fallback_chain \<noteq> []
            \<or> (case (requested_backend r, selected_backend) of
                 (Some requested, Some b) \<Rightarrow> \<not> eq_ignore_ascii_case requested b
               | _ \<Rightarrow> False)),
          ep_degradations = (case selected of None \<Rightarrow> [] | Some s \<Rightarrow> cd_degradations s),
          ep_downgrades = (if memory_pressure e
            then [SmallerModel, downgrade_for (task_output_modality (er_task r))] else []),
          ep_task_readiness = None\<rparr>)"

end
