(* ===== verification/Platform_Signals.thy ===== *)
theory Platform_Signals
  imports Device_Inventory Inference_Planner
begin

text \<open>
  Detection of the host's resources (\<open>src/src/inference_service/resources.rs\<close>, on Linux):
  which accelerator the visibility masks and device files allow, how much memory it has and
  what the host has available. Files, environment variables, process outputs and the two
  hardware tests of the backend module are the record \<open>platform\<close>.
\<close>

section \<open>The platform\<close>

record host_resources =
  hr_host_memory_bytes :: "nat option"
  hr_accelerator_memory_bytes :: "nat option"
  hr_accelerator :: "rstr option"
  hr_memory_topology :: "memory_topology option"

record platform =
  pt_env :: "rstr \<Rightarrow> rstr option"
  pt_exists :: "rstr \<Rightarrow> bool"
  pt_file :: "rstr \<Rightarrow> rstr option"
  pt_smi :: "rstr \<Rightarrow> rstr list \<Rightarrow> rstr option"
  pt_arch :: rstr
  pt_strix_halo :: bool
  pt_selected_rocm_strix_halo :: bool

section \<open>Visibility masks\<close>

definition first_piece :: "rstr \<Rightarrow> rstr" where
  "first_piece s = trim (hd (split_at_char 44 s))"

definition MASK_WORDS :: "rstr list" where
  "MASK_WORDS = [lit ''-1'', lit ''none'', lit ''disabled'', lit ''void'']"

definition visibility_value_disables_accelerator :: "rstr \<Rightarrow> bool" where
  "visibility_value_disables_accelerator v =
     (let first = first_piece (trim v) in
      first = [] \<or> to_ascii_lowercase first \<in> set MASK_WORDS)"

definition visibility_value_enables_accelerator :: "rstr \<Rightarrow> bool" where
  "visibility_value_enables_accelerator v = (\<not> visibility_value_disables_accelerator v)"

definition cuda_visibility_disables_accelerator :: "platform \<Rightarrow> bool" where
  "cuda_visibility_disables_accelerator p =
     (case pt_env p (lit ''CUDA_VISIBLE_DEVICES'') of
        Some v \<Rightarrow> visibility_value_disables_accelerator v
      | None \<Rightarrow> (case pt_env p (lit ''NVIDIA_VISIBLE_DEVICES'') of
            None \<Rightarrow> False
          | Some v \<Rightarrow> visibility_value_disables_accelerator v))"

definition selected_nvidia_device :: "rstr option \<Rightarrow> rstr option \<Rightarrow> rstr option" where
  "selected_nvidia_device cuda nvidia =
     (case (if cuda \<noteq> None then cuda else nvidia) of
        None \<Rightarrow> None
      | Some v \<Rightarrow>
          (let d = first_piece v in
           if d = [] \<or> to_ascii_lowercase d \<in> set (lit ''all'' # MASK_WORDS) then None else Some d))"

definition stable_nvidia_device_id :: "rstr \<Rightarrow> bool" where
  "stable_nvidia_device_id d =
     (let u = to_ascii_uppercase (trim d) in starts_with (lit ''GPU-'') u \<or> starts_with (lit ''MIG-'') u)"

section \<open>Memory of an NVIDIA device\<close>

fun collect_options :: "'a option list \<Rightarrow> 'a list option" where
  "collect_options [] = Some []"
| "collect_options (None # xs) = None"
| "collect_options (Some x # xs) = map_option ((#) x) (collect_options xs)"

definition strip_bom :: "rstr \<Rightarrow> rstr" where
  "strip_bom s = dropWhile (\<lambda>c. c = 65279) s"

definition smi_row :: "rstr \<Rightarrow> nat option" where
  "smi_row l =
     (case split_whitespace l of
        [] \<Rightarrow> None
      | w # _ \<Rightarrow> (case parse_unsigned u64_max w of
            None \<Rightarrow> None
          | Some n \<Rightarrow> if 0 < n then Some (sat_mul n MIB) else None))"

definition smi_rows :: "rstr \<Rightarrow> rstr list" where
  "smi_rows output = filter (\<lambda>l. l \<noteq> []) (map (\<lambda>l. strip_bom (trim l)) (str_lines output))"

definition unambiguous_nvidia_smi_memory_bytes :: "rstr \<Rightarrow> nat option" where
  "unambiguous_nvidia_smi_memory_bytes output =
     (case collect_options (map smi_row (smi_rows output)) of
        Some (first # rest) \<Rightarrow> if list_all (\<lambda>v. v = first) (first # rest) then Some first else None
      | _ \<Rightarrow> None)"

definition query_nvidia_smi_memory :: "platform \<Rightarrow> rstr \<Rightarrow> rstr option \<Rightarrow> nat option" where
  "query_nvidia_smi_memory p program device =
     (let selection = (case device of
            Some d \<Rightarrow> if stable_nvidia_device_id d then [lit ''--id='' @ d] else []
          | None \<Rightarrow> [])
      in Option.bind (pt_smi p program (selection @ [lit ''--query-gpu=memory.total'', lit ''--format=csv,noheader,nounits'']))
           unambiguous_nvidia_smi_memory_bytes)"

definition probe_nvidia_smi_memory_bytes :: "platform \<Rightarrow> nat option" where
  "probe_nvidia_smi_memory_bytes p =
     (let device = selected_nvidia_device (pt_env p (lit ''CUDA_VISIBLE_DEVICES'')) (pt_env p (lit ''NVIDIA_VISIBLE_DEVICES''))
      in case query_nvidia_smi_memory p (lit ''nvidia-smi'') device of
           Some b \<Rightarrow> Some b
         | None \<Rightarrow> query_nvidia_smi_memory p (lit ''/usr/lib/wsl/lib/nvidia-smi'') device)"

definition nvidia_smi_memory_bytes :: "platform \<Rightarrow> nat option" where
  "nvidia_smi_memory_bytes p =
     (if cuda_visibility_disables_accelerator p then None else probe_nvidia_smi_memory_bytes p)"

definition detected_accelerator_memory_bytes :: "platform \<Rightarrow> runtime_accelerator \<Rightarrow> nat option" where
  "detected_accelerator_memory_bytes p a = (if a = Cuda then nvidia_smi_memory_bytes p else None)"

definition select_accelerator_memory_bytes ::
  "runtime_accelerator \<Rightarrow> nat option \<Rightarrow> memory_topology option \<Rightarrow> nat option \<Rightarrow> nat option" where
  "select_accelerator_memory_bytes a configured topology detected =
     (if a = Cpu then None
      else case configured of
             Some b \<Rightarrow> Some b
           | None \<Rightarrow> if topology \<noteq> Some Unified then detected else None)"

section \<open>Topology\<close>

definition signal_identifies_dgx_spark :: "rstr \<Rightarrow> bool" where
  "signal_identifies_dgx_spark signal =
     (let lower = to_ascii_lowercase signal in
      contains_str (lit ''dgx spark'') lower \<or> contains_str (lit ''nvidia spark'') lower \<or>
      list_ex (\<lambda>t. t = lit ''gb10'') (split_by (\<lambda>c. \<not> is_ascii_alnum c) lower))"

definition dgx_spark_signals :: "rstr \<Rightarrow> rstr option \<Rightarrow> rstr option \<Rightarrow> bool" where
  "dgx_spark_signals arch model smi =
     (if arch \<noteq> lit ''aarch64'' \<and> arch \<noteq> lit ''arm64'' then False
      else list_ex signal_identifies_dgx_spark
        ((case model of None \<Rightarrow> [] | Some m \<Rightarrow> [m]) @ (case smi of None \<Rightarrow> [] | Some s \<Rightarrow> [s])))"

definition device_tree_model :: "platform \<Rightarrow> rstr option" where
  "device_tree_model p =
     (case pt_file p (lit ''/proc/device-tree/model'') of
        Some m \<Rightarrow> Some m
      | None \<Rightarrow> pt_file p (lit ''/sys/firmware/devicetree/base/model''))"

definition probe_dgx_spark_environment :: "platform \<Rightarrow> bool" where
  "probe_dgx_spark_environment p =
     (if pt_arch p \<noteq> lit ''aarch64'' \<and> pt_arch p \<noteq> lit ''arm64'' then False
      else if dgx_spark_signals (pt_arch p) (device_tree_model p) None then True
      else dgx_spark_signals (pt_arch p) (device_tree_model p)
             (pt_smi p (lit ''nvidia-smi'') [lit ''--query-gpu=name'', lit ''--format=csv,noheader'']))"

definition memory_topology_for_platform :: "runtime_accelerator \<Rightarrow> bool \<Rightarrow> bool \<Rightarrow> memory_topology option" where
  "memory_topology_for_platform a spark selected_rocm_strix_halo =
     (if spark then Some Unified
      else if selected_rocm_strix_halo \<and> a = Rocm then Some Unified else None)"

definition detected_memory_topology :: "platform \<Rightarrow> runtime_accelerator \<Rightarrow> memory_topology option" where
  "detected_memory_topology p a =
     memory_topology_for_platform a (probe_dgx_spark_environment p) (pt_selected_rocm_strix_halo p)"

section \<open>The accelerator\<close>

definition accelerator_env_is_enabled :: "platform \<Rightarrow> rstr \<Rightarrow> bool" where
  "accelerator_env_is_enabled p name =
     (case pt_env p name of
        None \<Rightarrow> False
      | Some v \<Rightarrow> trim v \<noteq> [] \<and> to_ascii_lowercase (trim v) \<notin> set MASK_WORDS)"

definition rocm_available_from_signals :: "bool \<Rightarrow> rstr option \<Rightarrow> rstr option \<Rightarrow> rstr option \<Rightarrow> bool" where
  "rocm_available_from_signals kfd rocr hip cuda =
     (let selected = (if rocr \<noteq> None then rocr else if hip \<noteq> None then hip else cuda);
          enables = (\<lambda>v. case v of None \<Rightarrow> False | Some s \<Rightarrow> visibility_value_enables_accelerator s)
      in if (case selected of None \<Rightarrow> False | Some s \<Rightarrow> visibility_value_disables_accelerator s) then False
         else kfd \<or> enables rocr \<or> enables hip)"

definition accelerator_from_hardware_signals :: "bool \<Rightarrow> bool \<Rightarrow> runtime_accelerator" where
  "accelerator_from_hardware_signals cuda rocm = (if cuda then Cuda else if rocm then Rocm else Cpu)"

definition accelerator_from_platform_signals :: "bool \<Rightarrow> bool \<Rightarrow> bool \<Rightarrow> bool \<Rightarrow> runtime_accelerator" where
  "accelerator_from_platform_signals strix_halo nvidia cuda rocm =
     (if strix_halo \<and> rocm \<and> \<not> nvidia then Rocm else accelerator_from_hardware_signals cuda rocm)"

definition configured_media_accelerator_from_value :: "rstr \<Rightarrow> runtime_accelerator option" where
  "configured_media_accelerator_from_value v =
     (if trim v = [] then None
      else let n = to_ascii_lowercase (trim v) in Some
        (if n = lit ''cuda'' then Cuda
         else if n = lit ''rocm'' \<or> n = lit ''hip'' then Rocm
         else if n = lit ''mps'' \<or> n = lit ''metal'' then Mps
         else if n = lit ''mlx'' then Mlx
         else if n = lit ''cpu'' then Cpu
         else OtherAccelerator))"

definition configured_media_accelerator :: "platform \<Rightarrow> runtime_accelerator option" where
  "configured_media_accelerator p =
     Option.bind (pt_env p (lit ''WERK_MEDIA_ACCELERATOR'')) configured_media_accelerator_from_value"

definition nvidia_signal :: "platform \<Rightarrow> bool" where
  "nvidia_signal p \<longleftrightarrow> \<not> cuda_visibility_disables_accelerator p \<and>
     (pt_exists p (lit ''/dev/nvidiactl'') \<or> pt_exists p (lit ''/dev/nvidia0'') \<or> nvidia_smi_memory_bytes p \<noteq> None)"

definition cuda_signal :: "platform \<Rightarrow> bool" where
  "cuda_signal p \<longleftrightarrow> \<not> cuda_visibility_disables_accelerator p \<and>
     (nvidia_signal p \<or> pt_exists p (lit ''/dev/dxg'') \<or>
      accelerator_env_is_enabled p (lit ''CUDA_VISIBLE_DEVICES'') \<or>
      accelerator_env_is_enabled p (lit ''NVIDIA_VISIBLE_DEVICES''))"

definition rocm_signal :: "platform \<Rightarrow> bool" where
  "rocm_signal p = rocm_available_from_signals (pt_exists p (lit ''/dev/kfd''))
     (pt_env p (lit ''ROCR_VISIBLE_DEVICES'')) (pt_env p (lit ''HIP_VISIBLE_DEVICES'')) (pt_env p (lit ''CUDA_VISIBLE_DEVICES''))"

definition detected_accelerator :: "platform \<Rightarrow> runtime_accelerator" where
  "detected_accelerator p =
     (case configured_media_accelerator p of
        Some a \<Rightarrow> a
      | None \<Rightarrow> accelerator_from_platform_signals (pt_strix_halo p) (nvidia_signal p) (cuda_signal p) (rocm_signal p))"

fun accelerator_debug :: "runtime_accelerator \<Rightarrow> rstr" where
  "accelerator_debug Cpu = lit ''Cpu''"
| "accelerator_debug Cuda = lit ''Cuda''"
| "accelerator_debug Rocm = lit ''Rocm''"
| "accelerator_debug Mps = lit ''Mps''"
| "accelerator_debug Mlx = lit ''Mlx''"
| "accelerator_debug OtherAccelerator = lit ''Other''"

section \<open>The host\<close>

definition host_memory :: "platform \<Rightarrow> nat option" where
  "host_memory p =
     (case pt_file p (lit ''/proc/meminfo'') of
        None \<Rightarrow> None
      | Some data \<Rightarrow> (case find (starts_with (lit ''MemAvailable:'')) (str_lines data) of
            None \<Rightarrow> None
          | Some line \<Rightarrow> (case split_whitespace line of
                _ # v # _ \<Rightarrow> map_option (\<lambda>kib. sat_mul kib 1024) (parse_unsigned u64_max v)
              | _ \<Rightarrow> None)))"

definition configured_memory :: "platform \<Rightarrow> nat option" where
  "configured_memory p = Option.bind (pt_env p (lit ''WERK_ACCELERATOR_MEMORY_BYTES'')) (parse_unsigned u64_max)"

definition detect_host_resources :: "platform \<Rightarrow> host_resources" where
  "detect_host_resources p =
     (let a = detected_accelerator p; topology = detected_memory_topology p a in
      \<lparr>hr_host_memory_bytes = host_memory p,
       hr_accelerator_memory_bytes =
         select_accelerator_memory_bytes a (configured_memory p) topology (detected_accelerator_memory_bytes p a),
       hr_accelerator = Some (to_ascii_lowercase (accelerator_debug a)),
       hr_memory_topology = topology\<rparr>)"

section \<open>Facts\<close>

lemma collect_options_Some: "collect_options xs = Some ys \<longleftrightarrow> xs = map Some ys"
  by (induction xs arbitrary: ys rule: collect_options.induct) auto

lemma unambiguous_rows:
  assumes "unambiguous_nvidia_smi_memory_bytes output = Some b"
  shows "smi_rows output \<noteq> [] \<and> (\<forall>r \<in> set (smi_rows output). smi_row r = Some b)"
proof -
  from assms obtain first rest where c: "collect_options (map smi_row (smi_rows output)) = Some (first # rest)"
    "list_all (\<lambda>v. v = first) (first # rest)" "b = first"
    by (auto simp: unambiguous_nvidia_smi_memory_bytes_def split: option.splits list.splits if_splits)
  then have m: "map smi_row (smi_rows output) = map Some (first # rest)" by (simp only: collect_options_Some)
  then have "set (map smi_row (smi_rows output)) = Some ` set (first # rest)" by (metis list.set_map)
  with c(2,3) have "\<forall>r \<in> set (smi_rows output). smi_row r = Some b" by (auto simp: list_all_iff)
  with m show ?thesis by auto
qed

text \<open>
  A disabled mask is final: with no accelerator configured, when the process masks switch
  CUDA off and the selected ROCm mask switches ROCm off, detection answers with the processor
  alone, without accelerator memory and without probing.
\<close>

theorem disabled_masks_respected:
  assumes "configured_media_accelerator p = None" "cuda_visibility_disables_accelerator p"
    and "pt_env p (lit ''ROCR_VISIBLE_DEVICES'') = Some v" "visibility_value_disables_accelerator v"
  shows "detected_accelerator p = Cpu \<and>
    hr_accelerator_memory_bytes (detect_host_resources p) = None \<and>
    nvidia_smi_memory_bytes p = None"
proof (intro conjI)
  have "\<not> rocm_signal p" using assms(3,4) by (simp add: rocm_signal_def rocm_available_from_signals_def)
  moreover have "\<not> cuda_signal p" using assms(2) by (simp add: cuda_signal_def)
  ultimately show cpu: "detected_accelerator p = Cpu"
    using assms(1) by (simp add: detected_accelerator_def accelerator_from_platform_signals_def accelerator_from_hardware_signals_def)
  then show "hr_accelerator_memory_bytes (detect_host_resources p) = None"
    by (simp add: detect_host_resources_def select_accelerator_memory_bytes_def)
  show "nvidia_smi_memory_bytes p = None" using assms(2) by (simp add: nvidia_smi_memory_bytes_def)
qed

definition masked_platform :: platform where
  "masked_platform = \<lparr>pt_env = [lit ''CUDA_VISIBLE_DEVICES'' \<mapsto> lit ''-1'', lit ''ROCR_VISIBLE_DEVICES'' \<mapsto> lit ''none''],
     pt_exists = (\<lambda>_. True), pt_file = (\<lambda>_. None), pt_smi = (\<lambda>_ _. None), pt_arch = lit ''x86_64'',
     pt_strix_halo = False, pt_selected_rocm_strix_halo = False\<rparr>"

theorem disabled_masks_respected_witness:
  "detected_accelerator masked_platform = Cpu \<and> nvidia_smi_memory_bytes masked_platform = None"
proof -
  have words: "visibility_value_disables_accelerator (lit ''-1'')" "visibility_value_disables_accelerator (lit ''none'')"
    by (simp_all add: visibility_value_disables_accelerator_def first_piece_def split_at_char_def MASK_WORDS_def
      trim_def trim_start_def trim_end_def is_whitespace_def split_by_def Let_def lit_def to_ascii_lowercase_def
      ascii_lower_def is_ascii_upper_def)
  have a: "configured_media_accelerator masked_platform = None"
    by (simp add: configured_media_accelerator_def masked_platform_def lit_def)
  have b: "cuda_visibility_disables_accelerator masked_platform"
    using words by (simp add: cuda_visibility_disables_accelerator_def masked_platform_def lit_def)
  have c: "pt_env masked_platform (lit ''ROCR_VISIBLE_DEVICES'') = Some (lit ''none'')"
    by (simp add: masked_platform_def)
  from disabled_masks_respected [OF a b c words(2)] show ?thesis by simp
qed

text \<open>
  Memory that is neither configured nor on a unified system is what every row of one
  \<open>nvidia-smi\<close> answer says.
\<close>

theorem detected_memory_unambiguous:
  assumes "hr_accelerator_memory_bytes (detect_host_resources p) = Some b" "configured_memory p = None"
  shows "detected_accelerator p = Cuda \<and> hr_memory_topology (detect_host_resources p) \<noteq> Some Unified \<and>
    (\<exists>program args output. pt_smi p program args = Some output \<and> smi_rows output \<noteq> [] \<and>
       (\<forall>r \<in> set (smi_rows output). smi_row r = Some b))"
proof -
  have q: "\<exists>program args output. pt_smi p program args = Some output \<and> smi_rows output \<noteq> [] \<and>
       (\<forall>r \<in> set (smi_rows output). smi_row r = Some b)"
    if "query_nvidia_smi_memory p prog dev = Some b" for prog dev
    using that unambiguous_rows unfolding query_nvidia_smi_memory_def Let_def bind_eq_Some_conv by blast
  from assms show ?thesis
    using q
    by (auto simp: detect_host_resources_def Let_def select_accelerator_memory_bytes_def
      detected_accelerator_memory_bytes_def nvidia_smi_memory_bytes_def probe_nvidia_smi_memory_bytes_def
      split: if_splits option.splits)
qed

end
