(* ===== verification/Float64_Text.thy ===== *)
theory Float64_Text
  imports Float64 Rust_Text
begin

text \<open>
  Conversions of \<open>f64\<close> that the program uses: the exact fraction of a finite number, rounding
  to an integer, \<open>max\<close>, the text of \<open>format!\<close> with a fixed number of decimals (nearest, ties to
  even) and of \<open>to_string\<close> (the shortest decimal that reads back).
\<close>

section \<open>Fractions and integers\<close>

text \<open>The magnitude of a finite number is \<open>f64_num / f64_den\<close>.\<close>

definition f64_num :: "f64 \<Rightarrow> nat" where
  "f64_num w = f64_mantissa w * 2 ^ nat (f64_exponent w)"

definition f64_den :: "f64 \<Rightarrow> nat" where
  "f64_den w = 2 ^ nat (- f64_exponent w)"

definition f64_max :: "f64 \<Rightarrow> f64 \<Rightarrow> f64" where
  "f64_max a b = (if f64_nan a then b else if f64_nan b then a else if f64_lt a b then b else a)"

text \<open>\<open>round\<close> of a number with sign plus: to nearest, ties away from zero.\<close>

definition f64_round_nat :: "f64 \<Rightarrow> nat" where
  "f64_round_nat w = (2 * f64_num w + f64_den w) div (2 * f64_den w)"

section \<open>Text\<close>

definition pad_zeros :: "nat \<Rightarrow> rstr \<Rightarrow> rstr" where
  "pad_zeros k s = replicate (k - length s) 48 @ s"

definition decimal_places :: "nat \<Rightarrow> nat \<Rightarrow> rstr" where
  "decimal_places p q =
     (if p = 0 then decimal q
      else decimal (q div 10 ^ p) @ 46 # pad_zeros p (decimal (q mod 10 ^ p)))"

definition f64_text :: "f64 \<Rightarrow> (nat \<Rightarrow> nat \<Rightarrow> rstr) \<Rightarrow> rstr" where
  "f64_text w positive =
     (if f64_nan w then lit ''NaN''
      else (if f64_negative w then [45] else [])
        @ (if \<not> f64_is_finite w then lit ''inf'' else positive (f64_num w) (f64_den w)))"

definition f64_fixed :: "nat \<Rightarrow> f64 \<Rightarrow> rstr" where
  "f64_fixed p w = f64_text w (\<lambda>n d. decimal_places p (div_ties_even (n * 10 ^ p) d))"

text \<open>
  The shortest text: for 1 to 17 significant digits, the two neighbouring decimals; the
  first that reads back, and the closer one if both do.
\<close>

definition decimal_exponent :: "nat \<Rightarrow> nat \<Rightarrow> int" where
  "decimal_exponent n d =
     (if d \<le> n then int (length (decimal (n div d))) - 1
      else (let l = length (decimal d) - length (decimal n)
            in if d \<le> n * 10 ^ l then - int l else - int l - 1))"

definition reads_back :: "nat \<Rightarrow> nat \<Rightarrow> int \<Rightarrow> nat \<Rightarrow> bool" where
  "reads_back n d s q \<longleftrightarrow> f64_round (q * 10 ^ nat (- s)) (10 ^ nat s) = f64_round n d"

definition digits_candidate :: "nat \<Rightarrow> nat \<Rightarrow> nat \<Rightarrow> (nat \<times> int) option" where
  "digits_candidate n d k =
     (let s = int k - 1 - decimal_exponent n d;
          a = n * 10 ^ nat s; b = d * 10 ^ nat (- s);
          low = a div b;
          (high, hs) = (if low + 1 = 10 ^ k then (1, s - int k) else (low + 1, s))
      in if reads_back n d s low \<and> (2 * (a mod b) \<le> b \<or> \<not> reads_back n d hs high) then Some (low, s)
         else if reads_back n d hs high then Some (high, hs)
         else None)"

fun first_candidate :: "nat \<Rightarrow> nat \<Rightarrow> nat list \<Rightarrow> (nat \<times> int) option" where
  "first_candidate n d [] = None"
| "first_candidate n d (k # ks) =
     (case digits_candidate n d k of Some c \<Rightarrow> Some c | None \<Rightarrow> first_candidate n d ks)"

definition shortest_text :: "nat \<Rightarrow> nat \<Rightarrow> rstr" where
  "shortest_text n d =
     (if n = 0 then [48]
      else (case first_candidate n d [1..<18] of
          None \<Rightarrow> []
        | Some (q, s) \<Rightarrow> decimal_places (nat s) (q * 10 ^ nat (- s))))"

definition f64_show :: "f64 \<Rightarrow> rstr" where
  "f64_show w = f64_text w shortest_text"

section \<open>Facts\<close>

lemma f64_den_pos [simp]: "0 < f64_den w"
  by (simp add: f64_den_def)

lemma f64_round_nat_le: "f64_num w \<le> k * f64_den w \<Longrightarrow> f64_round_nat w \<le> k"
proof -
  assume "f64_num w \<le> k * f64_den w"
  then have "2 * f64_num w \<le> 2 * (k * f64_den w)" by (rule mult_le_mono2)
  then have "2 * f64_num w + f64_den w < Suc k * (2 * f64_den w)"
    using f64_den_pos [of w] unfolding mult_Suc by linarith
  then have "f64_round_nat w < Suc k"
    unfolding f64_round_nat_def by (rule less_mult_imp_div_less)
  then show ?thesis by simp
qed

text \<open>The text of a candidate reads back as the number, by construction.\<close>

lemma digits_candidate_reads_back: "digits_candidate n d k = Some (q, s) \<Longrightarrow> reads_back n d s q"
  by (auto simp: digits_candidate_def Let_def split: prod.splits if_splits)

lemma first_candidate_reads_back: "first_candidate n d ks = Some (q, s) \<Longrightarrow> reads_back n d s q"
  by (induction ks) (auto split: option.splits dest: digits_candidate_reads_back)

end
