(* ===== verification/Workload_Estimate.thy ===== *)
theory Workload_Estimate
  imports Platform_Signals Float64_Text
begin

text \<open>
  The workload estimate (\<open>src/src/inference/estimate.rs\<close>): sizes of the stored artifacts,
  activation and output sizes by medium, precision and attention scales, peaks on the
  accelerator and on the host, the classification against the detected memory, and the texts
  the estimate carries. \<open>u64\<close> arithmetic saturates except in the runtime overhead, where a
  release build wraps; ratios and scales are \<open>f64\<close>.
\<close>

section \<open>Sizes and texts\<close>

definition quoted :: "rstr \<Rightarrow> rstr" where
  "quoted s = 39 # s @ [39]"

definition GIBIBYTE :: nat where "GIBIBYTE = 1073741824"
definition MEBIBYTE :: nat where "MEBIBYTE = 1048576"
definition KIBIBYTE :: nat where "KIBIBYTE = 1024"

definition in_unit :: "nat \<Rightarrow> nat \<Rightarrow> rstr" where
  "in_unit bytes u = f64_fixed 2 (f64_div (f64_of_nat bytes) (f64_of_nat u))"

definition format_memory_bytes :: "nat \<Rightarrow> rstr" where
  "format_memory_bytes bytes =
     (if GIBIBYTE \<le> bytes then in_unit bytes GIBIBYTE @ lit '' GiB''
      else if MEBIBYTE \<le> bytes then in_unit bytes MEBIBYTE @ lit '' MiB''
      else if KIBIBYTE \<le> bytes then in_unit bytes KIBIBYTE @ lit '' KiB''
      else decimal bytes @ lit '' B'')"

definition saturating_f64_to_u64 :: "f64 \<Rightarrow> nat" where
  "saturating_f64_to_u64 x =
     (if \<not> f64_is_finite x \<or> f64_le x 0 then 0
      else if f64_le (f64_of_nat u64_max) x then u64_max
      else f64_round_nat x)"

definition WEIGHT_EXTENSIONS :: "rstr list" where
  "WEIGHT_EXTENSIONS =
     [lit ''.safetensors'', lit ''.gguf'', lit ''.bin'', lit ''.pt'', lit ''.pth'', lit ''.onnx'',
      lit ''.engine'', lit ''.plan'', lit ''.npz'']"

definition is_weight_path :: "rstr \<Rightarrow> bool" where
  "is_weight_path path \<longleftrightarrow> list_ex (\<lambda>extension. ends_with extension (to_ascii_lowercase path)) WEIGHT_EXTENSIONS"

definition sat_sum :: "nat list \<Rightarrow> nat" where
  "sat_sum = foldl sat_add 0"

definition download_size :: "model_manifest \<Rightarrow> nat" where
  "download_size m = sat_sum (map fl_size (mf_files m))"

definition weight_payload :: "model_manifest \<Rightarrow> nat" where
  "weight_payload m = sat_sum (map fl_size (filter (\<lambda>f. is_weight_path (fl_path f)) (mf_files m)))"

definition model_weights :: "model_manifest \<Rightarrow> nat" where
  "model_weights m = (if weight_payload m = 0 then download_size m else weight_payload m)"

section \<open>Activation and output by medium\<close>

definition or_u64 :: "nat option \<Rightarrow> nat \<Rightarrow> nat" where
  "or_u64 given fallback = (case given of None \<Rightarrow> fallback | Some n \<Rightarrow> n)"

definition scoped :: "effective_request \<Rightarrow> char list \<Rightarrow> rstr" where
  "scoped r name = parameter_namespace (er_task r) @ 46 # lit name"

definition batch_size :: "effective_request \<Rightarrow> nat" where
  "batch_size r = max (or_u64 (u64_parameter r (scoped r ''batch_size'')) 1) 1"

definition steps_text :: "nat \<Rightarrow> rstr" where
  "steps_text n = decimal n @ lit '' denoising step(s); steps affect runtime more than peak memory''"

definition image_workload :: "effective_request \<Rightarrow> nat \<times> nat \<times> rstr list" where
  "image_workload r =
     (let typed = image_generation_options r;
          width = or_u64 (map_option io_width typed) 1024;
          height = or_u64 (map_option io_height typed) 1024;
          images = or_u64 (u64_parameter r (lit ''image.num_images'')) 1;
          pixels = sat_mul (sat_mul (sat_mul width height) (batch_size r)) images;
          tiled = (bool_parameter r (lit ''image.vae_tiling'') = Some True);
          sliced = (bool_parameter r (lit ''image.vae_slicing'') = Some True);
          a0 = sat_mul pixels 96;
          a1 = (if tiled then sat_mul a0 3 div 5 else a0);
          a2 = (if sliced then sat_mul a1 4 div 5 else a1)
      in (a2, sat_mul pixels 4,
          (if tiled then [lit ''VAE tiling reduces estimated activation peak''] else [])
          @ (if sliced then [lit ''VAE slicing reduces estimated activation peak''] else [])
          @ [steps_text (or_u64 (map_option io_steps typed) 28)]))"

definition video_output :: "video_options option \<Rightarrow> nat \<Rightarrow> nat \<Rightarrow> nat \<Rightarrow> nat" where
  "video_output typed frames videos bitrate =
     (let fps = (case typed of None \<Rightarrow> f64_of_nat 24 | Some t \<Rightarrow> vo_fps t);
          duration = f64_div (f64_of_nat frames) (f64_max fps (f64_ratio 1 10))
      in sat_mul (saturating_f64_to_u64
           (f64_div (f64_mul duration (f64_of_nat bitrate)) (f64_of_nat 8))) videos)"

definition video_workload :: "effective_request \<Rightarrow> nat \<times> nat \<times> rstr list" where
  "video_workload r =
     (let typed = video_generation_options r;
          width = or_u64 (map_option vo_width typed) 832;
          height = or_u64 (map_option vo_height typed) 480;
          frames = or_u64 (map_option vo_frames typed) 81;
          videos = or_u64 (u64_parameter r (lit ''video.num_videos'')) 1;
          pixels = sat_mul (sat_mul (sat_mul (sat_mul width height) frames) (batch_size r)) videos;
          windowed = (bool_parameter r (lit ''video.temporal_vae_tiling'') = Some True
            \<or> u64_parameter r (lit ''video.window_size'') \<noteq> None);
          a0 = sat_mul pixels 36;
          a1 = (if windowed then sat_mul a0 11 div 20 else a0)
      in (a1,
          (case u64_parameter r (lit ''video.bitrate'') of
             None \<Rightarrow> sat_mul pixels 3 div 20
           | Some bitrate \<Rightarrow> video_output typed frames videos bitrate),
          (if windowed then [lit ''temporal tiling/windowing reduces estimated activation peak''] else [])
          @ [steps_text (or_u64 (map_option vo_steps typed) 30)]))"

definition first_some :: "'a option \<Rightarrow> 'a option \<Rightarrow> 'a option" where
  "first_some a b = (case a of None \<Rightarrow> b | Some x \<Rightarrow> Some x)"

definition stem_count :: "effective_request \<Rightarrow> nat" where
  "stem_count r =
     max (or_u64 (map_option length (list_parameter (er_parameter r (lit ''audio.stems'')))) 1) 1"

definition audio_duration :: "effective_request \<Rightarrow> f64" where
  "audio_duration r =
     f64_max (case first_some (f64_parameter r (scoped r ''duration''))
                (map_option ao_duration (audio_generation_options r)) of
                None \<Rightarrow> f64_of_nat 30 | Some d \<Rightarrow> d) 0"

definition audio_workload :: "effective_request \<Rightarrow> nat \<times> nat \<times> rstr list" where
  "audio_workload r =
     (let typed = audio_generation_options r;
          duration = audio_duration r;
          rate = or_u64 (first_some (u64_parameter r (scoped r ''sample_rate'')) (map_option ao_sample_rate typed)) 44100;
          channels = or_u64 (first_some (u64_parameter r (scoped r ''channels'')) (map_option ao_channels typed)) 2;
          variations = or_u64 (u64_parameter r (lit ''audio.variations'')) 1;
          stems = stem_count r;
          samples = sat_mul (sat_mul (saturating_f64_to_u64 (f64_mul duration (f64_of_nat rate))) channels) variations;
          bit_depth = max (or_u64 (u64_parameter r (scoped r ''bit_depth'')) 16) 1;
          one = (case u64_parameter r (scoped r ''bitrate'') of
             None \<Rightarrow> (sat_mul samples bit_depth + 7) div 8
           | Some bitrate \<Rightarrow> sat_mul (saturating_f64_to_u64
               (f64_div (f64_mul duration (f64_of_nat bitrate)) (f64_of_nat 8))) variations)
      in (sat_mul (sat_mul samples 24) stems, sat_mul one stems, []))"

definition medium_workload :: "effective_request \<Rightarrow> nat \<Rightarrow> nat \<times> nat \<times> rstr list" where
  "medium_workload r weights =
     (case task_output_modality (er_task r) of
        OutImage \<Rightarrow> image_workload r
      | OutVideo \<Rightarrow> video_workload r
      | OutAudio \<Rightarrow> audio_workload r
      | OutText \<Rightarrow> (weights div 10, 4194304, [])
      | OutEmbedding \<Rightarrow> (weights div 10, 4194304, []))"

section \<open>Scales\<close>

definition lowered :: "effective_request \<Rightarrow> rstr \<Rightarrow> rstr" where
  "lowered r path = to_ascii_lowercase
     (case string_parameter r path of None \<Rightarrow> lit ''auto'' | Some s \<Rightarrow> s)"

definition precision_scale :: "rstr \<Rightarrow> f64" where
  "precision_scale p =
     (if p \<in> {lit ''fp16'', lit ''float16'', lit ''half'', lit ''bf16'', lit ''bfloat16''} then f64_ratio 6 10
      else if p \<in> {lit ''fp8'', lit ''float8'', lit ''int8''} then f64_ratio 4 10
      else if p \<in> {lit ''int4'', lit ''nf4''} then f64_ratio 3 10
      else f64_of_nat 1)"

definition attention_scale :: "rstr \<Rightarrow> f64" where
  "attention_scale a =
     (if a \<in> {lit ''flash'', lit ''flash_attention'', lit ''flash-attention'', lit ''xformers''}
      then f64_ratio 78 100
      else if a = lit ''sliced'' then f64_ratio 65 100
      else if a = lit ''sdpa'' then f64_ratio 88 100
      else f64_of_nat 1)"

definition scaled_activation :: "effective_request \<Rightarrow> nat \<Rightarrow> nat" where
  "scaled_activation r activation =
     saturating_f64_to_u64 (f64_mul (f64_mul (f64_of_nat activation)
       (precision_scale (lowered r (lit ''routing.precision''))))
       (attention_scale (lowered r (lit ''routing.attention_backend''))))"

definition runtime_overhead :: "model_manifest \<Rightarrow> nat" where
  "runtime_overhead m =
     (model_weights m div 8 + 268435456 + sat_mul (length (mf_components m)) 33554432) mod (u64_max + 1)"

section \<open>Offload already selected\<close>

definition adjusted_true :: "effective_request \<Rightarrow> rstr \<Rightarrow> bool" where
  "adjusted_true r path =
     (case map_of (er_parameters r) path of None \<Rightarrow> False
      | Some p \<Rightarrow> rp_source p = BackendAdjustment \<and> as_bool (rp_value p) = Some True)"

definition offload_selected :: "effective_request \<Rightarrow> bool" where
  "offload_selected r \<longleftrightarrow> list_ex (adjusted_true r) [CPU_OFFLOAD, SEQUENTIAL_OFFLOAD, COMPONENT_OFFLOAD]"

section \<open>Classification\<close>

definition SHARED_LABELS :: "rstr list" where
  "SHARED_LABELS = [lit ''cuda'', lit ''rocm'', lit ''hip'', lit ''mps'', lit ''metal'', lit ''mlx'']"

definition uses_accelerator :: "host_resources \<Rightarrow> bool" where
  "uses_accelerator hr =
     (case hr_accelerator hr of None \<Rightarrow> False | Some a \<Rightarrow> to_ascii_lowercase a \<in> set SHARED_LABELS)"

definition unified_shared_capacity_oom :: "nat option \<Rightarrow> host_resources \<Rightarrow> bool" where
  "unified_shared_capacity_oom peak hr \<longleftrightarrow>
     hr_memory_topology hr = Some Unified \<and> hr_accelerator_memory_bytes hr = None
     \<and> reaches peak (hr_host_memory_bytes hr)"

definition ratio_of :: "nat option \<Rightarrow> nat option \<Rightarrow> f64 list" where
  "ratio_of peak limit =
     (case (peak, limit) of
        (Some p, Some l) \<Rightarrow> [f64_div (f64_of_nat p) (f64_of_nat (max l 1))]
      | _ \<Rightarrow> [])"

definition TIGHT_RATIO :: f64 where "TIGHT_RATIO = f64_ratio 85 100"

definition classify_workload_fit :: "nat option \<Rightarrow> nat option \<Rightarrow> host_resources \<Rightarrow> fit_assessment" where
  "classify_workload_fit accelerator_peak host_peak hr =
     (if reaches accelerator_peak (hr_accelerator_memory_bytes hr)
         \<or> unified_shared_capacity_oom accelerator_peak hr
         \<or> reaches host_peak (hr_host_memory_bytes hr)
      then LikelyOom
      else if accelerator_peak \<noteq> None \<and> hr_accelerator_memory_bytes hr = None \<and> uses_accelerator hr
      then UnknownFit
      else (case ratio_of accelerator_peak (hr_accelerator_memory_bytes hr)
                 @ ratio_of host_peak (hr_host_memory_bytes hr) of
              [] \<Rightarrow> UnknownFit
            | x # xs \<Rightarrow> if f64_le TIGHT_RATIO (foldl f64_max x xs) then Tight else Fits))"

section \<open>The estimate\<close>

definition accelerator_peak_of :: "model_manifest \<Rightarrow> effective_request \<Rightarrow> nat" where
  "accelerator_peak_of m r =
     sat_add (sat_add (model_weights m) (scaled_activation r (fst (medium_workload r (model_weights m)))))
       (runtime_overhead m)"

definition host_peak_of :: "model_manifest \<Rightarrow> effective_request \<Rightarrow> nat" where
  "host_peak_of m r =
     (if offload_selected r
      then sat_add (sat_add (model_weights m)
             (scaled_activation r (fst (medium_workload r (model_weights m))) div 3)) 536870912
      else model_weights m div 4 + 536870912)"

definition unified_warnings :: "nat \<Rightarrow> host_resources \<Rightarrow> rstr list" where
  "unified_warnings peak hr =
     (if hr_memory_topology hr = Some Unified \<and> uses_accelerator hr
      then (if hr_accelerator_memory_bytes hr = None
            then (if unified_shared_capacity_oom (Some peak) hr
                  then [lit ''estimated accelerator peak of '' @ format_memory_bytes peak
                        @ lit '' reaches or exceeds the unified-memory host-visible hard bound of ''
                        @ format_memory_bytes (or_u64 (hr_host_memory_bytes hr) 0)]
                  else [lit ''unified-memory hardware has no independently reported accelerator-memory capacity; accelerator fit remains unknown and CPU offload does not create an independent memory pool''])
            else [lit ''the configured accelerator-memory limit belongs to the same unified-memory system and is not added to host memory''])
      else [])"

definition limit_warning :: "char list \<Rightarrow> nat \<Rightarrow> nat option \<Rightarrow> rstr list" where
  "limit_warning which peak limit =
     (case limit of None \<Rightarrow> []
      | Some l \<Rightarrow> if l \<le> peak
          then [lit ''estimated '' @ lit which @ lit '' peak of '' @ format_memory_bytes peak
                @ lit '' reaches or exceeds detected '' @ lit which @ lit '' memory limit of ''
                @ format_memory_bytes l]
          else [])"

definition limit_assumption :: "char list \<Rightarrow> nat option \<Rightarrow> rstr list" where
  "limit_assumption which limit =
     (case limit of None \<Rightarrow> []
      | Some l \<Rightarrow> [lit ''detected '' @ lit which @ lit '' memory limit is '' @ format_memory_bytes l])"

definition scale_assumption :: "char list \<Rightarrow> rstr \<Rightarrow> rstr list" where
  "scale_assumption what chosen =
     (if chosen = lit ''auto'' then []
      else [lit ''activation estimate scaled for '' @ lit what @ 32 # quoted chosen])"

definition estimate_assumptions :: "model_manifest \<Rightarrow> effective_request \<Rightarrow> host_resources \<Rightarrow> rstr list" where
  "estimate_assumptions m r hr =
     [lit ''weights are estimated from stored artifact sizes'',
      lit ''runtime allocator fragmentation is approximated'']
     @ snd (snd (medium_workload r (model_weights m)))
     @ scale_assumption ''requested precision'' (lowered r (lit ''routing.precision''))
     @ scale_assumption ''attention backend'' (lowered r (lit ''routing.attention_backend''))
     @ [decimal (length (mf_components m)) @ lit '' detected model component(s) contribute runtime overhead'']
     @ (if hr_memory_topology hr = Some Unified
        then [lit ''host MemAvailable is treated as the conservative host-visible capacity within the shared CPU/GPU unified-memory system'']
        else [])
     @ limit_assumption ''accelerator'' (hr_accelerator_memory_bytes hr)
     @ limit_assumption ''host'' (hr_host_memory_bytes hr)"

definition fit_warnings :: "fit_assessment \<Rightarrow> rstr list" where
  "fit_warnings fit =
     (case fit of
        Tight \<Rightarrow> [lit ''estimated peak is close to available memory'']
      | LikelyOom \<Rightarrow> [lit ''estimated workload does not fit reported resources'']
      | _ \<Rightarrow> [])"

definition fit_recommendations :: "fit_assessment \<Rightarrow> rstr list" where
  "fit_recommendations fit =
     (case fit of
        Tight \<Rightarrow> [lit ''enable component offload or task-specific tiling/windowing'']
      | LikelyOom \<Rightarrow>
          [lit ''try another runtime or enable CPU/sequential offload and tiling'',
           lit ''resolution, frames, duration, or model downgrades are recommendations only'']
      | _ \<Rightarrow> [])"

definition estimate_workload :: "model_manifest \<Rightarrow> effective_request \<Rightarrow> host_resources \<Rightarrow> workload_estimate" where
  "estimate_workload m r hr =
     (let accelerator_peak = accelerator_peak_of m r;
          host_peak = host_peak_of m r;
          fit = classify_workload_fit (Some accelerator_peak) (Some host_peak) hr
      in \<lparr>we_task = er_task r,
          we_download_size_bytes = Some (download_size m),
          we_weight_payload_bytes = Some (model_weights m),
          we_accelerator_peak_bytes = Some accelerator_peak,
          we_accelerator_memory_limit_bytes = hr_accelerator_memory_bytes hr,
          we_host_peak_bytes = Some host_peak,
          we_host_memory_limit_bytes = hr_host_memory_bytes hr,
          we_output_size_bytes = Some (fst (snd (medium_workload r (model_weights m)))),
          we_fit = fit,
          we_confidence = Heuristic,
          we_assumptions = estimate_assumptions m r hr,
          we_warnings = unified_warnings accelerator_peak hr
            @ limit_warning ''accelerator'' accelerator_peak (hr_accelerator_memory_bytes hr)
            @ limit_warning ''host'' host_peak (hr_host_memory_bytes hr)
            @ fit_warnings fit,
          we_recommendations = fit_recommendations fit\<rparr>)"

end
