(* ===== verification/Plan_Notes.thy ===== *)
theory Plan_Notes
  imports Workload_Estimate
begin

text \<open>
  What plans say and what is read back from their words: the sentence of each reason
  (\<open>src/src/inference/planner.rs\<close>), the fallback note of a plan, the routing diagnostics that
  keep repeated notes quiet, and the readiness rules of
  \<open>src/src/inference_service/service.rs\<close> that recognise explicit routing constraints by the
  text of the reasons.
\<close>

section \<open>Sentences\<close>

fun layout_debug :: "repository_layout \<Rightarrow> rstr" where
  "layout_debug SingleFile = lit ''SingleFile''"
| "layout_debug LayoutGguf = lit ''Gguf''"
| "layout_debug Transformers = lit ''Transformers''"
| "layout_debug Diffusers = lit ''Diffusers''"
| "layout_debug LayoutMlx = lit ''Mlx''"
| "layout_debug OnnxBundle = lit ''OnnxBundle''"
| "layout_debug TensorRtEngine = lit ''TensorRtEngine''"
| "layout_debug Custom = lit ''Custom''"

fun format_debug :: "model_format \<Rightarrow> rstr" where
  "format_debug FormatGguf = lit ''Gguf''"
| "format_debug SafeTensors = lit ''SafeTensors''"
| "format_debug PyTorch = lit ''PyTorch''"
| "format_debug Onnx = lit ''Onnx''"
| "format_debug FormatMlx = lit ''Mlx''"
| "format_debug TensorRt = lit ''TensorRt''"
| "format_debug OpenVino = lit ''OpenVino''"
| "format_debug TensorFlow = lit ''TensorFlow''"
| "format_debug CoreMl = lit ''CoreMl''"
| "format_debug UnknownFormat = lit ''Unknown''"

fun support_debug :: "parameter_support_status \<Rightarrow> rstr" where
  "support_debug Native = lit ''Native''"
| "support_debug Translated = lit ''Translated''"
| "support_debug Emulated = lit ''Emulated''"
| "support_debug Ignored = lit ''Ignored''"
| "support_debug Unsupported = lit ''Unsupported''"
| "support_debug ModelDependent = lit ''ModelDependent''"

fun reason_text :: "plan_reason \<Rightarrow> rstr" where
  "reason_text (NotAvailable s) = s"
| "reason_text (TaskUnsupported t) = lit ''runtime does not support task '' @ task_name t"
| "reason_text (LayoutUnsupported l) =
     lit ''runtime does not support '' @ layout_debug l @ lit '' repository layout''"
| "reason_text (FormatUnsupported f) =
     lit ''runtime does not support '' @ format_debug f @ lit '' model format''"
| "reason_text (FamilyUnsupported s) = lit ''runtime does not support model family '' @ quoted s"
| "reason_text (ArchitectureUnsupported s) = lit ''runtime does not support architecture '' @ quoted s"
| "reason_text (BackendRequested s) = lit ''explicit backend '' @ quoted s @ lit '' was requested''"
| "reason_text (AcceleratorRequested s) = lit ''accelerator '' @ quoted s @ lit '' was requested''"
| "reason_text (ParameterUnsupported s) = lit ''explicit parameter '' @ quoted s @ lit '' is unsupported''"
| "reason_text (AcceleratorMemoryExceeded peak limit) =
     lit ''estimated accelerator peak of '' @ format_memory_bytes peak
     @ lit '' reaches or exceeds detected accelerator memory limit of '' @ format_memory_bytes limit
     @ lit '' and no permitted offload could be selected''"
| "reason_text NoPermittedOffload =
     lit ''workload is likely out of memory and no permitted offload could be selected''"
| "reason_text (HostMemoryExceeded peak limit) =
     lit ''estimated host peak of '' @ format_memory_bytes peak
     @ lit '' reaches or exceeds detected host memory limit of '' @ format_memory_bytes limit
     @ lit ''; accelerator offload cannot resolve host-memory pressure''"
| "reason_text HostMemoryLikely =
     lit ''workload is likely out of host memory; accelerator offload cannot resolve host-memory pressure''"
| "reason_text (OffloadHostMemoryExceeded required limit) =
     lit ''projected host memory required with offload is '' @ format_memory_bytes required
     @ lit '', which reaches or exceeds detected host memory limit of '' @ format_memory_bytes limit
     @ lit ''; offload was not selected''"
| "reason_text (ExecutionFailed s) = lit ''backend execution failed: '' @ s"

fun warning_text :: "resolve_warning \<Rightarrow> rstr" where
  "warning_text (ExceedsMaximum path maximum) =
     lit ''explicit parameter '' @ quoted path @ lit '' exceeds the model-reported maximum ''
     @ f64_show maximum @ lit ''; it was forwarded unchanged''"
| "warning_text (RefusedByBackend path support) =
     to_ascii_lowercase (lit ''explicit parameter '' @ quoted path @ lit '' is ''
       @ support_debug support @ lit '' by the backend'')"

fun degradation_text :: "degradation \<Rightarrow> rstr" where
  "degradation_text CpuOffload = lit ''CPU offload''"
| "degradation_text SequentialOffload = lit ''sequential offload''"
| "degradation_text ComponentOffload = lit ''component offload''"
| "degradation_text VaeTiling = lit ''VAE tiling''"
| "degradation_text TemporalWindowing = lit ''temporal windowing''"
| "degradation_text (SlowerAttention backend) = lit ''slower attention backend '' @ quoted backend"

definition reason_texts :: "plan_reason list \<Rightarrow> rstr list" where
  "reason_texts = map reason_text"

definition fallback_note :: "rstr \<Rightarrow> execution_plan \<Rightarrow> rstr option" where
  "fallback_note model p =
     (case (ep_selected_runtime p, ep_fallback_chain p) of
        (Some selected, preferred # _) \<Rightarrow>
          Some (lit ''Model '' @ model @ lit '': preferred runtime '' @ quoted (cd_runtime_id preferred)
            @ lit '' is unavailable ('' @ join (lit ''; '') (reason_texts (cd_reasons preferred))
            @ lit ''). Using compatible fallback '' @ quoted selected @ lit ''.''
            @ (if ep_degradations p = [] then []
               else lit '' Execution adjustments: ''
                 @ join (lit '', '') (map degradation_text (ep_degradations p)) @ lit ''.''))
      | _ \<Rightarrow> None)"

section \<open>Routing diagnostics\<close>

type_synonym routes = "(rstr \<times> rstr, rstr \<times> rstr option) btree"

definition MAX_ROUTES :: nat where "MAX_ROUTES = 256"

definition routes_observe ::
  "rstr \<Rightarrow> inference_task \<Rightarrow> rstr \<Rightarrow> rstr option \<Rightarrow> routes \<Rightarrow> rstr option \<times> routes" where
  "routes_observe model task runtime note rs =
     (let k = (model, task_name task); route = (runtime, note) in
      if map_of rs k = Some route then (None, rs)
      else (note, bt_insert k route
              (if MAX_ROUTES \<le> length rs \<and> \<not> bt_contains k rs then tl rs else rs)))"

definition routes_inv :: "routes \<Rightarrow> bool" where
  "routes_inv rs \<longleftrightarrow> bt_wf rs \<and> length rs \<le> MAX_ROUTES"

type_synonym route_event = "rstr \<times> inference_task \<times> rstr \<times> rstr option"

definition observe_step :: "routes \<Rightarrow> route_event \<Rightarrow> routes" where
  "observe_step rs e = (case e of (model, task, runtime, note) \<Rightarrow> snd (routes_observe model task runtime note rs))"

lemma bt_wf_tl: "bt_wf m \<Longrightarrow> bt_wf (tl m)"
  by (cases m) (auto simp: bt_wf_def)

lemma routes_inv_observe: "routes_inv rs \<Longrightarrow> routes_inv (snd (routes_observe model task runtime note rs))"
  by (auto simp: routes_inv_def routes_observe_def Let_def bt_wf_insert bt_wf_tl length_insert
      bt_contains_iff MAX_ROUTES_def)

interpretation diagnostics: state_machine "[]" observe_step routes_inv
proof
  show "routes_inv []" by (simp add: routes_inv_def)
  show "routes_inv (observe_step rs e)" if "routes_inv rs" for rs e
    using routes_inv_observe [OF that] by (simp add: observe_step_def split: prod.splits)
qed

text \<open>
  The table never holds more than 256 routes; the latest route of a model and task is the
  one last observed, and repeating it at once is silent.
\<close>

theorem diagnostics_bounded_and_quiet:
  "length (run observe_step [] es) \<le> 256
   \<and> map_of (snd (routes_observe model task runtime note (run observe_step [] es))) (model, task_name task)
       = Some (runtime, note)
   \<and> fst (routes_observe model task runtime note (snd (routes_observe model task runtime note (run observe_step [] es))))
       = None"
proof -
  have "routes_inv (run observe_step [] es)"
    by (rule diagnostics.run_inv)
  then show ?thesis
    by (auto simp: routes_inv_def routes_observe_def Let_def MAX_ROUTES_def)
qed

section \<open>Reading constraints back from the words\<close>

definition explicit_backend_text :: "rstr \<Rightarrow> bool" where
  "explicit_backend_text s \<longleftrightarrow>
     starts_with (lit ''explicit backend '' @ [39]) s \<and> ends_with (39 # lit '' was requested'') s"

definition accelerator_text :: "rstr \<Rightarrow> bool" where
  "accelerator_text s \<longleftrightarrow>
     starts_with (lit ''accelerator '' @ [39]) s \<and> ends_with (39 # lit '' was requested'') s"

record routing_constraints =
  xc_backend :: bool
  xc_accelerator :: bool

fun scan_constraints :: "rstr list \<Rightarrow> routing_constraints \<Rightarrow> routing_constraints option" where
  "scan_constraints [] c = (if xc_backend c \<or> xc_accelerator c then Some c else None)"
| "scan_constraints (s # ss) c =
     (if explicit_backend_text s then scan_constraints ss (c\<lparr>xc_backend := True\<rparr>)
      else if accelerator_text s then scan_constraints ss (c\<lparr>xc_accelerator := True\<rparr>)
      else None)"

definition explicit_routing_constraints :: "rstr list \<Rightarrow> routing_constraints option" where
  "explicit_routing_constraints reasons =
     (if reasons = [] then None
      else scan_constraints reasons \<lparr>xc_backend = False, xc_accelerator = False\<rparr>)"

section \<open>Readiness\<close>

definition is_control :: "nat \<Rightarrow> bool" where
  "is_control c \<longleftrightarrow> c < 32 \<or> (127 \<le> c \<and> c < 160)"

definition is_ascii_whitespace :: "nat \<Rightarrow> bool" where
  "is_ascii_whitespace c \<longleftrightarrow> c \<in> {32, 9, 10, 12, 13}"

definition split_ascii_whitespace :: "rstr \<Rightarrow> rstr list" where
  "split_ascii_whitespace s = filter (\<lambda>p. p \<noteq> []) (split_by is_ascii_whitespace s)"

definition BACKEND_INSTALL_TARGETS :: "rstr list" where
  "BACKEND_INSTALL_TARGETS =
     [lit ''llama-cuda'', lit ''llama-cuda-nvfp4'', lit ''llama-cuda-offload'', lit ''llama-rocm'',
      lit ''llama-vulkan'', lit ''llama-metal'', lit ''llama-cpu'', lit ''onnx-cuda'', lit ''onnx-rocm'',
      lit ''onnx-cpu'', lit ''vllm'', lit ''omlx'', lit ''mlx'', lit ''mlx-vlm'', lit ''transformers'',
      lit ''media'', lit ''qwen-tts'', lit ''text-analysis'']"

definition validated_backend_install_command :: "rstr \<Rightarrow> rstr option" where
  "validated_backend_install_command command =
     (if list_ex is_control command then None
      else (case split_ascii_whitespace command of
          [w, b, i, target] \<Rightarrow>
            if w = lit ''werk'' \<and> b = lit ''backend'' \<and> i = lit ''install''
               \<and> target \<in> set BACKEND_INSTALL_TARGETS
            then Some (lit ''werk backend install '' @ target) else None
        | _ \<Rightarrow> None))"

definition normalize_task_readiness :: "task_readiness \<Rightarrow> task_readiness" where
  "normalize_task_readiness t =
     t\<lparr>tr_install_command :=
         (if tr_status t = Installable
          then Option.bind (tr_install_command t) validated_backend_install_command else None)\<rparr>"

record backend_probe =
  bp_available :: bool
  bp_detail :: rstr
  bp_candidates :: "runtime_candidate list"
  bp_parameter_support :: "(rstr, parameter_support_status) btree"
  bp_readiness :: "task_readiness option"

definition constrained_candidate :: "backend_probe \<Rightarrow> candidate_decision \<Rightarrow> (rstr \<times> routing_constraints) option" where
  "constrained_candidate b d =
     (case explicit_routing_constraints (reason_texts (cd_reasons d)) of None \<Rightarrow> None
      | Some k \<Rightarrow>
          if list_ex (\<lambda>c. rc_id c = cd_runtime_id d \<and> rc_available c) (bp_candidates b)
          then Some (cd_runtime_id d, k) else None)"

fun find_map :: "('a \<Rightarrow> 'b option) \<Rightarrow> 'a list \<Rightarrow> 'b option" where
  "find_map f [] = None"
| "find_map f (x # xs) = (case f x of Some y \<Rightarrow> Some y | None \<Rightarrow> find_map f xs)"

definition constraint_label :: "routing_constraints \<Rightarrow> rstr" where
  "constraint_label k =
     (if xc_backend k \<and> xc_accelerator k then lit ''explicit backend and accelerator/device constraints''
      else if xc_backend k then lit ''the explicit backend constraint''
      else lit ''the explicit accelerator/device constraint'')"

definition fallback_detail :: "rstr \<Rightarrow> routing_constraints \<Rightarrow> rstr" where
  "fallback_detail runtime k =
     lit ''runtime '' @ quoted runtime @ lit '' passed its backend probe but was rejected only by ''
     @ constraint_label k"

definition mark_fallback :: "task_readiness option \<Rightarrow> rstr \<Rightarrow> rstr \<Rightarrow> task_readiness" where
  "mark_fallback t runtime detail =
     (case t of
        None \<Rightarrow> \<lparr>tr_status = FallbackAvailable, tr_detail = detail, tr_adapter = None,
                 tr_required_backend = None, tr_install_command = None, tr_fallback_backend = Some runtime,
                 tr_missing_dependencies = [], tr_missing_dependency_groups = []\<rparr>
      | Some r \<Rightarrow> r\<lparr>tr_status := FallbackAvailable, tr_detail := detail, tr_install_command := None,
                    tr_fallback_backend := Some runtime\<rparr>)"

definition attach_probe_readiness :: "backend_probe \<Rightarrow> execution_plan \<Rightarrow> execution_plan" where
  "attach_probe_readiness b p =
     (let t = map_option normalize_task_readiness (bp_readiness b);
          q = p\<lparr>ep_task_readiness := t\<rparr>
      in if ep_selected_runtime p \<noteq> None then q
         else (case find_map (constrained_candidate b) (ep_candidates p) of
             None \<Rightarrow> q
           | Some (runtime, k) \<Rightarrow>
               q\<lparr>ep_task_readiness := Some (mark_fallback t runtime (fallback_detail runtime k))\<rparr>))"

definition doctor_hint :: "rstr \<Rightarrow> execution_plan \<Rightarrow> rstr" where
  "doctor_hint model p =
     lit ''Recommendation: inspect this exact model/task with `werk doctor --model '' @ model
     @ lit '' --task '' @ task_name (ep_task p) @ lit ''`''"

definition readiness_constraints :: "task_readiness \<Rightarrow> execution_plan \<Rightarrow> routing_constraints option" where
  "readiness_constraints t p =
     Option.bind (Option.bind (tr_fallback_backend t) (\<lambda>runtime. find (\<lambda>d. cd_runtime_id d = runtime) (ep_candidates p)))
       (\<lambda>d. explicit_routing_constraints (reason_texts (cd_reasons d)))"

definition constraint_action :: "routing_constraints option \<Rightarrow> rstr" where
  "constraint_action k =
     (case k of
        None \<Rightarrow> lit ''change the explicit routing constraints''
      | Some c \<Rightarrow>
          if xc_backend c \<and> xc_accelerator c
          then lit ''change or remove the explicit accelerator/device constraint and change the explicit backend or allow backend fallback''
          else if xc_backend c
          then lit ''change the explicit backend or use a fallback policy that permits backend fallback''
          else if xc_accelerator c
          then lit ''change or remove the explicit accelerator/device constraint''
          else lit ''change the explicit routing constraints'')"

definition task_readiness_recommendation :: "task_readiness \<Rightarrow> rstr \<Rightarrow> execution_plan \<Rightarrow> rstr option" where
  "task_readiness_recommendation t model p =
     (case tr_status t of
        ReadyAvailable \<Rightarrow> None
      | Installable \<Rightarrow> Some
          (case Option.bind (tr_install_command t) validated_backend_install_command of
             Some command \<Rightarrow> lit ''Recommendation: run `'' @ command
               @ lit ''`; no compatible fallback was verified''
           | None \<Rightarrow> doctor_hint model p)
      | NotImplemented \<Rightarrow> Some
          (lit ''No Werk execution adapter is implemented for model '' @ quoted model @ lit '' and task ''
           @ task_name (ep_task p) @ lit ''; installing an unrelated package will not enable it'')
      | FallbackAvailable \<Rightarrow> Some
          (lit ''A verified fallback runtime''
           @ (case tr_fallback_backend t of None \<Rightarrow> [] | Some b \<Rightarrow> 32 # quoted b)
           @ lit '' exists but the current routing constraints rejected it; ''
           @ constraint_action (readiness_constraints t p))
      | ReadyUnavailable \<Rightarrow> Some (doctor_hint model p))"

definition format_plan_rejections :: "execution_plan \<Rightarrow> rstr \<Rightarrow> rstr" where
  "format_plan_rejections p model =
     (let rejections = join (lit ''; '') (map (\<lambda>d. cd_runtime_id d @ lit '': ''
            @ join (lit '', '') (reason_texts (cd_reasons d))) (ep_candidates p))
      in case Option.bind (ep_task_readiness p) (\<lambda>t. task_readiness_recommendation t model p) of
           Some recommendation \<Rightarrow> rejections @ lit ''. '' @ recommendation
         | None \<Rightarrow> rejections)"

end
