(* ===== verification/Inference_Resolution.thy ===== *)
theory Inference_Resolution
  imports Inference_Planner
begin

text \<open>
  Request resolution (\<open>src/src/inference/resolution.rs\<close> with the normalisation and checks
  of \<open>src/src/inference/schema.rs\<close>): defaults in layers, list overrides, routing overrides,
  validation against the schema, the parameter policy and the explicit parameters. The
  tables of descriptors and defaults are an argument (\<open>resolution_tables\<close>), so the results
  hold for every schema; so is the conversion of the model's JSON defaults.
\<close>

section \<open>Values\<close>

text \<open>The derived equality of values.\<close>

fun pv_eq :: "parameter_value \<Rightarrow> parameter_value \<Rightarrow> bool" where
  "pv_eq PNull PNull = True"
| "pv_eq (PBoolean a) (PBoolean b) = (a = b)"
| "pv_eq (PInteger a) (PInteger b) = (a = b)"
| "pv_eq (PNumber a) (PNumber b) = f64_eq a b"
| "pv_eq (PString a) (PString b) = (a = b)"
| "pv_eq (PList as) (PList bs) = list_all2 pv_eq as bs"
| "pv_eq (PObject as) (PObject bs) = list_all2 (\<lambda>(k, a) (l, b). k = l \<and> pv_eq a b) as bs"
| "pv_eq _ _ = False"

section \<open>Errors\<close>

datatype resolve_error =
    ModelMismatch rstr rstr
  | TaskNotDeclared inference_task
  | PromptRequired inference_task
  | PromptNotConsumed inference_task
  | NegativePromptNotConsumed inference_task
  | InputRequired inference_task input_modality
  | InputRoleRequired inference_task rstr
  | DuplicateParameter rstr rstr
  | UnknownParameter rstr
  | ListOperationMissing rstr
  | ListValuesNotArray rstr
  | ListUnknownFields rstr "rstr list"
  | InheritedNotList rstr
  | ListOperationTakesNoValues rstr rstr
  | UnknownListOperation rstr rstr
  | WrongType rstr parameter_type
  | NotFinite rstr
  | BelowMinimum rstr
  | NotAllowed rstr
  | NotInSchema parameter_source rstr
  | UnknownPolicy rstr
  | ParameterRefused rstr parameter_support_status
  | SchemaError rstr
  | UnknownConstraintFields "rstr list"
  | AllowedValuesNotArray
  | MinimumExceedsMaximum
  | BoundNotNumeric rstr
  | StepNotPositive
  | InvalidConstraint rstr rstr resolve_error

section \<open>Paths and layers\<close>

type_synonym layer = "(rstr, parameter_value) btree"
type_synonym resolved = "(rstr, resolved_parameter) btree"
type_synonym descriptors = "(rstr, parameter_descriptor) btree"

fun trim_dashes :: "rstr \<Rightarrow> rstr" where
  "trim_dashes (c # d # s) = (if c = 45 \<and> d = 45 then trim_dashes s else c # d # s)"
| "trim_dashes s = s"

fun replace_dunder :: "rstr \<Rightarrow> rstr" where
  "replace_dunder (c # d # s) =
     (if c = 95 \<and> d = 95 then 46 # replace_dunder s else c # replace_dunder (d # s))"
| "replace_dunder s = s"

fun replace_first :: "rstr \<Rightarrow> rstr \<Rightarrow> rstr \<Rightarrow> rstr" where
  "replace_first p r [] = []"
| "replace_first p r (c # s) =
     (if starts_with p (c # s) then r @ drop (length p) (c # s) else c # replace_first p r s)"

definition normalize_parameter_path :: "inference_task \<Rightarrow> rstr \<Rightarrow> rstr" where
  "normalize_parameter_path task path =
     (let n = replace_dunder (replace_char 45 95 (trim_dashes (trim path)))
      in if 46 \<in> set n \<or> starts_with (lit ''routing_'') n
         then replace_first (lit ''routing_'') (lit ''routing.'') n
         else parameter_namespace task @ [46] @ n)"

fun normalize_entries ::
  "inference_task \<Rightarrow> rstr \<Rightarrow> (rstr \<times> parameter_value) list \<Rightarrow> layer \<Rightarrow> (resolve_error, layer) res"
where
  "normalize_entries task label [] acc = Ok acc"
| "normalize_entries task label ((raw, v) # es) acc =
     (let path = normalize_parameter_path task raw
      in if bt_contains path acc then Err (DuplicateParameter label path)
         else normalize_entries task label es (bt_insert path v acc))"

definition normalize_parameter_layer ::
  "inference_task \<Rightarrow> rstr \<Rightarrow> layer \<Rightarrow> (resolve_error, layer) res" where
  "normalize_parameter_layer task label l = normalize_entries task label l []"

definition descriptor_map :: "parameter_descriptor list \<Rightarrow> descriptors" where
  "descriptor_map schema = foldl (\<lambda>m d. bt_insert (pd_path d) d m) [] schema"

definition descriptor_default :: "parameter_descriptor \<Rightarrow> resolved_parameter" where
  "descriptor_default d =
     \<lparr>rp_value = (case pd_default d of None \<Rightarrow> PNull | Some v \<Rightarrow> v), rp_source = SystemDefault\<rparr>"

definition apply_descriptor_defaults :: "parameter_descriptor list \<Rightarrow> resolved \<Rightarrow> resolved" where
  "apply_descriptor_defaults schema ps =
     foldl (\<lambda>ps d. bt_insert (pd_path d) (descriptor_default d) ps) ps schema"

definition apply_layer :: "layer \<Rightarrow> parameter_source \<Rightarrow> resolved \<Rightarrow> resolved" where
  "apply_layer l source ps =
     foldl (\<lambda>ps (path, v). bt_insert path \<lparr>rp_value = v, rp_source = source\<rparr> ps) ps l"

definition schema_parameter_layer :: "layer \<Rightarrow> descriptors \<Rightarrow> layer" where
  "schema_parameter_layer l ds = filter (\<lambda>(path, _). bt_contains path ds) l"

section \<open>Validation\<close>

definition valid_type :: "parameter_type \<Rightarrow> parameter_value \<Rightarrow> bool" where
  "valid_type t v =
     (case t of
        TBoolean \<Rightarrow> as_bool v \<noteq> None
      | TInteger \<Rightarrow> as_i64 v \<noteq> None
      | TNumber \<Rightarrow> as_f64 v \<noteq> None
      | TString \<Rightarrow> as_str v \<noteq> None
      | TPath \<Rightarrow> as_str v \<noteq> None
      | TEnumeration \<Rightarrow> as_str v \<noteq> None
      | TList \<Rightarrow> (case v of PList _ \<Rightarrow> True | _ \<Rightarrow> False)
      | TObject \<Rightarrow> (case v of PObject _ \<Rightarrow> True | _ \<Rightarrow> False))"

definition check_number :: "parameter_descriptor \<Rightarrow> parameter_value \<Rightarrow> (resolve_error, unit) res" where
  "check_number d v =
     (case as_f64 v of
        None \<Rightarrow> Ok ()
      | Some number \<Rightarrow>
          if \<not> f64_is_finite number then Err (NotFinite (pd_path d))
          else (case Option.bind (pd_minimum d) as_f64 of
              None \<Rightarrow> Ok ()
            | Some minimum \<Rightarrow> if f64_lt number minimum then Err (BelowMinimum (pd_path d)) else Ok ()))"

definition validate_parameter ::
  "parameter_descriptor \<Rightarrow> parameter_value \<Rightarrow> (resolve_error, unit) res" where
  "validate_parameter d v =
     (if \<not> valid_type (pd_value_type d) v \<and> v \<noteq> PNull then Err (WrongType (pd_path d) (pd_value_type d))
      else res_bind (check_number d v) (\<lambda>_.
        if pd_allowed_values d \<noteq> [] \<and> \<not> list_ex (\<lambda>allowed. pv_eq allowed v) (pd_allowed_values d)
        then Err (NotAllowed (pd_path d)) else Ok ()))"

section \<open>List overrides\<close>

definition no_values_for :: "rstr \<Rightarrow> rstr \<Rightarrow> parameter_value list \<Rightarrow> 'a \<Rightarrow> (resolve_error, 'a) res" where
  "no_values_for path operation values result =
     (if values \<noteq> [] then Err (ListOperationTakesNoValues path operation) else Ok result)"

definition apply_list_operation ::
  "rstr \<Rightarrow> rstr \<Rightarrow> parameter_value list \<Rightarrow> parameter_value list \<Rightarrow>
     (resolve_error, parameter_value option) res"
where
  "apply_list_operation path operation values inherited =
     (if operation = lit ''inherit'' then no_values_for path operation values None
      else if operation = lit ''replace'' then Ok (Some (PList values))
      else if operation = lit ''add'' \<or> operation = lit ''append'' then Ok (Some (PList (inherited @ values)))
      else if operation = lit ''clear'' then no_values_for path operation values (Some (PList []))
      else Err (UnknownListOperation path operation))"

definition list_operation_rest ::
  "parameter_descriptor \<Rightarrow> rstr \<Rightarrow> parameter_value list \<Rightarrow> (rstr \<times> parameter_value) list \<Rightarrow>
     parameter_value option \<Rightarrow> (resolve_error, parameter_value option) res"
where
  "list_operation_rest d operation values unknown inherited =
     (if unknown \<noteq> [] then Err (ListUnknownFields (pd_path d) (map fst unknown))
      else (case inherited of
          Some (PList vs) \<Rightarrow> apply_list_operation (pd_path d) operation values vs
        | Some PNull \<Rightarrow> apply_list_operation (pd_path d) operation values []
        | None \<Rightarrow> apply_list_operation (pd_path d) operation values []
        | Some _ \<Rightarrow> Err (InheritedNotList (pd_path d))))"

definition resolve_list_parameter_override ::
  "parameter_descriptor \<Rightarrow> parameter_value \<Rightarrow> parameter_value option \<Rightarrow>
     (resolve_error, parameter_value option) res"
where
  "resolve_list_parameter_override d value inherited =
     (if pd_value_type d \<noteq> TList then Ok (Some value)
      else (case value of
        PObject entries \<Rightarrow>
          (case map_of entries (lit ''operation'') of
             Some (PString raw) \<Rightarrow>
               (let operation = to_ascii_lowercase (trim raw);
                    entries = bt_remove (lit ''operation'') entries
                in case map_of entries (lit ''values'') of
                     Some (PList values) \<Rightarrow> list_operation_rest d operation values (bt_remove (lit ''values'') entries) inherited
                   | Some _ \<Rightarrow> Err (ListValuesNotArray (pd_path d))
                   | None \<Rightarrow> list_operation_rest d operation [] entries inherited)
           | _ \<Rightarrow> Err (ListOperationMissing (pd_path d)))
      | _ \<Rightarrow> Ok (Some value)))"

section \<open>Required inputs\<close>

definition blank :: "rstr option \<Rightarrow> bool" where
  "blank p = (case p of None \<Rightarrow> True | Some s \<Rightarrow> trim s = [])"

definition role_matches :: "rstr \<Rightarrow> rstr \<Rightarrow> bool" where
  "role_matches given role \<longleftrightarrow> eq_ignore_ascii_case (replace_char 45 95 (trim given)) role"

definition has_input_role :: "inference_request \<Rightarrow> input_modality \<Rightarrow> rstr list \<Rightarrow> bool" where
  "has_input_role q modality roles \<longleftrightarrow>
     list_ex (\<lambda>i. in_modality i = modality \<and> list_ex (role_matches (in_role i)) roles) (iq_inputs q)"

definition require_input_role ::
  "inference_request \<Rightarrow> input_modality \<Rightarrow> rstr list \<Rightarrow> rstr \<Rightarrow> (resolve_error, unit) res" where
  "require_input_role q modality roles label =
     (if has_input_role q modality roles then Ok () else Err (InputRoleRequired (iq_task q) label))"

definition IMAGE_ROLES :: "rstr list" where
  "IMAGE_ROLES = [lit ''image'', lit ''input_image'', lit ''initial_image'']"
definition MASK_ROLES :: "rstr list" where "MASK_ROLES = [lit ''mask'', lit ''mask_image'']"
definition FIRST_IMAGE_ROLES :: "rstr list" where
  "FIRST_IMAGE_ROLES = [lit ''initial_image'', lit ''image'', lit ''input_image'']"
definition VIDEO_ROLES :: "rstr list" where
  "VIDEO_ROLES = [lit ''source_video'', lit ''input_video'', lit ''video'']"
definition MASK_VIDEO_ROLES :: "rstr list" where "MASK_VIDEO_ROLES = [lit ''mask_video'', lit ''mask'']"
definition AUDIO_ROLES :: "rstr list" where
  "AUDIO_ROLES = [lit ''input_audio'', lit ''source_audio'', lit ''audio'']"

text \<open>The roles a task requires, in the order they are checked, with the label of the message.\<close>

definition required_roles :: "inference_task \<Rightarrow> (input_modality \<times> rstr list \<times> rstr) list" where
  "required_roles t =
     (if t \<in> set [ImageUnderstanding, ImageEditing, ImageVariation, ImageUpscaling]
        then [(InImage, IMAGE_ROLES, lit ''image'')]
      else if t \<in> set [ImageInpainting, ImageOutpainting]
        then [(InImage, IMAGE_ROLES, lit ''source image''), (InImage, MASK_ROLES, lit ''mask image'')]
      else if t = ImageToVideo then [(InImage, FIRST_IMAGE_ROLES, lit ''initial image'')]
      else if t \<in> set [VideoToVideo, VideoExtension, VideoUpscaling, FrameInterpolation]
        then [(InVideo, VIDEO_ROLES, lit ''source video'')]
      else if t = VideoInpainting
        then [(InVideo, VIDEO_ROLES, lit ''source video''), (InVideo, MASK_VIDEO_ROLES, lit ''mask video'')]
      else if t \<in> set [SongContinuation, SongVariation, SpeechToText, SpeechTranslation,
          AudioEventDetection, VoiceActivityDetection, SpeakerIdentification, LanguageIdentification,
          SpeechEmotionRecognition, AudioCaptioning, SpeakerDiarization, AudioClassification,
          AudioUnderstanding, AudioEmbedding, StemGeneration, StemSeparation, AudioEnhancement,
          AudioEditing]
        then [(InAudio, AUDIO_ROLES, lit ''input audio'')]
      else if t = VoiceConversion then [(InAudio, AUDIO_ROLES, lit ''source audio'')]
      else [])"

fun require_roles ::
  "inference_request \<Rightarrow> (input_modality \<times> rstr list \<times> rstr) list \<Rightarrow> (resolve_error, unit) res" where
  "require_roles q [] = Ok ()"
| "require_roles q ((modality, roles, label) # rest) =
     res_bind (require_input_role q modality roles label) (\<lambda>_. require_roles q rest)"

fun require_modalities ::
  "inference_request \<Rightarrow> input_modality list \<Rightarrow> (resolve_error, unit) res" where
  "require_modalities q [] = Ok ()"
| "require_modalities q (required # rest) =
     (if required \<noteq> InText \<and> \<not> list_ex (\<lambda>i. in_modality i = required) (iq_inputs q)
      then Err (InputRequired (iq_task q) required) else require_modalities q rest)"

definition validate_required_inputs :: "inference_request \<Rightarrow> (resolve_error, unit) res" where
  "validate_required_inputs q =
     (let t = iq_task q
      in if requires_prompt t \<and> blank (iq_prompt q) then Err (PromptRequired t)
         else if \<not> blank (iq_prompt q) \<and> \<not> accepts_prompt t then Err (PromptNotConsumed t)
         else if \<not> blank (iq_negative_prompt q) \<and> \<not> accepts_negative_prompt t
         then Err (NegativePromptNotConsumed t)
         else res_bind (require_modalities q (required_input_modalities t)) (\<lambda>_.
           require_roles q (required_roles t)))"

section \<open>Overrides of the request\<close>

text \<open>A \<open>BTreeSet\<close> of paths, kept as its ordered list.\<close>

definition set_insert :: "rstr \<Rightarrow> rstr list \<Rightarrow> rstr list" where
  "set_insert x xs = map fst (bt_insert x () (map (\<lambda>y. (y, ())) xs))"

type_synonym pending = "resolved \<times> rstr list"

definition insert_request_override :: "rstr \<Rightarrow> parameter_value \<Rightarrow> pending \<Rightarrow> pending" where
  "insert_request_override path value s =
     (case s of (ps, explicit) \<Rightarrow>
        (bt_insert path \<lparr>rp_value = value, rp_source = RequestOverride\<rparr> ps, set_insert path explicit))"

fun apply_overrides :: "(rstr \<times> parameter_value option) list \<Rightarrow> pending \<Rightarrow> pending" where
  "apply_overrides [] s = s"
| "apply_overrides ((path, None) # rest) s = apply_overrides rest s"
| "apply_overrides ((path, Some v) # rest) s = apply_overrides rest (insert_request_override path v s)"

text \<open>The routing fields in the order the code applies them: strings, booleans, timeout, policy.\<close>

definition routing_list :: "routing_overrides \<Rightarrow> (rstr \<times> parameter_value option) list" where
  "routing_list ro =
     [(lit ''routing.backend'', map_option PString (ro_backend ro)),
      (lit ''routing.accelerator'', map_option PString (ro_accelerator ro)),
      (lit ''routing.device'', map_option PString (ro_device ro)),
      (lit ''routing.precision'', map_option PString (ro_precision ro)),
      (lit ''routing.quantization'', map_option PString (ro_quantization ro)),
      (lit ''routing.profile'', map_option PString (ro_profile ro)),
      (lit ''routing.quality'', map_option PString (ro_quality ro)),
      (lit ''routing.performance_preference'', map_option PString (ro_performance_preference ro)),
      (lit ''routing.fallback_policy'', map_option PString (ro_fallback_policy ro)),
      (lit ''routing.attention_backend'', map_option PString (ro_attention_backend ro)),
      (CPU_OFFLOAD, map_option PBoolean (override_bool_explicit (ro_allow_cpu_offload ro))),
      (SEQUENTIAL_OFFLOAD, map_option PBoolean (override_bool_explicit (ro_allow_sequential_offload ro))),
      (COMPONENT_OFFLOAD, map_option PBoolean (override_bool_explicit (ro_allow_component_offload ro))),
      (lit ''routing.allow_disk_offload'', map_option PBoolean (override_bool_explicit (ro_allow_disk_offload ro))),
      (lit ''routing.compile'', map_option PBoolean (override_bool_explicit (ro_compile ro))),
      (lit ''routing.timeout'', map_option value_of_u64 (ro_timeout_seconds ro)),
      (lit ''routing.parameter_policy'',
        (if ro_parameter_policy ro \<noteq> Strict then Some (PString (policy_name (ro_parameter_policy ro))) else None))]"

definition apply_routing_overrides :: "routing_overrides \<Rightarrow> pending \<Rightarrow> pending" where
  "apply_routing_overrides ro s = apply_overrides (routing_list ro) s"

fun apply_request ::
  "inference_task \<Rightarrow> descriptors \<Rightarrow> (rstr \<times> parameter_value) list \<Rightarrow> pending \<Rightarrow> (resolve_error, pending) res"
where
  "apply_request task ds [] s = Ok s"
| "apply_request task ds ((raw, value) # rest) s =
     (let path = normalize_parameter_path task raw
      in case map_of ds path of
           None \<Rightarrow> Err (UnknownParameter raw)
         | Some d \<Rightarrow>
             res_bind (resolve_list_parameter_override d value (map_option rp_value (map_of (fst s) path))) (\<lambda>ov.
               case ov of
                 None \<Rightarrow> apply_request task ds rest s
               | Some v \<Rightarrow> res_bind (validate_parameter d v) (\<lambda>_.
                   apply_request task ds rest (insert_request_override path v s))))"

fun validate_all :: "descriptors \<Rightarrow> (rstr \<times> resolved_parameter) list \<Rightarrow> (resolve_error, unit) res" where
  "validate_all ds [] = Ok ()"
| "validate_all ds ((path, rp) # rest) =
     (case map_of ds path of
        None \<Rightarrow> Err (NotInSchema (rp_source rp) path)
      | Some d \<Rightarrow> res_bind (validate_parameter d (rp_value rp)) (\<lambda>_. validate_all ds rest))"

section \<open>Policy and warnings\<close>

definition maximum_warning :: "descriptors \<Rightarrow> resolved \<Rightarrow> rstr \<Rightarrow> resolve_warning list" where
  "maximum_warning ds ps path =
     (case (Option.bind (map_option rp_value (map_of ps path)) as_f64,
            Option.bind (Option.bind (map_of ds path) pd_maximum) as_f64) of
        (Some value, Some maximum) \<Rightarrow> if f64_lt maximum value then [ExceedsMaximum path maximum] else []
      | _ \<Rightarrow> [])"

definition support_of :: "(rstr, parameter_support_status) btree \<Rightarrow> rstr \<Rightarrow> parameter_support_status" where
  "support_of support path = (case map_of support path of None \<Rightarrow> ModelDependent | Some s \<Rightarrow> s)"

fun check_explicit ::
  "descriptors \<Rightarrow> resolved \<Rightarrow> (rstr, parameter_support_status) btree \<Rightarrow> parameter_policy \<Rightarrow>
     rstr list \<Rightarrow> resolve_warning list \<Rightarrow> (resolve_error, resolve_warning list) res"
where
  "check_explicit ds ps support policy [] ws = Ok ws"
| "check_explicit ds ps support policy (path # rest) ws =
     (let ws = ws @ maximum_warning ds ps path; s = support_of support path
      in if s \<in> {Ignored, Unsupported}
         then (case policy of
             Strict \<Rightarrow> Err (ParameterRefused path s)
           | Warn \<Rightarrow> check_explicit ds ps support policy rest (ws @ [RefusedByBackend path s])
           | Permissive \<Rightarrow> check_explicit ds ps support policy rest ws)
         else check_explicit ds ps support policy rest ws)"

definition resolved_policy :: "resolved \<Rightarrow> (resolve_error, parameter_policy) res" where
  "resolved_policy ps =
     (let s = (case Option.bind (map_option rp_value (map_of ps (lit ''routing.parameter_policy''))) as_str of
                 None \<Rightarrow> lit ''strict'' | Some s \<Rightarrow> s)
      in case policy_from_str s of Ok p \<Rightarrow> Ok p | Err e \<Rightarrow> Err (UnknownPolicy e) | Panic \<Rightarrow> Panic)"

definition null_fill :: "parameter_descriptor list \<Rightarrow> resolved \<Rightarrow> resolved" where
  "null_fill schema ps =
     foldl (\<lambda>ps d. if bt_contains (pd_path d) ps then ps
       else bt_insert (pd_path d) \<lparr>rp_value = PNull, rp_source = SystemDefault\<rparr> ps) ps schema"

section \<open>Resolution\<close>

text \<open>
  What the tables of \<open>schema/*.rs\<close> and the JSON conversion give for the task and manifest,
  and the layers of the context.
\<close>

record resolution_tables =
  rt_schema :: "(resolve_error, parameter_descriptor list) res"
  rt_task_defaults :: layer
  rt_family_defaults :: layer
  rt_model_defaults :: "(resolve_error, layer) res"

record resolution_context =
  rx_runtime_defaults :: layer
  rx_hardware_profile :: layer
  rx_user_profile :: layer
  rx_parameter_support :: "(rstr, parameter_support_status) btree"

definition base_layers ::
  "resolution_tables \<Rightarrow> resolution_context \<Rightarrow> inference_task \<Rightarrow> (resolve_error, (parameter_source \<times> layer) list) res"
where
  "base_layers rt rx task =
     res_bind (rt_model_defaults rt) (\<lambda>model.
     res_bind (normalize_parameter_layer task (lit ''runtime default'') (rx_runtime_defaults rx)) (\<lambda>runtime.
     res_bind (normalize_parameter_layer task (lit ''hardware profile'') (rx_hardware_profile rx)) (\<lambda>hardware.
     res_bind (normalize_parameter_layer task (lit ''user profile'') (rx_user_profile rx)) (\<lambda>user.
       Ok [(TaskDefault, rt_task_defaults rt), (ModelFamilyDefault, rt_family_defaults rt),
           (ModelDefault, model), (RuntimeDefault, runtime), (HardwareProfile, hardware),
           (UserProfile, user)]))))"

definition apply_layers :: "descriptors \<Rightarrow> (parameter_source \<times> layer) list \<Rightarrow> resolved \<Rightarrow> resolved" where
  "apply_layers ds ls ps = foldl (\<lambda>ps (source, l). apply_layer (schema_parameter_layer l ds) source ps) ps ls"

text \<open>The end of the function, once layers, request parameters and routing are in.\<close>

definition finish_resolution ::
  "inference_request \<Rightarrow> parameter_descriptor list \<Rightarrow> resolution_context \<Rightarrow> pending \<Rightarrow>
     (resolve_error, effective_request) res"
where
  "finish_resolution q schema rx s =
     (let ds = descriptor_map schema; ps = fst s; explicit = snd s
      in res_bind (validate_all ds ps) (\<lambda>_.
         res_bind (resolved_policy ps) (\<lambda>policy.
         res_bind (check_explicit ds ps (rx_parameter_support rx) policy explicit []) (\<lambda>ws.
           Ok \<lparr>er_model = iq_model q, er_task = iq_task q, er_prompt = iq_prompt q,
               er_negative_prompt = iq_negative_prompt q, er_inputs = iq_inputs q,
               er_output_modality = task_output_modality (iq_task q),
               er_parameters = null_fill schema ps, er_explicit_parameters = explicit,
               er_parameter_policy = policy, er_warnings = ws\<rparr>))))"

definition resolve_request ::
  "resolution_tables \<Rightarrow> model_manifest \<Rightarrow> inference_request \<Rightarrow> resolution_context \<Rightarrow>
     (resolve_error, effective_request) res"
where
  "resolve_request rt m q rx =
     (if iq_model q \<noteq> mf_id m then Err (ModelMismatch (iq_model q) (mf_id m))
      else if \<not> supports_task m (iq_task q) then Err (TaskNotDeclared (iq_task q))
      else
        res_bind (validate_required_inputs q) (\<lambda>_.
        res_bind (rt_schema rt) (\<lambda>schema.
        res_bind (base_layers rt rx (iq_task q)) (\<lambda>layers.
          (let ds = descriptor_map schema;
               base = apply_layers ds layers (apply_descriptor_defaults schema [])
           in res_bind (apply_request (iq_task q) ds (iq_parameters q) (base, [])) (\<lambda>s.
                finish_resolution q schema rx (apply_routing_overrides (iq_routing q) s)))))))"

end
