(* ===== verification/Inference_Service.thy ===== *)
theory Inference_Service
  imports Plan_Notes Inference_Resolution
begin

text \<open>
  The inference service (\<open>src/src/inference_service/service.rs\<close>): from a client's request
  over resolution, estimate and plan to the attempts on the accepted runtimes, with the
  adjustments each attempt records. The model store, the backend, the profile files and the
  output directory answer through the record \<open>service_world\<close>; an answer that may change
  between two calls of one request takes the number of the call. The timings of a result and
  the opaque metadata that a backend hands back with it are left out.
\<close>

section \<open>Resources of a request\<close>

definition normalized_accelerator_label :: "rstr \<Rightarrow> rstr" where
  "normalized_accelerator_label accelerator =
     (let v = to_ascii_lowercase (trim accelerator) in
      if v = lit ''hip'' then lit ''rocm'' else if v = lit ''mps'' then lit ''metal'' else v)"

definition runtime_accelerator_from_label :: "rstr \<Rightarrow> runtime_accelerator" where
  "runtime_accelerator_from_label accelerator =
     (let l = normalized_accelerator_label accelerator in
      if l = lit ''cpu'' then Cpu
      else if l = lit ''cuda'' then Cuda
      else if l = lit ''rocm'' then Rocm
      else if l = lit ''metal'' then Mps
      else if l = lit ''mlx'' then Mlx
      else OtherAccelerator)"

definition reconcile_requested_accelerator ::
  "host_resources \<Rightarrow> rstr \<Rightarrow> memory_topology option option \<Rightarrow> host_resources" where
  "reconcile_requested_accelerator hr requested replacement =
     (let detected = map_option normalized_accelerator_label (hr_accelerator hr)
      in hr\<lparr>hr_accelerator_memory_bytes :=
              (if requested = lit ''cpu'' \<or> detected \<noteq> Some requested then None
               else hr_accelerator_memory_bytes hr),
            hr_memory_topology := (case replacement of Some t \<Rightarrow> t | None \<Rightarrow> hr_memory_topology hr),
            hr_accelerator := Some requested\<rparr>)"

definition resources_for_request ::
  "(runtime_accelerator \<Rightarrow> memory_topology option) \<Rightarrow> host_resources \<Rightarrow> effective_request \<Rightarrow> host_resources" where
  "resources_for_request detect_topology hr r =
     (case map_option normalized_accelerator_label (requested_accelerator r) of
        None \<Rightarrow> hr
      | Some requested \<Rightarrow>
          reconcile_requested_accelerator hr requested
            (if map_option normalized_accelerator_label (hr_accelerator hr) \<noteq> Some requested
             then Some (detect_topology (runtime_accelerator_from_label requested)) else None))"

section \<open>Estimates of the backend\<close>

definition append_unique :: "rstr list \<Rightarrow> rstr list \<Rightarrow> rstr list" where
  "append_unique target vs = foldl (\<lambda>ts v. if v \<in> set ts then ts else ts @ [v]) target vs"

fun fit_severity :: "fit_assessment \<Rightarrow> nat" where
  "fit_severity UnknownFit = 0"
| "fit_severity Fits = 1"
| "fit_severity Tight = 2"
| "fit_severity LikelyOom = 3"

definition complete_backend_fit :: "workload_estimate \<Rightarrow> host_resources \<Rightarrow> workload_estimate" where
  "complete_backend_fit e hr =
     (let f = e\<lparr>we_accelerator_memory_limit_bytes :=
                  first_some (hr_accelerator_memory_bytes hr) (we_accelerator_memory_limit_bytes e),
                we_host_memory_limit_bytes :=
                  first_some (hr_host_memory_bytes hr) (we_host_memory_limit_bytes e)\<rparr>;
          detected = classify_workload_fit (we_accelerator_peak_bytes e) (we_host_peak_bytes e) hr
      in if fit_severity (we_fit e) < fit_severity detected then f\<lparr>we_fit := detected\<rparr> else f)"

record estimate_failure =
  ef_protocol_code :: "rstr option"
  ef_text :: rstr

definition REQUEST_ERRORS :: "rstr list" where
  "REQUEST_ERRORS = [lit ''unsupported_parameter'', lit ''invalid_parameter'', lit ''invalid_request'']"

section \<open>The world of a request\<close>

record backend_output =
  bo_path :: rstr
  bo_mime_type :: "rstr option"
  bo_width :: "nat option"
  bo_height :: "nat option"
  bo_duration :: "f64 option"

record backend_execution =
  be_runtime :: rstr
  be_outputs :: "backend_output list"
  be_warnings :: "rstr list"

record output_metadata =
  om_id :: rstr
  om_task :: inference_task
  om_model :: rstr
  om_runtime :: rstr
  om_path :: rstr
  om_mime_type :: rstr
  om_size_bytes :: nat
  om_width :: "nat option"
  om_height :: "nat option"
  om_duration :: "f64 option"
  om_seed :: "nat option"
  om_effective_parameters :: "(rstr, resolved_parameter) btree"
  om_created_unix :: nat

record service_world =
  sv_get :: "nat \<Rightarrow> rstr \<Rightarrow> (rstr, model_manifest) res"
  sv_tables :: "model_manifest \<Rightarrow> inference_task \<Rightarrow> resolution_tables"
  sv_probe :: "nat \<Rightarrow> model_manifest \<Rightarrow> inference_task \<Rightarrow> rstr list \<Rightarrow> backend_probe"
  sv_estimate :: "model_manifest \<Rightarrow> effective_request \<Rightarrow> (estimate_failure, workload_estimate option) res"
  sv_profile :: "rstr \<Rightarrow> (rstr, layer) res"
  sv_resources :: host_resources
  sv_topology :: "runtime_accelerator \<Rightarrow> memory_topology option"
  sv_output_setup :: "(rstr, rstr) res"
  sv_reset :: "nat \<Rightarrow> (rstr, unit) res"
  sv_execute :: "nat \<Rightarrow> model_manifest \<Rightarrow> effective_request \<Rightarrow> rstr \<Rightarrow> (rstr, backend_execution) res"
  sv_file_size :: "backend_output \<Rightarrow> (rstr, nat) res"
  sv_write :: "nat \<Rightarrow> (rstr, unit) res"
  sv_over_budget :: "(rstr, bool) res"
  sv_created_unix :: nat

datatype service_error =
    StoreError rstr
  | ResolveFailed resolve_error
  | ProfileError rstr
  | EstimateTaskMismatch inference_task inference_task
  | EstimateRefused rstr
  | NoExecutableRuntime inference_task rstr
  | OutputSetupFailed rstr
  | AttemptResetFailed rstr
  | AllRuntimesFailed inference_task "(rstr \<times> rstr) list" rstr
  | OutputRejected rstr
  | MetadataWriteFailed rstr
  | RetentionFailed rstr

definition map_err :: "('a \<Rightarrow> 'b) \<Rightarrow> ('a, 'v) res \<Rightarrow> ('b, 'v) res" where
  "map_err f x = (case x of Ok v \<Rightarrow> Ok v | Err a \<Rightarrow> Err (f a) | Panic \<Rightarrow> Panic)"

section \<open>Resolution\<close>

definition top_priority :: "runtime_candidate list \<Rightarrow> runtime_candidate option" where
  "top_priority cs =
     (case cs of [] \<Rightarrow> None
      | c # rest \<Rightarrow> Some (foldl (\<lambda>best d. if rc_priority best \<le> rc_priority d then d else best) c rest))"

definition runtime_defaults :: "backend_probe \<Rightarrow> layer" where
  "runtime_defaults b =
     (case top_priority (filter rc_available (bp_candidates b)) of None \<Rightarrow> []
      | Some c \<Rightarrow> if rc_accelerator c = Cpu then [(lit ''routing.compile'', PBoolean False)] else [])"

definition hardware_defaults :: "inference_request \<Rightarrow> layer" where
  "hardware_defaults q =
     (if ro_quality (iq_routing q) = Some (lit ''draft'')
      then [(parameter_namespace (iq_task q) @ lit ''.steps'', PInteger 8)] else [])"

definition load_profile :: "service_world \<Rightarrow> rstr option \<Rightarrow> (service_error, layer) res" where
  "load_profile w p =
     (case p of None \<Rightarrow> Ok [] | Some name \<Rightarrow> map_err ProfileError (sv_profile w name))"

definition schema_of ::
  "service_world \<Rightarrow> model_manifest \<Rightarrow> inference_task \<Rightarrow> (service_error, parameter_descriptor list) res" where
  "schema_of w m t = map_err ResolveFailed (rt_schema (sv_tables w m t))"

definition service_resolve ::
  "service_world \<Rightarrow> nat \<Rightarrow> inference_request \<Rightarrow> (service_error, effective_request) res" where
  "service_resolve w n q =
     res_bind (map_err StoreError (sv_get w n (iq_model q))) (\<lambda>m.
     res_bind (schema_of w m (iq_task q)) (\<lambda>schema.
       (let b = sv_probe w n m (iq_task q) (map pd_path schema) in
        res_bind (load_profile w (ro_profile (iq_routing q))) (\<lambda>profile.
          map_err ResolveFailed (resolve_request (sv_tables w m (iq_task q)) m q
            \<lparr>rx_runtime_defaults = runtime_defaults b, rx_hardware_profile = hardware_defaults q,
             rx_user_profile = profile, rx_parameter_support = bp_parameter_support b\<rparr>)))))"

section \<open>Estimate and plan\<close>

definition estimate_effective ::
  "service_world \<Rightarrow> model_manifest \<Rightarrow> effective_request \<Rightarrow> (service_error, workload_estimate) res" where
  "estimate_effective w m r =
     (let hr = resources_for_request (sv_topology w) (sv_resources w) r;
          fallback = estimate_workload m r hr
      in case sv_estimate w m r of
           Ok (Some e) \<Rightarrow>
             if we_task e \<noteq> er_task r then Err (EstimateTaskMismatch (er_task r) (we_task e))
             else (let f = complete_backend_fit e hr in
               Ok (f\<lparr>we_warnings := append_unique (we_warnings f) (we_warnings fallback),
                     we_recommendations := append_unique (we_recommendations f) (we_recommendations fallback)\<rparr>))
         | Ok None \<Rightarrow> Ok fallback
         | Err x \<Rightarrow>
             if (case ef_protocol_code x of None \<Rightarrow> False | Some c \<Rightarrow> c \<in> set REQUEST_ERRORS)
             then Err (EstimateRefused (ef_text x))
             else Ok (fallback\<lparr>we_warnings := we_warnings fallback
                        @ [lit ''backend estimate unavailable; using Werk heuristic: '' @ ef_text x]\<rparr>)
         | Panic \<Rightarrow> Panic)"

definition runtime_accelerator_for_id :: "rstr \<Rightarrow> runtime_accelerator" where
  "runtime_accelerator_for_id runtime =
     (let i = to_ascii_lowercase runtime in
      if ends_with (lit ''-cuda'') i then Cuda
      else if ends_with (lit ''-rocm'') i \<or> ends_with (lit ''-hip'') i then Rocm
      else if ends_with (lit ''-metal'') i \<or> ends_with (lit ''-mps'') i then Mps
      else if ends_with (lit ''-mlx'') i \<or> starts_with (lit ''mlx'') i then Mlx
      else if ends_with (lit ''-cpu'') i then Cpu
      else OtherAccelerator)"

fun runtime_accelerator_label :: "runtime_accelerator \<Rightarrow> rstr option" where
  "runtime_accelerator_label Cpu = Some (lit ''cpu'')"
| "runtime_accelerator_label Cuda = Some (lit ''cuda'')"
| "runtime_accelerator_label Rocm = Some (lit ''rocm'')"
| "runtime_accelerator_label Mps = Some (lit ''metal'')"
| "runtime_accelerator_label Mlx = Some (lit ''mlx'')"
| "runtime_accelerator_label OtherAccelerator = None"

definition insert_backend_adjustment :: "rstr \<Rightarrow> parameter_value \<Rightarrow> effective_request \<Rightarrow> effective_request" where
  "insert_backend_adjustment path v r =
     r\<lparr>er_parameters := bt_insert path \<lparr>rp_value = v, rp_source = BackendAdjustment\<rparr> (er_parameters r)\<rparr>"

fun degradation_adjustment :: "degradation \<Rightarrow> rstr \<times> parameter_value" where
  "degradation_adjustment CpuOffload = (CPU_OFFLOAD, PBoolean True)"
| "degradation_adjustment SequentialOffload = (SEQUENTIAL_OFFLOAD, PBoolean True)"
| "degradation_adjustment ComponentOffload = (COMPONENT_OFFLOAD, PBoolean True)"
| "degradation_adjustment VaeTiling = (lit ''image.vae_tiling'', PBoolean True)"
| "degradation_adjustment TemporalWindowing = (lit ''video.temporal_vae_tiling'', PBoolean True)"
| "degradation_adjustment (SlowerAttention backend) = (lit ''routing.attention_backend'', PString backend)"

definition candidate_adjustments :: "rstr \<Rightarrow> rstr \<Rightarrow> degradation list \<Rightarrow> (rstr \<times> parameter_value) list" where
  "candidate_adjustments runtime backend ds =
     (lit ''routing.backend'', PString backend)
     # (case runtime_accelerator_label (runtime_accelerator_for_id runtime) of None \<Rightarrow> []
        | Some l \<Rightarrow> [(lit ''routing.accelerator'', PString l)])
     @ map degradation_adjustment ds"

definition apply_candidate_adjustments ::
  "rstr \<Rightarrow> rstr \<Rightarrow> degradation list \<Rightarrow> effective_request \<Rightarrow> effective_request" where
  "apply_candidate_adjustments runtime backend ds r =
     foldl (\<lambda>r (path, v). insert_backend_adjustment path v r) r (candidate_adjustments runtime backend ds)"

definition apply_plan_adjustments :: "execution_plan \<Rightarrow> effective_request \<Rightarrow> effective_request" where
  "apply_plan_adjustments p r =
     (case ep_selected_runtime p of None \<Rightarrow> r
      | Some runtime \<Rightarrow> apply_candidate_adjustments runtime
          (case ep_selected_backend p of None \<Rightarrow> lit ''unknown'' | Some b \<Rightarrow> b) (ep_degradations p) r)"

definition service_prepare ::
  "service_world \<Rightarrow> inference_request \<Rightarrow>
     (service_error, model_manifest \<times> effective_request \<times> workload_estimate \<times> execution_plan) res" where
  "service_prepare w q =
     res_bind (map_err StoreError (sv_get w 0 (iq_model q))) (\<lambda>m.
     res_bind (service_resolve w 1 q) (\<lambda>r.
     res_bind (estimate_effective w m r) (\<lambda>e.
     res_bind (schema_of w m (er_task r)) (\<lambda>schema.
       (let b = sv_probe w 2 m (er_task r) (map pd_path schema)
        in Ok (m, r, e, attach_probe_readiness b (plan_execution m r e (bp_candidates b))))))))"

definition service_plan ::
  "service_world \<Rightarrow> inference_request \<Rightarrow>
     (service_error, effective_request \<times> workload_estimate \<times> execution_plan) res" where
  "service_plan w q =
     res_bind (service_prepare w q) (\<lambda>(m, r, e, p). Ok (apply_plan_adjustments p r, e, p))"

section \<open>Attempts\<close>

datatype attempt_outcome = AttemptUnknown | AttemptSucceeded | AttemptFailed

record runtime_attempt =
  ra_runtime :: rstr
  ra_outcome :: attempt_outcome
  ra_error :: "rstr option"

record attempt_state =
  at_plan :: execution_plan
  at_errors :: "(rstr \<times> rstr) list"
  at_attempts :: "runtime_attempt list"
  at_routes :: routes
  at_notes :: "rstr list"

definition report_route :: "rstr \<Rightarrow> rstr option \<Rightarrow> attempt_state \<Rightarrow> attempt_state" where
  "report_route model note s =
     (case ep_selected_runtime (at_plan s) of None \<Rightarrow> s
      | Some runtime \<Rightarrow>
          (let (n, rs) = routes_observe model (ep_task (at_plan s)) runtime note (at_routes s)
           in s\<lparr>at_routes := rs, at_notes := at_notes s @ (case n of None \<Rightarrow> [] | Some t \<Rightarrow> [t])\<rparr>))"

definition switch_to :: "candidate_decision \<Rightarrow> execution_plan \<Rightarrow> execution_plan" where
  "switch_to d p =
     p\<lparr>ep_selected_runtime := Some (cd_runtime_id d), ep_selected_backend := Some (cd_backend d),
       ep_score := cd_score d, ep_degradations := cd_degradations d, ep_backend_fallback := True\<rparr>"

fun replace_decision :: "('a \<Rightarrow> bool) \<Rightarrow> 'a \<Rightarrow> 'a list \<Rightarrow> 'a list" where
  "replace_decision P y [] = []"
| "replace_decision P y (x # xs) = (if P x then y # xs else x # replace_decision P y xs)"

definition failed_decision :: "rstr \<Rightarrow> candidate_decision \<Rightarrow> candidate_decision" where
  "failed_decision error d =
     d\<lparr>cd_status := Rejected, cd_score := None, cd_reasons := cd_reasons d @ [ExecutionFailed error]\<rparr>"

definition record_failure :: "candidate_decision \<Rightarrow> rstr \<Rightarrow> attempt_state \<Rightarrow> attempt_state" where
  "record_failure d error s =
     (let failed = failed_decision error d; p = at_plan s in
      s\<lparr>at_attempts := at_attempts s @ [\<lparr>ra_runtime = cd_runtime_id d, ra_outcome = AttemptFailed, ra_error = Some error\<rparr>],
        at_errors := at_errors s @ [(cd_runtime_id d, error)],
        at_plan := p\<lparr>ep_candidates := replace_decision (\<lambda>c. cd_runtime_id c = cd_runtime_id d) failed (ep_candidates p),
                     ep_fallback_chain := ep_fallback_chain p @ [failed]\<rparr>\<rparr>)"

definition record_success :: "rstr \<Rightarrow> candidate_decision \<Rightarrow> attempt_state \<Rightarrow> attempt_state" where
  "record_success model d s =
     (let t = s\<lparr>at_attempts := at_attempts s
                @ [\<lparr>ra_runtime = cd_runtime_id d, ra_outcome = AttemptSucceeded, ra_error = None\<rparr>]\<rparr>
      in if ep_fallback_chain (at_plan t) = [] then report_route model None t else t)"

definition adjusted_for :: "candidate_decision \<Rightarrow> effective_request \<Rightarrow> effective_request" where
  "adjusted_for d r = apply_candidate_adjustments (cd_runtime_id d) (cd_backend d) (cd_degradations d) r"

definition begin_attempt ::
  "service_world \<Rightarrow> rstr \<Rightarrow> nat \<Rightarrow> candidate_decision \<Rightarrow> attempt_state \<Rightarrow> (service_error, attempt_state) res" where
  "begin_attempt w model n d s =
     res_bind (if n = 0 then Ok s
               else res_bind (map_err AttemptResetFailed (sv_reset w n))
                      (\<lambda>_. Ok (s\<lparr>at_plan := switch_to d (at_plan s)\<rparr>)))
       (\<lambda>t. case fallback_note model (at_plan t) of
              None \<Rightarrow> Ok t | Some note \<Rightarrow> Ok (report_route model (Some note) t))"

fun run_attempts ::
  "service_world \<Rightarrow> model_manifest \<Rightarrow> effective_request \<Rightarrow> nat \<Rightarrow> candidate_decision list \<Rightarrow> attempt_state \<Rightarrow>
     (service_error, attempt_state \<times> (effective_request \<times> backend_execution) option) res" where
  "run_attempts w m r n [] s = Ok (s, None)"
| "run_attempts w m r n (d # ds) s =
     res_bind (begin_attempt w (mf_id m) n d s) (\<lambda>t.
       case sv_execute w n m (adjusted_for d r) (cd_runtime_id d) of
         Ok x \<Rightarrow> Ok (record_success (mf_id m) d t, Some (adjusted_for d r, x))
       | Err error \<Rightarrow> run_attempts w m r (n + 1) ds (record_failure d error t)
       | Panic \<Rightarrow> Panic)"

definition planned_attempts :: "effective_request \<Rightarrow> execution_plan \<Rightarrow> rstr \<Rightarrow> candidate_decision list" where
  "planned_attempts r p selected =
     filter (\<lambda>d. cd_status d = Accepted \<and> (fallback_policy r \<noteq> lit ''none'' \<or> cd_runtime_id d = selected))
       (ep_candidates p)"

section \<open>Results\<close>

record inference_result =
  ir_id :: rstr
  ir_task :: inference_task
  ir_model :: rstr
  ir_runtime :: rstr
  ir_outputs :: "output_metadata list"
  ir_effective_request :: effective_request
  ir_estimate :: workload_estimate
  ir_plan :: execution_plan
  ir_attempts :: "runtime_attempt list"
  ir_warnings :: "rstr list"
  ir_created_unix :: nat

definition EXTENSION_TYPES :: "(rstr \<times> rstr) list" where
  "EXTENSION_TYPES =
     [(lit ''png'', lit ''image/png''), (lit ''jpg'', lit ''image/jpeg''), (lit ''jpeg'', lit ''image/jpeg''),
      (lit ''webp'', lit ''image/webp''), (lit ''mp4'', lit ''video/mp4''), (lit ''webm'', lit ''video/webm''),
      (lit ''mov'', lit ''video/quicktime''), (lit ''wav'', lit ''audio/wav''), (lit ''flac'', lit ''audio/flac''),
      (lit ''mp3'', lit ''audio/mpeg''), (lit ''ogg'', lit ''audio/ogg''), (lit ''json'', lit ''application/json''),
      (lit ''txt'', lit ''text/plain'')]"

text \<open>\<open>Path::extension\<close>: what follows the last dot of the last segment, if a name precedes it.\<close>

definition path_extension :: "rstr \<Rightarrow> rstr" where
  "path_extension path =
     (let name = rev (takeWhile (\<lambda>c. c \<noteq> 47) (dropWhile (\<lambda>c. c = 47) (rev path)));
          tail = rev (takeWhile (\<lambda>c. c \<noteq> 46) (rev name))
      in if length name \<le> length tail + 1 \<or> name = lit ''..'' then [] else tail)"

definition mime_for_path :: "rstr \<Rightarrow> rstr" where
  "mime_for_path path =
     (case map_of EXTENSION_TYPES (to_ascii_lowercase (path_extension path)) of
        Some t \<Rightarrow> t | None \<Rightarrow> lit ''application/octet-stream'')"

definition output_metadata_of ::
  "service_world \<Rightarrow> rstr \<Rightarrow> model_manifest \<Rightarrow> effective_request \<Rightarrow> rstr \<Rightarrow> nat \<times> backend_output \<Rightarrow>
     (service_error, output_metadata) res" where
  "output_metadata_of w result_id m r runtime i =
     (case i of (index, x) \<Rightarrow>
        res_bind (map_err OutputRejected (sv_file_size w x)) (\<lambda>size.
          Ok \<lparr>om_id = result_id @ 45 # decimal index, om_task = er_task r, om_model = mf_id m,
             om_runtime = runtime, om_path = bo_path x,
             om_mime_type = (case bo_mime_type x of Some t \<Rightarrow> t | None \<Rightarrow> mime_for_path (bo_path x)),
             om_size_bytes = size, om_width = bo_width x, om_height = bo_height x,
             om_duration = bo_duration x, om_seed = u64_parameter r (scoped r ''seed''),
             om_effective_parameters = er_parameters r, om_created_unix = sv_created_unix w\<rparr>))"

fun res_list :: "('e, 'a) res list \<Rightarrow> ('e, 'a list) res" where
  "res_list [] = Ok []"
| "res_list (x # xs) = res_bind x (\<lambda>v. res_bind (res_list xs) (\<lambda>vs. Ok (v # vs)))"

definition fallback_warning :: "(rstr \<times> rstr) list \<Rightarrow> rstr list" where
  "fallback_warning errors =
     (if errors = [] then []
      else [lit ''runtime fallback was used after: ''
            @ join (lit ''; '') (map (\<lambda>(runtime, e). runtime @ lit '': '' @ e) errors)])"

definition assemble_result ::
  "service_world \<Rightarrow> rstr \<Rightarrow> model_manifest \<Rightarrow> effective_request \<Rightarrow> workload_estimate \<Rightarrow> attempt_state \<Rightarrow>
     backend_execution \<Rightarrow> (service_error, inference_result) res" where
  "assemble_result w result_id m r e s x =
     res_bind (res_list (map (output_metadata_of w result_id m r (be_runtime x)) (enumerate 0 (be_outputs x))))
       (\<lambda>files. Ok
         \<lparr>ir_id = result_id, ir_task = er_task r, ir_model = mf_id m, ir_runtime = be_runtime x,
          ir_outputs = files, ir_effective_request = r, ir_estimate = e, ir_plan = at_plan s,
          ir_attempts = at_attempts s,
          ir_warnings = map warning_text (er_warnings r) @ we_warnings e @ be_warnings x @ fallback_warning (at_errors s),
          ir_created_unix = sv_created_unix w\<rparr>)"

definition BUDGET_WARNING :: "nat \<Rightarrow> rstr" where
  "BUDGET_WARNING max_bytes =
     lit ''current output exceeds the configured '' @ decimal max_bytes
     @ lit '' byte output-store budget; it was preserved while older outputs were removed''"

definition store_result ::
  "service_world \<Rightarrow> nat \<Rightarrow> inference_result \<Rightarrow> (service_error, inference_result) res" where
  "store_result w max_bytes ir =
     res_bind (map_err MetadataWriteFailed (sv_write w 0)) (\<lambda>_.
     res_bind (map_err RetentionFailed (sv_over_budget w)) (\<lambda>over.
       if over then res_bind (map_err MetadataWriteFailed (sv_write w 1))
                      (\<lambda>_. Ok (ir\<lparr>ir_warnings := ir_warnings ir @ [BUDGET_WARNING max_bytes]\<rparr>))
       else Ok ir))"

definition service_execute ::
  "service_world \<Rightarrow> nat \<Rightarrow> routes \<Rightarrow> inference_request \<Rightarrow> (service_error, inference_result) res" where
  "service_execute w max_bytes rs q =
     res_bind (service_prepare w q) (\<lambda>(m, r, e, p).
       case ep_selected_runtime p of
         None \<Rightarrow> Err (NoExecutableRuntime (er_task r) (format_plan_rejections p (mf_id m)))
       | Some selected \<Rightarrow>
           res_bind (map_err OutputSetupFailed (sv_output_setup w)) (\<lambda>result_id.
           res_bind (run_attempts w m r 0 (planned_attempts r p selected)
               \<lparr>at_plan = p, at_errors = [], at_attempts = [], at_routes = rs, at_notes = []\<rparr>) (\<lambda>(s, finished).
             case finished of
               None \<Rightarrow> Err (AllRuntimesFailed (er_task r) (at_errors s) (mf_id m))
             | Some (adjusted, x) \<Rightarrow>
                 res_bind (assemble_result w result_id m adjusted e s x) (store_result w max_bytes))))"

end
