(* ===== verification/Planner_Claims.thy ===== *)
theory Planner_Claims
  imports Inference_Planner
begin

text \<open>
  What the execution planner promises: the admission rule against a declarative
  specification, the choice of the winner, consent to degradations, the memory limits it
  keeps, the fallback chain it reports, and independence of the order of candidates.
\<close>

section \<open>Sorted selection\<close>

text \<open>The first hit in a list sorted by a key is a least hit.\<close>

lemma find_sort_key:
  assumes "find P (sort_key k xs) = Some d"
  shows "d \<in> set xs \<and> P d \<and> (\<forall>d' \<in> set xs. P d' \<longrightarrow> k d \<le> k d')"
proof -
  let ?s = "sort_key k xs"
  obtain i where i: "i < length ?s" "P (?s ! i)" "d = ?s ! i" "\<forall>j<i. \<not> P (?s ! j)"
    using assms by (auto simp: find_Some_iff)
  have "d \<in> set ?s" using nth_mem [OF i(1)] i(3) by simp
  moreover have "k d \<le> k d'" if "d' \<in> set xs" "P d'" for d'
  proof -
    from that(1) have "d' \<in> set ?s" by simp
    then obtain j where j: "j < length ?s" "d' = ?s ! j" by (metis in_set_conv_nth)
    with i(4) that(2) have "i \<le> j" by (metis not_le)
    with j(1) have "map k ?s ! i \<le> map k ?s ! j"
      by (intro sorted_nth_mono) simp_all
    with i(1,3) j show ?thesis by simp
  qed
  ultimately show ?thesis using i(2,3) by simp
qed

lemma find_sort_key_None: "find P (sort_key k xs) = None \<longleftrightarrow> (\<forall>d \<in> set xs. \<not> P d)"
  by (auto simp: find_None_iff)

text \<open>Sorting by an injective key forgets the order of the input.\<close>

lemma sort_key_perm:
  assumes "mset xs = mset ys" "inj_on k (set xs)"
  shows "sort_key k xs = sort_key k ys"
proof (rule sort_key_inj_key_eq)
  show "mset xs = mset (sort_key k ys)" using assms(1) by simp
  show "inj_on k (set xs)" by fact
  show "sorted (map k (sort_key k ys))" by simp
qed

lemma takeWhile_sorted:
  assumes "sorted (map k xs)" "inj_on k (set xs)" "y \<in> set xs"
  shows "x \<in> set (takeWhile (\<lambda>z. k z \<noteq> k y) xs) \<longleftrightarrow> x \<in> set xs \<and> k x < k y"
  using assms
proof (induction xs)
  case Nil
  then show ?case by simp
next
  case (Cons a xs)
  show ?case
  proof (cases "k a = k y")
    case True
    have "\<not> k x < k y" if "x \<in> set (a # xs)" using that Cons.prems(1) True by auto
    with True show ?thesis by auto
  next
    case False
    then have y: "y \<in> set xs" using Cons.prems(3) by auto
    have "k a < k y" using Cons.prems(1) y False by (auto simp: order_less_le)
    moreover have "x \<in> set (takeWhile (\<lambda>z. k z \<noteq> k y) xs) \<longleftrightarrow> x \<in> set xs \<and> k x < k y"
      using Cons.IH Cons.prems y by (auto simp: inj_on_insert)
    ultimately show ?thesis using False by auto
  qed
qed

section \<open>The admission rule\<close>

definition offload_permitted :: "effective_request \<Rightarrow> rstr \<Rightarrow> bool" where
  "offload_permitted r path \<longleftrightarrow> bool_parameter r path = Some True \<and>
     (is_explicit r path \<or>
      (allow_degradation r \<and> \<not> (is_explicit r CPU_OFFLOAD \<and> bool_parameter r CPU_OFFLOAD = Some False)))"

definition some_offload_permitted :: "effective_request \<Rightarrow> bool" where
  "some_offload_permitted r \<longleftrightarrow> offload_permitted r CPU_OFFLOAD
     \<or> offload_permitted r SEQUENTIAL_OFFLOAD \<or> offload_permitted r COMPONENT_OFFLOAD"

definition offload_fits_host :: "workload_estimate \<Rightarrow> bool" where
  "offload_fits_host e \<longleftrightarrow>
     \<not> reaches (projected_host_peak_with_offload e) (we_host_memory_limit_bytes e)"

definition memory_allows :: "effective_request \<Rightarrow> workload_estimate \<Rightarrow> runtime_candidate \<Rightarrow> bool" where
  "memory_allows r e c \<longleftrightarrow> \<not> memory_pressure e \<or>
     (\<not> host_memory_exceeded e \<and> rc_supports_offloading c \<and> rc_accelerator c \<in> {Cuda, Rocm}
      \<and> some_offload_permitted r \<and> offload_fits_host e)"

definition routing_allows :: "effective_request \<Rightarrow> runtime_candidate \<Rightarrow> bool" where
  "routing_allows r c \<longleftrightarrow>
     (\<forall>a. requested_accelerator r = Some a \<longrightarrow> runtime_accelerator_matches (rc_accelerator c) a)
     \<and> (fallback_policy r = lit ''none'' \<longrightarrow>
        (\<forall>b. requested_backend r = Some b \<longrightarrow> eq_ignore_ascii_case (rc_backend c) b))"

definition serves_model :: "model_manifest \<Rightarrow> effective_request \<Rightarrow> runtime_candidate \<Rightarrow> bool" where
  "serves_model m r c \<longleftrightarrow> rc_available c \<and> er_task r \<in> set (rc_supported_tasks c)
     \<and> supports_layout m c \<and> supports_format m c
     \<and> (\<forall>f. mf_family m = Some f \<longrightarrow> rc_supported_families c = [] \<or> names_any (rc_supported_families c) f)
     \<and> (\<forall>a. mf_architecture m = Some a \<longrightarrow>
          rc_supported_architectures c = [] \<or> names_any (rc_supported_architectures c) a)"

definition runnable ::
  "model_manifest \<Rightarrow> effective_request \<Rightarrow> workload_estimate \<Rightarrow> runtime_candidate \<Rightarrow> bool" where
  "runnable m r e c \<longleftrightarrow> serves_model m r c \<and> routing_allows r c
     \<and> (\<forall>p \<in> set (er_explicit_parameters r). \<not> parameter_refused r c p) \<and> memory_allows r e c"

lemma unless_Nil [simp]: "unless ok x = [] \<longleftrightarrow> ok"
  by (simp add: unless_def)

lemma selected_offload_some:
  "selected_offload r (allow_degradation r) \<noteq> None \<longleftrightarrow> some_offload_permitted r"
  by (auto simp: selected_offload_def some_offload_permitted_def offload_permitted_def
    offload_options_def)

lemma selected_offload_permitted:
  assumes "selected_offload r (allow_degradation r) = Some d"
  shows "\<exists>path. (path, d) \<in> set offload_options \<and> offload_permitted r path"
  using assms
  by (auto simp: selected_offload_def offload_permitted_def offload_options_def split: if_splits)

lemma offload_reason_None: "offload_host_memory_rejection_reason e = None \<longleftrightarrow> offload_fits_host e"
  by (auto simp: offload_host_memory_rejection_reason_def offload_fits_host_def reaches_def
    split: option.splits)

lemma memory_verdict_Nil: "fst (memory_verdict r e c) = [] \<longleftrightarrow> memory_allows r e c"
proof (cases "memory_pressure e \<and> \<not> host_memory_exceeded e")
  case True
  show ?thesis
  proof (cases "rc_supports_offloading c \<and> (rc_accelerator c = Cuda \<or> rc_accelerator c = Rocm)")
    case elig: True
    show ?thesis
    proof (cases "selected_offload r (allow_degradation r)")
      case None
      then show ?thesis using True elig selected_offload_some [of r]
        by (auto simp: memory_verdict_def memory_allows_def)
    next
      case (Some d)
      then have p: "some_offload_permitted r" using selected_offload_some [of r] by simp
      show ?thesis
      proof (cases "offload_host_memory_rejection_reason e")
        case None
        then show ?thesis using True elig Some p offload_reason_None [of e]
          by (auto simp: memory_verdict_def memory_allows_def)
      next
        case r: (Some reason)
        then have "\<not> offload_fits_host e" using offload_reason_None [of e] by simp
        then show ?thesis using True elig Some r
          by (auto simp: memory_verdict_def memory_allows_def)
      qed
    qed
  next
    case False
    then show ?thesis using True by (auto simp: memory_verdict_def memory_allows_def)
  qed
next
  case False
  then show ?thesis by (auto simp: memory_verdict_def memory_allows_def)
qed

lemma static_reasons_Nil:
  "static_reasons m r c = [] \<longleftrightarrow> serves_model m r c \<and> routing_allows r c
     \<and> (\<forall>p \<in> set (er_explicit_parameters r). \<not> parameter_refused r c p)"
  by (auto simp: static_reasons_def serves_model_def routing_allows_def filter_empty_conv
    split: option.splits)

lemma reasons_Nil: "candidate_reasons m r e c = [] \<longleftrightarrow> runnable m r e c"
  by (auto simp: candidate_reasons_def static_reasons_Nil memory_verdict_Nil runnable_def)

lemma decision_fields [simp]:
  "cd_runtime_id (candidate_decision_of m r e c) = rc_id c"
  "cd_backend (candidate_decision_of m r e c) = rc_backend c"
  "cd_reasons (candidate_decision_of m r e c) = candidate_reasons m r e c"
  "cd_degradations (candidate_decision_of m r e c) = candidate_degradations r e c"
  "cd_status (candidate_decision_of m r e c) = Accepted \<longleftrightarrow> runnable m r e c"
  "cd_status (candidate_decision_of m r e c) = Rejected \<longleftrightarrow> \<not> runnable m r e c"
  "cd_score (candidate_decision_of m r e c) =
     (if runnable m r e c then Some (candidate_score r e c) else None)"
  by (simp_all add: candidate_decision_of_def reasons_Nil Let_def)

section \<open>The winner\<close>

definition preferred_to ::
  "effective_request \<Rightarrow> workload_estimate \<Rightarrow> runtime_candidate \<Rightarrow> runtime_candidate \<Rightarrow> bool" where
  "preferred_to r e c d \<longleftrightarrow> candidate_score r e d < candidate_score r e c
     \<or> (candidate_score r e d = candidate_score r e c \<and> rc_id c \<le> rc_id d)"

definition winner ::
  "model_manifest \<Rightarrow> effective_request \<Rightarrow> workload_estimate \<Rightarrow> runtime_candidate list \<Rightarrow> candidate_decision option" where
  "winner m r e cs = find (\<lambda>d. cd_status d = Accepted) (sort_key decision_key (map (candidate_decision_of m r e) cs))"

lemma winner_None: "winner m r e cs = None \<longleftrightarrow> (\<forall>c \<in> set cs. \<not> runnable m r e c)"
  by (auto simp: winner_def find_sort_key_None)

lemma winner_Some:
  assumes "winner m r e cs = Some d"
  shows "\<exists>c \<in> set cs. d = candidate_decision_of m r e c \<and> runnable m r e c
     \<and> (\<forall>c' \<in> set cs. runnable m r e c' \<longrightarrow> preferred_to r e c c')"
proof -
  from find_sort_key [OF assms [unfolded winner_def]] obtain c where
    c: "c \<in> set cs" "d = candidate_decision_of m r e c" "runnable m r e c" and
    least: "\<forall>d' \<in> candidate_decision_of m r e ` set cs. cd_status d' = Accepted \<longrightarrow> decision_key d \<le> decision_key d'"
    by auto
  have "preferred_to r e c c'" if "c' \<in> set cs" "runnable m r e c'" for c'
  proof -
    have "decision_key d \<le> decision_key (candidate_decision_of m r e c')" using least that by auto
    then show ?thesis using c(2,3) that(2) by (auto simp: decision_key_def preferred_to_def)
  qed
  with c show ?thesis by blast
qed

lemma plan_fields:
  "ep_selected_runtime (plan_execution m r e cs) = map_option cd_runtime_id (winner m r e cs)"
  "ep_selected_backend (plan_execution m r e cs) = map_option cd_backend (winner m r e cs)"
  "ep_score (plan_execution m r e cs) = Option.bind (winner m r e cs) cd_score"
  "ep_degradations (plan_execution m r e cs) =
     (case winner m r e cs of None \<Rightarrow> [] | Some s \<Rightarrow> cd_degradations s)"
  "ep_fallback_chain (plan_execution m r e cs) = fallback_chain_of (winner m r e cs)
     (sort_key preference_key (map (\<lambda>c. (candidate_score r e c, candidate_decision_of m r e c))
        (filter (preferred_route m r) cs)))"
  "ep_candidates (plan_execution m r e cs) =
     sort_key decision_key (map (candidate_decision_of m r e) cs)"
  by (simp_all add: plan_execution_def winner_def Let_def)

text \<open>A plan that selects a runtime has a runnable winner.\<close>

lemma planned:
  assumes "ep_selected_runtime (plan_execution m r e cs) = Some i"
  obtains c where "c \<in> set cs" "rc_id c = i" "runnable m r e c"
    "\<forall>c' \<in> set cs. runnable m r e c' \<longrightarrow> preferred_to r e c c'"
    "winner m r e cs = Some (candidate_decision_of m r e c)"
proof -
  from assms obtain d where d: "winner m r e cs = Some d" "cd_runtime_id d = i"
    by (auto simp: plan_fields)
  from winner_Some [OF d(1)] obtain c where "c \<in> set cs" "d = candidate_decision_of m r e c"
    "runnable m r e c" "\<forall>c' \<in> set cs. runnable m r e c' \<longrightarrow> preferred_to r e c c'" by blast
  with d that [of c] show ?thesis by simp
qed

section \<open>Degradations\<close>

lemma degradations_of:
  assumes "candidate_degradations r e c \<noteq> []"
  shows "\<exists>o'. selected_offload r (allow_degradation r) = Some o' \<and> memory_pressure e
    \<and> \<not> host_memory_exceeded e \<and> offload_fits_host e
    \<and> candidate_degradations r e c = offload_degradations r o'"
  using assms offload_reason_None [of e]
  by (auto simp: candidate_degradations_def memory_verdict_def Let_def split: if_splits option.splits)

lemma offload_degradations_length: "length (offload_degradations r d) \<le> 2"
  by (auto simp: offload_degradations_def)

lemma degradations_length: "length (candidate_degradations r e c) \<le> 2"
proof (cases "candidate_degradations r e c = []")
  case False
  from degradations_of [OF False] offload_degradations_length show ?thesis by metis
qed simp

lemma offload_degradations_cases:
  "d \<in> set (offload_degradations r o') \<Longrightarrow>
     d = o' \<or> (d \<in> {VaeTiling, TemporalWindowing} \<and> allow_degradation r)"
  by (auto simp: offload_degradations_def split: if_splits)

lemma offload_options_plain: "(path, d) \<in> set offload_options \<Longrightarrow> d \<notin> {VaeTiling, TemporalWindowing}"
  by (auto simp: offload_options_def)

lemma runnable_degradations:
  assumes "runnable m r e c" "memory_pressure e"
  shows "candidate_degradations r e c \<noteq> [] \<and> rc_accelerator c \<in> {Cuda, Rocm} \<and> rc_supports_offloading c"
proof -
  from assms have a: "\<not> host_memory_exceeded e" "rc_supports_offloading c"
      "rc_accelerator c = Cuda \<or> rc_accelerator c = Rocm" "some_offload_permitted r" "offload_fits_host e"
    by (auto simp: runnable_def memory_allows_def)
  from a(4) obtain d where d: "selected_offload r (allow_degradation r) = Some d"
    using selected_offload_some [of r] by blast
  from a(5) have "offload_host_memory_rejection_reason e = None" by (simp add: offload_reason_None)
  with a d assms(2) show ?thesis
    by (simp add: candidate_degradations_def memory_verdict_def offload_degradations_def)
qed

section \<open>The fallback chain\<close>

definition preference_of ::
  "model_manifest \<Rightarrow> effective_request \<Rightarrow> workload_estimate \<Rightarrow> runtime_candidate \<Rightarrow> int \<times> candidate_decision" where
  "preference_of m r e c = (candidate_score r e c, candidate_decision_of m r e c)"

lemma preference_key_of: "preference_key (preference_of m r e c) = (- candidate_score r e c, rc_id c)"
  by (simp add: preference_key_def preference_of_def)

lemma runnable_preferred: "runnable m r e c \<Longrightarrow> preferred_route m r c"
  by (auto simp: runnable_def serves_model_def routing_allows_def preferred_route_def split: option.splits)

lemma chain_members:
  assumes ids: "distinct (map rc_id cs)" and c: "c \<in> set cs" "runnable m r e c"
  shows "set (fallback_chain_of (Some (candidate_decision_of m r e c))
      (sort_key preference_key (map (preference_of m r e) (filter (preferred_route m r) cs)))) =
    candidate_decision_of m r e ` {d \<in> set cs. preferred_route m r d \<and> \<not> runnable m r e d
      \<and> rc_id d \<noteq> rc_id c \<and> preferred_to r e d c}"
proof -
  let ?ps = "map (preference_of m r e) (filter (preferred_route m r) cs)"
  let ?s = "sort_key preference_key ?ps"
  let ?w = "preference_of m r e c"
  have inj: "x = y" if "x \<in> set cs" "y \<in> set cs" "rc_id x = rc_id y" for x y
    using ids that by (meson distinct_map inj_onD)
  have w: "?w \<in> set ?ps" using c runnable_preferred by auto
  have key: "inj_on preference_key (set ?ps)"
    by (auto simp: inj_on_def preference_key_of dest: inj)
  have idkey: "cd_runtime_id (snd p) = rc_id c \<longleftrightarrow> preference_key p = preference_key ?w"
    if "p \<in> set ?ps" for p
    using that c(1) by (auto simp: preference_of_def preference_key_def dest: inj)
  have tw: "takeWhile (\<lambda>p. cd_runtime_id (snd p) \<noteq> rc_id c) ?s
      = takeWhile (\<lambda>p. preference_key p \<noteq> preference_key ?w) ?s"
    by (rule takeWhile_cong [OF refl]) (use idkey in auto)
  have mem: "p \<in> set (takeWhile (\<lambda>p. cd_runtime_id (snd p) \<noteq> rc_id c) ?s)
      \<longleftrightarrow> p \<in> set ?ps \<and> preference_key p < preference_key ?w" for p
    unfolding tw using takeWhile_sorted [of preference_key ?s ?w p] key w by simp
  have lt: "preference_key (preference_of m r e d) < preference_key ?w
      \<longleftrightarrow> rc_id d \<noteq> rc_id c \<and> preferred_to r e d c" if "d \<in> set cs" for d
    using inj [OF that c(1)] by (auto simp: preference_key_of preferred_to_def)
  have "set (fallback_chain_of (Some (candidate_decision_of m r e c)) ?s) =
      snd ` {p \<in> set ?ps. preference_key p < preference_key ?w \<and> cd_status (snd p) = Rejected}"
    using mem by (auto simp: fallback_chain_of_def)
  also have "\<dots> = candidate_decision_of m r e ` {d \<in> set cs. preferred_route m r d
      \<and> \<not> runnable m r e d \<and> rc_id d \<noteq> rc_id c \<and> preferred_to r e d c}"
  proof -
    have st: "cd_status (snd (preference_of m r e d)) = Rejected \<longleftrightarrow> \<not> runnable m r e d"
      "snd (preference_of m r e d) = candidate_decision_of m r e d" for d
      by (simp_all add: preference_of_def)
    show ?thesis using lt by (force simp: st image_iff)
  qed
  finally show ?thesis .
qed

section \<open>Scores\<close>

lemma i32_wrap_id: "- 2147483648 \<le> x \<Longrightarrow> x \<le> 2147483647 \<Longrightarrow> i32_wrap x = x"
  by (simp add: i32_wrap_def)

section \<open>A worked example\<close>

text \<open>
  An image request that explicitly allows CPU offload, on a machine whose accelerator is
  too small: a preferred runtime that is not installed, one that can offload, and the CPU.
\<close>

definition demo_manifest :: model_manifest where
  "demo_manifest = \<lparr>mf_id = lit ''m'', mf_format = SafeTensors, mf_architecture = None,
     mf_family = Some (lit ''Flux''), mf_repository_layout = Diffusers, mf_tasks = [ImageGeneration],
     mf_files = [], mf_components = []\<rparr>"

definition demo_request :: effective_request where
  "demo_request = \<lparr>er_model = lit ''m'', er_task = ImageGeneration, er_prompt = Some (lit ''p''),
     er_negative_prompt = None, er_inputs = [], er_output_modality = OutImage,
     er_parameters =
       [(CPU_OFFLOAD, \<lparr>rp_value = PBoolean True, rp_source = RequestOverride\<rparr>),
        (lit ''routing.device'', \<lparr>rp_value = PString (lit ''CUDA''), rp_source = RequestOverride\<rparr>)],
     er_explicit_parameters = [CPU_OFFLOAD, lit ''routing.device''],
     er_parameter_policy = Strict, er_warnings = []\<rparr>"

definition demo_estimate :: workload_estimate where
  "demo_estimate = \<lparr>we_task = ImageGeneration, we_download_size_bytes = Some 10,
     we_weight_payload_bytes = Some 10, we_accelerator_peak_bytes = Some 20,
     we_accelerator_memory_limit_bytes = Some 16, we_host_peak_bytes = Some 2,
     we_host_memory_limit_bytes = Some 64, we_output_size_bytes = None, we_fit = LikelyOom,
     we_confidence = Heuristic, we_assumptions = [], we_warnings = [], we_recommendations = []\<rparr>"

definition demo_candidate :: "rstr \<Rightarrow> runtime_accelerator \<Rightarrow> bool \<Rightarrow> int \<Rightarrow> runtime_candidate" where
  "demo_candidate i a available priority = \<lparr>rc_id = i, rc_backend = lit ''diffusers'', rc_accelerator = a,
     rc_available = available, rc_availability_reason = None, rc_supported_tasks = [ImageGeneration],
     rc_supported_layouts = [Diffusers], rc_supported_formats = [], rc_supported_families = [lit ''flux''],
     rc_supported_architectures = [], rc_parameter_support = [], rc_supports_offloading = True,
     rc_supports_compile = False, rc_supports_batching = False, rc_priority = priority\<rparr>"

definition demo_candidates :: "runtime_candidate list" where
  "demo_candidates = [demo_candidate (lit ''cpu'') Cpu True 10, demo_candidate (lit ''slow'') Cuda True 50,
     demo_candidate (lit ''fast'') Cuda False 90]"

definition demo_execution :: execution_plan where
  "demo_execution = plan_execution demo_manifest demo_request demo_estimate demo_candidates"

lemma demo_parameters:
  "requested_backend demo_request = None"
  "requested_accelerator demo_request = Some (lit ''CUDA'')"
  "fallback_policy demo_request = lit ''backend''"
  "bool_parameter demo_request CPU_OFFLOAD = Some True"
  "is_explicit demo_request CPU_OFFLOAD"
  "allow_degradation demo_request = False"
  by (simp_all add: requested_backend_def requested_accelerator_def fallback_policy_def
    allow_degradation_def string_parameter_def bool_parameter_def er_parameter_def is_explicit_def
    demo_request_def CPU_OFFLOAD_def lit_def concrete_routing_target_def trim_def trim_start_def
    trim_end_def is_whitespace_def eq_ignore_ascii_case_def to_ascii_lowercase_def ascii_lower_def
    is_ascii_upper_def Let_def)

lemma demo_memory:
  "memory_pressure demo_estimate"
  "\<not> host_memory_exceeded demo_estimate"
  "offload_host_memory_rejection_reason demo_estimate = None"
  by (simp_all add: memory_pressure_def host_memory_exceeded_def reaches_def demo_estimate_def
    offload_host_memory_rejection_reason_def projected_host_peak_with_offload_def sat_add_def
    u64_max_def Let_def)

lemma demo_offload: "selected_offload demo_request False = Some CpuOffload"
  by (simp add: selected_offload_def offload_options_def demo_parameters)

lemma demo_accelerator:
  "runtime_accelerator_matches Cuda (lit ''CUDA'')"
  "\<not> runtime_accelerator_matches Cpu (lit ''CUDA'')"
  by (simp_all add: runtime_accelerator_matches_def lit_def to_ascii_lowercase_def ascii_lower_def
    is_ascii_upper_def Let_def)

lemma demo_family: "eq_ignore_ascii_case (lit ''flux'') (lit ''Flux'')"
  by (simp add: lit_def eq_ignore_ascii_case_def to_ascii_lowercase_def ascii_lower_def is_ascii_upper_def)

lemma demo_judged:
  "candidate_reasons demo_manifest demo_request demo_estimate (demo_candidate i Cuda True p) = []"
  "candidate_degradations demo_request demo_estimate (demo_candidate i Cuda b p) = [CpuOffload]"
  "candidate_reasons demo_manifest demo_request demo_estimate (demo_candidate i Cuda False p) \<noteq> []"
  "candidate_reasons demo_manifest demo_request demo_estimate (demo_candidate i Cpu True p) \<noteq> []"
  by (simp_all add: candidate_reasons_def candidate_degradations_def memory_verdict_def static_reasons_def
    unless_def demo_candidate_def demo_manifest_def supports_layout_def supports_format_def names_any_def
    demo_parameters demo_memory demo_offload demo_accelerator demo_family offload_degradations_def
    parameter_refused_def Let_def demo_request_def [THEN arg_cong [where f = er_task]]
    demo_request_def [THEN arg_cong [where f = er_explicit_parameters]])

lemma demo_runnable:
  "runnable demo_manifest demo_request demo_estimate (demo_candidate i Cuda True p)"
  "\<not> runnable demo_manifest demo_request demo_estimate (demo_candidate i Cuda False p)"
  "\<not> runnable demo_manifest demo_request demo_estimate (demo_candidate i Cpu True p)"
  using demo_judged by (simp_all flip: reasons_Nil)

lemma demo_selects: "ep_selected_runtime demo_execution = Some (lit ''slow'')"
proof -
  have "winner demo_manifest demo_request demo_estimate demo_candidates \<noteq> None"
    by (simp add: winner_None demo_candidates_def demo_runnable)
  then obtain d where d: "winner demo_manifest demo_request demo_estimate demo_candidates = Some d" by blast
  from winner_Some [OF d] have "cd_runtime_id d = lit ''slow''"
    by (auto simp: demo_candidates_def demo_runnable) (simp add: demo_candidate_def)
  then show ?thesis by (simp add: demo_execution_def plan_fields d)
qed

lemma demo_degrades: "ep_degradations demo_execution = [CpuOffload]"
proof -
  obtain c where c: "c \<in> set demo_candidates" "runnable demo_manifest demo_request demo_estimate c"
      "winner demo_manifest demo_request demo_estimate demo_candidates
        = Some (candidate_decision_of demo_manifest demo_request demo_estimate c)"
    using planned [OF demo_selects [unfolded demo_execution_def]] by metis
  then show ?thesis
    by (auto simp: demo_execution_def plan_fields demo_candidates_def demo_runnable demo_judged)
qed

lemmas demo_selected = demo_selects [unfolded demo_execution_def]

section \<open>Properties\<close>

text \<open>
  Admission. A candidate is accepted exactly when it is available and serves the task,
  layout, format, family and architecture of the model, honours the device and (under
  fallback policy none) the backend that were asked for, refuses no explicit parameter under
  the strict policy, and memory allows it: either nothing is over a limit, or only the
  accelerator is, the candidate can offload, the request permits an offload, and the host
  can hold what is moved to it. An accepted candidate carries no reason and has a score, a
  rejected one carries a reason and has none.
\<close>

theorem admission_exact:
  "(cd_status (candidate_decision_of m r e c) = Accepted \<longleftrightarrow> runnable m r e c)
   \<and> (cd_reasons (candidate_decision_of m r e c) = [] \<longleftrightarrow> runnable m r e c)
   \<and> (cd_score (candidate_decision_of m r e c) =
        (if runnable m r e c then Some (candidate_score r e c) else None))"
  by (simp add: reasons_Nil)

text \<open>
  C6. The winner. The plan selects nothing exactly when no candidate may run, and otherwise
  a candidate that may run, with its backend, score and degradations; no candidate that may
  run has a higher score, and among equal scores its runtime id is the least.
\<close>

theorem plan_selects_best:
  assumes "plan_execution m r e cs = p"
  shows "(ep_selected_runtime p = None \<longleftrightarrow> (\<forall>c \<in> set cs. \<not> runnable m r e c))
    \<and> (\<forall>i. ep_selected_runtime p = Some i \<longrightarrow> (\<exists>c \<in> set cs. rc_id c = i \<and> runnable m r e c
         \<and> ep_selected_backend p = Some (rc_backend c) \<and> ep_score p = Some (candidate_score r e c)
         \<and> ep_degradations p = candidate_degradations r e c
         \<and> (\<forall>c' \<in> set cs. runnable m r e c' \<longrightarrow>
              candidate_score r e c' < candidate_score r e c
              \<or> (candidate_score r e c' = candidate_score r e c \<and> rc_id c \<le> rc_id c'))))"
proof (intro conjI allI impI)
  show "ep_selected_runtime p = None \<longleftrightarrow> (\<forall>c \<in> set cs. \<not> runnable m r e c)"
    using winner_None [of m r e cs] by (simp add: plan_fields flip: assms)
next
  fix i assume "ep_selected_runtime p = Some i"
  then have "ep_selected_runtime (plan_execution m r e cs) = Some i" by (simp add: assms)
  then obtain c where c: "c \<in> set cs" "rc_id c = i" "runnable m r e c"
      "\<forall>c' \<in> set cs. runnable m r e c' \<longrightarrow> preferred_to r e c c'"
      "winner m r e cs = Some (candidate_decision_of m r e c)"
    by (rule planned)
  then show "\<exists>c \<in> set cs. rc_id c = i \<and> runnable m r e c
         \<and> ep_selected_backend p = Some (rc_backend c) \<and> ep_score p = Some (candidate_score r e c)
         \<and> ep_degradations p = candidate_degradations r e c
         \<and> (\<forall>c' \<in> set cs. runnable m r e c' \<longrightarrow>
              candidate_score r e c' < candidate_score r e c
              \<or> (candidate_score r e c' = candidate_score r e c \<and> rc_id c \<le> rc_id c'))"
    by (intro bexI [of _ c]) (auto simp: plan_fields preferred_to_def simp flip: assms)
qed

theorem plan_selects_best_witness:
  "ep_selected_runtime demo_execution = Some (lit ''slow'') \<and> ep_degradations demo_execution = [CpuOffload]"
proof -
  from plan_selects_best [of demo_manifest demo_request demo_estimate demo_candidates demo_execution]
  obtain c where "c \<in> set demo_candidates" "runnable demo_manifest demo_request demo_estimate c"
      "ep_degradations demo_execution = candidate_degradations demo_request demo_estimate c"
    using demo_selects by (auto simp: demo_execution_def)
  then have "ep_degradations demo_execution = [CpuOffload]"
    by (auto simp: demo_candidates_def demo_runnable demo_judged)
  with demo_selects show ?thesis by simp
qed

text \<open>
  C14. Memory limits. A selected runtime never goes with a host that is already full, and
  when the accelerator is over its limit (or the estimate says out of memory) the runtime
  runs on CUDA or ROCm, an offload is in the plan, and what the host must hold with that
  offload stays below the host limit.
\<close>

theorem memory_limits_respected:
  assumes "ep_selected_runtime (plan_execution m r e cs) = Some i"
    and "we_host_memory_limit_bytes e = Some limit"
  shows "(\<forall>peak. we_host_peak_bytes e = Some peak \<longrightarrow> peak < limit)
    \<and> (memory_pressure e \<longrightarrow> ep_degradations (plan_execution m r e cs) \<noteq> []
        \<and> (\<exists>c \<in> set cs. rc_id c = i \<and> rc_supports_offloading c \<and> rc_accelerator c \<in> {Cuda, Rocm})
        \<and> (\<forall>need. projected_host_peak_with_offload e = Some need \<longrightarrow> need < limit))"
proof -
  obtain c where c: "c \<in> set cs" "rc_id c = i" "runnable m r e c"
      "winner m r e cs = Some (candidate_decision_of m r e c)"
    using planned [OF assms(1)] by metis
  then have mem: "memory_allows r e c" by (simp add: runnable_def)
  then have "\<not> host_memory_exceeded e" by (auto simp: memory_allows_def memory_pressure_def)
  then have host: "\<forall>peak. we_host_peak_bytes e = Some peak \<longrightarrow> peak < limit"
    using assms(2) by (auto simp: host_memory_exceeded_def reaches_def)
  have fits: "memory_pressure e \<longrightarrow> (\<forall>need. projected_host_peak_with_offload e = Some need \<longrightarrow> need < limit)"
    using mem assms(2) by (auto simp: memory_allows_def offload_fits_host_def reaches_def)
  have "memory_pressure e \<longrightarrow> ep_degradations (plan_execution m r e cs) \<noteq> []
      \<and> rc_supports_offloading c \<and> rc_accelerator c \<in> {Cuda, Rocm}"
    using runnable_degradations [OF c(3)] c(4) by (simp add: plan_fields)
  with host fits c(1,2) show ?thesis by blast
qed

theorem memory_limits_respected_witness:
  "\<exists>need. memory_pressure demo_estimate \<and> ep_degradations demo_execution \<noteq> []
   \<and> projected_host_peak_with_offload demo_estimate = Some need \<and> need < 64"
proof -
  have "projected_host_peak_with_offload demo_estimate = Some 15"
    by (simp add: projected_host_peak_with_offload_def demo_estimate_def sat_add_def u64_max_def Let_def)
  moreover have "we_host_memory_limit_bytes demo_estimate = Some 64" by (simp add: demo_estimate_def)
  ultimately show ?thesis
    using memory_limits_respected [OF demo_selected, of 64] demo_memory(1) by (simp add: demo_execution_def)
qed

text \<open>
  Consent. Every degradation of a plan was agreed to: the memory pressure is real and
  not the host's; an offload is one of the three options, is set to true, and was either
  explicit in the request or allowed by the degrade policy while CPU offload was not
  explicitly denied; tiling and windowing appear only under the degrade policy and never
  without an offload.
\<close>

theorem degradations_consented:
  assumes "d \<in> set (ep_degradations (plan_execution m r e cs))"
  shows "memory_pressure e \<and> \<not> host_memory_exceeded e \<and> some_offload_permitted r
    \<and> ((\<exists>path. (path, d) \<in> set offload_options \<and> bool_parameter r path = Some True
          \<and> (is_explicit r path \<or> (fallback_policy r = lit ''degrade''
               \<and> \<not> (is_explicit r CPU_OFFLOAD \<and> bool_parameter r CPU_OFFLOAD = Some False))))
       \<or> (d \<in> {VaeTiling, TemporalWindowing} \<and> fallback_policy r = lit ''degrade''))"
proof -
  from assms obtain s where s: "winner m r e cs = Some s" "d \<in> set (cd_degradations s)"
    by (cases "winner m r e cs") (auto simp: plan_fields)
  from winner_Some [OF s(1)] obtain c where c: "s = candidate_decision_of m r e c" by blast
  with s(2) have d: "d \<in> set (candidate_degradations r e c)" by simp
  then have "candidate_degradations r e c \<noteq> []" by auto
  from degradations_of [OF this] obtain o' where
    o': "selected_offload r (allow_degradation r) = Some o'" "memory_pressure e"
      "\<not> host_memory_exceeded e" "candidate_degradations r e c = offload_degradations r o'" by blast
  have "some_offload_permitted r" using o'(1) selected_offload_some [of r] by simp
  moreover have "(\<exists>path. (path, d) \<in> set offload_options \<and> offload_permitted r path)
      \<or> (d \<in> {VaeTiling, TemporalWindowing} \<and> allow_degradation r)"
    using offload_degradations_cases [of d r o'] d o'(4) selected_offload_permitted [OF o'(1)] by auto
  ultimately show ?thesis using o'(2,3) unfolding offload_permitted_def allow_degradation_def by blast
qed

theorem degradations_consented_witness:
  "bool_parameter demo_request CPU_OFFLOAD = Some True \<and> some_offload_permitted demo_request"
  using degradations_consented [of CpuOffload demo_manifest demo_request demo_estimate demo_candidates]
    demo_degrades demo_parameters by (simp add: demo_execution_def)

text \<open>
  Explicit routing. The selected runtime matches a device or accelerator the request
  names; under fallback policy none its backend is the one requested; and under the strict
  parameter policy it neither ignores nor rejects any parameter the client set.
\<close>

theorem explicit_routing_respected:
  assumes "ep_selected_runtime (plan_execution m r e cs) = Some i"
  shows "\<exists>c \<in> set cs. rc_id c = i
    \<and> (\<forall>a. requested_accelerator r = Some a \<longrightarrow> runtime_accelerator_matches (rc_accelerator c) a)
    \<and> (\<forall>b. requested_backend r = Some b \<and> fallback_policy r = lit ''none'' \<longrightarrow>
         eq_ignore_ascii_case (rc_backend c) b)
    \<and> (er_parameter_policy r = Strict \<longrightarrow> (\<forall>path \<in> set (er_explicit_parameters r).
         map_of (rc_parameter_support c) path \<notin> {Some Ignored, Some Unsupported}))"
proof -
  obtain c where c: "c \<in> set cs" "rc_id c = i" "runnable m r e c"
    using planned [OF assms] by metis
  then have "routing_allows r c" "\<forall>p \<in> set (er_explicit_parameters r). \<not> parameter_refused r c p"
    by (simp_all add: runnable_def)
  then show ?thesis using c(1,2) by (intro bexI [of _ c]) (auto simp: routing_allows_def parameter_refused_def)
qed

theorem explicit_routing_respected_witness:
  "\<exists>c \<in> set demo_candidates. rc_id c = lit ''slow'' \<and> runtime_accelerator_matches (rc_accelerator c) (lit ''CUDA'')"
  using explicit_routing_respected [OF demo_selected] demo_parameters(2) by auto

text \<open>
  The fallback chain. With pairwise different runtime ids, the chain of a plan that
  selected \<open>i\<close> holds the decisions of exactly those candidates that serve the task, layout,
  format and explicit target, come before the winner by score and id, and were rejected:
  no preferred route is missing and nothing else is in it.
\<close>

theorem fallback_chain_exact:
  assumes "distinct (map rc_id cs)"
    and "ep_selected_runtime (plan_execution m r e cs) = Some i"
  shows "\<exists>c \<in> set cs. rc_id c = i \<and> set (ep_fallback_chain (plan_execution m r e cs)) =
    candidate_decision_of m r e ` {d \<in> set cs. preferred_route m r d \<and> \<not> runnable m r e d \<and> rc_id d \<noteq> i
      \<and> (candidate_score r e c < candidate_score r e d
         \<or> (candidate_score r e c = candidate_score r e d \<and> rc_id d \<le> i))}"
proof -
  obtain c where c: "c \<in> set cs" "rc_id c = i" "runnable m r e c"
      "winner m r e cs = Some (candidate_decision_of m r e c)"
    using planned [OF assms(2)] by metis
  from chain_members [OF assms(1) c(1,3)] show ?thesis
    using c by (intro bexI [of _ c]) (simp_all add: plan_fields preferred_to_def preference_of_def [abs_def])
qed

theorem fallback_chain_exact_witness:
  "candidate_decision_of demo_manifest demo_request demo_estimate (demo_candidate (lit ''fast'') Cuda False 90)
     \<in> set (ep_fallback_chain demo_execution)"
proof -
  let ?f = "demo_candidate (lit ''fast'') Cuda False 90"
  have d: "distinct (map rc_id demo_candidates)" by (simp add: demo_candidates_def demo_candidate_def lit_def)
  have ids: "lit ''slow'' \<noteq> lit ''cpu''" "lit ''slow'' \<noteq> lit ''fast''" "lit ''backend'' \<noteq> lit ''none''" by (simp_all add: lit_def)
  obtain c where c: "c \<in> set demo_candidates" "rc_id c = lit ''slow''" and
    ch: "set (ep_fallback_chain demo_execution) = candidate_decision_of demo_manifest demo_request demo_estimate `
      {d \<in> set demo_candidates. preferred_route demo_manifest demo_request d
        \<and> \<not> runnable demo_manifest demo_request demo_estimate d \<and> rc_id d \<noteq> lit ''slow''
        \<and> (candidate_score demo_request demo_estimate c < candidate_score demo_request demo_estimate d
         \<or> (candidate_score demo_request demo_estimate c = candidate_score demo_request demo_estimate d
            \<and> rc_id d \<le> lit ''slow''))}"
    using fallback_chain_exact [OF d demo_selected] by (auto simp: demo_execution_def)
  have cs: "c = demo_candidate (lit ''slow'') Cuda True 50"
    using c ids by (auto simp: demo_candidates_def) (auto simp: demo_candidate_def)
  have sc: "candidate_score demo_request demo_estimate (demo_candidate j Cuda b q) = i32_wrap (q - 35)" for j b q
    by (simp add: candidate_score_def demo_judged backend_matches_def demo_parameters Let_def)
      (simp add: demo_candidate_def i32_wrap_def)
  have pr: "preferred_route demo_manifest demo_request ?f"
    by (simp add: preferred_route_def demo_parameters demo_candidate_def demo_accelerator supports_layout_def
      supports_format_def demo_manifest_def ids(3))
      (simp add: demo_request_def)
  have "rc_id ?f \<noteq> lit ''slow''" using ids by (simp add: demo_candidate_def)
  moreover have "?f \<in> set demo_candidates" by (simp add: demo_candidates_def)
  ultimately show ?thesis unfolding ch cs
    by (intro imageI) (simp add: pr demo_runnable sc i32_wrap_id)
qed

text \<open>
  Order of candidates. With pairwise different runtime ids, the plan does not depend on
  the order in which the candidates were collected, and no decision is lost: the plan lists
  the decision of every candidate once.
\<close>

theorem candidate_order_irrelevant:
  assumes "distinct (map rc_id cs)" and "mset cs = mset cs'"
  shows "plan_execution m r e cs = plan_execution m r e cs'
    \<and> mset (ep_candidates (plan_execution m r e cs)) = mset (map (candidate_decision_of m r e) cs')"
proof -
  have inj: "inj_on rc_id (set cs)" and ids: "distinct (map rc_id cs)"
    using assms(1) by (simp_all add: distinct_map)
  have d: "sort_key decision_key (map (candidate_decision_of m r e) cs)
      = sort_key decision_key (map (candidate_decision_of m r e) cs')"
  proof (rule sort_key_perm)
    show "mset (map (candidate_decision_of m r e) cs) = mset (map (candidate_decision_of m r e) cs')"
      using assms(2) by simp
    show "inj_on decision_key (set (map (candidate_decision_of m r e) cs))"
      using inj by (auto simp: inj_on_def decision_key_def split: if_splits)
  qed
  have p: "sort_key preference_key (map (\<lambda>c. (candidate_score r e c, candidate_decision_of m r e c)) (filter (preferred_route m r) cs))
      = sort_key preference_key (map (\<lambda>c. (candidate_score r e c, candidate_decision_of m r e c)) (filter (preferred_route m r) cs'))"
  proof (rule sort_key_perm)
    show "mset (map (\<lambda>c. (candidate_score r e c, candidate_decision_of m r e c)) (filter (preferred_route m r) cs))
      = mset (map (\<lambda>c. (candidate_score r e c, candidate_decision_of m r e c)) (filter (preferred_route m r) cs'))"
      using assms(2) by simp
    show "inj_on preference_key (set (map (\<lambda>c. (candidate_score r e c, candidate_decision_of m r e c)) (filter (preferred_route m r) cs)))"
      using inj by (auto simp: inj_on_def preference_key_def)
  qed
  show ?thesis using assms(2) by (simp add: plan_execution_def d p Let_def)
qed

theorem candidate_order_irrelevant_witness:
  "ep_selected_runtime (plan_execution demo_manifest demo_request demo_estimate (rev demo_candidates)) = Some (lit ''slow'')"
proof -
  have d: "distinct (map rc_id demo_candidates)" by (simp add: demo_candidates_def demo_candidate_def lit_def)
  from candidate_order_irrelevant [OF d, of "rev demo_candidates"] show ?thesis
    using demo_selected by simp
qed

text \<open>
  Scores. For priorities that leave the 32 bits room, the wrapping arithmetic of the
  score is exact: the priority, plus 500 for the requested backend, less 35 for each of at
  most two degradations and less 120 on the CPU.
\<close>

theorem score_exact:
  assumes "- 2147483000 \<le> rc_priority c" and "rc_priority c \<le> 2147483000"
  shows "candidate_score r e c = rc_priority c + (if backend_matches r c then 500 else 0)
      - 35 * int (length (candidate_degradations r e c)) - (if rc_accelerator c = Cpu then 120 else 0)
    \<and> length (candidate_degradations r e c) \<le> 2"
proof -
  have l: "length (candidate_degradations r e c) \<le> 2" by (rule degradations_length)
  define n where "n = int (length (candidate_degradations r e c))"
  have n: "0 \<le> n" "n \<le> 2" using l by (simp_all add: n_def)
  have "candidate_score r e c = rc_priority c + (if backend_matches r c then 500 else 0) - 35 * n
      - (if rc_accelerator c = Cpu then 120 else 0)"
    using assms n by (simp add: candidate_score_def Let_def i32_wrap_id flip: n_def)
  with l show ?thesis by (simp add: n_def)
qed

theorem score_exact_witness:
  "candidate_score demo_request demo_estimate (demo_candidate (lit ''slow'') Cuda True 50) = 15"
  using score_exact [of "demo_candidate (lit ''slow'') Cuda True 50" demo_request demo_estimate]
  by (simp add: demo_judged backend_matches_def demo_parameters) (simp add: demo_candidate_def)

end
