(* ===== verification/Resolution_Claims.thy ===== *)
theory Resolution_Claims
  imports Inference_Resolution Planner_Claims
begin

text \<open>
  What request resolution promises: which layer a value comes from, which parameters are
  explicit, that every value fits its descriptor, that list overrides mean what their type
  says, and which inputs a task requires.
\<close>

section \<open>Layers\<close>

lemma map_of_filter_key: "map_of (filter (\<lambda>(k, _). P k) m) k = (if P k then map_of m k else None)"
  by (induction m) auto

lemma get_apply_layer_distinct:
  "distinct (map fst l) \<Longrightarrow> map_of (apply_layer l src ps) p =
     (case map_of l p of Some v \<Rightarrow> Some \<lparr>rp_value = v, rp_source = src\<rparr> | None \<Rightarrow> map_of ps p)"
proof (induction l arbitrary: ps)
  case Nil
  then show ?case by (simp add: apply_layer_def)
next
  case (Cons x l)
  obtain k v where x: "x = (k, v)" by (cases x)
  have "k \<notin> fst ` set l" using Cons.prems x by auto
  then have "map_of l k = None" by (simp add: map_of_eq_None_iff)
  with Cons.IH [of "bt_insert k \<lparr>rp_value = v, rp_source = src\<rparr> ps"] Cons.prems x show ?case
    by (auto simp: apply_layer_def split: option.splits)
qed

lemma get_apply_layer:
  "bt_wf l \<Longrightarrow> map_of (apply_layer l src ps) p =
     (case map_of l p of Some v \<Rightarrow> Some \<lparr>rp_value = v, rp_source = src\<rparr> | None \<Rightarrow> map_of ps p)"
  by (rule get_apply_layer_distinct) (rule bt_wf_distinct)

text \<open>The value of the highest layer that has one.\<close>

fun top_layer :: "(parameter_source \<times> layer) list \<Rightarrow> rstr \<Rightarrow> resolved_parameter option" where
  "top_layer [] p = None"
| "top_layer ((src, l) # ls) p =
     (case top_layer ls p of
        Some x \<Rightarrow> Some x
      | None \<Rightarrow> map_option (\<lambda>v. \<lparr>rp_value = v, rp_source = src\<rparr>) (map_of l p))"

lemma get_apply_layers:
  assumes "\<forall>l \<in> snd ` set ls. bt_wf l"
  shows "map_of (apply_layers ds ls ps) p =
    (if bt_contains p ds then (case top_layer ls p of Some x \<Rightarrow> Some x | None \<Rightarrow> map_of ps p) else map_of ps p)"
  using assms
proof (induction ls arbitrary: ps)
  case Nil
  then show ?case by (simp add: apply_layers_def)
next
  case (Cons x ls)
  obtain src l where x: "x = (src, l)" by (cases x)
  have wf: "bt_wf (schema_parameter_layer l ds)"
    using Cons.prems x by (simp add: schema_parameter_layer_def bt_wf_filter)
  have g: "map_of (schema_parameter_layer l ds) p = (if bt_contains p ds then map_of l p else None)"
    by (simp add: schema_parameter_layer_def map_of_filter_key)
  have "map_of (apply_layers ds (x # ls) ps) p
      = map_of (apply_layers ds ls (apply_layer (schema_parameter_layer l ds) src ps)) p"
    by (simp add: apply_layers_def x)
  also have "\<dots> = (if bt_contains p ds then (case top_layer ls p of Some y \<Rightarrow> Some y
      | None \<Rightarrow> map_of (apply_layer (schema_parameter_layer l ds) src ps) p)
      else map_of (apply_layer (schema_parameter_layer l ds) src ps) p)"
    using Cons by auto
  finally show ?case
    using get_apply_layer [OF wf, of src ps p] by (auto simp: x g split: option.splits)
qed

lemma top_layer_source: "top_layer ls p = Some rp \<Longrightarrow> rp_source rp \<in> fst ` set ls"
  by (induction ls p rule: top_layer.induct) (auto split: option.splits)

lemma get_descriptor_defaults:
  "map_of (apply_descriptor_defaults schema []) p = map_option descriptor_default (map_of (descriptor_map schema) p)"
proof -
  have "map_of (foldl (\<lambda>ps d. bt_insert (pd_path d) (descriptor_default d) ps) ps schema) p
      = map_option descriptor_default (map_of (foldl (\<lambda>m d. bt_insert (pd_path d) d m) m schema) p)"
    if "\<forall>p. map_of ps p = map_option descriptor_default (map_of m p)" for ps m
    using that by (induction schema arbitrary: ps m) auto
  from this [of "[]" "[]"] show ?thesis by (simp add: apply_descriptor_defaults_def descriptor_map_def)
qed

lemma normalize_entries_wf: "normalize_entries task label es acc = Ok l \<Longrightarrow> bt_wf acc \<Longrightarrow> bt_wf l"
  by (induction es arbitrary: acc) (auto simp: Let_def bt_wf_insert split: if_splits)

lemma normalize_layer_wf: "normalize_parameter_layer task label l0 = Ok l \<Longrightarrow> bt_wf l"
  unfolding normalize_parameter_layer_def by (rule normalize_entries_wf [OF _ bt_wf_Nil])

definition tables_ok :: "resolution_tables \<Rightarrow> bool" where
  "tables_ok rt \<longleftrightarrow> bt_wf (rt_task_defaults rt) \<and> bt_wf (rt_family_defaults rt)
     \<and> (case rt_model_defaults rt of Ok l \<Rightarrow> bt_wf l | _ \<Rightarrow> True)"

lemma base_layers_ok:
  assumes "base_layers rt rx task = Ok ls" "tables_ok rt"
  shows "\<forall>l \<in> snd ` set ls. bt_wf l"
    and "map fst ls = [TaskDefault, ModelFamilyDefault, ModelDefault, RuntimeDefault, HardwareProfile, UserProfile]"
  using assms by (auto simp: base_layers_def res_bind_Ok tables_ok_def dest: normalize_layer_wf)

section \<open>Overrides\<close>

lemma set_set_insert [simp]: "set (set_insert x xs) = insert x (set xs)"
proof -
  have "set (set_insert x xs) = fst ` set (bt_insert x () (map (\<lambda>y. (y, ())) xs))"
    by (simp add: set_insert_def)
  then show ?thesis by (simp add: image_image)
qed

lemma insert_request_override_sel [simp]:
  "fst (insert_request_override p v s) = bt_insert p \<lparr>rp_value = v, rp_source = RequestOverride\<rparr> (fst s)"
  "set (snd (insert_request_override p v s)) = insert p (set (snd s))"
  by (cases s; simp add: insert_request_override_def)+

text \<open>Between the layers and the end, only explicit paths change, and those are overrides.\<close>

definition overrides_on :: "resolved \<Rightarrow> pending \<Rightarrow> bool" where
  "overrides_on base s \<longleftrightarrow> (\<forall>p. if p \<in> set (snd s)
     then (\<exists>v. map_of (fst s) p = Some \<lparr>rp_value = v, rp_source = RequestOverride\<rparr>)
     else map_of (fst s) p = map_of base p)"

lemma overrides_on_get:
  assumes "overrides_on base s"
  shows "p \<notin> set (snd s) \<Longrightarrow> map_of (fst s) p = map_of base p"
    and "p \<in> set (snd s) \<Longrightarrow> \<exists>v. map_of (fst s) p = Some \<lparr>rp_value = v, rp_source = RequestOverride\<rparr>"
    and "map_of base p \<noteq> None \<Longrightarrow> map_of (fst s) p \<noteq> None"
  using assms [unfolded overrides_on_def, THEN spec, of p] by (auto split: if_splits)

lemma overrides_on_start: "overrides_on base (base, [])"
  by (simp add: overrides_on_def)

lemma overrides_on_insert: "overrides_on base s \<Longrightarrow> overrides_on base (insert_request_override p v s)"
  by (simp add: overrides_on_def)

lemma overrides_on_apply: "overrides_on base s \<Longrightarrow> overrides_on base (apply_overrides os s)"
  by (induction os s rule: apply_overrides.induct) (auto intro: overrides_on_insert)

lemma overrides_on_request:
  "apply_request task ds qs s = Ok s' \<Longrightarrow> overrides_on base s \<Longrightarrow> overrides_on base s'"
proof (induction task ds qs s rule: apply_request.induct)
  case (2 task ds raw v0 rest s)
  let ?p = "normalize_parameter_path task raw"
  from "2.prems"(1) obtain d ov where d: "map_of ds ?p = Some d"
      "resolve_list_parameter_override d v0 (map_option rp_value (map_of (fst s) ?p)) = Ok ov"
    by (auto simp: Let_def res_bind_Ok split: option.splits)
  show ?case
  proof (cases ov)
    case None
    with "2.prems" d have "apply_request task ds rest s = Ok s'" by (simp add: Let_def)
    with "2.IH"(1) [OF refl d(1)] "2.prems"(2) show ?thesis by blast
  next
    case (Some v)
    with "2.prems" d have "apply_request task ds rest (insert_request_override ?p v s) = Ok s'"
      by (auto simp: Let_def res_bind_Ok)
    with "2.IH"(2) [OF refl d(1)] overrides_on_insert [OF "2.prems"(2)] show ?thesis by blast
  qed
qed simp

lemma apply_overrides_explicit: "set (snd s) \<subseteq> set (snd (apply_overrides os s))"
  by (induction os s rule: apply_overrides.induct) auto

lemma apply_overrides_get:
  assumes "distinct (map fst os)"
  shows "map_of (fst (apply_overrides os s)) p =
    (case map_of os p of
       Some (Some v) \<Rightarrow> Some \<lparr>rp_value = v, rp_source = RequestOverride\<rparr>
     | _ \<Rightarrow> map_of (fst s) p)
   \<and> (p \<in> set (snd (apply_overrides os s)) \<longleftrightarrow>
       p \<in> set (snd s) \<or> (\<exists>v. map_of os p = Some (Some v)))"
  using assms
proof (induction os s rule: apply_overrides.induct)
  case (2 path rest s)
  have "path \<notin> fst ` set rest" using "2.prems" by auto
  then have "map_of rest path = None" by (simp add: map_of_eq_None_iff)
  with 2 show ?case by auto
next
  case (3 path v rest s)
  have "path \<notin> fst ` set rest" using "3.prems" by auto
  then have n: "map_of rest path = None" by (simp add: map_of_eq_None_iff)
  from 3 n show ?case by (cases "p = path") (auto split: option.splits)
qed simp

lemma routing_paths_distinct: "distinct (map fst (routing_list ro))"
proof -
  have "map fst (routing_list ro) = map fst (routing_list no_routing_overrides)"
    by (simp add: routing_list_def)
  moreover have "distinct (map fst (routing_list no_routing_overrides))" by code_simp
  ultimately show ?thesis by simp
qed

lemma routing_effect:
  assumes "(path, Some v) \<in> set (routing_list ro)"
  shows "map_of (fst (apply_routing_overrides ro s)) path = Some \<lparr>rp_value = v, rp_source = RequestOverride\<rparr>
    \<and> path \<in> set (snd (apply_routing_overrides ro s))"
proof -
  have "map_of (routing_list ro) path = Some (Some v)"
    using assms routing_paths_distinct by (metis map_of_eq_Some_iff)
  with apply_overrides_get [OF routing_paths_distinct, of ro s path] show ?thesis
    by (simp add: apply_routing_overrides_def)
qed

section \<open>The end of resolution\<close>

lemma validate_all_Ok:
  "validate_all ds es = Ok () \<Longrightarrow> (p, rp) \<in> set es \<Longrightarrow>
     \<exists>d. map_of ds p = Some d \<and> validate_parameter d (rp_value rp) = Ok ()"
  by (induction ds es rule: validate_all.induct) (auto simp: res_bind_Ok split: option.splits)

lemma null_fill_id: "\<forall>d \<in> set schema. bt_contains (pd_path d) ps \<Longrightarrow> null_fill schema ps = ps"
  unfolding null_fill_def by (induction schema) auto

lemma check_explicit_strict:
  "check_explicit ds ps support Strict paths ws = Ok ws' \<Longrightarrow> p \<in> set paths \<Longrightarrow>
     support_of support p \<notin> {Ignored, Unsupported}"
  by (induction paths arbitrary: ws) (auto simp: Let_def split: if_splits)

lemma descriptor_map_dom: "d \<in> set schema \<Longrightarrow> bt_contains (pd_path d) (descriptor_map schema)"
proof -
  have keep: "map_of m p \<noteq> None \<Longrightarrow> map_of (foldl (\<lambda>m d. bt_insert (pd_path d) d m) m schema) p \<noteq> None" for p m schema
    by (induction schema arbitrary: m) simp_all
  have "d \<in> set schema \<Longrightarrow> map_of (foldl (\<lambda>m d. bt_insert (pd_path d) d m) m schema) (pd_path d) \<noteq> None" for m
  proof (induction schema arbitrary: m)
    case (Cons a schema)
    show ?case
    proof (cases "d = a")
      case True
      show ?thesis unfolding True foldl_Cons by (rule keep) simp
    next
      case False
      with Cons show ?thesis by simp
    qed
  qed simp
  then show "d \<in> set schema \<Longrightarrow> bt_contains (pd_path d) (descriptor_map schema)"
    by (simp add: descriptor_map_def bt_contains_def)
qed

text \<open>A successful resolution, taken apart.\<close>

lemma resolved_cases:
  assumes "resolve_request rt m q rx = Ok r"
  obtains schema layers s ps where
    "iq_model q = mf_id m" "supports_task m (iq_task q)" "validate_required_inputs q = Ok ()"
    "rt_schema rt = Ok schema" "base_layers rt rx (iq_task q) = Ok layers"
    "apply_request (iq_task q) (descriptor_map schema) (iq_parameters q)
       (apply_layers (descriptor_map schema) layers (apply_descriptor_defaults schema []), []) = Ok s"
    "apply_routing_overrides (iq_routing q) s = (ps, er_explicit_parameters r)"
    "validate_all (descriptor_map schema) ps = Ok ()"
    "resolved_policy ps = Ok (er_parameter_policy r)"
    "check_explicit (descriptor_map schema) ps (rx_parameter_support rx) (er_parameter_policy r)
       (er_explicit_parameters r) [] = Ok (er_warnings r)"
    "er_parameters r = null_fill schema ps" "er_task r = iq_task q"
proof -
  from assms obtain schema layers s where a:
    "iq_model q = mf_id m" "supports_task m (iq_task q)" "validate_required_inputs q = Ok ()"
    "rt_schema rt = Ok schema" "base_layers rt rx (iq_task q) = Ok layers"
    "apply_request (iq_task q) (descriptor_map schema) (iq_parameters q)
       (apply_layers (descriptor_map schema) layers (apply_descriptor_defaults schema []), []) = Ok s"
    "finish_resolution q schema rx (apply_routing_overrides (iq_routing q) s) = Ok r"
    by (auto simp: resolve_request_def res_bind_Ok Let_def split: if_splits)
  obtain ps ex where o': "apply_routing_overrides (iq_routing q) s = (ps, ex)" by fastforce
  with a(7) have "validate_all (descriptor_map schema) ps = Ok ()"
    "resolved_policy ps = Ok (er_parameter_policy r)"
    "check_explicit (descriptor_map schema) ps (rx_parameter_support rx) (er_parameter_policy r)
       ex [] = Ok (er_warnings r)"
    "er_parameters r = null_fill schema ps" "er_task r = iq_task q" "er_explicit_parameters r = ex"
    by (auto simp: finish_resolution_def res_bind_Ok Let_def)
  with a o' that [of schema layers s ps] show ?thesis by simp
qed

text \<open>What every successful resolution establishes about its parameters.\<close>

lemma resolved_facts:
  assumes "resolve_request rt m q rx = Ok r" "rt_schema rt = Ok schema"
    and "base_layers rt rx (iq_task q) = Ok layers"
  shows "overrides_on (apply_layers (descriptor_map schema) layers (apply_descriptor_defaults schema []))
      (er_parameters r, er_explicit_parameters r)"
    and "map_of (er_parameters r) p = Some rp \<Longrightarrow>
      \<exists>d. map_of (descriptor_map schema) p = Some d \<and> validate_parameter d (rp_value rp) = Ok ()"
    and "er_parameter_policy r = Strict \<Longrightarrow> p \<in> set (er_explicit_parameters r) \<Longrightarrow>
      support_of (rx_parameter_support rx) p \<notin> {Ignored, Unsupported}"
    and resolved_total: "bt_contains p (descriptor_map schema) \<Longrightarrow> bt_contains p (er_parameters r)"
proof -
  let ?ds = "descriptor_map schema"
  let ?base = "apply_layers ?ds layers (apply_descriptor_defaults schema [])"
  obtain s ps where r: "apply_request (iq_task q) ?ds (iq_parameters q) (?base, []) = Ok s"
      "apply_routing_overrides (iq_routing q) s = (ps, er_explicit_parameters r)"
      "validate_all ?ds ps = Ok ()"
      "check_explicit ?ds ps (rx_parameter_support rx) (er_parameter_policy r) (er_explicit_parameters r) []
        = Ok (er_warnings r)"
      "er_parameters r = null_fill schema ps"
    by (rule resolved_cases [OF assms(1)]) (use assms(2,3) that in auto)
  have ov: "overrides_on ?base (ps, er_explicit_parameters r)"
    using overrides_on_apply [OF overrides_on_request [OF r(1) overrides_on_start], of "routing_list (iq_routing q)"] r(2)
    by (simp add: apply_routing_overrides_def)
  have base: "map_of ?base p \<noteq> None" if "bt_contains p ?ds" for p
  proof -
    have "map_of (apply_layers ds ls ps0) p \<noteq> None" if "map_of ps0 p \<noteq> None" for ds ls ps0
      using that
    proof (induction ls arbitrary: ps0)
      case (Cons x ls)
      obtain src l where x: "x = (src, l)" by (cases x)
      have "map_of (apply_layer l0 src ps0) p \<noteq> None" for l0
        using Cons.prems by (induction l0 arbitrary: ps0) (auto simp: apply_layer_def)
      with Cons.IH show ?case by (simp add: apply_layers_def x)
    qed (simp add: apply_layers_def)
    from this [of "apply_descriptor_defaults schema []" ?ds layers] that show ?thesis
      by (auto simp: get_descriptor_defaults bt_contains_def)
  qed
  have all: "bt_contains (pd_path d) ps" if "d \<in> set schema" for d
  proof -
    have "map_of ?base (pd_path d) \<noteq> None" using base descriptor_map_dom that by blast
    from overrides_on_get(3) [OF ov this] show ?thesis by (simp add: bt_contains_def)
  qed
  then have ps: "er_parameters r = ps" using r(5) null_fill_id by metis
  show "overrides_on ?base (er_parameters r, er_explicit_parameters r)" using ov ps by simp
  show "\<exists>d. map_of ?ds p = Some d \<and> validate_parameter d (rp_value rp) = Ok ()"
    if "map_of (er_parameters r) p = Some rp"
    using that ps validate_all_Ok [OF r(3)] map_of_SomeD by metis
  show "bt_contains p ?ds \<Longrightarrow> bt_contains p (er_parameters r)"
    using overrides_on_get(3) [OF ov, of p] base ps by (auto simp: bt_contains_def)
  show "support_of (rx_parameter_support rx) p \<notin> {Ignored, Unsupported}"
    if "er_parameter_policy r = Strict" "p \<in> set (er_explicit_parameters r)"
    using r(4) that check_explicit_strict by metis
qed

text \<open>A routing override of the request is what the planner reads.\<close>

lemma routing_override_read:
  assumes "resolve_request rt m q rx = Ok r" "(path, Some v) \<in> set (routing_list (iq_routing q))"
  shows "er_parameter r path = Some v"
proof -
  obtain schema layers s ps where s: "rt_schema rt = Ok schema" "base_layers rt rx (iq_task q) = Ok layers"
      "apply_routing_overrides (iq_routing q) s = (ps, er_explicit_parameters r)"
      "er_parameters r = null_fill schema ps"
    by (rule resolved_cases [OF assms(1)])
  from routing_effect [OF assms(2), of s] s(3)
  have g: "map_of ps path = Some \<lparr>rp_value = v, rp_source = RequestOverride\<rparr>" by simp
  have keep: "map_of (null_fill sc ps0) path = map_of ps0 path" if "map_of ps0 path \<noteq> None" for sc ps0
    using that unfolding null_fill_def
    by (induction sc arbitrary: ps0) (auto simp: bt_contains_def)
  show ?thesis using keep [of ps schema] g s(4) by (simp add: er_parameter_def)
qed

section \<open>A worked example\<close>

definition demo_descriptor :: "rstr \<Rightarrow> parameter_type \<Rightarrow> parameter_value option \<Rightarrow> parameter_descriptor" where
  "demo_descriptor path t dflt = \<lparr>pd_path = path, pd_cli_flag = [], pd_value_type = t, pd_label = [],
     pd_description = [], pd_category = [], pd_default = dflt, pd_minimum = None, pd_maximum = None,
     pd_step = None, pd_allowed_values = [], pd_repeatable = False, pd_list_override_operations = [],
     pd_advanced = False, pd_affects_memory = False, pd_affects_quality = False, pd_affects_runtime = False\<rparr>"

definition demo_schema :: "parameter_descriptor list" where
  "demo_schema = [demo_descriptor (lit ''image.steps'') TInteger (Some (PInteger 20)),
     demo_descriptor (lit ''routing.backend'') TString None,
     demo_descriptor (lit ''routing.fallback_policy'') TString (Some (PString (lit ''backend'')))]"

definition demo_tables :: resolution_tables where
  "demo_tables = \<lparr>rt_schema = Ok demo_schema, rt_task_defaults = [(lit ''image.steps'', PInteger 28)],
     rt_family_defaults = [], rt_model_defaults = Ok []\<rparr>"

definition demo_context :: resolution_context where
  "demo_context = \<lparr>rx_runtime_defaults = [], rx_hardware_profile = [], rx_user_profile = [],
     rx_parameter_support = []\<rparr>"

definition demo_raw :: inference_request where
  "demo_raw = (inference_request_new (lit ''m'') ImageGeneration)
     \<lparr>iq_prompt := Some (lit ''a cat''),
      iq_routing := no_routing_overrides\<lparr>ro_backend := Some (lit ''diffusers''),
        ro_fallback_policy := Some (lit ''none'')\<rparr>\<rparr>"

definition demo_resolved :: effective_request where
  "demo_resolved = \<lparr>er_model = lit ''m'', er_task = ImageGeneration, er_prompt = Some (lit ''a cat''),
     er_negative_prompt = None, er_inputs = [], er_output_modality = OutImage,
     er_parameters =
       [(lit ''image.steps'', \<lparr>rp_value = PInteger 28, rp_source = TaskDefault\<rparr>),
        (lit ''routing.backend'', \<lparr>rp_value = PString (lit ''diffusers''), rp_source = RequestOverride\<rparr>),
        (lit ''routing.fallback_policy'', \<lparr>rp_value = PString (lit ''none''), rp_source = RequestOverride\<rparr>)],
     er_explicit_parameters = [lit ''routing.backend'', lit ''routing.fallback_policy''],
     er_parameter_policy = Strict, er_warnings = []\<rparr>"

lemma demo_lookups:
  "demo_schema \<noteq> []"
  "descriptor_map demo_schema = map (\<lambda>d. (pd_path d, d)) demo_schema"
  by (simp_all add: demo_schema_def descriptor_map_def demo_descriptor_def lit_def)

lemma demo_base:
  "base_layers demo_tables demo_context ImageGeneration = Ok
     [(TaskDefault, [(lit ''image.steps'', PInteger 28)]), (ModelFamilyDefault, []), (ModelDefault, []),
      (RuntimeDefault, []), (HardwareProfile, []), (UserProfile, [])]"
  by (simp add: base_layers_def demo_tables_def demo_context_def normalize_parameter_layer_def)

lemma demo_inputs: "validate_required_inputs demo_raw = Ok ()"
  by (simp add: validate_required_inputs_def demo_raw_def inference_request_new_def requires_prompt_def
    accepts_prompt_def accepts_negative_prompt_def blank_def required_roles_def trim_def trim_start_def
    trim_end_def is_whitespace_def lit_def Let_def)

lemma demo_policy: "resolved_policy (er_parameters demo_resolved) = Ok Strict"
  by (simp add: resolved_policy_def demo_resolved_def lit_def policy_from_str_def to_ascii_lowercase_def
    ascii_lower_def is_ascii_upper_def trim_def trim_start_def trim_end_def is_whitespace_def Let_def)

lemma demo_number: "f64_is_finite (f64_of_int 28)"
  by (simp add: f64_eval)

lemma demo_resolves: "resolve_request demo_tables demo_manifest demo_raw demo_context = Ok demo_resolved"
proof -
  let ?ds = "descriptor_map demo_schema"
  let ?ls = "[(TaskDefault, [(lit ''image.steps'', PInteger 28)]), (ModelFamilyDefault, []), (ModelDefault, []),
      (RuntimeDefault, []), (HardwareProfile, []), (UserProfile, [])]"
  have o': "apply_routing_overrides (iq_routing demo_raw)
      (apply_layers ?ds ?ls (apply_descriptor_defaults demo_schema []), []) =
    (er_parameters demo_resolved, er_explicit_parameters demo_resolved)"
    unfolding demo_lookups(2)
    by (simp add: apply_routing_overrides_def routing_list_def demo_raw_def inference_request_new_def
      no_routing_overrides_def apply_layers_def schema_parameter_layer_def bt_contains_def
      demo_schema_def demo_descriptor_def apply_layer_def apply_descriptor_defaults_def descriptor_default_def
      insert_request_override_def set_insert_def demo_resolved_def lit_def)
  have v: "validate_all ?ds (er_parameters demo_resolved) = Ok ()"
    unfolding demo_lookups(2) by (simp add: demo_schema_def demo_descriptor_def demo_resolved_def lit_def
      validate_parameter_def valid_type_def check_number_def demo_number)
  have n: "null_fill demo_schema (er_parameters demo_resolved) = er_parameters demo_resolved"
    by (rule null_fill_id) (simp add: demo_schema_def demo_descriptor_def demo_resolved_def bt_contains_def lit_def)
  have e: "check_explicit ?ds (er_parameters demo_resolved) [] Strict (er_explicit_parameters demo_resolved) [] = Ok []"
    unfolding demo_lookups(2)
    by (simp add: demo_resolved_def demo_schema_def demo_descriptor_def maximum_warning_def support_of_def lit_def Let_def)
  have f: "iq_model demo_raw = mf_id demo_manifest" "supports_task demo_manifest ImageGeneration"
    "iq_task demo_raw = ImageGeneration" "iq_parameters demo_raw = []"
    unfolding supports_task_def by (simp_all add: demo_raw_def inference_request_new_def demo_manifest_def)
  have t: "rt_schema demo_tables = Ok demo_schema" "rx_parameter_support demo_context = []"
    by (simp_all add: demo_tables_def demo_context_def)
  show ?thesis
    by (simp add: resolve_request_def demo_inputs Let_def f t demo_base o' finish_resolution_def v n e demo_policy)
      (simp add: demo_raw_def inference_request_new_def demo_manifest_def demo_resolved_def)
qed

lemma demo_table_order: "tables_ok demo_tables"
  by (simp add: tables_ok_def demo_tables_def bt_wf_def)

section \<open>Properties\<close>

text \<open>
  C29. Every resolved parameter fits the schema: it belongs to a descriptor of the schema and
  passes that descriptor's check of type, finiteness, minimum and allowed values, and every
  descriptor has a resolved value. Under the strict policy no explicit parameter is ignored
  or unsupported by the backend.
\<close>

theorem resolution_fits_schema:
  assumes "resolve_request rt m q rx = Ok r" and "rt_schema rt = Ok schema"
  shows "(\<forall>p rp. map_of (er_parameters r) p = Some rp \<longrightarrow>
      (\<exists>d. map_of (descriptor_map schema) p = Some d \<and> validate_parameter d (rp_value rp) = Ok ()))
    \<and> (\<forall>d \<in> set schema. bt_contains (pd_path d) (er_parameters r))
    \<and> (er_parameter_policy r = Strict \<longrightarrow> (\<forall>p \<in> set (er_explicit_parameters r).
         support_of (rx_parameter_support rx) p \<notin> {Ignored, Unsupported}))"
proof -
  obtain layers where l: "base_layers rt rx (iq_task q) = Ok layers"
    by (rule resolved_cases [OF assms(1)])
  have "bt_contains (pd_path d) (er_parameters r)" if "d \<in> set schema" for d
    using resolved_total [OF assms l] descriptor_map_dom [OF that] by blast
  then show ?thesis using resolved_facts(2,3) [OF assms l] by blast
qed

theorem resolution_fits_schema_witness:
  "\<exists>d. map_of (descriptor_map demo_schema) (lit ''image.steps'') = Some d
     \<and> validate_parameter d (PInteger 28) = Ok ()"
proof -
  have t: "rt_schema demo_tables = Ok demo_schema" by (simp add: demo_tables_def)
  have "map_of (er_parameters demo_resolved) (lit ''image.steps'') =
      Some \<lparr>rp_value = PInteger 28, rp_source = TaskDefault\<rparr>" by (simp add: demo_resolved_def)
  with resolution_fits_schema [OF demo_resolves t] show ?thesis by fastforce
qed

text \<open>
  C30. Precedence of defaults. A parameter that the request did not set has the value of the
  last layer that has one, in the order task, family, model, runtime, hardware profile and
  user profile, with that layer as its source, and the descriptor's own default when no
  layer has one.
\<close>

theorem defaults_precedence:
  assumes "resolve_request rt m q rx = Ok r" and "tables_ok rt"
    and "rt_schema rt = Ok schema" and "base_layers rt rx (iq_task q) = Ok layers"
    and "map_of (descriptor_map schema) p = Some d" and "p \<notin> set (er_explicit_parameters r)"
  shows "map fst layers = [TaskDefault, ModelFamilyDefault, ModelDefault, RuntimeDefault, HardwareProfile, UserProfile]
    \<and> map_of (er_parameters r) p =
        Some (case top_layer layers p of Some rp \<Rightarrow> rp | None \<Rightarrow> descriptor_default d)"
proof -
  let ?ds = "descriptor_map schema"
  have "map_of (er_parameters r) p = map_of (apply_layers ?ds layers (apply_descriptor_defaults schema [])) p"
    using overrides_on_get(1) [OF resolved_facts(1) [OF assms(1,3,4)], of p] assms(6) by simp
  also have "\<dots> = (case top_layer layers p of Some x \<Rightarrow> Some x | None \<Rightarrow> Some (descriptor_default d))"
    using get_apply_layers [OF base_layers_ok(1) [OF assms(4,2)], of ?ds] assms(5)
      get_descriptor_defaults [of schema p]
    by (simp add: bt_contains_def split: option.split)
  finally show ?thesis using base_layers_ok(2) [OF assms(4,2)] by (auto split: option.splits)
qed

theorem defaults_precedence_witness:
  "map_of (er_parameters demo_resolved) (lit ''image.steps'') =
     Some \<lparr>rp_value = PInteger 28, rp_source = TaskDefault\<rparr>"
proof -
  have t: "rt_schema demo_tables = Ok demo_schema" by (simp add: demo_tables_def)
  have q: "iq_task demo_raw = ImageGeneration" by (simp add: demo_raw_def inference_request_new_def)
  have d: "map_of (descriptor_map demo_schema) (lit ''image.steps'') = Some (hd demo_schema)"
    unfolding demo_lookups(2) by (simp add: demo_schema_def demo_descriptor_def)
  have e: "lit ''image.steps'' \<notin> set (er_explicit_parameters demo_resolved)"
    by (simp add: demo_resolved_def lit_def)
  from defaults_precedence [OF demo_resolves demo_table_order t demo_base [folded q] d e]
  show ?thesis by simp
qed

text \<open>
  Explicit parameters. A resolved parameter is marked as an override of the request
  exactly when its path is among the explicit ones.
\<close>

theorem explicit_are_overrides:
  assumes "resolve_request rt m q rx = Ok r" and "tables_ok rt"
  shows "p \<in> set (er_explicit_parameters r) \<longleftrightarrow>
    (\<exists>rp. map_of (er_parameters r) p = Some rp \<and> rp_source rp = RequestOverride)"
proof -
  obtain schema layers where s: "rt_schema rt = Ok schema" "base_layers rt rx (iq_task q) = Ok layers"
    by (rule resolved_cases [OF assms(1)])
  note ov = resolved_facts(1) [OF assms(1) s]
  show ?thesis
  proof (cases "p \<in> set (er_explicit_parameters r)")
    case True
    with overrides_on_get(2) [OF ov, of p] show ?thesis by auto
  next
    case False
    then have g: "map_of (er_parameters r) p
        = map_of (apply_layers (descriptor_map schema) layers (apply_descriptor_defaults schema [])) p"
      using overrides_on_get(1) [OF ov, of p] by simp
    have "RequestOverride \<notin> set (map fst layers)" using base_layers_ok(2) [OF s(2) assms(2)] by simp
    then have "rp_source rp \<noteq> RequestOverride" if "top_layer layers p = Some rp" for rp
      using top_layer_source [OF that] by (metis list.set_map)
    with g get_apply_layers [OF base_layers_ok(1) [OF s(2) assms(2)], of "descriptor_map schema"]
    have "rp_source rp \<noteq> RequestOverride" if "map_of (er_parameters r) p = Some rp" for rp
      using that by (auto simp: get_descriptor_defaults map_option_case descriptor_default_def
        split: if_splits option.splits)
    with False show ?thesis by blast
  qed
qed

theorem explicit_are_overrides_witness:
  "\<exists>rp. map_of (er_parameters demo_resolved) (lit ''routing.backend'') = Some rp \<and> rp_source rp = RequestOverride"
  using explicit_are_overrides [OF demo_resolves demo_table_order, of "lit ''routing.backend''"]
  by (simp add: demo_resolved_def)

section \<open>List overrides\<close>

text \<open>The object that a client sends for a typed list override (tag and content of the type).\<close>

fun override_value :: "parameter_value list_override \<Rightarrow> parameter_value" where
  "override_value ListInherit = PObject [(lit ''operation'', PString (lit ''inherit''))]"
| "override_value (Replace vs) =
     PObject [(lit ''operation'', PString (lit ''replace'')), (lit ''values'', PList vs)]"
| "override_value (Add vs) =
     PObject [(lit ''operation'', PString (lit ''add'')), (lit ''values'', PList vs)]"
| "override_value Clear = PObject [(lit ''operation'', PString (lit ''clear''))]"

definition inherited_list :: "parameter_value option \<Rightarrow> parameter_value list" where
  "inherited_list v = (case list_parameter v of None \<Rightarrow> [] | Some vs \<Rightarrow> vs)"

lemma list_keys: "lit ''values'' \<noteq> lit ''operation''"
  by (simp add: lit_def)

lemma operation_names:
  "to_ascii_lowercase (trim (lit ''inherit'')) = lit ''inherit''"
  "to_ascii_lowercase (trim (lit ''replace'')) = lit ''replace''"
  "to_ascii_lowercase (trim (lit ''add'')) = lit ''add''"
  "to_ascii_lowercase (trim (lit ''clear'')) = lit ''clear''"
  by (simp_all add: lit_def to_ascii_lowercase_def ascii_lower_def is_ascii_upper_def trim_def
    trim_start_def trim_end_def is_whitespace_def)

lemma list_operations:
  "apply_list_operation path (lit ''inherit'') [] inh = Ok None"
  "apply_list_operation path (lit ''replace'') vs inh = Ok (Some (PList vs))"
  "apply_list_operation path (lit ''add'') vs inh = Ok (Some (PList (inh @ vs)))"
  "apply_list_operation path (lit ''clear'') [] inh = Ok (Some (PList []))"
  by (simp_all add: apply_list_operation_def no_values_for_def lit_def)

lemma list_rest:
  assumes "inherited = None \<or> inherited = Some PNull \<or> list_parameter inherited \<noteq> None"
  shows "list_operation_rest d operation vs [] inherited
    = apply_list_operation (pd_path d) operation vs (inherited_list inherited)"
  using assms
  by (auto simp: list_operation_rest_def inherited_list_def split: option.splits parameter_value.splits
    elim: list_parameter.elims)

text \<open>
  List overrides. Resolving the object of a typed override against the inherited value
  agrees with the typed \<open>ListOverride::resolve\<close>: inherit leaves the parameter alone, and
  replace, add and clear give exactly the list the type gives.
\<close>

theorem list_override_refines:
  assumes "pd_value_type d = TList"
    and "inherited = None \<or> inherited = Some PNull \<or> list_parameter inherited \<noteq> None"
  shows "resolve_list_parameter_override d (override_value ov) inherited =
    Ok (if ov = ListInherit then None
        else Some (PList (list_override_resolve ov (inherited_list inherited))))"
  using assms(1) list_keys
  by (cases ov) (simp_all add: resolve_list_parameter_override_def bt_remove_def Let_def operation_names
    list_rest [OF assms(2)] list_operations)

theorem list_override_refines_witness:
  "resolve_list_parameter_override (demo_descriptor [] TList None) (override_value (Add [PInteger 2]))
     (Some (PList [PInteger 1])) = Ok (Some (PList [PInteger 1, PInteger 2]))"
  using list_override_refines [of "demo_descriptor [] TList None" "Some (PList [PInteger 1])" "Add [PInteger 2]"]
  by (simp add: demo_descriptor_def inherited_list_def)

section \<open>Inputs\<close>

definition prompts_fit :: "inference_request \<Rightarrow> bool" where
  "prompts_fit q \<longleftrightarrow> (requires_prompt (iq_task q) \<longrightarrow> \<not> blank (iq_prompt q))
     \<and> (accepts_prompt (iq_task q) \<or> blank (iq_prompt q))
     \<and> (accepts_negative_prompt (iq_task q) \<or> blank (iq_negative_prompt q))"

definition roles_present :: "inference_request \<Rightarrow> bool" where
  "roles_present q \<longleftrightarrow> list_all (\<lambda>(modality, roles, _). has_input_role q modality roles) (required_roles (iq_task q))"

lemma require_roles_Ok:
  "require_roles q rs = Ok () \<longleftrightarrow> list_all (\<lambda>(modality, roles, _). has_input_role q modality roles) rs"
  by (induction q rs rule: require_roles.induct) (simp_all add: res_bind_Ok require_input_role_def)

lemma require_modalities_Ok:
  "require_modalities q ms = Ok () \<longleftrightarrow>
     list_all (\<lambda>m. m = InText \<or> list_ex (\<lambda>i. in_modality i = m) (iq_inputs q)) ms"
  by (induction q ms rule: require_modalities.induct) simp_all

text \<open>The role checks of a task cover its modality check.\<close>

lemma roles_cover_modalities:
  "m \<in> set (required_input_modalities t) \<Longrightarrow> m = InText \<or> m \<in> fst ` set (required_roles t)"
  by (cases t) (simp_all add: required_roles_def)

lemma role_gives_modality: "has_input_role q m roles \<Longrightarrow> list_ex (\<lambda>i. in_modality i = m) (iq_inputs q)"
  by (auto simp: has_input_role_def list_ex_iff)

text \<open>A request that has everything a task may ask for.\<close>

definition full_input :: "input_modality \<Rightarrow> rstr \<Rightarrow> inference_input" where
  "full_input m role = \<lparr>in_modality = m, in_role = role, in_source = SourcePath [], in_mime_type = None\<rparr>"

definition sample_request :: "inference_task \<Rightarrow> inference_request" where
  "sample_request t = (inference_request_new [] t)
     \<lparr>iq_prompt := (if accepts_prompt t then Some (lit ''p'') else None),
      iq_inputs := map (\<lambda>(m, roles, _). full_input m (hd roles)) (required_roles t)\<rparr>"

lemma roles_give_modalities:
  "roles_present q \<Longrightarrow> require_modalities q (required_input_modalities (iq_task q)) = Ok ()"
  using roles_cover_modalities [of _ "iq_task q"] role_gives_modality
  unfolding require_modalities_Ok roles_present_def list_all_iff by fastforce

lemma inputs_Ok: "validate_required_inputs q = Ok () \<longleftrightarrow> prompts_fit q \<and> roles_present q"
  using roles_give_modalities [of q]
  by (auto simp: validate_required_inputs_def Let_def prompts_fit_def res_bind_Ok require_roles_Ok
    roles_present_def [symmetric])

lemma hd_role_matches:
  "roles \<in> {IMAGE_ROLES, MASK_ROLES, FIRST_IMAGE_ROLES, VIDEO_ROLES, MASK_VIDEO_ROLES, AUDIO_ROLES} \<Longrightarrow>
     list_ex (role_matches (hd roles)) roles"
  by (auto simp: IMAGE_ROLES_def MASK_ROLES_def FIRST_IMAGE_ROLES_def VIDEO_ROLES_def MASK_VIDEO_ROLES_def
    AUDIO_ROLES_def role_matches_def lit_def replace_char_def eq_ignore_ascii_case_def to_ascii_lowercase_def
    ascii_lower_def is_ascii_upper_def trim_def trim_start_def trim_end_def is_whitespace_def)

lemma required_role_lists:
  "(m, roles, label) \<in> set (required_roles t) \<Longrightarrow>
     roles \<in> {IMAGE_ROLES, MASK_ROLES, FIRST_IMAGE_ROLES, VIDEO_ROLES, MASK_VIDEO_ROLES, AUDIO_ROLES}"
  by (auto simp: required_roles_def split: if_splits)

lemma sample_accepted: "validate_required_inputs (sample_request t) = Ok ()"
  unfolding inputs_Ok
proof
  have "\<not> blank (Some (lit ''p''))" "blank None"
    by (simp_all add: blank_def lit_def trim_def trim_start_def trim_end_def is_whitespace_def)
  then show "prompts_fit (sample_request t)"
    using prompt_laws(1) [of t] by (simp add: prompts_fit_def sample_request_def inference_request_new_def)
  have "has_input_role (sample_request t) m roles" if r: "(m, roles, label) \<in> set (required_roles t)" for m roles label
  proof -
    have "full_input m (hd roles) \<in> set (iq_inputs (sample_request t))"
      using r by (force simp: sample_request_def)
    then show ?thesis using hd_role_matches [OF required_role_lists [OF r]]
      unfolding has_input_role_def list_ex_iff [of _ "iq_inputs _"]
      by (intro bexI [of _ "full_input m (hd roles)"]) (simp_all add: full_input_def)
  qed
  then show "roles_present (sample_request t)"
    by (auto simp: roles_present_def list_all_iff sample_request_def inference_request_new_def)
qed

text \<open>
  Required inputs. A request passes the input checks exactly when its prompts fit the
  task and an input is given for every role the task requires; the separate check of input
  modalities never decides. No task asks for the impossible: for every task there is a
  request that passes.
\<close>

theorem required_inputs_exact:
  "(validate_required_inputs q = Ok () \<longleftrightarrow> prompts_fit q \<and> roles_present q)
   \<and> validate_required_inputs (sample_request t) = Ok ()"
  using inputs_Ok sample_accepted by blast

section \<open>Errors\<close>

lemma apply_request_known:
  "apply_request task ds qs s = Ok s' \<Longrightarrow> (raw, v) \<in> set qs \<Longrightarrow> bt_contains (normalize_parameter_path task raw) ds"
proof (induction task ds qs s rule: apply_request.induct)
  case (2 task ds raw' v0 rest s)
  let ?p = "normalize_parameter_path task raw'"
  from "2.prems"(1) obtain d ov where d: "map_of ds ?p = Some d"
      "resolve_list_parameter_override d v0 (map_option rp_value (map_of (fst s) ?p)) = Ok ov"
    by (auto simp: Let_def res_bind_Ok split: option.splits)
  have "bt_contains (normalize_parameter_path task raw) ds" if "(raw, v) \<in> set rest"
  proof (cases ov)
    case None
    with "2.prems" d have "apply_request task ds rest s = Ok s'" by (simp add: Let_def)
    with "2.IH"(1) [OF refl d(1)] that show ?thesis by blast
  next
    case (Some v)
    with "2.prems" d have "apply_request task ds rest (insert_request_override ?p v s) = Ok s'"
      by (auto simp: Let_def res_bind_Ok)
    with "2.IH"(2) [OF refl d(1)] that show ?thesis by blast
  qed
  with "2.prems"(2) d(1) show ?case by (auto simp: bt_contains_def)
qed simp

lemma validate_parameter_no_panic [simp]: "validate_parameter d v \<noteq> Panic"
  by (auto simp: validate_parameter_def check_number_def res_bind_Panic split: option.splits)

lemma apply_list_operation_no_panic [simp]: "apply_list_operation path operation vs inh \<noteq> Panic"
  by (simp add: apply_list_operation_def no_values_for_def)

lemma list_operation_rest_no_panic [simp]: "list_operation_rest d operation vs unknown inherited \<noteq> Panic"
  by (simp add: list_operation_rest_def split: option.split parameter_value.split)

lemma list_override_no_panic [simp]: "resolve_list_parameter_override d v inh \<noteq> Panic"
  by (simp add: resolve_list_parameter_override_def Let_def split: option.split parameter_value.split)

lemma apply_request_no_panic [simp]: "apply_request task ds qs s \<noteq> Panic"
  by (induction task ds qs s rule: apply_request.induct) (auto simp: Let_def res_bind_Panic split: option.splits)

lemma validate_all_no_panic [simp]: "validate_all ds es \<noteq> Panic"
  by (induction ds es rule: validate_all.induct) (auto simp: res_bind_Panic split: option.splits)

lemma check_explicit_no_panic [simp]: "check_explicit ds ps support policy paths ws \<noteq> Panic"
  by (induction paths arbitrary: ws) (auto simp: Let_def split: parameter_policy.splits)

lemma normalize_layer_no_panic [simp]: "normalize_parameter_layer task label l \<noteq> Panic"
proof -
  have "normalize_entries task label es acc \<noteq> Panic" for es acc
    by (induction es arbitrary: acc) (auto simp: Let_def split: if_splits)
  then show ?thesis by (simp add: normalize_parameter_layer_def)
qed

lemma inputs_no_panic [simp]: "validate_required_inputs q \<noteq> Panic"
proof -
  have "require_roles q rs \<noteq> Panic" for rs
    by (induction q rs rule: require_roles.induct) (auto simp: res_bind_Panic require_input_role_def)
  moreover have "require_modalities q ms \<noteq> Panic" for ms
    by (induction q ms rule: require_modalities.induct) auto
  ultimately show ?thesis by (auto simp: validate_required_inputs_def Let_def res_bind_Panic)
qed

lemma resolve_no_panic:
  "rt_schema rt = Ok schema \<Longrightarrow> rt_model_defaults rt \<noteq> Panic \<Longrightarrow> resolve_request rt m q rx \<noteq> Panic"
  by (auto simp: resolve_request_def base_layers_def finish_resolution_def resolved_policy_def
    policy_from_str_def Let_def res_bind_Panic split: res.splits)

text \<open>
  C31. Errors of resolution. Resolution never panics when the tables do not, whatever the
  request; and a request for another model, for a task the model does not declare, without
  its required inputs, or with a parameter whose normalised path is not in the schema is an
  error, never a silent drop.
\<close>

theorem resolution_errors:
  assumes "rt_schema rt = Ok schema" and "rt_model_defaults rt \<noteq> Panic"
  shows "resolve_request rt m q rx \<noteq> Panic
    \<and> (iq_model q \<noteq> mf_id m \<or> \<not> supports_task m (iq_task q) \<or> \<not> (prompts_fit q \<and> roles_present q)
      \<or> ((raw, v) \<in> set (iq_parameters q)
         \<and> \<not> bt_contains (normalize_parameter_path (iq_task q) raw) (descriptor_map schema))
       \<longrightarrow> (\<exists>e. resolve_request rt m q rx = Err e))"
    (is "_ \<and> (?bad \<longrightarrow> _)")
proof -
  have "resolve_request rt m q rx \<noteq> Ok r" if ?bad for r
  proof
    assume ok: "resolve_request rt m q rx = Ok r"
    obtain s base where "iq_model q = mf_id m" "supports_task m (iq_task q)" "validate_required_inputs q = Ok ()"
        "apply_request (iq_task q) (descriptor_map schema) (iq_parameters q) base = Ok s"
      by (rule resolved_cases [OF ok]) (use assms(1) that in auto)
    with that apply_request_known show False unfolding inputs_Ok by blast
  qed
  with resolve_no_panic [OF assms(1,2)] show ?thesis by (cases "resolve_request rt m q rx") auto
qed

theorem resolution_errors_witness:
  "resolve_request demo_tables demo_manifest demo_raw demo_context \<noteq> Panic
    \<and> (\<exists>e. resolve_request demo_tables demo_manifest (demo_raw\<lparr>iq_model := []\<rparr>) demo_context = Err e)"
proof -
  have t: "rt_schema demo_tables = Ok demo_schema" "rt_model_defaults demo_tables \<noteq> Panic"
    by (simp_all add: demo_tables_def)
  have "iq_model (demo_raw\<lparr>iq_model := []\<rparr>) \<noteq> mf_id demo_manifest" by (simp add: demo_manifest_def lit_def)
  with resolution_errors [OF t, of demo_manifest "demo_raw\<lparr>iq_model := []\<rparr>" demo_context]
    resolution_errors [OF t, of demo_manifest demo_raw demo_context] show ?thesis by blast
qed

end
