(* ===== verification/Service_Claims.thy ===== *)
theory Service_Claims
  imports Inference_Service Planner_Claims Resolution_Claims
begin

text \<open>
  What the inference service promises: the attempts of an execution follow the plan in order,
  an execution succeeds when a planned runtime does, the adjustments of a plan keep the
  request inside the host's memory when it is estimated again, a backend's estimate cannot
  hide a full host, and the fallback that a refused request is told about would run.
\<close>

section \<open>The loop over attempts\<close>

lemma report_route_fields [simp]:
  "at_plan (report_route model note s) = at_plan s" "at_errors (report_route model note s) = at_errors s"
  "at_attempts (report_route model note s) = at_attempts s"
  by (simp_all add: report_route_def split: option.splits prod.splits)

lemma record_success_fields [simp]:
  "at_plan (record_success model d s) = at_plan s" "at_errors (record_success model d s) = at_errors s"
  "at_attempts (record_success model d s) =
     at_attempts s @ [\<lparr>ra_runtime = cd_runtime_id d, ra_outcome = AttemptSucceeded, ra_error = None\<rparr>]"
  by (simp_all add: record_success_def Let_def)

lemma record_failure_fields [simp]:
  "at_errors (record_failure d error s) = at_errors s @ [(cd_runtime_id d, error)]"
  "at_attempts (record_failure d error s) =
     at_attempts s @ [\<lparr>ra_runtime = cd_runtime_id d, ra_outcome = AttemptFailed, ra_error = Some error\<rparr>]"
  "ep_fallback_chain (at_plan (record_failure d error s)) =
     ep_fallback_chain (at_plan s) @ [failed_decision error d]"
  "ep_selected_runtime (at_plan (record_failure d error s)) = ep_selected_runtime (at_plan s)"
  "ep_selected_backend (at_plan (record_failure d error s)) = ep_selected_backend (at_plan s)"
  by (simp_all add: record_failure_def Let_def)

lemma begin_attempt_Ok:
  assumes "begin_attempt w model n d s = Ok t"
  shows "at_errors t = at_errors s" "at_attempts t = at_attempts s"
    "at_plan t = (if n = 0 then at_plan s else switch_to d (at_plan s))"
  using assms
  by (auto simp: begin_attempt_def map_err_def res_bind_Ok split: if_splits option.splits res.splits)

definition failures :: "candidate_decision list \<Rightarrow> rstr list \<Rightarrow> runtime_attempt list" where
  "failures ds errors = map2 (\<lambda>d error.
     \<lparr>ra_runtime = cd_runtime_id d, ra_outcome = AttemptFailed, ra_error = Some error\<rparr>) ds errors"

definition fails_with ::
  "service_world \<Rightarrow> model_manifest \<Rightarrow> effective_request \<Rightarrow> nat \<Rightarrow> candidate_decision list \<Rightarrow> rstr list \<Rightarrow> bool" where
  "fails_with w m r n ds errors \<longleftrightarrow> length errors = length ds \<and>
     (\<forall>i < length ds. sv_execute w (n + i) m (adjusted_for (ds ! i) r) (cd_runtime_id (ds ! i)) = Err (errors ! i))"

lemma fails_with_Nil [simp]: "fails_with w m r n [] errors \<longleftrightarrow> errors = []"
  by (auto simp: fails_with_def)

lemma fails_with_Cons [simp]:
  "fails_with w m r n (d # ds) (x # errors) \<longleftrightarrow>
     sv_execute w n m (adjusted_for d r) (cd_runtime_id d) = Err x \<and> fails_with w m r (Suc n) ds errors"
  by (auto simp: fails_with_def All_less_Suc2)

definition succeeded :: "candidate_decision \<Rightarrow> runtime_attempt" where
  "succeeded d = \<lparr>ra_runtime = cd_runtime_id d, ra_outcome = AttemptSucceeded, ra_error = None\<rparr>"

text \<open>What a run of attempts from state \<open>s\<close> to \<open>t\<close> did when the attempt on \<open>d\<close> answered \<open>x\<close>.\<close>

definition attempts_led_to ::
  "service_world \<Rightarrow> model_manifest \<Rightarrow> effective_request \<Rightarrow> nat \<Rightarrow> attempt_state \<Rightarrow> attempt_state \<Rightarrow>
     candidate_decision list \<Rightarrow> rstr list \<Rightarrow> candidate_decision \<Rightarrow> backend_execution \<Rightarrow> bool" where
  "attempts_led_to w m r n s t pre errors d x \<longleftrightarrow>
     fails_with w m r n pre errors \<and>
     sv_execute w (n + length pre) m (adjusted_for d r) (cd_runtime_id d) = Ok x \<and>
     at_errors t = at_errors s @ zip (map cd_runtime_id pre) errors \<and>
     at_attempts t = at_attempts s @ failures pre errors @ [succeeded d] \<and>
     ep_fallback_chain (at_plan t) = ep_fallback_chain (at_plan s) @ map2 failed_decision errors pre \<and>
     (if n + length pre = 0 then at_plan t = at_plan s
      else ep_selected_runtime (at_plan t) = Some (cd_runtime_id d)
        \<and> ep_selected_backend (at_plan t) = Some (cd_backend d))"

lemma run_attempts_Some:
  assumes "run_attempts w m r n ds s = Ok (t, Some (r', x))"
  shows "\<exists>pre d post errors. ds = pre @ d # post \<and> r' = adjusted_for d r \<and> attempts_led_to w m r n s t pre errors d x"
  using assms
proof (induction ds arbitrary: n s)
  case Nil
  then show ?case by simp
next
  case (Cons d ds)
  from Cons.prems obtain u where u: "begin_attempt w (mf_id m) n d s = Ok u"
    by (auto simp: res_bind_Ok)
  note b = begin_attempt_Ok [OF u]
  show ?case
  proof (cases "sv_execute w n m (adjusted_for d r) (cd_runtime_id d)")
    case (Ok y)
    with Cons.prems u have "t = record_success (mf_id m) d u" "r' = adjusted_for d r" "x = y" by auto
    with Ok b have "attempts_led_to w m r n s t [] [] d x"
      by (auto simp: attempts_led_to_def failures_def succeeded_def switch_to_def)
    with \<open>r' = _\<close> show ?thesis by (metis append_Nil)
  next
    case (Err y)
    with Cons.prems u have "run_attempts w m r (n + 1) ds (record_failure d y u) = Ok (t, Some (r', x))" by simp
    from Cons.IH [OF this] obtain pre e post errors where
      split: "ds = pre @ e # post" "r' = adjusted_for e r"
        "attempts_led_to w m r (n + 1) (record_failure d y u) t pre errors e x" by blast
    have "attempts_led_to w m r n s t (d # pre) (y # errors) e x"
      using split(3) Err b by (auto simp: attempts_led_to_def failures_def switch_to_def)
    with split(1,2) show ?thesis by (metis append_Cons)
  next
    case Panic
    with Cons.prems u show ?thesis by simp
  qed
qed

lemma run_attempts_None:
  assumes "run_attempts w m r n ds s = Ok (t, None)"
  shows "\<exists>errors. fails_with w m r n ds errors \<and> at_errors t = at_errors s @ zip (map cd_runtime_id ds) errors"
  using assms
proof (induction ds arbitrary: n s)
  case Nil
  then show ?case by simp
next
  case (Cons d ds)
  from Cons.prems obtain u y where u: "begin_attempt w (mf_id m) n d s = Ok u"
    and y: "sv_execute w n m (adjusted_for d r) (cd_runtime_id d) = Err y"
    and rest: "run_attempts w m r (n + 1) ds (record_failure d y u) = Ok (t, None)"
    by (cases "begin_attempt w (mf_id m) n d s";
        cases "sv_execute w n m (adjusted_for d r) (cd_runtime_id d)") auto
  from Cons.IH [OF rest] obtain errors where "fails_with w m r (n + 1) ds errors"
    "at_errors t = at_errors (record_failure d y u) @ zip (map cd_runtime_id ds) errors" by blast
  with y begin_attempt_Ok [OF u] have "fails_with w m r n (d # ds) (y # errors)
    \<and> at_errors t = at_errors s @ zip (map cd_runtime_id (d # ds)) (y # errors)" by simp
  then show ?case by blast
qed

lemma begin_attempt_reset: "sv_reset w n = Ok () \<Longrightarrow> \<exists>u. begin_attempt w model n d s = Ok u"
  by (cases "fallback_note model (at_plan s)"; cases "fallback_note model (switch_to d (at_plan s))")
    (simp_all add: begin_attempt_def map_err_def)

lemma run_attempts_progress:
  assumes "\<forall>i < length ds. sv_reset w (n + i) = Ok ()"
    and "\<forall>i < length ds. sv_execute w (n + i) m (adjusted_for (ds ! i) r) (cd_runtime_id (ds ! i)) \<noteq> Panic"
    and "i < length ds" "sv_execute w (n + i) m (adjusted_for (ds ! i) r) (cd_runtime_id (ds ! i)) = Ok x"
  shows "\<exists>t r' y. run_attempts w m r n ds s = Ok (t, Some (r', y))"
  using assms
proof (induction ds arbitrary: n s i)
  case Nil
  then show ?case by simp
next
  case (Cons d ds)
  have "sv_reset w n = Ok ()" using Cons.prems(1) by force
  then obtain u where u: "begin_attempt w (mf_id m) n d s = Ok u"
    using begin_attempt_reset by blast
  have first: "sv_execute w n m (adjusted_for d r) (cd_runtime_id d) \<noteq> Panic" using Cons.prems(2) by force
  show ?case
  proof (cases "sv_execute w n m (adjusted_for d r) (cd_runtime_id d)")
    case (Ok y)
    with u show ?thesis by simp
  next
    case (Err y)
    with Cons.prems(4) obtain j where j: "i = Suc j" by (cases i) auto
    have a: "\<forall>k < length ds. sv_reset w (n + 1 + k) = Ok ()" using Cons.prems(1) by force
    have b: "\<forall>k < length ds. sv_execute w (n + 1 + k) m (adjusted_for (ds ! k) r) (cd_runtime_id (ds ! k)) \<noteq> Panic"
      using Cons.prems(2) by force
    from Cons.prems(3,4) j have "j < length ds"
      "sv_execute w (n + 1 + j) m (adjusted_for (ds ! j) r) (cd_runtime_id (ds ! j)) = Ok x" by simp_all
    from Cons.IH [OF a b this] Err u show ?thesis by simp
  next
    case Panic
    with first show ?thesis by simp
  qed
qed

section \<open>From the request to the attempts\<close>

lemma attach_fields [simp]:
  "ep_task (attach_probe_readiness b p) = ep_task p"
  "ep_selected_runtime (attach_probe_readiness b p) = ep_selected_runtime p"
  "ep_selected_backend (attach_probe_readiness b p) = ep_selected_backend p"
  "ep_candidates (attach_probe_readiness b p) = ep_candidates p"
  "ep_fallback_chain (attach_probe_readiness b p) = ep_fallback_chain p"
  "ep_degradations (attach_probe_readiness b p) = ep_degradations p"
  by (simp_all add: attach_probe_readiness_def Let_def split: option.splits)

lemma map_err_Ok [simp]: "map_err f x = Ok v \<longleftrightarrow> x = Ok v"
  by (cases x) (simp_all add: map_err_def)

lemma service_prepare_Ok:
  assumes "service_prepare w q = Ok (m, r, e, p)"
  obtains b where "sv_get w 0 (iq_model q) = Ok m" "service_resolve w 1 q = Ok r"
    "estimate_effective w m r = Ok e" "p = attach_probe_readiness b (plan_execution m r e (bp_candidates b))"
    "\<exists>paths. b = sv_probe w 2 m (er_task r) paths"
  using assms that by (auto simp: service_prepare_def res_bind_Ok Let_def)

lemma service_resolve_Ok:
  assumes "service_resolve w n q = Ok r"
  obtains m rx where "sv_get w n (iq_model q) = Ok m"
    "resolve_request (sv_tables w m (iq_task q)) m q rx = Ok r"
  using assms that by (auto simp: service_resolve_def res_bind_Ok Let_def)

lemma filter_find_hd: "find P xs = Some d \<Longrightarrow> Q d \<Longrightarrow> \<exists>ys. filter (\<lambda>x. P x \<and> Q x) xs = d # ys"
  by (induction xs) (auto split: if_splits)

lemma hd_planned:
  assumes "ep_selected_runtime (plan_execution m r e cs) = Some i"
  obtains ys d where "planned_attempts r (plan_execution m r e cs) i = d # ys" "cd_runtime_id d = i"
proof -
  from planned [OF assms] obtain c where c: "rc_id c = i" "winner m r e cs = Some (candidate_decision_of m r e c)"
    by metis
  have "\<exists>ys. planned_attempts r (plan_execution m r e cs) i = candidate_decision_of m r e c # ys"
    unfolding planned_attempts_def plan_fields using c
    by (intro filter_find_hd) (simp_all add: winner_def)
  with c(1) that show ?thesis by force
qed

lemma planned_runnable:
  assumes "d \<in> set (planned_attempts r (plan_execution m r e cs) i)"
  shows "\<exists>c \<in> set cs. d = candidate_decision_of m r e c \<and> runnable m r e c"
  using assms by (auto simp: planned_attempts_def plan_fields)

lemma service_execute_Ok:
  assumes "service_execute w max_bytes rs q = Ok ir"
  obtains m r e p i s x d pre post errors result_id files where
    "service_prepare w q = Ok (m, r, e, p)" "ep_selected_runtime p = Some i"
    "planned_attempts r p i = pre @ d # post"
    "attempts_led_to w m r 0 \<lparr>at_plan = p, at_errors = [], at_attempts = [], at_routes = rs, at_notes = []\<rparr>
       s pre errors d x"
    "ir_runtime ir = be_runtime x" "ir_effective_request ir = adjusted_for d r" "ir_plan ir = at_plan s"
    "ir_attempts ir = at_attempts s" "ir_model ir = mf_id m" "ir_outputs ir = files"
    "res_list (map (output_metadata_of w result_id m (adjusted_for d r) (be_runtime x)) (enumerate 0 (be_outputs x))) = Ok files"
    "sv_output_setup w = Ok result_id" "ir_id ir = result_id"
proof -
  from assms obtain m r e p i result_id s r' x where
    prep: "service_prepare w q = Ok (m, r, e, p)" and sel: "ep_selected_runtime p = Some i"
    and dirs: "sv_output_setup w = Ok result_id"
    and loop: "run_attempts w m r 0 (planned_attempts r p i)
       \<lparr>at_plan = p, at_errors = [], at_attempts = [], at_routes = rs, at_notes = []\<rparr> = Ok (s, Some (r', x))"
    and fin: "res_bind (assemble_result w result_id m r' e s x) (store_result w max_bytes) = Ok ir"
    by (auto simp: service_execute_def res_bind_Ok split: option.splits)
  from run_attempts_Some [OF loop] obtain pre d post errors where
    split: "planned_attempts r p i = pre @ d # post" "r' = adjusted_for d r" and
    led: "attempts_led_to w m r 0 \<lparr>at_plan = p, at_errors = [], at_attempts = [], at_routes = rs, at_notes = []\<rparr>
       s pre errors d x" by blast
  from fin obtain a where a: "assemble_result w result_id m r' e s x = Ok a" "store_result w max_bytes a = Ok ir"
    by (auto simp: res_bind_Ok)
  from a(2) have "ir = a \<or> ir = a\<lparr>ir_warnings := ir_warnings a @ [BUDGET_WARNING max_bytes]\<rparr>"
    by (auto simp: store_result_def res_bind_Ok split: if_splits)
  then have "ir_runtime ir = ir_runtime a" "ir_effective_request ir = ir_effective_request a" "ir_plan ir = ir_plan a"
    "ir_attempts ir = ir_attempts a" "ir_model ir = ir_model a" "ir_outputs ir = ir_outputs a" "ir_id ir = ir_id a" by auto
  moreover from a(1) obtain files where
    "res_list (map (output_metadata_of w result_id m r' (be_runtime x)) (enumerate 0 (be_outputs x))) = Ok files"
    "ir_runtime a = be_runtime x" "ir_effective_request a = r'" "ir_plan a = at_plan s"
    "ir_attempts a = at_attempts s" "ir_model a = mf_id m" "ir_outputs a = files" "ir_id a = result_id"
    by (auto simp: assemble_result_def res_bind_Ok)
  ultimately show ?thesis using that prep sel dirs split led by metis
qed

text \<open>
  C3. A result follows its plan. The attempts are the accepted candidates of the plan in
  order, those before the last failed and the last answered; the result names the runtime that
  answered, its plan names that candidate, its fallback chain is the planned one followed by
  the failed candidates with their errors, its effective request is the resolved one with the
  adjustments of that candidate, and the first attempt is on the runtime the plan selected.
\<close>

theorem execution_follows_plan:
  assumes "service_execute w max_bytes rs q = Ok ir"
  shows "\<exists>m r e p i pre d post errors x. service_prepare w q = Ok (m, r, e, p)
    \<and> ep_selected_runtime p = Some i \<and> planned_attempts r p i = pre @ d # post
    \<and> cd_runtime_id (hd (pre @ [d])) = i \<and> fails_with w m r 0 pre errors
    \<and> sv_execute w (length pre) m (adjusted_for d r) (cd_runtime_id d) = Ok x
    \<and> ir_runtime ir = be_runtime x \<and> ir_effective_request ir = adjusted_for d r
    \<and> ir_attempts ir = failures pre errors @ [succeeded d]
    \<and> ep_selected_runtime (ir_plan ir) = Some (cd_runtime_id d)
    \<and> ep_fallback_chain (ir_plan ir) = ep_fallback_chain p @ map2 failed_decision errors pre"
proof -
  from service_execute_Ok [OF assms] obtain m r e p i s x d pre post errors where
    prep: "service_prepare w q = Ok (m, r, e, p)" and sel: "ep_selected_runtime p = Some i"
    and split: "planned_attempts r p i = pre @ d # post"
    and led: "attempts_led_to w m r 0 \<lparr>at_plan = p, at_errors = [], at_attempts = [], at_routes = rs, at_notes = []\<rparr>
       s pre errors d x"
    and ir: "ir_runtime ir = be_runtime x" "ir_effective_request ir = adjusted_for d r" "ir_plan ir = at_plan s"
       "ir_attempts ir = at_attempts s" by metis
  from service_prepare_Ok [OF prep] obtain b where
    p: "p = attach_probe_readiness b (plan_execution m r e (bp_candidates b))" by metis
  with sel have sel': "ep_selected_runtime (plan_execution m r e (bp_candidates b)) = Some i" by simp
  have "planned_attempts r p i = planned_attempts r (plan_execution m r e (bp_candidates b)) i"
    by (simp add: planned_attempts_def p)
  with hd_planned [OF sel'] split have hd: "cd_runtime_id (hd (pre @ [d])) = i"
    by (metis hd_append2 list.sel(1) append.assoc append_Cons append_Nil snoc_eq_iff_butlast)
  have "ep_selected_runtime (at_plan s) = Some (cd_runtime_id d)"
    using led hd sel by (cases pre) (auto simp: attempts_led_to_def)
  with prep sel split led ir hd show ?thesis
    unfolding attempts_led_to_def by fastforce
qed

section \<open>Adjustments\<close>

lemma adjust_fields [simp]:
  "er_task (apply_candidate_adjustments i b ds r) = er_task r"
  "er_explicit_parameters (apply_candidate_adjustments i b ds r) = er_explicit_parameters r"
  "er_inputs (apply_candidate_adjustments i b ds r) = er_inputs r"
  "er_prompt (apply_candidate_adjustments i b ds r) = er_prompt r"
  "er_warnings (apply_candidate_adjustments i b ds r) = er_warnings r"
proof -
  have "er_task (foldl (\<lambda>r (path, v). insert_backend_adjustment path v r) r xs) = er_task r \<and>
    er_explicit_parameters (foldl (\<lambda>r (path, v). insert_backend_adjustment path v r) r xs) = er_explicit_parameters r \<and>
    er_inputs (foldl (\<lambda>r (path, v). insert_backend_adjustment path v r) r xs) = er_inputs r \<and>
    er_prompt (foldl (\<lambda>r (path, v). insert_backend_adjustment path v r) r xs) = er_prompt r \<and>
    er_warnings (foldl (\<lambda>r (path, v). insert_backend_adjustment path v r) r xs) = er_warnings r" for xs
    by (induction xs arbitrary: r) (auto simp: insert_backend_adjustment_def)
  then show "er_task (apply_candidate_adjustments i b ds r) = er_task r"
    "er_explicit_parameters (apply_candidate_adjustments i b ds r) = er_explicit_parameters r"
    "er_inputs (apply_candidate_adjustments i b ds r) = er_inputs r"
    "er_prompt (apply_candidate_adjustments i b ds r) = er_prompt r"
    "er_warnings (apply_candidate_adjustments i b ds r) = er_warnings r"
    by (simp_all add: apply_candidate_adjustments_def)
qed

lemma adjustments_get:
  "map_of (er_parameters (foldl (\<lambda>r (path, v). insert_backend_adjustment path v r) r xs)) path =
     (case map_of (rev xs) path of
        Some v \<Rightarrow> Some \<lparr>rp_value = v, rp_source = BackendAdjustment\<rparr>
      | None \<Rightarrow> map_of (er_parameters r) path)"
  by (induction xs arbitrary: r)
    (auto simp: insert_backend_adjustment_def map_add_def split: option.splits)

lemma adjusted_get:
  "map_of (er_parameters (apply_candidate_adjustments i b ds r)) path =
     (case map_of (rev (candidate_adjustments i b ds)) path of
        Some v \<Rightarrow> Some \<lparr>rp_value = v, rp_source = BackendAdjustment\<rparr>
      | None \<Rightarrow> map_of (er_parameters r) path)"
  unfolding apply_candidate_adjustments_def by (rule adjustments_get)

text \<open>The planner's degradations never slow the attention down.\<close>

definition planner_degradation :: "degradation \<Rightarrow> bool" where
  "planner_degradation d \<longleftrightarrow> d \<in> {CpuOffload, SequentialOffload, ComponentOffload, VaeTiling, TemporalWindowing}"

definition ADJUSTED_ROUTING :: "rstr set" where
  "ADJUSTED_ROUTING = {lit ''routing.backend'', lit ''routing.accelerator'', CPU_OFFLOAD, SEQUENTIAL_OFFLOAD, COMPONENT_OFFLOAD}"

lemma adjusted_other:
  assumes "\<forall>d \<in> set ds. planner_degradation d" "path \<notin> ADJUSTED_ROUTING"
    and "VaeTiling \<in> set ds \<Longrightarrow> path \<noteq> lit ''image.vae_tiling''"
    and "TemporalWindowing \<in> set ds \<Longrightarrow> path \<noteq> lit ''video.temporal_vae_tiling''"
  shows "er_parameter (apply_candidate_adjustments i b ds r) path = er_parameter r path"
proof -
  have "path \<notin> fst ` set (rev (candidate_adjustments i b ds))"
    using assms by (fastforce simp: candidate_adjustments_def planner_degradation_def ADJUSTED_ROUTING_def
      split: option.splits)
  then have "map_of (rev (candidate_adjustments i b ds)) path = None" by (simp add: map_of_eq_None_iff)
  then show ?thesis by (simp add: er_parameter_def adjusted_get)
qed

lemma planned_degradations:
  assumes "d \<in> set (candidate_degradations r e c)"
  shows "planner_degradation d"
    and "d = VaeTiling \<Longrightarrow> task_output_modality (er_task r) = OutImage \<and> bool_parameter r (lit ''image.vae_tiling'') = Some True"
    and "d = TemporalWindowing \<Longrightarrow> task_output_modality (er_task r) = OutVideo \<and>
      (bool_parameter r (lit ''video.temporal_vae_tiling'') = Some True \<or> u64_parameter r (lit ''video.window_size'') \<noteq> None)"
proof -
  from assms obtain o' where o': "selected_offload r (allow_degradation r) = Some o'"
    "candidate_degradations r e c = offload_degradations r o'"
    using degradations_of [of r e c] by (cases "candidate_degradations r e c") auto
  from selected_offload_permitted [OF o'(1)] obtain path where "(path, o') \<in> set offload_options" by blast
  then have "o' \<in> {CpuOffload, SequentialOffload, ComponentOffload}" by (auto simp: offload_options_def)
  then show "planner_degradation d"
    "d = VaeTiling \<Longrightarrow> task_output_modality (er_task r) = OutImage \<and> bool_parameter r (lit ''image.vae_tiling'') = Some True"
    "d = TemporalWindowing \<Longrightarrow> task_output_modality (er_task r) = OutVideo \<and>
      (bool_parameter r (lit ''video.temporal_vae_tiling'') = Some True \<or> u64_parameter r (lit ''video.window_size'') \<noteq> None)"
    using assms o'(2) by (auto simp: offload_degradations_def planner_degradation_def split: if_splits)
qed

lemma namespace_head: "parameter_namespace t \<noteq> [] \<and> hd (parameter_namespace t) \<noteq> 114"
  by (cases t) (simp_all add: lit_def)

lemma scoped_not_routing: "scoped r n \<notin> ADJUSTED_ROUTING"
proof
  assume "scoped r n \<in> ADJUSTED_ROUTING"
  then have "hd (scoped r n) = 114"
    by (auto simp: ADJUSTED_ROUTING_def CPU_OFFLOAD_def SEQUENTIAL_OFFLOAD_def COMPONENT_OFFLOAD_def lit_def)
  moreover have "hd (scoped r n) = hd (parameter_namespace (er_task r))"
    using namespace_head [of "er_task r"] by (simp add: scoped_def)
  ultimately show False using namespace_head [of "er_task r"] by simp
qed

text \<open>Two requests that agree on everything the estimate of a medium reads.\<close>

definition media_agree :: "effective_request \<Rightarrow> effective_request \<Rightarrow> bool" where
  "media_agree r r' \<longleftrightarrow> er_task r' = er_task r \<and>
     (\<forall>path. path \<notin> ADJUSTED_ROUTING \<longrightarrow> path \<noteq> lit ''video.temporal_vae_tiling'' \<longrightarrow>
        er_parameter r' path = er_parameter r path)"

lemmas reads = u32_parameter_def u64_parameter_def f64_parameter_def bool_parameter_def string_parameter_def

lemma adjusted_head: "path \<in> ADJUSTED_ROUTING \<Longrightarrow> hd path = 114"
  by (auto simp: ADJUSTED_ROUTING_def CPU_OFFLOAD_def SEQUENTIAL_OFFLOAD_def COMPONENT_OFFLOAD_def lit_def)

lemma agree_at:
  "media_agree r r' \<Longrightarrow> hd path \<noteq> 114 \<Longrightarrow> path \<noteq> lit ''video.temporal_vae_tiling'' \<Longrightarrow>
     er_parameter r' path = er_parameter r path"
  using adjusted_head [of path] by (auto simp: media_agree_def)

lemma scoped_at:
  assumes "media_agree r r'" "lit n \<noteq> lit ''temporal_vae_tiling''"
  shows "er_parameter r' (scoped r n) = er_parameter r (scoped r n)"
proof (rule agree_at [OF assms(1)])
  show "hd (scoped r n) \<noteq> 114"
    using namespace_head [of "er_task r"] by (simp add: scoped_def)
  show "scoped r n \<noteq> lit ''video.temporal_vae_tiling''"
    using assms(2) by (cases "er_task r") (simp_all add: scoped_def lit_def)
qed

lemma agree_task: "media_agree r r' \<Longrightarrow> er_task r' = er_task r"
  by (simp add: media_agree_def)

lemma agree_scoped: "media_agree r r' \<Longrightarrow> scoped r' n = scoped r n"
  by (simp add: scoped_def agree_task)

lemma agree_batch: "media_agree r r' \<Longrightarrow> batch_size r' = batch_size r"
  using scoped_at [of r r' "''batch_size''"]
  by (simp add: batch_size_def u64_parameter_def agree_scoped lit_def)

lemma agree_image: "media_agree r r' \<Longrightarrow> image_workload r' = image_workload r"
  by (simp add: image_workload_def image_generation_options_def reads agree_at agree_task agree_batch lit_def)

lemma agree_audio: "media_agree r r' \<Longrightarrow> audio_workload r' = audio_workload r"
  by (simp add: audio_workload_def audio_duration_def stem_count_def audio_generation_options_def reads agree_scoped
      scoped_at agree_at agree_task lit_def)

definition windowed :: "effective_request \<Rightarrow> bool" where
  "windowed r \<longleftrightarrow> bool_parameter r (lit ''video.temporal_vae_tiling'') = Some True
     \<or> u64_parameter r (lit ''video.window_size'') \<noteq> None"

lemma agree_window: "media_agree r r' \<Longrightarrow>
    u64_parameter r' (lit ''video.window_size'') = u64_parameter r (lit ''video.window_size'')"
  by (simp add: u64_parameter_def agree_at lit_def)

lemma agree_video_options:
  assumes "media_agree r r'" "bool_parameter r' (lit ''video.temporal_vae_tiling'') = Some b"
    and "bool_parameter r (lit ''video.temporal_vae_tiling'') \<noteq> None"
  shows "video_generation_options r' = map_option (\<lambda>t. t\<lparr>vo_temporal_vae_tiling := b\<rparr>) (video_generation_options r)"
proof -
  from assms(3) obtain c where c: "bool_parameter r (lit ''video.temporal_vae_tiling'') = Some c" by blast
  have l: "list_parameter (er_parameter r' (lit ''video.prompt_keyframes'')) = list_parameter (er_parameter r (lit ''video.prompt_keyframes''))"
    "u32_parameter r' (lit ''video.width'') = u32_parameter r (lit ''video.width'')"
    "u32_parameter r' (lit ''video.height'') = u32_parameter r (lit ''video.height'')"
    "u32_parameter r' (lit ''video.frames'') = u32_parameter r (lit ''video.frames'')"
    "f64_parameter r' (lit ''video.fps'') = f64_parameter r (lit ''video.fps'')"
    "u32_parameter r' (lit ''video.steps'') = u32_parameter r (lit ''video.steps'')"
    "u64_parameter r' (lit ''video.seed'') = u64_parameter r (lit ''video.seed'')"
    using assms(1) by (simp_all add: u32_parameter_def u64_parameter_def f64_parameter_def agree_at lit_def)
  show ?thesis
    unfolding video_generation_options_def agree_task [OF assms(1)] l assms(2) c
    by (simp split: option.split)
qed

lemma agree_video:
  assumes "media_agree r r'"
    and "er_parameter r' (lit ''video.temporal_vae_tiling'') = er_parameter r (lit ''video.temporal_vae_tiling'')
      \<or> (windowed r \<and> bool_parameter r (lit ''video.temporal_vae_tiling'') \<noteq> None
          \<and> bool_parameter r' (lit ''video.temporal_vae_tiling'') = Some True)"
  shows "video_workload r' = video_workload r"
  using assms(2)
proof
  assume same: "er_parameter r' (lit ''video.temporal_vae_tiling'') = er_parameter r (lit ''video.temporal_vae_tiling'')"
  have all: "er_parameter r' path = er_parameter r path" if "hd path \<noteq> 114" for path
    using agree_at [OF assms(1) that] same by (cases "path = lit ''video.temporal_vae_tiling''") auto
  show ?thesis
    using assms(1)
    by (simp add: video_workload_def video_generation_options_def reads all agree_task agree_batch lit_def)
next
  assume w: "windowed r \<and> bool_parameter r (lit ''video.temporal_vae_tiling'') \<noteq> None
      \<and> bool_parameter r' (lit ''video.temporal_vae_tiling'') = Some True"
  have o': "video_generation_options r' = map_option (\<lambda>t. t\<lparr>vo_temporal_vae_tiling := True\<rparr>) (video_generation_options r)"
    using agree_video_options [OF assms(1)] w by blast
  have fields: "map_option vo_width (video_generation_options r') = map_option vo_width (video_generation_options r)"
    "map_option vo_height (video_generation_options r') = map_option vo_height (video_generation_options r)"
    "map_option vo_frames (video_generation_options r') = map_option vo_frames (video_generation_options r)"
    "map_option vo_steps (video_generation_options r') = map_option vo_steps (video_generation_options r)"
    "video_output (video_generation_options r') = video_output (video_generation_options r)"
    unfolding o' by (simp_all add: option.map_comp comp_def video_output_def fun_eq_iff split: option.split)
  have reads': "u64_parameter r' (lit ''video.num_videos'') = u64_parameter r (lit ''video.num_videos'')"
    "u64_parameter r' (lit ''video.bitrate'') = u64_parameter r (lit ''video.bitrate'')"
    using assms(1) by (simp_all add: u64_parameter_def agree_at lit_def)
  have win: "(bool_parameter r' (lit ''video.temporal_vae_tiling'') = Some True
      \<or> u64_parameter r' (lit ''video.window_size'') \<noteq> None) = True"
    "(bool_parameter r (lit ''video.temporal_vae_tiling'') = Some True
      \<or> u64_parameter r (lit ''video.window_size'') \<noteq> None) = True"
    using w by (simp_all add: windowed_def)
  show ?thesis
    unfolding video_workload_def Let_def fields reads' agree_batch [OF assms(1)] win by (rule refl)
qed

lemma agree_workload:
  assumes "media_agree r r'"
    and "er_parameter r' (lit ''video.temporal_vae_tiling'') = er_parameter r (lit ''video.temporal_vae_tiling'')
      \<or> (windowed r \<and> bool_parameter r (lit ''video.temporal_vae_tiling'') \<noteq> None
          \<and> bool_parameter r' (lit ''video.temporal_vae_tiling'') = Some True)"
  shows "medium_workload r' weights = medium_workload r weights"
  using agree_image [OF assms(1)] agree_audio [OF assms(1)] agree_video [OF assms] agree_task [OF assms(1)]
  by (simp add: medium_workload_def split: output_modality.split)

section \<open>An adjusted request, estimated again\<close>

lemma map_of_rev_unique:
  "(k, v) \<in> set xs \<Longrightarrow> \<forall>(k', v') \<in> set xs. k' = k \<longrightarrow> v' = v \<Longrightarrow> map_of (rev xs) k = Some v"
  by (metis (mono_tags, lifting) case_prodD map_of_SomeD not_None_eq set_rev weak_map_of_SomeI)

lemma tiling_adjusted:
  assumes "\<forall>d \<in> set ds. planner_degradation d" "d \<in> set ds" "d \<in> {VaeTiling, TemporalWindowing}"
  shows "er_parameter (apply_candidate_adjustments i b ds r) (fst (degradation_adjustment d)) = Some (PBoolean True)"
proof -
  have "map_of (rev (candidate_adjustments i b ds)) (fst (degradation_adjustment d)) = Some (PBoolean True)"
  proof (rule map_of_rev_unique)
    show "(fst (degradation_adjustment d), PBoolean True) \<in> set (candidate_adjustments i b ds)"
      using assms(2,3) by (force simp: candidate_adjustments_def)
    have "v' = PBoolean True" if "(k', v') \<in> set (candidate_adjustments i b ds)" "k' = fst (degradation_adjustment d)" for k' v'
      using that assms by (fastforce simp: candidate_adjustments_def planner_degradation_def lit_def split: option.splits)
    then show "\<forall>(k', v') \<in> set (candidate_adjustments i b ds). k' = fst (degradation_adjustment d) \<longrightarrow> v' = PBoolean True"
      by blast
  qed
  then show ?thesis by (simp add: er_parameter_def adjusted_get)
qed

lemma bool_True_parameter: "bool_parameter r path = Some True \<Longrightarrow> er_parameter r path = Some (PBoolean True)"
  by (auto simp: bool_parameter_def bind_eq_Some_conv elim: as_bool.elims)

lemma planned_media_agree: "media_agree r (apply_candidate_adjustments i b (candidate_degradations r e c) r)"
proof -
  let ?ds = "candidate_degradations r e c"
  have p: "\<forall>d \<in> set ?ds. planner_degradation d" using planned_degradations(1) by blast
  have "er_parameter (apply_candidate_adjustments i b ?ds r) path = er_parameter r path"
    if "path \<notin> ADJUSTED_ROUTING" "path \<noteq> lit ''video.temporal_vae_tiling''" for path
  proof (cases "VaeTiling \<in> set ?ds \<and> path = lit ''image.vae_tiling''")
    case True
    then have "er_parameter r path = Some (PBoolean True)"
      using planned_degradations(2) [of VaeTiling r e c] bool_True_parameter by simp
    with True tiling_adjusted [OF p, of VaeTiling] show ?thesis by simp
  next
    case False
    with that adjusted_other [OF p] show ?thesis by blast
  qed
  then show ?thesis by (simp add: media_agree_def)
qed

lemma planned_workload:
  assumes "task_output_modality (er_task r) = OutVideo \<Longrightarrow> bool_parameter r (lit ''video.temporal_vae_tiling'') \<noteq> None"
  shows "medium_workload (apply_candidate_adjustments i b (candidate_degradations r e c) r) weights = medium_workload r weights"
proof (rule agree_workload [OF planned_media_agree])
  let ?ds = "candidate_degradations r e c"
  let ?t = "lit ''video.temporal_vae_tiling''"
  have p: "\<forall>d \<in> set ?ds. planner_degradation d" using planned_degradations(1) by blast
  show "er_parameter (apply_candidate_adjustments i b ?ds r) ?t = er_parameter r ?t
      \<or> (windowed r \<and> bool_parameter r ?t \<noteq> None
          \<and> bool_parameter (apply_candidate_adjustments i b ?ds r) ?t = Some True)"
  proof (cases "TemporalWindowing \<in> set ?ds")
    case True
    from planned_degradations(3) [OF True refl] have "windowed r" "task_output_modality (er_task r) = OutVideo"
      by (simp_all add: windowed_def)
    moreover have "bool_parameter (apply_candidate_adjustments i b ?ds r) ?t = Some True"
      using tiling_adjusted [OF p True] by (simp add: bool_parameter_def)
    ultimately show ?thesis using assms by blast
  next
    case False
    have "?t \<notin> ADJUSTED_ROUTING" "?t \<noteq> lit ''image.vae_tiling''"
      by (rule notI, drule adjusted_head) (simp_all add: lit_def)
    with adjusted_other [OF p this(1)] False show ?thesis by blast
  qed
qed

lemma planned_activation:
  "scaled_activation (apply_candidate_adjustments i b (candidate_degradations r e c) r) n = scaled_activation r n"
proof -
  let ?r' = "apply_candidate_adjustments i b (candidate_degradations r e c) r"
  have p: "\<forall>d \<in> set (candidate_degradations r e c). planner_degradation d" using planned_degradations(1) by blast
  have "er_parameter ?r' (lit ''routing.precision'') = er_parameter r (lit ''routing.precision'')"
    "er_parameter ?r' (lit ''routing.attention_backend'') = er_parameter r (lit ''routing.attention_backend'')"
    by (rule adjusted_other [OF p]; simp add: ADJUSTED_ROUTING_def CPU_OFFLOAD_def SEQUENTIAL_OFFLOAD_def
        COMPONENT_OFFLOAD_def lit_def)+
  then show ?thesis by (simp add: scaled_activation_def lowered_def string_parameter_def)
qed

lemma undegraded_offload:
  "offload_selected (apply_candidate_adjustments i b [] r) = offload_selected r"
proof -
  have "map_of (rev (candidate_adjustments i b [])) path = None"
    if "path \<in> {CPU_OFFLOAD, SEQUENTIAL_OFFLOAD, COMPONENT_OFFLOAD}" for path
    using that by (auto simp: candidate_adjustments_def CPU_OFFLOAD_def SEQUENTIAL_OFFLOAD_def COMPONENT_OFFLOAD_def lit_def
      split: option.splits)
  then show ?thesis by (simp add: offload_selected_def adjusted_true_def adjusted_get)
qed

lemma estimate_fields [simp]:
  "we_host_peak_bytes (estimate_workload m r hr) = Some (host_peak_of m r)"
  "we_accelerator_peak_bytes (estimate_workload m r hr) = Some (accelerator_peak_of m r)"
  "we_weight_payload_bytes (estimate_workload m r hr) = Some (model_weights m)"
  "we_host_memory_limit_bytes (estimate_workload m r hr) = hr_host_memory_bytes hr"
  "we_accelerator_memory_limit_bytes (estimate_workload m r hr) = hr_accelerator_memory_bytes hr"
  by (simp_all add: estimate_workload_def Let_def)

text \<open>The planner's projection of an offload is an upper bound of what the estimate gives once it is recorded.\<close>

lemma projection_bounds_offload:
  assumes "\<not> offload_selected r" "accelerator_peak_of m r < u64_max" "offload_selected r'"
    and "medium_workload r' (model_weights m) = medium_workload r (model_weights m)"
    and "\<And>n. scaled_activation r' n = scaled_activation r n"
  shows "\<exists>k. projected_host_peak_with_offload (estimate_workload m r hr) = Some k \<and> host_peak_of m r' \<le> k"
proof -
  let ?W = "model_weights m" and ?A = "scaled_activation r (fst (medium_workload r (model_weights m)))"
  let ?O = "runtime_overhead m"
  have peak: "accelerator_peak_of m r = ?W + ?A + ?O"
    using assms(2) unfolding accelerator_peak_of_def by (auto simp: sat_add_def min_def split: if_splits)
  have host: "host_peak_of m r = ?W div 4 + 536870912" using assms(1) by (simp add: host_peak_of_def)
  have "host_peak_of m r' = sat_add (sat_add ?W (?A div 3)) 536870912"
    using assms(3-5) by (simp add: host_peak_of_def)
  moreover have "projected_host_peak_with_offload (estimate_workload m r hr)
      = Some (sat_add (sat_add (?W div 4 + 536870912) ?W) ((?A + ?O) div 3))"
    by (simp add: projected_host_peak_with_offload_def host peak)
  moreover have "?A div 3 \<le> (?A + ?O) div 3" by (rule div_le_mono) simp
  ultimately show ?thesis by (auto simp: sat_add_def min_def)
qed

text \<open>
  C4. A planned request stays inside the host when it is estimated again. Recording the plan's
  adjustments in the request changes what the estimate sees (an offload moves weights to the
  host), and still the host peak of the new estimate is below the detected host memory and the
  accelerator peak is unchanged: the planner's projection was conservative.
\<close>

theorem adjusted_request_fits_host:
  assumes "ep_selected_runtime (plan_execution m r (estimate_workload m r hr) cs) = Some i"
    and "\<not> offload_selected r" "accelerator_peak_of m r < u64_max"
    and "task_output_modality (er_task r) = OutVideo \<Longrightarrow> bool_parameter r (lit ''video.temporal_vae_tiling'') \<noteq> None"
    and "hr_host_memory_bytes hr = Some limit"
  shows "let r' = apply_plan_adjustments (plan_execution m r (estimate_workload m r hr) cs) r in
    (\<exists>k. we_host_peak_bytes (estimate_workload m r' hr) = Some k \<and> k < limit) \<and>
    we_accelerator_peak_bytes (estimate_workload m r' hr) = Some (accelerator_peak_of m r)"
proof -
  let ?e = "estimate_workload m r hr"
  from planned [OF assms(1)] obtain c where c: "rc_id c = i" "runnable m r ?e c"
    "winner m r ?e cs = Some (candidate_decision_of m r ?e c)" by metis
  let ?ds = "candidate_degradations r ?e c"
  let ?r' = "apply_candidate_adjustments i (rc_backend c) ?ds r"
  have r': "apply_plan_adjustments (plan_execution m r ?e cs) r = ?r'"
    using c by (simp add: apply_plan_adjustments_def plan_fields)
  have media: "medium_workload ?r' (model_weights m) = medium_workload r (model_weights m)"
    using assms(4) by (rule planned_workload)
  note same = media planned_activation
  have acc: "accelerator_peak_of m ?r' = accelerator_peak_of m r"
    by (simp add: accelerator_peak_of_def same)
  have "\<not> host_memory_exceeded ?e"
    using c(2) by (auto simp: runnable_def memory_allows_def memory_pressure_def)
  then have now: "host_peak_of m r < limit"
    using assms(5) by (simp add: host_memory_exceeded_def reaches_def)
  have "host_peak_of m ?r' < limit"
  proof (cases "offload_selected ?r'")
    case True
    then have ds: "?ds \<noteq> []" using undegraded_offload [of i "rc_backend c" r] assms(2) by auto
    then have "offload_fits_host ?e" using degradations_of by blast
    moreover obtain k where "projected_host_peak_with_offload ?e = Some k" "host_peak_of m ?r' \<le> k"
      using projection_bounds_offload [OF assms(2,3) True media planned_activation] by blast
    ultimately show ?thesis using assms(5) by (auto simp: offload_fits_host_def reaches_def)
  next
    case False
    then have "host_peak_of m ?r' = host_peak_of m r" using assms(2) by (simp add: host_peak_of_def)
    with now show ?thesis by simp
  qed
  with acc show ?thesis by (simp add: Let_def r')
qed

section \<open>Executions that succeed and executions that fail\<close>

lemma res_list_total: "\<forall>x \<in> set xs. \<exists>v. x = Ok v \<Longrightarrow> \<exists>vs. res_list xs = Ok vs"
  by (induction xs) auto

lemma output_metadata_Ok:
  "\<forall>x. \<exists>size. sv_file_size w x = Ok size \<Longrightarrow> \<exists>v. output_metadata_of w result_id m r runtime (n, x) = Ok v"
  by (drule spec [of _ x]) (auto simp: output_metadata_of_def map_err_def)

lemma map_err_of_Ok [simp]: "map_err f (Ok v) = Ok v"
  by (simp add: map_err_def)

text \<open>
  C16. An execution succeeds when a planned runtime does. If the output directory can be
  set up, cleared and written, every output file passes the check of its metadata (it exists
  and lies inside the directory), no attempt of a backend panics, and some accepted candidate
  that the fallback policy admits answers the attempt it would get, then the execution returns
  a result: failures of the candidates before it do not end the execution.
\<close>

theorem execution_succeeds:
  assumes "service_prepare w q = Ok (m, r, e, p)" "ep_selected_runtime p = Some i"
    and "sv_output_setup w = Ok result_id" "\<forall>n. sv_reset w n = Ok ()" "\<forall>n. sv_write w n = Ok ()"
    and "sv_over_budget w = Ok over" "\<forall>x. \<exists>size. sv_file_size w x = Ok size"
    and "\<forall>n r' j. sv_execute w n m r' j \<noteq> Panic"
    and "n < length (planned_attempts r p i)" "d = planned_attempts r p i ! n"
    and "sv_execute w n m (adjusted_for d r) (cd_runtime_id d) = Ok x"
  shows "\<exists>ir. service_execute w max_bytes rs q = Ok ir"
proof -
  let ?s = "\<lparr>at_plan = p, at_errors = [], at_attempts = [], at_routes = rs, at_notes = []\<rparr>"
  obtain t r' y where t: "run_attempts w m r 0 (planned_attempts r p i) ?s = Ok (t, Some (r', y))"
    using run_attempts_progress [of "planned_attempts r p i" w 0 m r n x ?s] assms(4,8-11) by auto
  have "\<forall>z \<in> set (map (output_metadata_of w result_id m r' (be_runtime y)) (enumerate 0 (be_outputs y))). \<exists>v. z = Ok v"
    using output_metadata_Ok assms(7) by auto
  from res_list_total [OF this] obtain a where a: "assemble_result w result_id m r' e t y = Ok a"
    by (auto simp: assemble_result_def)
  have "\<exists>ir. store_result w max_bytes a = Ok ir" using assms(5,6) by (auto simp: store_result_def)
  with assms(1-3) t a show ?thesis by (auto simp: service_execute_def)
qed

text \<open>The error of exhaustion has one source.\<close>

definition not_exhausted :: "(service_error, 'a) res \<Rightarrow> bool" where
  "not_exhausted x \<longleftrightarrow> (\<forall>task errors model. x \<noteq> Err (AllRuntimesFailed task errors model))"

lemma not_exhausted_bind:
  "not_exhausted x \<Longrightarrow> (\<And>a. x = Ok a \<Longrightarrow> not_exhausted (f a)) \<Longrightarrow> not_exhausted (res_bind x f)"
  by (cases x) (auto simp: not_exhausted_def)

lemma not_exhausted_map_err:
  "(\<And>a task errors model. F a \<noteq> AllRuntimesFailed task errors model) \<Longrightarrow> not_exhausted (map_err F x)"
  by (cases x) (auto simp: not_exhausted_def map_err_def)

lemma not_exhausted_plain [simp]: "not_exhausted (Ok a)" "not_exhausted Panic"
  by (simp_all add: not_exhausted_def)

lemma prepare_not_exhausted: "not_exhausted (service_prepare w q)"
proof -
  have "not_exhausted (estimate_effective w m r)" for m r
    by (auto simp: estimate_effective_def not_exhausted_def Let_def split: res.splits option.splits)
  then show ?thesis
    by (auto simp: service_prepare_def service_resolve_def schema_of_def load_profile_def Let_def
      intro!: not_exhausted_bind not_exhausted_map_err split: option.splits)
qed

lemma res_list_not_exhausted: "\<forall>x \<in> set xs. not_exhausted x \<Longrightarrow> not_exhausted (res_list xs)"
  by (induction xs) (auto intro!: not_exhausted_bind)

lemma output_not_exhausted: "not_exhausted (output_metadata_of w result_id m r runtime i)"
  by (cases i) (auto simp: output_metadata_of_def intro!: not_exhausted_bind not_exhausted_map_err)

lemma finish_not_exhausted:
  "not_exhausted (assemble_result w result_id m r e s x)" "not_exhausted (store_result w max_bytes a)"
  by (auto simp: assemble_result_def store_result_def output_not_exhausted
    intro!: not_exhausted_bind not_exhausted_map_err res_list_not_exhausted)

lemma run_not_exhausted: "not_exhausted (run_attempts w m r n ds s)"
proof (induction ds arbitrary: n s)
  case (Cons d ds)
  have "not_exhausted (begin_attempt w (mf_id m) n d s)"
    by (auto simp: begin_attempt_def intro!: not_exhausted_bind not_exhausted_map_err split: option.splits)
  with Cons.IH show ?case by (auto intro!: not_exhausted_bind split: res.split)
qed simp

text \<open>
  An execution that gives up has tried everything. The error that all runtimes failed
  is returned only after every accepted candidate that the policy admits was attempted, in
  order, and failed with the error it is listed with.
\<close>

theorem execution_exhausts_plan:
  assumes "service_execute w max_bytes rs q = Err (AllRuntimesFailed task errors model)"
  shows "\<exists>m r e p i texts. service_prepare w q = Ok (m, r, e, p) \<and> ep_selected_runtime p = Some i
    \<and> fails_with w m r 0 (planned_attempts r p i) texts
    \<and> errors = zip (map cd_runtime_id (planned_attempts r p i)) texts \<and> model = mf_id m"
proof -
  obtain m r e p where prep: "service_prepare w q = Ok (m, r, e, p)"
    using assms prepare_not_exhausted [of w q]
    by (cases "service_prepare w q") (auto simp: service_execute_def not_exhausted_def)
  obtain i where sel: "ep_selected_runtime p = Some i"
    using assms prep by (cases "ep_selected_runtime p") (auto simp: service_execute_def)
  let ?s = "\<lparr>at_plan = p, at_errors = [], at_attempts = [], at_routes = rs, at_notes = []\<rparr>"
  obtain s finished result_id where loop: "run_attempts w m r 0 (planned_attempts r p i) ?s = Ok (s, finished)"
    and dirs: "sv_output_setup w = Ok result_id"
    using assms prep sel run_not_exhausted [of w m r 0 "planned_attempts r p i" ?s]
    by (cases "sv_output_setup w"; cases "run_attempts w m r 0 (planned_attempts r p i) ?s")
      (auto simp: service_execute_def map_err_def not_exhausted_def)
  have "finished = None"
  proof (cases finished)
    case (Some f)
    have "not_exhausted (res_bind (assemble_result w result_id m (fst f) e s (snd f)) (store_result w max_bytes))"
      by (intro not_exhausted_bind finish_not_exhausted)
    with assms prep sel loop dirs Some show ?thesis
      by (auto simp: service_execute_def not_exhausted_def split: prod.splits)
  qed
  with loop run_attempts_None [of w m r 0 "planned_attempts r p i" ?s s] obtain texts where
    "fails_with w m r 0 (planned_attempts r p i) texts"
    "at_errors s = zip (map cd_runtime_id (planned_attempts r p i)) texts" by auto
  moreover have "errors = at_errors s" "model = mf_id m"
    using assms prep sel loop dirs \<open>finished = None\<close> by (auto simp: service_execute_def)
  ultimately show ?thesis using prep sel by blast
qed

section \<open>Estimates of the backend\<close>

lemma complete_fields [simp]:
  "we_host_peak_bytes (complete_backend_fit e hr) = we_host_peak_bytes e"
  "we_accelerator_peak_bytes (complete_backend_fit e hr) = we_accelerator_peak_bytes e"
  "we_host_memory_limit_bytes (complete_backend_fit e hr) =
     first_some (hr_host_memory_bytes hr) (we_host_memory_limit_bytes e)"
  "we_accelerator_memory_limit_bytes (complete_backend_fit e hr) =
     first_some (hr_accelerator_memory_bytes hr) (we_accelerator_memory_limit_bytes e)"
  by (simp_all add: complete_backend_fit_def Let_def)

lemma estimate_limits:
  assumes "estimate_effective w m r = Ok e"
    and "hr = resources_for_request (sv_topology w) (sv_resources w) r"
  shows "hr_host_memory_bytes hr = Some l \<Longrightarrow> we_host_memory_limit_bytes e = Some l"
    and "hr_accelerator_memory_bytes hr = Some l \<Longrightarrow> we_accelerator_memory_limit_bytes e = Some l"
  using assms
  by (auto simp: estimate_effective_def Let_def first_some_def split: res.splits option.splits if_splits)

text \<open>
  C17. A backend's estimate cannot hide a machine that is too small. Whatever limits and
  verdict the backend reports, the detected memory is what counts: if the estimated host peak
  reaches the detected host memory nothing is selected, and if the accelerator peak reaches
  the detected accelerator memory whatever is selected moves part of the work to the host.
\<close>

theorem backend_cannot_hide_limits:
  assumes "estimate_effective w m r = Ok e"
    and "hr = resources_for_request (sv_topology w) (sv_resources w) r"
  shows "(reaches (we_host_peak_bytes e) (hr_host_memory_bytes hr) \<longrightarrow>
            ep_selected_runtime (plan_execution m r e cs) = None) \<and>
    (reaches (we_accelerator_peak_bytes e) (hr_accelerator_memory_bytes hr) \<longrightarrow>
            ep_selected_runtime (plan_execution m r e cs) = None \<or>
            set (ep_degradations (plan_execution m r e cs)) \<inter> {CpuOffload, SequentialOffload, ComponentOffload} \<noteq> {})"
proof (intro conjI impI)
  assume "reaches (we_host_peak_bytes e) (hr_host_memory_bytes hr)"
  then have "host_memory_exceeded e"
    using estimate_limits(1) [OF assms] by (auto simp: host_memory_exceeded_def reaches_def split: option.splits)
  then have "\<not> runnable m r e c" for c by (auto simp: runnable_def memory_allows_def memory_pressure_def)
  then show "ep_selected_runtime (plan_execution m r e cs) = None"
    using planned by (metis not_None_eq)
next
  assume "reaches (we_accelerator_peak_bytes e) (hr_accelerator_memory_bytes hr)"
  then have "accelerator_memory_exceeded e"
    using estimate_limits(2) [OF assms] by (auto simp: accelerator_memory_exceeded_def reaches_def split: option.splits)
  then have pressure: "memory_pressure e" by (simp add: memory_pressure_def)
  show "ep_selected_runtime (plan_execution m r e cs) = None \<or>
      set (ep_degradations (plan_execution m r e cs)) \<inter> {CpuOffload, SequentialOffload, ComponentOffload} \<noteq> {}"
  proof (cases "ep_selected_runtime (plan_execution m r e cs)")
    case (Some i)
    from planned [OF Some] obtain c where c: "runnable m r e c" "winner m r e cs = Some (candidate_decision_of m r e c)"
      by metis
    from runnable_degradations [OF c(1) pressure] degradations_of obtain o' where
      o': "selected_offload r (allow_degradation r) = Some o'"
        "candidate_degradations r e c = offload_degradations r o'" by blast
    from selected_offload_permitted [OF o'(1)] have "o' \<in> {CpuOffload, SequentialOffload, ComponentOffload}"
      by (auto simp: offload_options_def)
    with c(2) o'(2) show ?thesis by (auto simp: plan_fields offload_degradations_def)
  qed simp
qed

section \<open>The promised fallback\<close>

fun routing_reason :: "plan_reason \<Rightarrow> bool" where
  "routing_reason (BackendRequested s) = True"
| "routing_reason (AcceleratorRequested s) = True"
| "routing_reason _ = False"

text \<open>Reading the sentences back finds the routing reasons, unless an availability text imitates one.\<close>

lemma routing_texts:
  "explicit_backend_text (reason_text x) \<or> accelerator_text (reason_text x) \<Longrightarrow>
     routing_reason x \<or> (\<exists>s. x = NotAvailable s)"
  by (cases x) (auto simp: explicit_backend_text_def accelerator_text_def starts_with_def lit_def)

lemma routing_texts_complete:
  "routing_reason x \<Longrightarrow> explicit_backend_text (reason_text x) \<or> accelerator_text (reason_text x)"
  by (cases x) (auto simp: explicit_backend_text_def accelerator_text_def starts_with_def ends_with_def quoted_def lit_def)

lemma scan_texts:
  "scan_constraints ss k = Some k' \<Longrightarrow> \<forall>s \<in> set ss. explicit_backend_text s \<or> accelerator_text s"
  by (induction ss arbitrary: k) (auto split: if_splits)

lemma memory_not_routing: "x \<in> set (fst (memory_verdict r e c)) \<Longrightarrow> \<not> routing_reason x"
  by (auto simp: memory_verdict_def host_memory_rejection_reason_def memory_rejection_reason_def
    offload_host_memory_rejection_reason_def Let_def split: if_splits option.splits)

text \<open>A request without its choice of backend and device.\<close>

definition ROUTING_CHOICES :: "rstr set" where
  "ROUTING_CHOICES = {lit ''routing.backend'', lit ''routing.device'', lit ''routing.accelerator''}"

definition unrouted :: "effective_request \<Rightarrow> effective_request" where
  "unrouted r = r\<lparr>er_parameters := filter (\<lambda>(path, _). path \<notin> ROUTING_CHOICES) (er_parameters r)\<rparr>"

lemma unrouted_get:
  "er_parameter (unrouted r) path = (if path \<in> ROUTING_CHOICES then None else er_parameter r path)"
  by (induction "er_parameters r" arbitrary: r)
    (auto simp: unrouted_def er_parameter_def map_of_filter_key)

lemma unrouted_fields [simp]:
  "er_task (unrouted r) = er_task r" "er_explicit_parameters (unrouted r) = er_explicit_parameters r"
  "er_parameter_policy (unrouted r) = er_parameter_policy r"
  by (simp_all add: unrouted_def)

lemma unrouted_reads:
  "requested_backend (unrouted r) = None" "requested_accelerator (unrouted r) = None"
  "fallback_policy (unrouted r) = fallback_policy r"
  "bool_parameter (unrouted r) CPU_OFFLOAD = bool_parameter r CPU_OFFLOAD"
  "bool_parameter (unrouted r) SEQUENTIAL_OFFLOAD = bool_parameter r SEQUENTIAL_OFFLOAD"
  "bool_parameter (unrouted r) COMPONENT_OFFLOAD = bool_parameter r COMPONENT_OFFLOAD"
  by (simp_all add: requested_backend_def requested_accelerator_def fallback_policy_def reads unrouted_get ROUTING_CHOICES_def
    CPU_OFFLOAD_def SEQUENTIAL_OFFLOAD_def COMPONENT_OFFLOAD_def lit_def)

lemma unrouted_memory: "memory_allows (unrouted r) e c = memory_allows r e c"
  by (simp add: memory_allows_def some_offload_permitted_def offload_permitted_def allow_degradation_def is_explicit_def
    unrouted_reads)

lemma routing_only_runnable:
  assumes "\<forall>x \<in> set (candidate_reasons m r e c). routing_reason x"
  shows "runnable m (unrouted r) e c"
proof -
  have stat: "\<forall>x \<in> set (static_reasons m r c). routing_reason x" and
    mem: "\<forall>x \<in> set (fst (memory_verdict r e c)). routing_reason x"
    using assms by (auto simp: candidate_reasons_def)
  have "fst (memory_verdict r e c) = []"
    using mem memory_not_routing [of _ r e c] by (metis list.set_intros(1) neq_Nil_conv)
  then have "memory_allows (unrouted r) e c" by (simp add: memory_verdict_Nil unrouted_memory)
  moreover have "serves_model m (unrouted r) c"
  proof -
    have "x \<notin> set (static_reasons m r c)" if "\<not> routing_reason x" for x using stat that by blast
    then have none: "NotAvailable s \<notin> set (static_reasons m r c)" "TaskUnsupported t \<notin> set (static_reasons m r c)"
      "LayoutUnsupported l \<notin> set (static_reasons m r c)" "FormatUnsupported f \<notin> set (static_reasons m r c)"
      "FamilyUnsupported s \<notin> set (static_reasons m r c)" "ArchitectureUnsupported s \<notin> set (static_reasons m r c)"
      for s t l f by simp_all
    have "rc_available c"
      using none(1) [of "case rc_availability_reason c of None \<Rightarrow> lit ''runtime is unavailable'' | Some s \<Rightarrow> s"]
      by (simp add: static_reasons_def unless_def split: if_splits)
    moreover have "er_task r \<in> set (rc_supported_tasks c)" "supports_layout m c" "supports_format m c"
      using none(2) [of "er_task r"] none(3) [of "mf_repository_layout m"] none(4) [of "mf_format m"]
      by (simp_all add: static_reasons_def unless_def split: if_splits)
    moreover have "rc_supported_families c = [] \<or> names_any (rc_supported_families c) f" if "mf_family m = Some f" for f
      using none(5) [of f] that by (simp add: static_reasons_def unless_def split: if_splits)
    moreover have "rc_supported_architectures c = [] \<or> names_any (rc_supported_architectures c) a"
      if "mf_architecture m = Some a" for a
      using none(6) [of a] that by (simp add: static_reasons_def unless_def split: if_splits)
    ultimately show ?thesis by (simp add: serves_model_def)
  qed
  moreover have "\<not> parameter_refused r c p" if "p \<in> set (er_explicit_parameters r)" for p
  proof
    assume "parameter_refused r c p"
    with that have "ParameterUnsupported p \<in> set (static_reasons m r c)" by (simp add: static_reasons_def)
    with stat show False by fastforce
  qed
  then have "\<forall>p \<in> set (er_explicit_parameters (unrouted r)). \<not> parameter_refused (unrouted r) c p"
    by (simp add: parameter_refused_def)
  ultimately show ?thesis by (simp add: runnable_def routing_allows_def unrouted_reads)
qed

lemma find_map_Some: "find_map f xs = Some y \<Longrightarrow> \<exists>x \<in> set xs. f x = Some y"
  by (induction xs) (auto split: option.splits)

lemma readiness_fallback:
  assumes "ep_task_readiness (attach_probe_readiness b p) = Some t" "tr_status t = FallbackAvailable"
    and "tr_fallback_backend t = Some i" "\<forall>u. bp_readiness b = Some u \<longrightarrow> tr_status u \<noteq> FallbackAvailable"
  obtains k where "ep_selected_runtime p = None" "find_map (constrained_candidate b) (ep_candidates p) = Some (i, k)"
  using assms that
  by (auto simp: attach_probe_readiness_def Let_def mark_fallback_def normalize_task_readiness_def
    split: if_splits option.splits)

lemma attach_marks:
  "ep_selected_runtime p = None \<Longrightarrow> find_map (constrained_candidate b) (ep_candidates p) = Some (i, k) \<Longrightarrow>
     ep_task_readiness (attach_probe_readiness b p) =
       Some (mark_fallback (map_option normalize_task_readiness (bp_readiness b)) i (fallback_detail i k))"
  by (simp add: attach_probe_readiness_def Let_def)

lemma mark_fallback_fields:
  "tr_status (mark_fallback t i detail) = FallbackAvailable" "tr_fallback_backend (mark_fallback t i detail) = Some i"
  by (simp_all add: mark_fallback_def split: option.splits)

text \<open>
  The fallback a refused request is told about would run. When readiness names a runtime as
  an available fallback that the probe itself did not name, then the same request without its
  choice of backend and device is executable, and that runtime is one the planner accepts for it.
\<close>

theorem promised_fallback_runs:
  assumes "p = plan_execution m r e (bp_candidates b)" "distinct (map rc_id (bp_candidates b))"
    and "ep_task_readiness (attach_probe_readiness b p) = Some t" "tr_status t = FallbackAvailable"
    and "tr_fallback_backend t = Some i" "\<forall>u. bp_readiness b = Some u \<longrightarrow> tr_status u \<noteq> FallbackAvailable"
  shows "ep_selected_runtime (plan_execution m (unrouted r) e (bp_candidates b)) \<noteq> None \<and>
    (\<exists>d \<in> set (ep_candidates (plan_execution m (unrouted r) e (bp_candidates b))).
       cd_runtime_id d = i \<and> cd_status d = Accepted)"
proof -
  from readiness_fallback [OF assms(3-6)] obtain k where
    "find_map (constrained_candidate b) (ep_candidates p) = Some (i, k)" .
  from find_map_Some [OF this] obtain d where d: "d \<in> set (ep_candidates p)" "constrained_candidate b d = Some (i, k)"
    by blast
  from d(1) assms(1) obtain c where c: "c \<in> set (bp_candidates b)" "d = candidate_decision_of m r e c"
    by (auto simp: plan_fields)
  from d(2) c(2) have texts: "explicit_routing_constraints (reason_texts (candidate_reasons m r e c)) = Some k"
    and i: "rc_id c = i" and "\<exists>c' \<in> set (bp_candidates b). rc_id c' = i \<and> rc_available c'"
    by (auto simp: constrained_candidate_def list_ex_iff split: option.splits if_splits)
  then have avail: "rc_available c" using c(1) assms(2) by (metis distinct_map inj_onD)
  have "routing_reason x" if "x \<in> set (candidate_reasons m r e c)" for x
  proof -
    have "explicit_backend_text (reason_text x) \<or> accelerator_text (reason_text x)"
      using texts that scan_texts by (fastforce simp: explicit_routing_constraints_def reason_texts_def split: if_splits)
    moreover have "x \<noteq> NotAvailable s" for s
      using that avail by (auto simp: candidate_reasons_def static_reasons_def unless_def memory_verdict_def
        host_memory_rejection_reason_def memory_rejection_reason_def offload_host_memory_rejection_reason_def
        Let_def split: if_splits option.splits)
    ultimately show ?thesis using routing_texts [of x] by blast
  qed
  then have run: "runnable m (unrouted r) e c" using routing_only_runnable by blast
  then have "winner m (unrouted r) e (bp_candidates b) \<noteq> None" using winner_None c(1) by blast
  moreover have "candidate_decision_of m (unrouted r) e c
      \<in> set (ep_candidates (plan_execution m (unrouted r) e (bp_candidates b)))"
    using c(1) by (simp add: plan_fields)
  moreover have "cd_runtime_id (candidate_decision_of m (unrouted r) e c) = i"
    "cd_status (candidate_decision_of m (unrouted r) e c) = Accepted"
    using run i by simp_all
  ultimately show ?thesis by (metis plan_fields(1) option.map_disc_iff)
qed

section \<open>Routing overrides\<close>

text \<open>
  C5. From the request to the execution. When a client's request names a backend and the
  fallback policy none, every runtime that the execution attempted, failed or not, is an
  available runtime of that backend, and it matches the device the request names, if it names one.
\<close>

theorem named_backend_executes:
  assumes "service_execute w max_bytes rs q = Ok ir"
    and "ro_backend (iq_routing q) = Some b" "b \<noteq> lit ''auto''"
    and "ro_fallback_policy (iq_routing q) = Some (lit ''none'')"
  shows "\<exists>m t paths. \<forall>a \<in> set (ir_attempts ir). \<exists>c \<in> set (bp_candidates (sv_probe w 2 m t paths)).
    rc_id c = ra_runtime a \<and> rc_available c \<and> eq_ignore_ascii_case (rc_backend c) b
    \<and> (\<forall>device x. ro_device (iq_routing q) = Some device \<longrightarrow> concrete_routing_target device = Some x \<longrightarrow>
         runtime_accelerator_matches (rc_accelerator c) x)"
proof -
  from execution_follows_plan [OF assms(1)] obtain m r e p i pre d post errors where
    prep: "service_prepare w q = Ok (m, r, e, p)" and sel: "ep_selected_runtime p = Some i"
    and split: "planned_attempts r p i = pre @ d # post" and fails: "fails_with w m r 0 pre errors"
    and att: "ir_attempts ir = failures pre errors @ [succeeded d]" by metis
  from service_prepare_Ok [OF prep] obtain pb paths where
    res: "service_resolve w 1 q = Ok r" and p: "p = attach_probe_readiness pb (plan_execution m r e (bp_candidates pb))"
    and pb: "pb = sv_probe w 2 m (er_task r) paths" by metis
  from service_resolve_Ok [OF res] obtain m' rx where
    "resolve_request (sv_tables w m' (iq_task q)) m' q rx = Ok r" by metis
  note read = routing_override_read [OF this]
  have rb: "requested_backend r = Some b"
    using read [of "lit ''routing.backend''" "PString b"] assms(2,3)
    by (simp add: routing_list_def requested_backend_def string_parameter_def)
  have rf: "fallback_policy r = lit ''none''"
    using read [of "lit ''routing.fallback_policy''" "PString (lit ''none'')"] assms(4)
    by (simp add: routing_list_def fallback_policy_def string_parameter_def)
  have ra: "requested_accelerator r = Some x"
    if "ro_device (iq_routing q) = Some device" "concrete_routing_target device = Some x" for device x
    using read [of "lit ''routing.device''" "PString device"] that
    by (simp add: routing_list_def requested_accelerator_def string_parameter_def)
  have ok: "\<exists>c \<in> set (bp_candidates pb). rc_id c = cd_runtime_id x \<and> rc_available c \<and> eq_ignore_ascii_case (rc_backend c) b
      \<and> (\<forall>device y. ro_device (iq_routing q) = Some device \<longrightarrow> concrete_routing_target device = Some y \<longrightarrow>
         runtime_accelerator_matches (rc_accelerator c) y)" if "x \<in> set (planned_attempts r p i)" for x
  proof -
    from that have "x \<in> set (planned_attempts r (plan_execution m r e (bp_candidates pb)) i)"
      by (simp add: planned_attempts_def p)
    from planned_runnable [OF this] obtain c where c: "c \<in> set (bp_candidates pb)" "x = candidate_decision_of m r e c"
      "runnable m r e c" by blast
    then have "rc_available c" "routing_allows r c" by (simp_all add: runnable_def serves_model_def)
    with c(1,2) rb rf ra show ?thesis by (intro bexI [of _ c]) (auto simp: routing_allows_def)
  qed
  have "\<exists>x \<in> set (planned_attempts r p i). cd_runtime_id x = ra_runtime a" if "a \<in> set (ir_attempts ir)" for a
    using that unfolding att split by (auto simp: failures_def succeeded_def dest: set_zip_leftD)
  with ok pb show ?thesis by metis
qed

section \<open>A worked example\<close>

definition calm_estimate :: workload_estimate where
  "calm_estimate = demo_estimate\<lparr>we_accelerator_peak_bytes := Some 8, we_fit := Fits\<rparr>"

definition demo_runtime :: runtime_candidate where
  "demo_runtime = demo_candidate (lit ''slow'') Cuda True 50"

lemma demo_resolved_routing:
  "requested_backend demo_resolved = Some (lit ''diffusers'')"
  "requested_accelerator demo_resolved = None"
  "fallback_policy demo_resolved = lit ''none''"
  by (simp_all add: requested_backend_def requested_accelerator_def fallback_policy_def
    string_parameter_def er_parameter_def demo_resolved_def lit_def)

lemma demo_resolved_plan:
  "ep_selected_runtime (plan_execution demo_manifest demo_resolved calm_estimate [demo_runtime]) = Some (lit ''slow'')"
proof -
  have calm: "memory_allows demo_resolved calm_estimate c" for c
    by (simp add: memory_allows_def memory_pressure_def accelerator_memory_exceeded_def
      host_memory_exceeded_def reaches_def calm_estimate_def demo_estimate_def)
  have serves: "serves_model demo_manifest demo_resolved demo_runtime"
    by (simp add: serves_model_def supports_layout_def supports_format_def names_any_def demo_family
      demo_runtime_def demo_candidate_def demo_manifest_def demo_resolved_def)
  have routed: "routing_allows demo_resolved demo_runtime"
    by (simp add: routing_allows_def demo_resolved_routing demo_runtime_def demo_candidate_def)
  have params: "\<not> parameter_refused demo_resolved demo_runtime p" for p
    by (simp add: parameter_refused_def demo_runtime_def demo_candidate_def)
  have run: "runnable demo_manifest demo_resolved calm_estimate demo_runtime"
    using serves routed params calm by (simp add: runnable_def)
  then have "winner demo_manifest demo_resolved calm_estimate [demo_runtime] \<noteq> None"
    by (simp add: winner_None)
  then obtain d where d: "winner demo_manifest demo_resolved calm_estimate [demo_runtime] = Some d" by blast
  with winner_Some [OF d] show ?thesis by (auto simp: plan_fields demo_runtime_def demo_candidate_def)
qed

definition demo_probe :: backend_probe where
  "demo_probe = \<lparr>bp_available = True, bp_detail = [], bp_candidates = [demo_runtime], bp_parameter_support = [],
     bp_readiness = None\<rparr>"

definition demo_world ::
  "nat option \<Rightarrow> (rstr, backend_execution) res \<Rightarrow> service_world" where
  "demo_world host answer =
     \<lparr>sv_get = (\<lambda>_ _. Ok demo_manifest), sv_tables = (\<lambda>_ _. demo_tables), sv_probe = (\<lambda>_ _ _ _. demo_probe),
      sv_estimate = (\<lambda>_ _. Ok (Some calm_estimate)), sv_profile = (\<lambda>n. Err n),
      sv_resources = \<lparr>hr_host_memory_bytes = host, hr_accelerator_memory_bytes = None, hr_accelerator = None,
                      hr_memory_topology = None\<rparr>,
      sv_topology = (\<lambda>_. None), sv_output_setup = Ok (lit ''out-1''), sv_reset = (\<lambda>_. Ok ()),
      sv_execute = (\<lambda>_ _ _ _. answer), sv_file_size = (\<lambda>_. Ok 0), sv_write = (\<lambda>_. Ok ()),
      sv_over_budget = Ok False, sv_created_unix = 0\<rparr>"

definition demo_answer :: backend_execution where
  "demo_answer = \<lparr>be_runtime = lit ''slow'', be_outputs = [], be_warnings = []\<rparr>"

definition demo_host :: "nat option \<Rightarrow> host_resources" where
  "demo_host host = \<lparr>hr_host_memory_bytes = host, hr_accelerator_memory_bytes = None, hr_accelerator = None,
     hr_memory_topology = None\<rparr>"

lemma demo_world_fields [simp]:
  "sv_get (demo_world host answer) n i = Ok demo_manifest" "sv_tables (demo_world host answer) m t = demo_tables"
  "sv_probe (demo_world host answer) n m t ps = demo_probe"
  "sv_estimate (demo_world host answer) m r = Ok (Some calm_estimate)"
  "sv_resources (demo_world host answer) = demo_host host" "sv_topology (demo_world host answer) a = None"
  "sv_output_setup (demo_world host answer) = Ok (lit ''out-1'')" "sv_reset (demo_world host answer) n = Ok ()"
  "sv_execute (demo_world host answer) n m r i = answer" "sv_file_size (demo_world host answer) x = Ok 0"
  "sv_write (demo_world host answer) n = Ok ()" "sv_over_budget (demo_world host answer) = Ok False"
  by (simp_all add: demo_world_def demo_host_def)

lemma demo_no_outputs: "be_outputs demo_answer = []"
  by (simp add: demo_answer_def)

lemma demo_probe_defaults: "runtime_defaults demo_probe = []" "bp_candidates demo_probe = [demo_runtime]"
  by (simp_all add: runtime_defaults_def top_priority_def demo_probe_def demo_runtime_def demo_candidate_def)

lemma demo_service_resolve: "service_resolve (demo_world host answer) n demo_raw = Ok demo_resolved"
proof -
  have q: "iq_task demo_raw = ImageGeneration" "ro_profile (iq_routing demo_raw) = None" "hardware_defaults demo_raw = []"
    by (simp_all add: demo_raw_def inference_request_new_def hardware_defaults_def no_routing_overrides_def)
  have x: "\<lparr>rx_runtime_defaults = [], rx_hardware_profile = [], rx_user_profile = [],
      rx_parameter_support = bp_parameter_support demo_probe\<rparr> = demo_context"
    by (simp add: demo_context_def demo_probe_def)
  have schema: "rt_schema demo_tables = Ok demo_schema" by (simp add: demo_tables_def)
  show ?thesis
    by (simp add: service_resolve_def schema_of_def schema q load_profile_def demo_probe_defaults x demo_resolves)
qed

lemma demo_resources: "resources_for_request f (demo_host host) demo_resolved = demo_host host"
  by (simp add: resources_for_request_def demo_resolved_routing)

lemma demo_fit:
  "classify_workload_fit (Some a) (Some h) (demo_host None) = UnknownFit"
  "k \<le> h \<Longrightarrow> classify_workload_fit (Some a) (Some h) (demo_host (Some k)) = LikelyOom"
  by (simp_all add: classify_workload_fit_def reaches_def unified_shared_capacity_oom_def uses_accelerator_def ratio_of_def demo_host_def)

lemma demo_calm [simp]:
  "we_task calm_estimate = ImageGeneration" "we_accelerator_peak_bytes calm_estimate = Some 8"
  "we_host_peak_bytes calm_estimate = Some 2" "we_warnings calm_estimate = []" "we_recommendations calm_estimate = []"
  "er_task demo_resolved = ImageGeneration"
  by (simp_all add: calm_estimate_def demo_estimate_def demo_resolved_def)

lemma demo_completed: "complete_backend_fit calm_estimate (demo_host None) = calm_estimate"
  unfolding complete_backend_fit_def demo_calm demo_fit
  by (simp add: demo_host_def first_some_def calm_estimate_def demo_estimate_def)

lemma demo_quiet:
  "we_warnings (estimate_workload m r (demo_host None)) = []" "we_recommendations (estimate_workload m r (demo_host None)) = []"
  by (simp_all add: estimate_workload_def Let_def demo_fit unified_warnings_def limit_warning_def fit_warnings_def
      fit_recommendations_def) (simp_all add: demo_host_def)

lemma demo_service_estimate:
  "estimate_effective (demo_world None answer) demo_manifest demo_resolved = Ok calm_estimate"
  by (simp add: estimate_effective_def demo_resources demo_completed demo_quiet append_unique_def Let_def)

definition demo_plan_made :: execution_plan where
  "demo_plan_made = attach_probe_readiness demo_probe (plan_execution demo_manifest demo_resolved calm_estimate [demo_runtime])"

lemma demo_prepared:
  "service_prepare (demo_world None answer) demo_raw = Ok (demo_manifest, demo_resolved, calm_estimate, demo_plan_made)"
proof -
  have schema: "rt_schema demo_tables = Ok demo_schema" by (simp add: demo_tables_def)
  show ?thesis
    by (simp add: service_prepare_def demo_service_resolve demo_service_estimate schema_of_def schema
        demo_probe_defaults demo_plan_made_def)
qed

lemma demo_attempts:
  obtains ys d where "planned_attempts demo_resolved demo_plan_made (lit ''slow'') = d # ys" "cd_runtime_id d = lit ''slow''"
proof -
  have "planned_attempts demo_resolved demo_plan_made (lit ''slow'') = planned_attempts demo_resolved
      (plan_execution demo_manifest demo_resolved calm_estimate [demo_runtime]) (lit ''slow'')"
    by (simp add: planned_attempts_def demo_plan_made_def)
  with hd_planned [OF demo_resolved_plan] that show ?thesis by metis
qed

lemma demo_selected_runtime: "ep_selected_runtime demo_plan_made = Some (lit ''slow'')"
  using demo_resolved_plan by (simp add: demo_plan_made_def)

theorem execution_succeeds_witness:
  "\<exists>ir. service_execute (demo_world None (Ok demo_answer)) 0 [] demo_raw = Ok ir"
proof -
  from demo_attempts obtain ys d where "planned_attempts demo_resolved demo_plan_made (lit ''slow'') = d # ys" by metis
  then show ?thesis
    by (intro execution_succeeds [OF demo_prepared demo_selected_runtime, where result_id = "lit ''out-1''"
        and over = False and n = 0 and d = d and x = demo_answer]) simp_all
qed

text \<open>The same execution, step by step.\<close>

lemma demo_executes: "\<exists>ir. service_execute (demo_world None (Ok demo_answer)) 0 [] demo_raw = Ok ir"
proof -
  let ?w = "demo_world None (Ok demo_answer)"
  from demo_attempts obtain ys d where d: "planned_attempts demo_resolved demo_plan_made (lit ''slow'') = d # ys" by metis
  obtain u where u: "begin_attempt ?w (mf_id demo_manifest) 0 d
      \<lparr>at_plan = demo_plan_made, at_errors = [], at_attempts = [], at_routes = [], at_notes = []\<rparr> = Ok u"
    using begin_attempt_reset [of ?w 0 "mf_id demo_manifest"] by (metis demo_world_fields(8))
  show ?thesis
    by (simp add: service_execute_def demo_prepared demo_selected_runtime d u assemble_result_def demo_no_outputs
        store_result_def)
qed

theorem execution_follows_plan_witness:
  "\<exists>ir. service_execute (demo_world None (Ok demo_answer)) 0 [] demo_raw = Ok ir
    \<and> ir_runtime ir = lit ''slow'' \<and> ir_attempts ir \<noteq> [] \<and> ep_selected_runtime (ir_plan ir) \<noteq> None"
proof -
  from demo_executes obtain ir where ir: "service_execute (demo_world None (Ok demo_answer)) 0 [] demo_raw = Ok ir" by blast
  from execution_follows_plan [OF ir] obtain m r n d x pre errors where
    "sv_execute (demo_world None (Ok demo_answer)) n m (adjusted_for d r) (cd_runtime_id d) = Ok x"
    "ir_runtime ir = be_runtime x" "ir_attempts ir = failures pre errors @ [succeeded d]"
    "ep_selected_runtime (ir_plan ir) = Some (cd_runtime_id d)" by metis
  moreover from this(1) have "be_runtime x = lit ''slow''" by (auto simp: demo_answer_def)
  ultimately show ?thesis using ir by auto
qed

theorem named_backend_executes_witness:
  "\<exists>ir. service_execute (demo_world None (Ok demo_answer)) 0 [] demo_raw = Ok ir
    \<and> (\<forall>a \<in> set (ir_attempts ir). ra_runtime a = lit ''slow'')"
proof -
  from demo_executes obtain ir where ir: "service_execute (demo_world None (Ok demo_answer)) 0 [] demo_raw = Ok ir" by blast
  have o': "ro_backend (iq_routing demo_raw) = Some (lit ''diffusers'')"
    "ro_fallback_policy (iq_routing demo_raw) = Some (lit ''none'')" "lit ''diffusers'' \<noteq> lit ''auto''"
    by (simp_all add: demo_raw_def inference_request_new_def lit_def)
  have pr: "bp_candidates (sv_probe (demo_world None (Ok demo_answer)) n m t ps) = [demo_runtime]" for n m t ps
    by (simp add: demo_probe_defaults)
  from named_backend_executes [OF ir o'(1,3,2)] have "\<forall>a \<in> set (ir_attempts ir). rc_id demo_runtime = ra_runtime a"
    unfolding pr by auto
  then show ?thesis using ir by (auto simp: demo_runtime_def demo_candidate_def)
qed

lemma demo_gives_up:
  "\<exists>errors. service_execute (demo_world None (Err (lit ''oom''))) 0 [] demo_raw
     = Err (AllRuntimesFailed ImageGeneration errors (lit ''m''))"
proof -
  let ?w = "demo_world None (Err (lit ''oom''))"
  let ?s = "\<lparr>at_plan = demo_plan_made, at_errors = [], at_attempts = [], at_routes = [], at_notes = []\<rparr>"
  have "\<exists>t. run_attempts ?w m r n ds s = Ok (t, None)" for m r n ds s
  proof (induction ds arbitrary: n s)
    case (Cons d ds)
    obtain u where "begin_attempt ?w (mf_id m) n d s = Ok u"
      using begin_attempt_reset [of ?w n "mf_id m"] by (metis demo_world_fields(8))
    with Cons.IH show ?case by simp
  qed simp
  then obtain t where "run_attempts ?w demo_manifest demo_resolved 0 (planned_attempts demo_resolved demo_plan_made (lit ''slow'')) ?s
      = Ok (t, None)" by blast
  moreover have "mf_id demo_manifest = lit ''m''" by (simp add: demo_manifest_def)
  ultimately show ?thesis by (simp add: service_execute_def demo_prepared demo_selected_runtime)
qed

theorem execution_exhausts_plan_witness:
  "\<exists>errors m r p i texts. service_execute (demo_world None (Err (lit ''oom''))) 0 [] demo_raw
     = Err (AllRuntimesFailed ImageGeneration errors (lit ''m''))
   \<and> errors = zip (map cd_runtime_id (planned_attempts r p i)) texts
   \<and> fails_with (demo_world None (Err (lit ''oom''))) m r 0 (planned_attempts r p i) texts"
proof -
  from demo_gives_up obtain errors where e: "service_execute (demo_world None (Err (lit ''oom''))) 0 [] demo_raw
     = Err (AllRuntimesFailed ImageGeneration errors (lit ''m''))" by blast
  from execution_exhausts_plan [OF e] e show ?thesis by metis
qed

theorem backend_cannot_hide_limits_witness:
  "\<exists>e. estimate_effective (demo_world (Some 1) (Ok demo_answer)) demo_manifest demo_resolved = Ok e
    \<and> ep_selected_runtime (plan_execution demo_manifest demo_resolved e [demo_runtime]) = None"
proof -
  let ?w = "demo_world (Some 1) (Ok demo_answer)"
  obtain e where e: "estimate_effective ?w demo_manifest demo_resolved = Ok e" "we_host_peak_bytes e = Some 2"
    by (simp add: estimate_effective_def demo_resources Let_def)
  have hr: "demo_host (Some 1) = resources_for_request (sv_topology ?w) (sv_resources ?w) demo_resolved"
    by (simp add: demo_resources)
  have "reaches (we_host_peak_bytes e) (hr_host_memory_bytes (demo_host (Some 1)))"
    by (simp add: e(2) reaches_def demo_host_def)
  with backend_cannot_hide_limits [OF e(1) hr] e(1) show ?thesis by blast
qed

definition cpu_probe :: backend_probe where
  "cpu_probe = demo_probe\<lparr>bp_candidates := [demo_candidate (lit ''cpu'') Cpu True 10]\<rparr>"

lemma cpu_reasons:
  "candidate_reasons demo_manifest demo_request calm_estimate (demo_candidate (lit ''cpu'') Cpu True 10)
     = [AcceleratorRequested (lit ''CUDA'')]"
proof -
  have "fst (memory_verdict demo_request calm_estimate c) = []" for c
    by (simp add: memory_verdict_def memory_pressure_def accelerator_memory_exceeded_def host_memory_exceeded_def reaches_def
      calm_estimate_def demo_estimate_def)
  moreover have "\<not> parameter_refused demo_request (demo_candidate (lit ''cpu'') Cpu True 10) p" for p
    by (simp add: parameter_refused_def demo_candidate_def)
  moreover have "rc_available (demo_candidate i Cpu True n)" "er_task demo_request \<in> set (rc_supported_tasks (demo_candidate i Cpu True n))"
    "supports_layout demo_manifest (demo_candidate i Cpu True n)" "supports_format demo_manifest (demo_candidate i Cpu True n)"
    "mf_family demo_manifest = Some (lit ''Flux'')" "mf_architecture demo_manifest = None"
    "names_any (rc_supported_families (demo_candidate i Cpu True n)) (lit ''Flux'')"
    "rc_accelerator (demo_candidate i Cpu True n) = Cpu" for i n
    using demo_family by (simp_all add: demo_candidate_def demo_request_def demo_manifest_def supports_layout_def
      supports_format_def names_any_def)
  ultimately show ?thesis
    by (simp add: candidate_reasons_def static_reasons_def unless_def demo_parameters demo_accelerator)
qed

lemma cpu_constrained:
  "explicit_routing_constraints (reason_texts [AcceleratorRequested (lit ''CUDA'')])
     = Some \<lparr>xc_backend = False, xc_accelerator = True\<rparr>"
  by (simp add: explicit_routing_constraints_def reason_texts_def explicit_backend_text_def accelerator_text_def
    starts_with_def ends_with_def quoted_def lit_def)

theorem promised_fallback_runs_witness:
  "ep_selected_runtime (plan_execution demo_manifest demo_request calm_estimate (bp_candidates cpu_probe)) = None
   \<and> ep_selected_runtime (plan_execution demo_manifest (unrouted demo_request) calm_estimate (bp_candidates cpu_probe)) \<noteq> None"
proof -
  let ?c = "demo_candidate (lit ''cpu'') Cpu True 10"
  let ?p = "plan_execution demo_manifest demo_request calm_estimate (bp_candidates cpu_probe)"
  have bp: "bp_candidates cpu_probe = [?c]" "bp_readiness cpu_probe = None"
    by (simp_all add: cpu_probe_def demo_probe_def)
  have "\<not> runnable demo_manifest demo_request calm_estimate ?c"
    using cpu_reasons reasons_Nil by (metis list.distinct(1))
  then have sel: "ep_selected_runtime ?p = None" by (simp add: bp plan_fields winner_None)
  have c: "rc_id ?c = lit ''cpu''" "rc_available ?c" by (simp_all add: demo_candidate_def)
  have "ep_candidates ?p = [candidate_decision_of demo_manifest demo_request calm_estimate ?c]"
    by (simp add: bp plan_fields)
  then have "find_map (constrained_candidate cpu_probe) (ep_candidates ?p)
      = Some (lit ''cpu'', \<lparr>xc_backend = False, xc_accelerator = True\<rparr>)"
    by (simp add: constrained_candidate_def cpu_reasons cpu_constrained bp c)
  then obtain t where t: "ep_task_readiness (attach_probe_readiness cpu_probe ?p) = Some t"
    "tr_status t = FallbackAvailable" "tr_fallback_backend t = Some (lit ''cpu'')"
    using attach_marks [OF sel] mark_fallback_fields by metis
  have "distinct (map rc_id (bp_candidates cpu_probe))" "\<forall>u. bp_readiness cpu_probe = Some u \<longrightarrow> tr_status u \<noteq> FallbackAvailable"
    by (simp_all add: bp)
  from promised_fallback_runs [OF refl this(1) t this(2)] sel show ?thesis by blast
qed

definition tight_host :: host_resources where
  "tight_host = \<lparr>hr_host_memory_bytes = Some 1099511627776, hr_accelerator_memory_bytes = Some 1,
     hr_accelerator = Some (lit ''cuda''), hr_memory_topology = Some Discrete\<rparr>"

definition empty_batch :: effective_request where
  "empty_batch = demo_request\<lparr>er_parameters :=
     (lit ''image.num_images'', \<lparr>rp_value = PInteger 0, rp_source = RequestOverride\<rparr>) # er_parameters demo_request\<rparr>"

lemma empty_workload: "fst (medium_workload empty_batch w) = 0"
  by (simp add: medium_workload_def empty_batch_def demo_request_def image_workload_def Let_def reads er_parameter_def
      or_u64_def sat_mul_def lit_def as_u64_def)

lemma f64_one_parts: "f64_is_finite (f64_of_nat (Suc 0))" "\<not> f64_negative (f64_of_nat (Suc 0))" "\<not> f64_nan (f64_of_nat (Suc 0))"
  by (simp_all add: f64_eval)

lemma f64_of_zero: "f64_of_nat 0 = 0"
  by (simp add: f64_of_nat_def f64_ratio_def f64_round_def f64_make_def)

lemma f64_zero_mul:
  assumes "f64_is_finite x" "\<not> f64_negative x" "\<not> f64_nan x"
  shows "f64_mul 0 x = 0"
proof -
  have "f64_mantissa 0 = 0" by (simp add: f64_mantissa_def Let_def)
  then show ?thesis
    using assms by (simp add: f64_mul_def f64_scale_def f64_round_def f64_make_def f64_nan_def f64_is_finite_def F64_INFINITY_def Let_def)
qed

lemma empty_activation: "scaled_activation empty_batch 0 = 0"
proof -
  have "lowered empty_batch (lit ''routing.precision'') = lit ''auto''"
    "lowered empty_batch (lit ''routing.attention_backend'') = lit ''auto''"
    by (simp_all add: lowered_def string_parameter_def er_parameter_def empty_batch_def demo_request_def CPU_OFFLOAD_def
      to_ascii_lowercase_def ascii_lower_def is_ascii_upper_def lit_def)
  moreover have "precision_scale (lit ''auto'') = f64_of_nat (Suc 0)" "attention_scale (lit ''auto'') = f64_of_nat (Suc 0)"
    by (simp_all add: precision_scale_def attention_scale_def lit_def)
  moreover have "saturating_f64_to_u64 0 = 0"
    by (simp add: saturating_f64_to_u64_def f64_le_def f64_nan_def)
  ultimately show ?thesis
    by (simp add: scaled_activation_def f64_of_zero f64_zero_mul f64_one_parts)
qed

lemma empty_batch_reads:
  "requested_backend empty_batch = None" "requested_accelerator empty_batch = Some (lit ''CUDA'')"
  "fallback_policy empty_batch = lit ''backend''" "bool_parameter empty_batch CPU_OFFLOAD = Some True"
  "is_explicit empty_batch CPU_OFFLOAD" "er_task empty_batch = ImageGeneration" "er_parameter_policy empty_batch = Strict"
  "er_explicit_parameters empty_batch = [CPU_OFFLOAD, lit ''routing.device'']" "\<not> offload_selected empty_batch"
  by (simp_all add: requested_backend_def requested_accelerator_def fallback_policy_def
    string_parameter_def bool_parameter_def er_parameter_def is_explicit_def empty_batch_def
    demo_request_def CPU_OFFLOAD_def SEQUENTIAL_OFFLOAD_def COMPONENT_OFFLOAD_def lit_def concrete_routing_target_def trim_def trim_start_def
    trim_end_def is_whitespace_def eq_ignore_ascii_case_def to_ascii_lowercase_def ascii_lower_def
    is_ascii_upper_def Let_def offload_selected_def adjusted_true_def)

lemma tight_peaks:
  "model_weights demo_manifest = 0" "accelerator_peak_of demo_manifest empty_batch = 268435456"
  "host_peak_of demo_manifest empty_batch = 536870912"
proof -
  have "mf_files demo_manifest = []" "mf_components demo_manifest = []" by (simp_all add: demo_manifest_def)
  then show w: "model_weights demo_manifest = 0"
    by (simp add: model_weights_def weight_payload_def download_size_def sat_sum_def)
  have "runtime_overhead demo_manifest = 268435456"
    using w by (simp add: runtime_overhead_def \<open>mf_components demo_manifest = []\<close> sat_mul_def u64_max_def)
  then show "accelerator_peak_of demo_manifest empty_batch = 268435456"
    by (simp add: accelerator_peak_of_def w empty_workload empty_activation sat_add_def u64_max_def)
  show "host_peak_of demo_manifest empty_batch = 536870912"
    by (simp add: host_peak_of_def w empty_batch_reads)
qed

lemma tight_selected:
  "ep_selected_runtime (plan_execution demo_manifest empty_batch (estimate_workload demo_manifest empty_batch tight_host)
     [demo_candidate (lit ''slow'') Cuda True 50]) = Some (lit ''slow'')"
proof -
  let ?e = "estimate_workload demo_manifest empty_batch tight_host" and ?c = "demo_candidate (lit ''slow'') Cuda True 50"
  have l: "hr_host_memory_bytes tight_host = Some 1099511627776" "hr_accelerator_memory_bytes tight_host = Some 1"
    by (simp_all add: tight_host_def)
  have "offload_fits_host ?e"
    by (simp add: offload_fits_host_def projected_host_peak_with_offload_def tight_peaks l reaches_def sat_add_def u64_max_def)
  then have mem: "memory_allows empty_batch ?e ?c"
    by (simp add: memory_allows_def host_memory_exceeded_def tight_peaks l reaches_def some_offload_permitted_def
      offload_permitted_def empty_batch_reads demo_candidate_def)
  have "serves_model demo_manifest empty_batch ?c"
    by (simp add: serves_model_def supports_layout_def supports_format_def names_any_def demo_family
      demo_candidate_def demo_manifest_def empty_batch_reads)
  moreover have "routing_allows empty_batch ?c"
    by (simp add: routing_allows_def empty_batch_reads demo_accelerator demo_candidate_def)
  moreover have "\<not> parameter_refused empty_batch ?c p" for p
    by (simp add: parameter_refused_def demo_candidate_def)
  ultimately have "runnable demo_manifest empty_batch ?e ?c" using mem by (simp add: runnable_def)
  then have "winner demo_manifest empty_batch ?e [?c] \<noteq> None" by (simp add: winner_None)
  then obtain d where d: "winner demo_manifest empty_batch ?e [?c] = Some d" by blast
  with winner_Some [OF d] show ?thesis by (auto simp: plan_fields demo_candidate_def)
qed

theorem adjusted_request_fits_host_witness:
  "\<exists>r' k. we_host_peak_bytes (estimate_workload demo_manifest r' tight_host) = Some k \<and> k < 1099511627776
    \<and> r' = apply_plan_adjustments (plan_execution demo_manifest empty_batch
        (estimate_workload demo_manifest empty_batch tight_host) [demo_candidate (lit ''slow'') Cuda True 50]) empty_batch"
proof -
  have "accelerator_peak_of demo_manifest empty_batch < u64_max" by (simp add: tight_peaks u64_max_def)
  moreover have "hr_host_memory_bytes tight_host = Some 1099511627776" by (simp add: tight_host_def)
  moreover have "task_output_modality (er_task empty_batch) \<noteq> OutVideo" by (simp add: empty_batch_reads)
  ultimately show ?thesis
    using adjusted_request_fits_host [OF tight_selected empty_batch_reads(9)] unfolding Let_def by blast
qed

end
