(* ===== verification/Expert_Residency.thy ===== *)
theory Expert_Residency
  imports BTree_Map Float64 "HOL-Library.List_Lexorder" "HOL-Library.Product_Lexorder" "HOL-Library.Multiset"
begin

text \<open>
  The expert residency manager (\<open>src/src/runtime_control/experts.rs\<close>): which experts of
  which models lie in which tier, how hot they are, and the claims on movements that a
  backend executes. The clock readings and \<open>exp2\<close>, the platform's \<open>2.0.powf\<close>, are
  arguments; so are the digest and the base64 codec of list cursors. A \<open>Mutex\<close> section is
  one step; a \<open>debug_assert\<close> counts as a panic.
\<close>

section \<open>Data\<close>

definition MAX_MODELS :: nat where "MAX_MODELS = 4096"
definition MAX_EXPERTS_PER_MODEL :: nat where "MAX_EXPERTS_PER_MODEL = 65536"
definition MAX_TOTAL_EXPERTS :: nat where "MAX_TOTAL_EXPERTS = 262144"
definition MAX_ACCESS_BATCH :: nat where "MAX_ACCESS_BATCH = 4096"
definition MAX_PAGE_SIZE :: nat where "MAX_PAGE_SIZE = 1000"
definition MAX_ACTIONS :: nat where "MAX_ACTIONS = 4096"
definition MAX_HALF_LIFE_MILLIS :: nat where "MAX_HALF_LIFE_MILLIS = 30 * 24 * 60 * 60 * 1000"
definition MAX_COOLDOWN_MILLIS :: nat where "MAX_COOLDOWN_MILLIS = 24 * 60 * 60 * 1000"
definition MAX_ACCESS_WEIGHT :: f64 where "MAX_ACCESS_WEIGHT = f64_ratio 1000000 1"
definition MAX_HOTNESS :: f64 where "MAX_HOTNESS = f64_ratio 1000000000000 1"
definition CURSOR_DOMAIN :: "nat list" where "CURSOR_DOMAIN = lit ''werk-expert-cursor-v1'' @ [0]"
definition CURSOR_BYTES :: nat where "CURSOR_BYTES = 64"

datatype expert_tier = Vram | Ram | External

record expert_residency_config =
  xc_max_models :: nat
  xc_max_experts_per_model :: nat
  xc_max_total_experts :: nat
  xc_max_access_batch :: nat
  xc_default_page_size :: nat
  xc_max_page_size :: nat
  xc_max_actions :: nat
  xc_hotness_half_life_millis :: nat
  xc_promote_hotness :: f64
  xc_demote_hotness :: f64
  xc_transition_cooldown_millis :: nat

definition default_expert_config :: expert_residency_config where
  "default_expert_config =
     \<lparr>xc_max_models = 128, xc_max_experts_per_model = 4096, xc_max_total_experts = 65536,
      xc_max_access_batch = 256, xc_default_page_size = 100, xc_max_page_size = 100,
      xc_max_actions = 256, xc_hotness_half_life_millis = 60000,
      xc_promote_hotness = f64_ratio 2 1, xc_demote_hotness = f64_ratio 1 2,
      xc_transition_cooldown_millis = 5000\<rparr>"

datatype config_issue = LimitIssue rstr nat | PageSizeIssue | HalfLifeIssue | CooldownIssue | HotnessIssue | ByteSizeIssue

type_synonym expert_key = "rstr \<times> rstr"

datatype expert_error =
    InvalidExpertConfiguration config_issue
  | InvalidModelId
  | InvalidExpertId
  | InvalidAccessWeight
  | InvalidTierTransition expert_tier expert_tier
  | InvalidCursor
  | InvalidLimit rstr nat
  | UnknownModel rstr
  | UnknownExpert rstr rstr
  | ModelLimitReached nat
  | ModelExpertLimitReached rstr nat
  | TotalExpertLimitReached nat
  | ActionInFlight rstr rstr
  | StaleAction rstr rstr
  | PinnedExpert rstr rstr
  | DuplicateExpert rstr rstr
  | CursorCollision

text \<open>The code an error carries on the wire (the variants of \<open>ProtocolErrorCode\<close> used here).\<close>

datatype protocol_error_code = NotFoundCode | ResourceExhaustedCode | ConflictCode | InternalCode | InvalidRequestCode

fun expert_error_code :: "expert_error \<Rightarrow> protocol_error_code" where
  "expert_error_code (UnknownModel _) = NotFoundCode"
| "expert_error_code (UnknownExpert _ _) = NotFoundCode"
| "expert_error_code (ModelLimitReached _) = ResourceExhaustedCode"
| "expert_error_code (ModelExpertLimitReached _ _) = ResourceExhaustedCode"
| "expert_error_code (TotalExpertLimitReached _) = ResourceExhaustedCode"
| "expert_error_code (ActionInFlight _ _) = ConflictCode"
| "expert_error_code (StaleAction _ _) = ConflictCode"
| "expert_error_code (PinnedExpert _ _) = ConflictCode"
| "expert_error_code CursorCollision = InternalCode"
| "expert_error_code _ = InvalidRequestCode"

record expert_observation =
  xo_model_id :: rstr
  xo_expert_id :: rstr
  xo_tier :: expert_tier
  xo_bytes :: "nat option"

record expert_access =
  xa_expert_id :: rstr
  xa_weight :: f64

datatype expert_pressure_level = SoftPressure | HardPressure | EmergencyPressure

record expert_pressure_request =
  xp_source_tier :: expert_tier
  xp_level :: expert_pressure_level
  xp_relief_bytes :: nat
  xp_ram_headroom_bytes :: nat
  xp_max_actions :: nat

datatype expert_action =
    MoveExpert (xn_model_id: rstr) (xn_expert_id: rstr) (xn_from: expert_tier) (xn_to: expert_tier)
      (xn_bytes: "nat option") (xn_revision: nat)
  | EvictExpert (xn_model_id: rstr) (xn_expert_id: rstr) (xn_from: expert_tier)
      (xn_bytes: "nat option") (xn_revision: nat)

definition action_key :: "expert_action \<Rightarrow> expert_key" where
  "action_key a = (xn_model_id a, xn_expert_id a)"

record tracked_expert =
  te_tier :: expert_tier
  te_bytes :: "nat option"
  te_hotness :: f64
  te_hotness_updated_millis :: nat
  te_pinned :: bool
  te_last_used_monotonic_millis :: "nat option"
  te_last_used_unix_millis :: "nat option"
  te_last_transition_millis :: "nat option"
  te_revision :: nat

type_synonym model_experts = "(rstr, tracked_expert) btree"

record expert_state =
  xs_models :: "(rstr, model_experts) btree"
  xs_pending :: "expert_key set"
  xs_total_experts :: nat

definition no_experts :: expert_state where
  "no_experts = \<lparr>xs_models = [], xs_pending = {}, xs_total_experts = 0\<rparr>"

record expert_summary =
  sm_id :: rstr
  sm_model_id :: rstr
  sm_tier :: expert_tier
  sm_bytes :: "nat option"
  sm_hotness :: f64
  sm_pinned :: bool
  sm_last_used_unix_ms :: "nat option"

section \<open>Validation\<close>

definition validate_bound :: "rstr \<Rightarrow> nat \<Rightarrow> nat \<Rightarrow> (expert_error, unit) res" where
  "validate_bound label value maximum =
     (if value = 0 \<or> value > maximum then Err (InvalidExpertConfiguration (LimitIssue label maximum)) else Ok ())"

definition expert_config_validate :: "expert_residency_config \<Rightarrow> (expert_error, unit) res" where
  "expert_config_validate c =
     res_bind (validate_bound (lit ''model'') (xc_max_models c) MAX_MODELS) (\<lambda>_.
     res_bind (validate_bound (lit ''per-model expert'') (xc_max_experts_per_model c) MAX_EXPERTS_PER_MODEL) (\<lambda>_.
     res_bind (validate_bound (lit ''total expert'') (xc_max_total_experts c) MAX_TOTAL_EXPERTS) (\<lambda>_.
     res_bind (validate_bound (lit ''access batch'') (xc_max_access_batch c) MAX_ACCESS_BATCH) (\<lambda>_.
     res_bind (validate_bound (lit ''page'') (xc_max_page_size c) MAX_PAGE_SIZE) (\<lambda>_.
     res_bind (validate_bound (lit ''action'') (xc_max_actions c) MAX_ACTIONS) (\<lambda>_.
       if xc_default_page_size c = 0 \<or> xc_default_page_size c > xc_max_page_size c
       then Err (InvalidExpertConfiguration PageSizeIssue)
       else if xc_hotness_half_life_millis c = 0 \<or> xc_hotness_half_life_millis c > MAX_HALF_LIFE_MILLIS
       then Err (InvalidExpertConfiguration HalfLifeIssue)
       else if xc_transition_cooldown_millis c > MAX_COOLDOWN_MILLIS
       then Err (InvalidExpertConfiguration CooldownIssue)
       else if \<not> f64_is_finite (xc_demote_hotness c) \<or> \<not> f64_is_finite (xc_promote_hotness c)
         \<or> f64_lt (xc_demote_hotness c) 0 \<or> f64_le (xc_promote_hotness c) (xc_demote_hotness c)
       then Err (InvalidExpertConfiguration HotnessIssue)
       else Ok ()))))))"

definition expert_manager_new :: "expert_residency_config \<Rightarrow> (expert_error, expert_state) res" where
  "expert_manager_new c = res_bind (expert_config_validate c) (\<lambda>_. Ok no_experts)"

definition valid_opaque_id :: "rstr \<Rightarrow> bool" where
  "valid_opaque_id s \<longleftrightarrow> 1 \<le> str_len s \<and> str_len s \<le> 128
     \<and> list_all (\<lambda>c. is_ascii_alnum c \<or> c \<in> {95, 45, 46}) s \<and> \<not> contains_str (lit ''..'') s"

definition validate_model_id :: "rstr \<Rightarrow> (expert_error, unit) res" where
  "validate_model_id s =
     (if trim s = [] \<or> str_len s > 256 \<or> list_ex is_control s then Err InvalidModelId else Ok ())"

definition validate_expert_id :: "rstr \<Rightarrow> (expert_error, unit) res" where
  "validate_expert_id s = (if valid_opaque_id s then Ok () else Err InvalidExpertId)"

definition validate_action_limit :: "nat \<Rightarrow> nat \<Rightarrow> (expert_error, unit) res" where
  "validate_action_limit limit maximum =
     (if limit = 0 \<or> limit > maximum then Err (InvalidLimit (lit ''action'') maximum) else Ok ())"

fun check_unique_ids :: "rstr \<Rightarrow> rstr list \<Rightarrow> rstr set \<Rightarrow> (expert_error, unit) res" where
  "check_unique_ids model [] seen = Ok ()"
| "check_unique_ids model (i # ids) seen =
     res_bind (validate_expert_id i) (\<lambda>_.
       if i \<in> seen then Err (DuplicateExpert model i) else check_unique_ids model ids (insert i seen))"

definition validate_id_batch :: "rstr \<Rightarrow> rstr list \<Rightarrow> nat \<Rightarrow> (expert_error, unit) res" where
  "validate_id_batch model ids maximum =
     res_bind (validate_action_limit (length ids) maximum) (\<lambda>_. check_unique_ids model ids {})"

definition opposite_memory_tier :: "expert_tier \<Rightarrow> (expert_error, expert_tier) res" where
  "opposite_memory_tier target =
     (case target of Vram \<Rightarrow> Ok Ram | Ram \<Rightarrow> Ok Vram | External \<Rightarrow> Err (InvalidTierTransition External External))"

definition validate_memory_transition :: "expert_tier \<Rightarrow> expert_tier \<Rightarrow> (expert_error, unit) res" where
  "validate_memory_transition from_tier to_tier =
     (if (from_tier, to_tier) \<in> {(Ram, Vram), (Vram, Ram)} then Ok ()
      else Err (InvalidTierTransition from_tier to_tier))"

section \<open>Hotness and cooldown\<close>

definition decayed_hotness :: "(f64 \<Rightarrow> f64) \<Rightarrow> tracked_expert \<Rightarrow> nat \<Rightarrow> nat \<Rightarrow> f64" where
  "decayed_hotness exp2 e now half_life =
     (let elapsed = now - te_hotness_updated_millis e
      in if elapsed = 0 \<or> f64_eq (te_hotness e) 0 then te_hotness e
         else (let exponent = f64_neg (f64_div (f64_of_nat elapsed) (f64_of_nat half_life));
                   value = f64_mul (te_hotness e) (exp2 exponent)
               in if f64_is_finite value then f64_clamp value 0 MAX_HOTNESS else 0))"

definition in_cooldown :: "tracked_expert \<Rightarrow> nat \<Rightarrow> nat \<Rightarrow> bool" where
  "in_cooldown e now cooldown \<longleftrightarrow> cooldown > 0 \<and>
     (case te_last_transition_millis e of None \<Rightarrow> False | Some since \<Rightarrow> now - since < cooldown)"

definition summary_from_entry ::
  "(f64 \<Rightarrow> f64) \<Rightarrow> rstr \<Rightarrow> rstr \<Rightarrow> tracked_expert \<Rightarrow> nat \<Rightarrow> nat \<Rightarrow> expert_summary" where
  "summary_from_entry exp2 model expert e now half_life =
     \<lparr>sm_id = expert, sm_model_id = model, sm_tier = te_tier e, sm_bytes = te_bytes e,
      sm_hotness = decayed_hotness exp2 e now half_life, sm_pinned = te_pinned e,
      sm_last_used_unix_ms = te_last_used_unix_millis e\<rparr>"

definition lookup_expert :: "expert_state \<Rightarrow> rstr \<Rightarrow> rstr \<Rightarrow> (expert_error, tracked_expert) res" where
  "lookup_expert st model expert =
     (case map_of (xs_models st) model of
        None \<Rightarrow> Err (UnknownModel model)
      | Some experts \<Rightarrow>
          (case map_of experts expert of None \<Rightarrow> Err (UnknownExpert model expert) | Some e \<Rightarrow> Ok e))"

definition put_expert :: "rstr \<Rightarrow> rstr \<Rightarrow> tracked_expert \<Rightarrow> expert_state \<Rightarrow> expert_state" where
  "put_expert model expert e st =
     st\<lparr>xs_models := bt_modify model (bt_modify expert (\<lambda>_. e)) (xs_models st)\<rparr>"

section \<open>Observations\<close>

definition refresh_expert :: "nat \<Rightarrow> expert_observation \<Rightarrow> tracked_expert \<Rightarrow> tracked_expert" where
  "refresh_expert now ob e =
     (let moved = te_tier e \<noteq> xo_tier ob;
          e1 = (if moved then e\<lparr>te_tier := xo_tier ob, te_last_transition_millis := Some now\<rparr> else e);
          resized = te_bytes e1 \<noteq> xo_bytes ob;
          e2 = (if resized then e1\<lparr>te_bytes := xo_bytes ob\<rparr> else e1)
      in if moved \<or> resized then e2\<lparr>te_revision := sat_add (te_revision e2) 1\<rparr> else e2)"

definition new_expert :: "nat \<Rightarrow> expert_observation \<Rightarrow> tracked_expert" where
  "new_expert now ob =
     \<lparr>te_tier = xo_tier ob, te_bytes = xo_bytes ob, te_hotness = 0, te_hotness_updated_millis = now,
      te_pinned = False, te_last_used_monotonic_millis = None, te_last_used_unix_millis = None,
      te_last_transition_millis = None, te_revision = 1\<rparr>"

definition track_expert ::
  "expert_residency_config \<Rightarrow> (f64 \<Rightarrow> f64) \<Rightarrow> nat \<Rightarrow> expert_observation \<Rightarrow> expert_state \<Rightarrow>
     (expert_error, expert_summary) res \<times> expert_state"
where
  "track_expert c exp2 now ob st =
     (if \<not> bt_contains (xo_model_id ob) (xs_models st) \<and> length (xs_models st) \<ge> xc_max_models c
      then (Err (ModelLimitReached (xc_max_models c)), st)
      else if xs_total_experts st \<ge> xc_max_total_experts c
      then (Err (TotalExpertLimitReached (xc_max_total_experts c)), st)
      else (let experts = (case map_of (xs_models st) (xo_model_id ob) of None \<Rightarrow> [] | Some xs \<Rightarrow> xs);
                st = st\<lparr>xs_models := bt_insert (xo_model_id ob) experts (xs_models st)\<rparr>
            in if length experts \<ge> xc_max_experts_per_model c
               then (Err (ModelExpertLimitReached (xo_model_id ob) (xc_max_experts_per_model c)), st)
               else (Ok (summary_from_entry exp2 (xo_model_id ob) (xo_expert_id ob) (new_expert now ob) now
                       (xc_hotness_half_life_millis c)),
                     st\<lparr>xs_models := bt_insert (xo_model_id ob)
                          (bt_insert (xo_expert_id ob) (new_expert now ob) experts) (xs_models st),
                        xs_total_experts := sat_add (xs_total_experts st) 1\<rparr>)))"

definition expert_observe ::
  "expert_residency_config \<Rightarrow> (f64 \<Rightarrow> f64) \<Rightarrow> nat \<Rightarrow> expert_observation \<Rightarrow> expert_state \<Rightarrow>
     (expert_error, expert_summary) res \<times> expert_state"
where
  "expert_observe c exp2 now ob st =
     (case res_bind (validate_model_id (xo_model_id ob)) (\<lambda>_. validate_expert_id (xo_expert_id ob)) of
        Err e \<Rightarrow> (Err e, st)
      | Panic \<Rightarrow> (Panic, st)
      | Ok _ \<Rightarrow>
          if xo_bytes ob = Some 0 then (Err (InvalidExpertConfiguration ByteSizeIssue), st)
          else if (xo_model_id ob, xo_expert_id ob) \<in> xs_pending st
          then (Err (ActionInFlight (xo_model_id ob) (xo_expert_id ob)), st)
          else (case Option.bind (map_of (xs_models st) (xo_model_id ob)) (\<lambda>xs. map_of xs (xo_expert_id ob)) of
              Some e \<Rightarrow>
                (let e = refresh_expert now ob e
                 in (Ok (summary_from_entry exp2 (xo_model_id ob) (xo_expert_id ob) e now
                           (xc_hotness_half_life_millis c)),
                     put_expert (xo_model_id ob) (xo_expert_id ob) e st))
            | None \<Rightarrow> track_expert c exp2 now ob st))"

section \<open>Accesses and pins\<close>

fun combine_accesses :: "expert_access list \<Rightarrow> (rstr, f64) btree \<Rightarrow> (expert_error, (rstr, f64) btree) res" where
  "combine_accesses [] combined = Ok combined"
| "combine_accesses (a # as) combined =
     res_bind (validate_expert_id (xa_expert_id a)) (\<lambda>_.
       if \<not> f64_is_finite (xa_weight a) \<or> f64_le (xa_weight a) 0 \<or> f64_lt MAX_ACCESS_WEIGHT (xa_weight a)
       then Err InvalidAccessWeight
       else (let value = f64_add (case map_of combined (xa_expert_id a) of None \<Rightarrow> 0 | Some v \<Rightarrow> v) (xa_weight a)
             in if \<not> f64_is_finite value \<or> f64_lt MAX_ACCESS_WEIGHT value then Err InvalidAccessWeight
                else combine_accesses as (bt_insert (xa_expert_id a) value combined)))"

text \<open>The check that \<open>record_accesses\<close> and \<open>set_pinned\<close> share: tracked and not in flight.\<close>

fun check_free :: "rstr \<Rightarrow> model_experts \<Rightarrow> expert_key set \<Rightarrow> rstr list \<Rightarrow> (expert_error, unit) res" where
  "check_free model experts pending [] = Ok ()"
| "check_free model experts pending (i # ids) =
     (if \<not> bt_contains i experts then Err (UnknownExpert model i)
      else if (model, i) \<in> pending then Err (ActionInFlight model i)
      else check_free model experts pending ids)"

definition heat_expert :: "expert_residency_config \<Rightarrow> (f64 \<Rightarrow> f64) \<Rightarrow> nat \<Rightarrow> nat \<Rightarrow> f64 \<Rightarrow> tracked_expert \<Rightarrow> tracked_expert" where
  "heat_expert c exp2 now unix weight e =
     e\<lparr>te_hotness := f64_min (f64_add (decayed_hotness exp2 e now (xc_hotness_half_life_millis c)) weight) MAX_HOTNESS,
       te_hotness_updated_millis := now, te_last_used_monotonic_millis := Some now,
       te_last_used_unix_millis := Some unix, te_revision := sat_add (te_revision e) 1\<rparr>"

text \<open>A loop over ids that updates each entry and collects its summary.\<close>

fun update_experts ::
  "(rstr \<Rightarrow> tracked_expert \<Rightarrow> tracked_expert) \<Rightarrow> (rstr \<Rightarrow> tracked_expert \<Rightarrow> expert_summary) \<Rightarrow> rstr list \<Rightarrow>
     model_experts \<Rightarrow> (expert_error, expert_summary list \<times> model_experts) res"
where
  "update_experts f g [] experts = Ok ([], experts)"
| "update_experts f g (i # ids) experts =
     (case map_of experts i of
        None \<Rightarrow> Panic
      | Some e \<Rightarrow>
          (let e' = f i e
           in res_bind (update_experts f g ids (bt_modify i (\<lambda>_. e') experts)) (\<lambda>(sms, xs).
                Ok (g i e' # sms, xs))))"

definition store_model ::
  "rstr \<Rightarrow> (expert_error, expert_summary list \<times> model_experts) res \<Rightarrow> expert_state \<Rightarrow>
     (expert_error, expert_summary list) res \<times> expert_state"
where
  "store_model model r st =
     (case r of
        Ok (sms, experts) \<Rightarrow> (Ok sms, st\<lparr>xs_models := bt_modify model (\<lambda>_. experts) (xs_models st)\<rparr>)
      | Err e \<Rightarrow> (Err e, st)
      | Panic \<Rightarrow> (Panic, st))"

definition check_accesses ::
  "expert_residency_config \<Rightarrow> rstr \<Rightarrow> expert_access list \<Rightarrow> (expert_error, (rstr, f64) btree) res" where
  "check_accesses c model accesses =
     res_bind (validate_model_id model) (\<lambda>_.
       if accesses = [] \<or> length accesses > xc_max_access_batch c
       then Err (InvalidLimit (lit ''access batch'') (xc_max_access_batch c))
       else combine_accesses accesses [])"

definition tracked_model ::
  "expert_state \<Rightarrow> rstr \<Rightarrow> rstr list \<Rightarrow> (expert_error, model_experts) res" where
  "tracked_model st model ids =
     (case map_of (xs_models st) model of
        None \<Rightarrow> Err (UnknownModel model)
      | Some experts \<Rightarrow> res_bind (check_free model experts (xs_pending st) ids) (\<lambda>_. Ok experts))"

definition record_accesses ::
  "expert_residency_config \<Rightarrow> (f64 \<Rightarrow> f64) \<Rightarrow> nat \<Rightarrow> nat \<Rightarrow> rstr \<Rightarrow> expert_access list \<Rightarrow> expert_state \<Rightarrow>
     (expert_error, expert_summary list) res \<times> expert_state"
where
  "record_accesses c exp2 now unix model accesses st =
     store_model model
       (res_bind (check_accesses c model accesses) (\<lambda>combined.
        res_bind (tracked_model st model (map fst combined)) (\<lambda>experts.
          update_experts (\<lambda>i. heat_expert c exp2 now unix (the (map_of combined i)))
            (\<lambda>i e. summary_from_entry exp2 model i e now (xc_hotness_half_life_millis c))
            (map fst combined) experts))) st"

definition record_access ::
  "expert_residency_config \<Rightarrow> (f64 \<Rightarrow> f64) \<Rightarrow> nat \<Rightarrow> nat \<Rightarrow> rstr \<Rightarrow> rstr \<Rightarrow> expert_state \<Rightarrow>
     (expert_error, expert_summary) res \<times> expert_state"
where
  "record_access c exp2 now unix model expert st =
     (case record_accesses c exp2 now unix model [\<lparr>xa_expert_id = expert, xa_weight = f64_ratio 1 1\<rparr>] st of
        (Ok sms, st') \<Rightarrow> (if sms = [] then Panic else Ok (last sms), st')
      | (Err e, st') \<Rightarrow> (Err e, st')
      | (Panic, st') \<Rightarrow> (Panic, st'))"

definition pin_expert :: "bool \<Rightarrow> bool \<Rightarrow> tracked_expert \<Rightarrow> tracked_expert" where
  "pin_expert pinned dry_run e =
     (if \<not> dry_run \<and> te_pinned e \<noteq> pinned
      then e\<lparr>te_pinned := pinned, te_revision := sat_add (te_revision e) 1\<rparr> else e)"

definition set_expert_pinned ::
  "expert_residency_config \<Rightarrow> (f64 \<Rightarrow> f64) \<Rightarrow> nat \<Rightarrow> rstr \<Rightarrow> rstr list \<Rightarrow> bool \<Rightarrow> bool \<Rightarrow> expert_state \<Rightarrow>
     (expert_error, expert_summary list) res \<times> expert_state"
where
  "set_expert_pinned c exp2 now model ids pinned dry_run st =
     store_model model
       (res_bind (validate_model_id model) (\<lambda>_.
        res_bind (validate_id_batch model ids (xc_max_actions c)) (\<lambda>_.
        res_bind (tracked_model st model ids) (\<lambda>experts.
          update_experts (\<lambda>_. pin_expert pinned dry_run)
            (\<lambda>i e. (let s = summary_from_entry exp2 model i e now (xc_hotness_half_life_millis c)
                    in if dry_run then s\<lparr>sm_pinned := pinned\<rparr> else s))
            ids experts)))) st"

section \<open>Plans\<close>

record scored_candidate =
  sc_model_id :: rstr
  sc_expert_id :: rstr
  sc_expert :: tracked_expert
  sc_hotness :: f64

definition sc_key :: "scored_candidate \<Rightarrow> expert_key" where
  "sc_key s = (sc_model_id s, sc_expert_id s)"

text \<open>\<open>None\<close> is below every \<open>Some\<close>.\<close>

definition option_rank :: "nat option \<Rightarrow> int" where
  "option_rank v = (case v of None \<Rightarrow> - 1 | Some n \<Rightarrow> int n)"

definition cold_candidate_key :: "scored_candidate \<Rightarrow> int \<times> int \<times> rstr \<times> rstr" where
  "cold_candidate_key s = (f64_total_key (sc_hotness s),
     option_rank (te_last_used_monotonic_millis (sc_expert s)), sc_model_id s, sc_expert_id s)"

definition hot_candidate_key :: "scored_candidate \<Rightarrow> int \<times> int \<times> rstr \<times> rstr" where
  "hot_candidate_key s = (- f64_total_key (sc_hotness s),
     - option_rank (te_last_used_monotonic_millis (sc_expert s)), sc_model_id s, sc_expert_id s)"

definition sort_movement_candidates ::
  "scored_candidate list \<Rightarrow> expert_tier \<Rightarrow> (expert_error, scored_candidate list) res" where
  "sort_movement_candidates cs target =
     (case target of
        Vram \<Rightarrow> Ok (sort_key hot_candidate_key cs)
      | Ram \<Rightarrow> Ok (sort_key cold_candidate_key cs)
      | External \<Rightarrow> Panic)"

text \<open>What the loop over a model's experts decides for one of them, in the order of its guards.\<close>

datatype verdict = OtherTier | Protected | InFlight | Cooling | Hysteresis | Eligible

definition movement_verdict ::
  "expert_residency_config \<Rightarrow> (f64 \<Rightarrow> f64) \<Rightarrow> nat \<Rightarrow> expert_key set \<Rightarrow> expert_tier \<Rightarrow> expert_tier \<Rightarrow> rstr \<Rightarrow>
     rstr \<Rightarrow> tracked_expert \<Rightarrow> verdict"
where
  "movement_verdict c exp2 now pending source target model expert e =
     (if te_tier e \<noteq> source then OtherTier
      else if target = Ram \<and> te_pinned e then Protected
      else if (model, expert) \<in> pending then InFlight
      else if in_cooldown e now (xc_transition_cooldown_millis c) then Cooling
      else (let hotness = decayed_hotness exp2 e now (xc_hotness_half_life_millis c)
            in if (case target of
                 Vram \<Rightarrow> f64_le (xc_promote_hotness c) hotness
               | _ \<Rightarrow> f64_le hotness (xc_demote_hotness c)) then Eligible else Hysteresis))"

definition scored ::
  "expert_residency_config \<Rightarrow> (f64 \<Rightarrow> f64) \<Rightarrow> nat \<Rightarrow> rstr \<Rightarrow> rstr \<Rightarrow> tracked_expert \<Rightarrow> scored_candidate" where
  "scored c exp2 now model expert e =
     \<lparr>sc_model_id = model, sc_expert_id = expert, sc_expert = e,
      sc_hotness = decayed_hotness exp2 e now (xc_hotness_half_life_millis c)\<rparr>"

record expert_candidate_plan =
  cp_target_tier :: expert_tier
  cp_actions :: "expert_action list"
  cp_deferred_by_cooldown :: nat
  cp_deferred_by_hysteresis :: nat
  cp_protected_by_pin :: nat
  cp_in_flight :: nat

definition move_of :: "expert_tier \<Rightarrow> expert_tier \<Rightarrow> scored_candidate \<Rightarrow> expert_action" where
  "move_of source target s = MoveExpert (sc_model_id s) (sc_expert_id s) source target
     (te_bytes (sc_expert s)) (te_revision (sc_expert s))"

definition evict_of :: "expert_tier \<Rightarrow> scored_candidate \<Rightarrow> expert_action" where
  "evict_of source s = EvictExpert (sc_model_id s) (sc_expert_id s) source
     (te_bytes (sc_expert s)) (te_revision (sc_expert s))"

definition count_verdict :: "('k \<Rightarrow> verdict) \<Rightarrow> 'k list \<Rightarrow> verdict \<Rightarrow> nat" where
  "count_verdict f xs v = length (filter (\<lambda>x. f x = v) xs)"

definition prefetch_candidates ::
  "expert_residency_config \<Rightarrow> (f64 \<Rightarrow> f64) \<Rightarrow> nat \<Rightarrow> rstr \<Rightarrow> expert_tier \<Rightarrow> nat \<Rightarrow> expert_state \<Rightarrow>
     (expert_error, expert_candidate_plan) res"
where
  "prefetch_candidates c exp2 now model target limit st =
     res_bind (validate_model_id model) (\<lambda>_.
     res_bind (validate_action_limit limit (xc_max_actions c)) (\<lambda>_.
     res_bind (opposite_memory_tier target) (\<lambda>source.
     (case map_of (xs_models st) model of
        None \<Rightarrow> Err (UnknownModel model)
      | Some experts \<Rightarrow>
          (let judge = (\<lambda>(i, e). movement_verdict c exp2 now (xs_pending st) source target model i e);
               candidates = map (\<lambda>(i, e). scored c exp2 now model i e) (filter (\<lambda>p. judge p = Eligible) experts)
           in res_bind (sort_movement_candidates candidates target) (\<lambda>sorted.
                Ok \<lparr>cp_target_tier = target, cp_actions = map (move_of source target) (take limit sorted),
                    cp_deferred_by_cooldown = count_verdict judge experts Cooling,
                    cp_deferred_by_hysteresis = count_verdict judge experts Hysteresis,
                    cp_protected_by_pin = count_verdict judge experts Protected,
                    cp_in_flight = count_verdict judge experts InFlight\<rparr>))))))"

text \<open>Every tracked expert with its key, models and experts in key order.\<close>

definition all_experts :: "expert_state \<Rightarrow> (expert_key \<times> tracked_expert) list" where
  "all_experts st = concat (map (\<lambda>(model, experts). map (\<lambda>(i, e). ((model, i), e)) experts) (xs_models st))"

definition pressure_verdict ::
  "expert_residency_config \<Rightarrow> (f64 \<Rightarrow> f64) \<Rightarrow> nat \<Rightarrow> expert_key set \<Rightarrow> expert_pressure_request \<Rightarrow>
     expert_key \<times> tracked_expert \<Rightarrow> verdict"
where
  "pressure_verdict c exp2 now pending rq p =
     (case p of (key, e) \<Rightarrow>
        if te_tier e \<noteq> xp_source_tier rq then OtherTier
        else if te_pinned e then Protected
        else if key \<in> pending then InFlight
        else (let hotness = decayed_hotness exp2 e now (xc_hotness_half_life_millis c)
              in if xp_level rq \<noteq> EmergencyPressure
                 then (if in_cooldown e now (xc_transition_cooldown_millis c) then Cooling
                       else if xp_level rq = SoftPressure \<or> f64_lt (xc_demote_hotness c) hotness then Hysteresis
                       else Eligible)
                 else Eligible))"

text \<open>The two passes: demotions that fit the headroom, then evictions.\<close>

record relief =
  rl_actions :: "expert_action list"
  rl_known :: nat
  rl_headroom :: nat
  rl_demoted :: "expert_key set"
  rl_unknown :: nat

definition relief_done :: "expert_pressure_request \<Rightarrow> relief \<Rightarrow> bool" where
  "relief_done rq r \<longleftrightarrow> length (rl_actions r) \<ge> xp_max_actions rq \<or> rl_known r \<ge> xp_relief_bytes rq"

fun demote_pass :: "expert_pressure_request \<Rightarrow> scored_candidate list \<Rightarrow> relief \<Rightarrow> relief" where
  "demote_pass rq [] r = r"
| "demote_pass rq (s # ss) r =
     (if relief_done rq r then r
      else (case te_bytes (sc_expert s) of
          None \<Rightarrow> demote_pass rq ss r
        | Some bytes \<Rightarrow>
            if bytes > rl_headroom r then demote_pass rq ss r
            else demote_pass rq ss
              (r\<lparr>rl_headroom := rl_headroom r - bytes, rl_known := sat_add (rl_known r) bytes,
                 rl_demoted := insert (sc_key s) (rl_demoted r),
                 rl_actions := rl_actions r @ [move_of Vram Ram s]\<rparr>)))"

fun evict_pass :: "expert_pressure_request \<Rightarrow> scored_candidate list \<Rightarrow> relief \<Rightarrow> relief" where
  "evict_pass rq [] r = r"
| "evict_pass rq (s # ss) r =
     (if relief_done rq r then r
      else if sc_key s \<in> rl_demoted r then evict_pass rq ss r
      else evict_pass rq ss
        (let r = (case te_bytes (sc_expert s) of
                    Some bytes \<Rightarrow> r\<lparr>rl_known := sat_add (rl_known r) bytes\<rparr>
                  | None \<Rightarrow> r\<lparr>rl_unknown := rl_unknown r + 1\<rparr>)
         in r\<lparr>rl_actions := rl_actions r @ [evict_of (xp_source_tier rq) s]\<rparr>))"

record expert_pressure_plan =
  pp_source_tier :: expert_tier
  pp_level :: expert_pressure_level
  pp_actions :: "expert_action list"
  pp_requested_relief_bytes :: nat
  pp_known_planned_relief_bytes :: nat
  pp_unresolved_relief_bytes :: nat
  pp_unknown_size_actions :: nat
  pp_deferred_by_cooldown :: nat
  pp_deferred_by_hysteresis :: nat
  pp_protected_by_pin :: nat
  pp_in_flight :: nat

definition pressure_candidates ::
  "expert_residency_config \<Rightarrow> (f64 \<Rightarrow> f64) \<Rightarrow> nat \<Rightarrow> expert_pressure_request \<Rightarrow> expert_state \<Rightarrow> scored_candidate list" where
  "pressure_candidates c exp2 now rq st =
     sort_key cold_candidate_key
       (map (\<lambda>((model, i), e). scored c exp2 now model i e)
         (filter (\<lambda>p. pressure_verdict c exp2 now (xs_pending st) rq p = Eligible) (all_experts st)))"

definition relief_of :: "expert_pressure_request \<Rightarrow> scored_candidate list \<Rightarrow> relief" where
  "relief_of rq cs =
     (let r = \<lparr>rl_actions = [], rl_known = 0, rl_headroom = xp_ram_headroom_bytes rq, rl_demoted = {}, rl_unknown = 0\<rparr>;
          r = (if xp_source_tier rq = Vram then demote_pass rq cs r else r)
      in evict_pass rq cs r)"

definition expert_plan_pressure ::
  "expert_residency_config \<Rightarrow> (f64 \<Rightarrow> f64) \<Rightarrow> nat \<Rightarrow> expert_pressure_request \<Rightarrow> expert_state \<Rightarrow>
     (expert_error, expert_pressure_plan) res"
where
  "expert_plan_pressure c exp2 now rq st =
     res_bind (validate_action_limit (xp_max_actions rq) (xc_max_actions c)) (\<lambda>_.
       if xp_source_tier rq = External then Err (InvalidTierTransition External External)
       else (let judge = pressure_verdict c exp2 now (xs_pending st) rq;
                 r = relief_of rq (pressure_candidates c exp2 now rq st)
             in Ok \<lparr>pp_source_tier = xp_source_tier rq, pp_level = xp_level rq, pp_actions = rl_actions r,
                    pp_requested_relief_bytes = xp_relief_bytes rq,
                    pp_known_planned_relief_bytes = rl_known r,
                    pp_unresolved_relief_bytes = xp_relief_bytes rq - rl_known r,
                    pp_unknown_size_actions = rl_unknown r,
                    pp_deferred_by_cooldown = count_verdict judge (all_experts st) Cooling,
                    pp_deferred_by_hysteresis = count_verdict judge (all_experts st) Hysteresis,
                    pp_protected_by_pin = count_verdict judge (all_experts st) Protected,
                    pp_in_flight = count_verdict judge (all_experts st) InFlight\<rparr>))"

definition explicit_action ::
  "rstr \<Rightarrow> rstr \<Rightarrow> expert_tier option \<Rightarrow> expert_state \<Rightarrow> (expert_error, expert_action) res" where
  "explicit_action model expert target st =
     res_bind (validate_model_id model) (\<lambda>_.
     res_bind (validate_expert_id expert) (\<lambda>_.
     res_bind (lookup_expert st model expert) (\<lambda>e.
       if (model, expert) \<in> xs_pending st then Err (ActionInFlight model expert)
       else (case target of
           Some to_tier \<Rightarrow> res_bind (validate_memory_transition (te_tier e) to_tier) (\<lambda>_.
             Ok (MoveExpert model expert (te_tier e) to_tier (te_bytes e) (te_revision e)))
         | None \<Rightarrow>
             if te_tier e = External then Err (InvalidTierTransition External External)
             else if te_pinned e then Err (PinnedExpert model expert)
             else Ok (EvictExpert model expert (te_tier e) (te_bytes e) (te_revision e))))))"

section \<open>Permits\<close>

text \<open>A permit is the batch of actions it claimed.\<close>

type_synonym expert_permit = "expert_action list"

definition matches_action :: "tracked_expert \<Rightarrow> expert_action \<Rightarrow> bool" where
  "matches_action e a \<longleftrightarrow> te_revision e = xn_revision a \<and> te_tier e = xn_from a \<and> te_bytes e = xn_bytes a"

definition validate_planned_action :: "expert_state \<Rightarrow> expert_action \<Rightarrow> (expert_error, unit) res" where
  "validate_planned_action st a =
     (if action_key a \<in> xs_pending st then Err (ActionInFlight (xn_model_id a) (xn_expert_id a))
      else res_bind (lookup_expert st (xn_model_id a) (xn_expert_id a)) (\<lambda>e.
        if \<not> matches_action e a then Err (StaleAction (xn_model_id a) (xn_expert_id a))
        else (case a of
            MoveExpert _ _ from_tier to_tier _ _ \<Rightarrow> validate_memory_transition from_tier to_tier
          | EvictExpert _ _ _ _ _ \<Rightarrow>
              if te_tier e = External then Err (InvalidTierTransition External External)
              else if te_pinned e then Err (PinnedExpert (xn_model_id a) (xn_expert_id a))
              else Ok ())))"

definition validate_committable_action :: "expert_state \<Rightarrow> expert_action \<Rightarrow> (expert_error, unit) res" where
  "validate_committable_action st a =
     (if action_key a \<notin> xs_pending st then Err (StaleAction (xn_model_id a) (xn_expert_id a))
      else res_bind (lookup_expert st (xn_model_id a) (xn_expert_id a)) (\<lambda>e.
        if \<not> matches_action e a then Err (StaleAction (xn_model_id a) (xn_expert_id a)) else Ok ()))"

fun claim_actions :: "expert_state \<Rightarrow> expert_action list \<Rightarrow> expert_key set \<Rightarrow> (expert_error, expert_key set) res" where
  "claim_actions st [] unique = Ok unique"
| "claim_actions st (a # as) unique =
     (if action_key a \<in> unique then Err (DuplicateExpert (xn_model_id a) (xn_expert_id a))
      else res_bind (validate_planned_action st a) (\<lambda>_. claim_actions st as (insert (action_key a) unique)))"

definition expert_begin_actions ::
  "expert_residency_config \<Rightarrow> expert_action list \<Rightarrow> expert_state \<Rightarrow> (expert_error, expert_permit) res \<times> expert_state" where
  "expert_begin_actions c actions st =
     (case res_bind (validate_action_limit (length actions) (xc_max_actions c)) (\<lambda>_. claim_actions st actions {}) of
        Ok unique \<Rightarrow> (Ok actions, st\<lparr>xs_pending := xs_pending st \<union> unique\<rparr>)
      | Err e \<Rightarrow> (Err e, st)
      | Panic \<Rightarrow> (Panic, st))"

definition expert_drop_permit :: "expert_permit \<Rightarrow> expert_state \<Rightarrow> expert_state" where
  "expert_drop_permit permit st = st\<lparr>xs_pending := xs_pending st - action_key ` set permit\<rparr>"

fun validate_committable :: "expert_state \<Rightarrow> expert_action list \<Rightarrow> (expert_error, unit) res" where
  "validate_committable st [] = Ok ()"
| "validate_committable st (a # as) =
     res_bind (validate_committable_action st a) (\<lambda>_. validate_committable st as)"

definition moved_expert :: "nat \<Rightarrow> expert_tier \<Rightarrow> tracked_expert \<Rightarrow> tracked_expert" where
  "moved_expert now to_tier e =
     e\<lparr>te_tier := to_tier, te_last_transition_millis := Some now, te_revision := sat_add (te_revision e) 1\<rparr>"

fun apply_expert_action ::
  "expert_residency_config \<Rightarrow> (f64 \<Rightarrow> f64) \<Rightarrow> nat \<Rightarrow> expert_action \<Rightarrow> expert_state \<Rightarrow>
     (expert_error, expert_summary list \<times> expert_key list) res \<times> expert_state"
where
  "apply_expert_action c exp2 now (MoveExpert model expert from_tier to_tier bytes revision) st =
     (case lookup_expert st model expert of
        Ok e \<Rightarrow>
          (let e = moved_expert now to_tier e
           in (Ok ([summary_from_entry exp2 model expert e now (xc_hotness_half_life_millis c)], []),
               put_expert model expert e st))
      | _ \<Rightarrow> (Panic, st))"
| "apply_expert_action c exp2 now (EvictExpert model expert from_tier bytes revision) st =
     (case lookup_expert st model expert of
        Ok e \<Rightarrow>
          (Ok ([], [(model, expert)]),
           st\<lparr>xs_models := bt_modify model (bt_remove expert) (xs_models st),
              xs_total_experts := xs_total_experts st - 1\<rparr>)
      | _ \<Rightarrow> (Panic, st))"

fun apply_expert_actions ::
  "expert_residency_config \<Rightarrow> (f64 \<Rightarrow> f64) \<Rightarrow> nat \<Rightarrow> expert_action list \<Rightarrow> expert_state \<Rightarrow>
     (expert_error, expert_summary list \<times> expert_key list) res \<times> expert_state"
where
  "apply_expert_actions c exp2 now [] st = (Ok ([], []), st)"
| "apply_expert_actions c exp2 now (a # as) st =
     (case apply_expert_action c exp2 now a st of
        (Ok (u, v), st1) \<Rightarrow>
          (case apply_expert_actions c exp2 now as st1 of
             (Ok (us, vs), st2) \<Rightarrow> (Ok (u @ us, v @ vs), st2)
           | r \<Rightarrow> r)
      | r \<Rightarrow> r)"

definition drop_empty_models :: "expert_state \<Rightarrow> expert_state" where
  "drop_empty_models st = st\<lparr>xs_models := filter (\<lambda>(_, experts). experts \<noteq> []) (xs_models st)\<rparr>"

definition expert_commit ::
  "expert_residency_config \<Rightarrow> (f64 \<Rightarrow> f64) \<Rightarrow> nat \<Rightarrow> expert_permit \<Rightarrow> expert_state \<Rightarrow>
     (expert_error, expert_summary list \<times> expert_key list) res \<times> expert_state"
where
  "expert_commit c exp2 now permit st =
     (case validate_committable st permit of
        Ok _ \<Rightarrow>
          (case apply_expert_actions c exp2 now permit st of
             (Ok outcome, st1) \<Rightarrow> (Ok outcome, expert_drop_permit permit (drop_empty_models st1))
           | (Err e, st1) \<Rightarrow> (Err e, expert_drop_permit permit st1)
           | (Panic, st1) \<Rightarrow> (Panic, expert_drop_permit permit st1))
      | Err e \<Rightarrow> (Err e, expert_drop_permit permit st)
      | Panic \<Rightarrow> (Panic, expert_drop_permit permit st))"

end
