(* ===== verification/Expert_Machine.thy ===== *)
theory Expert_Machine
  imports Expert_Residency
begin

text \<open>
  The expert residency manager as a state machine. A world is the state with the permits
  that callers hold. \<open>expert_inv\<close> says that the books are exact and within the configured
  limits, that every hotness is a finite number in range, and that what is in flight is
  exactly what the outstanding permits claim, each claim still true of its expert.
\<close>

section \<open>Lookups\<close>

definition find_expert :: "expert_state \<Rightarrow> expert_key \<Rightarrow> tracked_expert option" where
  "find_expert st k = Option.bind (map_of (xs_models st) (fst k)) (\<lambda>xs. map_of xs (snd k))"

lemma lookup_find: "lookup_expert st m i = Ok e \<longleftrightarrow> find_expert st (m, i) = Some e"
  by (auto simp: lookup_expert_def find_expert_def split: option.splits)

section \<open>Shape\<close>

definition expert_shape :: "expert_residency_config \<Rightarrow> expert_state \<Rightarrow> bool" where
  "expert_shape c st \<longleftrightarrow> bt_wf (xs_models st)
     \<and> (\<forall>xs \<in> snd ` set (xs_models st). bt_wf xs \<and> length xs \<le> xc_max_experts_per_model c)
     \<and> length (xs_models st) \<le> xc_max_models c
     \<and> xs_total_experts st = bt_sum length (xs_models st)
     \<and> xs_total_experts st \<le> xc_max_total_experts c"

lemma shape_model:
  "expert_shape c st \<Longrightarrow> map_of (xs_models st) m = Some xs \<Longrightarrow> bt_wf xs \<and> length xs \<le> xc_max_experts_per_model c"
  unfolding expert_shape_def by (metis map_of_SomeD image_eqI snd_conv)

text \<open>Replacing the experts of one model by no more than there were.\<close>

lemma shape_replace:
  assumes "expert_shape c st" "map_of (xs_models st) m = Some xs" "bt_wf xs'" "length xs' \<le> length xs"
  shows "expert_shape c (st\<lparr>xs_models := bt_modify m (\<lambda>_. xs') (xs_models st),
      xs_total_experts := xs_total_experts st - (length xs - length xs')\<rparr>)"
proof -
  have s: "bt_wf (xs_models st)" "xs_total_experts st = bt_sum length (xs_models st)"
    using assms(1) by (simp_all add: expert_shape_def)
  have "bt_sum length (bt_modify m (\<lambda>_. xs') (xs_models st)) + length xs = xs_total_experts st + length xs'"
    using bt_sum_modify [OF s(1) assms(2), of length "\<lambda>_. xs'"] s(2) by simp
  then have "bt_sum length (bt_modify m (\<lambda>_. xs') (xs_models st)) = xs_total_experts st - (length xs - length xs')"
    using assms(4) by linarith
  moreover have "bt_wf ys \<and> length ys \<le> xc_max_experts_per_model c"
    if "ys \<in> snd ` set (bt_modify m (\<lambda>_. xs') (xs_models st))" for ys
  proof (cases "ys = xs'")
    case True
    then show ?thesis using shape_model [OF assms(1,2)] assms(3,4) by simp
  next
    case False
    then have "ys \<in> snd ` set (xs_models st)" using that set_modify_values [of m "\<lambda>_. xs'" "xs_models st"] by blast
    then show ?thesis using assms(1) unfolding expert_shape_def by blast
  qed
  moreover have "xs_total_experts st - n \<le> xc_max_total_experts c" for n
    using assms(1) unfolding expert_shape_def by linarith
  ultimately show ?thesis using assms(1) unfolding expert_shape_def by simp
qed

lemma find_replace:
  "find_expert (st\<lparr>xs_models := bt_modify m (\<lambda>_. xs') (xs_models st), xs_total_experts := n\<rparr>) k =
     (if fst k = m \<and> map_of (xs_models st) m \<noteq> None then map_of xs' (snd k) else find_expert st k)"
  by (auto simp: find_expert_def split: option.splits)

lemma shape_pending [simp]: "expert_shape c (st\<lparr>xs_pending := p\<rparr>) = expert_shape c st"
  by (simp add: expert_shape_def)

lemma find_pending [simp]: "find_expert (st\<lparr>xs_pending := p\<rparr>) k = find_expert st k"
  by (simp add: find_expert_def)

lemma put_pending [simp]: "xs_pending (put_expert m i e st) = xs_pending st"
  by (simp add: put_expert_def)

text \<open>One expert replaced by another version of itself.\<close>

lemma put_expert_effect:
  assumes "expert_shape c st" "find_expert st (m, i) = Some e"
  shows "expert_shape c (put_expert m i e' st)"
    and "find_expert (put_expert m i e' st) k = (if k = (m, i) then Some e' else find_expert st k)"
    and "map fst (xs_models (put_expert m i e' st)) = map fst (xs_models st)"
    and "[] \<notin> snd ` set (xs_models st) \<Longrightarrow> [] \<notin> snd ` set (xs_models (put_expert m i e' st))"
proof -
  obtain xs where xs: "map_of (xs_models st) m = Some xs" "map_of xs i = Some e"
    using assms(2) by (auto simp: find_expert_def bind_eq_Some_conv)
  have wf: "bt_wf (xs_models st)" using assms(1) by (simp add: expert_shape_def)
  let ?xs = "bt_modify i (\<lambda>_. e') xs"
  have p: "put_expert m i e' st = st\<lparr>xs_models := bt_modify m (\<lambda>_. ?xs) (xs_models st)\<rparr>"
    using bt_modify_const [OF wf xs(1), of "bt_modify i (\<lambda>_. e')"] by (simp add: put_expert_def)
  show "expert_shape c (put_expert m i e' st)"
    using shape_replace [OF assms(1) xs(1), of ?xs] shape_model [OF assms(1) xs(1)] by (simp add: p)
  show "find_expert (put_expert m i e' st) k = (if k = (m, i) then Some e' else find_expert st k)"
    by (cases k) (auto simp: p find_expert_def xs)
  show "map fst (xs_models (put_expert m i e' st)) = map fst (xs_models st)" by (simp add: p)
  have "?xs \<noteq> []" using xs(2) by (auto simp: bt_modify_def)
  then show "[] \<notin> snd ` set (xs_models (put_expert m i e' st))" if "[] \<notin> snd ` set (xs_models st)"
    using that set_modify_values [of m "\<lambda>_. ?xs" "xs_models st"] by (auto simp: p)
qed

section \<open>Hotness in range\<close>

definition expert_ok :: "tracked_expert \<Rightarrow> bool" where
  "expert_ok e \<longleftrightarrow> te_bytes e \<noteq> Some 0 \<and> f64_is_finite (te_hotness e) \<and> 0 \<le> f64_key (te_hotness e)
     \<and> f64_le (te_hotness e) MAX_HOTNESS"

lemma f64_zero: "f64_key 0 = 0" "f64_is_finite 0" "\<not> f64_nan 0"
  by (simp_all add: f64_key_def f64_is_finite_def f64_nan_def F64_INFINITY_def)

lemma MAX_HOTNESS_range: "f64_is_finite MAX_HOTNESS" "0 \<le> f64_key MAX_HOTNESS" "f64_le 0 MAX_HOTNESS"
  "\<not> f64_nan MAX_HOTNESS"
proof -
  show f: "f64_is_finite MAX_HOTNESS" "0 \<le> f64_key MAX_HOTNESS"
    by (simp_all add: MAX_HOTNESS_def f64_eval)
  then show "f64_le 0 MAX_HOTNESS" "\<not> f64_nan MAX_HOTNESS"
    by (simp_all add: f64_le_def f64_zero f64_finite_nan)
qed

lemma decayed_range:
  assumes "expert_ok e"
  shows "f64_is_finite (decayed_hotness x e now hl) \<and> 0 \<le> f64_key (decayed_hotness x e now hl)
    \<and> f64_le (decayed_hotness x e now hl) MAX_HOTNESS"
proof -
  have "f64_is_finite (f64_clamp v 0 MAX_HOTNESS) \<and> 0 \<le> f64_key (f64_clamp v 0 MAX_HOTNESS)
      \<and> f64_le (f64_clamp v 0 MAX_HOTNESS) MAX_HOTNESS" if "f64_is_finite v" for v
    using that MAX_HOTNESS_range f64_zero
    by (auto simp: f64_clamp_def f64_lt_def f64_le_def f64_finite_nan)
  then show ?thesis using assms MAX_HOTNESS_range f64_zero
    by (auto simp: decayed_hotness_def expert_ok_def Let_def)
qed

definition positive_weight :: "f64 \<Rightarrow> bool" where
  "positive_weight w \<longleftrightarrow> f64_is_finite w \<and> 0 \<le> f64_key w"

lemma heat_ok: "expert_ok e \<Longrightarrow> positive_weight w \<Longrightarrow> expert_ok (heat_expert c x now unix w e)"
  using decayed_range [of e x now "xc_hotness_half_life_millis c"] MAX_HOTNESS_range(1,2)
    f64_add_nonneg [of "decayed_hotness x e now (xc_hotness_half_life_millis c)" w]
    f64_min_range [of "f64_add (decayed_hotness x e now (xc_hotness_half_life_millis c)) w" MAX_HOTNESS]
  by (simp add: heat_expert_def expert_ok_def positive_weight_def)

lemma combine_ok:
  "combine_accesses as combined = Ok out \<Longrightarrow> bt_wf combined \<Longrightarrow> \<forall>w \<in> snd ` set combined. positive_weight w \<Longrightarrow>
     bt_wf out \<and> (\<forall>w \<in> snd ` set out. positive_weight w)"
proof (induction as arbitrary: combined)
  case (Cons a as)
  let ?old = "case map_of combined (xa_expert_id a) of None \<Rightarrow> 0 | Some v \<Rightarrow> v"
  let ?v = "f64_add ?old (xa_weight a)"
  from Cons.prems(1) have w: "f64_is_finite (xa_weight a)" "\<not> f64_le (xa_weight a) 0" "f64_is_finite ?v"
    and r: "combine_accesses as (bt_insert (xa_expert_id a) ?v combined) = Ok out"
    by (auto simp: res_bind_Ok Let_def split: if_splits)
  have old: "positive_weight ?old"
    using Cons.prems(3) f64_zero by (force simp: positive_weight_def split: option.split dest: map_of_SomeD)
  have k: "0 \<le> f64_key (xa_weight a)" using w(1,2) by (simp add: f64_le_def f64_zero f64_finite_nan)
  then have v: "positive_weight ?v"
    using old w f64_add_nonneg [of ?old "xa_weight a"] by (simp add: positive_weight_def)
  have "\<forall>w \<in> snd ` set (bt_insert (xa_expert_id a) ?v combined). positive_weight w"
  proof
    fix w
    assume "w \<in> snd ` set (bt_insert (xa_expert_id a) ?v combined)"
    then have "w \<in> insert ?v (snd ` set combined)" by (rule subsetD [OF set_insert_values])
    then show "positive_weight w"
      by (rule insertE) (simp only: v, rule bspec [OF Cons.prems(3)])
  qed
  with Cons.IH [OF r bt_wf_insert [OF Cons.prems(2)]] show ?case by blast
qed auto

section \<open>The invariant\<close>

definition claimed :: "expert_permit list \<Rightarrow> expert_key list" where
  "claimed ps = map action_key (concat ps)"

text \<open>A claim is still true: the expert is as the action saw it, and the action is allowed.\<close>

definition claim_holds :: "expert_state \<Rightarrow> expert_action \<Rightarrow> bool" where
  "claim_holds st a \<longleftrightarrow> (\<exists>e. find_expert st (action_key a) = Some e \<and> matches_action e a
     \<and> (case a of
          MoveExpert _ _ from_tier to_tier _ _ \<Rightarrow> (from_tier, to_tier) \<in> {(Ram, Vram), (Vram, Ram)}
        | EvictExpert _ _ _ _ _ \<Rightarrow> te_tier e \<noteq> External \<and> \<not> te_pinned e))"

definition expert_inv :: "expert_residency_config \<Rightarrow> expert_state \<Rightarrow> expert_permit list \<Rightarrow> bool" where
  "expert_inv c st ps \<longleftrightarrow> expert_shape c st \<and> [] \<notin> snd ` set (xs_models st)
     \<and> (\<forall>k e. find_expert st k = Some e \<longrightarrow> expert_ok e)
     \<and> distinct (claimed ps) \<and> xs_pending st = set (claimed ps) \<and> [] \<notin> set ps
     \<and> (\<forall>a \<in> set (concat ps). claim_holds st a)"

lemma claim_holds_same:
  "find_expert st' (action_key a) = find_expert st (action_key a) \<Longrightarrow> claim_holds st' a = claim_holds st a"
  by (simp add: claim_holds_def)

text \<open>A change that leaves what is in flight alone keeps the invariant.\<close>

lemma inv_update:
  assumes "expert_inv c st ps" "expert_shape c st'" "[] \<notin> snd ` set (xs_models st')"
    and "\<And>k e. find_expert st' k = Some e \<Longrightarrow> expert_ok e" "xs_pending st' = xs_pending st"
    and "\<And>k. k \<in> xs_pending st \<Longrightarrow> find_expert st' k = find_expert st k"
  shows "expert_inv c st' ps"
proof -
  have "claim_holds st' a" if "a \<in> set (concat ps)" for a
  proof -
    have "action_key a \<in> xs_pending st" using assms(1) that by (auto simp: expert_inv_def claimed_def)
    from claim_holds_same [OF assms(6) [OF this]] show ?thesis
      using assms(1) that unfolding expert_inv_def by blast
  qed
  with assms show ?thesis unfolding expert_inv_def by metis
qed

section \<open>Observations\<close>

lemma refresh_ok: "expert_ok e \<Longrightarrow> xo_bytes ob \<noteq> Some 0 \<Longrightarrow> expert_ok (refresh_expert now ob e)"
  by (auto simp: refresh_expert_def expert_ok_def Let_def)

lemma new_ok: "xo_bytes ob \<noteq> Some 0 \<Longrightarrow> expert_ok (new_expert now ob)"
  using MAX_HOTNESS_range by (simp add: new_expert_def expert_ok_def f64_zero)

lemma config_facts:
  assumes "expert_config_validate c = Ok ()"
  shows "0 < xc_max_experts_per_model c" "xc_max_total_experts c < u64_max"
    "f64_is_finite (xc_demote_hotness c)" "f64_lt (xc_demote_hotness c) (xc_promote_hotness c)"
proof -
  have a: "0 < xc_max_experts_per_model c" "xc_max_total_experts c \<le> MAX_TOTAL_EXPERTS"
    "f64_is_finite (xc_demote_hotness c)" "f64_is_finite (xc_promote_hotness c)"
    "\<not> f64_le (xc_promote_hotness c) (xc_demote_hotness c)"
    using assms by (simp_all add: expert_config_validate_def res_bind_Ok validate_bound_def split: if_splits)
  then show "0 < xc_max_experts_per_model c" "f64_is_finite (xc_demote_hotness c)" by simp_all
  show "xc_max_total_experts c < u64_max" using a(2) by (simp add: MAX_TOTAL_EXPERTS_def u64_max_def)
  show "f64_lt (xc_demote_hotness c) (xc_promote_hotness c)"
    using a(3-5) by (auto simp: f64_lt_def f64_le_def f64_finite_nan)
qed

lemma track_effect:
  assumes "expert_shape c st" "expert_config_validate c = Ok ()"
    and "find_expert st (xo_model_id ob, xo_expert_id ob) = None" "[] \<notin> snd ` set (xs_models st)"
  obtains (refused) e where "track_expert c x now ob st = (Err e, st)"
  | (tracked) sm st' where "track_expert c x now ob st = (Ok sm, st')" "expert_shape c st'"
      "[] \<notin> snd ` set (xs_models st')" "xs_pending st' = xs_pending st"
      "\<And>k. find_expert st' k = (if k = (xo_model_id ob, xo_expert_id ob) then Some (new_expert now ob) else find_expert st k)"
proof -
  let ?m = "xo_model_id ob" and ?i = "xo_expert_id ob"
  define xs where "xs = (case map_of (xs_models st) ?m of None \<Rightarrow> [] | Some xs \<Rightarrow> xs)"
  let ?st1 = "st\<lparr>xs_models := bt_insert ?m xs (xs_models st)\<rparr>"
  let ?st2 = "st\<lparr>xs_models := bt_insert ?m (bt_insert ?i (new_expert now ob) xs) (bt_insert ?m xs (xs_models st)),
      xs_total_experts := sat_add (xs_total_experts st) 1\<rparr>"
  have wf: "bt_wf (xs_models st)" and sum: "xs_total_experts st = bt_sum length (xs_models st)"
    using assms(1) by (simp_all add: expert_shape_def)
  have xs: "bt_wf xs" "\<not> bt_contains ?i xs"
    using shape_model [OF assms(1)] assms(3)
    by (auto simp: xs_def find_expert_def bt_contains_def split: option.splits)
  have same: "?st1 = st" if "map_of (xs_models st) ?m \<noteq> None"
  proof -
    have "bt_insert ?m xs (xs_models st) = xs_models st" using that wf by (auto simp: xs_def bt_insert_same)
    then show ?thesis by simp
  qed
  show ?thesis
  proof (cases "(\<not> bt_contains ?m (xs_models st) \<and> length (xs_models st) \<ge> xc_max_models c)
      \<or> xs_total_experts st \<ge> xc_max_total_experts c \<or> length xs \<ge> xc_max_experts_per_model c")
    case True
    have "map_of (xs_models st) ?m \<noteq> None" if "length xs \<ge> xc_max_experts_per_model c"
      using that config_facts(1) [OF assms(2)] by (auto simp: xs_def split: option.splits)
    then have "\<exists>e. track_expert c x now ob st = (Err e, st)"
      using True same by (auto simp: track_expert_def xs_def [symmetric] Let_def)
    then show ?thesis using refused by blast
  next
    case False
    let ?ys = "bt_insert ?i (new_expert now ob) xs"
    let ?ms = "bt_insert ?m ?ys (bt_insert ?m xs (xs_models st))"
    have ys: "length ?ys = Suc (length xs)" "bt_wf ?ys" "?ys \<noteq> []"
      using xs by (simp_all add: length_insert bt_wf_insert)
    have ms: "?ms = bt_insert ?m ?ys (xs_models st)" by (rule bt_insert_twice)
    have sum': "bt_sum length ?ms = Suc (bt_sum length (xs_models st))"
    proof (cases "map_of (xs_models st) ?m")
      case None
      then have "xs = []" "\<not> bt_contains ?m (xs_models st)" by (simp_all add: xs_def bt_contains_def)
      then show ?thesis using ys(1) by (simp add: bt_insert_twice bt_sum_insert)
    next
      case (Some v)
      have v: "v = xs" using Some by (simp add: xs_def)
      show ?thesis using bt_sum_modify [OF wf Some, of length "\<lambda>_. ?ys"] bt_insert_modify [OF wf Some] ys(1)
        unfolding ms by (simp add: v)
    qed
    have "length ?ms = (if bt_contains ?m (xs_models st) then length (xs_models st) else Suc (length (xs_models st)))"
      using length_insert [OF wf] by (simp add: ms)
    then have len: "length ?ms \<le> xc_max_models c"
      using False assms(1) by (auto simp: expert_shape_def)
    have vals: "bt_wf zs \<and> length zs \<le> xc_max_experts_per_model c \<and> zs \<noteq> []" if "zs \<in> snd ` set ?ms" for zs
    proof (cases "zs = ?ys")
      case True
      then show ?thesis using ys False by simp
    next
      case z: False
      have "zs \<in> insert ?ys (snd ` set (xs_models st))"
        using that unfolding ms by (rule subsetD [OF set_insert_values])
      with z have "zs \<in> snd ` set (xs_models st)" by blast
      then show ?thesis using assms(1,4) unfolding expert_shape_def by blast
    qed
    have tot: "sat_add (xs_total_experts st) 1 = Suc (xs_total_experts st)"
      using False config_facts(2) [OF assms(2)] by (simp add: sat_add_exact)
    have wf2: "bt_wf ?ms" using wf by (simp add: bt_wf_insert)
    show ?thesis
    proof (rule tracked [of "summary_from_entry x ?m ?i (new_expert now ob) now (xc_hotness_half_life_millis c)" ?st2])
      show "track_expert c x now ob st =
          (Ok (summary_from_entry x ?m ?i (new_expert now ob) now (xc_hotness_half_life_millis c)), ?st2)"
        using False by (auto simp: track_expert_def xs_def [symmetric] Let_def)
      have v1: "\<forall>zs \<in> snd ` set ?ms. bt_wf zs \<and> length zs \<le> xc_max_experts_per_model c" using vals by blast
      have "sat_add (xs_total_experts st) 1 = bt_sum length ?ms" using tot sum sum' by simp
      moreover have "sat_add (xs_total_experts st) 1 \<le> xc_max_total_experts c" using tot False by simp
      ultimately show "expert_shape c ?st2" using wf2 v1 len unfolding expert_shape_def by simp
      show "[] \<notin> snd ` set (xs_models ?st2)" using vals by auto
      show "find_expert ?st2 k = (if k = (?m, ?i) then Some (new_expert now ob) else find_expert st k)" for k
        by (cases k) (auto simp: find_expert_def xs_def split: option.splits)
    qed simp
  qed
qed

lemma observe_inv:
  assumes "expert_inv c st ps" "expert_config_validate c = Ok ()"
  shows "expert_inv c (snd (expert_observe c x now ob st)) ps"
proof (cases "res_bind (validate_model_id (xo_model_id ob)) (\<lambda>_. validate_expert_id (xo_expert_id ob)) = Ok ()
    \<and> xo_bytes ob \<noteq> Some 0 \<and> (xo_model_id ob, xo_expert_id ob) \<notin> xs_pending st")
  case False
  then show ?thesis using assms(1) by (auto simp: expert_observe_def split: res.splits)
next
  case True
  let ?k = "(xo_model_id ob, xo_expert_id ob)"
  have i: "expert_shape c st" "[] \<notin> snd ` set (xs_models st)" using assms(1) by (simp_all add: expert_inv_def)
  have okk: "find_expert st k = Some e \<Longrightarrow> expert_ok e" for k e using assms(1) unfolding expert_inv_def by blast
  show ?thesis
  proof (cases "find_expert st ?k")
    case None
    then have o': "expert_observe c x now ob st = track_expert c x now ob st"
      using True by (simp add: expert_observe_def find_expert_def)
    show ?thesis
    proof (rule track_effect [OF i(1) assms(2) None i(2), of x now])
      fix sm st'
      assume t: "track_expert c x now ob st = (Ok sm, st')" "expert_shape c st'" "[] \<notin> snd ` set (xs_models st')"
        "xs_pending st' = xs_pending st"
        "\<And>k. find_expert st' k = (if k = ?k then Some (new_expert now ob) else find_expert st k)"
      have "expert_inv c st' ps"
        by (rule inv_update [OF assms(1) t(2,3)]) (use True okk new_ok in \<open>auto simp: t(4,5) split: if_splits\<close>)
      with o' t(1) show ?thesis by simp
    qed (use o' assms(1) in simp)
  next
    case (Some e)
    let ?e = "refresh_expert now ob e"
    note p = put_expert_effect [OF i(1) Some, of ?e]
    have "expert_inv c (put_expert (xo_model_id ob) (xo_expert_id ob) ?e st) ps"
      by (rule inv_update [OF assms(1) p(1) p(4) [OF i(2)]])
        (use True okk Some refresh_ok in \<open>auto simp: p(2) split: if_splits\<close>)
    then show ?thesis using True Some by (simp add: expert_observe_def find_expert_def Let_def)
  qed
qed

section \<open>Accesses and pins\<close>

lemma update_experts_effect:
  assumes "update_experts f g ids xs = Ok (sms, xs')"
  shows "map fst xs' = map fst xs" and "j \<notin> set ids \<Longrightarrow> map_of xs' j = map_of xs j"
    and "(\<And>i e. i \<in> set ids \<Longrightarrow> P e \<Longrightarrow> P (f i e)) \<Longrightarrow> (\<And>e. e \<in> snd ` set xs \<Longrightarrow> P e) \<Longrightarrow>
      e' \<in> snd ` set xs' \<Longrightarrow> P e'"
proof -
  have H: "map fst xs' = map fst xs \<and> (\<forall>j. j \<notin> set ids \<longrightarrow> map_of xs' j = map_of xs j)
      \<and> ((\<forall>i \<in> set ids. \<forall>e. P e \<longrightarrow> P (f i e)) \<longrightarrow> (\<forall>e \<in> snd ` set xs. P e) \<longrightarrow> (\<forall>e \<in> snd ` set xs'. P e))"
    using assms
  proof (induction ids arbitrary: xs sms)
    case (Cons i ids)
    from Cons.prems obtain e sms' where e: "map_of xs i = Some e"
        "update_experts f g ids (bt_modify i (\<lambda>_. f i e) xs) = Ok (sms', xs')"
      by (auto simp: Let_def res_bind_Ok split: option.splits)
    from Cons.IH [OF e(2)] have IH: "map fst xs' = map fst xs"
        "\<forall>j. j \<notin> set ids \<longrightarrow> map_of xs' j = map_of (bt_modify i (\<lambda>_. f i e) xs) j"
        "(\<forall>i \<in> set ids. \<forall>e. P e \<longrightarrow> P (f i e)) \<longrightarrow> (\<forall>e \<in> snd ` set (bt_modify i (\<lambda>_. f i e) xs). P e) \<longrightarrow>
          (\<forall>e \<in> snd ` set xs'. P e)"
      by simp_all
    have "\<forall>e' \<in> snd ` set (bt_modify i (\<lambda>_. f i e) xs). P e'"
      if "\<forall>e \<in> snd ` set xs. P e" "P e \<longrightarrow> P (f i e)"
    proof
      fix v
      assume "v \<in> snd ` set (bt_modify i (\<lambda>_. f i e) xs)"
      then have "v \<in> snd ` set xs \<or> v = f i e" using set_modify_values [of i "\<lambda>_. f i e" xs] by blast
      moreover have "e \<in> snd ` set xs" using map_of_SomeD [OF e(1)] by force
      ultimately show "P v" using that by blast
    qed
    with IH(3) map_of_SomeD [OF e(1)]
    have "(\<forall>i \<in> set (i # ids). \<forall>e. P e \<longrightarrow> P (f i e)) \<longrightarrow> (\<forall>e \<in> snd ` set xs. P e) \<longrightarrow> (\<forall>e \<in> snd ` set xs'. P e)"
      by (metis list.set_intros)
    with IH(1,2) show ?case by simp
  qed auto
  show "map fst xs' = map fst xs" by (rule H [THEN conjunct1])
  show "map_of xs' j = map_of xs j" if "j \<notin> set ids" using H [THEN conjunct2, THEN conjunct1] that by blast
  show "P e'" if "\<And>i e. i \<in> set ids \<Longrightarrow> P e \<Longrightarrow> P (f i e)" "\<And>e. e \<in> snd ` set xs \<Longrightarrow> P e" "e' \<in> snd ` set xs'"
    using H [THEN conjunct2, THEN conjunct2] that by blast
qed

text \<open>When every id is tracked, the loop ends with a value; \<open>expect\<close> never fires.\<close>

lemma update_experts_total:
  "\<forall>i \<in> set ids. bt_contains i xs \<Longrightarrow> \<exists>out. update_experts f g ids xs = Ok out \<and> length (fst out) = length ids"
proof (induction ids arbitrary: xs)
  case (Cons i ids)
  then obtain e where e: "map_of xs i = Some e" by (auto simp: bt_contains_def)
  have "\<forall>j \<in> set ids. bt_contains j (bt_modify i (\<lambda>_. f i e) xs)"
    using Cons.prems by (auto simp: bt_contains_def)
  from Cons.IH [OF this] e show ?case by (fastforce simp: Let_def)
qed simp

lemma check_free_Ok:
  "check_free m xs pending ids = Ok () \<longleftrightarrow> (\<forall>i \<in> set ids. bt_contains i xs \<and> (m, i) \<notin> pending)"
  by (induction ids) auto

lemma check_free_no_panic [simp]: "check_free m xs pending ids \<noteq> Panic"
  by (induction ids) auto

lemma store_model_inv:
  assumes "expert_inv c st ps" "map_of (xs_models st) m = Some xs" "map fst xs' = map fst xs"
    and "\<And>i. (m, i) \<in> xs_pending st \<Longrightarrow> map_of xs' i = map_of xs i"
    and "\<And>e. e \<in> snd ` set xs' \<Longrightarrow> expert_ok e"
  shows "expert_inv c (st\<lparr>xs_models := bt_modify m (\<lambda>_. xs') (xs_models st)\<rparr>) ps"
proof -
  have i: "expert_shape c st" "[] \<notin> snd ` set (xs_models st)"
    using assms(1) by (simp_all add: expert_inv_def)
  have okk: "find_expert st k = Some e \<Longrightarrow> expert_ok e" for k e using assms(1) unfolding expert_inv_def by blast
  have len: "length xs' = length xs" using assms(3) by (metis length_map)
  have wf: "bt_wf xs'" using shape_model [OF i(1) assms(2)] assms(3) by (simp add: bt_wf_def)
  let ?st = "st\<lparr>xs_models := bt_modify m (\<lambda>_. xs') (xs_models st)\<rparr>"
  have f: "find_expert ?st k = (if fst k = m then map_of xs' (snd k) else find_expert st k)" for k
    using find_replace [where st = st and m = m and xs' = xs' and n = "xs_total_experts st" and k = k] assms(2)
    by simp
  have fs: "find_expert st (m, i) = map_of xs i" for i using assms(2) by (simp add: find_expert_def)
  have "[] \<notin> snd ` set (xs_models st)" "xs \<noteq> []" using i(2) assms(2) by (auto dest!: map_of_SomeD simp: image_iff)
  then have ne: "xs' \<noteq> []" using len by auto
  show ?thesis
  proof (rule inv_update [OF assms(1)])
    show "expert_shape c ?st" using shape_replace [OF i(1) assms(2) wf] len by simp
    show "[] \<notin> snd ` set (xs_models ?st)"
      using i(2) ne set_modify_values [of m "\<lambda>_. xs'" "xs_models st"] by auto
    show "expert_ok e" if "find_expert ?st k = Some e" for k e
      using that f [of k] okk assms(5) by (auto dest!: map_of_SomeD split: if_splits) (metis image_eqI snd_conv)
    show "find_expert ?st k = find_expert st k" if "k \<in> xs_pending st" for k
      using that assms(4) f [of k] fs by (cases k) auto
  qed simp
qed

lemma store_updates_inv:
  assumes "expert_inv c st ps"
    and "\<And>xs i e. tracked_model st m ids = Ok xs \<Longrightarrow> i \<in> set ids \<Longrightarrow> expert_ok e \<Longrightarrow> expert_ok (f i e)"
  shows "expert_inv c (snd (store_model m (res_bind (tracked_model st m ids) (update_experts f g ids)) st)) ps"
proof (cases "res_bind (tracked_model st m ids) (update_experts f g ids)")
  case (Ok out)
  obtain sms xs' where out: "out = (sms, xs')" by (cases out)
  from Ok obtain xs where xs: "map_of (xs_models st) m = Some xs" "check_free m xs (xs_pending st) ids = Ok ()"
      "update_experts f g ids xs = Ok (sms, xs')" "tracked_model st m ids = Ok xs"
    by (auto simp: res_bind_Ok tracked_model_def out split: option.splits)
  have old: "expert_ok e" if "e \<in> snd ` set xs" for e
  proof -
    obtain i where "(i, e) \<in> set xs" using \<open>e \<in> snd ` set xs\<close> by auto
    then have "find_expert st (m, i) = Some e"
      using assms(1) shape_model [of c st m xs] xs(1) bt_wf_get [of xs i e]
      by (auto simp: expert_inv_def find_expert_def)
    then show ?thesis using assms(1) unfolding expert_inv_def by blast
  qed
  have "expert_inv c (st\<lparr>xs_models := bt_modify m (\<lambda>_. xs') (xs_models st)\<rparr>) ps"
  proof (rule store_model_inv [OF assms(1) xs(1)])
    show "map fst xs' = map fst xs" by (rule update_experts_effect(1) [OF xs(3)])
    show "map_of xs' i = map_of xs i" if "(m, i) \<in> xs_pending st" for i
      using update_experts_effect(2) [OF xs(3)] xs(2) that by (auto simp: check_free_Ok)
    show "expert_ok e" if "e \<in> snd ` set xs'" for e
      using update_experts_effect(3) [OF xs(3), of expert_ok, OF assms(2) [OF xs(4)] old that] .
  qed
  with Ok out show ?thesis by (simp add: store_model_def)
qed (simp_all add: store_model_def assms(1))

lemma store_refused [simp]: "snd (store_model m (Err e) st) = st" "snd (store_model m Panic st) = st"
  by (simp_all add: store_model_def)

lemma accesses_inv:
  assumes "expert_inv c st ps"
  shows "expert_inv c (snd (record_accesses c x now unix m as st)) ps"
proof (cases "check_accesses c m as")
  case (Ok combined)
  have w: "bt_wf combined" "\<And>w. w \<in> snd ` set combined \<Longrightarrow> positive_weight w"
    using Ok combine_ok [of as "[]" combined] by (auto simp: check_accesses_def res_bind_Ok split: if_splits)
  have "expert_ok (heat_expert c x now unix (the (map_of combined i)) e)"
    if "i \<in> set (map fst combined)" "expert_ok e" for i e
  proof -
    from that(1) obtain v where "(i, v) \<in> set combined" by auto
    then have "map_of combined i = Some v" "positive_weight v"
      using bt_wf_get [OF w(1)] w(2) by force+
    then show ?thesis using heat_ok [OF that(2)] by simp
  qed
  then show ?thesis using store_updates_inv [OF assms, of m "map fst combined"] Ok
    by (simp add: record_accesses_def)
qed (use assms in \<open>simp_all add: record_accesses_def\<close>)

lemma pin_ok: "expert_ok (pin_expert b d e) = expert_ok e"
  by (simp add: pin_expert_def expert_ok_def)

lemma pinned_inv:
  assumes "expert_inv c st ps"
  shows "expert_inv c (snd (set_expert_pinned c x now m ids b d st)) ps"
proof (cases "res_bind (validate_model_id m) (\<lambda>_. validate_id_batch m ids (xc_max_actions c))")
  case (Ok u)
  then show ?thesis using store_updates_inv [OF assms, of m ids] pin_ok
    by (auto simp: set_expert_pinned_def res_bind_Ok)
next
  case (Err e)
  then show ?thesis using assms by (cases "validate_model_id m") (simp_all add: set_expert_pinned_def)
next
  case Panic
  then show ?thesis using assms by (cases "validate_model_id m") (simp_all add: set_expert_pinned_def)
qed

section \<open>Claims\<close>

lemma validate_planned_iff:
  "validate_planned_action st a = Ok () \<longleftrightarrow> action_key a \<notin> xs_pending st \<and> claim_holds st a"
proof -
  have "lookup_expert st (xn_model_id a) (xn_expert_id a) = Ok e \<longleftrightarrow> find_expert st (action_key a) = Some e" for e
    by (simp add: lookup_find action_key_def)
  then show ?thesis
    by (cases a) (auto simp: validate_planned_action_def res_bind_Ok claim_holds_def validate_memory_transition_def
      split: if_splits)
qed

lemma claim_actions_Ok:
  "claim_actions st as seen = Ok u \<longleftrightarrow> distinct (map action_key as) \<and> seen \<inter> action_key ` set as = {}
     \<and> (\<forall>a \<in> set as. validate_planned_action st a = Ok ()) \<and> u = seen \<union> action_key ` set as"
  by (induction as arbitrary: seen) (auto simp: res_bind_Ok)

lemma begin_Ok:
  "expert_begin_actions c as st = (Ok p, st') \<longleftrightarrow> p = as \<and> as \<noteq> [] \<and> length as \<le> xc_max_actions c
     \<and> distinct (map action_key as) \<and> (\<forall>a \<in> set as. action_key a \<notin> xs_pending st \<and> claim_holds st a)
     \<and> st' = st\<lparr>xs_pending := xs_pending st \<union> action_key ` set as\<rparr>"
  (is "?L \<longleftrightarrow> ?R")
proof
  assume ?L
  then obtain u where u: "res_bind (validate_action_limit (length as) (xc_max_actions c)) (\<lambda>_. claim_actions st as {}) = Ok u"
      "p = as" "st' = st\<lparr>xs_pending := xs_pending st \<union> u\<rparr>"
    unfolding expert_begin_actions_def
    by (cases "res_bind (validate_action_limit (length as) (xc_max_actions c)) (\<lambda>_. claim_actions st as {})") simp_all
  then have "claim_actions st as {} = Ok u" "as \<noteq> []" "length as \<le> xc_max_actions c"
    by (simp_all add: res_bind_Ok validate_action_limit_def split: if_splits)
  with u(2,3) show ?R by (simp add: claim_actions_Ok validate_planned_iff)
next
  assume R: ?R
  then have "claim_actions st as {} = Ok (action_key ` set as)" by (simp add: claim_actions_Ok validate_planned_iff)
  with R show ?L by (simp add: expert_begin_actions_def validate_action_limit_def)
qed

lemma begin_refused: "(\<forall>p. fst (expert_begin_actions c as st) \<noteq> Ok p) \<Longrightarrow> snd (expert_begin_actions c as st) = st"
  by (auto simp: expert_begin_actions_def split: res.splits)

lemma claim_holds_pending [simp]: "claim_holds (st\<lparr>xs_pending := p\<rparr>) a = claim_holds st a"
  by (simp add: claim_holds_def)

lemma permit_begin_inv:
  assumes "expert_inv c st ps" "expert_begin_actions c as st = (Ok p, st')"
  shows "expert_inv c st' (p # ps)"
proof -
  from assms(2) have b: "p = as" "as \<noteq> []" "distinct (map action_key as)"
      "\<forall>a \<in> set as. action_key a \<notin> xs_pending st \<and> claim_holds st a"
      "st' = st\<lparr>xs_pending := xs_pending st \<union> action_key ` set as\<rparr>"
    by (simp_all add: begin_Ok)
  have "claimed (p # ps) = map action_key as @ claimed ps" by (simp add: claimed_def b(1))
  with assms(1) b show ?thesis by (auto simp: expert_inv_def)
qed

section \<open>Commits\<close>

definition action_result :: "nat \<Rightarrow> expert_action \<Rightarrow> tracked_expert \<Rightarrow> tracked_expert option" where
  "action_result now a e =
     (case a of MoveExpert _ _ _ to_tier _ _ \<Rightarrow> Some (moved_expert now to_tier e) | EvictExpert _ _ _ _ _ \<Rightarrow> None)"

lemma apply_one:
  assumes "expert_shape c st" "find_expert st (action_key a) = Some e"
  obtains out st' where "apply_expert_action c x now a st = (Ok out, st')" "expert_shape c st'"
    "xs_pending st' = xs_pending st"
    "\<And>k. find_expert st' k = (if k = action_key a then action_result now a e else find_expert st k)"
proof (cases a)
  case (MoveExpert m i ft tt b r)
  have f: "find_expert st (m, i) = Some e" using assms(2) MoveExpert by (simp add: action_key_def)
  note p = put_expert_effect [OF assms(1) f, of "moved_expert now tt e"]
  have "apply_expert_action c x now a st = (Ok ([summary_from_entry x m i (moved_expert now tt e) now
      (xc_hotness_half_life_millis c)], []), put_expert m i (moved_expert now tt e) st)"
    using f by (simp add: MoveExpert lookup_find [THEN iffD2] Let_def)
  then show ?thesis
    by (rule that [OF _ p(1)]) (simp_all add: MoveExpert p(2) action_key_def action_result_def)
next
  case (EvictExpert m i ft b r)
  have f: "find_expert st (m, i) = Some e" using assms(2) EvictExpert by (simp add: action_key_def)
  then obtain xs where xs: "map_of (xs_models st) m = Some xs" "map_of xs i = Some e"
    by (auto simp: find_expert_def bind_eq_Some_conv)
  have wf: "bt_wf (xs_models st)" "bt_wf xs"
    using assms(1) shape_model [OF assms(1) xs(1)] by (simp_all add: expert_shape_def)
  have len: "Suc (length (bt_remove i xs)) = length xs" by (rule length_remove_contained [OF wf(2) xs(2)])
  let ?st = "st\<lparr>xs_models := bt_modify m (bt_remove i) (xs_models st), xs_total_experts := xs_total_experts st - 1\<rparr>"
  have "length xs - length (bt_remove i xs) = 1" using len by linarith
  then have st: "?st = st\<lparr>xs_models := bt_modify m (\<lambda>_. bt_remove i xs) (xs_models st),
      xs_total_experts := xs_total_experts st - (length xs - length (bt_remove i xs))\<rparr>"
    using bt_modify_const [OF wf(1) xs(1), of "bt_remove i"] by simp
  have sh: "expert_shape c ?st"
    unfolding st by (rule shape_replace [OF assms(1) xs(1) bt_wf_remove [OF wf(2)]]) (use len in linarith)
  show ?thesis
  proof (rule that [OF _ sh])
    show "apply_expert_action c x now a st = (Ok ([], [(m, i)]), ?st)"
      using f by (simp add: EvictExpert lookup_find [THEN iffD2])
    show "find_expert ?st k = (if k = action_key a then action_result now a e else find_expert st k)" for k
      by (cases k) (auto simp: find_expert_def xs EvictExpert action_key_def action_result_def)
  qed simp
qed

text \<open>A batch of claims on different experts is carried out whole.\<close>

lemma apply_all:
  assumes "expert_shape c st" "distinct (map action_key as)" "\<forall>a \<in> set as. find_expert st (action_key a) \<noteq> None"
  obtains out st' where "apply_expert_actions c x now as st = (Ok out, st')" "expert_shape c st'"
    "xs_pending st' = xs_pending st"
    "\<And>k. k \<notin> action_key ` set as \<Longrightarrow> find_expert st' k = find_expert st k"
    "\<And>a. a \<in> set as \<Longrightarrow> find_expert st' (action_key a) = Option.bind (find_expert st (action_key a)) (action_result now a)"
proof -
  have "\<exists>out st'. apply_expert_actions c x now as st = (Ok out, st') \<and> expert_shape c st' \<and> xs_pending st' = xs_pending st
      \<and> (\<forall>k. k \<notin> action_key ` set as \<longrightarrow> find_expert st' k = find_expert st k)
      \<and> (\<forall>a \<in> set as. find_expert st' (action_key a) = Option.bind (find_expert st (action_key a)) (action_result now a))"
    using assms
  proof (induction as arbitrary: st)
    case (Cons a as)
    obtain e where e: "find_expert st (action_key a) = Some e" using Cons.prems(3) by auto
    obtain out1 st1 where one: "apply_expert_action c x now a st = (Ok out1, st1)" "expert_shape c st1"
        "xs_pending st1 = xs_pending st"
        "\<And>k. find_expert st1 k = (if k = action_key a then action_result now a e else find_expert st k)"
      by (rule apply_one [OF Cons.prems(1) e, of x now]) (rule that)
    have keep: "find_expert st1 (action_key b) = find_expert st (action_key b)" if "b \<in> set as" for b
    proof -
      have "action_key b \<in> action_key ` set as" using that by (rule imageI)
      moreover have "action_key a \<notin> action_key ` set as" using Cons.prems(2) by simp
      ultimately have "action_key b \<noteq> action_key a" by metis
      then show ?thesis by (simp add: one(4))
    qed
    then have "\<forall>b \<in> set as. find_expert st1 (action_key b) \<noteq> None" using Cons.prems(3) by simp
    with Cons.IH [OF one(2)] Cons.prems(2) obtain out2 st2 where two:
        "apply_expert_actions c x now as st1 = (Ok out2, st2)" "expert_shape c st2" "xs_pending st2 = xs_pending st1"
        "\<forall>k. k \<notin> action_key ` set as \<longrightarrow> find_expert st2 k = find_expert st1 k"
        "\<forall>b \<in> set as. find_expert st2 (action_key b) = Option.bind (find_expert st1 (action_key b)) (action_result now b)"
      by auto
    have "action_key a \<notin> action_key ` set as" using Cons.prems(2) by simp
    then have "find_expert st2 (action_key a) = Option.bind (find_expert st (action_key a)) (action_result now a)"
      using two(4) [rule_format, of "action_key a"] one(4) [of "action_key a"] e by simp
    then have B: "\<forall>b \<in> set (a # as). find_expert st2 (action_key b) =
        Option.bind (find_expert st (action_key b)) (action_result now b)"
      using two(5) keep by simp
    have A: "\<forall>k. k \<notin> action_key ` set (a # as) \<longrightarrow> find_expert st2 k = find_expert st k"
    proof (intro allI impI)
      fix k
      assume "k \<notin> action_key ` set (a # as)"
      then show "find_expert st2 k = find_expert st k" using two(4) [rule_format, of k] one(4) [of k] by simp
    qed
    have "\<exists>out. apply_expert_actions c x now (a # as) st = (Ok out, st2)"
      using one(1) two(1) by (cases out1; cases out2) simp
    moreover have "xs_pending st2 = xs_pending st" using two(3) one(3) by simp
    ultimately show ?case using two(2) A B by blast
  qed simp
  then show ?thesis using that by blast
qed

lemma drop_empty_effect:
  assumes "expert_shape c st"
  shows "expert_shape c (drop_empty_models st)" "[] \<notin> snd ` set (xs_models (drop_empty_models st))"
    "find_expert (drop_empty_models st) k = find_expert st k" "xs_pending (drop_empty_models st) = xs_pending st"
proof -
  have wf: "bt_wf (xs_models st)" using assms by (simp add: expert_shape_def)
  have sum: "bt_sum length (filter (\<lambda>(_, xs). xs \<noteq> []) m) = bt_sum length m" for m :: "(rstr, model_experts) btree"
    by (induction m) auto
  show "expert_shape c (drop_empty_models st)"
    using assms bt_wf_filter [OF wf] le_trans [OF length_filter_le, of "xs_models st" "xc_max_models c"]
    unfolding expert_shape_def drop_empty_models_def by (auto simp: sum)
  show "[] \<notin> snd ` set (xs_models (drop_empty_models st))" "xs_pending (drop_empty_models st) = xs_pending st"
    by (auto simp: drop_empty_models_def)
  have f: "map_of (filter (\<lambda>(_, xs). xs \<noteq> []) (xs_models st)) m =
      (case map_of (xs_models st) m of Some (y # ys) \<Rightarrow> Some (y # ys) | _ \<Rightarrow> None)" for m
  proof (cases "map_of (xs_models st) m")
    case None
    then show ?thesis by (simp add: get_filter_None)
  next
    case (Some xs)
    then show ?thesis using get_filter [OF wf, of "\<lambda>(_, xs). xs \<noteq> []" m]
      by (cases xs) (auto simp: not_Some_eq [symmetric])
  qed
  show "find_expert (drop_empty_models st) k = find_expert st k"
    by (auto simp: find_expert_def drop_empty_models_def f split: option.split list.split)
qed

lemma committable_Ok:
  "\<forall>a \<in> set as. action_key a \<in> xs_pending st \<and> claim_holds st a \<Longrightarrow> validate_committable st as = Ok ()"
proof (induction as)
  case (Cons a as)
  then obtain e where "find_expert st (action_key a) = Some e" "matches_action e a" "action_key a \<in> xs_pending st"
    by (auto simp: claim_holds_def)
  then have "validate_committable_action st a = Ok ()"
    by (simp add: validate_committable_action_def action_key_def lookup_find [THEN iffD2])
  with Cons show ?case by simp
qed simp

lemma moved_ok: "expert_ok (moved_expert now t e) = expert_ok e"
  by (simp add: moved_expert_def expert_ok_def)

lemma result_ok: "action_result now a e = Some e' \<Longrightarrow> expert_ok e \<Longrightarrow> expert_ok e'"
  by (auto simp: action_result_def moved_ok split: expert_action.splits)

lemma claimed_split:
  assumes "p \<in> set ps" "distinct (claimed ps)" "[] \<notin> set ps"
  shows "set (claimed (remove1 p ps)) = set (claimed ps) - action_key ` set p"
    and "distinct (claimed (remove1 p ps))" and "distinct (map action_key p)"
    and "set (concat (remove1 p ps)) \<subseteq> set (concat ps)"
proof -
  obtain xs ys where s: "ps = xs @ p # ys" "remove1 p ps = xs @ ys"
    using assms(1) by (metis remove1_split)
  define X Y P where "X = claimed xs" and "Y = claimed ys" and "P = map action_key p"
  have c: "claimed ps = X @ P @ Y" "claimed (remove1 p ps) = X @ Y" "action_key ` set p = set P"
    unfolding s(2) unfolding s(1) by (simp_all add: claimed_def X_def Y_def P_def)
  show "set (claimed (remove1 p ps)) = set (claimed ps) - action_key ` set p" "distinct (claimed (remove1 p ps))"
    using assms(2) unfolding c by auto
  show "distinct (map action_key p)" using assms(2) unfolding c(1) by (simp add: P_def)
  show "set (concat (remove1 p ps)) \<subseteq> set (concat ps)" unfolding s(2) unfolding s(1) by auto
qed

lemma inv_permit:
  assumes "expert_inv c st ps" "p \<in> set ps"
  shows "\<forall>a \<in> set p. action_key a \<in> xs_pending st \<and> claim_holds st a" "p \<noteq> []" "distinct (map action_key p)"
proof -
  have i: "distinct (claimed ps)" "xs_pending st = set (claimed ps)" "[] \<notin> set ps"
      "\<forall>a \<in> set (concat ps). claim_holds st a"
    using assms(1) by (simp_all add: expert_inv_def)
  show "\<forall>a \<in> set p. action_key a \<in> xs_pending st \<and> claim_holds st a"
    using i(2,4) assms(2) by (auto simp: claimed_def)
  show "p \<noteq> []" using i(3) assms(2) by auto
  show "distinct (map action_key p)" using claimed_split(3) [OF assms(2) i(1,3)] .
qed

lemma inv_release:
  assumes "expert_inv c st ps" "p \<in> set ps" "expert_shape c st'" "[] \<notin> snd ` set (xs_models st')"
    and "xs_pending st' = xs_pending st - action_key ` set p"
    and "\<And>k e. find_expert st' k = Some e \<Longrightarrow> expert_ok e"
    and "\<And>k. k \<notin> action_key ` set p \<Longrightarrow> find_expert st' k = find_expert st k"
  shows "expert_inv c st' (remove1 p ps)"
proof -
  have i: "distinct (claimed ps)" "xs_pending st = set (claimed ps)" "[] \<notin> set ps"
      "\<forall>a \<in> set (concat ps). claim_holds st a"
    using assms(1) by (simp_all add: expert_inv_def)
  note cs = claimed_split [OF assms(2) i(1,3)]
  have "claim_holds st' a" if "a \<in> set (concat (remove1 p ps))" for a
  proof -
    have "action_key a \<in> set (claimed (remove1 p ps))" using that by (auto simp: claimed_def)
    then have "action_key a \<notin> action_key ` set p" using cs(1) by blast
    from claim_holds_same [OF assms(7) [OF this]] show ?thesis using that cs(4) i(4) by blast
  qed
  moreover have "xs_pending st' = set (claimed (remove1 p ps))" using assms(5) i(2) cs(1) by simp
  moreover have "[] \<notin> set (remove1 p ps)" using i(3) set_remove1_subset by fastforce
  ultimately show ?thesis using assms(3,4,6) cs(2) unfolding expert_inv_def by blast
qed

lemma permit_drop_inv:
  assumes "expert_inv c st ps" "p \<in> set ps"
  shows "expert_inv c (expert_drop_permit p st) (remove1 p ps)"
proof (rule inv_release [OF assms])
  show "expert_shape c (expert_drop_permit p st)" "[] \<notin> snd ` set (xs_models (expert_drop_permit p st))"
    using assms(1) by (simp_all add: expert_inv_def expert_drop_permit_def)
  have "find_expert (expert_drop_permit p st) k = find_expert st k" for k by (simp add: expert_drop_permit_def)
  then show "find_expert (expert_drop_permit p st) k = Some e \<Longrightarrow> expert_ok e" for k e
    using assms(1) unfolding expert_inv_def by metis
qed (simp_all add: expert_drop_permit_def)

text \<open>The commit of an outstanding permit, taken apart.\<close>

lemma commit_result:
  assumes "expert_inv c st ps" "p \<in> set ps"
  obtains out st' where "expert_commit c x now p st = (Ok out, st')" "expert_inv c st' (remove1 p ps)"
    "xs_pending st' = xs_pending st - action_key ` set p"
    "\<And>k. k \<notin> action_key ` set p \<Longrightarrow> find_expert st' k = find_expert st k"
    "\<And>a. a \<in> set p \<Longrightarrow> find_expert st' (action_key a) = Option.bind (find_expert st (action_key a)) (action_result now a)"
proof -
  note P = inv_permit [OF assms]
  have sh: "expert_shape c st" using assms(1) by (simp add: expert_inv_def)
  have "\<forall>a \<in> set p. find_expert st (action_key a) \<noteq> None" using P(1) by (auto simp: claim_holds_def)
  then obtain out st1 where a: "apply_expert_actions c x now p st = (Ok out, st1)" "expert_shape c st1"
      "xs_pending st1 = xs_pending st"
      "\<And>k. k \<notin> action_key ` set p \<Longrightarrow> find_expert st1 k = find_expert st k"
      "\<And>a. a \<in> set p \<Longrightarrow> find_expert st1 (action_key a) = Option.bind (find_expert st (action_key a)) (action_result now a)"
    using apply_all [OF sh P(3)] by blast
  note d = drop_empty_effect [OF a(2)]
  let ?st = "expert_drop_permit p (drop_empty_models st1)"
  have c': "expert_commit c x now p st = (Ok out, ?st)"
    using committable_Ok [OF P(1)] a(1) by (simp add: expert_commit_def)
  have f: "find_expert ?st k = find_expert st1 k" for k by (simp add: expert_drop_permit_def d(3))
  have pend: "xs_pending ?st = xs_pending st - action_key ` set p" by (simp add: expert_drop_permit_def d(4) a(3))
  have "expert_inv c ?st (remove1 p ps)"
  proof (rule inv_release [OF assms _ _ pend])
    show "expert_shape c ?st" "[] \<notin> snd ` set (xs_models ?st)" using d(1,2) by (simp_all add: expert_drop_permit_def)
    show "find_expert ?st k = find_expert st k" if "k \<notin> action_key ` set p" for k using that f a(4) by simp
    show "expert_ok e" if e: "find_expert ?st k = Some e" for k e
    proof (cases "k \<in> action_key ` set p")
      case True
      then obtain b where "b \<in> set p" "k = action_key b" by blast
      with e f a(5) obtain e0 where "find_expert st k = Some e0" "action_result now b e0 = Some e"
        by (auto simp: bind_eq_Some_conv)
      then show ?thesis using result_ok assms(1) unfolding expert_inv_def by blast
    next
      case False
      then show ?thesis using e f a(4) assms(1) unfolding expert_inv_def by metis
    qed
  qed
  then show ?thesis using that c' pend a(4,5) f by presburger
qed

section \<open>Steps\<close>

record expert_world =
  xw_state :: expert_state
  xw_permits :: "expert_permit list"

datatype expert_event =
    XObserve nat expert_observation
  | XAccess nat nat rstr "expert_access list"
  | XPin nat rstr "rstr list" bool bool
  | XBegin "expert_action list"
  | XCommit nat expert_permit
  | XDrop expert_permit

definition expert_world_new :: expert_world where
  "expert_world_new = \<lparr>xw_state = no_experts, xw_permits = []\<rparr>"

definition spend_permit :: "expert_permit \<Rightarrow> expert_state \<Rightarrow> expert_world \<Rightarrow> expert_world" where
  "spend_permit p st w = (if p \<in> set (xw_permits w)
     then \<lparr>xw_state = st, xw_permits = remove1 p (xw_permits w)\<rparr> else w)"

fun expert_step :: "expert_residency_config \<Rightarrow> (f64 \<Rightarrow> f64) \<Rightarrow> expert_world \<Rightarrow> expert_event \<Rightarrow> expert_world" where
  "expert_step c x w (XObserve now ob) = w\<lparr>xw_state := snd (expert_observe c x now ob (xw_state w))\<rparr>"
| "expert_step c x w (XAccess now unix m as) = w\<lparr>xw_state := snd (record_accesses c x now unix m as (xw_state w))\<rparr>"
| "expert_step c x w (XPin now m ids b d) = w\<lparr>xw_state := snd (set_expert_pinned c x now m ids b d (xw_state w))\<rparr>"
| "expert_step c x w (XBegin as) =
     (case expert_begin_actions c as (xw_state w) of
        (Ok p, st) \<Rightarrow> \<lparr>xw_state = st, xw_permits = p # xw_permits w\<rparr>
      | (_, st) \<Rightarrow> w\<lparr>xw_state := st\<rparr>)"
| "expert_step c x w (XCommit now p) = spend_permit p (snd (expert_commit c x now p (xw_state w))) w"
| "expert_step c x w (XDrop p) = spend_permit p (expert_drop_permit p (xw_state w)) w"

definition expert_world_inv :: "expert_residency_config \<Rightarrow> expert_world \<Rightarrow> bool" where
  "expert_world_inv c w \<longleftrightarrow> expert_config_validate c = Ok () \<longrightarrow> expert_inv c (xw_state w) (xw_permits w)"

lemma expert_step_inv:
  assumes "expert_config_validate c = Ok ()" "expert_inv c (xw_state w) (xw_permits w)"
  shows "expert_inv c (xw_state (expert_step c x w e)) (xw_permits (expert_step c x w e))"
proof (cases e)
  case (XBegin as)
  show ?thesis
  proof (cases "fst (expert_begin_actions c as (xw_state w))")
    case (Ok p)
    then show ?thesis using permit_begin_inv [OF assms(2), of as p] XBegin by (auto split: prod.splits)
  qed (use begin_refused [of c as "xw_state w"] assms(2) XBegin in \<open>auto split: prod.splits\<close>)
next
  case (XCommit now p)
  have "p \<in> set (xw_permits w) \<Longrightarrow>
      expert_inv c (snd (expert_commit c x now p (xw_state w))) (remove1 p (xw_permits w))"
    using commit_result [OF assms(2), of p x now] by (metis snd_conv)
  then show ?thesis using XCommit assms(2) by (simp add: spend_permit_def)
qed (simp_all add: assms(2) observe_inv [OF assms(2,1)] accesses_inv [OF assms(2)] pinned_inv [OF assms(2)]
  spend_permit_def permit_drop_inv [OF assms(2)])

interpretation experts: state_machine expert_world_new "expert_step c x" "expert_world_inv c" for c x
  by unfold_locales
    (simp add: expert_world_inv_def expert_world_new_def no_experts_def expert_inv_def expert_shape_def
        claimed_def find_expert_def,
     simp add: expert_world_inv_def expert_step_inv)

definition expert_run :: "expert_residency_config \<Rightarrow> (f64 \<Rightarrow> f64) \<Rightarrow> expert_event list \<Rightarrow> expert_world" where
  "expert_run c x es = run (expert_step c x) expert_world_new es"

lemma expert_run_inv:
  "expert_config_validate c = Ok () \<Longrightarrow> expert_inv c (xw_state (expert_run c x es)) (xw_permits (expert_run c x es))"
  using experts.run_inv [of c x es] by (simp add: expert_run_def expert_world_inv_def)

end
