(* ===== verification/Expert_Claims.thy ===== *)
theory Expert_Claims
  imports Expert_Machine
begin

text \<open>
  What the expert residency manager promises: exact books within the configured limits,
  permits that always commit, and pressure and prefetch plans that are sound, minimal,
  exhaustive and admitted by \<open>begin_actions\<close>.
\<close>

section \<open>All tracked experts\<close>

lemma all_experts_find:
  assumes "expert_shape c st"
  shows "(k, e) \<in> set (all_experts st) \<longleftrightarrow> find_expert st k = Some e"
proof -
  have wf: "bt_wf (xs_models st)" using assms by (simp add: expert_shape_def)
  have inner: "(i, e) \<in> set xs \<longleftrightarrow> map_of xs i = Some e" if "map_of (xs_models st) m = Some xs" for m xs i
    using bt_wf_get shape_model [OF assms that] by metis
  have "(k, e) \<in> set (all_experts st) \<longleftrightarrow> (\<exists>xs. (fst k, xs) \<in> set (xs_models st) \<and> (snd k, e) \<in> set xs)"
    by (cases k) (force simp: all_experts_def)
  also have "\<dots> \<longleftrightarrow> find_expert st k = Some e"
    using inner by (auto simp: find_expert_def bt_wf_get [OF wf] bind_eq_Some_conv)
  finally show ?thesis .
qed

lemma all_experts_distinct:
  assumes "expert_shape c st"
  shows "distinct (map fst (all_experts st))"
proof -
  have D: "distinct (map fst (concat (map (\<lambda>(m, xs). map (\<lambda>(i, e). ((m, i), e)) xs) ms)))"
    if "distinct (map fst ms)" "\<forall>xs \<in> snd ` set ms. distinct (map fst xs)" for ms :: "(rstr, model_experts) btree"
    using that
  proof (induction ms)
    case (Cons p ms)
    obtain m xs where p: "p = (m, xs)" by (cases p)
    have "map fst (map (\<lambda>(i, e). ((m, i), e)) xs) = map (Pair m) (map fst xs)" by (induction xs) auto
    moreover have "inj (Pair m)" by (simp add: inj_on_def)
    ultimately have "distinct (map fst (map (\<lambda>(i, e). ((m, i), e)) xs))"
      using Cons.prems(2) p by (simp add: distinct_map inj_on_def del: map_map)
    moreover have "m \<notin> fst ` set ms" using Cons.prems(1) p by simp
    ultimately show ?case using Cons p by (force simp del: map_map)
  qed simp
  have "bt_wf (xs_models st)" "\<forall>xs \<in> snd ` set (xs_models st). bt_wf xs"
    using assms unfolding expert_shape_def by blast+
  then have "distinct (map fst (xs_models st))" "\<forall>xs \<in> snd ` set (xs_models st). distinct (map fst xs)"
    using bt_wf_distinct by blast+
  from D [OF this] show ?thesis by (simp only: all_experts_def)
qed

lemma all_experts_length: "length (all_experts st) = bt_sum length (xs_models st)"
  by (simp add: all_experts_def length_concat bt_sum_def comp_def case_prod_beta)

section \<open>Relief\<close>

definition action_bytes :: "expert_action \<Rightarrow> nat" where
  "action_bytes a = (case xn_bytes a of None \<Rightarrow> 0 | Some b \<Rightarrow> b)"

definition is_move :: "expert_action \<Rightarrow> bool" where
  "is_move a = (case a of MoveExpert _ _ _ _ _ _ \<Rightarrow> True | EvictExpert _ _ _ _ _ \<Rightarrow> False)"

text \<open>What the two passes keep of their working state, for candidates \<open>C\<close>.\<close>

definition relief_ok :: "expert_pressure_request \<Rightarrow> scored_candidate set \<Rightarrow> relief \<Rightarrow> bool" where
  "relief_ok rq C r \<longleftrightarrow>
     rl_known r = sat_sum (map action_bytes (rl_actions r))
     \<and> (rl_actions r \<noteq> [] \<longrightarrow> sat_sum (map action_bytes (butlast (rl_actions r))) < xp_relief_bytes rq)
     \<and> length (rl_actions r) \<le> xp_max_actions rq
     \<and> distinct (map action_key (rl_actions r))
     \<and> (\<forall>a \<in> set (rl_actions r). \<exists>s \<in> C. a = evict_of (xp_source_tier rq) s
          \<or> (xp_source_tier rq = Vram \<and> a = move_of Vram Ram s))
     \<and> rl_headroom r + sum_list (map action_bytes (filter is_move (rl_actions r))) = xp_ram_headroom_bytes rq
     \<and> rl_demoted r = action_key ` set (filter is_move (rl_actions r))
     \<and> rl_unknown r = length (filter (\<lambda>a. xn_bytes a = None) (rl_actions r))"

lemma action_of_simps [simp]:
  "action_key (move_of f t s) = sc_key s" "action_key (evict_of f s) = sc_key s"
  "xn_bytes (move_of f t s) = te_bytes (sc_expert s)" "xn_bytes (evict_of f s) = te_bytes (sc_expert s)"
  "is_move (move_of f t s)" "\<not> is_move (evict_of f s)"
  by (simp_all add: action_key_def move_of_def evict_of_def sc_key_def is_move_def)

lemma sat_sum_snoc: "sat_sum (xs @ [x]) = sat_add (sat_sum xs) x"
  by (simp add: sat_sum_def)

lemma demote_push_ok:
  assumes "relief_ok rq C r" "\<not> relief_done rq r" "s \<in> C" "sc_key s \<notin> action_key ` set (rl_actions r)"
    and "te_bytes (sc_expert s) = Some b" "b \<le> rl_headroom r" "xp_source_tier rq = Vram"
  shows "relief_ok rq C (r\<lparr>rl_headroom := rl_headroom r - b, rl_known := sat_add (rl_known r) b,
      rl_demoted := insert (sc_key s) (rl_demoted r), rl_actions := rl_actions r @ [move_of Vram Ram s]\<rparr>)"
  using assms
  by (auto simp: relief_ok_def relief_done_def sat_sum_snoc action_bytes_def)

lemma evict_push_ok:
  assumes "relief_ok rq C r" "\<not> relief_done rq r" "s \<in> C" "sc_key s \<notin> action_key ` set (rl_actions r)"
  shows "relief_ok rq C ((case te_bytes (sc_expert s) of
      Some bytes \<Rightarrow> r\<lparr>rl_known := sat_add (rl_known r) bytes\<rparr>
    | None \<Rightarrow> r\<lparr>rl_unknown := rl_unknown r + 1\<rparr>)\<lparr>rl_actions := rl_actions r @ [evict_of (xp_source_tier rq) s]\<rparr>)"
proof -
  have "sat_add (sat_sum xs) 0 = sat_sum xs" for xs by (simp add: sat_sum_eq sat_add_def)
  with assms show ?thesis
    by (cases "te_bytes (sc_expert s)")
      (auto simp: relief_ok_def relief_done_def sat_sum_snoc action_bytes_def)
qed

lemma demote_pass_ok:
  assumes "relief_ok rq C r" "set ss \<subseteq> C" "distinct (map sc_key ss)" "xp_source_tier rq = Vram"
    and "sc_key ` set ss \<inter> action_key ` set (rl_actions r) = {}"
  shows "relief_ok rq C (demote_pass rq ss r)"
  using assms
proof (induction rq ss r rule: demote_pass.induct)
  case (2 rq s ss r)
  show ?case
  proof (cases "relief_done rq r")
    case True
    with 2 show ?thesis by simp
  next
    case False
    show ?thesis
    proof (cases "te_bytes (sc_expert s)")
      case None
      with 2 False show ?thesis by auto
    next
      case (Some b)
      show ?thesis
      proof (cases "rl_headroom r < b")
        case True
        with 2 False Some show ?thesis by auto
      next
        case fits: False
        have ok: "relief_ok rq C (r\<lparr>rl_headroom := rl_headroom r - b, rl_known := sat_add (rl_known r) b,
            rl_demoted := insert (sc_key s) (rl_demoted r), rl_actions := rl_actions r @ [move_of Vram Ram s]\<rparr>)"
          by (rule demote_push_ok [OF "2.prems"(1) False _ _ Some]) (use "2.prems" fits in auto)
        from "2.IH"(3) [OF False Some fits ok] "2.prems" False Some fits show ?thesis by auto
      qed
    qed
  qed
qed simp

lemma evict_pass_ok:
  assumes "relief_ok rq C r" "set ss \<subseteq> C" "distinct (map sc_key ss)"
    and "sc_key ` set ss \<inter> action_key ` set (rl_actions r) \<subseteq> rl_demoted r"
  shows "relief_ok rq C (evict_pass rq ss r)
    \<and> (\<not> relief_done rq (evict_pass rq ss r) \<longrightarrow> sc_key ` set ss \<subseteq> action_key ` set (rl_actions (evict_pass rq ss r)))
    \<and> action_key ` set (rl_actions r) \<subseteq> action_key ` set (rl_actions (evict_pass rq ss r))"
  using assms
proof (induction rq ss r rule: evict_pass.induct)
  case (2 rq s ss r)
  show ?case
  proof (cases "relief_done rq r")
    case True
    with 2 show ?thesis by simp
  next
    case False
    show ?thesis
    proof (cases "sc_key s \<in> rl_demoted r")
      case True
      have "sc_key s \<in> action_key ` set (rl_actions r)" using True "2.prems"(1) by (auto simp: relief_ok_def)
      with 2 False True show ?thesis by auto
    next
      case new: False
      let ?r = "(case te_bytes (sc_expert s) of
          Some bytes \<Rightarrow> r\<lparr>rl_known := sat_add (rl_known r) bytes\<rparr>
        | None \<Rightarrow> r\<lparr>rl_unknown := rl_unknown r + 1\<rparr>)\<lparr>rl_actions := rl_actions r @ [evict_of (xp_source_tier rq) s]\<rparr>"
      have e: "evict_pass rq (s # ss) r = evict_pass rq ss ?r"
        using False new by (cases "te_bytes (sc_expert s)") (simp_all add: Let_def)
      have acts: "rl_actions ?r = rl_actions r @ [evict_of (xp_source_tier rq) s]" "rl_demoted ?r = rl_demoted r"
        by (simp_all split: option.split)
      have ok: "relief_ok rq C ?r"
        by (rule evict_push_ok [OF "2.prems"(1) False]) (use "2.prems" new in auto)
      have d: "sc_key ` set ss \<inter> action_key ` set (rl_actions ?r) \<subseteq> rl_demoted ?r"
        using "2.prems"(3,4) unfolding acts by auto
      have r: "?r = (let r = (case te_bytes (sc_expert s) of
          Some bytes \<Rightarrow> r\<lparr>rl_known := sat_add (rl_known r) bytes\<rparr>
        | None \<Rightarrow> r\<lparr>rl_unknown := rl_unknown r + 1\<rparr>) in r\<lparr>rl_actions := rl_actions r @ [evict_of (xp_source_tier rq) s]\<rparr>)"
        by (cases "te_bytes (sc_expert s)") (simp_all add: Let_def)
      note IH = "2.IH"(2) [OF False new, folded r, OF ok _ _ d]
      show ?thesis unfolding e using IH "2.prems"(2,3) acts by auto
    qed
  qed
qed simp

section \<open>Candidates\<close>

definition pressure_scored ::
  "expert_residency_config \<Rightarrow> (f64 \<Rightarrow> f64) \<Rightarrow> nat \<Rightarrow> expert_key \<times> tracked_expert \<Rightarrow> scored_candidate" where
  "pressure_scored c x now = (\<lambda>((m, i), e). scored c x now m i e)"

lemma pressure_scored_key: "sc_key (pressure_scored c x now p) = fst p" "sc_expert (pressure_scored c x now p) = snd p"
  by (simp_all add: pressure_scored_def sc_key_def scored_def split: prod.split)

lemma pressure_candidates_scored: "pressure_candidates c x now rq st = sort_key cold_candidate_key
    (map (pressure_scored c x now)
      (filter (\<lambda>p. pressure_verdict c x now (xs_pending st) rq p = Eligible) (all_experts st)))"
  by (simp only: pressure_candidates_def pressure_scored_def)

lemma candidates_set:
  "set (pressure_candidates c x now rq st) = pressure_scored c x now `
     {p \<in> set (all_experts st). pressure_verdict c x now (xs_pending st) rq p = Eligible}"
  by (simp only: pressure_candidates_scored set_sort set_map set_filter)

lemma distinct_map_sort: "distinct (map f (sort_key k xs)) = distinct (map f xs)"
proof -
  have "mset (map f (sort_key k xs)) = mset (map f xs)" by simp
  then show ?thesis by (rule mset_eq_imp_distinct_iff)
qed

lemma pressure_candidates_distinct:
  assumes "expert_shape c st"
  shows "distinct (map sc_key (pressure_candidates c x now rq st))"
proof -
  let ?l = "map (pressure_scored c x now)
      (filter (\<lambda>p. pressure_verdict c x now (xs_pending st) rq p = Eligible) (all_experts st))"
  have p: "pressure_candidates c x now rq st = sort_key cold_candidate_key ?l"
    by (rule pressure_candidates_scored)
  have "map sc_key ?l = map fst (filter (\<lambda>p. pressure_verdict c x now (xs_pending st) rq p = Eligible) (all_experts st))"
    by (simp add: pressure_scored_key comp_def)
  then have d: "distinct (map sc_key ?l)"
    using distinct_map_filter [OF all_experts_distinct [OF assms]] by metis
  then show ?thesis unfolding p distinct_map_sort .
qed

text \<open>What a candidate's action sees.\<close>

lemma candidate_facts:
  assumes "expert_shape c st" "s \<in> set (pressure_candidates c x now rq st)"
  shows "find_expert st (sc_key s) = Some (sc_expert s)"
    "pressure_verdict c x now (xs_pending st) rq (sc_key s, sc_expert s) = Eligible"
    "te_tier (sc_expert s) = xp_source_tier rq" "\<not> te_pinned (sc_expert s)" "sc_key s \<notin> xs_pending st"
proof -
  obtain p where p: "p \<in> set (all_experts st)" "pressure_verdict c x now (xs_pending st) rq p = Eligible"
      "s = pressure_scored c x now p"
    using assms(2) unfolding candidates_set by blast
  have k: "sc_key s = fst p" "sc_expert s = snd p" using p(3) by (simp_all add: pressure_scored_key)
  show "find_expert st (sc_key s) = Some (sc_expert s)"
    using all_experts_find [OF assms(1), of "fst p" "snd p"] p(1) k by simp
  show v: "pressure_verdict c x now (xs_pending st) rq (sc_key s, sc_expert s) = Eligible" using p(2) k by simp
  then show "te_tier (sc_expert s) = xp_source_tier rq" "\<not> te_pinned (sc_expert s)" "sc_key s \<notin> xs_pending st"
    by (auto simp: pressure_verdict_def split: if_splits)
qed

lemma relief_of_ok:
  assumes "expert_shape c st" "cs = pressure_candidates c x now rq st"
  shows "relief_ok rq (set cs) (relief_of rq cs)
    \<and> (\<not> relief_done rq (relief_of rq cs) \<longrightarrow> sc_key ` set cs \<subseteq> action_key ` set (rl_actions (relief_of rq cs)))"
proof -
  let ?r0 = "\<lparr>rl_actions = [], rl_known = 0, rl_headroom = xp_ram_headroom_bytes rq, rl_demoted = {}, rl_unknown = 0\<rparr>"
  let ?r1 = "if xp_source_tier rq = Vram then demote_pass rq cs ?r0 else ?r0"
  have d: "distinct (map sc_key cs)" using pressure_candidates_distinct [OF assms(1)] assms(2) by simp
  have r0: "relief_ok rq (set cs) ?r0" by (simp add: relief_ok_def sat_sum_def)
  have r1: "relief_ok rq (set cs) ?r1" using demote_pass_ok [OF r0 _ d] r0 by simp
  have moves: "action_key ` set (rl_actions ?r1) \<subseteq> rl_demoted ?r1"
  proof -
    have "\<forall>a \<in> set (rl_actions (demote_pass rq ss r)). is_move a" if "\<forall>a \<in> set (rl_actions r). is_move a" for ss r
      using that by (induction rq ss r rule: demote_pass.induct) (auto split: option.split)
    from this [of ?r0 cs] have "\<forall>a \<in> set (rl_actions ?r1). is_move a" by simp
    then have "filter is_move (rl_actions ?r1) = rl_actions ?r1" by (simp add: filter_id_conv)
    then show ?thesis using r1 unfolding relief_ok_def by simp
  qed
  then have "sc_key ` set cs \<inter> action_key ` set (rl_actions ?r1) \<subseteq> rl_demoted ?r1" by blast
  from evict_pass_ok [OF r1 _ d this] show ?thesis by (simp add: relief_of_def Let_def)
qed

text \<open>An action that a candidate gives is a claim that \<open>begin_actions\<close> accepts.\<close>

lemma candidate_claim:
  assumes "expert_shape c st" "s \<in> set (pressure_candidates c x now rq st)" "xp_source_tier rq \<noteq> External"
    and "a = evict_of (xp_source_tier rq) s \<or> (xp_source_tier rq = Vram \<and> a = move_of Vram Ram s)"
  shows "action_key a \<notin> xs_pending st \<and> claim_holds st a"
  using candidate_facts [OF assms(1,2)] assms(3,4)
  by (auto simp: claim_holds_def matches_action_def) (simp_all add: evict_of_def move_of_def)

section \<open>Prefetch plans\<close>

lemma prefetch_action:
  assumes "expert_shape c st" "prefetch_candidates c x now m target limit st = Ok pl" "a \<in> set (cp_actions pl)"
  shows "action_key a \<notin> xs_pending st \<and> claim_holds st a \<and> xn_model_id a = m \<and> xn_to a = target \<and> is_move a
    \<and> (\<exists>e. find_expert st (action_key a) = Some e \<and> matches_action e a
         \<and> (target = Ram \<longrightarrow> \<not> te_pinned e) \<and> \<not> in_cooldown e now (xc_transition_cooldown_millis c))"
proof -
  from assms(2) obtain source xs sorted where p: "opposite_memory_tier target = Ok source" "map_of (xs_models st) m = Some xs"
      "sort_movement_candidates (map (\<lambda>(i, e). scored c x now m i e)
         (filter (\<lambda>p. (\<lambda>(i, e). movement_verdict c x now (xs_pending st) source target m i e) p = Eligible) xs)) target = Ok sorted"
      "cp_actions pl = map (move_of source target) (take limit sorted)"
    by (auto simp: prefetch_candidates_def res_bind_Ok Let_def split: option.splits)
  from assms(3) p(4) obtain s where s: "s \<in> set sorted" "a = move_of source target s" by (auto dest: in_set_takeD)
  then obtain i e where e: "(i, e) \<in> set xs" "movement_verdict c x now (xs_pending st) source target m i e = Eligible"
      "s = scored c x now m i e"
    using p(3) by (auto simp: sort_movement_candidates_def split: expert_tier.splits)
  have f: "find_expert st (m, i) = Some e"
    using e(1) p(2) bt_wf_get shape_model [OF assms(1) p(2)] by (metis bind.bind_lunit find_expert_def fst_conv snd_conv)
  have t: "(source, target) \<in> {(Ram, Vram), (Vram, Ram)}"
    using p(1) by (cases target) (auto simp: opposite_memory_tier_def)
  from e(2) have v: "te_tier e = source" "(m, i) \<notin> xs_pending st" "target = Ram \<longrightarrow> \<not> te_pinned e"
      "\<not> in_cooldown e now (xc_transition_cooldown_millis c)"
    by (auto simp: movement_verdict_def split: if_splits)
  show ?thesis using f t v
    by (auto simp: s(2) e(3) move_of_def scored_def action_key_def claim_holds_def matches_action_def is_move_def)
qed

lemma prefetch_distinct:
  assumes "expert_shape c st" "prefetch_candidates c x now m target limit st = Ok pl"
  shows "distinct (map action_key (cp_actions pl))" "length (cp_actions pl) \<le> limit"
    "limit \<le> xc_max_actions c"
proof -
  from assms(2) obtain source xs sorted where p: "map_of (xs_models st) m = Some xs"
      "sort_movement_candidates (map (\<lambda>(i, e). scored c x now m i e)
         (filter (\<lambda>p. (\<lambda>(i, e). movement_verdict c x now (xs_pending st) source target m i e) p = Eligible) xs)) target = Ok sorted"
      "cp_actions pl = map (move_of source target) (take limit sorted)" "limit \<le> xc_max_actions c"
    by (auto simp: prefetch_candidates_def res_bind_Ok Let_def validate_action_limit_def split: option.splits if_splits)
  let ?P = "\<lambda>p. (\<lambda>(i, e). movement_verdict c x now (xs_pending st) source target m i e) p = Eligible"
  let ?l = "map (\<lambda>(i, e). scored c x now m i e) (filter ?P xs)"
  have "map sc_key ?l = map (Pair m) (map fst (filter ?P xs))"
    by (simp add: sc_key_def scored_def comp_def case_prod_beta)
  moreover have "distinct (map fst (filter ?P xs))"
    using distinct_map_filter [OF bt_wf_distinct] shape_model [OF assms(1) p(1)] by blast
  ultimately have d: "distinct (map sc_key ?l)" by (simp add: distinct_map inj_on_def del: map_map)
  have "distinct (map sc_key sorted)"
    using p(2) d by (cases target) (auto simp: sort_movement_candidates_def distinct_map_sort)
  then have "distinct (map sc_key (take limit sorted))" by (metis distinct_take take_map)
  then show "distinct (map action_key (cp_actions pl))" by (simp add: p(3) comp_def)
  show "length (cp_actions pl) \<le> limit" by (simp add: p(3))
  show "limit \<le> xc_max_actions c" by (rule p(4))
qed

section \<open>A worked example\<close>

definition demo_observation :: expert_observation where
  "demo_observation = \<lparr>xo_model_id = lit ''m'', xo_expert_id = lit ''e'', xo_tier = Vram, xo_bytes = Some 10\<rparr>"

definition demo_request :: expert_pressure_request where
  "demo_request = \<lparr>xp_source_tier = Vram, xp_level = EmergencyPressure, xp_relief_bytes = 5,
     xp_ram_headroom_bytes = 100, xp_max_actions = 4\<rparr>"

definition demo_expert_state :: expert_state where
  "demo_expert_state = \<lparr>xs_models = [(lit ''m'', [(lit ''e'', new_expert 7 demo_observation)])],
     xs_pending = {}, xs_total_experts = 1\<rparr>"

definition demo_move :: expert_action where
  "demo_move = MoveExpert (lit ''m'') (lit ''e'') Vram Ram (Some 10) 1"

definition demo_exp2 :: "f64 \<Rightarrow> f64" where "demo_exp2 w = f64_ratio 1 1"

lemma ratio_rounds: "f64_round 2 (Suc 0) = 4611686018427387904" "f64_round (Suc 0) 2 = 4602678819172646912"
  by (simp_all add: f64_round_def f64_bits_def bit_len_rec div_ties_even_def F64_INFINITY_def Let_def)

lemma default_thresholds:
  "f64_is_finite (f64_ratio (Suc 0) 2)" "f64_is_finite (f64_ratio 2 (Suc 0))"
  "\<not> f64_lt (f64_ratio (Suc 0) 2) 0" "\<not> f64_le (f64_ratio 2 (Suc 0)) (f64_ratio (Suc 0) 2)"
  by (simp_all add: f64_ratio_def ratio_rounds f64_make_parts f64_is_finite_def f64_lt_def f64_le_def f64_key_def
    F64_INFINITY_def)

lemma default_config_valid: "expert_config_validate default_expert_config = Ok ()"
  by (simp add: expert_config_validate_def default_expert_config_def validate_bound_def default_thresholds
    MAX_MODELS_def MAX_EXPERTS_PER_MODEL_def MAX_TOTAL_EXPERTS_def MAX_ACCESS_BATCH_def MAX_PAGE_SIZE_def
    MAX_ACTIONS_def MAX_HALF_LIFE_MILLIS_def MAX_COOLDOWN_MILLIS_def)

lemma demo_ids: "validate_model_id (lit ''m'') = Ok ()" "validate_expert_id (lit ''e'') = Ok ()"
  by (simp_all add: validate_model_id_def validate_expert_id_def valid_opaque_id_def lit_def trim_def trim_start_def
    trim_end_def is_whitespace_def str_len_def utf8_width_def is_control_def is_ascii_alnum_def is_ascii_lower_def
    is_ascii_upper_def is_ascii_digit_def starts_with_def)

lemma demo_observed: "xw_state (expert_run default_expert_config x [XObserve 7 demo_observation]) = demo_expert_state"
  by (simp add: expert_run_def expert_world_new_def no_experts_def expert_observe_def demo_ids track_expert_def
    demo_observation_def demo_expert_state_def bt_contains_def default_expert_config_def sat_add_def u64_max_def Let_def)

lemma demo_pressure:
  "\<exists>pl. expert_plan_pressure default_expert_config x 8 demo_request demo_expert_state = Ok pl \<and> pp_actions pl = [demo_move]
     \<and> pp_unresolved_relief_bytes pl = 0"
  by (simp add: expert_plan_pressure_def validate_action_limit_def demo_request_def default_expert_config_def
    pressure_candidates_def all_experts_def pressure_verdict_def demo_expert_state_def new_expert_def demo_observation_def
    relief_of_def relief_done_def scored_def move_of_def demo_move_def sat_add_def u64_max_def Let_def)

lemma demo_begun:
  "xw_permits (expert_run default_expert_config x [XObserve 7 demo_observation, XBegin [demo_move]]) = [[demo_move]]"
proof -
  have "find_expert demo_expert_state (lit ''m'', lit ''e'') = Some (new_expert 7 demo_observation)"
    by (simp add: find_expert_def demo_expert_state_def)
  then have "claim_holds demo_expert_state demo_move"
    by (simp add: claim_holds_def demo_move_def action_key_def matches_action_def new_expert_def demo_observation_def)
  then have "expert_begin_actions default_expert_config [demo_move] demo_expert_state =
      (Ok [demo_move], demo_expert_state\<lparr>xs_pending := {action_key demo_move}\<rparr>)"
    by (simp add: begin_Ok) (simp add: demo_expert_state_def default_expert_config_def)
  moreover have "xw_permits (expert_run default_expert_config x [XObserve 7 demo_observation]) = []"
    by (simp add: expert_run_def expert_world_new_def)
  ultimately show ?thesis using demo_observed [of x] by (simp add: expert_run_def)
qed

section \<open>Properties\<close>

text \<open>
  C15. The expert books are exact. After any sequence of observations, accesses, pin changes,
  claims, commits and drops, the total is the number of tracked experts and within its limit,
  so are the models and the experts of each, no model is empty, what is in flight is exactly
  what the outstanding permits claim, no expert twice, and every hotness is a finite number
  between zero and the maximum.
\<close>

theorem expert_books_exact:
  assumes "expert_config_validate c = Ok ()" and "w = expert_run c x es" and "st = xw_state w"
  shows "xs_total_experts st = length (all_experts st) \<and> length (all_experts st) \<le> xc_max_total_experts c
    \<and> length (xs_models st) \<le> xc_max_models c
    \<and> (\<forall>xs \<in> snd ` set (xs_models st). xs \<noteq> [] \<and> length xs \<le> xc_max_experts_per_model c)
    \<and> xs_pending st = set (claimed (xw_permits w)) \<and> distinct (claimed (xw_permits w))
    \<and> (\<forall>(k, e) \<in> set (all_experts st). f64_is_finite (te_hotness e) \<and> f64_le 0 (te_hotness e)
         \<and> f64_le (te_hotness e) MAX_HOTNESS)"
proof -
  have inv: "expert_inv c st (xw_permits w)" unfolding assms(2,3) by (rule expert_run_inv [OF assms(1)])
  then have sh: "expert_shape c st" by (simp add: expert_inv_def)
  have h: "f64_is_finite (te_hotness e) \<and> f64_le 0 (te_hotness e) \<and> f64_le (te_hotness e) MAX_HOTNESS"
    if "(k, e) \<in> set (all_experts st)" for k e
  proof -
    have "expert_ok e" using that inv all_experts_find [OF sh] unfolding expert_inv_def by blast
    then show ?thesis by (simp add: expert_ok_def f64_le_def f64_zero f64_finite_nan)
  qed
  have m: "\<forall>xs \<in> snd ` set (xs_models st). xs \<noteq> [] \<and> length xs \<le> xc_max_experts_per_model c"
    using inv unfolding expert_inv_def expert_shape_def by blast
  have "xs_pending st = set (claimed (xw_permits w))" "distinct (claimed (xw_permits w))"
    using inv by (simp_all add: expert_inv_def)
  moreover have "xs_total_experts st = length (all_experts st)" "xs_total_experts st \<le> xc_max_total_experts c"
    "length (xs_models st) \<le> xc_max_models c"
    using sh by (simp_all add: expert_shape_def all_experts_length)
  ultimately show ?thesis using m h by auto
qed

theorem expert_books_exact_witness:
  "xs_total_experts (xw_state (expert_run default_expert_config demo_exp2 [XObserve 7 demo_observation])) = 1
     \<and> length (all_experts demo_expert_state) = 1"
  using expert_books_exact [OF default_config_valid refl refl, of demo_exp2 "[XObserve 7 demo_observation]"]
  by (simp add: demo_observed) (simp add: demo_expert_state_def all_experts_def)

text \<open>
  An outstanding permit always commits. Whatever happened since it was granted, the commit
  returns a value: every moved expert is in the target tier with the time of its move, every
  evicted expert is gone and was not pinned, all other experts are untouched, and exactly the
  permit's claims are released.
\<close>

theorem expert_permit_commits:
  assumes "expert_config_validate c = Ok ()" and "w = expert_run c x es" and "st = xw_state w"
    and "p \<in> set (xw_permits w)"
  shows "\<exists>out st'. expert_commit c x now p st = (Ok out, st')
    \<and> (\<forall>a \<in> set p. \<exists>e. find_expert st (action_key a) = Some e
         \<and> (if is_move a
            then find_expert st' (action_key a) = Some (moved_expert now (xn_to a) e)
            else \<not> te_pinned e \<and> find_expert st' (action_key a) = None))
    \<and> (\<forall>k. k \<notin> action_key ` set p \<longrightarrow> find_expert st' k = find_expert st k)
    \<and> xs_pending st' = xs_pending st - action_key ` set p"
proof -
  have inv: "expert_inv c st (xw_permits w)" unfolding assms(2,3) by (rule expert_run_inv [OF assms(1)])
  obtain out st' where r: "expert_commit c x now p st = (Ok out, st')" "xs_pending st' = xs_pending st - action_key ` set p"
      "\<And>k. k \<notin> action_key ` set p \<Longrightarrow> find_expert st' k = find_expert st k"
      "\<And>a. a \<in> set p \<Longrightarrow> find_expert st' (action_key a) = Option.bind (find_expert st (action_key a)) (action_result now a)"
    by (rule commit_result [OF inv assms(4), of x now]) (rule that)
  have "\<exists>e. find_expert st (action_key a) = Some e \<and> (if is_move a
      then find_expert st' (action_key a) = Some (moved_expert now (xn_to a) e)
      else \<not> te_pinned e \<and> find_expert st' (action_key a) = None)" if a: "a \<in> set p" for a
  proof -
    have "claim_holds st a" using inv_permit(1) [OF inv assms(4)] a by blast
    then show ?thesis using r(4) [OF a]
      by (cases a) (auto simp: claim_holds_def is_move_def action_result_def)
  qed
  with r(1-3) show ?thesis by blast
qed

theorem expert_permit_commits_witness:
  "\<exists>out st'. expert_commit default_expert_config demo_exp2 9 [demo_move]
     (xw_state (expert_run default_expert_config demo_exp2 [XObserve 7 demo_observation, XBegin [demo_move]])) = (Ok out, st')"
  using expert_permit_commits [OF default_config_valid refl refl, of "[demo_move]" demo_exp2
    "[XObserve 7 demo_observation, XBegin [demo_move]]" 9] demo_begun [of demo_exp2] by auto

text \<open>
  Pressure plans for experts. In every reachable state a plan has at most the requested
  number of actions, each on a different expert that passed every guard and is as the action
  says; the demoted bytes fit the given headroom; the known relief is the total of the known
  sizes; without its last action the plan would fall short; and a plan that falls short with
  actions to spare acts on every expert that passed the guards.
\<close>

theorem expert_pressure_plan_sound:
  assumes "expert_config_validate c = Ok ()" and "st = xw_state (expert_run c x es)"
    and "expert_plan_pressure c x now rq st = Ok pl"
  shows "length (pp_actions pl) \<le> xp_max_actions rq \<and> distinct (map action_key (pp_actions pl))
    \<and> (\<forall>a \<in> set (pp_actions pl). \<exists>e. find_expert st (action_key a) = Some e \<and> matches_action e a
         \<and> pressure_verdict c x now (xs_pending st) rq (action_key a, e) = Eligible)
    \<and> sum_list (map action_bytes (filter is_move (pp_actions pl))) \<le> xp_ram_headroom_bytes rq
    \<and> pp_known_planned_relief_bytes pl = sat_sum (map action_bytes (pp_actions pl))
    \<and> (pp_actions pl \<noteq> [] \<longrightarrow> sat_sum (map action_bytes (butlast (pp_actions pl))) < xp_relief_bytes rq)
    \<and> (0 < pp_unresolved_relief_bytes pl \<longrightarrow> length (pp_actions pl) < xp_max_actions rq \<longrightarrow>
         (\<forall>k e. find_expert st k = Some e \<longrightarrow> pressure_verdict c x now (xs_pending st) rq (k, e) = Eligible \<longrightarrow>
            k \<in> action_key ` set (pp_actions pl)))"
proof -
  have sh: "expert_shape c st" using expert_run_inv [OF assms(1), of x es] assms(2) by (simp add: expert_inv_def)
  define cs r where "cs = pressure_candidates c x now rq st" and "r = relief_of rq cs"
  have pl: "pp_actions pl = rl_actions r" "pp_known_planned_relief_bytes pl = rl_known r"
      "pp_unresolved_relief_bytes pl = xp_relief_bytes rq - rl_known r" "xp_source_tier rq \<noteq> External"
    using assms(3) by (auto simp: expert_plan_pressure_def res_bind_Ok cs_def r_def Let_def split: if_splits)
  have ok: "relief_ok rq (set cs) r"
    and all: "\<not> relief_done rq r \<longrightarrow> sc_key ` set cs \<subseteq> action_key ` set (rl_actions r)"
    using relief_of_ok [OF sh cs_def] by (simp_all add: r_def)
  have each: "\<exists>e. find_expert st (action_key a) = Some e \<and> matches_action e a
      \<and> pressure_verdict c x now (xs_pending st) rq (action_key a, e) = Eligible" if "a \<in> set (rl_actions r)" for a
  proof -
    obtain s where s: "s \<in> set cs" "a = evict_of (xp_source_tier rq) s \<or> (xp_source_tier rq = Vram \<and> a = move_of Vram Ram s)"
      using ok \<open>a \<in> set (rl_actions r)\<close> unfolding relief_ok_def by blast
    note f = candidate_facts [OF sh s(1) [unfolded cs_def]]
    have "matches_action (sc_expert s) a" using s(2) f(3) by (auto simp: matches_action_def evict_of_def move_of_def)
    with s(2) f(1,2) show ?thesis by auto
  qed
  have exhaustive: "k \<in> action_key ` set (rl_actions r)"
    if "0 < pp_unresolved_relief_bytes pl" "length (rl_actions r) < xp_max_actions rq" "find_expert st k = Some e"
      "pressure_verdict c x now (xs_pending st) rq (k, e) = Eligible" for k e
  proof -
    have "\<not> relief_done rq r" using that(1,2) pl(3) by (simp add: relief_done_def)
    moreover have "k \<in> sc_key ` set cs"
      using that(3,4) all_experts_find [OF sh, of k e] unfolding cs_def candidates_set
      by (force simp: pressure_scored_key image_image)
    ultimately show ?thesis using all by blast
  qed
  have "sum_list (map action_bytes (filter is_move (rl_actions r))) \<le> xp_ram_headroom_bytes rq"
    "rl_known r = sat_sum (map action_bytes (rl_actions r))" "length (rl_actions r) \<le> xp_max_actions rq"
    "distinct (map action_key (rl_actions r))"
    "rl_actions r \<noteq> [] \<longrightarrow> sat_sum (map action_bytes (butlast (rl_actions r))) < xp_relief_bytes rq"
    using ok unfolding relief_ok_def by auto
  with each exhaustive pl(1,2) show ?thesis by simp
qed

theorem expert_pressure_plan_sound_witness:
  "\<exists>pl. expert_plan_pressure default_expert_config demo_exp2 8 demo_request demo_expert_state = Ok pl
     \<and> pp_known_planned_relief_bytes pl = 10"
proof -
  obtain pl where pl: "expert_plan_pressure default_expert_config demo_exp2 8 demo_request demo_expert_state = Ok pl"
      "pp_actions pl = [demo_move]"
    using demo_pressure by blast
  from expert_pressure_plan_sound [OF default_config_valid demo_observed [symmetric] pl(1)] pl
  show ?thesis by (simp add: demo_move_def action_bytes_def sat_sum_def sat_add_def u64_max_def)
qed

text \<open>
  Planning agrees with admission. Every pressure plan and every prefetch plan that has an
  action can be begun as one batch in the state it was made for: \<open>begin_actions\<close> returns the
  permit and marks exactly its experts as in flight.
\<close>

theorem expert_plans_can_be_begun:
  assumes "expert_config_validate c = Ok ()" and "st = xw_state (expert_run c x es)" and "actions \<noteq> []"
    and "(\<exists>pl. expert_plan_pressure c x now rq st = Ok pl \<and> actions = pp_actions pl)
      \<or> (\<exists>pl. prefetch_candidates c x now m target limit st = Ok pl \<and> actions = cp_actions pl)"
  shows "expert_begin_actions c actions st =
    (Ok actions, st\<lparr>xs_pending := xs_pending st \<union> action_key ` set actions\<rparr>)"
proof -
  have sh: "expert_shape c st" using expert_run_inv [OF assms(1), of x es] assms(2) by (simp add: expert_inv_def)
  have "length actions \<le> xc_max_actions c \<and> distinct (map action_key actions)
      \<and> (\<forall>a \<in> set actions. action_key a \<notin> xs_pending st \<and> claim_holds st a)"
    using assms(4)
  proof
    assume "\<exists>pl. expert_plan_pressure c x now rq st = Ok pl \<and> actions = pp_actions pl"
    then obtain pl where pl: "expert_plan_pressure c x now rq st = Ok pl" "actions = pp_actions pl" by blast
    let ?cs = "pressure_candidates c x now rq st"
    have a: "actions = rl_actions (relief_of rq ?cs)" "xp_source_tier rq \<noteq> External" "xp_max_actions rq \<le> xc_max_actions c"
      using pl by (auto simp: expert_plan_pressure_def res_bind_Ok validate_action_limit_def Let_def split: if_splits)
    have ok: "relief_ok rq (set ?cs) (relief_of rq ?cs)" using relief_of_ok [OF sh refl] by simp
    have "action_key b \<notin> xs_pending st \<and> claim_holds st b" if "b \<in> set actions" for b
      using ok that candidate_claim [OF sh _ a(2)] unfolding relief_ok_def a(1) by blast
    moreover have "length actions \<le> xp_max_actions rq" "distinct (map action_key actions)"
      using ok unfolding relief_ok_def a(1) by blast+
    ultimately show ?thesis using a(3) by simp
  next
    assume "\<exists>pl. prefetch_candidates c x now m target limit st = Ok pl \<and> actions = cp_actions pl"
    then obtain pl where "prefetch_candidates c x now m target limit st = Ok pl" "actions = cp_actions pl" by blast
    with prefetch_action [OF sh] prefetch_distinct [OF sh] show ?thesis by (meson le_trans)
  qed
  then show ?thesis using assms(3) by (simp add: begin_Ok)
qed

theorem expert_plans_can_be_begun_witness:
  "fst (expert_begin_actions default_expert_config [demo_move] demo_expert_state) = Ok [demo_move]"
proof -
  define x where "x = (\<lambda>w :: f64. w)"
  have "\<exists>pl. expert_plan_pressure default_expert_config x 8 demo_request demo_expert_state = Ok pl \<and> [demo_move] = pp_actions pl"
    using demo_pressure [of x] by metis
  from expert_plans_can_be_begun [OF default_config_valid demo_observed [symmetric] _ disjI1 [OF this]]
  show ?thesis by simp
qed

end
