(* ===== verification/Expert_Listing.thy ===== *)
theory Expert_Listing
  imports Expert_Claims Rust_Text
begin

text \<open>
  Listing of experts in pages (\<open>src/src/runtime_control/experts.rs\<close>): rows ordered by a
  digest of their key, and cursors that bind a page to its filter. The digest and the base64
  codec are third-party code: the record \<open>cursor_codec\<close> carries them, and \<open>codec_ok\<close> states
  the documented facts that the pages rest on. Also the check of action requests.
\<close>

section \<open>Bytes\<close>

definition u64_be_bytes :: "nat \<Rightarrow> nat list" where
  "u64_be_bytes n = map (\<lambda>i. n div 256 ^ i mod 256) [7, 6, 5, 4, 3, 2, 1, 0]"

section \<open>Cursors\<close>

record cursor_codec =
  cc_sha256 :: "nat list \<Rightarrow> nat list"
  cc_encode :: "nat list \<Rightarrow> rstr"
  cc_decode :: "rstr \<Rightarrow> nat list option"

definition hash_filter :: "cursor_codec \<Rightarrow> rstr option \<Rightarrow> expert_tier option \<Rightarrow> nat list" where
  "hash_filter cd model tier = cc_sha256 cd
     (CURSOR_DOMAIN @ lit ''filter'' @ [0]
      @ (case model of
           Some m \<Rightarrow> lit ''model'' @ [0] @ u64_be_bytes (str_len m) @ as_bytes m
         | None \<Rightarrow> lit ''all-models'' @ [0])
      @ [case tier of None \<Rightarrow> 0 | Some Vram \<Rightarrow> 1 | Some Ram \<Rightarrow> 2 | Some External \<Rightarrow> 3])"

definition hash_key :: "cursor_codec \<Rightarrow> rstr \<Rightarrow> rstr \<Rightarrow> nat list" where
  "hash_key cd model expert = cc_sha256 cd
     (CURSOR_DOMAIN @ lit ''key'' @ [0] @ u64_be_bytes (str_len model) @ as_bytes model
      @ u64_be_bytes (str_len expert) @ as_bytes expert)"

definition encode_cursor :: "cursor_codec \<Rightarrow> nat list \<Rightarrow> nat list \<Rightarrow> rstr" where
  "encode_cursor cd filter_hash key_hash = cc_encode cd (filter_hash @ key_hash)"

definition decode_cursor :: "cursor_codec \<Rightarrow> rstr \<Rightarrow> nat list \<Rightarrow> (expert_error, nat list) res" where
  "decode_cursor cd cursor expected =
     (if str_len cursor > 128 then Err InvalidCursor
      else (case cc_decode cd cursor of
          None \<Rightarrow> Err InvalidCursor
        | Some bytes \<Rightarrow>
            if length bytes \<noteq> CURSOR_BYTES \<or> take 32 bytes \<noteq> expected then Err InvalidCursor
            else Ok (drop 32 bytes)))"

section \<open>Pages\<close>

record expert_list_filter =
  xf_model_id :: "rstr option"
  xf_tier :: "expert_tier option"
  xf_limit :: "nat option"
  xf_cursor :: "rstr option"

record expert_list_response =
  xr_experts :: "expert_summary list"
  xr_next_cursor :: "rstr option"

definition page_limit :: "expert_residency_config \<Rightarrow> expert_list_filter \<Rightarrow> nat" where
  "page_limit c f = (case xf_limit f of
     Some n \<Rightarrow> n
   | None \<Rightarrow> if xc_default_page_size c \<le> 65535 then xc_default_page_size c else 65535)"

definition row_wanted :: "expert_list_filter \<Rightarrow> expert_key \<times> tracked_expert \<Rightarrow> bool" where
  "row_wanted f p = (case p of ((model, expert), e) \<Rightarrow>
     (case xf_model_id f of None \<Rightarrow> True | Some wanted \<Rightarrow> wanted = model)
     \<and> (case xf_tier f of None \<Rightarrow> True | Some tier \<Rightarrow> tier = te_tier e))"

definition list_row ::
  "expert_residency_config \<Rightarrow> cursor_codec \<Rightarrow> (f64 \<Rightarrow> f64) \<Rightarrow> nat \<Rightarrow> expert_key \<times> tracked_expert \<Rightarrow> nat list \<times> expert_summary" where
  "list_row c cd exp2 now p = (case p of ((model, expert), e) \<Rightarrow>
     (hash_key cd model expert, summary_from_entry exp2 model expert e now (xc_hotness_half_life_millis c)))"

definition list_rows ::
  "expert_residency_config \<Rightarrow> cursor_codec \<Rightarrow> (f64 \<Rightarrow> f64) \<Rightarrow> nat \<Rightarrow> expert_list_filter \<Rightarrow> nat list option \<Rightarrow> expert_state \<Rightarrow>
     (nat list \<times> expert_summary) list"
where
  "list_rows c cd exp2 now f after st =
     filter (\<lambda>r. case after of None \<Rightarrow> True | Some h \<Rightarrow> h < fst r)
       (map (list_row c cd exp2 now) (filter (row_wanted f) (all_experts st)))"

fun adjacent_equal :: "(nat list \<times> 'a) list \<Rightarrow> bool" where
  "adjacent_equal (a # b # rows) = (fst a = fst b \<or> adjacent_equal (b # rows))"
| "adjacent_equal rows = False"

definition expert_list ::
  "expert_residency_config \<Rightarrow> cursor_codec \<Rightarrow> (f64 \<Rightarrow> f64) \<Rightarrow> nat \<Rightarrow> expert_list_filter \<Rightarrow> expert_state \<Rightarrow>
     (expert_error, expert_list_response) res"
where
  "expert_list c cd exp2 now f st =
     res_bind (case xf_model_id f of None \<Rightarrow> Ok () | Some m \<Rightarrow> validate_model_id m) (\<lambda>_.
       let limit = page_limit c f
       in if limit = 0 \<or> limit > xc_max_page_size c then Err (InvalidLimit (lit ''page'') (xc_max_page_size c))
          else (let filter_hash = hash_filter cd (xf_model_id f) (xf_tier f)
                in res_bind (case xf_cursor f of
                     None \<Rightarrow> Ok None
                   | Some cursor \<Rightarrow> res_bind (decode_cursor cd cursor filter_hash) (\<lambda>h. Ok (Some h))) (\<lambda>after.
                     let rows = sort_key fst (list_rows c cd exp2 now f after st)
                     in if adjacent_equal rows then Err CursorCollision
                        else (let has_more = length rows > limit; rows = take limit rows
                              in Ok \<lparr>xr_experts = map snd rows,
                                     xr_next_cursor =
                                       (if has_more \<and> rows \<noteq> []
                                        then Some (encode_cursor cd filter_hash (fst (last rows))) else None)\<rparr>))))"

text \<open>A client that follows the cursors, with a bound on the requests it makes.\<close>

fun follow_pages ::
  "nat \<Rightarrow> expert_residency_config \<Rightarrow> cursor_codec \<Rightarrow> (f64 \<Rightarrow> f64) \<Rightarrow> nat \<Rightarrow> expert_list_filter \<Rightarrow> expert_state \<Rightarrow>
     (expert_error, expert_summary list list) res option"
where
  "follow_pages 0 c cd exp2 now f st = None"
| "follow_pages (Suc n) c cd exp2 now f st =
     (case expert_list c cd exp2 now f st of
        Ok r \<Rightarrow>
          (case xr_next_cursor r of
             None \<Rightarrow> Some (Ok [xr_experts r])
           | Some cursor \<Rightarrow>
               map_option (\<lambda>rest. res_bind rest (\<lambda>pages. Ok (xr_experts r # pages)))
                 (follow_pages n c cd exp2 now (f\<lparr>xf_cursor := Some cursor\<rparr>) st))
      | Err e \<Rightarrow> Some (Err e)
      | Panic \<Rightarrow> Some Panic)"

section \<open>Action requests\<close>

datatype expert_action_kind = PrefetchAction | PinAction | UnpinAction | EvictAction

record expert_action_request =
  xq_model_id :: rstr
  xq_expert_ids :: "rstr list"
  xq_action :: expert_action_kind
  xq_target_tier :: "expert_tier option"

datatype request_issue =
    UnsafeModelId
  | NoExpertIds
  | TooManyExpertIds nat
  | InvalidIdentifier
  | DuplicateIdentifier
  | PrefetchToExternal
  | PrefetchWithoutTier
  | TierNotAllowed

fun check_request_ids :: "rstr list \<Rightarrow> rstr set \<Rightarrow> (request_issue, unit) res" where
  "check_request_ids [] seen = Ok ()"
| "check_request_ids (i # ids) seen =
     (if \<not> valid_opaque_id i then Err InvalidIdentifier
      else if i \<in> seen then Err DuplicateIdentifier
      else check_request_ids ids (insert i seen))"

definition validate_expert_action :: "expert_action_request \<Rightarrow> nat \<Rightarrow> (request_issue, unit) res" where
  "validate_expert_action rq max_ids =
     (if trim (xq_model_id rq) = [] \<or> str_len (xq_model_id rq) > 256 \<or> list_ex is_control (xq_model_id rq)
        \<or> contains_str (lit ''..'') (xq_model_id rq)
      then Err UnsafeModelId
      else if xq_expert_ids rq = [] then Err NoExpertIds
      else if length (xq_expert_ids rq) > max_ids then Err (TooManyExpertIds max_ids)
      else res_bind (check_request_ids (xq_expert_ids rq) {}) (\<lambda>_.
        case (xq_action rq, xq_target_tier rq) of
          (PrefetchAction, Some External) \<Rightarrow> Err PrefetchToExternal
        | (PrefetchAction, Some _) \<Rightarrow> Ok ()
        | (PrefetchAction, None) \<Rightarrow> Err PrefetchWithoutTier
        | (_, None) \<Rightarrow> Ok ()
        | (_, Some _) \<Rightarrow> Err TierNotAllowed))"

section \<open>Pages are slices of one ordered list\<close>

text \<open>Digests of 32 bytes, and a codec that reads back what it wrote.\<close>

definition codec_ok :: "cursor_codec \<Rightarrow> bool" where
  "codec_ok cd \<longleftrightarrow> (\<forall>b. length (cc_sha256 cd b) = 32 \<and> (\<forall>x \<in> set (cc_sha256 cd b). x < 256))
     \<and> (\<forall>b. length b = 64 \<longrightarrow> (\<forall>x \<in> set b. x < 256) \<longrightarrow> cc_decode cd (cc_encode cd b) = Some b \<and> str_len (cc_encode cd b) \<le> 128)"

lemma decode_encode:
  assumes "codec_ok cd"
  shows "decode_cursor cd (encode_cursor cd (hash_filter cd m t) (hash_key cd a b)) (hash_filter cd m t)
    = Ok (hash_key cd a b)"
proof -
  have l: "length (hash_filter cd m t) = 32" "length (hash_key cd a b) = 32"
    "\<forall>x \<in> set (hash_filter cd m t @ hash_key cd a b). x < 256"
    using assms by (auto simp: codec_ok_def hash_filter_def hash_key_def)
  let ?b = "hash_filter cd m t @ hash_key cd a b"
  have "cc_decode cd (cc_encode cd ?b) = Some ?b" "str_len (cc_encode cd ?b) \<le> 128"
    using assms [unfolded codec_ok_def, THEN conjunct2, rule_format, of ?b] l by auto
  with l show ?thesis by (simp add: decode_cursor_def encode_cursor_def CURSOR_BYTES_def)
qed

definition all_rows ::
  "expert_residency_config \<Rightarrow> cursor_codec \<Rightarrow> (f64 \<Rightarrow> f64) \<Rightarrow> nat \<Rightarrow> expert_list_filter \<Rightarrow> expert_state \<Rightarrow>
     (nat list \<times> expert_summary) list" where
  "all_rows c cd x now f st = sort_key fst (map (list_row c cd x now) (filter (row_wanted f) (all_experts st)))"

text \<open>No two tracked experts have the same digest.\<close>

definition no_collision :: "cursor_codec \<Rightarrow> expert_state \<Rightarrow> bool" where
  "no_collision cd st \<longleftrightarrow> distinct (map (\<lambda>((m, i), e). hash_key cd m i) (all_experts st))"

lemma all_rows_distinct:
  assumes "no_collision cd st"
  shows "distinct (map fst (all_rows c cd x now f st))"
proof -
  have "map fst (map (list_row c cd x now) ps) = map (\<lambda>((m, i), e). hash_key cd m i) ps" for ps
    by (induction ps) (auto simp: list_row_def)
  then have "distinct (map fst (map (list_row c cd x now) (filter (row_wanted f) (all_experts st))))"
    using distinct_map_filter [OF assms [unfolded no_collision_def]] by metis
  then show ?thesis unfolding all_rows_def distinct_map_sort .
qed

lemma not_adjacent: "distinct (map fst rows) \<Longrightarrow> \<not> adjacent_equal rows"
  by (induction rows rule: adjacent_equal.induct) auto

lemma rows_after: "sort_key fst (list_rows c cd x now f after st) =
    filter (\<lambda>r. case after of None \<Rightarrow> True | Some h \<Rightarrow> h < fst r) (all_rows c cd x now f st)"
  by (simp add: list_rows_def all_rows_def filter_sort)

lemma filter_after:
  fixes rows :: "('k::linorder \<times> 'v) list"
  assumes "sorted (map fst rows)" "distinct (map fst rows)" "j < length rows"
  shows "filter (\<lambda>r. fst (rows ! j) < fst r) rows = drop (Suc j) rows"
proof -
  have lt: "fst (rows ! i) < fst (rows ! k)" if "i < k" "k < length rows" for i k
  proof -
    have "fst (rows ! i) \<le> fst (rows ! k)" using sorted_nth_mono [OF assms(1), of i k] that by simp
    moreover have "fst (rows ! i) \<noteq> fst (rows ! k)"
      using nth_eq_iff_index_eq [OF assms(2), of i k] that by simp
    ultimately show ?thesis by simp
  qed
  have "filter (\<lambda>r. fst (rows ! j) < fst r) (take (Suc j) rows) = []"
  proof -
    have "\<not> fst (rows ! j) < fst r" if r: "r \<in> set (take (Suc j) rows)" for r
    proof -
      obtain i where "i < length (take (Suc j) rows)" "r = take (Suc j) rows ! i"
        using r unfolding in_set_conv_nth by blast
      then have "i < Suc j" "r = rows ! i" by simp_all
      show ?thesis
      proof (cases "i = j")
        case False
        with \<open>i < Suc j\<close> have "i < j" by linarith
        then have "fst (rows ! i) < fst (rows ! j)" using assms(3) by (rule lt)
        then show ?thesis unfolding \<open>r = rows ! i\<close> by simp
      qed (simp add: \<open>r = rows ! i\<close>)
    qed
    then show ?thesis by (simp add: filter_empty_conv)
  qed
  moreover have "filter (\<lambda>r. fst (rows ! j) < fst r) (drop (Suc j) rows) = drop (Suc j) rows"
  proof -
    have "fst (rows ! j) < fst r" if r: "r \<in> set (drop (Suc j) rows)" for r
    proof -
      obtain i where "i < length (drop (Suc j) rows)" "r = drop (Suc j) rows ! i"
        using r unfolding in_set_conv_nth by blast
      then have "i < length rows - Suc j" "r = rows ! (Suc j + i)" by simp_all
      then show ?thesis using lt [of j "Suc j + i"] by simp
    qed
    then show ?thesis by (simp add: filter_id_conv)
  qed
  ultimately show ?thesis by (metis append_take_drop_id filter_append self_append_conv2)
qed

lemma all_rows_cursor [simp]:
  "all_rows c cd x now (f\<lparr>xf_cursor := z\<rparr>) st = all_rows c cd x now f st"
  "page_limit c (f\<lparr>xf_cursor := z\<rparr>) = page_limit c f"
proof -
  have "row_wanted (f\<lparr>xf_cursor := z\<rparr>) = row_wanted f" by (rule ext) (simp add: row_wanted_def)
  then show "all_rows c cd x now (f\<lparr>xf_cursor := z\<rparr>) st = all_rows c cd x now f st" by (simp add: all_rows_def)
qed (simp add: page_limit_def)

lemma all_rows_hash: "r \<in> set (all_rows c cd x now f st) \<Longrightarrow> \<exists>m i. fst r = hash_key cd m i"
  unfolding all_rows_def set_sort set_map by (force simp: list_row_def)

text \<open>The filter of the \<open>j\<close>-th row's successor, and what its page holds.\<close>

definition page_filter :: "cursor_codec \<Rightarrow> expert_list_filter \<Rightarrow> (nat list \<times> expert_summary) list \<Rightarrow> nat \<Rightarrow> expert_list_filter" where
  "page_filter cd f rows j = f\<lparr>xf_cursor := (case j of 0 \<Rightarrow> None
     | Suc i \<Rightarrow> Some (encode_cursor cd (hash_filter cd (xf_model_id f) (xf_tier f)) (fst (rows ! i))))\<rparr>"

definition listing_ok :: "expert_residency_config \<Rightarrow> cursor_codec \<Rightarrow> expert_list_filter \<Rightarrow> expert_state \<Rightarrow> bool" where
  "listing_ok c cd f st \<longleftrightarrow> codec_ok cd \<and> no_collision cd st
     \<and> (\<forall>m. xf_model_id f = Some m \<longrightarrow> validate_model_id m = Ok ())
     \<and> 0 < page_limit c f \<and> page_limit c f \<le> xc_max_page_size c"

lemma list_page:
  assumes "listing_ok c cd f st" and R: "R = all_rows c cd x now f st" and "j < length R \<or> j = 0"
  shows "expert_list c cd x now (page_filter cd f R j) st =
    Ok \<lparr>xr_experts = map snd (take (page_limit c f) (drop j R)),
        xr_next_cursor = (if j + page_limit c f < length R
          then xf_cursor (page_filter cd f R (j + page_limit c f)) else None)\<rparr>"
proof -
  let ?f = "page_filter cd f R j" and ?h = "hash_filter cd (xf_model_id f) (xf_tier f)" and ?n = "page_limit c f"
  have ok: "codec_ok cd" "no_collision cd st" "0 < ?n" "?n \<le> xc_max_page_size c"
      "\<forall>m. xf_model_id f = Some m \<longrightarrow> validate_model_id m = Ok ()"
    using assms(1) by (simp_all add: listing_ok_def)
  have f: "xf_model_id ?f = xf_model_id f" "xf_tier ?f = xf_tier f" "page_limit c ?f = ?n"
      "all_rows c cd x now ?f st = R"
    by (simp_all add: page_filter_def R)
  have srt: "sorted (map fst R)" "distinct (map fst R)" using all_rows_distinct [OF ok(2)] by (simp_all add: R all_rows_def)
  have "\<exists>after. (case xf_cursor ?f of None \<Rightarrow> Ok None
      | Some cursor \<Rightarrow> res_bind (decode_cursor cd cursor ?h) (\<lambda>h. Ok (Some h))) = Ok after
      \<and> sort_key fst (list_rows c cd x now ?f after st) = drop j R"
  proof (cases j)
    case 0
    then show ?thesis using rows_after [of c cd x now ?f None st] f(4) by (simp add: page_filter_def)
  next
    case (Suc i)
    with assms(3) have i: "i < length R" by simp
    obtain m e where k: "fst (R ! i) = hash_key cd m e" using all_rows_hash nth_mem [OF i] R by metis
    have "decode_cursor cd (encode_cursor cd ?h (fst (R ! i))) ?h = Ok (fst (R ! i))"
      unfolding k by (rule decode_encode [OF ok(1)])
    moreover have "sort_key fst (list_rows c cd x now ?f (Some (fst (R ! i))) st) = drop j R"
      using rows_after [of c cd x now ?f "Some (fst (R ! i))" st] f(4) filter_after [OF srt i] Suc by simp
    ultimately show ?thesis using Suc by (simp add: page_filter_def)
  qed
  then obtain after where a: "(case xf_cursor ?f of None \<Rightarrow> Ok None
      | Some cursor \<Rightarrow> res_bind (decode_cursor cd cursor ?h) (\<lambda>h. Ok (Some h))) = Ok after"
      "sort_key fst (list_rows c cd x now ?f after st) = drop j R" by blast
  have nd: "\<not> adjacent_equal (drop j R)" using not_adjacent srt(2) by (metis distinct_drop drop_map)
  have m: "(case xf_model_id f of None \<Rightarrow> Ok () | Some m \<Rightarrow> validate_model_id m) = Ok ()"
    using ok(5) by (auto split: option.split)
  have more: "?n < length (drop j R) \<longleftrightarrow> j + ?n < length R" by auto
  have last': "fst (last (take ?n (drop j R))) = fst (R ! (j + ?n - 1))" if "j + ?n < length R"
  proof -
    have "last (take ?n (drop j R)) = take ?n (drop j R) ! (?n - 1)"
      using that ok(3) by (subst last_conv_nth) (auto simp: min_def)
    also have "\<dots> = R ! (j + ?n - 1)" using that ok(3) by simp
    finally show ?thesis by simp
  qed
  have next': "xf_cursor (page_filter cd f R (j + ?n)) = Some (encode_cursor cd ?h (fst (R ! (j + ?n - 1))))"
    using ok(3) by (cases "j + ?n") (simp_all add: page_filter_def)
  have ne: "take ?n (drop j R) \<noteq> []" if "j + ?n < length R" using that ok(3) by simp
  show ?thesis
  proof (cases "j + ?n < length R")
    case True
    have "expert_list c cd x now ?f st = Ok \<lparr>xr_experts = map snd (take ?n (drop j R)),
        xr_next_cursor = Some (encode_cursor cd ?h (fst (last (take ?n (drop j R)))))\<rparr>"
      unfolding expert_list_def f Let_def m a(1) using ok(3,4) a(2) nd more True ne [OF True] by simp
    then show ?thesis using True last' next' by simp
  next
    case False
    then show ?thesis
      unfolding expert_list_def f Let_def m a(1) using ok(3,4) a(2) nd more by simp
  qed
qed

lemma follow_from:
  assumes "listing_ok c cd f st" and R: "R = all_rows c cd x now f st" and "j < length R \<or> j = 0"
    and "length R - j < n"
  shows "\<exists>pages. follow_pages n c cd x now (page_filter cd f R j) st = Some (Ok pages)
    \<and> concat pages = map snd (drop j R) \<and> (\<forall>p \<in> set pages. length p \<le> page_limit c f)
    \<and> (\<forall>p \<in> set (butlast pages). length p = page_limit c f)"
  using assms(3,4)
proof (induction n arbitrary: j)
  case (Suc n)
  let ?n = "page_limit c f"
  have pos: "0 < ?n" using assms(1) by (simp add: listing_ok_def)
  note page = list_page [OF assms(1) R Suc.prems(1)]
  show ?case
  proof (cases "j + ?n < length R")
    case False
    then show ?thesis using page by simp
  next
    case True
    from pos True have "length R - (j + ?n) < n" "j + ?n < length R \<or> j + ?n = 0" using Suc.prems(2) by auto
    from Suc.IH [OF this(2,1)] obtain pages where pages:
        "follow_pages n c cd x now (page_filter cd f R (j + ?n)) st = Some (Ok pages)"
        "concat pages = map snd (drop (j + ?n) R)" "\<forall>p \<in> set pages. length p \<le> ?n"
        "\<forall>p \<in> set (butlast pages). length p = ?n" by blast
    let ?p = "map snd (take ?n (drop j R))"
    obtain cur where cur: "xf_cursor (page_filter cd f R (j + ?n)) = Some cur"
      using pos by (cases "j + ?n") (simp_all add: page_filter_def)
    have "(page_filter cd f R j)\<lparr>xf_cursor := Some cur\<rparr> = page_filter cd f R (j + ?n)"
      using cur by (auto simp: page_filter_def)
    then have "follow_pages (Suc n) c cd x now (page_filter cd f R j) st = Some (Ok (?p # pages))"
      using page True cur pages(1) by simp
    moreover have "concat (?p # pages) = map snd (drop j R)"
    proof -
      have "drop (j + ?n) R = drop ?n (drop j R)" by (simp add: add.commute)
      then have "concat (?p # pages) = map snd (take ?n (drop j R) @ drop ?n (drop j R))" by (simp add: pages(2))
      then show ?thesis by (simp only: append_take_drop_id)
    qed
    moreover have "length ?p = ?n" using True by simp
    moreover have "pages \<noteq> []" using pages(1) by (cases n) (auto split: res.splits option.splits simp: res_bind_Ok)
    ultimately show ?thesis using pages(3,4)
      by (intro exI [of _ "?p # pages"]) auto
  qed
qed simp

section \<open>Properties\<close>

definition demo_codec :: cursor_codec where
  "demo_codec = \<lparr>cc_sha256 = (\<lambda>b. take 32 (map (\<lambda>x. x mod 256) (rev b) @ replicate 32 0)),
     cc_encode = (\<lambda>b. b), cc_decode = Some\<rparr>"

definition demo_filter :: expert_list_filter where
  "demo_filter = \<lparr>xf_model_id = None, xf_tier = None, xf_limit = Some 1, xf_cursor = None\<rparr>"

lemma demo_codec_ok: "codec_ok demo_codec"
proof -
  have two: "str_len b \<le> 2 * length b" if "\<forall>x \<in> set b. x < 256" for b
    using that by (induction b) (auto simp: str_len_def utf8_width_def)
  show ?thesis unfolding codec_ok_def
  proof (intro conjI allI impI ballI)
    show "length (cc_sha256 demo_codec b) = 32" for b by (simp add: demo_codec_def)
    show "x < 256" if "x \<in> set (cc_sha256 demo_codec b)" for x b
    proof -
      from that have "x \<in> set (map (\<lambda>x. x mod 256) (rev b) @ replicate 32 0)"
        unfolding demo_codec_def cursor_codec.simps by (rule in_set_takeD)
      then show ?thesis by auto
    qed
    show "cc_decode demo_codec (cc_encode demo_codec b) = Some b" for b by (simp add: demo_codec_def)
    show "str_len (cc_encode demo_codec b) \<le> 128" if "length b = 64" "\<forall>x \<in> set b. x < 256" for b
      using two [OF that(2)] that(1) by (simp add: demo_codec_def)
  qed
qed

text \<open>
  C32. Listing ends and is complete. When no two tracked experts share a digest, a client that
  follows the cursors of an unchanged manager is done after at most one request more than
  there are experts; the pages, joined, are every wanted expert exactly once in the order of
  the digests, and every page but the last is full.
\<close>

theorem expert_pages_complete:
  assumes "listing_ok c cd f st" and "xf_cursor f = None"
  shows "\<exists>pages. follow_pages (Suc (length (all_experts st))) c cd x now f st = Some (Ok pages)
    \<and> concat pages = map snd (all_rows c cd x now f st)
    \<and> mset (concat pages) = image_mset (\<lambda>((m, i), e). summary_from_entry x m i e now (xc_hotness_half_life_millis c))
        (mset (filter (row_wanted f) (all_experts st)))
    \<and> (\<forall>p \<in> set pages. length p \<le> page_limit c f) \<and> (\<forall>p \<in> set (butlast pages). length p = page_limit c f)"
proof -
  let ?R = "all_rows c cd x now f st"
  have "length ?R \<le> length (all_experts st)" by (simp add: all_rows_def)
  then have n: "length ?R - 0 < Suc (length (all_experts st))" by simp
  have f: "page_filter cd f ?R 0 = f" using assms(2) by (simp add: page_filter_def)
  have "mset (map snd ?R) = image_mset (\<lambda>((m, i), e). summary_from_entry x m i e now (xc_hotness_half_life_millis c))
      (mset (filter (row_wanted f) (all_experts st)))"
  proof -
    have "snd \<circ> list_row c cd x now = (\<lambda>((m, i), e). summary_from_entry x m i e now (xc_hotness_half_life_millis c))"
      by (auto simp: list_row_def fun_eq_iff)
    then show ?thesis by (simp add: all_rows_def image_mset.compositionality)
  qed
  with follow_from [OF assms(1) refl _ n] show ?thesis unfolding f drop_0 by auto
qed

theorem expert_pages_complete_witness:
  "\<exists>pages. follow_pages 2 default_expert_config demo_codec demo_exp2 8 demo_filter demo_expert_state = Some (Ok pages)
     \<and> length (concat pages) = 1"
proof -
  have e: "all_experts demo_expert_state = [((lit ''m'', lit ''e''), new_expert 7 demo_observation)]"
    by (simp add: all_experts_def demo_expert_state_def)
  have ok: "listing_ok default_expert_config demo_codec demo_filter demo_expert_state"
    by (simp add: listing_ok_def demo_codec_ok no_collision_def e page_limit_def demo_filter_def default_expert_config_def)
  have "xf_cursor demo_filter = None" by (simp add: demo_filter_def)
  from expert_pages_complete [OF ok this, of demo_exp2 8] e
  show ?thesis by (auto simp: all_rows_def demo_filter_def row_wanted_def eval_nat_numeral)
qed

end
