(* ===== verification/Deployment_Plan.thy ===== *)
theory Deployment_Plan
  imports Device_Inventory Inference_Planner Float64_Text
begin

text \<open>
  Managed deployments (\<open>src/src/deployments.rs\<close>): profiles with their budgets, and their
  resolution against an inventory into plans (devices, arguments, environment, fingerprint).
  Processes, files, digests and JSON are third-party code or input: the records
  \<open>runtime_host\<close> and \<open>model_view\<close> carry what they give.
\<close>

section \<open>Profiles and plans\<close>

datatype deployment_runtime = LlamaCuda | LlamaCudaOffload | VllmCuda

datatype strategy = Single | Layer | Tensor | Pipeline | Expert | Auto

datatype offload =
    OffloadNone
  | CpuLayers nat
  | CpuExperts nat
  | CpuWeights f64
  | ExpertCache nat nat
  | HelperGpu
  | SsdStreaming

record device_budget =
  bu_weights :: nat
  bu_replicated :: nat
  bu_kv :: nat
  bu_experts :: nat
  bu_compute :: nat
  bu_overhead :: nat
  bu_reserve :: nat

definition budget_total :: "device_budget \<Rightarrow> nat option" where
  "budget_total b = checked_sum 0
     [bu_weights b, bu_replicated b, bu_kv b, bu_experts b, bu_compute b, bu_overhead b, bu_reserve b]"

record profile =
  pf_id :: rstr
  pf_alias :: rstr
  pf_model :: rstr
  pf_runtime :: deployment_runtime
  pf_executable :: rstr
  pf_build :: rstr
  pf_gpus :: "rstr list"
  pf_strategy :: strategy
  pf_tensor_parallel :: nat
  pf_pipeline_parallel :: nat
  pf_split :: "f64 list"
  pf_context :: nat
  pf_batch :: nat
  pf_parallel :: nat
  pf_cpu_threads :: nat
  pf_offload :: offload
  pf_kv_cpu :: bool
  pf_memory :: "device_budget list"
  pf_host_bytes :: nat
  pf_native_args :: "rstr list"

record configuration =
  cf_version :: nat
  cf_profiles :: "profile list"

record deployment_plan =
  pl_profile :: profile
  pl_model_identity :: rstr
  pl_executable_sha256 :: rstr
  pl_runtime_version :: rstr
  pl_devices :: "device list"
  pl_strategy :: strategy
  pl_args :: "rstr list"
  pl_environment :: "(rstr, rstr) btree"
  pl_fingerprint :: rstr
  pl_reasons :: "rstr list"

text \<open>The errors, grouped by the part of resolution that raises them.\<close>

datatype profile_error =
    BadId | UnifiedMemory | BadLengths | NoExecutable | BadCapacity | ContextOverflow | NoHostBudget
  | FormatMismatch | EnvironmentConflict rstr | NativeOption rstr

datatype device_error =
    AutoBudget | BudgetOverflow | NoFittingGpu | NoGpus | DuplicateGpu | UnknownGpu rstr
  | BudgetCount | NotCuda | MissingBudget | FreeUnknown | CannotFit rstr | AutoMulti | SingleMulti

datatype argument_error =
    LlamaStrategy | LlamaParallel | LayerWeights | LayerSplit | GpuLayersRange | NoExpertLayers
  | ExpertCacheFlavor | ExpertCachePin | ExpertCacheBudget | PinnedExceeds | OffloadUnsupported
  | LlamaControls | ParallelMismatch | StrategyShape strategy | NoLayerSplit | BadFraction | CpuWeightBudget

datatype probe_error =
    IdentityFailed | BinaryUnreadable | VersionProbe | BadVersion | HelpProbe | NotAdvertised rstr
  | NoExpertCacheSupport | BinaryChanged | VersionChanged | DevicesUnlisted nat

datatype model_error =
    UnknownModel rstr | ExpertTensors | ExpertTensorsMissing | ExpertTensorsHost
  | ConfigUnavailable | Quantized | HeadsMissing | HeadsUneven | KvHeadsUneven | LayersMissing
  | TooFewLayers | ExpertsMissing | ExpertsUneven

datatype group_error =
    UnsupportedVersion | ProfileCount | DuplicateDeployment rstr | AliasModels | GpuOverlap rstr
  | HostOverflow | HostUnknown | HostExceeded

datatype deploy_error =
    ProfileError profile_error
  | DeviceError device_error
  | ArgumentError argument_error
  | ProbeError probe_error
  | ModelError model_error
  | GroupError group_error

text \<open>A run of \<open>ensure!\<close>: the error of the first condition that fails.\<close>

fun ensure_all :: "(bool \<times> 'e) list \<Rightarrow> ('e, unit) res" where
  "ensure_all [] = Ok ()"
| "ensure_all ((b, e) # gs) = (if b then ensure_all gs else Err e)"

lemma ensure_all_Ok [simp]: "ensure_all gs = Ok u \<longleftrightarrow> (\<forall>g \<in> set gs. fst g)"
  by (induction gs rule: ensure_all.induct) auto

lemma ensure_all_not_Panic [simp]: "ensure_all gs \<noteq> Panic"
  by (induction gs rule: ensure_all.induct) auto

definition opt_ok :: "'e \<Rightarrow> 'a option \<Rightarrow> ('e, 'a) res" where
  "opt_ok e x = (case x of None \<Rightarrow> Err e | Some a \<Rightarrow> Ok a)"

lemma opt_ok_Ok [simp]: "opt_ok e x = Ok a \<longleftrightarrow> x = Some a"
  by (simp add: opt_ok_def split: option.splits)

lemma opt_ok_not_Panic [simp]: "opt_ok e x \<noteq> Panic"
  by (simp add: opt_ok_def split: option.splits)

section \<open>The environment of resolution\<close>

record process_output =
  po_success :: bool
  po_stdout :: rstr
  po_stderr :: rstr

record fingerprint_input =
  fi_profile :: profile
  fi_model :: rstr
  fi_binary :: rstr
  fi_runtime_version :: rstr
  fi_devices :: "(rstr \<times> rstr \<times> nat) list"
  fi_strategy :: strategy
  fi_args :: "rstr list"
  fi_environment :: "(rstr, rstr) btree"

record runtime_host =
  rh_env :: "rstr \<Rightarrow> rstr option"
  rh_identity :: "model_manifest \<Rightarrow> rstr option"
  rh_digest :: "rstr \<Rightarrow> rstr option"
  rh_version :: "rstr \<Rightarrow> process_output option"
  rh_help :: "rstr \<Rightarrow> bool \<Rightarrow> (rstr, rstr) btree \<Rightarrow> process_output option"
  rh_fingerprint :: "fingerprint_input \<Rightarrow> rstr"

record 'j model_view =
  mv_get :: "rstr \<Rightarrow> model_manifest option"
  mv_config :: "model_manifest \<Rightarrow> 'j option"
  mv_field :: "'j \<Rightarrow> rstr \<Rightarrow> 'j option"
  mv_u64 :: "'j \<Rightarrow> nat option"
  mv_null :: "'j \<Rightarrow> bool"
  mv_cpu_expert_bytes :: "model_manifest \<Rightarrow> nat \<Rightarrow> nat option"

section \<open>The guards of a profile\<close>

definition usize_max :: nat where "usize_max = u64_max"
definition i32_max :: nat where "i32_max = 2147483647"

definition id_char :: "nat \<Rightarrow> bool" where
  "id_char c \<longleftrightarrow> is_ascii_alnum c \<or> c = 45 \<or> c = 95 \<or> c = 46"

fun expected_format :: "deployment_runtime \<Rightarrow> model_format" where
  "expected_format VllmCuda = SafeTensors"
| "expected_format _ = FormatGguf"

definition env_blank :: "runtime_host \<Rightarrow> rstr \<Rightarrow> bool" where
  "env_blank h name \<longleftrightarrow> trim (case rh_env h name of None \<Rightarrow> [] | Some v \<Rightarrow> v) = []"

definition profile_guards :: "runtime_host \<Rightarrow> profile \<Rightarrow> model_manifest \<Rightarrow> inventory \<Rightarrow> (bool \<times> deploy_error) list" where
  "profile_guards h p m i =
     [(list_all id_char (pf_id p), ProfileError BadId),
      (inv_memory_topology i \<noteq> Some Unified, ProfileError UnifiedMemory),
      (pf_id p \<noteq> [] \<and> str_len (pf_id p) \<le> 128 \<and> pf_alias p \<noteq> [] \<and> str_len (pf_alias p) \<le> 128, ProfileError BadLengths),
      (starts_with [47] (pf_executable p) \<and> trim (pf_build p) \<noteq> [], ProfileError NoExecutable),
      (0 < pf_context p \<and> 0 < pf_batch p \<and> 0 < pf_parallel p \<and> pf_parallel p \<le> u32_max \<and>
       0 < pf_cpu_threads p \<and> pf_cpu_threads p \<le> u32_max, ProfileError BadCapacity),
      (checked_mul (pf_context p) (pf_parallel p) \<noteq> None, ProfileError ContextOverflow),
      (0 < pf_host_bytes p, ProfileError NoHostBudget),
      (mf_format m = expected_format (pf_runtime p), ProfileError FormatMismatch),
      (env_blank h (lit ''WERK_LLAMA_ARGS''), ProfileError (EnvironmentConflict (lit ''WERK_LLAMA_ARGS''))),
      (env_blank h (lit ''WERK_VLLM_ARGS''), ProfileError (EnvironmentConflict (lit ''WERK_VLLM_ARGS'')))]"

fun allowed_native :: "deployment_runtime \<Rightarrow> rstr list" where
  "allowed_native VllmCuda = [lit ''--enforce-eager'', lit ''--disable-log-requests'']"
| "allowed_native _ = [lit ''--no-warmup'', lit ''--jinja'', lit ''--log-disable'']"

fun validate_native_args :: "deployment_runtime \<Rightarrow> rstr list \<Rightarrow> (deploy_error, unit) res" where
  "validate_native_args rt [] = Ok ()"
| "validate_native_args rt (arg # args) =
     (if arg \<in> set (allowed_native rt) then validate_native_args rt args else Err (ProfileError (NativeOption arg)))"

section \<open>Choice and admission of devices\<close>

definition holds :: "nat \<Rightarrow> device \<Rightarrow> bool" where
  "holds needed d = (case dev_free_bytes d of None \<Rightarrow> False | Some f \<Rightarrow> needed \<le> f)"

definition smallest_fit :: "nat \<Rightarrow> device list \<Rightarrow> (deploy_error, device list) res" where
  "smallest_fit needed ds =
     (if filter (holds needed) ds = [] then Err (DeviceError NoFittingGpu)
      else Ok [arg_min_list (\<lambda>d. (dev_total_bytes d, dev_id d)) (filter (holds needed) ds)])"

definition auto_device :: "profile \<Rightarrow> inventory \<Rightarrow> (deploy_error, device list) res" where
  "auto_device p i =
     (case pf_memory p of
        [b] \<Rightarrow> res_bind (opt_ok (DeviceError BudgetOverflow) (budget_total b)) (\<lambda>needed. smallest_fit needed (visible i))
      | _ \<Rightarrow> Err (DeviceError AutoBudget))"

fun named_devices :: "inventory \<Rightarrow> rstr list \<Rightarrow> rstr list \<Rightarrow> (deploy_error, device list) res" where
  "named_devices i seen [] = Ok []"
| "named_devices i seen (gpu # gpus) =
     (if gpu \<in> set seen then Err (DeviceError DuplicateGpu)
      else res_bind (opt_ok (DeviceError (UnknownGpu gpu)) (find (\<lambda>d. dev_id d = gpu \<and> is_visible d) (inv_devices i))) (\<lambda>d.
        res_bind (named_devices i (gpu # seen) gpus) (\<lambda>ds. Ok (d # ds))))"

definition select_devices :: "profile \<Rightarrow> inventory \<Rightarrow> (deploy_error, device list) res" where
  "select_devices p i =
     (if pf_strategy p = Auto \<and> pf_gpus p = [] then auto_device p i
      else if pf_gpus p = [] then Err (DeviceError NoGpus)
      else named_devices i [] (pf_gpus p))"

definition admit_device :: "device \<Rightarrow> device_budget \<Rightarrow> (deploy_error, unit) res" where
  "admit_device d b =
     res_bind (ensure_all [(dev_runtime d = lit ''cuda'', DeviceError NotCuda),
       (0 < bu_reserve b \<and> 0 < bu_overhead b \<and> 0 < bu_compute b, DeviceError MissingBudget)]) (\<lambda>_.
     res_bind (opt_ok (DeviceError BudgetOverflow) (budget_total b)) (\<lambda>t.
     res_bind (opt_ok (DeviceError FreeUnknown) (dev_free_bytes d)) (\<lambda>f.
       ensure (t \<le> f) (DeviceError (CannotFit (dev_id d))))))"

fun admit_devices :: "(device \<times> device_budget) list \<Rightarrow> (deploy_error, unit) res" where
  "admit_devices [] = Ok ()"
| "admit_devices ((d, b) # rest) = res_bind (admit_device d b) (\<lambda>_. admit_devices rest)"

definition effective_strategy :: "profile \<Rightarrow> device list \<Rightarrow> (deploy_error, strategy) res" where
  "effective_strategy p ds =
     res_bind (if pf_strategy p = Auto then res_bind (ensure (length ds = 1) (DeviceError AutoMulti)) (\<lambda>_. Ok Single)
               else Ok (pf_strategy p)) (\<lambda>s.
     res_bind (ensure (s = Single \<longrightarrow> length ds = 1) (DeviceError SingleMulti)) (\<lambda>_. Ok s))"

section \<open>Arguments\<close>

definition arg :: "string \<Rightarrow> rstr \<Rightarrow> rstr list" where
  "arg flag v = [lit flag, v]"

definition split_args :: "profile \<Rightarrow> strategy \<Rightarrow> device list \<Rightarrow> (deploy_error, rstr list) res" where
  "split_args p s ds =
     (if s = Layer \<and> pf_split p = []
      then res_bind (ensure (list_all (\<lambda>b. 0 < bu_weights b) (pf_memory p)) (ArgumentError LayerWeights)) (\<lambda>_.
        Ok (arg ''--tensor-split'' (join [44] (map (\<lambda>b. decimal (bu_weights b)) (pf_memory p)))))
      else if pf_split p \<noteq> []
      then res_bind (ensure (s = Layer \<and> length (pf_split p) = length ds \<and>
             list_all (\<lambda>v. f64_is_finite v \<and> f64_lt 0 v) (pf_split p)) (ArgumentError LayerSplit)) (\<lambda>_.
        Ok (arg ''--tensor-split'' (join [44] (map f64_show (pf_split p)))))
      else Ok [])"

definition EXPERT_CACHE_PIN :: rstr where
  "EXPERT_CACHE_PIN = lit ''907a73da9a149faa8c42ccde890f1d575586810f''"

definition llama_offload_args :: "profile \<Rightarrow> (deploy_error, rstr list) res" where
  "llama_offload_args p =
     (case pf_offload p of
        OffloadNone \<Rightarrow> Ok []
      | CpuLayers n \<Rightarrow> res_bind (ensure (n \<le> i32_max) (ArgumentError GpuLayersRange)) (\<lambda>_. Ok [])
      | CpuExperts n \<Rightarrow> res_bind (ensure (0 < n) (ArgumentError NoExpertLayers)) (\<lambda>_. Ok (arg ''--n-cpu-moe'' (decimal n)))
      | ExpertCache slots pinned \<Rightarrow>
          res_bind (ensure_all
            [(pf_runtime p = LlamaCudaOffload \<and> 0 < slots, ArgumentError ExpertCacheFlavor),
             (pf_build p = EXPERT_CACHE_PIN, ArgumentError ExpertCachePin),
             (list_all (\<lambda>b. 0 < bu_experts b) (pf_memory p), ArgumentError ExpertCacheBudget),
             ((case checked_mul pinned MIB of None \<Rightarrow> False | Some b \<Rightarrow> b \<le> pf_host_bytes p), ArgumentError PinnedExceeds)])
          (\<lambda>_. Ok (arg ''--moe-expert-cache-size'' (decimal slots)
                 @ arg ''--moe-expert-cache-host-pinned-mb'' (decimal pinned)))
      | _ \<Rightarrow> Err (ArgumentError OffloadUnsupported))"

definition llama_args :: "profile \<Rightarrow> strategy \<Rightarrow> device list \<Rightarrow> (deploy_error, rstr list) res" where
  "llama_args p s ds =
     res_bind (ensure_all [(s = Single \<or> s = Layer, ArgumentError LlamaStrategy),
       (pf_tensor_parallel p = 1 \<and> pf_pipeline_parallel p = 1, ArgumentError LlamaParallel)]) (\<lambda>_.
     res_bind (split_args p s ds) (\<lambda>tensor_split.
     res_bind (llama_offload_args p) (\<lambda>offload.
       Ok (arg ''--device'' (join [44] (map (\<lambda>i. lit ''CUDA'' @ decimal i) [0..<length ds]))
         @ arg ''--split-mode'' (if s = Single then lit ''none'' else lit ''layer'')
         @ arg ''--main-gpu'' (lit ''0'') @ tensor_split @ offload))))"

definition vllm_shape :: "profile \<Rightarrow> strategy \<Rightarrow> (deploy_error, unit) res" where
  "vllm_shape p s =
     (case s of
        Single \<Rightarrow> ensure (pf_tensor_parallel p = 1 \<and> pf_pipeline_parallel p = 1) (ArgumentError (StrategyShape s))
      | Tensor \<Rightarrow> ensure (1 < pf_tensor_parallel p \<and> pf_pipeline_parallel p = 1) (ArgumentError (StrategyShape s))
      | Pipeline \<Rightarrow> ensure (1 < pf_pipeline_parallel p) (ArgumentError (StrategyShape s))
      | Expert \<Rightarrow> ensure (1 < pf_tensor_parallel p \<and> pf_pipeline_parallel p = 1 \<and> pf_offload p = OffloadNone)
                    (ArgumentError (StrategyShape s))
      | _ \<Rightarrow> Err (ArgumentError NoLayerSplit))"

definition F64_ONE :: f64 where "F64_ONE = 4607182418800017408"

fun memory_fractions :: "(device \<times> device_budget) list \<Rightarrow> (deploy_error, f64 list) res" where
  "memory_fractions [] = Ok []"
| "memory_fractions ((d, b) # rest) =
     res_bind (opt_ok (DeviceError BudgetOverflow) (budget_total b)) (\<lambda>t.
     res_bind (memory_fractions rest) (\<lambda>fs.
       Ok (f64_div (f64_of_nat (t - bu_reserve b)) (f64_of_nat (dev_total_bytes d)) # fs)))"

definition memory_fraction :: "profile \<Rightarrow> device list \<Rightarrow> (deploy_error, f64) res" where
  "memory_fraction p ds =
     res_bind (memory_fractions (zip ds (pf_memory p))) (\<lambda>fs.
       let fraction = foldl f64_min F64_ONE fs in
       res_bind (ensure (f64_lt 0 fraction \<and> f64_lt fraction F64_ONE) (ArgumentError BadFraction)) (\<lambda>_. Ok fraction))"

definition vllm_offload_args :: "profile \<Rightarrow> device list \<Rightarrow> (deploy_error, rstr list) res" where
  "vllm_offload_args p ds =
     (case pf_offload p of
        OffloadNone \<Rightarrow> Ok []
      | CpuWeights gib \<Rightarrow>
          res_bind (ensure (f64_is_finite gib \<and> f64_lt 0 gib \<and>
            f64_le (f64_mul (f64_mul gib (f64_of_nat (length ds))) (f64_of_nat 1073741824))
                   (f64_of_nat (pf_host_bytes p))) (ArgumentError CpuWeightBudget)) (\<lambda>_.
          Ok (arg ''--cpu-offload-gb'' (f64_show gib)))
      | _ \<Rightarrow> Err (ArgumentError OffloadUnsupported))"

definition vllm_args :: "profile \<Rightarrow> strategy \<Rightarrow> device list \<Rightarrow> (deploy_error, rstr list) res" where
  "vllm_args p s ds =
     res_bind (ensure_all [(pf_split p = [] \<and> \<not> pf_kv_cpu p, ArgumentError LlamaControls),
       (0 < pf_tensor_parallel p \<and> 0 < pf_pipeline_parallel p \<and>
        checked_mul (pf_tensor_parallel p) (pf_pipeline_parallel p) = Some (length ds), ArgumentError ParallelMismatch)]) (\<lambda>_.
     res_bind (vllm_shape p s) (\<lambda>_.
     res_bind (memory_fraction p ds) (\<lambda>fraction.
     res_bind (vllm_offload_args p ds) (\<lambda>offload.
       Ok (arg ''--tensor-parallel-size'' (decimal (pf_tensor_parallel p))
         @ arg ''--pipeline-parallel-size'' (decimal (pf_pipeline_parallel p))
         @ arg ''--distributed-executor-backend'' (lit ''mp'')
         @ arg ''--max-model-len'' (decimal (pf_context p))
         @ arg ''--max-num-seqs'' (decimal (pf_parallel p))
         @ arg ''--max-num-batched-tokens'' (decimal (pf_batch p))
         @ arg ''--gpu-memory-utilization'' (f64_fixed 8 fraction)
         @ offload
         @ (if s = Expert then [lit ''--enable-expert-parallel''] else []))))))"

definition runtime_args :: "profile \<Rightarrow> strategy \<Rightarrow> device list \<Rightarrow> (deploy_error, rstr list) res" where
  "runtime_args p s ds =
     res_bind (if pf_runtime p \<noteq> VllmCuda then llama_args p s ds else vllm_args p s ds) (\<lambda>args.
       Ok (args @ pf_native_args p))"

definition VISIBLE_DEVICES :: rstr where "VISIBLE_DEVICES = lit ''CUDA_VISIBLE_DEVICES''"

definition worker_environment :: "profile \<Rightarrow> device list \<Rightarrow> (rstr, rstr) btree" where
  "worker_environment p ds =
     bt_insert VISIBLE_DEVICES (join [44] (map dev_id ds))
       (bt_insert (lit ''CUDA_DEVICE_ORDER'') (lit ''PCI_BUS_ID'')
         (bt_insert (lit ''OMP_NUM_THREADS'') (decimal (pf_cpu_threads p)) []))"

end
