(* ===== verification/Deployment_Resolve.thy ===== *)
theory Deployment_Resolve
  imports Deployment_Plan
begin

text \<open>
  Resolution of deployments (\<open>src/src/deployments.rs\<close>): the probes of the runtime binary, one
  profile into a plan, the checks against the model's configuration, and a whole configuration
  into plans on disjoint devices.
\<close>

section \<open>Probes of the runtime\<close>

definition version_text :: "process_output \<Rightarrow> rstr" where
  "version_text o1 = (if po_stdout o1 = [] then po_stderr o1 else po_stdout o1)"

definition version_line :: "rstr \<Rightarrow> rstr option" where
  "version_line text =
     (case find (\<lambda>l. starts_with (lit ''version:'') (trim_start l)) (str_lines text) of
        Some l \<Rightarrow> Some l
      | None \<Rightarrow> find (\<lambda>l. trim l \<noteq> []) (rev (str_lines text)))"

definition runtime_version :: "runtime_host \<Rightarrow> rstr \<Rightarrow> (deploy_error, rstr) res" where
  "runtime_version h executable =
     res_bind (opt_ok (ProbeError VersionProbe) (rh_version h executable)) (\<lambda>output.
     res_bind (ensure_all [(po_success output, ProbeError VersionProbe),
       (trim (version_text output) \<noteq> [] \<and> str_len (version_text output) \<le> 16384, ProbeError BadVersion)]) (\<lambda>_.
     res_bind (opt_ok (ProbeError BadVersion) (version_line (version_text output))) (\<lambda>line.
       Ok (trim line))))"

definition help_separator :: "nat \<Rightarrow> bool" where
  "help_separator c \<longleftrightarrow> is_whitespace c \<or> c \<in> {44, 61, 91, 93, 40, 41}"

fun advertised :: "rstr list \<Rightarrow> rstr list \<Rightarrow> (deploy_error, unit) res" where
  "advertised tokens [] = Ok ()"
| "advertised tokens (a # args) =
     (if starts_with (lit ''--'') a \<and> a \<notin> set tokens then Err (ProbeError (NotAdvertised a))
      else advertised tokens args)"

definition validate_help :: "deployment_plan \<Rightarrow> rstr \<Rightarrow> (deploy_error, unit) res" where
  "validate_help plan help =
     (let tokens = split_by help_separator help in
      res_bind (advertised tokens (pl_args plan)) (\<lambda>_.
        ensure (pf_runtime (pl_profile plan) = LlamaCudaOffload \<longrightarrow> lit ''--moe-expert-cache-size'' \<in> set tokens)
          (ProbeError NoExpertCacheSupport)))"

section \<open>One profile\<close>

definition fingerprint_input_of :: "deployment_plan \<Rightarrow> fingerprint_input" where
  "fingerprint_input_of plan =
     \<lparr>fi_profile = pl_profile plan, fi_model = pl_model_identity plan,
      fi_binary = pl_executable_sha256 plan, fi_runtime_version = pl_runtime_version plan,
      fi_devices = map (\<lambda>d. (dev_id d, dev_pci_bus_id d, dev_total_bytes d)) (pl_devices plan),
      fi_strategy = pl_strategy plan, fi_args = pl_args plan, fi_environment = pl_environment plan\<rparr>"

definition plan_reasons :: "profile \<Rightarrow> rstr list" where
  "plan_reasons p =
     [lit ''Exclusive GPU ownership; component budgets are declared estimates, not measured usage or hard allocator limits.'',
      lit ''Unknown P2P/NVLink is not treated as a prerequisite; no throughput prediction was made.'']
     @ (if pf_strategy p = Auto
        then [lit ''Selected the smallest fitting single GPU; additional devices lack a measured performance benefit.'']
        else [])"

text \<open>The placement of a profile: devices, strategy and arguments.\<close>

definition place_profile ::
  "runtime_host \<Rightarrow> profile \<Rightarrow> model_manifest \<Rightarrow> inventory \<Rightarrow> (deploy_error, device list \<times> strategy \<times> rstr list) res" where
  "place_profile h p m i =
     res_bind (ensure_all (profile_guards h p m i)) (\<lambda>_.
     res_bind (validate_native_args (pf_runtime p) (pf_native_args p)) (\<lambda>_.
     res_bind (select_devices p i) (\<lambda>ds.
     res_bind (ensure (length ds = length (pf_memory p)) (DeviceError BudgetCount)) (\<lambda>_.
     res_bind (admit_devices (zip ds (pf_memory p))) (\<lambda>_.
     res_bind (effective_strategy p ds) (\<lambda>s.
     res_bind (runtime_args p s ds) (\<lambda>args.
       Ok (ds, s, args))))))))"

definition help_text :: "process_output \<Rightarrow> rstr" where
  "help_text output = po_stdout output @ [10] @ po_stderr output"

definition probe_help :: "runtime_host \<Rightarrow> deployment_plan \<Rightarrow> (deploy_error, unit) res" where
  "probe_help h plan =
     (let p = pl_profile plan in
      res_bind (opt_ok (ProbeError HelpProbe)
        (rh_help h (pf_executable p) (pf_runtime p = VllmCuda) (pl_environment plan))) (\<lambda>output.
      res_bind (ensure (po_success output) (ProbeError HelpProbe)) (\<lambda>_.
        validate_help plan (help_text output))))"

definition profile_resolve ::
  "runtime_host \<Rightarrow> profile \<Rightarrow> model_manifest \<Rightarrow> inventory \<Rightarrow> (deploy_error, deployment_plan) res" where
  "profile_resolve h p m i =
     res_bind (place_profile h p m i) (\<lambda>(ds, s, args).
     res_bind (opt_ok (ProbeError IdentityFailed) (rh_identity h m)) (\<lambda>identity.
     res_bind (opt_ok (ProbeError BinaryUnreadable) (rh_digest h (pf_executable p))) (\<lambda>digest.
     res_bind (runtime_version h (pf_executable p)) (\<lambda>version.
       let plan = \<lparr>pl_profile = p, pl_model_identity = identity, pl_executable_sha256 = digest,
                   pl_runtime_version = version, pl_devices = ds, pl_strategy = s, pl_args = args,
                   pl_environment = worker_environment p ds, pl_fingerprint = [],
                   pl_reasons = plan_reasons p\<rparr>
       in res_bind (probe_help h plan) (\<lambda>_.
            Ok (plan\<lparr>pl_fingerprint := rh_fingerprint h (fingerprint_input_of plan)\<rparr>))))))"

section \<open>Checks against the model\<close>

definition expert_tensors :: "'j model_view \<Rightarrow> model_manifest \<Rightarrow> profile \<Rightarrow> (deploy_error, unit) res" where
  "expert_tensors v m p =
     (case pf_offload p of
        CpuExperts layers \<Rightarrow>
          res_bind (opt_ok (ModelError ExpertTensors) (mv_cpu_expert_bytes v m layers)) (\<lambda>bytes.
            ensure_all [(0 < bytes, ModelError ExpertTensorsMissing),
                        (bytes \<le> pf_host_bytes p, ModelError ExpertTensorsHost)])
      | _ \<Rightarrow> Ok ())"

definition field_u64 :: "'j model_view \<Rightarrow> 'j \<Rightarrow> rstr \<Rightarrow> nat option" where
  "field_u64 v c name = Option.bind (mv_field v c name) (mv_u64 v)"

definition text_config :: "'j model_view \<Rightarrow> 'j \<Rightarrow> 'j" where
  "text_config v c = (case mv_field v c (lit ''text_config'') of None \<Rightarrow> c | Some t \<Rightarrow> t)"

definition expert_count :: "'j model_view \<Rightarrow> 'j \<Rightarrow> nat option" where
  "expert_count v c =
     (case mv_field v c (lit ''num_experts'') of
        Some f \<Rightarrow> mv_u64 v f
      | None \<Rightarrow> (case mv_field v c (lit ''num_local_experts'') of
            Some f \<Rightarrow> mv_u64 v f
          | None \<Rightarrow> field_u64 v c (lit ''n_routed_experts'')))"

definition kv_heads_fit :: "nat \<Rightarrow> nat \<Rightarrow> bool" where
  "kv_heads_fit kv tp \<longleftrightarrow> 0 < kv \<and> (if tp \<le> kv then kv mod tp = 0 else tp mod kv = 0)"

definition model_splits :: "'j model_view \<Rightarrow> 'j \<Rightarrow> profile \<Rightarrow> (deploy_error, unit) res" where
  "model_splits v c p =
     (let tp = pf_tensor_parallel p in
      res_bind (ensure (case mv_field v c (lit ''quantization_config'') of None \<Rightarrow> True | Some q \<Rightarrow> mv_null v q)
        (ModelError Quantized)) (\<lambda>_.
      res_bind (opt_ok (ModelError HeadsMissing) (field_u64 v c (lit ''num_attention_heads''))) (\<lambda>heads.
      res_bind (ensure_all
        [(0 < tp \<and> 0 < heads \<and> heads mod tp = 0, ModelError HeadsUneven),
         ((case field_u64 v c (lit ''num_key_value_heads'') of None \<Rightarrow> True | Some kv \<Rightarrow> kv_heads_fit kv tp),
          ModelError KvHeadsUneven)]) (\<lambda>_.
      res_bind (if 1 < pf_pipeline_parallel p
                then res_bind (opt_ok (ModelError LayersMissing) (field_u64 v c (lit ''num_hidden_layers''))) (\<lambda>layers.
                  ensure (pf_pipeline_parallel p \<le> layers) (ModelError TooFewLayers))
                else Ok ()) (\<lambda>_.
      if pf_strategy p = Expert
      then res_bind (opt_ok (ModelError ExpertsMissing) (expert_count v c)) (\<lambda>experts.
        ensure (0 < experts \<and> experts mod tp = 0) (ModelError ExpertsUneven))
      else Ok ())))))"

definition validate_model_parallel :: "'j model_view \<Rightarrow> profile \<Rightarrow> model_manifest \<Rightarrow> (deploy_error, unit) res" where
  "validate_model_parallel v p m =
     (if pf_runtime p \<noteq> VllmCuda \<or> (pf_tensor_parallel p = 1 \<and> pf_pipeline_parallel p = 1) then Ok ()
      else res_bind (opt_ok (ModelError ConfigUnavailable) (mv_config v m)) (\<lambda>config.
        model_splits v (text_config v config) p))"

section \<open>A configuration\<close>

record group_state =
  gs_ids :: "rstr list"
  gs_used :: "rstr list"
  gs_aliases :: "(rstr, rstr) btree"
  gs_plans :: "deployment_plan list"
  gs_host :: nat

definition empty_group :: group_state where
  "empty_group = \<lparr>gs_ids = [], gs_used = [], gs_aliases = [], gs_plans = [], gs_host = 0\<rparr>"

definition hide_used :: "rstr list \<Rightarrow> inventory \<Rightarrow> inventory" where
  "hide_used used i = i\<lparr>inv_devices :=
     map (\<lambda>d. if dev_id d \<in> set used then d\<lparr>dev_visible_index := None\<rparr> else d) (inv_devices i)\<rparr>"

fun claim_devices :: "device list \<Rightarrow> rstr list \<Rightarrow> (deploy_error, rstr list) res" where
  "claim_devices [] used = Ok used"
| "claim_devices (d # ds) used =
     (if dev_id d \<in> set used then Err (GroupError (GpuOverlap (dev_id d)))
      else claim_devices ds (dev_id d # used))"

definition resolve_one ::
  "runtime_host \<Rightarrow> 'j model_view \<Rightarrow> inventory \<Rightarrow> profile \<Rightarrow> group_state \<Rightarrow> (deploy_error, group_state) res" where
  "resolve_one h v i p g =
     res_bind (ensure (pf_id p \<notin> set (gs_ids g)) (GroupError (DuplicateDeployment (pf_id p)))) (\<lambda>_.
     res_bind (opt_ok (ModelError (UnknownModel (pf_model p))) (mv_get v (pf_model p))) (\<lambda>m.
     res_bind (if pf_runtime p \<noteq> VllmCuda then expert_tensors v m p else Ok ()) (\<lambda>_.
     res_bind (validate_model_parallel v p m) (\<lambda>_.
     res_bind (ensure (case map_of (gs_aliases g) (pf_alias p) of None \<Rightarrow> True | Some model \<Rightarrow> model = pf_model p)
       (GroupError AliasModels)) (\<lambda>_.
     res_bind (profile_resolve h p m (hide_used (gs_used g) i)) (\<lambda>plan.
     res_bind (claim_devices (pl_devices plan) (gs_used g)) (\<lambda>used.
     res_bind (opt_ok (GroupError HostOverflow) (checked_add (gs_host g) (pf_host_bytes p))) (\<lambda>host.
       Ok \<lparr>gs_ids = pf_id p # gs_ids g, gs_used = used,
           gs_aliases = bt_insert (pf_alias p) (pf_model p) (gs_aliases g),
           gs_plans = gs_plans g @ [plan], gs_host = host\<rparr>))))))))"

fun resolve_profiles ::
  "runtime_host \<Rightarrow> 'j model_view \<Rightarrow> inventory \<Rightarrow> profile list \<Rightarrow> group_state \<Rightarrow> (deploy_error, group_state) res" where
  "resolve_profiles h v i [] g = Ok g"
| "resolve_profiles h v i (p # ps) g = res_bind (resolve_one h v i p g) (resolve_profiles h v i ps)"

definition configuration_guards :: "configuration \<Rightarrow> (bool \<times> deploy_error) list" where
  "configuration_guards c =
     [(cf_version c = 1, GroupError UnsupportedVersion),
      (cf_profiles c \<noteq> [] \<and> length (cf_profiles c) \<le> 64, GroupError ProfileCount)]"

definition configuration_load :: "configuration \<Rightarrow> (deploy_error, configuration) res" where
  "configuration_load c = res_bind (ensure_all (configuration_guards c)) (\<lambda>_. Ok c)"

definition configuration_resolve ::
  "runtime_host \<Rightarrow> 'j model_view \<Rightarrow> configuration \<Rightarrow> inventory \<Rightarrow> (deploy_error, deployment_plan list) res" where
  "configuration_resolve h v c i =
     res_bind (ensure_all (configuration_guards c)) (\<lambda>_.
     res_bind (resolve_profiles h v i (cf_profiles c) empty_group) (\<lambda>g.
     res_bind (if 0 < gs_host g
               then res_bind (opt_ok (GroupError HostUnknown) (inv_host_available_bytes i)) (\<lambda>available.
                 ensure (gs_host g \<le> available) (GroupError HostExceeded))
               else Ok ()) (\<lambda>_.
       Ok (gs_plans g))))"

section \<open>Starting a worker\<close>

definition verify_binary :: "runtime_host \<Rightarrow> deployment_plan \<Rightarrow> (deploy_error, unit) res" where
  "verify_binary h plan =
     res_bind (opt_ok (ProbeError BinaryUnreadable) (rh_digest h (pf_executable (pl_profile plan)))) (\<lambda>digest.
     res_bind (ensure (digest = pl_executable_sha256 plan) (ProbeError BinaryChanged)) (\<lambda>_.
     res_bind (runtime_version h (pf_executable (pl_profile plan))) (\<lambda>version.
       ensure (version = pl_runtime_version plan) (ProbeError VersionChanged))))"

text \<open>The native device probe of a llama worker, on the text that \<open>--list-devices\<close> prints.\<close>

fun native_devices :: "rstr list \<Rightarrow> nat list \<Rightarrow> (deploy_error, unit) res" where
  "native_devices ls [] = Ok ()"
| "native_devices ls (i # is) =
     (if list_ex (\<lambda>l. starts_with (lit ''CUDA'' @ decimal i @ [58]) (trim_start l)) ls
      then native_devices ls is else Err (ProbeError (DevicesUnlisted i)))"

definition probe_devices :: "deployment_plan \<Rightarrow> process_output option \<Rightarrow> (deploy_error, unit) res" where
  "probe_devices plan listing =
     (if pf_runtime (pl_profile plan) = VllmCuda then Ok ()
      else res_bind (opt_ok (ProbeError HelpProbe) listing) (\<lambda>output.
        res_bind (ensure (po_success output) (ProbeError HelpProbe)) (\<lambda>_.
          native_devices (str_lines (help_text output)) [0..<length (pl_devices plan)])))"

record llama_runtime_options =
  lo_gpu_layers :: "nat option"
  lo_ctx_size :: "nat option"
  lo_batch_size :: "nat option"
  lo_parallel :: "nat option"
  lo_threads :: "nat option"
  lo_threads_batch :: "nat option"
  lo_kv_offload :: "bool option"

definition llama_options :: "deployment_plan \<Rightarrow> llama_runtime_options" where
  "llama_options plan =
     (let p = pl_profile plan in
      \<lparr>lo_gpu_layers = (case pf_offload p of CpuLayers n \<Rightarrow> Some n | _ \<Rightarrow> None),
       lo_ctx_size = Some (pf_context p), lo_batch_size = Some (pf_batch p),
       lo_parallel = Some (pf_parallel p), lo_threads = Some (pf_cpu_threads p),
       lo_threads_batch = Some (pf_cpu_threads p), lo_kv_offload = Some (\<not> pf_kv_cpu p)\<rparr>)"

end
