(* ===== verification/Gpu_Ledger.thy ===== *)
theory Gpu_Ledger
  imports Deployment_Resolve
begin

text \<open>
  The admission ledger of managed workers (\<open>Reservations\<close> in
  \<open>src/src/inference_service/resources.rs\<close>) and its reservations, as a state machine over a
  fixed list of resolved plans: workers acquire and drop in any order, against whatever
  inventories the machine shows. A poisoned lock, which a panic of another holder would leave,
  is not modelled.
\<close>

section \<open>The ledger\<close>

record reservations =
  rs_state :: "(rstr, rstr list \<times> nat) btree"
  rs_host_capacity :: nat

definition reservations_new :: "nat \<Rightarrow> reservations" where
  "reservations_new capacity = \<lparr>rs_state = [], rs_host_capacity = capacity\<rparr>"

datatype ledger_error =
    AlreadyResident
  | HostReservationsOverflow
  | HostBudgetExhausted
  | HostNoLongerFits
  | GpuReserved rstr
  | GpuDisappeared rstr
  | GpuNoLongerFits rstr

definition plan_gpu_ids :: "deployment_plan \<Rightarrow> rstr list" where
  "plan_gpu_ids plan = map dev_id (pl_devices plan)"

definition budget_or_max :: "device_budget \<Rightarrow> nat" where
  "budget_or_max b = (case budget_total b of None \<Rightarrow> u64_max | Some t \<Rightarrow> t)"

definition device_admissible ::
  "(rstr, rstr list \<times> nat) btree \<Rightarrow> inventory \<Rightarrow> device \<Rightarrow> device_budget \<Rightarrow> (ledger_error, unit) res" where
  "device_admissible entries i d b =
     (if list_ex (\<lambda>(ids, _). dev_id d \<in> set ids) (bt_values entries) then Err (GpuReserved (dev_id d))
      else (case find (\<lambda>e. dev_id e = dev_id d \<and> is_visible e) (inv_devices i) of
          None \<Rightarrow> Err (GpuDisappeared (dev_id d))
        | Some e \<Rightarrow> ensure (case dev_free_bytes e of None \<Rightarrow> False | Some f \<Rightarrow> budget_or_max b \<le> f)
            (GpuNoLongerFits (dev_id d))))"

fun devices_admissible ::
  "(rstr, rstr list \<times> nat) btree \<Rightarrow> inventory \<Rightarrow> (device \<times> device_budget) list \<Rightarrow> (ledger_error, unit) res" where
  "devices_admissible entries i [] = Ok ()"
| "devices_admissible entries i ((d, b) # rest) =
     res_bind (device_admissible entries i d b) (\<lambda>_. devices_admissible entries i rest)"

definition acquire_checks :: "deployment_plan \<Rightarrow> inventory \<Rightarrow> reservations \<Rightarrow> (ledger_error, unit) res" where
  "acquire_checks plan i r =
     (let entries = rs_state r; p = pl_profile plan in
      res_bind (ensure (\<not> bt_contains (pf_id p) entries) AlreadyResident) (\<lambda>_.
      res_bind (opt_ok HostReservationsOverflow (checked_sum 0 (map snd (bt_values entries)))) (\<lambda>reserved.
      res_bind (ensure (case checked_add reserved (pf_host_bytes p) of None \<Rightarrow> False | Some b \<Rightarrow> b \<le> rs_host_capacity r)
        HostBudgetExhausted) (\<lambda>_.
      res_bind (ensure (case inv_host_available_bytes i of None \<Rightarrow> False | Some b \<Rightarrow> pf_host_bytes p \<le> b)
        HostNoLongerFits) (\<lambda>_.
      devices_admissible entries i (zip (pl_devices plan) (pf_memory p)))))))"

definition acquire ::
  "deployment_plan \<Rightarrow> inventory \<Rightarrow> reservations \<Rightarrow> (ledger_error, rstr) res \<times> reservations" where
  "acquire plan i r =
     (case acquire_checks plan i r of
        Ok _ \<Rightarrow> (Ok (pf_id (pl_profile plan)),
          r\<lparr>rs_state := bt_insert (pf_id (pl_profile plan)) (plan_gpu_ids plan, pf_host_bytes (pl_profile plan))
               (rs_state r)\<rparr>)
      | Err e \<Rightarrow> (Err e, r)
      | Panic \<Rightarrow> (Panic, r))"

definition drop_worker_reservation :: "rstr \<Rightarrow> reservations \<Rightarrow> reservations" where
  "drop_worker_reservation worker r = r\<lparr>rs_state := bt_remove worker (rs_state r)\<rparr>"

section \<open>The machine\<close>

text \<open>A world is the ledger with the identifiers of the reservations that are alive.\<close>

record ledger_world =
  lw_ledger :: reservations
  lw_alive :: "rstr list"

datatype ledger_event = Acquire nat inventory | DropReservation nat

definition ledger_world_new :: "nat \<Rightarrow> ledger_world" where
  "ledger_world_new capacity = \<lparr>lw_ledger = reservations_new capacity, lw_alive = []\<rparr>"

fun ledger_step :: "deployment_plan list \<Rightarrow> ledger_world \<Rightarrow> ledger_event \<Rightarrow> ledger_world" where
  "ledger_step plans w (Acquire n i) =
     (if n < length plans
      then (case acquire (plans ! n) i (lw_ledger w) of
          (Ok worker, r) \<Rightarrow> w\<lparr>lw_ledger := r, lw_alive := worker # lw_alive w\<rparr>
        | (_, r) \<Rightarrow> w\<lparr>lw_ledger := r\<rparr>)
      else w)"
| "ledger_step plans w (DropReservation n) =
     (if n < length (lw_alive w)
      then w\<lparr>lw_ledger := drop_worker_reservation (lw_alive w ! n) (lw_ledger w),
             lw_alive := take n (lw_alive w) @ drop (Suc n) (lw_alive w)\<rparr>
      else w)"

text \<open>
  The books: one entry per live reservation, budgets within the capacity, and no GPU in two
  entries.
\<close>

definition gpus_exclusive :: "(rstr, rstr list \<times> nat) btree \<Rightarrow> bool" where
  "gpus_exclusive entries \<longleftrightarrow>
     (\<forall>a x b y g. map_of entries a = Some x \<longrightarrow> map_of entries b = Some y \<longrightarrow>
        g \<in> set (fst x) \<longrightarrow> g \<in> set (fst y) \<longrightarrow> a = b)"

definition ledger_inv :: "ledger_world \<Rightarrow> bool" where
  "ledger_inv w \<longleftrightarrow>
     bt_wf (rs_state (lw_ledger w)) \<and> distinct (lw_alive w) \<and>
     set (lw_alive w) = fst ` set (rs_state (lw_ledger w)) \<and>
     bt_sum snd (rs_state (lw_ledger w)) \<le> rs_host_capacity (lw_ledger w) \<and>
     gpus_exclusive (rs_state (lw_ledger w))"

definition budgets_match :: "deployment_plan \<Rightarrow> bool" where
  "budgets_match plan \<longleftrightarrow> length (pl_devices plan) = length (pf_memory (pl_profile plan))"

section \<open>What an admission means\<close>

lemma find_Some: "find P xs = Some x \<Longrightarrow> x \<in> set xs \<and> P x"
  by (induction xs) (auto split: if_splits)

lemma some_and: "(case x of None \<Rightarrow> False | Some s \<Rightarrow> P s) \<longleftrightarrow> (\<exists>s. x = Some s \<and> P s)"
  by (cases x) auto

lemma device_admissible_Ok:
  "device_admissible entries i d b = Ok u \<longleftrightarrow>
     (\<forall>v \<in> set (bt_values entries). dev_id d \<notin> set (fst v)) \<and>
     (\<exists>e f. find (\<lambda>e. dev_id e = dev_id d \<and> is_visible e) (inv_devices i) = Some e \<and>
        dev_free_bytes e = Some f \<and> budget_or_max b \<le> f)"
proof -
  have "list_ex (\<lambda>(ids, _). dev_id d \<in> set ids) (bt_values entries) \<longleftrightarrow>
      \<not> (\<forall>v \<in> set (bt_values entries). dev_id d \<notin> set (fst v))"
    by (simp add: list_ex_iff split_beta)
  then show ?thesis
    by (simp only: device_admissible_def some_and) (simp split: option.splits)
qed

lemma devices_admissible_Ok:
  "devices_admissible entries i ps = Ok u \<longleftrightarrow> (\<forall>(d, b) \<in> set ps. device_admissible entries i d b = Ok ())"
  by (induction entries i ps rule: devices_admissible.induct) (auto simp: res_bind_Ok)

lemma device_admissible_not_Panic [simp]: "device_admissible entries i d b \<noteq> Panic"
  by (auto simp: device_admissible_def split: option.splits)

lemma devices_admissible_not_Panic [simp]: "devices_admissible entries i ps \<noteq> Panic"
  by (induction entries i ps rule: devices_admissible.induct) (auto simp: res_bind_Panic)

definition admits :: "reservations \<Rightarrow> deployment_plan \<Rightarrow> inventory \<Rightarrow> bool" where
  "admits r plan i \<longleftrightarrow>
     (let p = pl_profile plan; entries = rs_state r in
      \<not> bt_contains (pf_id p) entries \<and>
      bt_sum snd entries \<le> u64_max \<and> bt_sum snd entries + pf_host_bytes p \<le> min u64_max (rs_host_capacity r) \<and>
      (\<exists>b. inv_host_available_bytes i = Some b \<and> pf_host_bytes p \<le> b) \<and>
      (\<forall>(d, b) \<in> set (zip (pl_devices plan) (pf_memory p)). device_admissible entries i d b = Ok ()))"

lemma checked_sum_values:
  "checked_sum 0 (map snd (bt_values entries)) = Some n \<longleftrightarrow> n = bt_sum snd entries \<and> n \<le> u64_max"
  by (auto simp: checked_sum_Some bt_sum_values)

lemma acquire_checks_Ok: "acquire_checks plan i r = Ok u \<longleftrightarrow> admits r plan i"
  unfolding acquire_checks_def admits_def Let_def
  by (auto simp: res_bind_Ok checked_sum_values devices_admissible_Ok some_and)

lemma acquire_checks_not_Panic [simp]: "acquire_checks plan i r \<noteq> Panic"
  by (simp add: acquire_checks_def Let_def res_bind_Panic)

lemma acquire_Ok:
  "fst (acquire plan i r) = Ok x \<longleftrightarrow> x = pf_id (pl_profile plan) \<and> admits r plan i"
  using acquire_checks_Ok [of plan i r] by (auto simp: acquire_def split: res.splits)

lemma acquire_state:
  "snd (acquire plan i r) = (if admits r plan i
     then r\<lparr>rs_state := bt_insert (pf_id (pl_profile plan)) (plan_gpu_ids plan, pf_host_bytes (pl_profile plan)) (rs_state r)\<rparr>
     else r)"
  using acquire_checks_Ok [of plan i r] by (auto simp: acquire_def split: res.splits)

lemma acquire_never_panics: "fst (acquire plan i r) \<noteq> Panic"
  by (auto simp: acquire_def split: res.splits)

section \<open>The invariant\<close>

lemma ledger_inv_init: "ledger_inv (ledger_world_new capacity)"
  by (simp add: ledger_inv_def ledger_world_new_def reservations_new_def gpus_exclusive_def)

lemma exclusive_insert:
  assumes "gpus_exclusive entries" "map_of entries k = None"
    "\<And>g x a. map_of entries a = Some x \<Longrightarrow> g \<in> set gs \<Longrightarrow> g \<notin> set (fst x)"
  shows "gpus_exclusive (bt_insert k (gs, n) entries)"
  using assms unfolding gpus_exclusive_def by (auto split: if_splits)

lemma exclusive_remove: "gpus_exclusive entries \<Longrightarrow> gpus_exclusive (bt_remove k entries)"
  unfolding gpus_exclusive_def by (auto split: if_splits)

lemma admits_gpus_free:
  assumes "admits r plan i" "budgets_match plan" "map_of (rs_state r) a = Some x" "g \<in> set (plan_gpu_ids plan)"
  shows "g \<notin> set (fst x)"
proof -
  from assms(4) obtain n where n: "n < length (pl_devices plan)" "g = dev_id (pl_devices plan ! n)"
    by (auto simp: plan_gpu_ids_def in_set_conv_nth)
  with assms(2) have "(pl_devices plan ! n, pf_memory (pl_profile plan) ! n)
      \<in> set (zip (pl_devices plan) (pf_memory (pl_profile plan)))"
    by (auto simp: in_set_zip budgets_match_def)
  with assms(1) have "\<forall>v \<in> set (bt_values (rs_state r)). g \<notin> set (fst v)"
    by (auto simp: admits_def Let_def device_admissible_Ok n(2))
  moreover have "x \<in> set (bt_values (rs_state r))"
    using assms(3) by (force simp: bt_values_def dest: map_of_SomeD)
  ultimately show ?thesis by blast
qed

lemma acquire_inv:
  assumes inv: "ledger_inv w" and plan: "budgets_match plan" and adm: "admits (lw_ledger w) plan i"
  shows "ledger_inv (w\<lparr>lw_ledger := snd (acquire plan i (lw_ledger w)),
                       lw_alive := pf_id (pl_profile plan) # lw_alive w\<rparr>)"
proof -
  let ?r = "lw_ledger w" and ?k = "pf_id (pl_profile plan)"
  from adm have absent: "\<not> bt_contains ?k (rs_state ?r)" by (simp add: admits_def Let_def)
  then have none: "map_of (rs_state ?r) ?k = None"
    by (simp add: bt_contains_iff map_of_eq_None_iff)
  have "gpus_exclusive (bt_insert ?k (plan_gpu_ids plan, pf_host_bytes (pl_profile plan)) (rs_state ?r))"
    by (rule exclusive_insert) (use inv none admits_gpus_free [OF adm plan] in \<open>auto simp: ledger_inv_def\<close>)
  with inv adm absent show ?thesis
    by (auto simp: ledger_inv_def acquire_state bt_wf_insert bt_sum_insert bt_contains_iff admits_def Let_def)
qed

lemma drop_inv:
  assumes inv: "ledger_inv w" and n: "n < length (lw_alive w)"
  shows "ledger_inv (ledger_step plans w (DropReservation n))"
proof -
  let ?k = "lw_alive w ! n" and ?m = "rs_state (lw_ledger w)"
  have alive: "lw_alive w = take n (lw_alive w) @ ?k # drop (Suc n) (lw_alive w)"
    using n by (simp add: id_take_nth_drop)
  from inv have d: "distinct (take n (lw_alive w) @ ?k # drop (Suc n) (lw_alive w))"
    unfolding ledger_inv_def using alive by simp
  have s: "set (lw_alive w) = set (take n (lw_alive w)) \<union> {?k} \<union> set (drop (Suc n) (lw_alive w))"
    by (subst alive) auto
  with inv have keys: "fst ` set ?m = set (take n (lw_alive w)) \<union> {?k} \<union> set (drop (Suc n) (lw_alive w))"
    by (simp add: ledger_inv_def)
  obtain v where v: "map_of ?m ?k = Some v"
    using keys by (metis Un_iff map_of_eq_None_iff not_None_eq singletonI)
  have "bt_sum snd (bt_remove ?k ?m) \<le> bt_sum snd ?m"
    using bt_sum_remove [of ?m ?k v snd] inv v by (simp add: ledger_inv_def)
  with inv n d keys show ?thesis
    by (auto simp: ledger_inv_def drop_worker_reservation_def bt_wf_remove exclusive_remove)
qed

lemma ledger_step_inv:
  assumes "\<forall>plan \<in> set plans. budgets_match plan" "ledger_inv w"
  shows "ledger_inv (ledger_step plans w e)"
proof (cases e)
  case (Acquire n i)
  show ?thesis
  proof (cases "n < length plans \<and> admits (lw_ledger w) (plans ! n) i")
    case True
    then have m: "budgets_match (plans ! n)" using assms(1) by simp
    obtain x r where x: "acquire (plans ! n) i (lw_ledger w) = (x, r)" by force
    with True acquire_Ok [of "plans ! n" i "lw_ledger w"] have "x = Ok (pf_id (pl_profile (plans ! n)))" by simp
    with x True acquire_inv [OF assms(2) m, of i] show ?thesis by (simp add: Acquire)
  next
    case False
    then have "ledger_step plans w e = w \<or> (n < length plans \<and> \<not> admits (lw_ledger w) (plans ! n) i)"
      by (auto simp: Acquire)
    moreover have "ledger_step plans w e = w" if "n < length plans" "\<not> admits (lw_ledger w) (plans ! n) i"
    proof -
      obtain x r where x: "acquire (plans ! n) i (lw_ledger w) = (x, r)" by force
      with that(2) acquire_state [of "plans ! n" i "lw_ledger w"] have "r = lw_ledger w" by simp
      moreover have "\<forall>y. x \<noteq> Ok y"
        using x that(2) acquire_Ok [of "plans ! n" i "lw_ledger w"] by auto
      ultimately show ?thesis using that(1) x by (cases x) (simp_all add: Acquire)
    qed
    ultimately show ?thesis using assms(2) by auto
  qed
next
  case (DropReservation n)
  then show ?thesis using assms(2) drop_inv by (cases "n < length (lw_alive w)") auto
qed

interpretation ledger: state_machine "ledger_world_new capacity" "ledger_step plans"
  "\<lambda>w. (\<forall>plan \<in> set plans. budgets_match plan) \<longrightarrow> ledger_inv w" for capacity plans
  by unfold_locales (auto intro: ledger_inv_init ledger_step_inv)

end
