(* ===== verification/Deployment_Claims.thy ===== *)
theory Deployment_Claims
  imports Gpu_Ledger
begin

text \<open>
  What resolution and the ledger promise together: plans on disjoint devices within their
  budgets, admission of every resolved worker in every reachable ledger, workers that see
  exactly their devices, and fingerprints that ignore measurements.
\<close>

section \<open>Devices of a plan\<close>

lemma find_first: "find P xs = Some x \<Longrightarrow> distinct (map f xs) \<Longrightarrow> (\<And>y. P y \<Longrightarrow> f y = k) \<Longrightarrow>
    e \<in> set xs \<Longrightarrow> P e \<Longrightarrow> x = e"
  by (metis (no_types, lifting) distinct_map find_Some inj_onD)

lemma named_devices_Ok:
  "named_devices i seen gpus = Ok ds \<Longrightarrow>
     map dev_id ds = gpus \<and> distinct gpus \<and> set gpus \<inter> set seen = {} \<and>
     (\<forall>d \<in> set ds. d \<in> set (inv_devices i) \<and> is_visible d)"
proof (induction i seen gpus arbitrary: ds rule: named_devices.induct)
  case (2 i seen gpu gpus)
  then obtain d es where d: "find (\<lambda>d. dev_id d = gpu \<and> is_visible d) (inv_devices i) = Some d"
    and es: "named_devices i (gpu # seen) gpus = Ok es" "ds = d # es" and s: "gpu \<notin> set seen"
    by (auto simp: res_bind_Ok split: if_splits)
  from 2(1) [OF s es(1)] d find_Some [OF d] es(2) s show ?case by auto
qed simp

lemma smallest_fit_Ok:
  assumes "smallest_fit needed ds = Ok out"
  obtains d where "out = [d]" "d \<in> set ds" "holds needed d"
proof -
  let ?d = "arg_min_list (\<lambda>d. (dev_total_bytes d, dev_id d)) (filter (holds needed) ds)"
  from assms have ne: "filter (holds needed) ds \<noteq> []" and out: "out = [?d]"
    by (simp_all add: smallest_fit_def split: if_splits)
  from arg_min_list_in [OF ne] have "?d \<in> set (filter (holds needed) ds)" .
  with that [OF out] show ?thesis by (simp only: set_filter mem_Collect_eq)
qed

lemma holds_iff: "holds needed d \<longleftrightarrow> (\<exists>f. dev_free_bytes d = Some f \<and> needed \<le> f)"
  by (simp add: holds_def some_and)

lemma auto_device_Ok:
  assumes "auto_device p i = Ok ds"
  obtains d where "ds = [d]" "d \<in> set (visible i)"
proof -
  from assms obtain b t where "smallest_fit t (visible i) = Ok ds"
    by (auto simp: auto_device_def res_bind_Ok split: list.splits)
  then show ?thesis using that by (rule smallest_fit_Ok)
qed

lemma visible_in: "d \<in> set (visible i) \<Longrightarrow> d \<in> set (inv_devices i) \<and> is_visible d"
  by (simp add: visible_def)

lemma select_devices_Ok:
  assumes "select_devices p i = Ok ds"
  shows "distinct (map dev_id ds) \<and> (\<forall>d \<in> set ds. d \<in> set (inv_devices i) \<and> is_visible d) \<and>
    (pf_gpus p \<noteq> [] \<longrightarrow> map dev_id ds = pf_gpus p)"
proof (cases "pf_gpus p = []")
  case True
  with assms have "auto_device p i = Ok ds" by (auto simp: select_devices_def split: if_splits)
  then show ?thesis
    by (rule auto_device_Ok) (use True in \<open>auto dest!: visible_in\<close>)
next
  case False
  with assms have "named_devices i [] (pf_gpus p) = Ok ds" by (simp add: select_devices_def)
  from named_devices_Ok [OF this] show ?thesis by auto
qed

lemma admit_devices_Ok: "admit_devices ps = Ok u \<longleftrightarrow> (\<forall>(d, b) \<in> set ps. admit_device d b = Ok ())"
  by (induction ps rule: admit_devices.induct) (auto simp: res_bind_Ok)

lemma admit_device_Ok:
  "admit_device d b = Ok u \<longleftrightarrow> dev_runtime d = lit ''cuda'' \<and> 0 < bu_reserve b \<and> 0 < bu_overhead b \<and>
     0 < bu_compute b \<and> (\<exists>t f. budget_total b = Some t \<and> dev_free_bytes d = Some f \<and> t \<le> f)"
  by (auto simp: admit_device_def res_bind_Ok)

text \<open>A plan is placed on an inventory: its devices are distinct visible devices that hold its budgets.\<close>

definition placed :: "inventory \<Rightarrow> deployment_plan \<Rightarrow> bool" where
  "placed i plan \<longleftrightarrow> budgets_match plan \<and> pl_devices plan \<noteq> [] \<and> distinct (plan_gpu_ids plan) \<and> 0 < pf_host_bytes (pl_profile plan) \<and>
     (\<forall>d \<in> set (pl_devices plan). d \<in> set (inv_devices i) \<and> is_visible d) \<and>
     (\<forall>(d, b) \<in> set (zip (pl_devices plan) (pf_memory (pl_profile plan))).
        \<exists>t f. budget_total b = Some t \<and> dev_free_bytes d = Some f \<and> t \<le> f)"

lemma place_profile_Ok:
  "place_profile h p m i = Ok (ds, s, args) \<longleftrightarrow>
     ensure_all (profile_guards h p m i) = Ok () \<and> validate_native_args (pf_runtime p) (pf_native_args p) = Ok () \<and>
     select_devices p i = Ok ds \<and> length ds = length (pf_memory p) \<and>
     admit_devices (zip ds (pf_memory p)) = Ok () \<and> effective_strategy p ds = Ok s \<and>
     runtime_args p s ds = Ok args"
  by (auto simp: place_profile_def res_bind_Ok simp del: ensure_all_Ok)

lemma profile_resolve_Ok:
  assumes "profile_resolve h p m i = Ok plan"
  obtains ds s args identity digest version where
    "place_profile h p m i = Ok (ds, s, args)"
    "rh_identity h m = Some identity" "rh_digest h (pf_executable p) = Some digest"
    "runtime_version h (pf_executable p) = Ok version"
    "plan = (let plan = \<lparr>pl_profile = p, pl_model_identity = identity, pl_executable_sha256 = digest,
                pl_runtime_version = version, pl_devices = ds, pl_strategy = s, pl_args = args,
                pl_environment = worker_environment p ds, pl_fingerprint = [],
                pl_reasons = plan_reasons p\<rparr>
             in plan\<lparr>pl_fingerprint := rh_fingerprint h (fingerprint_input_of plan)\<rparr>)"
  using assms that unfolding profile_resolve_def
  by (auto simp: res_bind_Ok Let_def split: prod.splits)

lemma select_devices_nonempty: "select_devices p i = Ok ds \<Longrightarrow> ds \<noteq> []"
proof -
  assume s: "select_devices p i = Ok ds"
  show ?thesis
  proof (cases "pf_gpus p = []")
    case True
    with s have "auto_device p i = Ok ds" by (auto simp: select_devices_def split: if_splits)
    then show ?thesis by (rule auto_device_Ok) simp
  next
    case False
    with s select_devices_Ok [OF s] show ?thesis by auto
  qed
qed

lemma profile_resolve_placed:
  assumes "profile_resolve h p m i = Ok plan"
  shows "placed i plan \<and> pl_profile plan = p \<and> pl_environment plan = worker_environment p (pl_devices plan)"
  using assms
proof (rule profile_resolve_Ok)
  fix ds s args identity digest version
  assume pp: "place_profile h p m i = Ok (ds, s, args)"
    and plan: "plan = (let plan = \<lparr>pl_profile = p, pl_model_identity = identity, pl_executable_sha256 = digest,
                pl_runtime_version = version, pl_devices = ds, pl_strategy = s, pl_args = args,
                pl_environment = worker_environment p ds, pl_fingerprint = [],
                pl_reasons = plan_reasons p\<rparr>
             in plan\<lparr>pl_fingerprint := rh_fingerprint h (fingerprint_input_of plan)\<rparr>)"
  from pp have g: "\<forall>g \<in> set (profile_guards h p m i). fst g" and sel: "select_devices p i = Ok ds"
    and len: "length ds = length (pf_memory p)" and adm: "admit_devices (zip ds (pf_memory p)) = Ok ()"
    unfolding place_profile_Ok by simp_all
  have "0 < pf_host_bytes p" using g by (simp add: profile_guards_def)
  moreover have "\<forall>(d, b) \<in> set (zip ds (pf_memory p)).
      \<exists>t f. budget_total b = Some t \<and> dev_free_bytes d = Some f \<and> t \<le> f"
    using adm by (auto simp: admit_devices_Ok admit_device_Ok)
  ultimately show ?thesis
    using select_devices_Ok [OF sel] select_devices_nonempty [OF sel] len
    by (simp add: plan Let_def placed_def budgets_match_def plan_gpu_ids_def)
qed

section \<open>A configuration\<close>

lemma claim_devices_Ok:
  "claim_devices ds used = Ok out \<Longrightarrow>
     set out = set used \<union> dev_id ` set ds \<and> distinct (map dev_id ds) \<and> set used \<inter> dev_id ` set ds = {}"
  by (induction ds used rule: claim_devices.induct) (auto split: if_splits)

lemma hide_used_visible:
  "d \<in> set (inv_devices (hide_used used i)) \<and> is_visible d \<Longrightarrow> d \<in> set (inv_devices i) \<and> is_visible d"
  by (auto simp: hide_used_def is_visible_def split: if_splits)

lemma placed_hidden: "placed (hide_used used i) plan \<Longrightarrow> placed i plan"
  using hide_used_visible unfolding placed_def by fast

definition group_ok :: "inventory \<Rightarrow> profile list \<Rightarrow> group_state \<Rightarrow> bool" where
  "group_ok i ps g \<longleftrightarrow>
     map pl_profile (gs_plans g) = ps \<and> distinct (map pf_id ps) \<and> set (gs_ids g) = pf_id ` set ps \<and>
     list_all (placed i) (gs_plans g) \<and>
     distinct (concat (map plan_gpu_ids (gs_plans g))) \<and>
     set (gs_used g) = set (concat (map plan_gpu_ids (gs_plans g))) \<and>
     gs_host g = sum_list (map pf_host_bytes ps) \<and> gs_host g \<le> u64_max \<and>
     (\<forall>p \<in> set ps. map_of (gs_aliases g) (pf_alias p) = Some (pf_model p))"

lemma group_ok_empty: "group_ok i [] empty_group"
  by (simp add: group_ok_def empty_group_def)

lemma resolve_one_ok:
  assumes "group_ok i ps g" "resolve_one h v i p g = Ok g'"
  shows "group_ok i (ps @ [p]) g'"
proof -
  from assms(2) obtain m plan used host where
    fresh: "pf_id p \<notin> set (gs_ids g)" and
    ali: "case map_of (gs_aliases g) (pf_alias p) of None \<Rightarrow> True | Some model \<Rightarrow> model = pf_model p" and
    plan: "profile_resolve h p m (hide_used (gs_used g) i) = Ok plan" and
    used: "claim_devices (pl_devices plan) (gs_used g) = Ok used" and
    host: "checked_add (gs_host g) (pf_host_bytes p) = Some host" and
    g': "g' = \<lparr>gs_ids = pf_id p # gs_ids g, gs_used = used,
           gs_aliases = bt_insert (pf_alias p) (pf_model p) (gs_aliases g),
           gs_plans = gs_plans g @ [plan], gs_host = host\<rparr>"
    by (auto simp: resolve_one_def res_bind_Ok)
  note placed = profile_resolve_placed [OF plan]
  note claimed = claim_devices_Ok [OF used]
  have aliases: "map_of (bt_insert (pf_alias p) (pf_model p) (gs_aliases g)) (pf_alias q) = Some (pf_model q)"
    if "q \<in> set (ps @ [p])" for q
    using that assms(1) ali by (auto simp: group_ok_def split: option.splits)
  have d: "distinct (concat (map plan_gpu_ids (gs_plans g')))"
    using assms(1) claimed by (auto simp: g' group_ok_def plan_gpu_ids_def)
  have u: "set (gs_used g') = set (concat (map plan_gpu_ids (gs_plans g')))"
    using assms(1) claimed by (auto simp: g' group_ok_def plan_gpu_ids_def)
  have ids: "map pl_profile (gs_plans g') = ps @ [p]" "distinct (map pf_id (ps @ [p]))"
    "set (gs_ids g') = pf_id ` set (ps @ [p])" "list_all (placed i) (gs_plans g')"
    using assms(1) fresh placed placed_hidden by (auto simp: g' group_ok_def)
  have hosts: "gs_host g' = sum_list (map pf_host_bytes (ps @ [p]))" "gs_host g' \<le> u64_max"
    using assms(1) host by (auto simp: g' group_ok_def)
  show ?thesis
    unfolding group_ok_def using aliases d u ids hosts by (simp add: g')
qed

lemma resolve_profiles_ok:
  assumes "group_ok i qs g" "resolve_profiles h v i ps g = Ok g'"
  shows "group_ok i (qs @ ps) g'"
  using assms
proof (induction ps arbitrary: qs g)
  case (Cons p ps)
  then obtain g1 where g1: "resolve_one h v i p g = Ok g1" "resolve_profiles h v i ps g1 = Ok g'"
    by (auto simp: res_bind_Ok)
  from Cons.IH [OF resolve_one_ok [OF Cons.prems(1) g1(1)] g1(2)] show ?case by simp
qed simp

lemma configuration_resolve_Ok:
  assumes "configuration_resolve h v c i = Ok plans"
  obtains g available where "group_ok i (cf_profiles c) g" "plans = gs_plans g"
    "inv_host_available_bytes i = Some available" "gs_host g \<le> available"
proof -
  from assms obtain g where g: "resolve_profiles h v i (cf_profiles c) empty_group = Ok g"
    and ne: "cf_profiles c \<noteq> []" and plans: "plans = gs_plans g"
    and host: "0 < gs_host g \<longrightarrow> (\<exists>a. inv_host_available_bytes i = Some a \<and> gs_host g \<le> a)"
    by (auto simp: configuration_resolve_def res_bind_Ok configuration_guards_def split: if_splits)
  from resolve_profiles_ok [OF group_ok_empty g] have ok: "group_ok i (cf_profiles c) g" by simp
  with ne obtain plan where "plan \<in> set (gs_plans g)"
    by (metis group_ok_def list.map_disc_iff list.set_intros(1) neq_Nil_conv)
  then have "pl_profile plan \<in> set (map pl_profile (gs_plans g))" by simp
  with ok \<open>plan \<in> _\<close> have "pl_profile plan \<in> set (cf_profiles c)" "0 < pf_host_bytes (pl_profile plan)"
    by (auto simp: group_ok_def list_all_iff placed_def)
  moreover have "pf_host_bytes (pl_profile plan) \<le> sum_list (map pf_host_bytes (cf_profiles c))"
    using calculation by (intro member_le_sum_list) auto
  ultimately have "0 < gs_host g" using ok by (simp add: group_ok_def)
  with host that ok plans show ?thesis by blast
qed

section \<open>Admission of resolved workers\<close>

text \<open>Every entry of a reachable ledger is that of one of the plans.\<close>

definition entries_of_plans :: "deployment_plan list \<Rightarrow> ledger_world \<Rightarrow> bool" where
  "entries_of_plans plans w \<longleftrightarrow>
     (\<forall>k x. map_of (rs_state (lw_ledger w)) k = Some x \<longrightarrow>
        (\<exists>plan \<in> set plans. k = pf_id (pl_profile plan) \<and>
           x = (plan_gpu_ids plan, pf_host_bytes (pl_profile plan))))"

lemma acquire_capacity [simp]: "rs_host_capacity (snd (acquire plan i r)) = rs_host_capacity r"
  by (simp add: acquire_state)

lemma ledger_step_entries:
  assumes "entries_of_plans plans w"
  shows "entries_of_plans plans (ledger_step plans w e) \<and>
    rs_host_capacity (lw_ledger (ledger_step plans w e)) = rs_host_capacity (lw_ledger w)"
proof (cases e)
  case (Acquire n i)
  obtain x r where x: "acquire (plans ! n) i (lw_ledger w) = (x, r)" by force
  then have r: "r = snd (acquire (plans ! n) i (lw_ledger w))" by simp
  have "entries_of_plans plans (w\<lparr>lw_ledger := r\<rparr>) \<and> rs_host_capacity r = rs_host_capacity (lw_ledger w)"
    if "n < length plans"
    using assms that unfolding entries_of_plans_def r by (auto simp: acquire_state)
  with assms x show ?thesis
    by (cases x) (auto simp: Acquire entries_of_plans_def)
next
  case (DropReservation n)
  with assms show ?thesis by (auto simp: entries_of_plans_def drop_worker_reservation_def)
qed

lemma reachable_entries:
  "entries_of_plans plans (run (ledger_step plans) (ledger_world_new capacity) es) \<and>
   rs_host_capacity (lw_ledger (run (ledger_step plans) (ledger_world_new capacity) es)) = capacity"
proof -
  have "entries_of_plans plans (run (ledger_step plans) w es) \<and>
      rs_host_capacity (lw_ledger (run (ledger_step plans) w es)) = rs_host_capacity (lw_ledger w)"
    if "entries_of_plans plans w" for w
    using that
  proof (induction es arbitrary: w)
    case (Cons e es)
    from Cons.IH [of "ledger_step plans w e"] ledger_step_entries [OF Cons.prems, of e] show ?case by simp
  qed simp
  from this [of "ledger_world_new capacity"] show ?thesis
    by (simp add: entries_of_plans_def ledger_world_new_def reservations_new_def)
qed

text \<open>
  The budgets of the entries, with one more plan's, are a part of the sum over all plans.
\<close>

lemma bt_sum_keys:
  assumes "bt_wf m" "\<And>k x. map_of m k = Some x \<Longrightarrow> f x = w k"
  shows "bt_sum f m = sum w (fst ` set m)"
proof -
  have d: "distinct (map fst m)" using assms(1) by (rule bt_wf_distinct)
  have "bt_sum f m = sum_list (map (\<lambda>p. w (fst p)) m)"
    using assms(2) d by (auto simp: bt_sum_def intro!: arg_cong [where f = sum_list] map_cong)
  also have "\<dots> = sum_list (map w (map fst m))" by (simp add: comp_def)
  also have "\<dots> = sum w (set (map fst m))" using d by (simp only: sum_list_distinct_conv_sum_set)
  finally show ?thesis by simp
qed

lemma entries_host_sum:
  assumes "bt_wf m" "distinct (map (\<lambda>p. pf_id (pl_profile p)) plans)" "plan \<in> set plans"
    "map_of m (pf_id (pl_profile plan)) = None"
    "\<And>k x. map_of m k = Some x \<Longrightarrow> \<exists>p \<in> set plans. k = pf_id (pl_profile p) \<and> snd x = pf_host_bytes (pl_profile p)"
  shows "bt_sum snd m + pf_host_bytes (pl_profile plan) \<le> sum_list (map (\<lambda>p. pf_host_bytes (pl_profile p)) plans)"
proof -
  let ?id = "\<lambda>p. pf_id (pl_profile p)" and ?h = "\<lambda>p. pf_host_bytes (pl_profile p)"
  define w where "w k = ?h (the (find (\<lambda>p. ?id p = k) plans))" for k
  have w: "w (?id p) = ?h p" if "p \<in> set plans" for p
  proof -
    have "find (\<lambda>x. ?id x = ?id p) plans \<noteq> None" using that by (auto simp: find_None_iff)
    then obtain q where q: "find (\<lambda>x. ?id x = ?id p) plans = Some q" by blast
    from find_first [OF q assms(2), of "?id p" p] that have "q = p" by simp
    with q show ?thesis by (simp add: w_def)
  qed
  have keys: "bt_sum snd m = sum w (fst ` set m)"
    by (rule bt_sum_keys [OF assms(1)]) (use assms(5) w in fastforce)
  have sub: "insert (?id plan) (fst ` set m) \<subseteq> ?id ` set plans"
  proof -
    have "k \<in> ?id ` set plans" if "k \<in> fst ` set m" for k
    proof -
      from that have "map_of m k \<noteq> None" by (simp add: map_of_eq_None_iff)
      then obtain x where "map_of m k = Some x" by blast
      from assms(5) [OF this] show ?thesis by auto
    qed
    with assms(3) show ?thesis by auto
  qed
  have "sum_list (map ?h plans) = sum w (?id ` set plans)"
  proof -
    have "sum_list (map ?h plans) = sum_list (map w (map ?id plans))" using w by (simp cong: map_cong)
    also have "\<dots> = sum w (set (map ?id plans))" using assms(2) by (simp only: sum_list_distinct_conv_sum_set)
    finally show ?thesis by simp
  qed
  moreover have "sum w (insert (?id plan) (fst ` set m)) \<le> sum w (?id ` set plans)"
    by (rule sum_mono2) (use sub in auto)
  moreover have "sum w (insert (?id plan) (fst ` set m)) = ?h plan + sum w (fst ` set m)"
    using assms(3,4) w by (simp add: map_of_eq_None_iff)
  ultimately show ?thesis using keys by simp
qed

section \<open>What a fingerprint depends on\<close>

text \<open>The hardware of a device, without the measurements that change between starts.\<close>

definition hardware :: "device \<Rightarrow> rstr \<times> rstr \<times> nat \<times> bool" where
  "hardware d = (dev_id d, dev_pci_bus_id d, dev_total_bytes d, is_visible d)"

lemma find_map_option: "map_option f (find (\<lambda>x. Q (f x)) xs) = find Q (map f xs)"
  by (induction xs) auto

lemma named_devices_hardware:
  assumes "map hardware (inv_devices i) = map hardware (inv_devices j)"
    "named_devices i seen gpus = Ok ds" "named_devices j seen gpus = Ok es"
  shows "map hardware ds = map hardware es"
  using assms(2,3)
proof (induction gpus arbitrary: seen ds es)
  case (Cons gpu gpus)
  let ?P = "\<lambda>d. dev_id d = gpu \<and> is_visible d" and ?Q = "\<lambda>(a, b, c, v). a = gpu \<and> v"
  have Q: "?P = (\<lambda>d. ?Q (hardware d))" by (simp add: hardware_def fun_eq_iff)
  from Cons.prems obtain d ds' where d: "find ?P (inv_devices i) = Some d"
    "named_devices i (gpu # seen) gpus = Ok ds'" "ds = d # ds'"
    by (auto simp: res_bind_Ok split: if_splits)
  from Cons.prems obtain e es' where e: "find ?P (inv_devices j) = Some e"
    "named_devices j (gpu # seen) gpus = Ok es'" "es = e # es'"
    by (auto simp: res_bind_Ok split: if_splits)
  have "map_option hardware (find ?P (inv_devices i)) = map_option hardware (find ?P (inv_devices j))"
    unfolding Q find_map_option assms(1) ..
  with d(1) e(1) have "hardware d = hardware e" by simp
  with Cons.IH [OF d(2) e(2)] d(3) e(3) show ?case by simp
qed simp

lemma memory_fractions_totals:
  "map dev_total_bytes ds = map dev_total_bytes es \<Longrightarrow>
     memory_fractions (zip ds bs) = memory_fractions (zip es bs)"
proof (induction bs arbitrary: ds es)
  case (Cons b bs)
  show ?case
  proof (cases ds)
    case Nil
    with Cons.prems show ?thesis by simp
  next
    case (Cons d ds')
    with Cons.prems obtain e es' where es: "es = e # es'" "dev_total_bytes d = dev_total_bytes e"
      "map dev_total_bytes ds' = map dev_total_bytes es'" by auto
    from Cons.IH [OF es(3)] Cons es(1,2) show ?thesis by simp
  qed
qed simp

lemma runtime_args_totals:
  assumes "map dev_total_bytes ds = map dev_total_bytes es"
  shows "runtime_args p s ds = runtime_args p s es"
proof -
  have len: "length ds = length es" using assms by (rule map_eq_imp_length_eq)
  have llama: "llama_args p s ds = llama_args p s es"
    by (simp only: llama_args_def split_args_def len)
  have "memory_fraction p ds = memory_fraction p es"
    by (simp only: memory_fraction_def memory_fractions_totals [OF assms])
  then have "vllm_args p s ds = vllm_args p s es"
    by (simp only: vllm_args_def vllm_offload_args_def len)
  with llama show ?thesis by (simp only: runtime_args_def)
qed

lemma fingerprint_of_resolved:
  assumes "profile_resolve h p m i = Ok plan"
  obtains ds s args identity digest version where
    "select_devices p i = Ok ds" "effective_strategy p ds = Ok s" "runtime_args p s ds = Ok args"
    "rh_identity h m = Some identity" "rh_digest h (pf_executable p) = Some digest"
    "runtime_version h (pf_executable p) = Ok version"
    "pl_fingerprint plan = rh_fingerprint h
       \<lparr>fi_profile = p, fi_model = identity, fi_binary = digest, fi_runtime_version = version,
        fi_devices = map (\<lambda>d. (dev_id d, dev_pci_bus_id d, dev_total_bytes d)) ds,
        fi_strategy = s, fi_args = args, fi_environment = worker_environment p ds\<rparr>"
  using assms
proof (rule profile_resolve_Ok)
  fix ds s args identity digest version
  assume pp: "place_profile h p m i = Ok (ds, s, args)"
    and i: "rh_identity h m = Some identity" "rh_digest h (pf_executable p) = Some digest"
      "runtime_version h (pf_executable p) = Ok version"
    and plan: "plan = (let plan = \<lparr>pl_profile = p, pl_model_identity = identity, pl_executable_sha256 = digest,
                pl_runtime_version = version, pl_devices = ds, pl_strategy = s, pl_args = args,
                pl_environment = worker_environment p ds, pl_fingerprint = [],
                pl_reasons = plan_reasons p\<rparr>
             in plan\<lparr>pl_fingerprint := rh_fingerprint h (fingerprint_input_of plan)\<rparr>)"
  from pp have "select_devices p i = Ok ds" "effective_strategy p ds = Ok s" "runtime_args p s ds = Ok args"
    unfolding place_profile_Ok by simp_all
  from that [OF this i] show thesis by (simp add: plan Let_def fingerprint_input_of_def)
qed

lemma distinct_concat_pair:
  assumes "distinct (concat (map f xs))" "x \<in> set xs" "y \<in> set xs" "x \<noteq> y"
  shows "set (f x) \<inter> set (f y) = {}"
  using assms by (induction xs) auto

section \<open>Properties\<close>

text \<open>
  C22. A resolved configuration gives one plan per profile, in order, with distinct deployment
  identifiers; no GPU belongs to two plans or twice to one; every plan's devices are visible
  devices of the inventory, one per budget, each with free memory for its whole budget; the
  host budgets together fit the available host memory; and replicas of an alias share a model.
\<close>

theorem deployments_isolated:
  assumes "configuration_resolve h v c i = Ok plans"
  shows "map pl_profile plans = cf_profiles c \<and>
    distinct (map pf_id (cf_profiles c)) \<and>
    distinct (concat (map plan_gpu_ids plans)) \<and>
    (\<forall>plan \<in> set plans. placed i plan) \<and>
    (\<exists>a. inv_host_available_bytes i = Some a \<and> sum_list (map pf_host_bytes (cf_profiles c)) \<le> a) \<and>
    (\<forall>p \<in> set (cf_profiles c). \<forall>q \<in> set (cf_profiles c). pf_alias p = pf_alias q \<longrightarrow> pf_model p = pf_model q)"
proof (intro conjI)
  obtain g a where g: "group_ok i (cf_profiles c) g" and plans: "plans = gs_plans g"
    and a: "inv_host_available_bytes i = Some a" "gs_host g \<le> a"
    using configuration_resolve_Ok [OF assms] .
  show "map pl_profile plans = cf_profiles c" "distinct (map pf_id (cf_profiles c))"
    "distinct (concat (map plan_gpu_ids plans))" "\<forall>plan \<in> set plans. placed i plan"
    using g by (simp_all add: plans group_ok_def list_all_iff)
  show "\<exists>a. inv_host_available_bytes i = Some a \<and> sum_list (map pf_host_bytes (cf_profiles c)) \<le> a"
    using g a by (auto simp: group_ok_def)
  show "\<forall>p \<in> set (cf_profiles c). \<forall>q \<in> set (cf_profiles c). pf_alias p = pf_alias q \<longrightarrow> pf_model p = pf_model q"
    using g unfolding group_ok_def by (metis option.inject)
qed

text \<open>
  C33. Whatever sequence of acquisitions (against any inventories) and drops has happened, a
  resolved worker that is not running is admitted again on the inventory it was resolved for:
  resolution has already proved all that the ledger checks.
\<close>

theorem resolved_workers_admitted:
  assumes res: "configuration_resolve h v c i = Ok plans" and good: "good_inventory i"
    and cap: "inv_host_available_bytes i = Some capacity" "capacity \<le> u64_max"
    and n: "n < length plans"
    and idle: "pf_id (pl_profile (plans ! n)) \<notin> set (lw_alive (run (ledger_step plans) (ledger_world_new capacity) es))"
  shows "fst (acquire (plans ! n) i (lw_ledger (run (ledger_step plans) (ledger_world_new capacity) es)))
    = Ok (pf_id (pl_profile (plans ! n)))"
proof -
  define w where "w = run (ledger_step plans) (ledger_world_new capacity) es"
  define plan where "plan = plans ! n"
  have mem: "plan \<in> set plans" using n by (simp add: plan_def)
  obtain g a where g: "group_ok i (cf_profiles c) g" and plans: "plans = gs_plans g"
    and a: "inv_host_available_bytes i = Some a" "gs_host g \<le> a"
    using configuration_resolve_Ok [OF res] .
  have placed: "list_all (placed i) plans" and dist: "distinct (concat (map plan_gpu_ids plans))"
    and profs: "map pl_profile plans = cf_profiles c" and dids: "distinct (map pf_id (cf_profiles c))"
    and host: "sum_list (map pf_host_bytes (cf_profiles c)) \<le> capacity"
    using g a cap by (simp_all add: plans group_ok_def)
  have match: "\<forall>plan \<in> set plans. budgets_match plan" using placed by (simp add: list_all_iff placed_def)
  have inv: "ledger_inv w" using ledger.run_inv [of plans capacity es] match by (simp add: w_def)
  have ent: "entries_of_plans plans w" and c2: "rs_host_capacity (lw_ledger w) = capacity"
    using reachable_entries [of plans capacity es] by (simp_all add: w_def)
  have ids: "distinct (map (\<lambda>p. pf_id (pl_profile p)) plans)"
    using dids unfolding profs [symmetric] by (simp add: comp_def)
  have none: "map_of (rs_state (lw_ledger w)) (pf_id (pl_profile plan)) = None"
    using idle inv by (simp add: map_of_eq_None_iff ledger_inv_def w_def plan_def)
  have sum: "bt_sum snd (rs_state (lw_ledger w)) + pf_host_bytes (pl_profile plan) \<le> capacity"
  proof -
    have "bt_sum snd (rs_state (lw_ledger w)) + pf_host_bytes (pl_profile plan)
        \<le> sum_list (map (\<lambda>p. pf_host_bytes (pl_profile p)) plans)"
    proof (rule entries_host_sum [OF _ ids mem none])
      show "bt_wf (rs_state (lw_ledger w))" using inv by (simp add: ledger_inv_def)
      fix k x assume "map_of (rs_state (lw_ledger w)) k = Some x"
      with ent show "\<exists>p \<in> set plans. k = pf_id (pl_profile p) \<and> snd x = pf_host_bytes (pl_profile p)"
        unfolding entries_of_plans_def by fastforce
    qed
    also have "map (\<lambda>p. pf_host_bytes (pl_profile p)) plans = map pf_host_bytes (cf_profiles c)"
      unfolding profs [symmetric] by simp
    finally show ?thesis using host by simp
  qed
  have dev: "device_admissible (rs_state (lw_ledger w)) i d b = Ok ()"
    if db: "(d, b) \<in> set (zip (pl_devices plan) (pf_memory (pl_profile plan)))" for d b
  proof -
    have pl: "placed i plan" using placed mem by (simp add: list_all_iff)
    have d: "d \<in> set (pl_devices plan)" using db by (rule set_zip_leftD)
    with pl have di: "d \<in> set (inv_devices i)" "is_visible d" by (auto simp: placed_def)
    obtain t f where tf: "budget_total b = Some t" "dev_free_bytes d = Some f" "t \<le> f"
      using pl db by (auto simp: placed_def)
    have "find (\<lambda>e. dev_id e = dev_id d \<and> is_visible e) (inv_devices i) \<noteq> None"
      using di by (auto simp: find_None_iff)
    then obtain e where e: "find (\<lambda>e. dev_id e = dev_id d \<and> is_visible e) (inv_devices i) = Some e" by blast
    have "distinct (map dev_id (inv_devices i))" using good by (simp add: good_inventory_def)
    from find_first [OF e this, of "dev_id d" d] di have ed: "e = d" by simp
    have free: "dev_id d \<notin> set (fst x)" if x: "x \<in> set (bt_values (rs_state (lw_ledger w)))" for x
    proof
      assume g: "dev_id d \<in> set (fst x)"
      have wf: "bt_wf (rs_state (lw_ledger w))" using inv by (simp add: ledger_inv_def)
      obtain k where "map_of (rs_state (lw_ledger w)) k = Some x"
        using bt_values_in [OF x] bt_wf_get [OF wf] by blast
      with ent obtain q where q: "q \<in> set plans" "k = pf_id (pl_profile q)" "x = (plan_gpu_ids q, pf_host_bytes (pl_profile q))"
        unfolding entries_of_plans_def by blast
      with \<open>map_of _ k = Some x\<close> none have "q \<noteq> plan" by auto
      moreover have "dev_id d \<in> set (plan_gpu_ids plan)" using d by (simp add: plan_gpu_ids_def)
      moreover have "dev_id d \<in> set (plan_gpu_ids q)" using g q by simp
      ultimately show False using distinct_concat_pair [OF dist mem q(1)] by blast
    qed
    show ?thesis
      unfolding device_admissible_Ok using free e ed tf by (simp add: budget_or_max_def)
  qed
  have "admits (lw_ledger w) plan i"
    using none sum cap a dev c2 host g
    unfolding admits_def Let_def by (auto simp: bt_contains_iff map_of_eq_None_iff)
  then show ?thesis using acquire_Ok [of plan i "lw_ledger w"] by (simp add: w_def plan_def)
qed

text \<open>
  C23. After any sequence of acquisitions and drops the ledger is exact: one entry per living
  reservation, the host budgets within the capacity, and no GPU in the entries of two workers.
\<close>

theorem ledger_books_exact:
  assumes "\<forall>plan \<in> set plans. budgets_match plan"
  shows "let w = run (ledger_step plans) (ledger_world_new capacity) es; m = rs_state (lw_ledger w) in
    distinct (lw_alive w) \<and> set (lw_alive w) = fst ` set m \<and> bt_sum snd m \<le> capacity \<and>
    (\<forall>a x b y g. map_of m a = Some x \<longrightarrow> map_of m b = Some y \<longrightarrow>
       g \<in> set (fst x) \<longrightarrow> g \<in> set (fst y) \<longrightarrow> a = b)"
proof -
  have "ledger_inv (run (ledger_step plans) (ledger_world_new capacity) es)"
    using ledger.run_inv [of plans capacity es] assms by simp
  moreover have "rs_host_capacity (lw_ledger (run (ledger_step plans) (ledger_world_new capacity) es)) = capacity"
    using reachable_entries by simp
  ultimately show ?thesis unfolding ledger_inv_def gpus_exclusive_def Let_def by simp
qed

text \<open>
  The fingerprint of a profile with named GPUs is a function of the hardware: two
  inventories that show the same devices and differ in measurements only (free memory, links,
  topology, host memory) give the same fingerprint whenever both resolve.
\<close>

theorem fingerprint_ignores_scrapes:
  assumes "profile_resolve h p m i = Ok a" "profile_resolve h p m j = Ok b"
    and "pf_gpus p \<noteq> []" "map hardware (inv_devices i) = map hardware (inv_devices j)"
  shows "pl_fingerprint a = pl_fingerprint b"
proof (rule fingerprint_of_resolved [OF assms(1)], rule fingerprint_of_resolved [OF assms(2)])
  fix ds s args identity digest version es s' args' identity' digest' version'
  assume A: "select_devices p i = Ok ds" "effective_strategy p ds = Ok s" "runtime_args p s ds = Ok args"
    "rh_identity h m = Some identity" "rh_digest h (pf_executable p) = Some digest"
    "runtime_version h (pf_executable p) = Ok version"
    and fa: "pl_fingerprint a = rh_fingerprint h
       \<lparr>fi_profile = p, fi_model = identity, fi_binary = digest, fi_runtime_version = version,
        fi_devices = map (\<lambda>d. (dev_id d, dev_pci_bus_id d, dev_total_bytes d)) ds,
        fi_strategy = s, fi_args = args, fi_environment = worker_environment p ds\<rparr>"
  assume B: "select_devices p j = Ok es" "effective_strategy p es = Ok s'" "runtime_args p s' es = Ok args'"
    "rh_identity h m = Some identity'" "rh_digest h (pf_executable p) = Some digest'"
    "runtime_version h (pf_executable p) = Ok version'"
    and fb: "pl_fingerprint b = rh_fingerprint h
       \<lparr>fi_profile = p, fi_model = identity', fi_binary = digest', fi_runtime_version = version',
        fi_devices = map (\<lambda>d. (dev_id d, dev_pci_bus_id d, dev_total_bytes d)) es,
        fi_strategy = s', fi_args = args', fi_environment = worker_environment p es\<rparr>"
  from A(1) B(1) assms(3) have "named_devices i [] (pf_gpus p) = Ok ds" "named_devices j [] (pf_gpus p) = Ok es"
    by (simp_all add: select_devices_def)
  from named_devices_hardware [OF assms(4) this] have hw: "map hardware ds = map hardware es" .
  have proj: "map f ds = map f es" if "f = (\<lambda>d. k (hardware d))" for f :: "device \<Rightarrow> 'z" and k
    using arg_cong [OF hw, of "map k"] that by (simp add: comp_def)
  have tot: "map dev_total_bytes ds = map dev_total_bytes es"
    by (rule proj [of _ "\<lambda>(a, b, c, v). c"]) (simp add: hardware_def fun_eq_iff)
  have ids: "map dev_id ds = map dev_id es"
    by (rule proj [of _ "\<lambda>(a, b, c, v). a"]) (simp add: hardware_def fun_eq_iff)
  have dev: "map (\<lambda>d. (dev_id d, dev_pci_bus_id d, dev_total_bytes d)) ds
      = map (\<lambda>d. (dev_id d, dev_pci_bus_id d, dev_total_bytes d)) es"
    by (rule proj [of _ "\<lambda>(a, b, c, v). (a, b, c)"]) (simp add: hardware_def fun_eq_iff)
  have len: "length ds = length es" using tot by (rule map_eq_imp_length_eq)
  have "effective_strategy p ds = effective_strategy p es" by (simp only: effective_strategy_def len)
  with A(2) B(2) have s: "s = s'" by simp
  moreover have "args = args'" using A(3) B(3) runtime_args_totals [OF tot] s by simp
  moreover have "worker_environment p ds = worker_environment p es"
    by (simp only: worker_environment_def ids)
  moreover have "identity = identity'" "digest = digest'" "version = version'" using A B by simp_all
  ultimately show ?thesis unfolding fa fb dev by simp
qed

text \<open>
  The visible devices are those of the process mask that the container mask also names,
  each once, in the order of the process mask: visibility reorders and hides, and never adds.
\<close>

theorem visibility_follows_masks:
  assumes "good_inventory i" "apply_visibility i cuda container = Ok j"
  shows "\<exists>cs gs. resolve_mask (inv_devices i) container True = Ok cs \<and>
    resolve_mask (inv_devices i) cuda False = Ok gs \<and>
    map dev_id (visible j) = filter (\<lambda>gpu. gpu \<in> set cs) gs \<and> distinct gs \<and>
    map dev_id (inv_devices j) = map dev_id (inv_devices i)"
  using assms(2)
proof (rule apply_visibility_Ok)
  fix cs gs
  assume cs: "resolve_mask (inv_devices i) container True = Ok cs"
    and gs: "resolve_mask (inv_devices i) cuda False = Ok gs"
    and j: "j = i\<lparr>inv_devices := map (index_device (filter (\<lambda>id. id \<in> set cs) gs)) (inv_devices i)\<rparr>"
  have d: "distinct (map dev_id (inv_devices i))" using assms(1) by (simp add: good_inventory_def)
  from resolve_mask_ids [OF gs d] have g: "distinct gs" "set gs \<subseteq> dev_id ` set (inv_devices i)" by simp_all
  have "map dev_id (visible j) = filter (\<lambda>id. id \<in> set cs) gs"
    unfolding visible_def j using sorted_by_position [OF _ d, of "filter (\<lambda>id. id \<in> set cs) gs"] g
    by (auto simp: comp_def)
  with cs gs g j show ?thesis by (auto simp: comp_def)
qed

section \<open>What a worker sees\<close>

lemma filter_absent: "x \<notin> set xs \<Longrightarrow> filter (\<lambda>y. y = x) xs = []"
  by (induction xs) auto

lemma filter_one: "distinct xs \<Longrightarrow> x \<in> set xs \<Longrightarrow> filter (\<lambda>y. y = x) xs = [x]"
  by (induction xs) (auto simp: filter_absent)

lemma resolve_full_ids:
  assumes "good_inventory i" "\<forall>d \<in> set (inv_devices i). \<forall>e \<in> set (inv_devices i). length (dev_id d) = length (dev_id e)"
    "distinct (acc @ ids)" "set ids \<subseteq> dev_id ` set (inv_devices i)"
  shows "resolve_tokens (inv_devices i) container acc ids = Ok (acc @ ids)"
  using assms(3,4)
proof (induction ids arbitrary: acc)
  case (Cons x ids)
  let ?ds = "inv_devices i"
  from Cons.prems(2) obtain d where d: "d \<in> set ?ds" "x = dev_id d" by auto
  from assms(1) d have gpu: "starts_with (lit ''GPU-'') x" by (auto simp: good_inventory_def list_all_iff good_device_def)
  then have mig: "\<not> starts_with (lit ''MIG-'') x" by (auto simp: starts_with_iff lit_def)
  have dist: "distinct (map dev_id ?ds)" using assms(1) by (simp add: good_inventory_def)
  have match: "token_matches ?ds container x e \<longleftrightarrow> e = d" if e: "e \<in> set ?ds" for e
  proof -
    have "starts_with x (dev_id e) \<longleftrightarrow> x = dev_id e"
      using assms(2) d e unfolding starts_with_def by (metis order_refl take_all)
    also have "\<dots> \<longleftrightarrow> e = d" using dist d e by (auto simp: distinct_map inj_on_def)
    finally show ?thesis using gpu by (simp add: token_matches_def)
  qed
  have "filter (token_matches ?ds container x) ?ds = filter (\<lambda>e. e = d) ?ds"
    using match by (intro filter_cong) auto
  also have "\<dots> = [d]"
    using filter_one d(1) dist by (auto simp: distinct_map)
  finally have one: "filter (token_matches ?ds container x) ?ds = [d]" .
  with Cons.IH [of "acc @ [x]"] Cons.prems d(2) mig show ?case by auto
qed simp

lemma join_mask:
  assumes "\<forall>x \<in> set ids. starts_with (lit ''GPU-'') x" "ids \<noteq> []"
  shows "\<not> mask_empty (join [44] ids)"
proof -
  obtain x xs where ids: "ids = x # xs" using assms(2) by (cases ids) auto
  with assms(1) have "starts_with (lit ''GPU-'') x" by simp
  then obtain r where r: "x = 71 # r" by (auto simp: starts_with_iff lit_def)
  then obtain s where s: "join [44] ids = 71 # s" by (cases xs) (auto simp: ids)
  have ts: "trim_start (71 # s) = 71 # s" by (simp add: trim_start_def is_whitespace_def)
  obtain u where u: "71 # s = trim (71 # s) @ u" using trim_end_prefix [of "71 # s"] by (auto simp: trim_def ts)
  have ne: "trim (71 # s) \<noteq> []"
  proof
    assume "trim (71 # s) = []"
    then have "\<forall>c \<in> set (rev (71 # s)). is_whitespace c"
      by (simp only: trim_def ts trim_end_def rev_is_Nil_conv dropWhile_eq_Nil_conv)
    then show False by (simp add: is_whitespace_def)
  qed
  with u have "hd (trim (71 # s)) = 71" by (metis hd_append2 list.sel(1))
  with ne show ?thesis unfolding mask_empty_def s by (auto simp: lit_def)
qed

text \<open>
  C34. A worker started with the environment of its plan sees exactly the plan's GPUs, in the
  order of the plan: reading the mask that the plan writes, on the inventory it was resolved
  for (whose UUIDs have one length), yields the plan's devices and nothing else.
\<close>

theorem worker_sees_its_gpus:
  assumes res: "profile_resolve h p m i = Ok plan" and good: "good_inventory i"
    and len: "\<forall>d \<in> set (inv_devices i). \<forall>e \<in> set (inv_devices i). length (dev_id d) = length (dev_id e)"
  shows "\<exists>j. apply_visibility i (map_of (pl_environment plan) VISIBLE_DEVICES) None = Ok j \<and>
    map dev_id (visible j) = plan_gpu_ids plan"
proof -
  let ?ids = "plan_gpu_ids plan" and ?ds = "inv_devices i"
  from profile_resolve_placed [OF res] have pl: "placed i plan"
    and env: "pl_environment plan = worker_environment p (pl_devices plan)" by simp_all
  have mask: "map_of (pl_environment plan) VISIBLE_DEVICES = Some (join [44] ?ids)"
    by (simp add: env worker_environment_def plan_gpu_ids_def)
  have sub: "set ?ids \<subseteq> dev_id ` set ?ds" and dist: "distinct ?ids" and ne: "?ids \<noteq> []"
    using pl by (auto simp: placed_def plan_gpu_ids_def)
  have ids: "starts_with (lit ''GPU-'') x \<and> 44 \<notin> set x \<and> trim x = x" if "x \<in> set ?ids" for x
    using that sub good by (auto simp: good_inventory_def list_all_iff good_device_def)
  have toks: "map trim (split_at_char 44 (join [44] ?ids)) = ?ids"
    using split_join [OF ne, of 44] ids by (simp add: map_idI)
  have resolved: "resolve_tokens ?ds False [] ?ids = Ok ?ids"
    using resolve_full_ids [OF good len, of "[]" ?ids False] dist sub by simp
  have "\<not> mask_empty (join [44] ?ids)" using join_mask [OF _ ne] ids by blast
  with toks resolved have cuda: "resolve_mask ?ds (Some (join [44] ?ids)) False = Ok ?ids"
    by (simp add: resolve_mask_def)
  have dd: "distinct (map dev_id ?ds)" using good by (simp add: good_inventory_def)
  have keep: "filter (\<lambda>id. id \<in> set (map dev_id ?ds)) ?ids = ?ids"
    using sub by (intro filter_True) auto
  have "apply_visibility i (Some (join [44] ?ids)) None = Ok (i\<lparr>inv_devices := map (index_device ?ids) ?ds\<rparr>)"
  proof -
    have "resolve_mask ?ds None True = Ok (map dev_id ?ds)" by (simp add: resolve_mask_def)
    then show ?thesis by (simp only: apply_visibility_def cuda res_bind.simps Let_def keep)
  qed
  moreover have "map dev_id (visible (i\<lparr>inv_devices := map (index_device ?ids) ?ds\<rparr>)) = ?ids"
    unfolding visible_def using sorted_by_position [OF dist dd sub] by simp
  ultimately show ?thesis unfolding mask by blast
qed

section \<open>Demonstration\<close>

definition gpu_a :: device where
  "gpu_a = \<lparr>dev_id = lit ''GPU-a'', dev_physical_index = 0, dev_vendor = lit ''nvidia'',
     dev_name = lit ''large'', dev_architecture = None, dev_runtime = lit ''cuda'',
     dev_pci_bus_id = lit ''0000:01:00.0'', dev_total_bytes = 24000, dev_free_bytes = Some 23000,
     dev_numa_node = None, dev_pcie_link = None, dev_visible_index = Some 0\<rparr>"

definition gpu_b :: device where
  "gpu_b = gpu_a\<lparr>dev_id := lit ''GPU-b'', dev_physical_index := 1, dev_total_bytes := 12000,
     dev_free_bytes := Some 11000, dev_visible_index := Some 1\<rparr>"

definition two_gpus :: inventory where
  "two_gpus = empty_inventory\<lparr>inv_devices := [gpu_a, gpu_b], inv_host_available_bytes := Some 64000\<rparr>"

definition small_budget :: device_budget where
  "small_budget = \<lparr>bu_weights = 1000, bu_replicated = 0, bu_kv = 10, bu_experts = 0, bu_compute = 10,
     bu_overhead = 10, bu_reserve = 10\<rparr>"

definition worker_a :: profile where
  "worker_a = \<lparr>pf_id = lit ''worker-a'', pf_alias = lit ''chat'', pf_model = lit ''m'', pf_runtime = LlamaCuda,
     pf_executable = lit ''/r'', pf_build = lit ''b'', pf_gpus = [lit ''GPU-a''], pf_strategy = Single,
     pf_tensor_parallel = 1, pf_pipeline_parallel = 1, pf_split = [], pf_context = 1024, pf_batch = 128,
     pf_parallel = 1, pf_cpu_threads = 2, pf_offload = OffloadNone, pf_kv_cpu = False,
     pf_memory = [small_budget], pf_host_bytes = 1000, pf_native_args = []\<rparr>"

definition worker_b :: profile where
  "worker_b = worker_a\<lparr>pf_id := lit ''worker-b'', pf_gpus := [], pf_strategy := Auto\<rparr>"

definition two_workers :: configuration where
  "two_workers = \<lparr>cf_version = 1, cf_profiles = [worker_a, worker_b]\<rparr>"

definition gguf_model :: model_manifest where
  "gguf_model = \<lparr>mf_id = lit ''m'', mf_format = FormatGguf, mf_architecture = None, mf_family = None,
     mf_repository_layout = SingleFile, mf_tasks = [], mf_files = [], mf_components = []\<rparr>"

definition quiet_host :: runtime_host where
  "quiet_host = \<lparr>rh_env = (\<lambda>_. None), rh_identity = (\<lambda>_. Some (lit ''id'')), rh_digest = (\<lambda>_. Some (lit ''d'')),
     rh_version = (\<lambda>_. Some \<lparr>po_success = True, po_stdout = lit ''v1'', po_stderr = []\<rparr>),
     rh_help = (\<lambda>_ _ _. Some \<lparr>po_success = True,
        po_stdout = lit ''--device --split-mode --main-gpu'', po_stderr = []\<rparr>),
     rh_fingerprint = (\<lambda>f. concat (map fst (fi_devices f)))\<rparr>"

definition one_model :: "unit model_view" where
  "one_model = \<lparr>mv_get = (\<lambda>_. Some gguf_model), mv_config = (\<lambda>_. None), mv_field = (\<lambda>_ _. None),
     mv_u64 = (\<lambda>_. None), mv_null = (\<lambda>_. False), mv_cpu_expert_bytes = (\<lambda>_ _. None)\<rparr>"

lemma demo_args: 
  "runtime_args worker_a Single [gpu_a] = Ok [lit ''--device'', lit ''CUDA0'', lit ''--split-mode'', lit ''none'', lit ''--main-gpu'', lit ''0'']"
  "runtime_args worker_b Single [gpu_b] = Ok [lit ''--device'', lit ''CUDA0'', lit ''--split-mode'', lit ''none'', lit ''--main-gpu'', lit ''0'']"
  by (simp_all add: runtime_args_def llama_args_def split_args_def llama_offload_args_def worker_b_def worker_a_def ensure_def arg_def decimal.simps lit_def)

lemma demo_total: "budget_total small_budget = Some 1040"
  by (simp add: budget_total_def small_budget_def checked_add_def u64_max_def)

lemma demo_help: "split_by help_separator (lit ''--device --split-mode --main-gpu'' @ 10 # []) =
   [lit ''--device'', lit ''--split-mode'', lit ''--main-gpu'', []]"
  by (simp add: split_by_def lit_def help_separator_def is_whitespace_def)

lemma demo_version: "runtime_version quiet_host x = Ok (lit ''v1'')"
  by (simp add: runtime_version_def quiet_host_def ensure_def opt_ok_def version_text_def version_line_def str_lines_def strip_cr_def
   lit_def trim_def trim_start_def trim_end_def is_whitespace_def str_len_def utf8_width_def starts_with_def)

lemma demo_guards: "ensure_all (profile_guards quiet_host worker_a gguf_model (i\<lparr>inv_memory_topology := None\<rparr>)) = Ok ()"
   "ensure_all (profile_guards quiet_host worker_b gguf_model (i\<lparr>inv_memory_topology := None\<rparr>)) = Ok ()"
  by (simp_all add: profile_guards_def worker_b_def worker_a_def quiet_host_def gguf_model_def env_blank_def lit_def
   id_char_def is_ascii_alnum_def is_ascii_lower_def is_ascii_digit_def is_ascii_upper_def str_len_def utf8_width_def starts_with_def
   trim_def trim_start_def trim_end_def is_whitespace_def checked_mul_def u64_max_def u32_max_def)
definition demo_plan :: "profile \<Rightarrow> device \<Rightarrow> deployment_plan" where
  "demo_plan p d = \<lparr>pl_profile = p, pl_model_identity = lit ''id'', pl_executable_sha256 = lit ''d'',
     pl_runtime_version = lit ''v1'', pl_devices = [d], pl_strategy = Single,
     pl_args = [lit ''--device'', lit ''CUDA0'', lit ''--split-mode'', lit ''none'', lit ''--main-gpu'', lit ''0''],
     pl_environment = worker_environment p [d], pl_fingerprint = dev_id d, pl_reasons = plan_reasons p\<rparr>"

lemma demo_probe: "pf_runtime p = LlamaCuda \<Longrightarrow> probe_help quiet_host (demo_plan p d\<lparr>pl_fingerprint := []\<rparr>) = Ok ()"
proof -
  assume "pf_runtime p = LlamaCuda"
  moreover have "advertised [lit ''--device'', lit ''--split-mode'', lit ''--main-gpu'', []]
      (pl_args (demo_plan p d)) = Ok ()"
    by (simp add: demo_plan_def starts_with_def lit_def)
  ultimately show ?thesis
    using demo_help by (simp add: probe_help_def quiet_host_def ensure_def opt_ok_def help_text_def validate_help_def demo_plan_def Let_def)
qed

definition busy_gpu :: device where
  "busy_gpu = gpu_a\<lparr>dev_free_bytes := Some 5000\<rparr>"

definition busy_gpus :: inventory where
  "busy_gpus = two_gpus\<lparr>inv_devices := [busy_gpu, gpu_b]\<rparr>"

lemma demo_devices:
  "select_devices worker_a two_gpus = Ok [gpu_a]"
  "select_devices worker_a busy_gpus = Ok [busy_gpu]"
  "select_devices worker_b (hide_used [lit ''GPU-a''] two_gpus) = Ok [gpu_b]"
  by (simp_all add: select_devices_def worker_a_def worker_b_def busy_gpus_def busy_gpu_def two_gpus_def is_visible_def gpu_a_def gpu_b_def opt_ok_def
    empty_inventory_def auto_device_def smallest_fit_def holds_def visible_def hide_used_def demo_total small_budget_def budget_total_def checked_add_def u64_max_def lit_def)

lemma demo_admit: "admit_device gpu_a small_budget = Ok ()" "admit_device gpu_b small_budget = Ok ()"
  "admit_device busy_gpu small_budget = Ok ()"
proof -
  have "0 < bu_reserve small_budget" "0 < bu_overhead small_budget" "0 < bu_compute small_budget"
    by (simp_all add: small_budget_def)
  then show "admit_device gpu_a small_budget = Ok ()" "admit_device gpu_b small_budget = Ok ()"
    "admit_device busy_gpu small_budget = Ok ()"
    by (simp_all add: admit_device_Ok demo_total gpu_a_def gpu_b_def busy_gpu_def)
qed

lemma demo_resolve:
  "profile_resolve quiet_host worker_a gguf_model two_gpus = Ok (demo_plan worker_a gpu_a)"
  "profile_resolve quiet_host worker_b gguf_model (hide_used [lit ''GPU-a''] two_gpus) = Ok (demo_plan worker_b gpu_b)"
  "profile_resolve quiet_host worker_a gguf_model busy_gpus = Ok (demo_plan worker_a busy_gpu)"
proof -
  have resolve: "profile_resolve quiet_host p gguf_model i = Ok (demo_plan p d)"
    if "place_profile quiet_host p gguf_model i = Ok ([d], Single,
       [lit ''--device'', lit ''CUDA0'', lit ''--split-mode'', lit ''none'', lit ''--main-gpu'', lit ''0''])"
      "pf_runtime p = LlamaCuda" for p d i
    using demo_probe [OF that(2), of d] that(1) demo_version
    by (simp add: profile_resolve_def opt_ok_def quiet_host_def demo_plan_def Let_def fingerprint_input_of_def)
  have m: "two_gpus = two_gpus\<lparr>inv_memory_topology := None\<rparr>" "busy_gpus = busy_gpus\<lparr>inv_memory_topology := None\<rparr>"
    "hide_used [lit ''GPU-a''] two_gpus = (hide_used [lit ''GPU-a''] two_gpus)\<lparr>inv_memory_topology := None\<rparr>"
    by (simp_all add: two_gpus_def busy_gpus_def empty_inventory_def hide_used_def)
  have a: "profile_resolve quiet_host worker_a gguf_model i = Ok (demo_plan worker_a d)"
    if "i = i\<lparr>inv_memory_topology := None\<rparr>" "select_devices worker_a i = Ok [d]"
      "admit_device d small_budget = Ok ()" "runtime_args worker_a Single [d] = runtime_args worker_a Single [gpu_a]" for i d
  proof -
    have "place_profile quiet_host worker_a gguf_model i = Ok ([d], Single,
       [lit ''--device'', lit ''CUDA0'', lit ''--split-mode'', lit ''none'', lit ''--main-gpu'', lit ''0''])"
      unfolding place_profile_Ok using demo_guards(1) [of i] that demo_args
      by (simp add: worker_a_def admit_devices_Ok effective_strategy_def ensure_def)
    then show ?thesis by (rule resolve) (simp add: worker_a_def)
  qed
  show "profile_resolve quiet_host worker_a gguf_model two_gpus = Ok (demo_plan worker_a gpu_a)"
    by (rule a) (use m(1) demo_devices(1) demo_admit(1) in simp_all)
  have "runtime_args worker_a Single [busy_gpu] = runtime_args worker_a Single [gpu_a]"
    by (rule runtime_args_totals) (simp add: busy_gpu_def)
  then show "profile_resolve quiet_host worker_a gguf_model busy_gpus = Ok (demo_plan worker_a busy_gpu)"
    by (intro a) (use m(2) demo_devices(2) demo_admit(3) in simp_all)
  have "place_profile quiet_host worker_b gguf_model (hide_used [lit ''GPU-a''] two_gpus) = Ok ([gpu_b], Single,
       [lit ''--device'', lit ''CUDA0'', lit ''--split-mode'', lit ''none'', lit ''--main-gpu'', lit ''0''])"
    unfolding place_profile_Ok using demo_guards(2) [of "hide_used [lit ''GPU-a''] two_gpus"] m(3) demo_devices demo_args demo_admit
    by (simp add: worker_a_def worker_b_def admit_devices_Ok effective_strategy_def ensure_def)
  then show "profile_resolve quiet_host worker_b gguf_model (hide_used [lit ''GPU-a''] two_gpus) = Ok (demo_plan worker_b gpu_b)"
    by (rule resolve) (simp add: worker_b_def worker_a_def)
qed

lemma demo_configuration:
  "configuration_resolve quiet_host one_model two_workers two_gpus = Ok [demo_plan worker_a gpu_a, demo_plan worker_b gpu_b]"
proof -
  have h: "hide_used [] two_gpus = two_gpus" by (simp add: hide_used_def two_gpus_def empty_inventory_def)
  have g: "dev_id gpu_a = lit ''GPU-a''" "dev_id gpu_b = lit ''GPU-b''" "lit ''GPU-b'' \<noteq> lit ''GPU-a''"
    "lit ''worker-b'' \<noteq> lit ''worker-a''"
    by (simp_all add: gpu_a_def gpu_b_def lit_def)
  have p: "pf_id worker_a = lit ''worker-a''" "pf_id worker_b = lit ''worker-b''" "pf_model worker_a = lit ''m''"
    "pf_model worker_b = lit ''m''" "pf_alias worker_b = pf_alias worker_a" "pf_offload worker_a = OffloadNone"
    "pf_offload worker_b = OffloadNone" "pf_runtime worker_a = LlamaCuda" "pf_runtime worker_b = LlamaCuda"
    "pf_host_bytes worker_a = 1000" "pf_host_bytes worker_b = 1000"
    by (simp_all add: worker_a_def worker_b_def)
  have d: "pl_devices (demo_plan q x) = [x]" for q x by (simp add: demo_plan_def)
  have v: "mv_get one_model m = Some gguf_model" for m by (simp add: one_model_def)
  have "resolve_profiles quiet_host one_model two_gpus [worker_a, worker_b] empty_group =
      Ok \<lparr>gs_ids = [lit ''worker-b'', lit ''worker-a''], gs_used = [lit ''GPU-b'', lit ''GPU-a''],
         gs_aliases = bt_insert (pf_alias worker_a) (lit ''m'') (bt_insert (pf_alias worker_a) (lit ''m'') []),
         gs_plans = [demo_plan worker_a gpu_a, demo_plan worker_b gpu_b], gs_host = 2000\<rparr>"
    by (simp add: resolve_one_def empty_group_def v h p d g ensure_def opt_ok_def expert_tensors_def
      validate_model_parallel_def demo_resolve checked_add_def u64_max_def)
  then show ?thesis
    by (simp add: configuration_resolve_def configuration_guards_def two_workers_def opt_ok_def ensure_def
      two_gpus_def empty_inventory_def)
qed

lemma two_gpus_good: "good_inventory two_gpus"
  by (auto simp: good_inventory_def two_gpus_def empty_inventory_def good_device_def gpu_a_def gpu_b_def
    visible_indices_distinct_def lit_def starts_with_def u64_max_def is_whitespace_def intro!: trim_id)
    
theorem deployments_isolated_witness:
  "distinct (concat (map plan_gpu_ids [demo_plan worker_a gpu_a, demo_plan worker_b gpu_b]))"
  using deployments_isolated [OF demo_configuration] by blast

theorem resolved_workers_admitted_witness:
  "fst (acquire ([demo_plan worker_a gpu_a, demo_plan worker_b gpu_b] ! 1) two_gpus
     (lw_ledger (run (ledger_step [demo_plan worker_a gpu_a, demo_plan worker_b gpu_b]) (ledger_world_new 64000) [])))
   = Ok (pf_id (pl_profile ([demo_plan worker_a gpu_a, demo_plan worker_b gpu_b] ! 1)))"
proof (rule resolved_workers_admitted [OF demo_configuration two_gpus_good])
  show "inv_host_available_bytes two_gpus = Some 64000" by (simp add: two_gpus_def empty_inventory_def)
qed (simp_all add: u64_max_def ledger_world_new_def)

theorem ledger_books_exact_witness:
  "let w = run (ledger_step [demo_plan worker_a gpu_a]) (ledger_world_new 64000) [Acquire 0 two_gpus]; m = rs_state (lw_ledger w) in
    distinct (lw_alive w) \<and> set (lw_alive w) = fst ` set m \<and> bt_sum snd m \<le> 64000 \<and>
    (\<forall>a x b y g. map_of m a = Some x \<longrightarrow> map_of m b = Some y \<longrightarrow>
       g \<in> set (fst x) \<longrightarrow> g \<in> set (fst y) \<longrightarrow> a = b)"
  by (rule ledger_books_exact) (simp add: budgets_match_def demo_plan_def worker_a_def)

theorem fingerprint_ignores_scrapes_witness:
  "pl_fingerprint (demo_plan worker_a gpu_a) = pl_fingerprint (demo_plan worker_a busy_gpu)"
proof (rule fingerprint_ignores_scrapes [OF demo_resolve(1) demo_resolve(3)])
  show "map hardware (inv_devices two_gpus) = map hardware (inv_devices busy_gpus)"
    by (simp add: busy_gpus_def busy_gpu_def two_gpus_def empty_inventory_def hardware_def is_visible_def)
qed (simp add: worker_a_def)

theorem worker_sees_its_gpus_witness:
  "\<exists>j. apply_visibility two_gpus (map_of (pl_environment (demo_plan worker_a gpu_a)) VISIBLE_DEVICES) None = Ok j \<and>
    map dev_id (visible j) = plan_gpu_ids (demo_plan worker_a gpu_a)"
  by (rule worker_sees_its_gpus [OF demo_resolve(1) two_gpus_good])
    (simp add: two_gpus_def empty_inventory_def gpu_a_def gpu_b_def lit_def)

theorem visibility_follows_masks_witness:
  "\<exists>cs gs. resolve_mask (inv_devices two_gpus) (Some (lit ''1'')) True = Ok cs \<and>
    resolve_mask (inv_devices two_gpus) None False = Ok gs \<and>
    map dev_id (visible (two_gpus\<lparr>inv_devices := map (index_device [lit ''GPU-b'']) (inv_devices two_gpus)\<rparr>))
      = filter (\<lambda>gpu. gpu \<in> set cs) gs \<and> distinct gs \<and>
    map dev_id (inv_devices (two_gpus\<lparr>inv_devices := map (index_device [lit ''GPU-b'']) (inv_devices two_gpus)\<rparr>))
      = map dev_id (inv_devices two_gpus)"
proof (rule visibility_follows_masks [OF two_gpus_good])
  show "apply_visibility two_gpus None (Some (lit ''1'')) =
      Ok (two_gpus\<lparr>inv_devices := map (index_device [lit ''GPU-b'']) (inv_devices two_gpus)\<rparr>)"
    by (simp add: apply_visibility_def resolve_mask_def two_gpus_def empty_inventory_def gpu_a_def gpu_b_def
      lit_def mask_empty_def trim_def trim_start_def trim_end_def is_whitespace_def split_at_char_def split_by_def
      starts_with_def token_matches_def parse_unsigned_def parse_digits_def strip_plus_def is_ascii_digit_def
      digits_value_def u32_max_def Let_def)
qed
end
