(* ===== verification/Deployment_Registry.thy ===== *)
theory Deployment_Registry
  imports Deployment_Resolve
begin

text \<open>
  Routing of requests to deployments (\<open>src/src/api/deployments.rs\<close>): instances and their
  aliases, session affinity, round robin with load, and admission by semaphores without a
  queue, as a state machine over requests that are selected and released. The API state of an
  instance is represented by the instance's identifier. The number of free slots that
  \<open>select\<close> reads while it compares replicas is an argument, because other requests may take or
  return slots between the comparison and the acquisition.
\<close>

section \<open>The registry\<close>

record registry =
  rg_instances :: "(rstr, deployment_plan) btree"
  rg_aliases :: "(rstr, rstr list) btree"
  rg_slots :: "(rstr, nat) btree"
  rg_next :: nat

datatype registry_error =
    DuplicateId
  | AliasCollision rstr
  | UnknownAlias rstr
  | UnknownDeployment rstr
  | SessionNotText
  | SessionLength
  | Busy

definition MAX_PERMITS :: nat where "MAX_PERMITS = 2305843009213693951"

definition push_alias :: "rstr \<Rightarrow> rstr \<Rightarrow> (rstr, rstr list) btree \<Rightarrow> (rstr, rstr list) btree" where
  "push_alias alias worker m =
     bt_insert alias ((case map_of m alias of None \<Rightarrow> [] | Some ids \<Rightarrow> ids) @ [worker]) m"

fun add_instances :: "deployment_plan list \<Rightarrow> registry \<Rightarrow> (registry_error, registry) res" where
  "add_instances [] r = Ok r"
| "add_instances (plan # plans) r =
     (let p = pl_profile plan in
      if bt_contains (pf_id p) (rg_instances r) then Err DuplicateId
      else if MAX_PERMITS < pf_parallel p then Panic
      else add_instances plans (r\<lparr>rg_aliases := push_alias (pf_alias p) (pf_id p) (rg_aliases r),
             rg_instances := bt_insert (pf_id p) plan (rg_instances r),
             rg_slots := bt_insert (pf_id p) (pf_parallel p) (rg_slots r)\<rparr>))"

definition alias_free :: "(rstr, deployment_plan) btree \<Rightarrow> rstr \<Rightarrow> rstr list \<Rightarrow> bool" where
  "alias_free instances alias ids \<longleftrightarrow> \<not> bt_contains alias instances \<or> ids = [alias]"

fun check_aliases :: "(rstr, deployment_plan) btree \<Rightarrow> (rstr, rstr list) btree \<Rightarrow> (registry_error, (rstr, rstr list) btree) res" where
  "check_aliases instances [] = Ok []"
| "check_aliases instances ((alias, ids) # rest) =
     (if alias_free instances alias ids
      then res_bind (check_aliases instances rest) (\<lambda>out. Ok ((alias, sort ids) # out))
      else Err (AliasCollision alias))"

definition registry_new :: "deployment_plan list \<Rightarrow> (registry_error, registry) res" where
  "registry_new plans =
     res_bind (add_instances plans \<lparr>rg_instances = [], rg_aliases = [], rg_slots = [], rg_next = 0\<rparr>) (\<lambda>r.
     res_bind (check_aliases (rg_instances r) (rg_aliases r)) (\<lambda>aliases.
       Ok (r\<lparr>rg_aliases := aliases\<rparr>)))"

definition registry_contains :: "registry \<Rightarrow> rstr \<Rightarrow> bool" where
  "registry_contains r alias \<longleftrightarrow> bt_contains alias (rg_instances r) \<or> bt_contains alias (rg_aliases r)"

definition target_ids :: "registry \<Rightarrow> rstr \<Rightarrow> rstr list option" where
  "target_ids r alias =
     (case map_of (rg_aliases r) alias of
        Some ids \<Rightarrow> Some ids
      | None \<Rightarrow> if bt_contains alias (rg_instances r) then Some [alias] else None)"

definition instance_model :: "registry \<Rightarrow> rstr \<Rightarrow> (registry_error, rstr) res" where
  "instance_model r worker =
     (case map_of (rg_instances r) worker of None \<Rightarrow> Panic | Some plan \<Rightarrow> Ok (pf_model (pl_profile plan)))"

fun map_res :: "('a \<Rightarrow> ('e, 'b) res) \<Rightarrow> 'a list \<Rightarrow> ('e, 'b list) res" where
  "map_res f [] = Ok []"
| "map_res f (x # xs) = res_bind (f x) (\<lambda>y. res_bind (map_res f xs) (\<lambda>ys. Ok (y # ys)))"

definition preload_targets :: "registry \<Rightarrow> rstr \<Rightarrow> (registry_error, (rstr \<times> rstr) list) res" where
  "preload_targets r alias =
     (case target_ids r alias of
        None \<Rightarrow> Err (UnknownAlias alias)
      | Some ids \<Rightarrow> map_res (\<lambda>w. res_bind (instance_model r w) (\<lambda>m. Ok (w, m))) ids)"

definition registry_models :: "registry \<Rightarrow> (registry_error, (rstr \<times> rstr) list) res" where
  "registry_models r =
     map_res (\<lambda>(alias, ids). case ids of [] \<Rightarrow> Panic
       | w # _ \<Rightarrow> res_bind (instance_model r w) (\<lambda>m. Ok (alias, m))) (rg_aliases r)"

definition registry_control :: "registry \<Rightarrow> rstr \<Rightarrow> (registry_error, rstr) res" where
  "registry_control r worker =
     (if bt_contains worker (rg_instances r) then Ok worker else Err (UnknownDeployment worker))"

section \<open>Selection\<close>

text \<open>The request headers that routing reads; a session that is no text is \<open>Some None\<close>.\<close>

record route_headers =
  rq_session :: "rstr option option"
  rq_authorization :: "nat list option"
  rq_api_key :: "nat list option"

definition principal_bytes :: "route_headers \<Rightarrow> nat list" where
  "principal_bytes h = (case rq_authorization h of
       Some b \<Rightarrow> b
     | None \<Rightarrow> (case rq_api_key h of Some b \<Rightarrow> b | None \<Rightarrow> []))"

definition session_of :: "route_headers \<Rightarrow> (registry_error, rstr option) res" where
  "session_of h =
     (case rq_session h of
        None \<Rightarrow> Ok None
      | Some None \<Rightarrow> Err SessionNotText
      | Some (Some s) \<Rightarrow> if s \<noteq> [] \<and> str_len s \<le> 256 then Ok (Some s) else Err SessionLength)"

definition be_u64 :: "nat list \<Rightarrow> nat" where
  "be_u64 bytes = foldl (\<lambda>n b. 256 * n + b) 0 (take 8 bytes)"

definition affinity_index :: "(nat list \<Rightarrow> nat list) \<Rightarrow> route_headers \<Rightarrow> rstr \<Rightarrow> rstr \<Rightarrow> nat \<Rightarrow> nat" where
  "affinity_index sha h alias session n =
     be_u64 (sha (principal_bytes h @ [0] @ as_bytes alias @ [0] @ as_bytes session)) mod n"

definition last_max :: "('a \<Rightarrow> nat) \<Rightarrow> 'a \<Rightarrow> 'a list \<Rightarrow> 'a" where
  "last_max key x xs = foldl (\<lambda>best y. if key best \<le> key y then y else best) x xs"

definition rotation :: "nat \<Rightarrow> nat \<Rightarrow> nat list" where
  "rotation start n = map (\<lambda>i. (start + i) mod n) [0..<n]"

definition balanced_index :: "(rstr \<Rightarrow> nat) \<Rightarrow> rstr list \<Rightarrow> nat \<Rightarrow> (registry_error, nat) res" where
  "balanced_index observed ids start =
     (case rotation start (length ids) of
        [] \<Rightarrow> Panic
      | i # is \<Rightarrow> Ok (last_max (\<lambda>i. observed (ids ! i)) i is))"

definition try_acquire :: "registry \<Rightarrow> rstr \<Rightarrow> (registry_error, rstr) res \<times> registry" where
  "try_acquire r worker =
     (case map_of (rg_slots r) worker of
        None \<Rightarrow> (Panic, r)
      | Some n \<Rightarrow> if n = 0 then (Err Busy, r) else (Ok worker, r\<lparr>rg_slots := bt_insert worker (n - 1) (rg_slots r)\<rparr>))"

definition u64_modulus :: nat where "u64_modulus = 18446744073709551616"

definition registry_select ::
  "(nat list \<Rightarrow> nat list) \<Rightarrow> (rstr \<Rightarrow> nat) \<Rightarrow> rstr \<Rightarrow> route_headers \<Rightarrow> registry
    \<Rightarrow> (registry_error, rstr) res \<times> registry" where
  "registry_select sha observed alias h r =
     (case target_ids r alias of
        None \<Rightarrow> (Err (UnknownAlias alias), r)
      | Some ids \<Rightarrow>
          (case session_of h of
             Err e \<Rightarrow> (Err e, r)
           | Panic \<Rightarrow> (Panic, r)
           | Ok (Some session) \<Rightarrow>
               if ids = [] then (Panic, r)
               else try_acquire r (ids ! affinity_index sha h alias session (length ids))
           | Ok None \<Rightarrow>
               if ids = [] then (Panic, r)
               else let r' = r\<lparr>rg_next := (rg_next r + 1) mod u64_modulus\<rparr> in
                 (case balanced_index observed ids (rg_next r mod length ids) of
                    Ok i \<Rightarrow> try_acquire r' (ids ! i)
                  | Err e \<Rightarrow> (Err e, r')
                  | Panic \<Rightarrow> (Panic, r'))))"

definition release_permit :: "rstr \<Rightarrow> registry \<Rightarrow> registry" where
  "release_permit worker r = r\<lparr>rg_slots := bt_modify worker Suc (rg_slots r)\<rparr>"

section \<open>Well-formed registries\<close>

definition names_workers :: "rstr set \<Rightarrow> (rstr, rstr list) btree \<Rightarrow> bool" where
  "names_workers workers m \<longleftrightarrow> (\<forall>name ids. map_of m name = Some ids \<longrightarrow> ids \<noteq> [] \<and> set ids \<subseteq> workers)"

definition registry_wf :: "registry \<Rightarrow> bool" where
  "registry_wf r \<longleftrightarrow> bt_wf (rg_instances r) \<and> bt_wf (rg_aliases r) \<and> bt_wf (rg_slots r) \<and>
     fst ` set (rg_slots r) = fst ` set (rg_instances r) \<and>
     names_workers (fst ` set (rg_instances r)) (rg_aliases r)"

lemma names_nothing [simp]: "names_workers workers []"
  by (simp add: names_workers_def)

lemma names_push: "names_workers workers m \<Longrightarrow> names_workers (insert w workers) (push_alias name w m)"
  unfolding names_workers_def push_alias_def by (fastforce split: option.splits if_splits)

lemma push_alias_get:
  "map_of (push_alias alias worker m) a = (if a = alias
     then Some ((case map_of m alias of None \<Rightarrow> [] | Some ids \<Rightarrow> ids) @ [worker]) else map_of m a)"
  by (simp add: push_alias_def)

lemma add_instances_wf:
  assumes "add_instances plans r = Ok r'" "registry_wf r"
    "\<forall>w plan. map_of (rg_instances r) w = Some plan \<longrightarrow> map_of (rg_slots r) w = Some (pf_parallel (pl_profile plan))"
  shows "registry_wf r' \<and>
    (\<forall>w plan. map_of (rg_instances r') w = Some plan \<longrightarrow> map_of (rg_slots r') w = Some (pf_parallel (pl_profile plan)))"
  using assms
proof (induction plans r rule: add_instances.induct)
  case (2 plan plans r)
  let ?p = "pl_profile plan"
  let ?r = "r\<lparr>rg_aliases := push_alias (pf_alias ?p) (pf_id ?p) (rg_aliases r),
             rg_instances := bt_insert (pf_id ?p) plan (rg_instances r),
             rg_slots := bt_insert (pf_id ?p) (pf_parallel ?p) (rg_slots r)\<rparr>"
  from 2(2) have g: "\<not> bt_contains (pf_id ?p) (rg_instances r)" "\<not> MAX_PERMITS < pf_parallel ?p"
    and rest: "add_instances plans ?r = Ok r'"
    by (auto simp: Let_def split: if_splits)
  have "registry_wf ?r"
    using 2(3) names_push by (simp add: registry_wf_def push_alias_def bt_wf_insert)
  moreover have "\<forall>w plan. map_of (rg_instances ?r) w = Some plan \<longrightarrow> map_of (rg_slots ?r) w = Some (pf_parallel (pl_profile plan))"
    using 2(4) by auto
  ultimately show ?case using 2(1) [OF refl g rest] by blast
qed simp

lemma check_aliases_Ok:
  assumes "check_aliases instances m = Ok out"
  shows "map fst out = map fst m \<and> (\<forall>a ids. map_of out a = Some ids \<longrightarrow> (\<exists>js. map_of m a = Some js \<and> set ids = set js))"
  using assms
proof (induction instances m arbitrary: out rule: check_aliases.induct)
  case (2 instances name ids rest)
  then obtain out' where o1: "alias_free instances name ids" "check_aliases instances rest = Ok out'"
    "out = (name, sort ids) # out'"
    by (auto simp: res_bind_Ok split: if_splits)
  from 2(1) [OF o1(1,2)] o1(3) show ?case by auto
qed simp

lemma registry_new_wf:
  assumes "registry_new plans = Ok r"
  shows "registry_wf r" and "map_of (rg_instances r) w = Some plan \<Longrightarrow> map_of (rg_slots r) w = Some (pf_parallel (pl_profile plan))"
proof -
  from assms obtain r0 aliases where r0: "add_instances plans \<lparr>rg_instances = [], rg_aliases = [], rg_slots = [], rg_next = 0\<rparr> = Ok r0"
    and al: "check_aliases (rg_instances r0) (rg_aliases r0) = Ok aliases" and r: "r = r0\<lparr>rg_aliases := aliases\<rparr>"
    by (auto simp: registry_new_def res_bind_Ok)
  from add_instances_wf [OF r0] have wf: "registry_wf r0"
    and sl: "\<forall>w plan. map_of (rg_instances r0) w = Some plan \<longrightarrow> map_of (rg_slots r0) w = Some (pf_parallel (pl_profile plan))"
    by (simp_all add: registry_wf_def)
  from check_aliases_Ok [OF al] have a: "map fst aliases = map fst (rg_aliases r0)"
    "\<forall>a ids. map_of aliases a = Some ids \<longrightarrow> (\<exists>js. map_of (rg_aliases r0) a = Some js \<and> set ids = set js)" by simp_all
  have "bt_wf aliases" using wf a(1) by (simp add: registry_wf_def bt_wf_def)
  moreover have "ids \<noteq> [] \<and> set ids \<subseteq> fst ` set (rg_instances r0)" if "map_of aliases x = Some ids" for x ids
  proof -
    from a(2) that obtain js where js: "map_of (rg_aliases r0) x = Some js" "set ids = set js" by blast
    with wf have "js \<noteq> []" "set js \<subseteq> fst ` set (rg_instances r0)"
      unfolding registry_wf_def names_workers_def by blast+
    with js(2) show ?thesis by auto
  qed
  ultimately show "registry_wf r" using wf by (simp add: registry_wf_def names_workers_def r)
  show "map_of (rg_slots r) w = Some (pf_parallel (pl_profile plan))" if "map_of (rg_instances r) w = Some plan"
    using sl that by (simp add: r)
qed

lemma target_ids_ok:
  assumes "registry_wf r" "target_ids r alias = Some ids"
  shows "ids \<noteq> [] \<and> set ids \<subseteq> fst ` set (rg_slots r)"
proof (cases "map_of (rg_aliases r) alias")
  case None
  with assms show ?thesis by (simp add: target_ids_def registry_wf_def bt_contains_iff split: if_splits) (drule sym, simp)
next
  case (Some js)
  with assms show ?thesis by (simp add: target_ids_def registry_wf_def names_workers_def)
qed

lemma last_max_props: "last_max key x xs \<in> set (x # xs) \<and> (\<forall>y \<in> set (x # xs). key y \<le> key (last_max key x xs))"
proof (induction xs arbitrary: x)
  case Nil
  then show ?case by (simp add: last_max_def)
next
  case (Cons a xs)
  from Cons.IH [of "if key x \<le> key a then a else x"] show ?case
    by (auto simp: last_max_def split: if_splits)
qed

lemma rotation_set: "0 < n \<Longrightarrow> set (rotation start n) = {..<n}"
proof (intro set_eqI iffI)
  fix k assume n: "0 < n" and k: "k \<in> {..<n}"
  define i where "i = (k + n - start mod n) mod n"
  have "start mod n < n" using n by simp
  have "(start + i) mod n = (start mod n + (k + n - start mod n)) mod n"
    unfolding i_def by (simp add: mod_add_left_eq mod_add_right_eq)
  also have "\<dots> = (k + n) mod n" using \<open>start mod n < n\<close> by simp
  also have "\<dots> = k" using k by simp
  finally have "(start + i) mod n = k" .
  moreover have "i < n" using n by (simp add: i_def)
  ultimately show "k \<in> set (rotation start n)" by (force simp: rotation_def)
qed (auto simp: rotation_def)

lemma balanced_index_Ok:
  assumes "ids \<noteq> []"
  obtains i where "balanced_index observed ids start = Ok i" "i < length ids"
    "\<forall>w \<in> set ids. observed w \<le> observed (ids ! i)"
proof -
  let ?rot = "rotation start (length ids)" and ?key = "\<lambda>i. observed (ids ! i)"
  have s: "set ?rot = {..<length ids}" using assms by (intro rotation_set) simp
  then obtain x xs where rot: "?rot = x # xs" using assms by (cases ?rot) auto
  from last_max_props [of ?key x xs] have m: "last_max ?key x xs \<in> set ?rot"
    "\<forall>y \<in> set ?rot. ?key y \<le> ?key (last_max ?key x xs)" unfolding rot by auto
  have "\<forall>w \<in> set ids. observed w \<le> ?key (last_max ?key x xs)"
    using m(2) s by (auto simp: in_set_conv_nth)
  moreover have "last_max ?key x xs < length ids" using m(1) unfolding s by simp
  ultimately show ?thesis using that [of "last_max ?key x xs"] by (simp add: balanced_index_def rot)
qed

section \<open>The machine\<close>

record route_world =
  ow_registry :: registry
  ow_permits :: "rstr list"

datatype route_event = Select rstr route_headers "rstr \<Rightarrow> nat" | Release nat

fun route_step :: "(nat list \<Rightarrow> nat list) \<Rightarrow> route_world \<Rightarrow> route_event \<Rightarrow> route_world" where
  "route_step sha w (Select alias h observed) =
     (case registry_select sha observed alias h (ow_registry w) of
        (Ok worker, r) \<Rightarrow> \<lparr>ow_registry = r, ow_permits = worker # ow_permits w\<rparr>
      | (_, r) \<Rightarrow> w\<lparr>ow_registry := r\<rparr>)"
| "route_step sha w (Release n) =
     (if n < length (ow_permits w)
      then \<lparr>ow_registry = release_permit (ow_permits w ! n) (ow_registry w),
            ow_permits = take n (ow_permits w) @ drop (Suc n) (ow_permits w)\<rparr>
      else w)"

text \<open>Free slots and permits in flight make up each instance's parallelism.\<close>

definition slots_balanced :: "route_world \<Rightarrow> bool" where
  "slots_balanced w \<longleftrightarrow>
     (\<forall>k plan. map_of (rg_instances (ow_registry w)) k = Some plan \<longrightarrow>
        (\<exists>n. map_of (rg_slots (ow_registry w)) k = Some n \<and>
           n + count_list (ow_permits w) k = pf_parallel (pl_profile plan)))"

definition route_inv :: "registry \<Rightarrow> route_world \<Rightarrow> bool" where
  "route_inv r0 w \<longleftrightarrow> registry_wf (ow_registry w) \<and> slots_balanced w \<and>
     set (ow_permits w) \<subseteq> fst ` set (rg_instances (ow_registry w)) \<and>
     rg_instances r0 = rg_instances (ow_registry w) \<and> rg_aliases r0 = rg_aliases (ow_registry w)"

definition opened :: "registry \<Rightarrow> route_world" where
  "opened r = \<lparr>ow_registry = r, ow_permits = []\<rparr>"

lemma opened_inv: "registry_new plans = Ok r \<Longrightarrow> route_inv r (opened r)"
  using registry_new_wf by (auto simp: route_inv_def opened_def slots_balanced_def)

lemma wf_slots_update:
  "registry_wf r \<Longrightarrow> fst ` set s = fst ` set (rg_slots r) \<Longrightarrow> bt_wf s \<Longrightarrow>
     registry_wf (r\<lparr>rg_slots := s, rg_next := n\<rparr>) \<and> registry_wf (r\<lparr>rg_slots := s\<rparr>) \<and> registry_wf (r\<lparr>rg_next := n\<rparr>)"
  by (simp add: registry_wf_def)

lemma route_inv_next: "route_inv r0 w \<Longrightarrow> route_inv r0 (w\<lparr>ow_registry := (ow_registry w)\<lparr>rg_next := n\<rparr>\<rparr>)"
  unfolding route_inv_def slots_balanced_def registry_wf_def by simp

lemma try_acquire_Ok:
  assumes "try_acquire r worker = (Ok x, r')"
  obtains n where "x = worker" "map_of (rg_slots r) worker = Some (Suc n)"
    "r' = r\<lparr>rg_slots := bt_insert worker n (rg_slots r)\<rparr>"
proof -
  from assms obtain n where n: "map_of (rg_slots r) worker = Some n" "n \<noteq> 0" "x = worker"
    "r' = r\<lparr>rg_slots := bt_insert worker (n - 1) (rg_slots r)\<rparr>"
    by (auto simp: try_acquire_def split: option.splits if_splits)
  then show ?thesis using that [of "n - 1"] by simp
qed

lemma try_acquire_fail: "try_acquire r worker = (x, r') \<Longrightarrow> \<forall>y. x \<noteq> Ok y \<Longrightarrow> r' = r"
  by (auto simp: try_acquire_def split: option.splits if_splits)

lemma acquire_inv_route:
  assumes inv: "route_inv r0 w" and ok: "try_acquire (ow_registry w) worker = (Ok x, r')"
  shows "route_inv r0 \<lparr>ow_registry = r', ow_permits = x # ow_permits w\<rparr>"
  using ok
proof (rule try_acquire_Ok)
  fix n
  assume x: "x = worker" and n: "map_of (rg_slots (ow_registry w)) worker = Some (Suc n)"
    and r': "r' = (ow_registry w)\<lparr>rg_slots := bt_insert worker n (rg_slots (ow_registry w))\<rparr>"
  let ?r = "ow_registry w"
  from n have k: "worker \<in> fst ` set (rg_slots ?r)" by (metis domI dom_map_of_conv_image_fst)
  have ki: "worker \<in> fst ` set (rg_instances ?r)" using inv k by (simp add: route_inv_def registry_wf_def)
  have wf: "registry_wf r'"
    using inv k by (auto simp: r' route_inv_def registry_wf_def bt_wf_insert)
  have "slots_balanced \<lparr>ow_registry = r', ow_permits = x # ow_permits w\<rparr>"
    unfolding slots_balanced_def
  proof (intro allI impI)
    fix j plan
    assume "map_of (rg_instances (ow_registry \<lparr>ow_registry = r', ow_permits = x # ow_permits w\<rparr>)) j = Some plan"
    then have pl: "map_of (rg_instances ?r) j = Some plan" by (simp add: r')
    with inv obtain m where "map_of (rg_slots ?r) j = Some m" "m + count_list (ow_permits w) j = pf_parallel (pl_profile plan)"
      unfolding route_inv_def slots_balanced_def by blast
    with n x show "\<exists>m. map_of (rg_slots (ow_registry \<lparr>ow_registry = r', ow_permits = x # ow_permits w\<rparr>)) j = Some m \<and>
        m + count_list (ow_permits \<lparr>ow_registry = r', ow_permits = x # ow_permits w\<rparr>) j = pf_parallel (pl_profile plan)"
      by (auto simp: r')
  qed
  with inv wf ki x show ?thesis by (simp add: route_inv_def r')
qed

lemma select_cases:
  assumes "registry_wf r" "registry_select sha observed alias h r = (x, r')"
  obtains (refused) e where "x = Err e" "r' = r" "target_ids r alias = None \<or> session_of h = Err e"
  | (affine) ids session where "target_ids r alias = Some ids" "session_of h = Ok (Some session)"
      "affinity_index sha h alias session (length ids) < length ids"
      "try_acquire r (ids ! affinity_index sha h alias session (length ids)) = (x, r')"
  | (balanced) ids i where "target_ids r alias = Some ids" "session_of h = Ok None" "i < length ids"
      "\<forall>w \<in> set ids. observed w \<le> observed (ids ! i)"
      "try_acquire (r\<lparr>rg_next := (rg_next r + 1) mod u64_modulus\<rparr>) (ids ! i) = (x, r')"
proof (cases "target_ids r alias")
  case None
  with assms(2) show ?thesis by (auto simp: registry_select_def intro: refused)
next
  case (Some ids)
  have ne: "ids \<noteq> []" using target_ids_ok [OF assms(1) Some] by simp
  show ?thesis
  proof (cases "session_of h")
    case (Ok s)
    show ?thesis
    proof (cases s)
      case None
      obtain i where i: "balanced_index observed ids (rg_next r mod length ids) = Ok i" "i < length ids"
        "\<forall>w \<in> set ids. observed w \<le> observed (ids ! i)"
        using balanced_index_Ok [OF ne] by blast
      with assms(2) Some Ok None ne balanced show ?thesis by (simp add: registry_select_def Let_def)
    next
      case (Some session)
      have "affinity_index sha h alias session (length ids) < length ids" using ne by (simp add: affinity_index_def)
      with assms(2) \<open>target_ids r alias = Some ids\<close> Ok Some ne affine show ?thesis by (simp add: registry_select_def)
    qed
  next
    case (Err e)
    with assms(2) Some show ?thesis by (auto simp: registry_select_def intro: refused)
  next
    case Panic
    then show ?thesis by (auto simp: session_of_def split: option.splits if_splits)
  qed
qed

lemma slots_next [simp]: "try_acquire (r\<lparr>rg_next := n\<rparr>) worker =
    (fst (try_acquire r worker), (snd (try_acquire r worker))\<lparr>rg_next := n\<rparr>)"
  by (auto simp: try_acquire_def split: option.splits)

lemma try_acquire_no_panic:
  assumes "registry_wf r" "target_ids r alias = Some ids" "i < length ids"
  shows "\<exists>n. map_of (rg_slots r) (ids ! i) = Some n"
proof -
  have "ids ! i \<in> fst ` set (rg_slots r)"
    using target_ids_ok [OF assms(1,2)] assms(3) nth_mem by blast
  then show ?thesis by (metis domD dom_map_of_conv_image_fst)
qed

lemma select_never_panics:
  assumes "registry_wf r"
  shows "fst (registry_select sha observed alias h r) \<noteq> Panic"
proof -
  obtain x r' where x: "registry_select sha observed alias h r = (x, r')" by force
  from assms this show ?thesis
  proof (cases rule: select_cases)
    case (refused e)
    with x show ?thesis by simp
  next
    case (affine ids session)
    from try_acquire_no_panic [OF assms affine(1,3)] affine(4) x show ?thesis
      by (auto simp: try_acquire_def split: if_splits)
  next
    case (balanced ids i)
    from try_acquire_no_panic [OF assms balanced(1,3)] balanced(5) x show ?thesis
      by (auto simp: try_acquire_def split: if_splits)
  qed
qed

lemma slot_release_inv:
  assumes inv: "route_inv r0 w" and n: "n < length (ow_permits w)"
  shows "route_inv r0 (route_step sha w (Release n))"
proof -
  let ?k = "ow_permits w ! n" and ?r = "ow_registry w"
  let ?rest = "take n (ow_permits w) @ drop (Suc n) (ow_permits w)"
  have perm: "ow_permits w = take n (ow_permits w) @ ?k # drop (Suc n) (ow_permits w)"
    using n by (simp add: id_take_nth_drop)
  have count: "count_list (ow_permits w) j = count_list ?rest j + (if j = ?k then 1 else 0)" for j
    by (subst perm) simp
  have sub: "set ?rest \<subseteq> set (ow_permits w)" by (subst perm) auto
  have "slots_balanced (route_step sha w (Release n))"
    unfolding slots_balanced_def
  proof (intro allI impI)
    fix j plan
    assume "map_of (rg_instances (ow_registry (route_step sha w (Release n)))) j = Some plan"
    then have "map_of (rg_instances ?r) j = Some plan" using n by (simp add: release_permit_def)
    with inv obtain m where "map_of (rg_slots ?r) j = Some m" "m + count_list (ow_permits w) j = pf_parallel (pl_profile plan)"
      unfolding route_inv_def slots_balanced_def by blast
    with count [of j] n show "\<exists>m. map_of (rg_slots (ow_registry (route_step sha w (Release n)))) j = Some m \<and>
        m + count_list (ow_permits (route_step sha w (Release n))) j = pf_parallel (pl_profile plan)"
      by (auto simp: release_permit_def)
  qed
  moreover have "fst ` set (bt_modify k f m) = fst ` set m" for k and f :: "nat \<Rightarrow> nat" and m :: "(rstr, nat) btree"
    by (metis image_set map_fst_modify)
  then have "registry_wf (release_permit ?k ?r)"
    using inv by (simp add: route_inv_def registry_wf_def release_permit_def)
  ultimately show ?thesis using inv n sub by (auto simp: route_inv_def release_permit_def)
qed

lemma select_inv:
  assumes inv: "route_inv r0 w"
  shows "route_inv r0 (route_step sha w (Select alias h observed))"
proof -
  let ?r = "ow_registry w"
  have wf: "registry_wf ?r" using inv by (simp add: route_inv_def)
  obtain x r' where x: "registry_select sha observed alias h ?r = (x, r')" by force
  have acq: "route_inv r0 (route_step sha w (Select alias h observed))"
    if t: "try_acquire (?r\<lparr>rg_next := m\<rparr>) worker = (x, r')" for m worker
  proof (cases "\<exists>y. x = Ok y")
    case True
    then obtain y where y: "x = Ok y" by blast
    have "route_inv r0 (w\<lparr>ow_registry := ?r\<lparr>rg_next := m\<rparr>\<rparr>)" using inv by (rule route_inv_next)
    from acquire_inv_route [OF this, of worker y r'] t x y show ?thesis by simp
  next
    case False
    then have "r' = ?r\<lparr>rg_next := m\<rparr>" using try_acquire_fail [OF t] by simp
    with route_inv_next [OF inv, of m] x False show ?thesis by (cases x) auto
  qed
  from wf x show ?thesis
  proof (cases rule: select_cases)
    case (refused e)
    with x inv show ?thesis by simp
  next
    case (affine ids session)
    have "?r\<lparr>rg_next := rg_next ?r\<rparr> = ?r" by simp
    with acq [of "rg_next ?r"] affine(4) show ?thesis by (metis (no_types))
  next
    case (balanced ids i)
    from acq [OF balanced(5)] show ?thesis .
  qed
qed

lemma route_step_inv: "route_inv r0 w \<Longrightarrow> route_inv r0 (route_step sha w e)"
proof (cases e)
  case (Release n)
  then show "route_inv r0 w \<Longrightarrow> ?thesis" using slot_release_inv by (cases "n < length (ow_permits w)") auto
qed (simp only: select_inv)

interpretation routes: state_machine "opened r" "route_step sha" "\<lambda>w. route_inv r (opened r) \<longrightarrow> route_inv r w" for r sha
  by unfold_locales (auto intro: route_step_inv)

section \<open>Properties\<close>

definition free_slots :: "route_world \<Rightarrow> rstr \<Rightarrow> nat" where
  "free_slots w worker = (case map_of (rg_slots (ow_registry w)) worker of None \<Rightarrow> 0 | Some n \<Rightarrow> n)"

lemma reachable_routes:
  assumes "registry_new plans = Ok r"
  shows "route_inv r (run (route_step sha) (opened r) es)"
  using routes.run_inv [of r sha es] opened_inv [OF assms] by simp

lemma reachable_targets:
  assumes "route_inv r w"
  shows "target_ids (ow_registry w) alias = target_ids r alias"
  using assms by (simp add: route_inv_def target_ids_def)

text \<open>
  C25. After any sequence of selections (whatever load they read) and releases, the requests in
  flight on an instance and its free slots add up to the parallelism of its profile, so no
  instance ever serves more; and no selection panics.
\<close>

theorem admission_bounded:
  assumes "registry_new plans = Ok r" "map_of (rg_instances r) worker = Some plan"
  shows "free_slots (run (route_step sha) (opened r) es) worker
      + count_list (ow_permits (run (route_step sha) (opened r) es)) worker = pf_parallel (pl_profile plan) \<and>
    fst (registry_select sha observed alias h (ow_registry (run (route_step sha) (opened r) es))) \<noteq> Panic"
proof (intro conjI)
  let ?w = "run (route_step sha) (opened r) es"
  have inv: "route_inv r ?w" using assms(1) by (rule reachable_routes)
  then have "map_of (rg_instances (ow_registry ?w)) worker = Some plan"
    using assms(2) by (simp add: route_inv_def)
  with inv obtain n where "map_of (rg_slots (ow_registry ?w)) worker = Some n"
    "n + count_list (ow_permits ?w) worker = pf_parallel (pl_profile plan)"
    unfolding route_inv_def slots_balanced_def by blast
  then show "free_slots ?w worker + count_list (ow_permits ?w) worker = pf_parallel (pl_profile plan)"
    by (simp add: free_slots_def)
  show "fst (registry_select sha observed alias h (ow_registry ?w)) \<noteq> Panic"
    using inv by (intro select_never_panics) (simp add: route_inv_def)
qed

text \<open>
  A request without a session that reads the true load finds a replica whenever one is free:
  it is admitted on a replica of its alias with the most free slots, and is refused as busy
  only if no replica has a slot.
\<close>

theorem select_finds_free_replica:
  assumes new: "registry_new plans = Ok r" and w: "w = run (route_step sha) (opened r) es"
    and ids: "target_ids r alias = Some ids" and session: "rq_session h = None"
  shows "if \<exists>k \<in> set ids. 0 < free_slots w k
    then \<exists>k \<in> set ids. fst (registry_select sha (free_slots w) alias h (ow_registry w)) = Ok k \<and>
      (\<forall>j \<in> set ids. free_slots w j \<le> free_slots w k)
    else fst (registry_select sha (free_slots w) alias h (ow_registry w)) = Err Busy"
proof -
  have inv: "route_inv r w" unfolding w using new by (rule reachable_routes)
  then have wf: "registry_wf (ow_registry w)" by (simp add: route_inv_def)
  have ids': "target_ids (ow_registry w) alias = Some ids" using reachable_targets [OF inv] ids by simp
  have s: "session_of h = Ok None" using session by (simp add: session_of_def)
  obtain x r' where x: "registry_select sha (free_slots w) alias h (ow_registry w) = (x, r')" by force
  from wf x show ?thesis
  proof (cases rule: select_cases)
    case (refused e)
    with s ids' show ?thesis by simp
  next
    case (affine js session)
    with s show ?thesis by simp
  next
    case (balanced js i)
    then have js: "js = ids" using ids' by simp
    have m: "\<forall>j \<in> set ids. free_slots w j \<le> free_slots w (ids ! i)" using balanced(4) js by simp
    have in_ids: "ids ! i \<in> set ids" using balanced(3) js by simp
    obtain n where n: "map_of (rg_slots (ow_registry w)) (ids ! i) = Some n"
      using try_acquire_no_panic [OF wf ids', of i] balanced(3) js by blast
    then have f: "free_slots w (ids ! i) = n" by (simp add: free_slots_def)
    have out: "fst (registry_select sha (free_slots w) alias h (ow_registry w)) = (if n = 0 then Err Busy else Ok (ids ! i))"
      using balanced(5) x n js by (auto simp: try_acquire_def split: if_splits)
    show ?thesis
    proof (cases "n = 0")
      case True
      with m f out show ?thesis by auto
    next
      case False
      with f in_ids have "\<exists>k \<in> set ids. 0 < free_slots w k" by force
      with False m in_ids out show ?thesis by auto
    qed
  qed
qed

text \<open>
  A session is bound to one replica: there is a replica of its alias such that, whatever
  happened before and whatever load is read, the request is admitted there if it has a free
  slot and refused as busy otherwise. It never spills onto another replica.
\<close>

theorem session_affinity:
  assumes new: "registry_new plans = Ok r" and ids: "target_ids r alias = Some ids"
    and session: "session_of h = Ok (Some session)"
  shows "\<exists>k \<in> set ids. \<forall>es observed.
    fst (registry_select sha observed alias h (ow_registry (run (route_step sha) (opened r) es)))
      = (if free_slots (run (route_step sha) (opened r) es) k = 0 then Err Busy else Ok k)"
proof -
  let ?i = "affinity_index sha h alias session (length ids)"
  have wf0: "registry_wf r" using registry_new_wf(1) [OF new] .
  have ne: "ids \<noteq> []" using target_ids_ok [OF wf0 ids] by simp
  then have i: "?i < length ids" by (simp add: affinity_index_def)
  have "fst (registry_select sha observed alias h (ow_registry (run (route_step sha) (opened r) es)))
      = (if free_slots (run (route_step sha) (opened r) es) (ids ! ?i) = 0 then Err Busy else Ok (ids ! ?i))" for es observed
  proof -
    let ?w = "run (route_step sha) (opened r) es"
    have inv: "route_inv r ?w" using new by (rule reachable_routes)
    then have wf: "registry_wf (ow_registry ?w)" by (simp add: route_inv_def)
    have ids': "target_ids (ow_registry ?w) alias = Some ids" using reachable_targets [OF inv] ids by simp
    obtain n where "map_of (rg_slots (ow_registry ?w)) (ids ! ?i) = Some n"
      using try_acquire_no_panic [OF wf ids' i] by blast
    then show ?thesis
      using ne by (simp add: registry_select_def ids' session try_acquire_def free_slots_def)
  qed
  then have "\<forall>es observed. fst (registry_select sha observed alias h (ow_registry (run (route_step sha) (opened r) es)))
      = (if free_slots (run (route_step sha) (opened r) es) (ids ! ?i) = 0 then Err Busy else Ok (ids ! ?i))"
    by (intro allI)
  moreover have "ids ! ?i \<in> set ids" using i by (rule nth_mem)
  ultimately show ?thesis by (rule bexI)
qed

section \<open>Demonstration\<close>

definition chat_plan :: "rstr \<Rightarrow> deployment_plan" where
  "chat_plan worker =
     \<lparr>pl_profile = \<lparr>pf_id = worker, pf_alias = lit ''chat'', pf_model = lit ''m'', pf_runtime = LlamaCuda,
        pf_executable = [], pf_build = [], pf_gpus = [], pf_strategy = Single,
        pf_tensor_parallel = 1, pf_pipeline_parallel = 1, pf_split = [], pf_context = 1, pf_batch = 1,
        pf_parallel = 2, pf_cpu_threads = 1, pf_offload = OffloadNone, pf_kv_cpu = False,
        pf_memory = [], pf_host_bytes = 1, pf_native_args = []\<rparr>,
      pl_model_identity = [], pl_executable_sha256 = [], pl_runtime_version = [], pl_devices = [],
      pl_strategy = Single, pl_args = [], pl_environment = [], pl_fingerprint = [], pl_reasons = []\<rparr>"

definition chat_registry :: registry where
  "chat_registry = \<lparr>rg_instances = [(lit ''a'', chat_plan (lit ''a'')), (lit ''b'', chat_plan (lit ''b''))],
     rg_aliases = [(lit ''chat'', [lit ''a'', lit ''b''])],
     rg_slots = [(lit ''a'', 2), (lit ''b'', 2)], rg_next = 0\<rparr>"

lemma chat_registry_new: "registry_new [chat_plan (lit ''b''), chat_plan (lit ''a'')] = Ok chat_registry"
  by (simp add: registry_new_def chat_plan_def chat_registry_def lit_def MAX_PERMITS_def push_alias_def
    alias_free_def bt_contains_def sort_key_def)

theorem admission_bounded_witness:
  "free_slots (run (route_step (\<lambda>b. b)) (opened chat_registry) [Release 0]) (lit ''a'')
      + count_list (ow_permits (run (route_step (\<lambda>b. b)) (opened chat_registry) [Release 0])) (lit ''a'') = 2"
proof -
  have "map_of (rg_instances chat_registry) (lit ''a'') = Some (chat_plan (lit ''a''))"
    by (simp add: chat_registry_def)
  from admission_bounded [OF chat_registry_new this, of "\<lambda>b. b" "[Release 0]"] show ?thesis
    by (simp add: chat_plan_def)
qed

definition plain_request :: route_headers where
  "plain_request = \<lparr>rq_session = None, rq_authorization = None, rq_api_key = None\<rparr>"

definition session_request :: route_headers where
  "session_request = plain_request\<lparr>rq_session := Some (Some (lit ''s''))\<rparr>"

lemma chat_targets: "target_ids chat_registry (lit ''chat'') = Some [lit ''a'', lit ''b'']"
  by (simp add: target_ids_def chat_registry_def)

theorem select_finds_free_replica_witness:
  "\<exists>k \<in> set [lit ''a'', lit ''b''].
     fst (registry_select (\<lambda>b. b) (free_slots (opened chat_registry)) (lit ''chat'') plain_request chat_registry) = Ok k"
proof -
  have w: "opened chat_registry = run (route_step (\<lambda>b. b)) (opened chat_registry) []" by simp
  have "rq_session plain_request = None" by (simp add: plain_request_def)
  from select_finds_free_replica [OF chat_registry_new w chat_targets this]
  have "\<exists>k \<in> set [lit ''a'', lit ''b'']. 0 < free_slots (opened chat_registry) k \<longrightarrow>
      (\<exists>k \<in> set [lit ''a'', lit ''b'']. fst (registry_select (\<lambda>b. b) (free_slots (opened chat_registry)) (lit ''chat'') plain_request
        (ow_registry (opened chat_registry))) = Ok k)"
    by (auto split: if_splits)
  then show ?thesis by (auto simp: opened_def free_slots_def chat_registry_def)
qed

theorem session_affinity_witness:
  "\<exists>k \<in> set [lit ''a'', lit ''b'']. \<forall>es observed.
    fst (registry_select (\<lambda>b. b) observed (lit ''chat'') session_request
        (ow_registry (run (route_step (\<lambda>b. b)) (opened chat_registry) es)))
      = (if free_slots (run (route_step (\<lambda>b. b)) (opened chat_registry) es) k = 0 then Err Busy else Ok k)"
proof (rule session_affinity [OF chat_registry_new chat_targets])
  show "session_of session_request = Ok (Some (lit ''s''))"
    by (simp add: session_of_def session_request_def lit_def str_len_def utf8_width_def)
qed

end
