(* ===== verification/Runtime_Protocol.thy ===== *)
theory Runtime_Protocol
  imports Rust_Text
begin

text \<open>
  Data of the runtime control protocol (\<open>src/src/werk_protocol/types.rs\<close> and
  \<open>service.rs\<close>): versions and their text form, capabilities, limits, persistence
  policies, the compatibility envelope that a runtime state carries, and protocol errors with
  the internal cleanup note that never reaches a client. The JSON values of error details are
  the mismatch lists that this code writes.
\<close>

section \<open>Versions\<close>

record protocol_version =
  pv_major :: nat
  pv_minor :: nat

definition PROTOCOL_MAJOR :: nat where "PROTOCOL_MAJOR = 1"
definition PROTOCOL_MINOR :: nat where "PROTOCOL_MINOR = 0"

definition version_V1 :: protocol_version where
  "version_V1 = \<lparr>pv_major = PROTOCOL_MAJOR, pv_minor = PROTOCOL_MINOR\<rparr>"

definition version_accepts :: "protocol_version \<Rightarrow> protocol_version \<Rightarrow> bool" where
  "version_accepts consumer producer \<longleftrightarrow>
     pv_major consumer = pv_major producer \<and> pv_minor producer \<le> pv_minor consumer"

definition version_display :: "protocol_version \<Rightarrow> rstr" where
  "version_display v = decimal (pv_major v) @ lit ''.'' @ decimal (pv_minor v)"

definition parse_u16 :: "rstr \<Rightarrow> nat option" where
  "parse_u16 s = parse_unsigned 65535 s"

definition version_from_str :: "rstr \<Rightarrow> protocol_version option" where
  "version_from_str s =
     (case split_once_at 46 (trim s) of
        None \<Rightarrow> None
      | Some (major, minor) \<Rightarrow>
          if major = [] \<or> minor = [] \<or> 46 \<in> set minor then None
          else (case parse_u16 major of
              None \<Rightarrow> None
            | Some a \<Rightarrow> map_option (\<lambda>b. \<lparr>pv_major = a, pv_minor = b\<rparr>) (parse_u16 minor)))"

record 'a protocol_envelope =
  en_protocol :: protocol_version
  en_request_id :: rstr
  en_data :: 'a

definition envelope_v1 :: "rstr \<Rightarrow> 'a \<Rightarrow> 'a protocol_envelope" where
  "envelope_v1 request_id x = \<lparr>en_protocol = version_V1, en_request_id = request_id, en_data = x\<rparr>"

section \<open>Capabilities and limits\<close>

datatype capability_status =
  Supported | Unsupported | Unavailable | Experimental | ExternallyManaged | MetadataOnly

definition is_operational :: "bool \<Rightarrow> capability_status \<Rightarrow> bool" where
  "is_operational allow_experimental s \<longleftrightarrow>
     s = Supported \<or> (allow_experimental \<and> s = Experimental)"

record capability =
  ca_id :: rstr
  ca_status :: capability_status
  ca_detail :: rstr
  ca_operations :: "rstr list"

record protocol_limits =
  lim_max_page_size :: nat
  lim_max_state_ids_per_operation :: nat
  lim_max_expert_ids_per_operation :: nat
  lim_max_request_bytes :: nat
  lim_max_handoff_bytes :: nat
  lim_max_ttl_seconds :: nat

definition protocol_limits_default :: protocol_limits where
  "protocol_limits_default = \<lparr>lim_max_page_size = 100, lim_max_state_ids_per_operation = 100,
     lim_max_expert_ids_per_operation = 256, lim_max_request_bytes = 1024 * 1024,
     lim_max_handoff_bytes = 4 * 1024, lim_max_ttl_seconds = 30 * 24 * 60 * 60\<rparr>"

datatype state_tier = VramTier | RamTier | DiskTier | ExternalTier

datatype persistence_mode = EphemeralMode | MemoryMode | DiskMode | AutoMode
datatype reuse_mode = ReuseDisabled | ReusePrefer | ReuseRequired

record persistence_policy =
  pp_mode :: persistence_mode
  pp_reuse :: reuse_mode
  pp_ttl_seconds :: "nat option"
  pp_pin :: bool

definition persistence_policy_default :: persistence_policy where
  "persistence_policy_default =
     \<lparr>pp_mode = AutoMode, pp_reuse = ReusePrefer, pp_ttl_seconds = None, pp_pin = False\<rparr>"

record protocol_message =
  pm_role :: rstr
  pm_content :: rstr

datatype prefill_input = TextInput rstr | MessagesInput "protocol_message list"

section \<open>Compatibility envelopes\<close>

record context_compatibility =
  cx_context_size :: nat
  cx_batch_size :: "nat option"
  cx_rope_configuration_fingerprint :: "rstr option"

record compatibility_envelope =
  ce_model_fingerprint :: rstr
  ce_tokenizer_fingerprint :: rstr
  ce_prompt_fingerprint :: rstr
  ce_chat_template_fingerprint :: "rstr option"
  ce_backend :: rstr
  ce_backend_version :: rstr
  ce_runtime_adapter_version :: rstr
  ce_accelerator_family :: rstr
  ce_tensor_dtype :: rstr
  ce_kv_dtype :: rstr
  ce_quantization :: rstr
  ce_cache_layout :: rstr
  ce_block_size :: "nat option"
  ce_context :: context_compatibility
  ce_multimodal_processor_fingerprints :: "rstr list"
  ce_producer_protocol :: protocol_version

definition changed_field :: "bool \<Rightarrow> string \<Rightarrow> rstr list" where
  "changed_field same name = (if same then [] else [lit name])"

definition mismatch_fields :: "compatibility_envelope \<Rightarrow> compatibility_envelope \<Rightarrow> rstr list" where
  "mismatch_fields a b =
     changed_field (ce_model_fingerprint a = ce_model_fingerprint b) ''model_fingerprint''
     @ changed_field (ce_tokenizer_fingerprint a = ce_tokenizer_fingerprint b) ''tokenizer_fingerprint''
     @ changed_field (ce_prompt_fingerprint a = ce_prompt_fingerprint b) ''prompt_fingerprint''
     @ changed_field (ce_chat_template_fingerprint a = ce_chat_template_fingerprint b)
         ''chat_template_fingerprint''
     @ changed_field (ce_backend a = ce_backend b) ''backend''
     @ changed_field (ce_backend_version a = ce_backend_version b) ''backend_version''
     @ changed_field (ce_runtime_adapter_version a = ce_runtime_adapter_version b)
         ''runtime_adapter_version''
     @ changed_field (ce_accelerator_family a = ce_accelerator_family b) ''accelerator_family''
     @ changed_field (ce_tensor_dtype a = ce_tensor_dtype b) ''tensor_dtype''
     @ changed_field (ce_kv_dtype a = ce_kv_dtype b) ''kv_dtype''
     @ changed_field (ce_quantization a = ce_quantization b) ''quantization''
     @ changed_field (ce_cache_layout a = ce_cache_layout b) ''cache_layout''
     @ changed_field (ce_block_size a = ce_block_size b) ''block_size''
     @ changed_field (ce_context a = ce_context b) ''context''
     @ changed_field (ce_multimodal_processor_fingerprints a = ce_multimodal_processor_fingerprints b)
         ''multimodal_processor_fingerprints''
     @ changed_field (ce_producer_protocol a = ce_producer_protocol b) ''producer_protocol''"

section \<open>Errors\<close>

datatype protocol_error_kind =
    InvalidRequest | IncompatibleProtocol | Unauthorized | Forbidden | NotFound | Conflict
  | IncompatibleState | ExpiredHandoffCode | UnsupportedCode | UnavailableCode
  | ExperimentalOptInRequired | ResourceExhausted | CorruptState | Internal

record protocol_error =
  pe_code :: protocol_error_kind
  pe_message :: rstr
  pe_retryable :: bool
  pe_details :: "rstr list option"
  pe_cleanup_unconfirmed :: "(state_tier \<times> nat option) option"

record protocol_error_body =
  pb_code :: protocol_error_kind
  pb_message :: rstr
  pb_retryable :: bool
  pb_details :: "rstr list option"

definition perr :: "protocol_error_kind \<Rightarrow> rstr \<Rightarrow> protocol_error" where
  "perr c message = \<lparr>pe_code = c, pe_message = message, pe_retryable = False, pe_details = None,
     pe_cleanup_unconfirmed = None\<rparr>"

definition retryable :: "bool \<Rightarrow> protocol_error \<Rightarrow> protocol_error" where
  "retryable b e = e\<lparr>pe_retryable := b\<rparr>"

definition with_mismatches :: "rstr list \<Rightarrow> protocol_error \<Rightarrow> protocol_error" where
  "with_mismatches names e = e\<lparr>pe_details := Some names\<rparr>"

definition with_backend_cleanup_unconfirmed ::
  "state_tier \<Rightarrow> nat option \<Rightarrow> protocol_error \<Rightarrow> protocol_error" where
  "with_backend_cleanup_unconfirmed tier bytes e = e\<lparr>pe_cleanup_unconfirmed := Some (tier, bytes)\<rparr>"

definition public_body :: "protocol_error \<Rightarrow> protocol_error_body" where
  "public_body e = \<lparr>pb_code = pe_code e, pb_message = pe_message e, pb_retryable = pe_retryable e,
     pb_details = pe_details e\<rparr>"

lemma perr_code [simp]: "pe_code (perr c m) = c"
  by (simp add: perr_def)

section \<open>Facts\<close>

lemma split_once_at_append: "d \<notin> set s \<Longrightarrow> split_once_at d (s @ d # t) = Some (s, t)"
  by (induction s) auto

lemma decimal_no_dot: "46 \<notin> set (decimal n)"
  using decimal_digits [of n] by (auto simp: list_all_iff is_ascii_digit_def)

lemma decimal_no_space: "c \<in> set (decimal n) \<Longrightarrow> \<not> is_whitespace c"
  using decimal_digits [of n] by (auto simp: list_all_iff is_ascii_digit_def is_whitespace_def)

lemma version_display_trimmed: "trim (version_display v) = version_display v"
proof (rule trim_id, rule disjI2, rule conjI)
  have "hd (version_display v) \<in> set (decimal (pv_major v))"
    by (simp add: version_display_def hd_append)
  then show "\<not> is_whitespace (hd (version_display v))" by (rule decimal_no_space)
  have "last (version_display v) \<in> set (decimal (pv_minor v))"
    by (simp add: version_display_def)
  then show "\<not> is_whitespace (last (version_display v))" by (rule decimal_no_space)
qed

text \<open>
  A version written out is read back, and only texts that name it are read as it.
\<close>

lemma version_roundtrip:
  assumes "pv_major v \<le> 65535" "pv_minor v \<le> 65535"
  shows "version_from_str (version_display v) = Some v"
proof -
  have "split_once_at 46 (version_display v) = Some (decimal (pv_major v), decimal (pv_minor v))"
    using split_once_at_append [OF decimal_no_dot] by (simp add: version_display_def lit_def)
  then show ?thesis
    using assms by (simp add: version_from_str_def version_display_trimmed decimal_no_dot
        parse_u16_def parse_decimal)
qed

lemma version_from_str_bounds:
  "version_from_str s = Some v \<Longrightarrow> pv_major v \<le> 65535 \<and> pv_minor v \<le> 65535"
  by (auto simp: version_from_str_def parse_u16_def dest!: parse_unsigned_bound
      split: option.splits if_splits)

lemma version_accepts_refl [simp]: "version_accepts v v"
  by (simp add: version_accepts_def)

lemma version_accepts_trans: "version_accepts u v \<Longrightarrow> version_accepts v w \<Longrightarrow> version_accepts u w"
  by (simp add: version_accepts_def)

lemma version_accepts_antisym: "version_accepts u v \<Longrightarrow> version_accepts v u \<Longrightarrow> u = v"
  by (simp add: version_accepts_def)

lemma changed_field_Nil [simp]: "changed_field same name = [] \<longleftrightarrow> same"
  by (simp add: changed_field_def)

text \<open>The list of mismatches is empty exactly for equal envelopes, so no dimension is a wildcard.\<close>

lemma mismatch_fields_Nil: "mismatch_fields a b = [] \<longleftrightarrow> a = b"
proof -
  have "mismatch_fields a b = [] \<Longrightarrow> a = b"
    by (simp add: mismatch_fields_def)
  then show ?thesis by (auto simp: mismatch_fields_def)
qed

lemma mismatch_fields_sym: "mismatch_fields a b = mismatch_fields b a"
  unfolding mismatch_fields_def by (simp only: eq_commute)

end
