(* ===== verification/Runtime_Backend.thy ===== *)
theory Runtime_Backend
  imports Runtime_Protocol Expert_Listing
begin

text \<open>
  The interface between runtime control and its backends
  (\<open>src/src/runtime_control/backend.rs\<close>): descriptors and their validation, opaque states,
  the adapter trait with its defaults, one-use plans for restoring persisted states and for
  expert operations, and the lease that releases a backend state exactly once. An adapter is
  foreign code: the record \<open>adapter\<close> holds its methods over a world of type \<open>'w\<close>. File handles
  are dropped, an \<open>Arc\<close> identity is an address.
\<close>

section \<open>Descriptors\<close>

definition MAX_COMPATIBILITY_FIELD_BYTES :: nat where "MAX_COMPATIBILITY_FIELD_BYTES = 512"
definition MAX_COMPATIBILITY_MULTIMODAL_PROCESSORS :: nat where "MAX_COMPATIBILITY_MULTIMODAL_PROCESSORS = 64"
definition MAX_BACKEND_CAPABILITIES :: nat where "MAX_BACKEND_CAPABILITIES = 256"
definition MAX_CAPABILITY_OPERATIONS :: nat where "MAX_CAPABILITY_OPERATIONS = 64"
definition MAX_ENCODED_RUNTIME_DESCRIPTOR_BYTES :: nat where
  "MAX_ENCODED_RUNTIME_DESCRIPTOR_BYTES = 4 * 1024 * 1024"

definition MODEL_RESIDENCY_CAPABILITY :: rstr where
  "MODEL_RESIDENCY_CAPABILITY = lit ''runtime.model_residency''"

definition AUTOMATIC_REUSE_OPERATION :: rstr where
  "AUTOMATIC_REUSE_OPERATION = lit ''automatic_reuse''"

record runtime_descriptor =
  rd_backend :: rstr
  rd_backend_version :: rstr
  rd_adapter_version :: rstr
  rd_accelerator_family :: rstr
  rd_instance_id :: rstr
  rd_capabilities :: "capability list"

datatype residency_status =
  ResidencySupported | ResidencyExternallyManaged | ResidencyUnavailable | ResidencyUnsupported

fun residency_capability_status :: "residency_status \<Rightarrow> capability_status" where
  "residency_capability_status ResidencySupported = Supported"
| "residency_capability_status ResidencyExternallyManaged = ExternallyManaged"
| "residency_capability_status ResidencyUnavailable = Unavailable"
| "residency_capability_status ResidencyUnsupported = Unsupported"

definition has_automatic_reuse :: "residency_status \<Rightarrow> bool" where
  "has_automatic_reuse s \<longleftrightarrow> s = ResidencySupported \<or> s = ResidencyExternallyManaged"

definition model_residency_capability :: "residency_status \<Rightarrow> rstr \<Rightarrow> capability" where
  "model_residency_capability s detail =
     \<lparr>ca_id = MODEL_RESIDENCY_CAPABILITY, ca_status = residency_capability_status s,
      ca_detail = detail,
      ca_operations = (if has_automatic_reuse s then [AUTOMATIC_REUSE_OPERATION] else [])\<rparr>"

text \<open>The builders of \<open>StaticRuntimeAdapter\<close>; \<open>version\<close> is the version the build sets.\<close>

definition static_descriptor :: "rstr \<Rightarrow> rstr \<Rightarrow> runtime_descriptor" where
  "static_descriptor version backend =
     \<lparr>rd_backend = backend, rd_backend_version = lit ''unknown'', rd_adapter_version = version,
      rd_accelerator_family = lit ''unknown'', rd_instance_id = lit ''metadata-only'',
      rd_capabilities = []\<rparr>"

definition with_backend_version :: "rstr \<Rightarrow> runtime_descriptor \<Rightarrow> runtime_descriptor" where
  "with_backend_version v d = d\<lparr>rd_backend_version := v\<rparr>"

definition with_accelerator_family :: "rstr \<Rightarrow> runtime_descriptor \<Rightarrow> runtime_descriptor" where
  "with_accelerator_family v d = d\<lparr>rd_accelerator_family := v\<rparr>"

definition with_instance_id :: "rstr \<Rightarrow> runtime_descriptor \<Rightarrow> runtime_descriptor" where
  "with_instance_id v d = d\<lparr>rd_instance_id := v\<rparr>"

definition with_model_residency ::
  "residency_status \<Rightarrow> rstr \<Rightarrow> runtime_descriptor \<Rightarrow> runtime_descriptor" where
  "with_model_residency s detail d = d\<lparr>rd_capabilities :=
     filter (\<lambda>c. ca_id c \<noteq> MODEL_RESIDENCY_CAPABILITY) (rd_capabilities d)
     @ [model_residency_capability s detail]\<rparr>"

definition unsupported_descriptor :: "rstr \<Rightarrow> rstr \<Rightarrow> runtime_descriptor" where
  "unsupported_descriptor version backend =
     (static_descriptor version backend)\<lparr>rd_instance_id := lit ''unavailable''\<rparr>"

section \<open>Validation\<close>

definition invalid_bounded_text :: "rstr \<Rightarrow> bool" where
  "invalid_bounded_text v \<longleftrightarrow>
     trim v = [] \<or> str_len v > MAX_COMPATIBILITY_FIELD_BYTES \<or> list_ex is_control v"

definition invalid_envelope :: protocol_error where
  "invalid_envelope = perr InvalidRequest
     (lit ''compatibility envelope contains a missing, invalid, or unbounded field'')"

definition invalid_descriptor :: protocol_error where
  "invalid_descriptor = perr Internal
     (lit ''backend returned an invalid or ambiguous runtime descriptor'')"

definition unsupported :: "string \<Rightarrow> protocol_error" where
  "unsupported operation = perr UnsupportedCode
     (lit ''the active backend does not support '' @ lit operation)"

definition validate_compatibility ::
  "compatibility_envelope \<Rightarrow> compatibility_envelope \<Rightarrow> (protocol_error, unit) res" where
  "validate_compatibility expected actual =
     (let names = mismatch_fields expected actual
      in if names = [] then Ok ()
         else Err (with_mismatches names (perr IncompatibleState
           (lit ''runtime-state compatibility does not match the resolved backend''))))"

definition optional_invalid :: "rstr option \<Rightarrow> bool" where
  "optional_invalid v = (case v of None \<Rightarrow> False | Some s \<Rightarrow> invalid_bounded_text s)"

definition validate_compatibility_envelope :: "compatibility_envelope \<Rightarrow> (protocol_error, unit) res" where
  "validate_compatibility_envelope v =
     (if list_ex invalid_bounded_text
           [ce_model_fingerprint v, ce_tokenizer_fingerprint v, ce_prompt_fingerprint v,
            ce_backend v, ce_backend_version v, ce_runtime_adapter_version v,
            ce_accelerator_family v, ce_tensor_dtype v, ce_kv_dtype v, ce_quantization v,
            ce_cache_layout v]
      then Err invalid_envelope
      else if optional_invalid (ce_chat_template_fingerprint v)
        \<or> optional_invalid (cx_rope_configuration_fingerprint (ce_context v))
        \<or> length (ce_multimodal_processor_fingerprints v) > MAX_COMPATIBILITY_MULTIMODAL_PROCESSORS
        \<or> list_ex invalid_bounded_text (ce_multimodal_processor_fingerprints v)
        \<or> cx_context_size (ce_context v) = 0
        \<or> cx_batch_size (ce_context v) = Some 0
        \<or> ce_block_size v = Some 0
      then Err invalid_envelope
      else if \<not> version_accepts version_V1 (ce_producer_protocol v)
      then Err (perr IncompatibleState
        (lit ''runtime state was produced by an incompatible protocol version''))
      else Ok ())"

fun text_bounds :: "nat \<Rightarrow> rstr list \<Rightarrow> (protocol_error, nat) res" where
  "text_bounds b [] = Ok b"
| "text_bounds b (v # vs) =
     (if invalid_bounded_text v then Err invalid_descriptor
      else (case checked_add b (sat_add (sat_mul (str_len v) 6) 32) of
          None \<Rightarrow> Err invalid_descriptor
        | Some b' \<Rightarrow> text_bounds b' vs))"

fun operation_bounds :: "nat \<Rightarrow> rstr list \<Rightarrow> (protocol_error, nat) res" where
  "operation_bounds b [] = Ok b"
| "operation_bounds b (v # vs) =
     (case checked_add b (sat_add (sat_mul (str_len v) 6) 8) of
        None \<Rightarrow> Err invalid_descriptor
      | Some b' \<Rightarrow> operation_bounds b' vs)"

definition capability_invalid :: "capability \<Rightarrow> bool" where
  "capability_invalid c \<longleftrightarrow>
     invalid_bounded_text (ca_id c) \<or> trim (ca_detail c) = []
     \<or> str_len (ca_detail c) > 4 * 1024 \<or> list_ex is_control (ca_detail c)
     \<or> length (ca_operations c) > MAX_CAPABILITY_OPERATIONS
     \<or> list_ex invalid_bounded_text (ca_operations c)"

fun capability_bounds :: "rstr set \<Rightarrow> nat \<Rightarrow> capability list \<Rightarrow> (protocol_error, unit) res" where
  "capability_bounds ids b [] = Ok ()"
| "capability_bounds ids b (c # cs) =
     (if capability_invalid c \<or> ca_id c \<in> ids then Err invalid_descriptor
      else (case checked_add b
                (sat_add (sat_mul (sat_add (str_len (ca_id c)) (str_len (ca_detail c))) 6) 128) of
          None \<Rightarrow> Err invalid_descriptor
        | Some b' \<Rightarrow> res_bind (operation_bounds b' (ca_operations c)) (\<lambda>b''.
            if b'' > MAX_ENCODED_RUNTIME_DESCRIPTOR_BYTES then Err invalid_descriptor
            else capability_bounds (insert (ca_id c) ids) b'' cs)))"

definition validate_runtime_descriptor :: "runtime_descriptor \<Rightarrow> (protocol_error, unit) res" where
  "validate_runtime_descriptor d =
     res_bind (text_bounds 256 [rd_backend d, rd_backend_version d, rd_adapter_version d,
                 rd_accelerator_family d, rd_instance_id d]) (\<lambda>b.
       if length (rd_capabilities d) > MAX_BACKEND_CAPABILITIES then Err invalid_descriptor
       else capability_bounds {} b (rd_capabilities d))"

section \<open>States, snapshots and requests\<close>

record memory_requirement =
  mq_tier :: state_tier
  mq_bytes :: nat
  mq_demotion_target :: "state_tier option"

datatype backend_state =
    InProcess rstr "nat option" state_tier rstr
  | OpaqueBytes "nat list" state_tier rstr
  | OpaqueFile rstr nat state_tier rstr
  | ExternalState rstr "nat option" state_tier rstr

fun bs_bytes :: "backend_state \<Rightarrow> nat option" where
  "bs_bytes (InProcess _ bytes _ _) = bytes"
| "bs_bytes (ExternalState _ bytes _ _) = bytes"
| "bs_bytes (OpaqueFile _ bytes _ _) = Some bytes"
| "bs_bytes (OpaqueBytes bytes _ _) = Some (length bytes)"

fun natural_tier :: "backend_state \<Rightarrow> state_tier" where
  "natural_tier (InProcess _ _ tier _) = tier"
| "natural_tier (OpaqueBytes _ tier _) = tier"
| "natural_tier (OpaqueFile _ _ tier _) = tier"
| "natural_tier (ExternalState _ _ tier _) = tier"

fun instance_id :: "backend_state \<Rightarrow> rstr" where
  "instance_id (InProcess _ _ _ i) = i"
| "instance_id (OpaqueBytes _ _ i) = i"
| "instance_id (OpaqueFile _ _ _ i) = i"
| "instance_id (ExternalState _ _ _ i) = i"

record prefill_request =
  bp_model_id :: rstr
  bp_input :: prefill_input
  bp_compatibility :: compatibility_envelope
  bp_policy :: persistence_policy

record prefill_result =
  br_state :: backend_state
  br_prompt_tokens :: nat
  br_reused :: bool

record snapshot =
  sn_identity :: nat
  sn_bytes :: nat

datatype persisted_scope = SameProcess | CrossRestart

record persisted_resolution =
  pr_compatibility :: compatibility_envelope
  pr_scope :: persisted_scope

record decode_options =
  do_max_tokens :: nat
  do_temperature :: "f64 option"
  do_top_p :: "f64 option"
  do_seed :: "nat option"
  do_stop :: "rstr list"

record decode_request =
  dq_state :: backend_state
  dq_compatibility :: compatibility_envelope
  dq_options :: decode_options

record decode_result =
  dr_text :: rstr
  dr_state :: "backend_state option"
  dr_completion_tokens :: nat
  dr_finish_reason :: rstr

record expert_filter = expert_list_filter +
  xf_allow_experimental :: bool

record expert_request = expert_action_request +
  xq_allow_experimental :: bool

record expert_action_response =
  ar_experts :: "expert_summary list"
  ar_changed :: nat
  ar_dry_run :: bool

record 'm runtime_manifest =
  rm_id :: rstr
  rm_fields :: 'm

section \<open>The adapter trait and its defaults\<close>

record ('m, 'w) adapter =
  ad_descriptor :: "'w \<Rightarrow> runtime_descriptor"
  ad_compatibility :: "'m runtime_manifest \<Rightarrow> rstr \<Rightarrow> 'w \<Rightarrow> (protocol_error, compatibility_envelope) res \<times> 'w"
  ad_inspect_compatibility :: "'m runtime_manifest \<Rightarrow> rstr \<Rightarrow> 'w \<Rightarrow> (protocol_error, compatibility_envelope) res"
  ad_resolve :: "'m runtime_manifest \<Rightarrow> snapshot \<Rightarrow> compatibility_envelope \<Rightarrow> 'w \<Rightarrow>
    (protocol_error, persisted_resolution) res \<times> 'w"
  ad_inspect_persisted :: "'m runtime_manifest \<Rightarrow> snapshot \<Rightarrow> compatibility_envelope \<Rightarrow> 'w \<Rightarrow>
    (protocol_error, persisted_resolution \<times> memory_requirement option) res"
  ad_validate_state :: "backend_state \<Rightarrow> compatibility_envelope \<Rightarrow> 'w \<Rightarrow> (protocol_error, unit) res"
  ad_restore_requirement :: "snapshot \<Rightarrow> compatibility_envelope \<Rightarrow> 'w \<Rightarrow>
    (protocol_error, memory_requirement option) res \<times> 'w"
  ad_prefill_requirement :: "prefill_request \<Rightarrow> 'w \<Rightarrow> (protocol_error, memory_requirement option) res"
  ad_decode_requirement :: "decode_request \<Rightarrow> 'w \<Rightarrow> (protocol_error, memory_requirement option) res"
  ad_prefill :: "prefill_request \<Rightarrow> 'w \<Rightarrow> (protocol_error, prefill_result) res \<times> 'w"
  ad_decode :: "decode_request \<Rightarrow> 'w \<Rightarrow> (protocol_error, decode_result) res \<times> 'w"
  ad_restore :: "snapshot \<Rightarrow> compatibility_envelope \<Rightarrow> 'w \<Rightarrow> (protocol_error, backend_state) res \<times> 'w"
  ad_snapshot :: "backend_state \<Rightarrow> 'w \<Rightarrow> (protocol_error, backend_state) res \<times> 'w"
  ad_inspect_snapshot_export :: "backend_state \<Rightarrow> compatibility_envelope \<Rightarrow> 'w \<Rightarrow> (protocol_error, unit) res"
  ad_validate_snapshot :: "backend_state \<Rightarrow> compatibility_envelope \<Rightarrow> 'w \<Rightarrow> (protocol_error, unit) res"
  ad_move_state :: "backend_state \<Rightarrow> state_tier \<Rightarrow> 'w \<Rightarrow> (protocol_error, backend_state) res \<times> 'w"
  ad_release :: "backend_state \<Rightarrow> 'w \<Rightarrow> (protocol_error, unit) res \<times> 'w"
  ad_list_experts :: "expert_filter \<Rightarrow> 'w \<Rightarrow> (protocol_error, expert_list_response) res \<times> 'w"
  ad_expert_action :: "expert_request \<Rightarrow> 'w \<Rightarrow> (protocol_error, expert_action_response) res \<times> 'w"

definition state_mismatches ::
  "runtime_descriptor \<Rightarrow> backend_state \<Rightarrow> compatibility_envelope \<Rightarrow> rstr list" where
  "state_mismatches d state c =
     changed_field (instance_id state = rd_instance_id d) ''process_instance''
     @ changed_field (ce_backend c = rd_backend d) ''backend''
     @ changed_field (ce_backend_version c = rd_backend_version d) ''backend_version''
     @ changed_field (ce_runtime_adapter_version c = rd_adapter_version d) ''runtime_adapter_version''
     @ changed_field (ce_accelerator_family c = rd_accelerator_family d) ''accelerator_family''"

definition default_validate_state ::
  "runtime_descriptor \<Rightarrow> backend_state \<Rightarrow> compatibility_envelope \<Rightarrow> (protocol_error, unit) res" where
  "default_validate_state d state c =
     (let names = state_mismatches d state c
      in if names = [] then Ok ()
         else Err (with_mismatches names (perr IncompatibleState
           (lit ''runtime state no longer belongs to the resolved backend process''))))"

definition default_adapter :: "('w \<Rightarrow> runtime_descriptor) \<Rightarrow> ('m, 'w) adapter" where
  "default_adapter desc =
     \<lparr>ad_descriptor = desc,
      ad_compatibility = (\<lambda>_ _ w. (Err (unsupported ''verifiable runtime-state compatibility''), w)),
      ad_inspect_compatibility =
        (\<lambda>_ _ _. Err (unsupported ''side-effect-free compatibility inspection'')),
      ad_resolve = (\<lambda>_ _ _ w. (Err (unsupported ''validated persisted-state resolution''), w)),
      ad_inspect_persisted =
        (\<lambda>_ _ _ _. Err (unsupported ''side-effect-free persisted-state inspection'')),
      ad_validate_state = (\<lambda>state c w. default_validate_state (desc w) state c),
      ad_restore_requirement = (\<lambda>_ _ w. (Ok None, w)),
      ad_prefill_requirement = (\<lambda>_ _. Ok None),
      ad_decode_requirement = (\<lambda>_ _. Ok None),
      ad_prefill = (\<lambda>_ w. (Err (unsupported ''prefill-only execution''), w)),
      ad_decode = (\<lambda>_ w. (Err (unsupported ''decode-from-state''), w)),
      ad_restore = (\<lambda>_ _ w. (Err (unsupported ''persistent state restore''), w)),
      ad_snapshot = (\<lambda>_ w. (Err (unsupported ''persistent state snapshots''), w)),
      ad_inspect_snapshot_export =
        (\<lambda>_ _ _. Err (unsupported ''side-effect-free snapshot export inspection'')),
      ad_validate_snapshot = (\<lambda>state c w. default_validate_state (desc w) state c),
      ad_move_state = (\<lambda>_ _ w. (Err (unsupported ''state tier movement''), w)),
      ad_release = (\<lambda>_ w. (Ok (), w)),
      ad_list_experts = (\<lambda>_ w. (Err (unsupported ''expert residency telemetry''), w)),
      ad_expert_action = (\<lambda>_ w. (Err (unsupported ''expert residency control''), w))\<rparr>"

definition static_adapter :: "runtime_descriptor \<Rightarrow> ('m, 'w) adapter" where
  "static_adapter d = default_adapter (\<lambda>_. d)"

section \<open>Plans for restoring persisted states\<close>

datatype plan_binding = DirectBinding | RoutedBinding nat

record persisted_plan =
  ps_resolution :: persisted_resolution
  ps_descriptor :: runtime_descriptor
  ps_requirement :: "memory_requirement option"
  ps_expected :: compatibility_envelope
  ps_snapshot_identity :: nat
  ps_snapshot_bytes :: nat
  ps_binding :: plan_binding

definition persisted_plan_new ::
  "persisted_resolution \<Rightarrow> runtime_descriptor \<Rightarrow> memory_requirement option \<Rightarrow> snapshot \<Rightarrow>
     compatibility_envelope \<Rightarrow> plan_binding \<Rightarrow> persisted_plan"
where
  "persisted_plan_new resolution descriptor requirement sn expected binding =
     \<lparr>ps_resolution = resolution, ps_descriptor = descriptor, ps_requirement = requirement,
      ps_expected = expected, ps_snapshot_identity = sn_identity sn,
      ps_snapshot_bytes = sn_bytes sn, ps_binding = binding\<rparr>"

text \<open>\<open>map_err\<close>: the error of an envelope check is replaced.\<close>

definition envelope_checked ::
  "protocol_error \<Rightarrow> compatibility_envelope \<Rightarrow> (protocol_error, unit) res" where
  "envelope_checked e c = (if validate_compatibility_envelope c = Ok () then Ok () else Err e)"

definition invalid_expected :: protocol_error where
  "invalid_expected = perr IncompatibleState
     (lit ''persisted-state restore compatibility is invalid'')"

definition invalid_resolved :: protocol_error where
  "invalid_resolved = perr Internal
     (lit ''backend resolved an invalid or unbounded compatibility envelope'')"

definition validate_restore ::
  "persisted_plan \<Rightarrow> snapshot \<Rightarrow> compatibility_envelope \<Rightarrow> (protocol_error, unit) res" where
  "validate_restore p sn expected =
     res_bind (envelope_checked invalid_expected expected) (\<lambda>_.
     res_bind (validate_compatibility expected (ps_expected p)) (\<lambda>_.
     res_bind (validate_compatibility expected (pr_compatibility (ps_resolution p))) (\<lambda>_.
       ensure (sn_bytes sn = ps_snapshot_bytes p \<and> sn_identity sn = ps_snapshot_identity p)
         (perr IncompatibleState
           (lit ''persisted-state restore plan does not belong to this verified snapshot'')))))"

definition plan_descriptor_current ::
  "persisted_plan \<Rightarrow> runtime_descriptor \<Rightarrow> (protocol_error, unit) res" where
  "plan_descriptor_current p current =
     res_bind (validate_runtime_descriptor current) (\<lambda>_.
       ensure (current = ps_descriptor p) (retryable True (perr UnavailableCode
         (lit ''the backend process changed after persisted-state restore was prepared''))))"

definition routed_adapter :: "persisted_plan \<Rightarrow> (protocol_error, nat) res" where
  "routed_adapter p = (case ps_binding p of
     RoutedBinding a \<Rightarrow> Ok a
   | DirectBinding \<Rightarrow> Err (perr Internal
       (lit ''persisted-state restore plan has invalid backend ownership'')))"

definition is_direct :: "persisted_plan \<Rightarrow> bool" where
  "is_direct p \<longleftrightarrow> ps_binding p = DirectBinding"

text \<open>
  What an adapter answers while a plan is prepared; shared by the default and by the router.
  The descriptor is read once before and once after the requirement is asked for, and the world
  after that call is one in which the backend process may have changed.
\<close>

definition prepare_plan ::
  "('m, 'w) adapter \<Rightarrow> plan_binding \<Rightarrow> 'm runtime_manifest \<Rightarrow> snapshot \<Rightarrow> compatibility_envelope \<Rightarrow> 'w \<Rightarrow>
     (protocol_error, persisted_plan) res \<times> 'w"
where
  "prepare_plan a binding m sn expected w =
     (case ad_resolve a m sn expected w of
        (Err e, w) \<Rightarrow> (Err e, w)
      | (Panic, w) \<Rightarrow> (Panic, w)
      | (Ok resolution, w) \<Rightarrow>
          (case res_bind (envelope_checked invalid_resolved (pr_compatibility resolution)) (\<lambda>_.
             res_bind (validate_compatibility expected (pr_compatibility resolution)) (\<lambda>_.
             validate_runtime_descriptor (ad_descriptor a w))) of
             Err e \<Rightarrow> (Err e, w)
           | Panic \<Rightarrow> (Panic, w)
           | Ok _ \<Rightarrow>
               (case ad_restore_requirement a sn expected w of
                  (Err e, w') \<Rightarrow> (Err e, w')
                | (Panic, w') \<Rightarrow> (Panic, w')
                | (Ok requirement, w') \<Rightarrow>
                    (let p = persisted_plan_new resolution (ad_descriptor a w) requirement sn expected binding
                     in res_bind (plan_descriptor_current p (ad_descriptor a w')) (\<lambda>_. Ok p), w'))))"

definition direct_prepare_persisted ::
  "('m, 'w) adapter \<Rightarrow> 'm runtime_manifest \<Rightarrow> snapshot \<Rightarrow> compatibility_envelope \<Rightarrow> 'w \<Rightarrow>
     (protocol_error, persisted_plan) res \<times> 'w"
where
  "direct_prepare_persisted a m sn expected w =
     (case envelope_checked invalid_expected expected of
        Ok _ \<Rightarrow> prepare_plan a DirectBinding m sn expected w
      | Err e \<Rightarrow> (Err e, w)
      | Panic \<Rightarrow> (Panic, w))"

definition direct_restore_prepared ::
  "('m, 'w) adapter \<Rightarrow> persisted_plan \<Rightarrow> snapshot \<Rightarrow> compatibility_envelope \<Rightarrow> 'w \<Rightarrow>
     (protocol_error, backend_state) res \<times> 'w"
where
  "direct_restore_prepared a p sn expected w =
     (case res_bind (validate_restore p sn expected) (\<lambda>_.
             res_bind (ensure (is_direct p) (perr Internal
               (lit ''persisted-state restore plan has invalid backend ownership''))) (\<lambda>_.
             plan_descriptor_current p (ad_descriptor a w))) of
        Ok _ \<Rightarrow> ad_restore a sn expected w
      | Err e \<Rightarrow> (Err e, w)
      | Panic \<Rightarrow> (Panic, w))"

section \<open>Plans for expert operations\<close>

datatype expert_operation = ListOperation expert_filter | ActionOperation expert_request

record 'm expert_plan =
  ep_manifest :: "'m runtime_manifest option"
  ep_descriptor :: runtime_descriptor
  ep_operation :: expert_operation
  ep_binding :: plan_binding

definition invalid_expert_plan :: protocol_error where
  "invalid_expert_plan = perr Internal (lit ''expert operation plan has invalid backend ownership'')"

definition validate_expert_manifest_binding ::
  "'m runtime_manifest option \<Rightarrow> rstr option \<Rightarrow> (protocol_error, unit) res" where
  "validate_expert_manifest_binding m i =
     ensure (case (m, i) of
         (None, None) \<Rightarrow> True
       | (Some x, Some i) \<Rightarrow> rm_id x = i
       | _ \<Rightarrow> False) invalid_expert_plan"

definition validate_bound_expert_operation ::
  "'m runtime_manifest option \<Rightarrow> expert_operation \<Rightarrow> (protocol_error, unit) res" where
  "validate_bound_expert_operation m p = (case p of
     ListOperation f \<Rightarrow> validate_expert_manifest_binding m (xf_model_id f)
   | ActionOperation r \<Rightarrow> validate_expert_manifest_binding m (Some (xq_model_id r)))"

definition EXPERTS_CAPABILITY :: rstr where
  "EXPERTS_CAPABILITY = lit ''runtime.experts.residency''"

definition require_expert_capability ::
  "runtime_descriptor \<Rightarrow> bool \<Rightarrow> bool \<Rightarrow> (protocol_error, unit) res" where
  "require_expert_capability d allow_experimental require_control =
     res_bind (validate_runtime_descriptor d) (\<lambda>_.
       case find (\<lambda>c. ca_id c = EXPERTS_CAPABILITY) (rd_capabilities d) of
         None \<Rightarrow> Err (perr UnsupportedCode
           (lit ''the selected backend did not declare expert residency support''))
       | Some c \<Rightarrow>
           (case ca_status c of
              Supported \<Rightarrow> Ok ()
            | Experimental \<Rightarrow>
                if allow_experimental then Ok ()
                else Err (perr ExperimentalOptInRequired
                  (lit ''runtime.experts.residency requires explicit experimental opt-in''))
            | ExternallyManaged \<Rightarrow>
                if \<not> require_control then Ok () else Err (perr UnsupportedCode (ca_detail c))
            | Unavailable \<Rightarrow> Err (retryable True (perr UnavailableCode (ca_detail c)))
            | MetadataOnly \<Rightarrow> Err (perr UnsupportedCode (ca_detail c))
            | Unsupported \<Rightarrow> Err (perr UnsupportedCode (ca_detail c))))"

definition expert_plan_list ::
  "'m runtime_manifest option \<Rightarrow> runtime_descriptor \<Rightarrow> expert_filter \<Rightarrow> plan_binding \<Rightarrow>
     (protocol_error, 'm expert_plan) res"
where
  "expert_plan_list m d f binding =
     res_bind (validate_expert_manifest_binding m (xf_model_id f)) (\<lambda>_.
     res_bind (validate_runtime_descriptor d) (\<lambda>_.
     res_bind (require_expert_capability d (xf_allow_experimental f) False) (\<lambda>_.
       Ok \<lparr>ep_manifest = m, ep_descriptor = d, ep_operation = ListOperation f, ep_binding = binding\<rparr>)))"

definition expert_plan_action ::
  "'m runtime_manifest \<Rightarrow> runtime_descriptor \<Rightarrow> expert_request \<Rightarrow> plan_binding \<Rightarrow>
     (protocol_error, 'm expert_plan) res"
where
  "expert_plan_action m d r binding =
     res_bind (validate_expert_manifest_binding (Some m) (Some (xq_model_id r))) (\<lambda>_.
     res_bind (validate_runtime_descriptor d) (\<lambda>_.
     res_bind (require_expert_capability d (xq_allow_experimental r) True) (\<lambda>_.
       Ok \<lparr>ep_manifest = Some m, ep_descriptor = d, ep_operation = ActionOperation r,
           ep_binding = binding\<rparr>)))"

definition expert_descriptor_current ::
  "'m expert_plan \<Rightarrow> runtime_descriptor \<Rightarrow> (protocol_error, unit) res" where
  "expert_descriptor_current p current =
     res_bind (validate_runtime_descriptor current) (\<lambda>_.
       ensure (current = ep_descriptor p) (retryable True (perr UnavailableCode
         (lit ''the expert backend changed after the operation was prepared''))))"

definition planned_filter :: "'m expert_plan \<Rightarrow> (protocol_error, expert_filter) res" where
  "planned_filter p = (case ep_operation p of
     ListOperation f \<Rightarrow> Ok f | ActionOperation _ \<Rightarrow> Err invalid_expert_plan)"

definition planned_request :: "'m expert_plan \<Rightarrow> (protocol_error, expert_request) res" where
  "planned_request p = (case ep_operation p of
     ActionOperation r \<Rightarrow> Ok r | ListOperation _ \<Rightarrow> Err invalid_expert_plan)"

definition into_direct_list ::
  "'m expert_plan \<Rightarrow> runtime_descriptor \<Rightarrow> (protocol_error, expert_filter) res" where
  "into_direct_list p current =
     res_bind (expert_descriptor_current p current) (\<lambda>_.
     res_bind (validate_bound_expert_operation (ep_manifest p) (ep_operation p)) (\<lambda>_.
     res_bind (ensure (ep_binding p = DirectBinding) invalid_expert_plan) (\<lambda>_. planned_filter p)))"

definition into_direct_action ::
  "'m expert_plan \<Rightarrow> runtime_descriptor \<Rightarrow> (protocol_error, expert_request) res" where
  "into_direct_action p current =
     res_bind (expert_descriptor_current p current) (\<lambda>_.
     res_bind (validate_bound_expert_operation (ep_manifest p) (ep_operation p)) (\<lambda>_.
     res_bind (ensure (ep_binding p = DirectBinding) invalid_expert_plan) (\<lambda>_. planned_request p)))"

definition bound_adapter :: "'m expert_plan \<Rightarrow> (protocol_error, nat) res" where
  "bound_adapter p = (case ep_binding p of
     RoutedBinding a \<Rightarrow> Ok a | DirectBinding \<Rightarrow> Err invalid_expert_plan)"

text \<open>\<open>descriptor_of\<close> asks the bound adapter for its current descriptor.\<close>

definition into_routed_list ::
  "(nat \<Rightarrow> runtime_descriptor) \<Rightarrow> 'm expert_plan \<Rightarrow> (protocol_error, nat \<times> expert_filter) res" where
  "into_routed_list descriptor_of p =
     res_bind (validate_bound_expert_operation (ep_manifest p) (ep_operation p)) (\<lambda>_.
     res_bind (bound_adapter p) (\<lambda>a.
     res_bind (expert_descriptor_current p (descriptor_of a)) (\<lambda>_.
     res_bind (planned_filter p) (\<lambda>f. Ok (a, f)))))"

definition into_routed_action ::
  "(nat \<Rightarrow> runtime_descriptor) \<Rightarrow> 'm expert_plan \<Rightarrow> (protocol_error, nat \<times> expert_request) res" where
  "into_routed_action descriptor_of p =
     res_bind (validate_bound_expert_operation (ep_manifest p) (ep_operation p)) (\<lambda>_.
     res_bind (bound_adapter p) (\<lambda>a.
     res_bind (expert_descriptor_current p (descriptor_of a)) (\<lambda>_.
     res_bind (planned_request p) (\<lambda>r. Ok (a, r)))))"

definition direct_list_experts_prepared ::
  "('m, 'w) adapter \<Rightarrow> 'm expert_plan \<Rightarrow> 'w \<Rightarrow> (protocol_error, expert_list_response) res \<times> 'w" where
  "direct_list_experts_prepared a p w =
     (case into_direct_list p (ad_descriptor a w) of
        Ok f \<Rightarrow> ad_list_experts a f w
      | Err e \<Rightarrow> (Err e, w)
      | Panic \<Rightarrow> (Panic, w))"

definition direct_expert_action_prepared ::
  "('m, 'w) adapter \<Rightarrow> 'm expert_plan \<Rightarrow> 'w \<Rightarrow> (protocol_error, expert_action_response) res \<times> 'w" where
  "direct_expert_action_prepared a p w =
     (case ep_manifest p of
        None \<Rightarrow> (Err invalid_expert_plan, w)
      | Some _ \<Rightarrow>
          (case into_direct_action p (ad_descriptor a w) of
             Ok r \<Rightarrow> ad_expert_action a r w
           | Err e \<Rightarrow> (Err e, w)
           | Panic \<Rightarrow> (Panic, w)))"

section \<open>What validation accepts\<close>

text \<open>
  The declarative reading of \<open>validate_runtime_descriptor\<close>: bounded printable fields,
  distinct capabilities, and an estimate of the encoded size within the limit. The running
  estimate of the code, with its saturating and checked arithmetic, is this plain sum.
\<close>

definition text_size :: "nat \<Rightarrow> rstr \<Rightarrow> nat" where
  "text_size overhead v = str_len v * 6 + overhead"

definition capability_size :: "capability \<Rightarrow> nat" where
  "capability_size c = (str_len (ca_id c) + str_len (ca_detail c)) * 6 + 128
     + sum_list (map (text_size 8) (ca_operations c))"

definition identity_texts :: "runtime_descriptor \<Rightarrow> rstr list" where
  "identity_texts d = [rd_backend d, rd_backend_version d, rd_adapter_version d,
     rd_accelerator_family d, rd_instance_id d]"

definition declared_size :: "runtime_descriptor \<Rightarrow> nat" where
  "declared_size d = 256 + sum_list (map (text_size 32) (identity_texts d))
     + sum_list (map capability_size (rd_capabilities d))"

definition descriptor_well_formed :: "runtime_descriptor \<Rightarrow> bool" where
  "descriptor_well_formed d \<longleftrightarrow>
     (\<forall>v \<in> set (identity_texts d). \<not> invalid_bounded_text v)
     \<and> length (rd_capabilities d) \<le> MAX_BACKEND_CAPABILITIES
     \<and> (\<forall>c \<in> set (rd_capabilities d). \<not> capability_invalid c)
     \<and> distinct (map ca_id (rd_capabilities d))"

lemmas backend_limits = MAX_COMPATIBILITY_FIELD_BYTES_def MAX_BACKEND_CAPABILITIES_def
  MAX_CAPABILITY_OPERATIONS_def MAX_ENCODED_RUNTIME_DESCRIPTOR_BYTES_def u64_max_def

lemma valid_text_len: "\<not> invalid_bounded_text v \<Longrightarrow> str_len v \<le> 512"
  by (simp add: invalid_bounded_text_def MAX_COMPATIBILITY_FIELD_BYTES_def)

lemma valid_texts_size:
  "\<forall>v \<in> set vs. \<not> invalid_bounded_text v \<Longrightarrow>
     sum_list (map (text_size k) vs) \<le> length vs * (3072 + k)"
proof (induction vs)
  case (Cons v vs)
  then have "str_len v \<le> 512" using valid_text_len by simp
  with Cons show ?case by (simp add: text_size_def)
qed simp

lemma checked_text:
  "b \<le> 100000000 \<Longrightarrow> str_len v \<le> 512 \<Longrightarrow> k \<le> 32 \<Longrightarrow>
     checked_add b (sat_add (sat_mul (str_len v) 6) k) = Some (b + text_size k v)"
  by (simp add: checked_add_def sat_add_def sat_mul_def text_size_def u64_max_def)

lemma text_bounds_exact:
  "b + length vs * 3104 \<le> 10000000 \<Longrightarrow>
     text_bounds b vs = (if \<exists>v \<in> set vs. invalid_bounded_text v then Err invalid_descriptor
       else Ok (b + sum_list (map (text_size 32) vs)))"
proof (induction vs arbitrary: b)
  case (Cons v vs)
  show ?case
  proof (cases "invalid_bounded_text v")
    case False
    then have len: "str_len v \<le> 512" by (rule valid_text_len)
    with Cons.prems have "b + text_size 32 v + length vs * 3104 \<le> 10000000"
      by (simp add: text_size_def)
    from Cons.IH [OF this] show ?thesis
      using False len Cons.prems by (simp add: checked_text add.assoc)
  qed simp
qed simp

lemma operation_bounds_exact:
  "b + length vs * 3080 \<le> 10000000 \<Longrightarrow> \<forall>v \<in> set vs. \<not> invalid_bounded_text v \<Longrightarrow>
     operation_bounds b vs = Ok (b + sum_list (map (text_size 8) vs))"
proof (induction vs arbitrary: b)
  case (Cons v vs)
  then have len: "str_len v \<le> 512" using valid_text_len by simp
  with Cons.prems have "b + text_size 8 v + length vs * 3080 \<le> 10000000"
    by (simp add: text_size_def)
  from Cons.IH [OF this] show ?case
    using len Cons.prems by (simp add: checked_text add.assoc)
qed simp

lemma capability_bounds_exact:
  "b \<le> MAX_ENCODED_RUNTIME_DESCRIPTOR_BYTES \<Longrightarrow>
     capability_bounds ids b cs = Ok () \<longleftrightarrow>
       (\<forall>c \<in> set cs. \<not> capability_invalid c \<and> ca_id c \<notin> ids) \<and> distinct (map ca_id cs) \<and>
       b + sum_list (map capability_size cs) \<le> MAX_ENCODED_RUNTIME_DESCRIPTOR_BYTES"
proof (induction cs arbitrary: ids b)
  case (Cons c cs)
  show ?case
  proof (cases "capability_invalid c \<or> ca_id c \<in> ids")
    case False
    then have len: "str_len (ca_id c) \<le> 512" "str_len (ca_detail c) \<le> 4096"
        "length (ca_operations c) \<le> 64" and vs: "\<forall>v \<in> set (ca_operations c). \<not> invalid_bounded_text v"
      using valid_text_len by (auto simp: capability_invalid_def MAX_CAPABILITY_OPERATIONS_def list_ex_iff)
    let ?head = "(str_len (ca_id c) + str_len (ca_detail c)) * 6 + 128"
    have head: "?head \<le> 27776" using len by simp
    have b: "b \<le> 4194304" using Cons.prems by (simp add: MAX_ENCODED_RUNTIME_DESCRIPTOR_BYTES_def)
    have step: "checked_add b
        (sat_add (sat_mul (sat_add (str_len (ca_id c)) (str_len (ca_detail c))) 6) 128) = Some (b + ?head)"
      using len b by (simp add: checked_add_def sat_add_def sat_mul_def u64_max_def)
    have ops: "operation_bounds (b + ?head) (ca_operations c) = Ok (b + capability_size c)"
      using operation_bounds_exact [OF _ vs, of "b + ?head"] b head len
      by (simp add: capability_size_def add.assoc)
    have unroll: "capability_bounds ids b (c # cs) =
        (if b + capability_size c > MAX_ENCODED_RUNTIME_DESCRIPTOR_BYTES then Err invalid_descriptor
         else capability_bounds (insert (ca_id c) ids) (b + capability_size c) cs)"
      unfolding capability_bounds.simps step option.case ops res_bind.simps using False by simp
    show ?thesis
    proof (cases "b + capability_size c \<le> MAX_ENCODED_RUNTIME_DESCRIPTOR_BYTES")
      case True
      from Cons.IH [OF this, of "insert (ca_id c) ids"] show ?thesis
        unfolding unroll using False True by (auto simp: add.assoc image_iff)
    qed (unfold unroll, auto)
  qed auto
qed simp

lemma validate_descriptor_iff:
  "validate_runtime_descriptor d = Ok () \<longleftrightarrow>
     descriptor_well_formed d \<and> declared_size d \<le> MAX_ENCODED_RUNTIME_DESCRIPTOR_BYTES"
proof (cases "\<exists>v \<in> set (identity_texts d). invalid_bounded_text v")
  case True
  have "text_bounds 256 (identity_texts d) = Err invalid_descriptor"
    using text_bounds_exact [of 256 "identity_texts d"] True by (simp add: identity_texts_def)
  with True show ?thesis
    by (auto simp: validate_runtime_descriptor_def descriptor_well_formed_def identity_texts_def)
next
  case False
  let ?b = "256 + sum_list (map (text_size 32) (identity_texts d))"
  have "sum_list (map (text_size 32) (identity_texts d)) \<le> length (identity_texts d) * (3072 + 32)"
    by (rule valid_texts_size) (use False in blast)
  then have b: "?b \<le> MAX_ENCODED_RUNTIME_DESCRIPTOR_BYTES"
    by (simp add: identity_texts_def MAX_ENCODED_RUNTIME_DESCRIPTOR_BYTES_def)
  have "text_bounds 256 (identity_texts d) = Ok ?b"
    using text_bounds_exact [of 256 "identity_texts d"] False by (simp add: identity_texts_def)
  then have "validate_runtime_descriptor d =
      (if length (rd_capabilities d) > MAX_BACKEND_CAPABILITIES then Err invalid_descriptor
       else capability_bounds {} ?b (rd_capabilities d))"
    by (simp add: validate_runtime_descriptor_def identity_texts_def)
  then show ?thesis
    using False capability_bounds_exact [OF b, of "{}" "rd_capabilities d"]
    by (auto simp: descriptor_well_formed_def declared_size_def)
qed

text \<open>An envelope that matches a validated one is validated too, as they are equal.\<close>

lemma validate_compatibility_Ok [simp]: "validate_compatibility a b = Ok u \<longleftrightarrow> a = b"
  by (simp add: validate_compatibility_def mismatch_fields_Nil Let_def)

lemma envelope_checked_Ok [simp]:
  "envelope_checked e c = Ok u \<longleftrightarrow> validate_compatibility_envelope c = Ok ()"
  by (simp add: envelope_checked_def)

lemma default_validate_state_Ok:
  "default_validate_state d st c = Ok u \<longleftrightarrow>
     instance_id st = rd_instance_id d \<and> ce_backend c = rd_backend d
     \<and> ce_backend_version c = rd_backend_version d
     \<and> ce_runtime_adapter_version c = rd_adapter_version d
     \<and> ce_accelerator_family c = rd_accelerator_family d"
  by (auto simp: default_validate_state_def state_mismatches_def Let_def)

text \<open>
  What an accepted expert capability means: the descriptor is valid and declares the
  capability in a status that permits the operation.
\<close>

definition expert_permitted :: "runtime_descriptor \<Rightarrow> bool \<Rightarrow> bool \<Rightarrow> bool" where
  "expert_permitted d allow_experimental require_control \<longleftrightarrow>
     (\<exists>c \<in> set (rd_capabilities d). ca_id c = EXPERTS_CAPABILITY \<and>
       (ca_status c = Supported \<or> (ca_status c = Experimental \<and> allow_experimental)
        \<or> (ca_status c = ExternallyManaged \<and> \<not> require_control)))"

lemma require_expert_capability_Ok:
  assumes "require_expert_capability d x k = Ok ()"
  shows "validate_runtime_descriptor d = Ok () \<and> expert_permitted d x k"
proof -
  from assms obtain c where d: "validate_runtime_descriptor d = Ok ()"
    and c: "find (\<lambda>c. ca_id c = EXPERTS_CAPABILITY) (rd_capabilities d) = Some c"
    and s: "ca_status c = Supported \<or> (ca_status c = Experimental \<and> x) \<or> (ca_status c = ExternallyManaged \<and> \<not> k)"
    by (auto simp: require_expert_capability_def res_bind_Ok split: option.splits capability_status.splits if_splits)
  from c have "c \<in> set (rd_capabilities d)" "ca_id c = EXPERTS_CAPABILITY"
    by (auto simp: find_Some_iff)
  with d s show ?thesis by (auto simp: expert_permitted_def)
qed

end
