(* ===== verification/State_Lease.thy ===== *)
theory State_Lease
  imports Runtime_Backend
begin

text \<open>
  The lease on a backend state (\<open>BackendStateLease\<close> in
  \<open>src/src/runtime_control/backend.rs\<close>): a shared reference whose last owner releases the
  state at the backend and runs the accounting hook, and the two ways to release early and
  take the hook over. The event of a step carries what the backend answers to \<open>release\<close>. The
  ghost fields count successful releases and list how the hook was spent: run by the drop, or
  handed to the caller after a successful release.
\<close>

section \<open>The lease\<close>

record 'h lease =
  ls_adapter :: nat
  ls_state :: backend_state
  ls_on_release :: "'h option"
  ls_released :: bool
  ls_strong :: nat

definition lease_new :: "nat \<Rightarrow> backend_state \<Rightarrow> 'h lease" where
  "lease_new a st = \<lparr>ls_adapter = a, ls_state = st, ls_on_release = None, ls_released = False, ls_strong = 1\<rparr>"

definition lease_with_hook :: "nat \<Rightarrow> backend_state \<Rightarrow> 'h \<Rightarrow> 'h lease" where
  "lease_with_hook a st h = \<lparr>ls_adapter = a, ls_state = st, ls_on_release = Some h, ls_released = False, ls_strong = 1\<rparr>"

definition has_release_hook :: "'h lease \<Rightarrow> bool" where
  "has_release_hook l \<longleftrightarrow> ls_on_release l \<noteq> None"

record 'h lease_world =
  lw_lease :: "'h lease"
  lw_released :: nat
  lw_hooks :: "('h \<times> bool) list"

definition backend_released :: "bool \<Rightarrow> 'h lease_world \<Rightarrow> 'h lease_world" where
  "backend_released b w = (if b then w\<lparr>lw_released := lw_released w + 1\<rparr> else w)"

text \<open>\<open>Drop\<close> of the inner value, when the last reference goes.\<close>

definition drop_inner :: "bool \<Rightarrow> 'h lease_world \<Rightarrow> 'h lease_world" where
  "drop_inner b w =
     (if ls_released (lw_lease w) then w
      else (let w = backend_released b w
            in case ls_on_release (lw_lease w) of
                 None \<Rightarrow> w
               | Some h \<Rightarrow> w\<lparr>lw_lease := (lw_lease w)\<lparr>ls_on_release := None\<rparr>,
                             lw_hooks := lw_hooks w @ [(h, b)]\<rparr>))"

definition lease_clone :: "'h lease_world \<Rightarrow> 'h lease_world" where
  "lease_clone w = w\<lparr>lw_lease := (lw_lease w)\<lparr>ls_strong := ls_strong (lw_lease w) + 1\<rparr>\<rparr>"

definition lease_drop :: "bool \<Rightarrow> 'h lease_world \<Rightarrow> 'h lease_world" where
  "lease_drop b w =
     (let n = ls_strong (lw_lease w) - 1; w = w\<lparr>lw_lease := (lw_lease w)\<lparr>ls_strong := n\<rparr>\<rparr>
      in if n = 0 then drop_inner b w else w)"

definition take_hook :: "'h lease_world \<Rightarrow> (protocol_error, 'h option) res \<times> 'h lease_world" where
  "take_hook w =
     (case ls_on_release (lw_lease w) of
        None \<Rightarrow> (Ok None, w)
      | Some h \<Rightarrow> (Ok (Some h), w\<lparr>lw_lease := (lw_lease w)\<lparr>ls_on_release := None\<rparr>,
                                  lw_hooks := lw_hooks w @ [(h, True)]\<rparr>))"

definition mark_released :: "'h lease_world \<Rightarrow> 'h lease_world" where
  "mark_released w = (let w = backend_released True w in w\<lparr>lw_lease := (lw_lease w)\<lparr>ls_released := True\<rparr>\<rparr>)"

definition release_backend_and_take_hook ::
  "(protocol_error, unit) res \<Rightarrow> 'h lease_world \<Rightarrow> (protocol_error, 'h option) res \<times> 'h lease_world"
where
  "release_backend_and_take_hook answer w =
     (if ls_strong (lw_lease w) \<noteq> 1
      then (Err (perr Internal (lit ''backend state still has live leases and cannot be released'')), w)
      else if ls_released (lw_lease w) then take_hook w
      else (case answer of
          Err e \<Rightarrow> (Err e, w)
        | Panic \<Rightarrow> (Panic, w)
        | Ok _ \<Rightarrow> take_hook (mark_released w)))"

definition release_backend_and_take_required_hook ::
  "(protocol_error, unit) res \<Rightarrow> 'h lease_world \<Rightarrow> (protocol_error, 'h) res \<times> 'h lease_world"
where
  "release_backend_and_take_required_hook answer w =
     (if ls_strong (lw_lease w) \<noteq> 1
      then (Err (perr Conflict (lit ''backend state still has live handoffs and cannot be released'')), w)
      else if ls_released (lw_lease w) \<or> ls_on_release (lw_lease w) = None
      then (Err (perr Internal (lit ''backend state does not have a releasable accounting lease'')), w)
      else (case answer of
          Err e \<Rightarrow> (Err e, w)
        | Panic \<Rightarrow> (Panic, w)
        | Ok _ \<Rightarrow>
            (case take_hook (mark_released w) of
               (Ok (Some h), w) \<Rightarrow> (Ok h, w)
             | (_, w) \<Rightarrow> (Panic, w))))"

section \<open>Runs\<close>

datatype lease_event =
    CloneLease
  | DropLease bool
  | ReleaseEarly "(protocol_error, unit) res"
  | ReleaseRequired "(protocol_error, unit) res"

text \<open>Nothing refers to a lease whose count is zero, so no operation reaches it.\<close>

definition lease_step :: "'h lease_world \<Rightarrow> lease_event \<Rightarrow> 'h lease_world" where
  "lease_step w e =
     (if ls_strong (lw_lease w) = 0 then w
      else (case e of
          CloneLease \<Rightarrow> lease_clone w
        | DropLease b \<Rightarrow> lease_drop b w
        | ReleaseEarly answer \<Rightarrow> snd (release_backend_and_take_hook answer w)
        | ReleaseRequired answer \<Rightarrow> snd (release_backend_and_take_required_hook answer w)))"

definition leased :: "'h lease \<Rightarrow> 'h lease_world" where
  "leased l = \<lparr>lw_lease = l, lw_released = 0, lw_hooks = []\<rparr>"

definition lease_inv :: "'h \<Rightarrow> 'h lease_world \<Rightarrow> bool" where
  "lease_inv h w \<longleftrightarrow>
     lw_released w \<le> 1 \<and>
     (case ls_on_release (lw_lease w) of
        Some h' \<Rightarrow> h' = h \<and> lw_hooks w = [] \<and> lw_released w = 0
          \<and> \<not> ls_released (lw_lease w) \<and> ls_strong (lw_lease w) > 0
      | None \<Rightarrow> lw_hooks w = [(h, lw_released w = 1)]
          \<and> (ls_strong (lw_lease w) > 0 \<longrightarrow> ls_released (lw_lease w) \<and> lw_released w = 1))"

lemmas lease_defs = lease_step_def lease_clone_def lease_drop_def drop_inner_def take_hook_def
  mark_released_def backend_released_def release_backend_and_take_hook_def
  release_backend_and_take_required_hook_def Let_def

lemma lease_step_inv: "lease_inv h w \<Longrightarrow> lease_inv h (lease_step w e)"
  by (cases e) (auto simp: lease_inv_def lease_defs split: option.splits res.splits if_splits)

interpretation leases: state_machine "leased (lease_with_hook a st h)" lease_step "lease_inv h"
  for a st h
  by unfold_locales
    (simp_all add: lease_step_inv, simp add: lease_inv_def leased_def lease_with_hook_def)

lemma take_required_no_panic:
  "fst (release_backend_and_take_required_hook answer w) = Panic \<Longrightarrow> answer = Panic"
  by (auto simp: release_backend_and_take_required_hook_def mark_released_def take_hook_def
      backend_released_def Let_def split: if_splits res.splits option.splits)

section \<open>Properties\<close>

text \<open>
  C19. Whatever is cloned, dropped and released early, in any order and with any answers of the
  backend, the state of a lease is released successfully at most once and its hook is spent at
  most once. Once no reference is left the hook has been spent exactly once, and it was told
  whether the backend released the state; taking the required hook never panics by itself.
\<close>

theorem lease_accounted_once:
  "lw_released (run lease_step (leased (lease_with_hook a st h)) es) \<le> 1 \<and>
   length (lw_hooks (run lease_step (leased (lease_with_hook a st h)) es)) \<le> 1 \<and>
   (ls_strong (lw_lease (run lease_step (leased (lease_with_hook a st h)) es)) = 0 \<longrightarrow>
     lw_hooks (run lease_step (leased (lease_with_hook a st h)) es) =
       [(h, lw_released (run lease_step (leased (lease_with_hook a st h)) es) = 1)]) \<and>
   (fst (release_backend_and_take_required_hook answer
      (run lease_step (leased (lease_with_hook a st h)) es)) = Panic \<longrightarrow> answer = Panic)"
proof -
  let ?w = "run lease_step (leased (lease_with_hook a st h)) es"
  have "lease_inv h ?w" by (rule leases.run_inv)
  then show ?thesis
    using take_required_no_panic [of answer ?w]
    by (auto simp: lease_inv_def split: option.splits)
qed

theorem lease_accounted_once_witness:
  "lw_hooks (run lease_step (leased (lease_with_hook 7 (OpaqueBytes [1] RamTier [9]) (5 :: nat)))
     [CloneLease, DropLease True, ReleaseRequired (Ok ()), DropLease True]) = [(5, True)]"
  using lease_accounted_once [of 7 "OpaqueBytes [1] RamTier [9]" "5 :: nat"
      "[CloneLease, DropLease True, ReleaseRequired (Ok ()), DropLease True]" "Ok ()"]
  by (simp add: lease_defs leased_def lease_with_hook_def)

end
