(* ===== verification/Runtime_Routing.thy ===== *)
theory Runtime_Routing
  imports State_Lease "HOL-Library.Multiset"
begin

text \<open>
  The runtime router (\<open>src/src/runtime_control/routing.rs\<close>): bounded tables that map models,
  compatibility envelopes and backend processes to adapters, the two-phase registration of
  states, and the operations that go through them. An adapter is an address (the identity of
  its \<open>Arc\<close>); \<open>heap\<close> gives the object at an address. Each function on a \<open>route_cache\<close> is one
  critical section of the routing lock, or a composition of such sections; a poisoned lock is
  not modelled. The choice of a backend, the digest of a manifest and its JSON text are
  arguments. Queues are lists, front first.
\<close>

section \<open>State\<close>

definition MAX_MODEL_ROUTES :: nat where "MAX_MODEL_ROUTES = 64"
definition MAX_COMPATIBILITY_ROUTES :: nat where "MAX_COMPATIBILITY_ROUTES = 1024"
definition MAX_INSTANCE_ROUTES :: nat where "MAX_INSTANCE_ROUTES = 1024"

record model_route =
  mt_model_id :: rstr
  mt_manifest_fingerprint :: "nat list"
  mt_has_images :: bool
  mt_adapter :: nat

record compatibility_route =
  cr_key :: compatibility_envelope
  cr_model_id :: rstr
  cr_adapter :: nat

record instance_route =
  ir_instance_id :: rstr
  ir_adapter :: nat
  ir_live_states :: nat

record route_cache =
  rc_active :: nat
  rc_models :: "model_route list"
  rc_compatibility :: "compatibility_route list"
  rc_instances :: "instance_route list"
  rc_pending :: nat

datatype reservation_kind = ExistingRoute rstr nat | NewRoute

definition router_new :: "nat \<Rightarrow> route_cache" where
  "router_new initial = \<lparr>rc_active = initial, rc_models = [], rc_compatibility = [],
     rc_instances = [], rc_pending = 0\<rparr>"

section \<open>Queues\<close>

fun first_index :: "('a \<Rightarrow> bool) \<Rightarrow> 'a list \<Rightarrow> nat option" where
  "first_index P [] = None"
| "first_index P (x # xs) = (if P x then Some 0 else map_option Suc (first_index P xs))"

definition last_index :: "('a \<Rightarrow> bool) \<Rightarrow> 'a list \<Rightarrow> nat option" where
  "last_index P xs = map_option (\<lambda>n. length xs - 1 - n) (first_index P (rev xs))"

definition remove_at :: "nat \<Rightarrow> 'a list \<Rightarrow> 'a list" where
  "remove_at n xs = take n xs @ drop (Suc n) xs"

text \<open>\<open>remove\<close> followed by \<open>push_back\<close>: the entry becomes the most recent one.\<close>

definition move_back :: "nat \<Rightarrow> 'a list \<Rightarrow> 'a list" where
  "move_back n xs = remove_at n xs @ [xs ! n]"

definition push_bounded :: "'a \<Rightarrow> nat \<Rightarrow> 'a list \<Rightarrow> 'a list" where
  "push_bounded v maximum xs = (if length xs = maximum then tl xs else xs) @ [v]"

definition incompatible_route :: protocol_error where
  "incompatible_route = perr IncompatibleState
     (lit ''no resolved runtime adapter owns this opaque state'')"

section \<open>Model routes\<close>

definition manifest_fingerprint ::
  "(nat list \<Rightarrow> nat list) \<Rightarrow> ('m runtime_manifest \<Rightarrow> nat list option) \<Rightarrow> 'm runtime_manifest \<Rightarrow>
     (protocol_error, nat list) res"
where
  "manifest_fingerprint sha json m = (case json m of
     None \<Rightarrow> Err (perr Internal
       (lit ''runtime-control model routing could not identify the requested manifest''))
   | Some bytes \<Rightarrow> Ok (sha bytes))"

definition model_route_matches :: "nat list \<Rightarrow> bool \<Rightarrow> model_route \<Rightarrow> bool" where
  "model_route_matches fp images r \<longleftrightarrow> mt_manifest_fingerprint r = fp \<and> mt_has_images r = images"

definition cached_model_adapter :: "nat list \<Rightarrow> bool \<Rightarrow> route_cache \<Rightarrow> nat option \<times> route_cache" where
  "cached_model_adapter fp images rc =
     (case first_index (model_route_matches fp images) (rc_models rc) of
        None \<Rightarrow> (None, rc)
      | Some n \<Rightarrow> (Some (mt_adapter (rc_models rc ! n)),
                   rc\<lparr>rc_models := move_back n (rc_models rc)\<rparr>))"

text \<open>The section after the selection: a route that appeared meanwhile wins.\<close>

definition keep_selected :: "rstr \<Rightarrow> nat list \<Rightarrow> bool \<Rightarrow> nat \<Rightarrow> route_cache \<Rightarrow> nat \<times> route_cache" where
  "keep_selected i fp images selected rc =
     (case first_index (model_route_matches fp images) (rc_models rc) of
        Some n \<Rightarrow> (mt_adapter (rc_models rc ! n), rc\<lparr>rc_models := move_back n (rc_models rc)\<rparr>)
      | None \<Rightarrow> (selected, rc\<lparr>rc_models := push_bounded
          \<lparr>mt_model_id = i, mt_manifest_fingerprint = fp, mt_has_images = images, mt_adapter = selected\<rparr>
          MAX_MODEL_ROUTES (rc_models rc)\<rparr>))"

text \<open>
  \<open>select\<close> is the choice of the backend router: the address it answers, \<open>None\<close> for its error.
  It runs without the lock, so it may leave other tables behind as well as another world.
\<close>

definition resolve_model_route ::
  "('m runtime_manifest \<Rightarrow> (protocol_error, nat list) res) \<Rightarrow>
     (route_cache \<Rightarrow> 'w \<Rightarrow> nat option \<times> route_cache \<times> 'w) \<Rightarrow> 'm runtime_manifest \<Rightarrow> bool \<Rightarrow>
     route_cache \<Rightarrow> 'w \<Rightarrow> (protocol_error, nat) res \<times> route_cache \<times> 'w"
where
  "resolve_model_route fingerprint select m images rc w =
     (case fingerprint m of
        Err e \<Rightarrow> (Err e, rc, w)
      | Panic \<Rightarrow> (Panic, rc, w)
      | Ok fp \<Rightarrow>
          (case cached_model_adapter fp images rc of
             (Some a, rc) \<Rightarrow> (Ok a, rc, w)
           | (None, rc) \<Rightarrow>
               (case select rc w of
                  (None, rc, w) \<Rightarrow> (Err (perr UnavailableCode
                    (lit ''runtime-control backend selection failed for the requested model'')), rc, w)
                | (Some s, rc, w) \<Rightarrow> (case keep_selected (rm_id m) fp images s rc of
                    (a, rc) \<Rightarrow> (Ok a, rc, w)))))"

definition known_model_adapter :: "rstr \<Rightarrow> route_cache \<Rightarrow> (protocol_error, nat) res \<times> route_cache" where
  "known_model_adapter i rc =
     (case last_index (\<lambda>r. mt_model_id r = i \<and> \<not> mt_has_images r) (rc_models rc) of
        None \<Rightarrow> (Err (retryable True (perr UnavailableCode
          (lit ''no runtime adapter has been resolved for the requested model''))), rc)
      | Some n \<Rightarrow> (Ok (mt_adapter (rc_models rc ! n)), rc\<lparr>rc_models := move_back n (rc_models rc)\<rparr>))"

definition record_model_adapter ::
  "('m runtime_manifest \<Rightarrow> (protocol_error, nat list) res) \<Rightarrow> 'm runtime_manifest \<Rightarrow> bool \<Rightarrow> nat \<Rightarrow>
     route_cache \<Rightarrow> (protocol_error, unit) res \<times> route_cache"
where
  "record_model_adapter fingerprint m images a rc =
     (case fingerprint m of
        Err e \<Rightarrow> (Err e, rc)
      | Panic \<Rightarrow> (Panic, rc)
      | Ok fp \<Rightarrow> (Ok (), rc\<lparr>
          rc_models := push_bounded
            \<lparr>mt_model_id = rm_id m, mt_manifest_fingerprint = fp, mt_has_images = images, mt_adapter = a\<rparr>
            MAX_MODEL_ROUTES
            (filter (\<lambda>r. mt_manifest_fingerprint r \<noteq> fp \<or> mt_has_images r \<noteq> images) (rc_models rc)),
          rc_active := a\<rparr>))"

section \<open>Compatibility routes\<close>

definition record_compatibility ::
  "rstr \<Rightarrow> compatibility_envelope \<Rightarrow> nat \<Rightarrow> route_cache \<Rightarrow> route_cache" where
  "record_compatibility i key a rc = rc\<lparr>
     rc_compatibility := push_bounded \<lparr>cr_key = key, cr_model_id = i, cr_adapter = a\<rparr>
       MAX_COMPATIBILITY_ROUTES
       (filter (\<lambda>r. cr_key r \<noteq> key \<or> cr_model_id r \<noteq> i) (rc_compatibility rc)),
     rc_active := a\<rparr>"

definition touch_compatibility :: "nat \<Rightarrow> route_cache \<Rightarrow> route_cache" where
  "touch_compatibility n rc = rc\<lparr>rc_compatibility := move_back n (rc_compatibility rc)\<rparr>"

definition lookup_compatibility ::
  "compatibility_envelope \<Rightarrow> route_cache \<Rightarrow> (protocol_error, rstr \<times> nat) res \<times> route_cache" where
  "lookup_compatibility key rc =
     (case last_index (\<lambda>r. cr_key r = key) (rc_compatibility rc) of
        None \<Rightarrow> (Err incompatible_route, rc)
      | Some n \<Rightarrow> (Ok (cr_model_id (rc_compatibility rc ! n), cr_adapter (rc_compatibility rc ! n)),
                   touch_compatibility n rc))"

definition compatibility_route_for_model ::
  "rstr \<Rightarrow> compatibility_envelope \<Rightarrow> route_cache \<Rightarrow> (protocol_error, nat) res \<times> route_cache" where
  "compatibility_route_for_model i key rc =
     (case last_index (\<lambda>r. cr_key r = key \<and> cr_model_id r = i) (rc_compatibility rc) of
        None \<Rightarrow> (Err incompatible_route, rc)
      | Some n \<Rightarrow> (Ok (cr_adapter (rc_compatibility rc ! n)), touch_compatibility n rc))"

definition adapter_for_compatibility ::
  "compatibility_envelope \<Rightarrow> route_cache \<Rightarrow> (protocol_error, nat) res \<times> route_cache" where
  "adapter_for_compatibility key rc =
     (case lookup_compatibility key rc of (r, rc) \<Rightarrow> (res_bind r (\<lambda>(_, a). Ok a), rc))"

section \<open>Process routes\<close>

definition identity_not_unique :: protocol_error where
  "identity_not_unique = perr Internal
     (lit ''backend process identity is not unique across runtime adapters'')"

definition ownership_exhausted :: protocol_error where
  "ownership_exhausted = perr ResourceExhausted
     (lit ''runtime state ownership count is exhausted'')"

definition route_capacity_exhausted :: protocol_error where
  "route_capacity_exhausted = perr ResourceExhausted
     (lit ''runtime state process-route capacity is exhausted'')"

definition record_instance_locked ::
  "rstr \<Rightarrow> nat \<Rightarrow> route_cache \<Rightarrow> (protocol_error, unit) res \<times> route_cache" where
  "record_instance_locked i a rc =
     (case first_index (\<lambda>r. ir_instance_id r = i) (rc_instances rc) of
        Some n \<Rightarrow>
          (let existing = rc_instances rc ! n
           in if ir_adapter existing \<noteq> a then (Err identity_not_unique, rc)
              else (case checked_add (ir_live_states existing) 1 of
                  None \<Rightarrow> (Err ownership_exhausted, rc)
                | Some live \<Rightarrow> (Ok (), rc\<lparr>rc_instances :=
                    remove_at n (rc_instances rc) @ [existing\<lparr>ir_live_states := live\<rparr>]\<rparr>)))
      | None \<Rightarrow>
          if length (rc_instances rc) = MAX_INSTANCE_ROUTES then (Err route_capacity_exhausted, rc)
          else (Ok (), rc\<lparr>rc_instances := rc_instances rc
            @ [\<lparr>ir_instance_id = i, ir_adapter = a, ir_live_states = 1\<rparr>]\<rparr>))"

definition release_instance_locked ::
  "rstr \<Rightarrow> nat \<Rightarrow> route_cache \<Rightarrow> (protocol_error, unit) res \<times> route_cache" where
  "release_instance_locked i a rc =
     (case first_index (\<lambda>r. ir_instance_id r = i) (rc_instances rc) of
        None \<Rightarrow> (Err incompatible_route, rc)
      | Some n \<Rightarrow>
          (let r = rc_instances rc ! n
           in if ir_adapter r \<noteq> a \<or> ir_live_states r = 0 then (Err incompatible_route, rc)
              else (Ok (), rc\<lparr>rc_instances :=
                if ir_live_states r - 1 = 0 then remove_at n (rc_instances rc)
                else (rc_instances rc)[n := r\<lparr>ir_live_states := ir_live_states r - 1\<rparr>]\<rparr>)))"

definition adapter_for_state ::
  "backend_state \<Rightarrow> route_cache \<Rightarrow> (protocol_error, nat) res \<times> route_cache" where
  "adapter_for_state st rc =
     (case last_index (\<lambda>r. ir_instance_id r = instance_id st) (rc_instances rc) of
        None \<Rightarrow> (Err incompatible_route, rc)
      | Some n \<Rightarrow> (Ok (ir_adapter (rc_instances rc ! n)),
                   rc\<lparr>rc_instances := move_back n (rc_instances rc)\<rparr>))"

definition reserve_state_route ::
  "nat \<Rightarrow> runtime_descriptor \<Rightarrow> route_cache \<Rightarrow> (protocol_error, reservation_kind) res \<times> route_cache" where
  "reserve_state_route a d rc =
     (case validate_runtime_descriptor d of
        Err e \<Rightarrow> (Err e, rc)
      | Panic \<Rightarrow> (Panic, rc)
      | Ok _ \<Rightarrow>
          (case first_index (\<lambda>r. ir_instance_id r = rd_instance_id d) (rc_instances rc) of
             Some n \<Rightarrow>
               (let r = rc_instances rc ! n
                in if ir_adapter r \<noteq> a then (Err identity_not_unique, rc)
                   else (case checked_add (ir_live_states r) 1 of
                       None \<Rightarrow> (Err ownership_exhausted, rc)
                     | Some live \<Rightarrow> (Ok (ExistingRoute (rd_instance_id d) a),
                         rc\<lparr>rc_instances := (rc_instances rc)[n := r\<lparr>ir_live_states := live\<rparr>]\<rparr>)))
           | None \<Rightarrow>
               if sat_add (length (rc_instances rc)) (rc_pending rc) \<ge> MAX_INSTANCE_ROUTES
               then (Err route_capacity_exhausted, rc)
               else (Ok NewRoute, rc\<lparr>rc_pending := sat_add (rc_pending rc) 1\<rparr>)))"

definition drop_reservation_route :: "reservation_kind \<Rightarrow> route_cache \<Rightarrow> route_cache" where
  "drop_reservation_route k rc = (case k of
     ExistingRoute i a \<Rightarrow> snd (release_instance_locked i a rc)
   | NewRoute \<Rightarrow> rc\<lparr>rc_pending := rc_pending rc - 1\<rparr>)"

text \<open>
  When the release inside \<open>commit\<close> fails, the reservation is still active and its \<open>Drop\<close> runs.
\<close>

definition reservation_commit ::
  "reservation_kind \<Rightarrow> backend_state \<Rightarrow> nat \<Rightarrow> route_cache \<Rightarrow> (protocol_error, unit) res \<times> route_cache" where
  "reservation_commit k st a rc = (case k of
     ExistingRoute i ra \<Rightarrow>
       if instance_id st = i \<and> ra = a then (Ok (), rc)
       else (case release_instance_locked i ra rc of
           (Ok _, rc) \<Rightarrow> record_instance_locked (instance_id st) a rc
         | (Err e, rc) \<Rightarrow> (Err e, drop_reservation_route k rc)
         | (Panic, rc) \<Rightarrow> (Panic, rc))
   | NewRoute \<Rightarrow> record_instance_locked (instance_id st) a (rc\<lparr>rc_pending := rc_pending rc - 1\<rparr>))"

text \<open>\<open>release\<close> is what the adapter does with a state that could not be recorded.\<close>

definition commit_state_route ::
  "reservation_kind \<Rightarrow> backend_state \<Rightarrow> nat \<Rightarrow> (backend_state \<Rightarrow> 'w \<Rightarrow> (protocol_error, unit) res \<times> 'w) \<Rightarrow>
     route_cache \<Rightarrow> 'w \<Rightarrow> (protocol_error, unit) res \<times> route_cache \<times> 'w"
where
  "commit_state_route k st a release rc w =
     (case reservation_commit k st a rc of
        (Err e, rc) \<Rightarrow>
          (case release st w of
             (Ok _, w) \<Rightarrow> (Err e, rc, w)
           | (Err _, w) \<Rightarrow> (Err (with_backend_cleanup_unconfirmed (natural_tier st) (bs_bytes st)
               (perr Internal
                 (lit ''backend state ownership could not be recorded and cleanup could not be confirmed''))), rc, w)
           | (Panic, w) \<Rightarrow> (Panic, rc, w))
      | (r, rc) \<Rightarrow> (r, rc, w))"

definition release_state_route ::
  "backend_state \<Rightarrow> nat \<Rightarrow> route_cache \<Rightarrow> (protocol_error, unit) res \<times> route_cache" where
  "release_state_route st a rc = release_instance_locked (instance_id st) a rc"

section \<open>Operations through the tables\<close>

text \<open>
  \<open>re_select\<close> is \<open>runtime_control_adapter_for\<close> and \<open>re_select_request\<close> is
  \<open>runtime_control_adapter_for_request\<close> of the backend router.
\<close>

record ('m, 'w) routing_env =
  re_heap :: "nat \<Rightarrow> ('m, 'w) adapter"
  re_fingerprint :: "'m runtime_manifest \<Rightarrow> (protocol_error, nat list) res"
  re_select :: "'m runtime_manifest \<Rightarrow> route_cache \<Rightarrow> 'w \<Rightarrow> nat option \<times> route_cache \<times> 'w"
  re_select_request :: "'m runtime_manifest \<Rightarrow> bool \<Rightarrow> route_cache \<Rightarrow> 'w \<Rightarrow> nat option \<times> route_cache \<times> 'w"

type_synonym ('r, 'w) routed = "(protocol_error, 'r) res \<times> route_cache \<times> 'w"

fun routed_bind :: "('a, 'w) routed \<Rightarrow> ('a \<Rightarrow> route_cache \<Rightarrow> 'w \<Rightarrow> ('b, 'w) routed) \<Rightarrow> ('b, 'w) routed" where
  "routed_bind (Ok a, rc, w) f = f a rc w"
| "routed_bind (Err e, rc, w) f = (Err e, rc, w)"
| "routed_bind (Panic, rc, w) f = (Panic, rc, w)"

text \<open>A step on the tables, a step that only reads, a call of an adapter.\<close>

definition on_tables :: "(protocol_error, 'a) res \<times> route_cache \<Rightarrow> 'w \<Rightarrow> ('a, 'w) routed" where
  "on_tables p w = (fst p, snd p, w)"

definition check_only :: "(protocol_error, 'a) res \<Rightarrow> route_cache \<Rightarrow> 'w \<Rightarrow> ('a, 'w) routed" where
  "check_only r rc w = (r, rc, w)"

definition on_adapter :: "(protocol_error, 'a) res \<times> 'w \<Rightarrow> route_cache \<Rightarrow> ('a, 'w) routed" where
  "on_adapter p rc = (fst p, rc, snd p)"

definition adapter_for_model ::
  "('m, 'w) routing_env \<Rightarrow> 'm runtime_manifest \<Rightarrow> route_cache \<Rightarrow> 'w \<Rightarrow> (nat, 'w) routed" where
  "adapter_for_model env m rc w = resolve_model_route (re_fingerprint env) (re_select env m) m False rc w"

definition adapter_for_request ::
  "('m, 'w) routing_env \<Rightarrow> 'm runtime_manifest \<Rightarrow> bool \<Rightarrow> route_cache \<Rightarrow> 'w \<Rightarrow> (nat, 'w) routed" where
  "adapter_for_request env m images rc w =
     (if \<not> images then adapter_for_model env m rc w
      else resolve_model_route (re_fingerprint env) (re_select_request env m True) m True rc w)"

definition router_descriptor :: "('m, 'w) routing_env \<Rightarrow> route_cache \<Rightarrow> 'w \<Rightarrow> runtime_descriptor" where
  "router_descriptor env rc w = ad_descriptor (re_heap env (rc_active rc)) w"

definition checked_descriptor ::
  "('m, 'w) routing_env \<Rightarrow> nat \<Rightarrow> route_cache \<Rightarrow> 'w \<Rightarrow> (runtime_descriptor, 'w) routed" where
  "checked_descriptor env a rc w =
     (let d = ad_descriptor (re_heap env a) w
      in check_only (res_bind (validate_runtime_descriptor d) (\<lambda>_. Ok d)) rc w)"

definition descriptor_for_model ::
  "('m, 'w) routing_env \<Rightarrow> 'm runtime_manifest \<Rightarrow> route_cache \<Rightarrow> 'w \<Rightarrow> (runtime_descriptor, 'w) routed" where
  "descriptor_for_model env m rc w = routed_bind (adapter_for_model env m rc w) (checked_descriptor env)"

definition descriptor_for_compatibility ::
  "('m, 'w) routing_env \<Rightarrow> compatibility_envelope \<Rightarrow> route_cache \<Rightarrow> 'w \<Rightarrow> (runtime_descriptor, 'w) routed" where
  "descriptor_for_compatibility env c rc w =
     routed_bind (on_tables (adapter_for_compatibility c rc) w) (checked_descriptor env)"

definition descriptor_for_state ::
  "('m, 'w) routing_env \<Rightarrow> backend_state \<Rightarrow> route_cache \<Rightarrow> 'w \<Rightarrow> (runtime_descriptor, 'w) routed" where
  "descriptor_for_state env st rc w =
     routed_bind (on_tables (adapter_for_state st rc) w) (checked_descriptor env)"

definition invalid_returned :: protocol_error where
  "invalid_returned = perr Internal
     (lit ''backend returned an invalid or unbounded compatibility envelope'')"

definition invalid_inspected :: protocol_error where
  "invalid_inspected = perr Internal
     (lit ''backend inspected an invalid or unbounded compatibility envelope'')"

definition recorded_compatibility ::
  "rstr \<Rightarrow> compatibility_envelope \<Rightarrow> nat \<Rightarrow> 'a \<Rightarrow> route_cache \<Rightarrow> 'w \<Rightarrow> ('a, 'w) routed" where
  "recorded_compatibility i c a x rc w = (Ok x, record_compatibility i c a rc, w)"

definition routed_compatibility ::
  "('m, 'w) routing_env \<Rightarrow> 'm runtime_manifest \<Rightarrow> rstr \<Rightarrow> route_cache \<Rightarrow> 'w \<Rightarrow>
     (compatibility_envelope, 'w) routed" where
  "routed_compatibility env m prompt rc w =
     routed_bind (adapter_for_model env m rc w) (\<lambda>a rc w.
     routed_bind (on_adapter (ad_compatibility (re_heap env a) m prompt w) rc) (\<lambda>c rc w.
     routed_bind (check_only (envelope_checked invalid_returned c) rc w) (\<lambda>_ rc w.
       recorded_compatibility (rm_id m) c a c rc w)))"

definition routed_inspect_compatibility ::
  "('m, 'w) routing_env \<Rightarrow> 'm runtime_manifest \<Rightarrow> rstr \<Rightarrow> route_cache \<Rightarrow> 'w \<Rightarrow>
     (compatibility_envelope, 'w) routed" where
  "routed_inspect_compatibility env m prompt rc w =
     routed_bind (adapter_for_model env m rc w) (\<lambda>a rc w.
     routed_bind (check_only (ad_inspect_compatibility (re_heap env a) m prompt w) rc w) (\<lambda>c rc w.
     routed_bind (check_only (envelope_checked invalid_returned c) rc w) (\<lambda>_ rc w. (Ok c, rc, w))))"

text \<open>The recorded route, or the model route when there is none.\<close>

definition persisted_adapter ::
  "('m, 'w) routing_env \<Rightarrow> 'm runtime_manifest \<Rightarrow> compatibility_envelope \<Rightarrow> route_cache \<Rightarrow> 'w \<Rightarrow>
     (nat, 'w) routed" where
  "persisted_adapter env m expected rc w =
     (case compatibility_route_for_model (rm_id m) expected rc of
        (Ok a, rc) \<Rightarrow> (Ok a, rc, w)
      | (Panic, rc) \<Rightarrow> (Panic, rc, w)
      | (Err e, rc) \<Rightarrow>
          if pe_code e = IncompatibleState then adapter_for_model env m rc w else (Err e, rc, w))"

definition routed_resolve_persisted ::
  "('m, 'w) routing_env \<Rightarrow> 'm runtime_manifest \<Rightarrow> snapshot \<Rightarrow> compatibility_envelope \<Rightarrow> route_cache \<Rightarrow> 'w \<Rightarrow>
     (persisted_resolution, 'w) routed" where
  "routed_resolve_persisted env m sn expected rc w =
     routed_bind (persisted_adapter env m expected rc w) (\<lambda>a rc w.
     routed_bind (on_adapter (ad_resolve (re_heap env a) m sn expected w) rc) (\<lambda>r rc w.
     routed_bind (check_only (envelope_checked invalid_resolved (pr_compatibility r)) rc w) (\<lambda>_ rc w.
     routed_bind (check_only (validate_compatibility expected (pr_compatibility r)) rc w) (\<lambda>_ rc w.
       recorded_compatibility (rm_id m) expected a r rc w))))"

definition routed_prepare_persisted ::
  "('m, 'w) routing_env \<Rightarrow> 'm runtime_manifest \<Rightarrow> snapshot \<Rightarrow> compatibility_envelope \<Rightarrow> route_cache \<Rightarrow> 'w \<Rightarrow>
     (persisted_plan, 'w) routed" where
  "routed_prepare_persisted env m sn expected rc w =
     routed_bind (check_only (envelope_checked invalid_expected expected) rc w) (\<lambda>_ rc w.
     routed_bind (persisted_adapter env m expected rc w) (\<lambda>a rc w.
     routed_bind (on_adapter (prepare_plan (re_heap env a) (RoutedBinding a) m sn expected w) rc) (\<lambda>p rc w.
       recorded_compatibility (rm_id m) expected a p rc w)))"

definition routed_inspect_persisted ::
  "('m, 'w) routing_env \<Rightarrow> 'm runtime_manifest \<Rightarrow> snapshot \<Rightarrow> compatibility_envelope \<Rightarrow> route_cache \<Rightarrow> 'w \<Rightarrow>
     (persisted_resolution \<times> memory_requirement option, 'w) routed" where
  "routed_inspect_persisted env m sn expected rc w =
     routed_bind (adapter_for_model env m rc w) (\<lambda>a rc w.
     routed_bind (check_only (ad_inspect_persisted (re_heap env a) m sn expected w) rc w) (\<lambda>p rc w.
     routed_bind (check_only (envelope_checked invalid_inspected (pr_compatibility (fst p))) rc w) (\<lambda>_ rc w.
     routed_bind (check_only (validate_compatibility expected (pr_compatibility (fst p))) rc w) (\<lambda>_ rc w.
       (Ok p, rc, w)))))"

section \<open>Operations on states\<close>

text \<open>
  Reserve a route, call the adapter, register the state it returns: the shape of every
  operation that creates a state. An error of the adapter drops the reservation.
\<close>

definition with_state_route ::
  "('m, 'w) adapter \<Rightarrow> nat \<Rightarrow> ('w \<Rightarrow> (protocol_error, 'r) res \<times> 'w) \<Rightarrow> ('r \<Rightarrow> backend_state option) \<Rightarrow>
     route_cache \<Rightarrow> 'w \<Rightarrow> ('r, 'w) routed"
where
  "with_state_route ad a call state_of rc w =
     (case reserve_state_route a (ad_descriptor ad w) rc of
        (Err e, rc) \<Rightarrow> (Err e, rc, w)
      | (Panic, rc) \<Rightarrow> (Panic, rc, w)
      | (Ok k, rc) \<Rightarrow>
          (case call w of
             (Err e, w) \<Rightarrow> (Err e, drop_reservation_route k rc, w)
           | (Panic, w) \<Rightarrow> (Panic, drop_reservation_route k rc, w)
           | (Ok r, w) \<Rightarrow>
               (case state_of r of
                  None \<Rightarrow> (Ok r, drop_reservation_route k rc, w)
                | Some st \<Rightarrow>
                    (case commit_state_route k st a (ad_release ad) rc w of
                       (Ok _, rc, w) \<Rightarrow> (Ok r, rc, w)
                     | (Err e, rc, w) \<Rightarrow> (Err e, rc, w)
                     | (Panic, rc, w) \<Rightarrow> (Panic, rc, w)))))"

definition routed_validate_state ::
  "('m, 'w) routing_env \<Rightarrow> backend_state \<Rightarrow> compatibility_envelope \<Rightarrow> route_cache \<Rightarrow> 'w \<Rightarrow> (unit, 'w) routed" where
  "routed_validate_state env st c rc w =
     routed_bind (on_tables (adapter_for_state st rc) w) (\<lambda>a rc w.
       check_only (ad_validate_state (re_heap env a) st c w) rc w)"

definition routed_prefill_requirement ::
  "('m, 'w) routing_env \<Rightarrow> prefill_request \<Rightarrow> route_cache \<Rightarrow> 'w \<Rightarrow> (memory_requirement option, 'w) routed" where
  "routed_prefill_requirement env rq rc w =
     routed_bind (on_tables (compatibility_route_for_model (bp_model_id rq) (bp_compatibility rq) rc) w)
       (\<lambda>a rc w. check_only (ad_prefill_requirement (re_heap env a) rq w) rc w)"

definition routed_restore_requirement ::
  "('m, 'w) routing_env \<Rightarrow> snapshot \<Rightarrow> compatibility_envelope \<Rightarrow> route_cache \<Rightarrow> 'w \<Rightarrow>
     (memory_requirement option, 'w) routed" where
  "routed_restore_requirement env sn c rc w =
     routed_bind (on_tables (adapter_for_compatibility c rc) w)
       (\<lambda>a rc w. on_adapter (ad_restore_requirement (re_heap env a) sn c w) rc)"

definition routed_decode_requirement ::
  "('m, 'w) routing_env \<Rightarrow> decode_request \<Rightarrow> route_cache \<Rightarrow> 'w \<Rightarrow> (memory_requirement option, 'w) routed" where
  "routed_decode_requirement env rq rc w =
     routed_bind (on_tables (adapter_for_state (dq_state rq) rc) w)
       (\<lambda>a rc w. check_only (ad_decode_requirement (re_heap env a) rq w) rc w)"

definition routed_prefill ::
  "('m, 'w) routing_env \<Rightarrow> prefill_request \<Rightarrow> route_cache \<Rightarrow> 'w \<Rightarrow> (prefill_result, 'w) routed" where
  "routed_prefill env rq rc w =
     routed_bind (on_tables (compatibility_route_for_model (bp_model_id rq) (bp_compatibility rq) rc) w)
       (\<lambda>a. with_state_route (re_heap env a) a (ad_prefill (re_heap env a) rq) (\<lambda>r. Some (br_state r)))"

definition routed_decode ::
  "('m, 'w) routing_env \<Rightarrow> decode_request \<Rightarrow> route_cache \<Rightarrow> 'w \<Rightarrow> (decode_result, 'w) routed" where
  "routed_decode env rq rc w =
     routed_bind (on_tables (adapter_for_state (dq_state rq) rc) w) (\<lambda>a rc w.
     routed_bind (check_only (ad_validate_state (re_heap env a) (dq_state rq) (dq_compatibility rq) w) rc w)
       (\<lambda>_. with_state_route (re_heap env a) a (ad_decode (re_heap env a) rq) dr_state))"

definition routed_restore ::
  "('m, 'w) routing_env \<Rightarrow> snapshot \<Rightarrow> compatibility_envelope \<Rightarrow> route_cache \<Rightarrow> 'w \<Rightarrow> (backend_state, 'w) routed" where
  "routed_restore env sn c rc w =
     routed_bind (on_tables (adapter_for_compatibility c rc) w)
       (\<lambda>a. with_state_route (re_heap env a) a (ad_restore (re_heap env a) sn c) Some)"

definition routed_restore_prepared ::
  "('m, 'w) routing_env \<Rightarrow> persisted_plan \<Rightarrow> snapshot \<Rightarrow> compatibility_envelope \<Rightarrow> route_cache \<Rightarrow> 'w \<Rightarrow>
     (backend_state, 'w) routed" where
  "routed_restore_prepared env p sn expected rc w =
     routed_bind (check_only (validate_restore p sn expected) rc w) (\<lambda>_ rc w.
     routed_bind (check_only (routed_adapter p) rc w) (\<lambda>a rc w.
     routed_bind (check_only (plan_descriptor_current p (ad_descriptor (re_heap env a) w)) rc w)
       (\<lambda>_. with_state_route (re_heap env a) a (ad_restore (re_heap env a) sn expected) Some)))"

definition routed_snapshot ::
  "('m, 'w) routing_env \<Rightarrow> backend_state \<Rightarrow> route_cache \<Rightarrow> 'w \<Rightarrow> (backend_state, 'w) routed" where
  "routed_snapshot env st rc w =
     routed_bind (on_tables (adapter_for_state st rc) w)
       (\<lambda>a. with_state_route (re_heap env a) a (ad_snapshot (re_heap env a) st) Some)"

definition routed_inspect_snapshot_export ::
  "('m, 'w) routing_env \<Rightarrow> backend_state \<Rightarrow> compatibility_envelope \<Rightarrow> route_cache \<Rightarrow> 'w \<Rightarrow> (unit, 'w) routed" where
  "routed_inspect_snapshot_export env st c rc w =
     routed_bind (on_tables (adapter_for_state st rc) w) (\<lambda>a rc w.
       check_only (ad_inspect_snapshot_export (re_heap env a) st c w) rc w)"

definition routed_validate_snapshot ::
  "('m, 'w) routing_env \<Rightarrow> backend_state \<Rightarrow> compatibility_envelope \<Rightarrow> route_cache \<Rightarrow> 'w \<Rightarrow> (unit, 'w) routed" where
  "routed_validate_snapshot env st c rc w =
     routed_bind (on_tables (adapter_for_state st rc) w) (\<lambda>a rc w.
       check_only (ad_validate_snapshot (re_heap env a) st c w) rc w)"

definition routed_move_state ::
  "('m, 'w) routing_env \<Rightarrow> backend_state \<Rightarrow> state_tier \<Rightarrow> route_cache \<Rightarrow> 'w \<Rightarrow> (backend_state, 'w) routed" where
  "routed_move_state env st tier rc w =
     routed_bind (on_tables (adapter_for_state st rc) w)
       (\<lambda>a. with_state_route (re_heap env a) a (ad_move_state (re_heap env a) st tier) Some)"

definition routed_release ::
  "('m, 'w) routing_env \<Rightarrow> backend_state \<Rightarrow> route_cache \<Rightarrow> 'w \<Rightarrow> (unit, 'w) routed" where
  "routed_release env st rc w =
     routed_bind (on_tables (adapter_for_state st rc) w) (\<lambda>a rc w.
     routed_bind (on_adapter (ad_release (re_heap env a) st w) rc) (\<lambda>_ rc w.
       on_tables (release_state_route st a rc) w))"

section \<open>Expert operations\<close>

definition routed_list_experts ::
  "('m, 'w) routing_env \<Rightarrow> expert_filter \<Rightarrow> route_cache \<Rightarrow> 'w \<Rightarrow> (expert_list_response, 'w) routed" where
  "routed_list_experts env f rc w =
     routed_bind (case xf_model_id f of
         Some i \<Rightarrow> on_tables (known_model_adapter i rc) w
       | None \<Rightarrow> (Ok (rc_active rc), rc, w)) (\<lambda>a rc w.
     routed_bind (check_only (require_expert_capability (ad_descriptor (re_heap env a) w)
         (xf_allow_experimental f) False) rc w) (\<lambda>_ rc w.
       on_adapter (ad_list_experts (re_heap env a) f w) rc))"

definition routed_prepare_expert_list ::
  "('m, 'w) routing_env \<Rightarrow> 'm runtime_manifest option \<Rightarrow> expert_filter \<Rightarrow> route_cache \<Rightarrow> 'w \<Rightarrow>
     ('m expert_plan, 'w) routed" where
  "routed_prepare_expert_list env m f rc w =
     routed_bind (case m of
         Some x \<Rightarrow> adapter_for_model env x rc w
       | None \<Rightarrow> (Ok (rc_active rc), rc, w)) (\<lambda>a rc w.
       check_only (expert_plan_list m (ad_descriptor (re_heap env a) w) f (RoutedBinding a)) rc w)"

definition routed_list_experts_prepared ::
  "('m, 'w) routing_env \<Rightarrow> 'm expert_plan \<Rightarrow> route_cache \<Rightarrow> 'w \<Rightarrow> (expert_list_response, 'w) routed" where
  "routed_list_experts_prepared env p rc w =
     routed_bind (check_only (into_routed_list (\<lambda>a. ad_descriptor (re_heap env a) w) p) rc w)
       (\<lambda>(a, f) rc w. on_adapter (ad_list_experts (re_heap env a) f w) rc)"

definition routed_expert_action ::
  "('m, 'w) routing_env \<Rightarrow> expert_request \<Rightarrow> route_cache \<Rightarrow> 'w \<Rightarrow> (expert_action_response, 'w) routed" where
  "routed_expert_action env r rc w =
     routed_bind (on_tables (known_model_adapter (xq_model_id r) rc) w) (\<lambda>a rc w.
     routed_bind (check_only (require_expert_capability (ad_descriptor (re_heap env a) w)
         (xq_allow_experimental r) True) rc w) (\<lambda>_ rc w.
       on_adapter (ad_expert_action (re_heap env a) r w) rc))"

definition routed_prepare_expert_action ::
  "('m, 'w) routing_env \<Rightarrow> 'm runtime_manifest \<Rightarrow> expert_request \<Rightarrow> route_cache \<Rightarrow> 'w \<Rightarrow>
     ('m expert_plan, 'w) routed" where
  "routed_prepare_expert_action env m r rc w =
     routed_bind (adapter_for_model env m rc w) (\<lambda>a rc w.
       check_only (expert_plan_action m (ad_descriptor (re_heap env a) w) r (RoutedBinding a)) rc w)"

definition routed_expert_action_prepared ::
  "('m, 'w) routing_env \<Rightarrow> 'm expert_plan \<Rightarrow> route_cache \<Rightarrow> 'w \<Rightarrow> (expert_action_response, 'w) routed" where
  "routed_expert_action_prepared env p rc w =
     routed_bind (check_only (into_routed_action (\<lambda>a. ad_descriptor (re_heap env a) w) p) rc w)
       (\<lambda>(a, r) rc w. on_adapter (ad_expert_action (re_heap env a) r w) rc)"

section \<open>The generation side\<close>

text \<open>
  What \<open>generate\<close>, \<open>generate_stream\<close>, \<open>generate_api\<close> and \<open>prepare\<close> do to the tables after
  the backend answered: resolve the adapter again and record it, ignoring failures.
\<close>

definition record_selected ::
  "('m, 'w) routing_env \<Rightarrow> 'm runtime_manifest \<Rightarrow> bool \<Rightarrow> nat option \<times> route_cache \<times> 'w \<Rightarrow> route_cache \<times> 'w" where
  "record_selected env m images p = (case p of
     (Some a, rc, w) \<Rightarrow> (snd (record_model_adapter (re_fingerprint env) m images a rc), w)
   | (None, rc, w) \<Rightarrow> (rc, w))"

definition after_generate ::
  "('m, 'w) routing_env \<Rightarrow> 'm runtime_manifest \<Rightarrow> bool \<Rightarrow> bool \<Rightarrow> route_cache \<Rightarrow> 'w \<Rightarrow> route_cache \<times> 'w" where
  "after_generate env m images answered rc w =
     (if answered then record_selected env m images (re_select_request env m images rc w) else (rc, w))"

definition after_generate_api ::
  "('m, 'w) routing_env \<Rightarrow> 'm runtime_manifest \<Rightarrow> bool \<Rightarrow> route_cache \<Rightarrow> 'w \<Rightarrow> route_cache \<times> 'w" where
  "after_generate_api env m images rc w =
     record_selected env m images (re_select_request env m images rc w)"

definition after_prepare ::
  "('m, 'w) routing_env \<Rightarrow> 'm runtime_manifest \<Rightarrow> bool \<Rightarrow> route_cache \<Rightarrow> 'w \<Rightarrow> route_cache \<times> 'w" where
  "after_prepare env m prepared rc w =
     (if prepared then record_selected env m False (re_select env m rc w) else (rc, w))"

end
