(* ===== verification/Routing_Machine.thy ===== *)
theory Routing_Machine
  imports Runtime_Routing
begin

text \<open>
  The runtime router as a machine. An event is one critical section of the routing lock, so a
  run is any interleaving of the operations of many threads; between the reservation of a
  route and its commit, drop or failure anything may happen. Ghost fields hold the
  outstanding reservations, the states that are registered and not released, and how many
  commits found another process than the one their route was reserved for.
\<close>

section \<open>Queues\<close>

lemma first_index_split:
  assumes "first_index P xs = Some n"
  obtains ys x zs where "xs = ys @ x # zs" "n = length ys" "P x" "\<forall>y \<in> set ys. \<not> P y"
proof -
  from assms have "\<exists>ys x zs. xs = ys @ x # zs \<and> n = length ys \<and> P x \<and> (\<forall>y \<in> set ys. \<not> P y)"
  proof (induction xs arbitrary: n)
    case (Cons a xs)
    show ?case
    proof (cases "P a")
      case True
      with Cons.prems show ?thesis by (intro exI [of _ "[]"]) auto
    next
      case False
      with Cons.prems obtain m where "first_index P xs = Some m" "n = Suc m" by auto
      with Cons.IH [of m] obtain ys x zs where "xs = ys @ x # zs" "m = length ys" "P x" "\<forall>y \<in> set ys. \<not> P y"
        by blast
      with False \<open>n = Suc m\<close> show ?thesis by (intro exI [of _ "a # ys"]) auto
    qed
  qed simp
  with that show ?thesis by blast
qed

lemma first_index_None: "first_index P xs = None \<longleftrightarrow> (\<forall>x \<in> set xs. \<not> P x)"
  by (induction xs) auto

lemma last_index_None: "last_index P xs = None \<longleftrightarrow> (\<forall>x \<in> set xs. \<not> P x)"
  by (simp add: last_index_def first_index_None)

lemma last_index_split:
  assumes "last_index P xs = Some n"
  obtains ys x zs where "xs = ys @ x # zs" "n = length ys" "P x"
proof -
  from assms obtain m where m: "first_index P (rev xs) = Some m" "n = length xs - 1 - m"
    by (auto simp: last_index_def)
  from m(1) obtain ys x zs where s: "rev xs = ys @ x # zs" "m = length ys" "P x"
    by (rule first_index_split)
  from s(1) have x: "xs = rev zs @ x # rev ys" by (simp add: rev_swap [symmetric] rev_eq_append_conv)
  with that [of "rev zs" x "rev ys"] s(2,3) m(2) show ?thesis by simp
qed

lemma remove_at_split [simp]: "remove_at (length ys) (ys @ x # zs) = ys @ zs"
  by (simp add: remove_at_def)

lemma move_back_split [simp]: "move_back (length ys) (ys @ x # zs) = ys @ zs @ [x]"
  by (simp add: move_back_def)

lemma mset_move_back: "n < length xs \<Longrightarrow> mset (move_back n xs) = mset xs"
proof -
  assume n: "n < length xs"
  then have xs: "xs = take n xs @ xs ! n # drop (Suc n) xs" by (rule id_take_nth_drop)
  have "move_back n xs = take n xs @ drop (Suc n) xs @ [xs ! n]"
    by (simp add: move_back_def remove_at_def)
  then have "mset (move_back n xs) = mset (take n xs @ xs ! n # drop (Suc n) xs)" by simp
  with xs show ?thesis by simp
qed

lemma length_push_bounded: "length xs \<le> maximum \<Longrightarrow> 0 < maximum \<Longrightarrow> length (push_bounded v maximum xs) \<le> maximum"
  by (auto simp: push_bounded_def)

lemma set_push_bounded: "set (push_bounded v maximum xs) \<subseteq> insert v (set xs)"
  by (cases xs) (auto simp: push_bounded_def)

lemma distinct_push_bounded:
  "distinct (map f xs) \<Longrightarrow> f v \<notin> f ` set xs \<Longrightarrow> distinct (map f (push_bounded v maximum xs))"
  by (cases xs) (auto simp: push_bounded_def)

section \<open>Claims on processes\<close>

text \<open>A process route holds its adapter as often as its count says.\<close>

definition claims :: "instance_route list \<Rightarrow> (rstr \<times> nat) multiset" where
  "claims rs = (\<Sum>r \<leftarrow> rs. replicate_mset (ir_live_states r) (ir_instance_id r, ir_adapter r))"

definition instances_ok :: "instance_route list \<Rightarrow> bool" where
  "instances_ok rs \<longleftrightarrow> distinct (map ir_instance_id rs) \<and> (\<forall>r \<in> set rs. 0 < ir_live_states r)"

lemma claims_simps [simp]:
  "claims [] = {#}"
  "claims (r # rs) = replicate_mset (ir_live_states r) (ir_instance_id r, ir_adapter r) + claims rs"
  "claims (rs @ ss) = claims rs + claims ss"
  by (simp_all add: claims_def)

lemma in_claims: "(i, a) \<in># claims rs \<longleftrightarrow>
    (\<exists>r \<in> set rs. ir_instance_id r = i \<and> ir_adapter r = a \<and> 0 < ir_live_states r)"
  by (induction rs) (auto simp: in_replicate_mset)

lemma claims_unique:
  "instances_ok rs \<Longrightarrow> (i, a) \<in># claims rs \<Longrightarrow> (i, b) \<in># claims rs \<Longrightarrow> a = b"
  by (auto simp: in_claims instances_ok_def distinct_map inj_on_def)

lemma instances_ok_split:
  "instances_ok (ys @ r # zs) \<longleftrightarrow>
     instances_ok (ys @ zs) \<and> 0 < ir_live_states r \<and> ir_instance_id r \<notin> ir_instance_id ` set (ys @ zs)"
  by (auto simp: instances_ok_def)

lemma instances_ok_swap: "instances_ok (ys @ zs @ [r]) \<longleftrightarrow> instances_ok (ys @ r # zs)"
  by (auto simp: instances_ok_def)

text \<open>The effect of registering and releasing a state on the claims.\<close>

lemma record_instance_cases:
  assumes "record_instance_locked i a rc = (r, rc')" and ok: "instances_ok (rc_instances rc)"
  obtains (recorded) rs where "r = Ok ()" "rc' = rc\<lparr>rc_instances := rs\<rparr>" "instances_ok rs"
      "claims rs = add_mset (i, a) (claims (rc_instances rc))"
      "length rs = length (rc_instances rc)
         + (if i \<in> ir_instance_id ` set (rc_instances rc) then 0 else 1)"
      "i \<notin> ir_instance_id ` set (rc_instances rc) \<Longrightarrow> length (rc_instances rc) \<noteq> MAX_INSTANCE_ROUTES"
    | (refused) e where "r = Err e" "rc' = rc" "pe_code e = Internal \<or> pe_code e = ResourceExhausted"
proof (cases "first_index (\<lambda>r. ir_instance_id r = i) (rc_instances rc)")
  case None
  then have new: "i \<notin> ir_instance_id ` set (rc_instances rc)" by (auto simp: first_index_None)
  show ?thesis
  proof (cases "length (rc_instances rc) = MAX_INSTANCE_ROUTES")
    case True
    with None assms(1) have "r = Err route_capacity_exhausted" "rc' = rc"
      by (auto simp: record_instance_locked_def)
    with refused show ?thesis by (simp add: route_capacity_exhausted_def)
  next
    case False
    let ?rs = "rc_instances rc @ [\<lparr>ir_instance_id = i, ir_adapter = a, ir_live_states = 1\<rparr>]"
    have "r = Ok ()" "rc' = rc\<lparr>rc_instances := ?rs\<rparr>"
      using None False assms(1) by (auto simp: record_instance_locked_def)
    moreover have "instances_ok ?rs" using ok new by (auto simp: instances_ok_def)
    ultimately show ?thesis using new False by (intro recorded [of ?rs]) simp_all
  qed
next
  case (Some n)
  from Some obtain ys x zs where s: "rc_instances rc = ys @ x # zs" "n = length ys" "ir_instance_id x = i"
    by (rule first_index_split)
  have known: "i \<in> ir_instance_id ` set (rc_instances rc)" using s by force
  show ?thesis
  proof (cases "ir_adapter x = a \<and> ir_live_states x + 1 \<le> u64_max")
    case True
    let ?rs = "ys @ zs @ [x\<lparr>ir_live_states := ir_live_states x + 1\<rparr>]"
    have "r = Ok ()" "rc' = rc\<lparr>rc_instances := ?rs\<rparr>"
      using True Some s assms(1) by (auto simp: record_instance_locked_def Let_def checked_add_def)
    moreover have "instances_ok ?rs"
      using ok unfolding instances_ok_swap s(1) by (simp add: instances_ok_split)
    moreover have "claims ?rs = add_mset (i, a) (claims (rc_instances rc))"
      using True s by simp
    ultimately show ?thesis using known s by (intro recorded [of ?rs]) simp_all
  next
    case False
    then have "r = Err identity_not_unique \<or> r = Err ownership_exhausted" "rc' = rc"
      using Some s assms(1) by (auto simp: record_instance_locked_def Let_def checked_add_def split: if_splits)
    with refused show ?thesis by (auto simp: identity_not_unique_def ownership_exhausted_def)
  qed
qed

lemma release_instance_cases:
  assumes "release_instance_locked i a rc = (r, rc')" and ok: "instances_ok (rc_instances rc)"
  obtains (released) rs where "r = Ok ()" "rc' = rc\<lparr>rc_instances := rs\<rparr>" "instances_ok rs"
      "claims (rc_instances rc) = add_mset (i, a) (claims rs)" "length rs \<le> length (rc_instances rc)"
    | (unknown) "r = Err incompatible_route" "rc' = rc" "(i, a) \<notin># claims (rc_instances rc)"
proof (cases "first_index (\<lambda>r. ir_instance_id r = i) (rc_instances rc)")
  case None
  with assms(1) have "r = Err incompatible_route" "rc' = rc" by (auto simp: release_instance_locked_def)
  moreover from None have "(i, a) \<notin># claims (rc_instances rc)" by (auto simp: in_claims first_index_None)
  ultimately show ?thesis by (rule unknown)
next
  case (Some n)
  from Some obtain ys x zs where s: "rc_instances rc = ys @ x # zs" "n = length ys" "ir_instance_id x = i"
    by (rule first_index_split)
  have split: "instances_ok (ys @ zs)" "0 < ir_live_states x" "i \<notin> ir_instance_id ` set (ys @ zs)"
    using ok s by (simp_all add: instances_ok_split)
  show ?thesis
  proof (cases "ir_adapter x = a")
    case True
    let ?rs = "if ir_live_states x - 1 = 0 then ys @ zs else ys @ x\<lparr>ir_live_states := ir_live_states x - 1\<rparr> # zs"
    have "r = Ok ()" "rc' = rc\<lparr>rc_instances := ?rs\<rparr>"
      using True Some s split assms(1) by (auto simp: release_instance_locked_def Let_def)
    moreover have "instances_ok ?rs" using split s(3) by (auto simp: instances_ok_split)
    moreover from split(2) obtain m where m: "ir_live_states x = Suc m" by (cases "ir_live_states x") auto
    have "claims (rc_instances rc) = add_mset (i, a) (claims ?rs)"
      using True s by (simp add: m)
    moreover have "length ?rs \<le> length (rc_instances rc)" using s by simp
    ultimately show ?thesis by (rule released)
  next
    case False
    then have "r = Err incompatible_route" "rc' = rc"
      using Some s assms(1) by (auto simp: release_instance_locked_def Let_def)
    moreover have "(i, ir_adapter x) \<in># claims (rc_instances rc)" using s split(2) by simp
    then have "(i, a) \<notin># claims (rc_instances rc)" using claims_unique [OF ok] False by blast
    ultimately show ?thesis by (rule unknown)
  qed
qed

lemma reserve_route_cases:
  assumes "reserve_state_route a d rc = (r, rc')" and ok: "instances_ok (rc_instances rc)"
  obtains (existing) rs where "r = Ok (ExistingRoute (rd_instance_id d) a)" "rc' = rc\<lparr>rc_instances := rs\<rparr>"
      "instances_ok rs" "claims rs = add_mset (rd_instance_id d, a) (claims (rc_instances rc))"
      "length rs = length (rc_instances rc)"
    | (fresh) "r = Ok NewRoute" "rc' = rc\<lparr>rc_pending := sat_add (rc_pending rc) 1\<rparr>"
      "length (rc_instances rc) + rc_pending rc < MAX_INSTANCE_ROUTES"
      "rd_instance_id d \<notin> ir_instance_id ` set (rc_instances rc)"
    | (refused) "rc' = rc" "\<not> is_ok r"
proof (cases "validate_runtime_descriptor d")
  case (Ok u)
  show ?thesis
  proof (cases "first_index (\<lambda>r. ir_instance_id r = rd_instance_id d) (rc_instances rc)")
    case None
    show ?thesis
    proof (cases "sat_add (length (rc_instances rc)) (rc_pending rc) \<ge> MAX_INSTANCE_ROUTES")
      case True
      with Ok None assms(1) show ?thesis by (intro refused) (auto simp: reserve_state_route_def)
    next
      case False
      then have "length (rc_instances rc) + rc_pending rc < MAX_INSTANCE_ROUTES"
        by (auto simp: sat_add_def MAX_INSTANCE_ROUTES_def u64_max_def min_def split: if_splits)
      moreover from None have "rd_instance_id d \<notin> ir_instance_id ` set (rc_instances rc)"
        by (auto simp: first_index_None)
      ultimately show ?thesis
        using False Ok None assms(1) by (intro fresh) (auto simp: reserve_state_route_def)
    qed
  next
    case (Some n)
    from Some obtain ys x zs where s: "rc_instances rc = ys @ x # zs" "n = length ys"
        "ir_instance_id x = rd_instance_id d"
      by (rule first_index_split)
    show ?thesis
    proof (cases "ir_adapter x = a \<and> ir_live_states x + 1 \<le> u64_max")
      case True
      let ?rs = "ys @ x\<lparr>ir_live_states := ir_live_states x + 1\<rparr> # zs"
      have "instances_ok ?rs" using ok s by (simp add: instances_ok_split)
      moreover have "claims ?rs = add_mset (rd_instance_id d, a) (claims (rc_instances rc))"
        using True s by simp
      ultimately show ?thesis
        using True Ok Some s assms(1)
        by (intro existing [of ?rs]) (auto simp: reserve_state_route_def Let_def checked_add_def)
    next
      case False
      with Ok Some s assms(1) show ?thesis
        by (intro refused) (auto simp: reserve_state_route_def Let_def checked_add_def split: if_splits)
    qed
  qed
qed (use assms in \<open>auto simp: reserve_state_route_def intro!: refused\<close>)

lemma adapter_for_state_cases:
  assumes "adapter_for_state st rc = (r, rc')" and ok: "instances_ok (rc_instances rc)"
  obtains (routed) a rs where "r = Ok a" "rc' = rc\<lparr>rc_instances := rs\<rparr>" "instances_ok rs"
      "claims rs = claims (rc_instances rc)" "length rs = length (rc_instances rc)"
      "(instance_id st, a) \<in># claims (rc_instances rc)"
    | (unknown) "r = Err incompatible_route" "rc' = rc"
      "\<forall>a. (instance_id st, a) \<notin># claims (rc_instances rc)"
proof (cases "last_index (\<lambda>r. ir_instance_id r = instance_id st) (rc_instances rc)")
  case None
  then have "\<forall>a. (instance_id st, a) \<notin># claims (rc_instances rc)"
    by (auto simp: last_index_None in_claims)
  with None assms(1) show ?thesis by (intro unknown) (auto simp: adapter_for_state_def)
next
  case (Some n)
  from Some obtain ys x zs where s: "rc_instances rc = ys @ x # zs" "n = length ys"
      "ir_instance_id x = instance_id st"
    by (rule last_index_split)
  have "instances_ok (ys @ zs @ [x])" using ok s(1) by (simp only: instances_ok_swap)
  moreover have "0 < ir_live_states x" using ok s(1) by (simp add: instances_ok_def)
  then have "(instance_id st, ir_adapter x) \<in># claims (rc_instances rc)" using s by simp
  ultimately show ?thesis
    using Some s assms(1) by (intro routed [of "ir_adapter x" "ys @ zs @ [x]"]) (auto simp: adapter_for_state_def)
qed

section \<open>The machine\<close>

record route_machine =
  rx_cache :: route_cache
  rx_reservations :: "(reservation_kind \<times> nat) list"
  rx_owned :: "(rstr \<times> nat) list"
  rx_displaced :: nat

datatype router_event =
    RCachedModel "nat list" bool
  | RKeepSelected rstr "nat list" bool nat
  | RKnownModel rstr
  | RRecordModel rstr "nat list" bool nat
  | RRecordCompatibility rstr compatibility_envelope nat
  | RCompatibility compatibility_envelope
  | RCompatibilityForModel rstr compatibility_envelope
  | RStateAdapter backend_state
  | RReserve nat runtime_descriptor
  | RCommit nat backend_state
  | RDrop nat
  | RRelease nat

definition displaced_kind :: "reservation_kind \<Rightarrow> backend_state \<Rightarrow> nat \<Rightarrow> bool" where
  "displaced_kind k st a = (case k of
     NewRoute \<Rightarrow> False | ExistingRoute i ra \<Rightarrow> instance_id st \<noteq> i \<or> ra \<noteq> a)"

definition record_model_section :: "rstr \<Rightarrow> nat list \<Rightarrow> bool \<Rightarrow> nat \<Rightarrow> route_cache \<Rightarrow> route_cache" where
  "record_model_section i fp images a rc =
     snd (record_model_adapter (\<lambda>_. Ok fp) \<lparr>rm_id = i, rm_fields = ()\<rparr> images a rc)"

text \<open>
  \<open>RCommit n st\<close> commits the \<open>n\<close>th outstanding reservation with the adapter it was made for;
  \<open>RRelease n\<close> is the release of the \<open>n\<close>th registered state.
\<close>

fun router_step :: "route_machine \<Rightarrow> router_event \<Rightarrow> route_machine" where
  "router_step w (RCachedModel fp images) =
     w\<lparr>rx_cache := snd (cached_model_adapter fp images (rx_cache w))\<rparr>"
| "router_step w (RKeepSelected i fp images a) =
     w\<lparr>rx_cache := snd (keep_selected i fp images a (rx_cache w))\<rparr>"
| "router_step w (RKnownModel i) = w\<lparr>rx_cache := snd (known_model_adapter i (rx_cache w))\<rparr>"
| "router_step w (RRecordModel i fp images a) =
     w\<lparr>rx_cache := record_model_section i fp images a (rx_cache w)\<rparr>"
| "router_step w (RRecordCompatibility i c a) = w\<lparr>rx_cache := record_compatibility i c a (rx_cache w)\<rparr>"
| "router_step w (RCompatibility c) = w\<lparr>rx_cache := snd (lookup_compatibility c (rx_cache w))\<rparr>"
| "router_step w (RCompatibilityForModel i c) =
     w\<lparr>rx_cache := snd (compatibility_route_for_model i c (rx_cache w))\<rparr>"
| "router_step w (RStateAdapter st) = w\<lparr>rx_cache := snd (adapter_for_state st (rx_cache w))\<rparr>"
| "router_step w (RReserve a d) =
     (case reserve_state_route a d (rx_cache w) of
        (Ok k, rc) \<Rightarrow> w\<lparr>rx_cache := rc, rx_reservations := rx_reservations w @ [(k, a)]\<rparr>
      | (_, rc) \<Rightarrow> w\<lparr>rx_cache := rc\<rparr>)"
| "router_step w (RCommit n st) =
     (if n < length (rx_reservations w)
      then (let (k, a) = rx_reservations w ! n;
                w' = w\<lparr>rx_reservations := remove_at n (rx_reservations w),
                       rx_displaced := rx_displaced w + (if displaced_kind k st a then 1 else 0)\<rparr>
            in case reservation_commit k st a (rx_cache w) of
                 (Ok _, rc) \<Rightarrow> w'\<lparr>rx_cache := rc, rx_owned := rx_owned w @ [(instance_id st, a)]\<rparr>
               | (_, rc) \<Rightarrow> w'\<lparr>rx_cache := rc\<rparr>)
      else w)"
| "router_step w (RDrop n) =
     (if n < length (rx_reservations w)
      then w\<lparr>rx_cache := drop_reservation_route (fst (rx_reservations w ! n)) (rx_cache w),
             rx_reservations := remove_at n (rx_reservations w)\<rparr>
      else w)"
| "router_step w (RRelease n) =
     (if n < length (rx_owned w)
      then (case release_instance_locked (fst (rx_owned w ! n)) (snd (rx_owned w ! n)) (rx_cache w) of
           (Ok _, rc) \<Rightarrow> w\<lparr>rx_cache := rc, rx_owned := remove_at n (rx_owned w)\<rparr>
         | (_, rc) \<Rightarrow> w\<lparr>rx_cache := rc\<rparr>)
      else w)"

definition router_machine_new :: "nat \<Rightarrow> route_machine" where
  "router_machine_new initial = \<lparr>rx_cache = router_new initial, rx_reservations = [], rx_owned = [], rx_displaced = 0\<rparr>"

section \<open>Invariant\<close>

definition reserved_claims :: "(reservation_kind \<times> nat) list \<Rightarrow> (rstr \<times> nat) multiset" where
  "reserved_claims ks = (\<Sum>(k, _) \<leftarrow> ks. case k of ExistingRoute i a \<Rightarrow> {#(i, a)#} | NewRoute \<Rightarrow> {#})"

definition new_reservations :: "(reservation_kind \<times> nat) list \<Rightarrow> nat" where
  "new_reservations ks = length (filter (\<lambda>(k, _). k = NewRoute) ks)"

fun reservation_ok :: "reservation_kind \<times> nat \<Rightarrow> bool" where
  "reservation_ok (ExistingRoute i b, a) = (b = a)"
| "reservation_ok (NewRoute, a) = True"

definition route_tables_ok :: "route_cache \<Rightarrow> bool" where
  "route_tables_ok rc \<longleftrightarrow>
     length (rc_models rc) \<le> MAX_MODEL_ROUTES
     \<and> distinct (map (\<lambda>r. (mt_manifest_fingerprint r, mt_has_images r)) (rc_models rc))
     \<and> length (rc_compatibility rc) \<le> MAX_COMPATIBILITY_ROUTES
     \<and> distinct (map (\<lambda>r. (cr_key r, cr_model_id r)) (rc_compatibility rc))
     \<and> length (rc_instances rc) \<le> MAX_INSTANCE_ROUTES
     \<and> instances_ok (rc_instances rc)"

definition router_inv :: "route_machine \<Rightarrow> bool" where
  "router_inv w \<longleftrightarrow>
     route_tables_ok (rx_cache w)
     \<and> claims (rc_instances (rx_cache w)) = mset (rx_owned w) + reserved_claims (rx_reservations w)
     \<and> rc_pending (rx_cache w) = new_reservations (rx_reservations w)
     \<and> rc_pending (rx_cache w) \<le> MAX_INSTANCE_ROUTES
     \<and> (\<forall>p \<in> set (rx_reservations w). reservation_ok p)
     \<and> length (rc_instances (rx_cache w)) + rc_pending (rx_cache w)
         \<le> MAX_INSTANCE_ROUTES + rx_displaced w"

lemma reserved_claims_simps [simp]:
  "reserved_claims [] = {#}"
  "reserved_claims ((NewRoute, a) # ks) = reserved_claims ks"
  "reserved_claims ((ExistingRoute i b, a) # ks) = add_mset (i, b) (reserved_claims ks)"
  "reserved_claims (ks @ ls) = reserved_claims ks + reserved_claims ls"
  by (simp_all add: reserved_claims_def)

lemma new_reservations_simps [simp]:
  "new_reservations [] = 0"
  "new_reservations ((NewRoute, a) # ks) = Suc (new_reservations ks)"
  "new_reservations ((ExistingRoute i b, a) # ks) = new_reservations ks"
  "new_reservations (ks @ ls) = new_reservations ks + new_reservations ls"
  by (simp_all add: new_reservations_def)

text \<open>Sections that only reorder or refresh the model and compatibility tables.\<close>

definition same_processes :: "route_cache \<Rightarrow> route_cache \<Rightarrow> bool" where
  "same_processes rc rc' \<longleftrightarrow> rc_instances rc' = rc_instances rc \<and> rc_pending rc' = rc_pending rc"

lemma router_inv_tables:
  "router_inv w \<Longrightarrow> route_tables_ok rc \<Longrightarrow> same_processes (rx_cache w) rc \<Longrightarrow> router_inv (w\<lparr>rx_cache := rc\<rparr>)"
  by (auto simp: router_inv_def same_processes_def)

lemma move_back_ok:
  assumes "n < length xs"
  shows "length (move_back n xs) = length xs \<and> set (move_back n xs) = set xs
    \<and> (distinct (map f xs) \<longrightarrow> distinct (map f (move_back n xs)))"
proof -
  from mset_move_back [OF assms] have m: "mset (move_back n xs) = mset xs" .
  then have "mset (map f (move_back n xs)) = mset (map f xs)" by simp
  with m show ?thesis
    by (metis mset_eq_imp_distinct_iff mset_eq_length mset_eq_setD)
qed

lemma first_index_less: "first_index P xs = Some n \<Longrightarrow> n < length xs"
  by (erule first_index_split) simp

lemma last_index_less: "last_index P xs = Some n \<Longrightarrow> n < length xs"
  by (erule last_index_split) simp

lemma touched_models:
  "route_tables_ok rc \<Longrightarrow> n < length (rc_models rc) \<Longrightarrow>
     route_tables_ok (rc\<lparr>rc_models := move_back n (rc_models rc)\<rparr>)"
  by (simp add: route_tables_ok_def move_back_ok)

lemma touched_compatibility:
  "route_tables_ok rc \<Longrightarrow> n < length (rc_compatibility rc) \<Longrightarrow> route_tables_ok (touch_compatibility n rc)"
  by (simp add: route_tables_ok_def move_back_ok touch_compatibility_def)

lemma cached_model_ok: "route_tables_ok rc \<Longrightarrow>
    route_tables_ok (snd (cached_model_adapter fp images rc)) \<and> same_processes rc (snd (cached_model_adapter fp images rc))"
  by (auto simp: cached_model_adapter_def same_processes_def touched_models first_index_less split: option.splits)

lemma keep_selected_ok: "route_tables_ok rc \<Longrightarrow>
    route_tables_ok (snd (keep_selected i fp images a rc)) \<and> same_processes rc (snd (keep_selected i fp images a rc))"
proof (cases "first_index (model_route_matches fp images) (rc_models rc)")
  case None
  assume ok: "route_tables_ok rc"
  let ?r = "\<lparr>mt_model_id = i, mt_manifest_fingerprint = fp, mt_has_images = images, mt_adapter = a\<rparr>"
  have "(fp, images) \<notin> (\<lambda>r. (mt_manifest_fingerprint r, mt_has_images r)) ` set (rc_models rc)"
    using None by (auto simp: first_index_None model_route_matches_def)
  then have "distinct (map (\<lambda>r. (mt_manifest_fingerprint r, mt_has_images r))
      (push_bounded ?r MAX_MODEL_ROUTES (rc_models rc)))"
    using ok by (intro distinct_push_bounded) (simp_all add: route_tables_ok_def)
  moreover have "length (push_bounded ?r MAX_MODEL_ROUTES (rc_models rc)) \<le> MAX_MODEL_ROUTES"
    using ok by (intro length_push_bounded) (simp_all add: route_tables_ok_def MAX_MODEL_ROUTES_def)
  ultimately show ?thesis
    using ok None by (simp add: keep_selected_def same_processes_def route_tables_ok_def)
qed (auto simp: keep_selected_def same_processes_def touched_models first_index_less)

lemma known_model_ok: "route_tables_ok rc \<Longrightarrow>
    route_tables_ok (snd (known_model_adapter i rc)) \<and> same_processes rc (snd (known_model_adapter i rc))"
  by (auto simp: known_model_adapter_def same_processes_def touched_models last_index_less split: option.splits)

lemma record_model_ok: "route_tables_ok rc \<Longrightarrow>
    route_tables_ok (record_model_section i fp images a rc) \<and> same_processes rc (record_model_section i fp images a rc)"
proof -
  assume ok: "route_tables_ok rc"
  let ?r = "\<lparr>mt_model_id = i, mt_manifest_fingerprint = fp, mt_has_images = images, mt_adapter = a\<rparr>"
  let ?ms = "filter (\<lambda>r. mt_manifest_fingerprint r \<noteq> fp \<or> mt_has_images r \<noteq> images) (rc_models rc)"
  have "distinct (map (\<lambda>r. (mt_manifest_fingerprint r, mt_has_images r)) (push_bounded ?r MAX_MODEL_ROUTES ?ms))"
    using ok by (intro distinct_push_bounded) (auto simp: route_tables_ok_def distinct_map_filter)
  moreover have "length ?ms \<le> MAX_MODEL_ROUTES"
    using ok by (intro order_trans [OF length_filter_le]) (simp add: route_tables_ok_def)
  then have "length (push_bounded ?r MAX_MODEL_ROUTES ?ms) \<le> MAX_MODEL_ROUTES"
    by (rule length_push_bounded) (simp add: MAX_MODEL_ROUTES_def)
  ultimately show ?thesis
    using ok by (simp add: record_model_section_def record_model_adapter_def same_processes_def route_tables_ok_def)
qed

lemma record_compatibility_ok: "route_tables_ok rc \<Longrightarrow>
    route_tables_ok (record_compatibility i c a rc) \<and> same_processes rc (record_compatibility i c a rc)"
proof -
  assume ok: "route_tables_ok rc"
  let ?r = "\<lparr>cr_key = c, cr_model_id = i, cr_adapter = a\<rparr>"
  let ?cs = "filter (\<lambda>r. cr_key r \<noteq> c \<or> cr_model_id r \<noteq> i) (rc_compatibility rc)"
  have "distinct (map (\<lambda>r. (cr_key r, cr_model_id r)) (push_bounded ?r MAX_COMPATIBILITY_ROUTES ?cs))"
    using ok by (intro distinct_push_bounded) (auto simp: route_tables_ok_def distinct_map_filter)
  moreover have "length ?cs \<le> MAX_COMPATIBILITY_ROUTES"
    using ok by (intro order_trans [OF length_filter_le]) (simp add: route_tables_ok_def)
  then have "length (push_bounded ?r MAX_COMPATIBILITY_ROUTES ?cs) \<le> MAX_COMPATIBILITY_ROUTES"
    by (rule length_push_bounded) (simp add: MAX_COMPATIBILITY_ROUTES_def)
  ultimately show ?thesis
    using ok by (simp add: record_compatibility_def same_processes_def route_tables_ok_def)
qed

lemma lookup_compatibility_ok: "route_tables_ok rc \<Longrightarrow>
    route_tables_ok (snd (lookup_compatibility c rc)) \<and> same_processes rc (snd (lookup_compatibility c rc))"
  by (auto simp: lookup_compatibility_def touched_compatibility last_index_less split: option.splits)
    (simp_all add: same_processes_def touch_compatibility_def)

lemma compatibility_for_model_ok: "route_tables_ok rc \<Longrightarrow>
    route_tables_ok (snd (compatibility_route_for_model i c rc)) \<and>
    same_processes rc (snd (compatibility_route_for_model i c rc))"
  by (auto simp: compatibility_route_for_model_def touched_compatibility last_index_less split: option.splits)
    (simp_all add: same_processes_def touch_compatibility_def)

lemma reserved_remove:
  assumes "n < length ks"
  shows "reserved_claims ks = reserved_claims [ks ! n] + reserved_claims (remove_at n ks)"
    and "new_reservations ks = new_reservations [ks ! n] + new_reservations (remove_at n ks)"
    and "set (remove_at n ks) \<subseteq> set ks"
proof -
  have ks: "ks = take n ks @ [ks ! n] @ drop (Suc n) ks"
    using id_take_nth_drop [OF assms] by simp
  have "reserved_claims ks = reserved_claims (take n ks)
      + (reserved_claims [ks ! n] + reserved_claims (drop (Suc n) ks))"
    by (subst ks) (simp only: reserved_claims_simps)
  then show "reserved_claims ks = reserved_claims [ks ! n] + reserved_claims (remove_at n ks)"
    by (simp add: remove_at_def ac_simps)
  have "new_reservations ks = new_reservations (take n ks)
      + (new_reservations [ks ! n] + new_reservations (drop (Suc n) ks))"
    by (subst ks) (simp only: new_reservations_simps)
  then show "new_reservations ks = new_reservations [ks ! n] + new_reservations (remove_at n ks)"
    by (simp add: remove_at_def)
  show "set (remove_at n ks) \<subseteq> set ks"
    using set_take_subset set_drop_subset by (fastforce simp: remove_at_def)
qed

lemma owned_remove:
  assumes "n < length xs"
  shows "mset xs = add_mset (xs ! n) (mset (remove_at n xs))"
proof -
  have xs: "xs = take n xs @ xs ! n # drop (Suc n) xs" by (rule id_take_nth_drop [OF assms])
  show ?thesis by (subst xs) (simp add: remove_at_def)
qed

lemma router_new_inv: "router_inv (router_machine_new a)"
  by (simp add: router_inv_def router_machine_new_def router_new_def route_tables_ok_def instances_ok_def)

lemma reserve_route_inv:
  assumes inv: "router_inv w" shows "router_inv (router_step w (RReserve a d))"
proof -
  obtain r rc where x: "reserve_state_route a d (rx_cache w) = (r, rc)" by force
  have ok: "instances_ok (rc_instances (rx_cache w))" using inv by (simp add: router_inv_def route_tables_ok_def)
  show ?thesis
    using x ok
  proof (cases rule: reserve_route_cases)
    case (existing rs)
    with x inv show ?thesis by (auto simp: router_inv_def route_tables_ok_def)
  next
    case fresh
    then have "sat_add (rc_pending (rx_cache w)) 1 = Suc (rc_pending (rx_cache w))"
      by (simp add: sat_add_def u64_max_def MAX_INSTANCE_ROUTES_def)
    with x inv fresh show ?thesis by (auto simp: router_inv_def route_tables_ok_def)
  next
    case refused
    then have "w\<lparr>rx_cache := rc\<rparr> = w" by simp
    with x refused(2) inv show ?thesis by (cases r) auto
  qed
qed

text \<open>Taking a reservation back, whichever kind it is.\<close>

lemma drop_reservation_effect:
  assumes inv: "router_inv w" and n: "n < length (rx_reservations w)"
    and x: "rx_reservations w ! n = (k, a)"
  defines "rc \<equiv> drop_reservation_route k (rx_cache w)"
  shows "router_inv (w\<lparr>rx_cache := rc, rx_reservations := remove_at n (rx_reservations w)\<rparr>)"
    and "k = ExistingRoute i b \<Longrightarrow> release_instance_locked i b (rx_cache w) = (Ok (), rc)"
proof -
  have ok: "instances_ok (rc_instances (rx_cache w))" using inv by (simp add: router_inv_def route_tables_ok_def)
  note rem = reserved_remove [OF n, unfolded x]
  have held: "(i, b) \<in># claims (rc_instances (rx_cache w))" if "k = ExistingRoute i b" for i b
    using inv rem(1) that by (simp add: router_inv_def)
  have rel: "release_instance_locked i b (rx_cache w) = (Ok (), rc) \<and>
      router_inv (w\<lparr>rx_cache := rc, rx_reservations := remove_at n (rx_reservations w)\<rparr>)"
    if k: "k = ExistingRoute i b" for i b
  proof -
    obtain r rc' where y: "release_instance_locked i b (rx_cache w) = (r, rc')" by force
    with k have rc: "rc = rc'" by (simp add: rc_def drop_reservation_route_def)
    from y ok show ?thesis
    proof (cases rule: release_instance_cases)
      case (released rs)
      have "claims rs = mset (rx_owned w) + reserved_claims (remove_at n (rx_reservations w))"
        using released(4) inv rem(1) k by (simp add: router_inv_def)
      then show ?thesis
        using y rc released inv rem(2,3) k by (auto simp: router_inv_def route_tables_ok_def)
    next
      case unknown
      with held [OF k] show ?thesis by simp
    qed
  qed
  show "k = ExistingRoute i b \<Longrightarrow> release_instance_locked i b (rx_cache w) = (Ok (), rc)"
    using rel by blast
  show "router_inv (w\<lparr>rx_cache := rc, rx_reservations := remove_at n (rx_reservations w)\<rparr>)"
  proof (cases k)
    case (ExistingRoute i b)
    then show ?thesis using rel by blast
  next
    case NewRoute
    then show ?thesis
      using inv rem by (auto simp: rc_def drop_reservation_route_def router_inv_def route_tables_ok_def)
  qed
qed

lemma drop_route_inv:
  assumes "router_inv w" shows "router_inv (router_step w (RDrop n))"
proof (cases "n < length (rx_reservations w)")
  case True
  obtain k a where "rx_reservations w ! n = (k, a)" by force
  with drop_reservation_effect(1) [OF assms True this] True show ?thesis by simp
qed (use assms in simp)

lemma commit_displaced:
  assumes "displaced_kind k st a"
    and "\<And>i b. k = ExistingRoute i b \<Longrightarrow> release_instance_locked i b rc = (Ok (), drop_reservation_route k rc)"
  shows "reservation_commit k st a rc = record_instance_locked (instance_id st) a (drop_reservation_route k rc)"
  using assms by (auto simp: displaced_kind_def reservation_commit_def split: reservation_kind.splits)

lemma commit_new:
  "reservation_commit NewRoute st a rc = record_instance_locked (instance_id st) a (drop_reservation_route NewRoute rc)"
  by (simp add: reservation_commit_def drop_reservation_route_def)

lemma record_owned_inv:
  assumes inv: "router_inv w"
    and x: "record_instance_locked i a (rx_cache w) = (r, rc)"
    and m: "length (rc_instances (rx_cache w)) + rc_pending (rx_cache w) < MAX_INSTANCE_ROUTES + m"
      "rx_displaced w \<le> m"
  shows "router_inv (case r of
      Ok _ \<Rightarrow> w\<lparr>rx_cache := rc, rx_owned := rx_owned w @ [(i, a)], rx_displaced := m\<rparr>
    | _ \<Rightarrow> w\<lparr>rx_cache := rc, rx_displaced := m\<rparr>)"
proof -
  have ok: "instances_ok (rc_instances (rx_cache w))" using inv by (simp add: router_inv_def route_tables_ok_def)
  from x ok show ?thesis
  proof (cases rule: record_instance_cases)
    case (recorded rs)
    have "length rs \<le> MAX_INSTANCE_ROUTES"
    proof (cases "i \<in> ir_instance_id ` set (rc_instances (rx_cache w))")
      case True
      with recorded(5) inv show ?thesis by (simp add: router_inv_def route_tables_ok_def)
    next
      case False
      with recorded(5,6) inv show ?thesis by (simp add: router_inv_def route_tables_ok_def)
    qed
    with recorded(1-5) inv m show ?thesis by (auto simp: router_inv_def route_tables_ok_def split: if_splits)
  next
    case (refused e)
    then have "w\<lparr>rx_cache := rc, rx_displaced := m\<rparr> = w\<lparr>rx_displaced := m\<rparr>" by simp
    moreover have "router_inv (w\<lparr>rx_displaced := m\<rparr>)" using inv m(2) by (simp add: router_inv_def)
    ultimately show ?thesis using refused by simp
  qed
qed

lemma commit_route_inv:
  assumes inv: "router_inv w" shows "router_inv (router_step w (RCommit n st))"
proof (cases "n < length (rx_reservations w)")
  case n: True
  obtain k a where x: "rx_reservations w ! n = (k, a)" by force
  let ?rc = "drop_reservation_route k (rx_cache w)"
  let ?w = "w\<lparr>rx_cache := ?rc, rx_reservations := remove_at n (rx_reservations w)\<rparr>"
  have inv': "router_inv ?w" by (rule drop_reservation_effect(1) [OF inv n x])
  have len: "length (rc_instances ?rc) + rc_pending ?rc
      < MAX_INSTANCE_ROUTES + (rx_displaced w + 1)"
    using inv' by (simp add: router_inv_def)
  have len_new: "length (rc_instances ?rc) + rc_pending ?rc < MAX_INSTANCE_ROUTES + rx_displaced w" if "k = NewRoute"
    using inv that reserved_remove(2) [OF n] x by (simp add: router_inv_def drop_reservation_route_def)
  obtain r rc where y: "record_instance_locked (instance_id st) a ?rc = (r, rc)" by force
  show ?thesis
  proof (cases "displaced_kind k st a \<or> k = NewRoute")
    case True
    define m where "m = rx_displaced w + (if displaced_kind k st a then 1 else 0)"
    have c: "reservation_commit k st a (rx_cache w) = (r, rc)"
      using True commit_displaced [of k st a "rx_cache w"] drop_reservation_effect(2) [OF inv n x]
        commit_new [of st a "rx_cache w"] y by auto
    have "length (rc_instances ?rc) + rc_pending ?rc < MAX_INSTANCE_ROUTES + m" "rx_displaced w \<le> m"
      using len len_new True by (auto simp: m_def displaced_kind_def split: reservation_kind.splits)
    with record_owned_inv [OF inv', of "instance_id st" a r rc m] y
    have "router_inv (case r of
        Ok _ \<Rightarrow> ?w\<lparr>rx_cache := rc, rx_owned := rx_owned w @ [(instance_id st, a)], rx_displaced := m\<rparr>
      | _ \<Rightarrow> ?w\<lparr>rx_cache := rc, rx_displaced := m\<rparr>)"
      by (cases r) simp_all
    with n x c show ?thesis by (cases r) (simp_all add: Let_def m_def router_inv_def)
  next
    case False
    then obtain i where k: "k = ExistingRoute i a" and i: "instance_id st = i"
      by (auto simp: displaced_kind_def split: reservation_kind.splits)
    with n x have "router_step w (RCommit n st) =
        w\<lparr>rx_reservations := remove_at n (rx_reservations w), rx_owned := rx_owned w @ [(i, a)]\<rparr>"
      by (simp add: Let_def reservation_commit_def displaced_kind_def)
    then show ?thesis
      using inv reserved_remove [OF n] x k by (auto simp: router_inv_def)
  qed
qed (use inv in simp)

lemma release_owned_effect:
  assumes inv: "router_inv w" and n: "n < length (rx_owned w)" and x: "rx_owned w ! n = (i, a)"
  obtains rs where "release_instance_locked i a (rx_cache w) = (Ok (), (rx_cache w)\<lparr>rc_instances := rs\<rparr>)"
    "router_inv (w\<lparr>rx_cache := (rx_cache w)\<lparr>rc_instances := rs\<rparr>, rx_owned := remove_at n (rx_owned w)\<rparr>)"
proof -
  have ok: "instances_ok (rc_instances (rx_cache w))" using inv by (simp add: router_inv_def route_tables_ok_def)
  note rem = owned_remove [OF n, unfolded x]
  obtain r rc where y: "release_instance_locked i a (rx_cache w) = (r, rc)" by force
  from y ok show ?thesis
  proof (cases rule: release_instance_cases)
    case (released rs)
    have "claims rs = mset (remove_at n (rx_owned w)) + reserved_claims (rx_reservations w)"
      using released(4) inv rem by (simp add: router_inv_def)
    with released inv have
      "router_inv (w\<lparr>rx_cache := (rx_cache w)\<lparr>rc_instances := rs\<rparr>, rx_owned := remove_at n (rx_owned w)\<rparr>)"
      by (auto simp: router_inv_def route_tables_ok_def)
    with y released that show ?thesis by blast
  next
    case unknown
    with inv rem show ?thesis by (simp add: router_inv_def)
  qed
qed

lemma release_route_inv:
  assumes "router_inv w" shows "router_inv (router_step w (RRelease n))"
proof (cases "n < length (rx_owned w)")
  case True
  obtain i a where x: "rx_owned w ! n = (i, a)" by force
  from assms True x obtain rs where
    "release_instance_locked i a (rx_cache w) = (Ok (), (rx_cache w)\<lparr>rc_instances := rs\<rparr>)"
    "router_inv (w\<lparr>rx_cache := (rx_cache w)\<lparr>rc_instances := rs\<rparr>, rx_owned := remove_at n (rx_owned w)\<rparr>)"
    by (rule release_owned_effect)
  with True x show ?thesis by simp
qed (use assms in simp)

lemma state_adapter_inv:
  assumes "router_inv w" shows "router_inv (router_step w (RStateAdapter st))"
proof -
  obtain r rc where x: "adapter_for_state st (rx_cache w) = (r, rc)" by force
  have "instances_ok (rc_instances (rx_cache w))" using assms by (simp add: router_inv_def route_tables_ok_def)
  with x show ?thesis
  proof (cases rule: adapter_for_state_cases)
    case (routed a rs)
    with x assms show ?thesis by (auto simp: router_inv_def route_tables_ok_def)
  next
    case unknown
    with x assms show ?thesis by simp
  qed
qed

lemma router_step_inv: "router_inv w \<Longrightarrow> router_inv (router_step w e)"
proof (cases e)
  case (RReserve a d)
  then show "router_inv w \<Longrightarrow> ?thesis" using reserve_route_inv by simp
next
  case (RCommit n st)
  then show "router_inv w \<Longrightarrow> ?thesis" using commit_route_inv by simp
next
  case (RDrop n)
  then show "router_inv w \<Longrightarrow> ?thesis" using drop_route_inv by simp
next
  case (RRelease n)
  then show "router_inv w \<Longrightarrow> ?thesis" using release_route_inv by simp
next
  case (RStateAdapter st)
  then show "router_inv w \<Longrightarrow> ?thesis" using state_adapter_inv by simp
qed (simp_all, auto intro!: router_inv_tables simp: cached_model_ok keep_selected_ok known_model_ok
    record_model_ok record_compatibility_ok lookup_compatibility_ok compatibility_for_model_ok,
    auto simp: router_inv_def cached_model_ok keep_selected_ok known_model_ok
    record_model_ok record_compatibility_ok lookup_compatibility_ok compatibility_for_model_ok)

interpretation router: state_machine "router_machine_new a" router_step router_inv for a
  by unfold_locales (simp_all add: router_new_inv router_step_inv)

definition router_run :: "nat \<Rightarrow> router_event list \<Rightarrow> route_machine" where
  "router_run a es = run router_step (router_machine_new a) es"

lemma router_run_inv: "router_inv (router_run a es)"
  unfolding router_run_def by (rule router.run_inv)

end
