(* ===== verification/Routing_Claims.thy ===== *)
theory Routing_Claims
  imports Routing_Machine
begin

text \<open>
  What the runtime router promises: states are routed to the adapter that owns their process
  as long as one of them lives, a reserved route can be committed, failed operations leave no
  route behind, and one-use plans act on the process they were prepared for.
\<close>

section \<open>States and adapters\<close>

definition reserved_for_process :: "route_machine \<Rightarrow> rstr \<Rightarrow> nat \<Rightarrow> bool" where
  "reserved_for_process w i a \<longleftrightarrow> (ExistingRoute i a, a) \<in> set (rx_reservations w)"

lemma in_reserved_claims:
  "\<forall>p \<in> set ks. reservation_ok p \<Longrightarrow> (i, a) \<in># reserved_claims ks \<longleftrightarrow> (ExistingRoute i a, a) \<in> set ks"
proof (induction ks)
  case (Cons p ks)
  obtain k b where "p = (k, b)" by force
  with Cons show ?case by (cases k) auto
qed simp

lemma adapter_for_state_iff:
  assumes "instances_ok (rc_instances rc)"
  shows "fst (adapter_for_state st rc) = Ok a \<longleftrightarrow> (instance_id st, a) \<in># claims (rc_instances rc)"
proof -
  obtain r rc' where x: "adapter_for_state st rc = (r, rc')" by force
  from x assms show ?thesis
  proof (cases rule: adapter_for_state_cases)
    case (routed b rs)
    with x claims_unique [OF assms, of "instance_id st" a b] show ?thesis by auto
  next
    case unknown
    with x show ?thesis by simp
  qed
qed

lemma adapter_for_state_claims:
  assumes "instances_ok (rc_instances rc)" "instances_ok (rc_instances rc')"
    and "claims (rc_instances rc') = claims (rc_instances rc)"
  shows "fst (adapter_for_state st rc') = fst (adapter_for_state st rc)"
proof -
  have same: "fst (adapter_for_state st rc') = Ok a \<longleftrightarrow> fst (adapter_for_state st rc) = Ok a" for a
    using adapter_for_state_iff [OF assms(1)] adapter_for_state_iff [OF assms(2)] assms(3) by simp
  have shape: "fst (adapter_for_state st rc) = Err incompatible_route \<or> (\<exists>a. fst (adapter_for_state st rc) = Ok a)" for rc
    by (simp add: adapter_for_state_def split: option.splits)
  show ?thesis
    using same shape [of rc] shape [of rc'] by (metis res.distinct(1))
qed

text \<open>
  C11. After any interleaving of the router's critical sections the tables keep their limits,
  and a state is routed to an adapter exactly when that adapter holds a registered, unreleased
  state of the same process or an operation on the process is under way: never to another
  adapter, and no longer than that.
\<close>

theorem states_reach_their_owner:
  "length (rc_models (rx_cache (router_run initial es))) \<le> MAX_MODEL_ROUTES \<and>
   length (rc_compatibility (rx_cache (router_run initial es))) \<le> MAX_COMPATIBILITY_ROUTES \<and>
   length (rc_instances (rx_cache (router_run initial es))) \<le> MAX_INSTANCE_ROUTES \<and>
   (fst (adapter_for_state st (rx_cache (router_run initial es))) = Ok a \<longleftrightarrow>
      (instance_id st, a) \<in> set (rx_owned (router_run initial es))
      \<or> reserved_for_process (router_run initial es) (instance_id st) a)"
proof -
  let ?w = "router_run initial es"
  have inv: "router_inv ?w" by (rule router_run_inv)
  then have ok: "instances_ok (rc_instances (rx_cache ?w))" by (simp add: router_inv_def route_tables_ok_def)
  have "fst (adapter_for_state st (rx_cache ?w)) = Ok a \<longleftrightarrow>
      (instance_id st, a) \<in># mset (rx_owned ?w) + reserved_claims (rx_reservations ?w)"
    using inv by (simp add: adapter_for_state_iff [OF ok] router_inv_def)
  also have "\<dots> \<longleftrightarrow> (instance_id st, a) \<in> set (rx_owned ?w) \<or> reserved_for_process ?w (instance_id st) a"
    using inv by (simp add: in_reserved_claims reserved_for_process_def router_inv_def)
  finally show ?thesis using inv by (simp add: router_inv_def route_tables_ok_def)
qed

section \<open>Reserved routes\<close>

lemma record_instance_Ok:
  assumes "distinct (map ir_instance_id (rc_instances rc))" "length (rc_instances rc) < MAX_INSTANCE_ROUTES"
  shows "fst (record_instance_locked i a rc) = Ok () \<longleftrightarrow>
    (\<forall>r \<in> set (rc_instances rc). ir_instance_id r = i \<longrightarrow> ir_adapter r = a \<and> ir_live_states r < u64_max)"
proof (cases "first_index (\<lambda>r. ir_instance_id r = i) (rc_instances rc)")
  case None
  then have "\<forall>r \<in> set (rc_instances rc). ir_instance_id r \<noteq> i" by (simp add: first_index_None)
  with None assms(2) show ?thesis by (auto simp: record_instance_locked_def)
next
  case (Some n)
  let ?r = "rc_instances rc ! n"
  have n: "n < length (rc_instances rc)" "ir_instance_id ?r = i" by (rule first_index_split [OF Some]; simp)+
  have only: "r = ?r" if "r \<in> set (rc_instances rc)" "ir_instance_id r = i" for r
    using that n assms(1) by (auto simp: distinct_map dest: inj_onD)
  have "(\<forall>r \<in> set (rc_instances rc). ir_instance_id r = i \<longrightarrow> ir_adapter r = a \<and> ir_live_states r < u64_max)
      \<longleftrightarrow> ir_adapter ?r = a \<and> ir_live_states ?r < u64_max"
    using only n by (metis nth_mem)
  with Some show ?thesis by (auto simp: record_instance_locked_def checked_add_def Let_def)
qed

text \<open>
  C20. As long as no operation has registered a state of another process than the one its route
  was reserved for, a new route that was reserved is never refused for capacity: committing a
  state succeeds exactly when the process of the state has no route yet, or a route to the same
  adapter whose count of live states can grow; and when it succeeds the state is routed to its
  adapter from then on. A state of a process that is routed to another adapter is refused.
\<close>

theorem reserved_route_registers:
  assumes "rx_displaced (router_run initial es) = 0"
    and "n < length (rx_reservations (router_run initial es))"
    and "rx_reservations (router_run initial es) ! n = (NewRoute, a)"
  shows "(fst (reservation_commit NewRoute st a (rx_cache (router_run initial es))) = Ok () \<longleftrightarrow>
      (\<forall>r \<in> set (rc_instances (rx_cache (router_run initial es))). ir_instance_id r = instance_id st \<longrightarrow>
         ir_adapter r = a \<and> ir_live_states r < u64_max)) \<and>
    (fst (reservation_commit NewRoute st a (rx_cache (router_run initial es))) = Ok () \<longrightarrow>
      fst (adapter_for_state st (rx_cache (router_step (router_run initial es) (RCommit n st)))) = Ok a)"
proof -
  let ?w = "router_run initial es"
  let ?rc = "drop_reservation_route NewRoute (rx_cache ?w)"
  have inv: "router_inv ?w" by (rule router_run_inv)
  then have dist: "distinct (map ir_instance_id (rc_instances ?rc))"
    by (simp add: router_inv_def route_tables_ok_def instances_ok_def drop_reservation_route_def)
  have "0 < rc_pending (rx_cache ?w)"
    using inv reserved_remove(2) [OF assms(2)] assms(3) by (simp add: router_inv_def)
  then have room: "length (rc_instances ?rc) < MAX_INSTANCE_ROUTES"
    using inv assms(1) by (simp add: router_inv_def drop_reservation_route_def)
  have "fst (reservation_commit NewRoute st a (rx_cache ?w)) = Ok () \<longleftrightarrow>
      (\<forall>r \<in> set (rc_instances (rx_cache ?w)). ir_instance_id r = instance_id st \<longrightarrow>
         ir_adapter r = a \<and> ir_live_states r < u64_max)"
    using record_instance_Ok [OF dist room] by (simp add: commit_new drop_reservation_route_def)
  moreover have "fst (adapter_for_state st (rx_cache (router_step ?w (RCommit n st)))) = Ok a"
    if c: "fst (reservation_commit NewRoute st a (rx_cache ?w)) = Ok ()"
  proof -
    let ?v = "router_step ?w (RCommit n st)"
    have "(instance_id st, a) \<in> set (rx_owned ?v)"
      using c assms(2,3) by (cases "reservation_commit NewRoute st a (rx_cache ?w)") (simp add: Let_def)
    moreover have v: "router_inv ?v" by (rule commit_route_inv [OF inv])
    moreover have "instances_ok (rc_instances (rx_cache ?v))"
      using v by (simp add: router_inv_def route_tables_ok_def)
    ultimately show ?thesis by (simp add: adapter_for_state_iff router_inv_def)
  qed
  ultimately show ?thesis by blast
qed

definition demo_process :: "nat \<Rightarrow> runtime_descriptor" where
  "demo_process i = \<lparr>rd_backend = [65], rd_backend_version = [65], rd_adapter_version = [65],
     rd_accelerator_family = [65], rd_instance_id = [256 + i], rd_capabilities = []\<rparr>"

definition demo_state :: "nat \<Rightarrow> backend_state" where
  "demo_state i = OpaqueBytes [] RamTier [256 + i]"

lemma demo_state_id [simp]: "instance_id (demo_state i) = [256 + i]"
  by (simp add: demo_state_def)

lemma demo_process_valid: "i < 5000 \<Longrightarrow> validate_runtime_descriptor (demo_process i) = Ok ()"
proof -
  assume i: "i < 5000"
  have letter: "\<not> invalid_bounded_text [65]"
    by (simp add: invalid_bounded_text_def trim_id is_whitespace_def is_control_def str_len_def
        utf8_width_def MAX_COMPATIBILITY_FIELD_BYTES_def)
  have "\<not> invalid_bounded_text [256 + i]"
    using i by (simp add: invalid_bounded_text_def trim_id is_whitespace_def is_control_def str_len_def
        utf8_width_def MAX_COMPATIBILITY_FIELD_BYTES_def)
  moreover have "str_len [65] = 1" "str_len [256 + i] \<le> 4"
    by (simp_all add: str_len_def utf8_width_def)
  ultimately show ?thesis
    using letter by (simp add: validate_descriptor_iff descriptor_well_formed_def identity_texts_def
        demo_process_def declared_size_def text_size_def MAX_ENCODED_RUNTIME_DESCRIPTOR_BYTES_def)
qed

lemma demo_process_id [simp]: "rd_instance_id (demo_process i) = [256 + i]"
  by (simp add: demo_process_def)

theorem reserved_route_registers_witness:
  "fst (reservation_commit NewRoute (demo_state 7) 4 (rx_cache (router_run 4 [RReserve 4 (demo_process 7)]))) = Ok () \<and>
   fst (adapter_for_state (demo_state 7) (rx_cache
     (router_step (router_run 4 [RReserve 4 (demo_process 7)]) (RCommit 0 (demo_state 7))))) = Ok 4"
proof -
  have run: "router_run 4 [RReserve 4 (demo_process 7)] =
      (router_machine_new 4)\<lparr>rx_cache := (router_new 4)\<lparr>rc_pending := 1\<rparr>, rx_reservations := [(NewRoute, 4)]\<rparr>"
    by (simp add: router_run_def router_machine_new_def router_new_def reserve_state_route_def
        demo_process_valid sat_add_def MAX_INSTANCE_ROUTES_def u64_max_def)
  have h: "rx_displaced (router_run 4 [RReserve 4 (demo_process 7)]) = 0"
    "0 < length (rx_reservations (router_run 4 [RReserve 4 (demo_process 7)]))"
    "rx_reservations (router_run 4 [RReserve 4 (demo_process 7)]) ! 0 = (NewRoute, 4)"
    and new: "rc_instances (rx_cache (router_run 4 [RReserve 4 (demo_process 7)])) = []"
    by (simp_all add: run router_machine_new_def router_new_def)
  from reserved_route_registers [OF h, of "demo_state 7"] new show ?thesis by simp
qed

section \<open>A reserved route that is lost\<close>

text \<open>
  \<open>record_instance_locked\<close> compares the number of routes with the limit and does not count the
  reservations. An operation whose backend process changed under it registers a route that
  nobody reserved, and the reservation of another operation is then refused at its commit,
  after the backend has done the work.
\<close>

definition fill_routes :: "nat \<Rightarrow> router_event list" where
  "fill_routes n = concat (map (\<lambda>i. [RReserve i (demo_process i), RCommit 0 (demo_state i)]) [0..<n])"

definition filled :: "nat \<Rightarrow> instance_route list" where
  "filled n = map (\<lambda>i. \<lparr>ir_instance_id = [256 + i], ir_adapter = i, ir_live_states = 1\<rparr>) [0..<n]"

definition filled_machine :: "nat \<Rightarrow> route_machine" where
  "filled_machine n = \<lparr>rx_cache = (router_new 0)\<lparr>rc_instances := filled n\<rparr>, rx_reservations = [],
     rx_owned = map (\<lambda>i. ([256 + i], i)) [0..<n], rx_displaced = 0\<rparr>"

lemma filled_new: "n \<le> m \<Longrightarrow> first_index (\<lambda>r. ir_instance_id r = [256 + m]) (filled n) = None"
  by (auto simp: first_index_None filled_def)

lemma filled_Suc: "filled (Suc n) = filled n @ [\<lparr>ir_instance_id = [256 + n], ir_adapter = n, ir_live_states = 1\<rparr>]"
  by (simp add: filled_def)

lemma length_filled [simp]: "length (filled n) = n"
  by (simp add: filled_def)

lemma fill_one:
  assumes "n < 1024"
  shows "run router_step (filled_machine n) [RReserve n (demo_process n), RCommit 0 (demo_state n)]
    = filled_machine (Suc n)"
  using assms filled_new [of n n]
  by (simp add: filled_machine_def reserve_state_route_def demo_process_valid router_new_def sat_add_def
      u64_max_def MAX_INSTANCE_ROUTES_def Let_def commit_new drop_reservation_route_def
      record_instance_locked_def displaced_kind_def filled_Suc remove_at_def)

lemma fill_run: "n \<le> 1024 \<Longrightarrow> router_run 0 (fill_routes n) = filled_machine n"
proof (induction n)
  case 0
  then show ?case
    by (simp add: router_run_def fill_routes_def filled_machine_def router_machine_new_def router_new_def filled_def)
next
  case (Suc n)
  have "router_run 0 (fill_routes (Suc n)) =
      run router_step (router_run 0 (fill_routes n)) [RReserve n (demo_process n), RCommit 0 (demo_state n)]"
    by (simp add: router_run_def fill_routes_def run_append)
  with Suc fill_one [of n] show ?case by simp
qed

text \<open>One less than the capacity.\<close>

definition spare :: nat where "spare = 1023"

lemma spare: "MAX_INSTANCE_ROUTES = Suc spare" "0 < spare" "spare \<le> 1024" "Suc spare \<le> u64_max"
    "n < 100 \<Longrightarrow> spare \<le> 2000 + n"
  by (simp_all add: spare_def MAX_INSTANCE_ROUTES_def u64_max_def)

definition losing_run :: "router_event list" where
  "losing_run = fill_routes spare
     @ [RReserve 0 (demo_process 0), RReserve 2000 (demo_process 2000), RCommit 0 (demo_state 2001)]"

definition filled_rest :: "instance_route list" where
  "filled_rest = map (\<lambda>i. \<lparr>ir_instance_id = [256 + i], ir_adapter = i, ir_live_states = 1\<rparr>) [1..<spare]"

lemma filled_front:
  "filled spare = \<lparr>ir_instance_id = [256], ir_adapter = 0, ir_live_states = 1\<rparr> # filled_rest"
proof -
  have "[0..<spare] = 0 # [1..<spare]" using spare(2) by (simp add: upt_conv_Cons)
  then show ?thesis by (simp add: filled_def filled_rest_def)
qed

lemma length_filled_rest [simp]: "Suc (length filled_rest) = spare"
  using spare(2) by (simp add: filled_rest_def)

lemma losing_run_machine:
  "router_run 0 losing_run = (filled_machine spare)\<lparr>
     rx_cache := (router_new 0)\<lparr>
       rc_instances := filled spare @ [\<lparr>ir_instance_id = [2257], ir_adapter = 0, ir_live_states = 1\<rparr>],
       rc_pending := 1\<rparr>,
     rx_reservations := [(NewRoute, 2000)],
     rx_owned := rx_owned (filled_machine spare) @ [([2257], 0)], rx_displaced := 1\<rparr>"
proof -
  let ?r = "\<lparr>ir_instance_id = [256], ir_adapter = 0, ir_live_states = 2\<rparr>"
  let ?one = "(filled_machine spare)\<lparr>rx_cache := (router_new 0)\<lparr>rc_instances := ?r # filled_rest\<rparr>,
        rx_reservations := [(ExistingRoute [256] 0, 0)]\<rparr>"
  let ?two = "?one\<lparr>rx_cache := (router_new 0)\<lparr>rc_instances := ?r # filled_rest, rc_pending := 1\<rparr>,
        rx_reservations := [(ExistingRoute [256] 0, 0), (NewRoute, 2000)]\<rparr>"
  have begun: "router_run 0 losing_run = run router_step (filled_machine spare)
      [RReserve 0 (demo_process 0), RReserve 2000 (demo_process 2000), RCommit 0 (demo_state 2001)]"
    using fill_run [OF spare(3)] by (simp add: losing_run_def router_run_def run_append)
  have step1: "router_step (filled_machine spare) (RReserve 0 (demo_process 0)) = ?one"
    using demo_process_valid [of 0]
    by (simp add: reserve_state_route_def filled_machine_def router_new_def filled_front
        Let_def checked_add_def u64_max_def)
  have fresh: "first_index (\<lambda>r. ir_instance_id r = [2256]) (filled spare) = None"
    and moved: "first_index (\<lambda>r. ir_instance_id r = [2257]) (filled spare) = None"
    using filled_new [of spare 2000] filled_new [of spare 2001] spare(5) [of 0] spare(5) [of 1] by simp_all
  from fresh have fresh': "first_index (\<lambda>r. ir_instance_id r = [2256]) (?r # filled_rest) = None"
    by (simp add: filled_front)
  have room: "sat_add (length (?r # filled_rest)) 0 = spare"
    using spare(4) by (simp add: sat_add_def)
  have step2: "router_step ?one (RReserve 2000 (demo_process 2000)) = ?two"
    using demo_process_valid [of 2000] fresh' room
    by (simp add: reserve_state_route_def filled_machine_def router_new_def spare(1) sat_add_def
        u64_max_def del: first_index.simps)
  have undone: "release_instance_locked [256] 0 ((router_new 0)\<lparr>rc_instances := ?r # filled_rest, rc_pending := 1\<rparr>) =
      (Ok (), (router_new 0)\<lparr>rc_instances := filled spare, rc_pending := 1\<rparr>)"
    by (simp add: release_instance_locked_def Let_def filled_front router_new_def)
  have step3: "router_step ?two (RCommit 0 (demo_state 2001)) = (filled_machine spare)\<lparr>
     rx_cache := (router_new 0)\<lparr>
       rc_instances := filled spare @ [\<lparr>ir_instance_id = [2257], ir_adapter = 0, ir_live_states = 1\<rparr>],
       rc_pending := 1\<rparr>,
     rx_reservations := [(NewRoute, 2000)],
     rx_owned := rx_owned (filled_machine spare) @ [([2257], 0)], rx_displaced := 1\<rparr>"
    using moved undone
    by (simp add: Let_def reservation_commit_def displaced_kind_def record_instance_locked_def
        spare(1) router_new_def remove_at_def filled_machine_def)
  show ?thesis unfolding begun run.simps step1 step2 step3 ..
qed

text \<open>
  C39. The reservation does not hold without that condition: after a run of the router in which
  one operation came back from a restarted backend, the commit of another operation's
  reserved new route is refused for capacity.
\<close>

theorem reserved_route_can_be_lost:
  "rx_reservations (router_run 0 losing_run) = [(NewRoute, 2000)] \<and>
   fst (reservation_commit NewRoute (demo_state 2000) 2000 (rx_cache (router_run 0 losing_run))) =
     Err route_capacity_exhausted"
proof -
  have "first_index (\<lambda>r. ir_instance_id r = [2256])
      (filled spare @ [\<lparr>ir_instance_id = [2257], ir_adapter = 0, ir_live_states = 1\<rparr>]) = None"
    using filled_new [of spare 2000] spare(5) [of 0] by (auto simp: first_index_None)
  then show ?thesis
    by (simp add: losing_run_machine reservation_commit_def record_instance_locked_def spare(1))
qed

section \<open>Operations that create a state\<close>

definition kind_claims :: "reservation_kind \<Rightarrow> (rstr \<times> nat) multiset" where
  "kind_claims k = (case k of ExistingRoute i a \<Rightarrow> {#(i, a)#} | NewRoute \<Rightarrow> {#})"

definition kind_pending :: "reservation_kind \<Rightarrow> nat" where
  "kind_pending k = (case k of ExistingRoute i a \<Rightarrow> 0 | NewRoute \<Rightarrow> 1)"

text \<open>The tables hold the claims \<open>M\<close> and \<open>p\<close> pending routes, and no more.\<close>

definition held_exactly :: "(rstr \<times> nat) multiset \<Rightarrow> nat \<Rightarrow> route_cache \<Rightarrow> bool" where
  "held_exactly M p rc \<longleftrightarrow> instances_ok (rc_instances rc) \<and> claims (rc_instances rc) = M \<and> rc_pending rc = p"

lemma reserve_accounts:
  assumes "held_exactly M p rc" "reserve_state_route a d rc = (r, rc')"
  shows "case r of Ok k \<Rightarrow> held_exactly (kind_claims k + M) (kind_pending k + p) rc'
      \<and> (\<forall>i b. k = ExistingRoute i b \<longrightarrow> b = a)
    | _ \<Rightarrow> held_exactly M p rc'"
proof -
  have ok: "instances_ok (rc_instances rc)" using assms(1) by (simp add: held_exactly_def)
  from assms(2) ok show ?thesis
  proof (cases rule: reserve_route_cases)
    case (existing rs)
    with assms(1) show ?thesis by (simp add: held_exactly_def kind_claims_def kind_pending_def)
  next
    case fresh
    then have "sat_add (rc_pending rc) 1 = Suc (rc_pending rc)"
      by (simp add: sat_add_def u64_max_def MAX_INSTANCE_ROUTES_def)
    with fresh assms(1) show ?thesis by (simp add: held_exactly_def kind_claims_def kind_pending_def)
  next
    case refused
    with assms(1) show ?thesis by (cases r) simp_all
  qed
qed

lemma drop_accounts:
  assumes "held_exactly (kind_claims k + M) (kind_pending k + p) rc"
  shows "held_exactly M p (drop_reservation_route k rc)"
    and "k = ExistingRoute i b \<Longrightarrow> release_instance_locked i b rc = (Ok (), drop_reservation_route k rc)"
proof -
  have ok: "instances_ok (rc_instances rc)" using assms by (simp add: held_exactly_def)
  have rel: "release_instance_locked i b rc = (Ok (), drop_reservation_route k rc)
      \<and> held_exactly M p (drop_reservation_route k rc)" if k: "k = ExistingRoute i b" for i b
  proof -
    obtain r rc' where x: "release_instance_locked i b rc = (r, rc')" by force
    from x ok show ?thesis
    proof (cases rule: release_instance_cases)
      case (released rs)
      with x k assms show ?thesis
        by (simp add: held_exactly_def kind_claims_def kind_pending_def drop_reservation_route_def)
    next
      case unknown
      with k assms show ?thesis by (simp add: held_exactly_def kind_claims_def)
    qed
  qed
  then show "k = ExistingRoute i b \<Longrightarrow> release_instance_locked i b rc = (Ok (), drop_reservation_route k rc)"
    by blast
  show "held_exactly M p (drop_reservation_route k rc)"
  proof (cases k)
    case NewRoute
    with assms show ?thesis
      by (simp add: held_exactly_def kind_claims_def kind_pending_def drop_reservation_route_def)
  qed (use rel in blast)
qed

lemma commit_accounts:
  assumes acc: "held_exactly (kind_claims k + M) (kind_pending k + p) rc"
    and own: "\<forall>i b. k = ExistingRoute i b \<longrightarrow> b = a"
    and x: "reservation_commit k st a rc = (r, rc')"
  shows "(r = Ok () \<and> held_exactly (add_mset (instance_id st, a) M) p rc') \<or> ((\<exists>e. r = Err e) \<and> held_exactly M p rc')"
proof (cases "displaced_kind k st a \<or> k = NewRoute")
  case True
  let ?rc = "drop_reservation_route k rc"
  have acc': "held_exactly M p ?rc" by (rule drop_accounts(1) [OF acc])
  have c: "record_instance_locked (instance_id st) a ?rc = (r, rc')"
    using True commit_displaced [of k st a rc] drop_accounts(2) [OF acc] commit_new [of st a rc] x by auto
  have "instances_ok (rc_instances ?rc)" using acc' by (simp add: held_exactly_def)
  with c show ?thesis
  proof (cases rule: record_instance_cases)
    case (recorded rs)
    with acc' show ?thesis by (simp add: held_exactly_def)
  next
    case (refused e)
    with acc' show ?thesis by simp
  qed
next
  case False
  then obtain i where "k = ExistingRoute i a" "instance_id st = i"
    using own by (auto simp: displaced_kind_def split: reservation_kind.splits)
  with x acc show ?thesis by (auto simp: reservation_commit_def kind_claims_def kind_pending_def)
qed

text \<open>
  C12. Every operation that creates a state (prefill, decode, restore, snapshot, move) accounts
  for it exactly: when it returns a state, that state is routed to the adapter that made it and
  the adapter holds one claim more; when it fails in any way, or returns no state, the claims
  and the pending routes are those from before.
\<close>

theorem state_operation_accounting:
  assumes "with_state_route ad a call state_of (rx_cache (router_run initial es)) w = (r, rc, w')"
  shows "rc_pending rc = rc_pending (rx_cache (router_run initial es)) \<and>
    (case r of
       Ok x \<Rightarrow>
         (case state_of x of
            Some st \<Rightarrow> claims (rc_instances rc) =
                add_mset (instance_id st, a) (claims (rc_instances (rx_cache (router_run initial es))))
              \<and> fst (adapter_for_state st rc) = Ok a
          | None \<Rightarrow> claims (rc_instances rc) = claims (rc_instances (rx_cache (router_run initial es))))
     | _ \<Rightarrow> claims (rc_instances rc) = claims (rc_instances (rx_cache (router_run initial es))))"
proof -
  let ?rc = "rx_cache (router_run initial es)"
  let ?M = "claims (rc_instances ?rc)" and ?p = "rc_pending ?rc"
  have acc: "held_exactly ?M ?p ?rc"
    using router_run_inv [of initial es] by (simp add: held_exactly_def router_inv_def route_tables_ok_def)
  obtain r1 rc1 where x1: "reserve_state_route a (ad_descriptor ad w) ?rc = (r1, rc1)" by force
  note res = reserve_accounts [OF acc x1]
  have same: "held_exactly ?M ?p rc \<and> \<not> is_ok r \<Longrightarrow> ?thesis" by (cases r) (auto simp: held_exactly_def)
  show ?thesis
  proof (cases r1)
    case (Ok k)
    with res have held: "held_exactly (kind_claims k + ?M) (kind_pending k + ?p) rc1"
      and own: "\<forall>i b. k = ExistingRoute i b \<longrightarrow> b = a" by auto
    note dropped = drop_accounts(1) [OF held]
    obtain r2 w2 where x2: "call w = (r2, w2)" by force
    show ?thesis
    proof (cases r2)
      case (Ok y)
      show ?thesis
      proof (cases "state_of y")
        case None
        with assms x1 x2 \<open>r1 = Ok k\<close> Ok dropped show ?thesis
          by (auto simp: with_state_route_def held_exactly_def)
      next
        case (Some st)
        obtain r3 rc3 where x3: "reservation_commit k st a rc1 = (r3, rc3)" by force
        from commit_accounts [OF held own x3] show ?thesis
        proof
          assume c: "r3 = Ok () \<and> held_exactly (add_mset (instance_id st, a) ?M) ?p rc3"
          with assms x1 x2 x3 \<open>r1 = Ok k\<close> Ok Some have "r = Ok y" "rc = rc3"
            by (auto simp: with_state_route_def commit_state_route_def)
          moreover from c have "fst (adapter_for_state st rc3) = Ok a"
            by (simp add: held_exactly_def adapter_for_state_iff)
          ultimately show ?thesis using c Some by (simp add: held_exactly_def)
        next
          assume c: "(\<exists>e. r3 = Err e) \<and> held_exactly ?M ?p rc3"
          with assms x1 x2 x3 \<open>r1 = Ok k\<close> Ok Some have "\<not> is_ok r" "rc = rc3"
            by (auto simp: with_state_route_def commit_state_route_def split: res.splits prod.splits)
          with c same show ?thesis by blast
        qed
      qed
    qed (use assms x1 x2 \<open>r1 = Ok k\<close> dropped in \<open>auto simp: with_state_route_def held_exactly_def\<close>)
  qed (use assms x1 res in \<open>auto simp: with_state_route_def held_exactly_def\<close>)
qed

definition demo_adapter :: "nat \<Rightarrow> (unit, unit) adapter" where
  "demo_adapter i = (default_adapter (\<lambda>_. demo_process i))
     \<lparr>ad_snapshot := (\<lambda>st w. (Ok (demo_state i), w))\<rparr>"

lemma demo_adapter_simps [simp]:
  "ad_descriptor (demo_adapter i) w = demo_process i"
  "ad_snapshot (demo_adapter i) st w = (Ok (demo_state i), w)"
  "ad_release (demo_adapter i) st w = (Ok (), w)"
  by (simp_all add: demo_adapter_def default_adapter_def)

theorem state_operation_accounting_witness:
  "fst (adapter_for_state (demo_state 7) (fst (snd
     (with_state_route (demo_adapter 7) 4 (ad_snapshot (demo_adapter 7) (demo_state 9)) Some
       (rx_cache (router_run 0 [])) ())))) = Ok 4"
proof -
  have "with_state_route (demo_adapter 7) 4 (ad_snapshot (demo_adapter 7) (demo_state 9)) Some
      (rx_cache (router_run 0 [])) () = (Ok (demo_state 7), (router_new 0)\<lparr>rc_instances :=
        [\<lparr>ir_instance_id = [263], ir_adapter = 4, ir_live_states = 1\<rparr>]\<rparr>, ())"
    by (simp add: with_state_route_def router_run_def router_machine_new_def router_new_def
        reserve_state_route_def demo_process_valid sat_add_def MAX_INSTANCE_ROUTES_def u64_max_def
        commit_state_route_def commit_new drop_reservation_route_def record_instance_locked_def)
  from state_operation_accounting [OF this] this show ?thesis by simp
qed

section \<open>Plans\<close>

lemma routed_bind_Ok:
  "routed_bind p f = (Ok b, rc, w) \<longleftrightarrow> (\<exists>a rc' w'. p = (Ok a, rc', w') \<and> f a rc' w' = (Ok b, rc, w))"
proof -
  obtain r rc' w' where "p = (r, rc', w')" by (cases p)
  then show ?thesis by (cases r) auto
qed

lemma check_only_Ok [simp]: "check_only r rc w = (Ok a, rc', w') \<longleftrightarrow> r = Ok a \<and> rc' = rc \<and> w' = w"
  by (auto simp: check_only_def)

lemma on_adapter_Ok: "on_adapter p rc = (Ok a, rc', w') \<longleftrightarrow> p = (Ok a, w') \<and> rc' = rc"
  by (cases p) (auto simp: on_adapter_def)

lemma prepare_plan_Ok:
  assumes "prepare_plan ad binding m sn expected w = (Ok p, w')"
  shows "ps_binding p = binding \<and> ps_expected p = expected \<and> ps_snapshot_identity p = sn_identity sn
    \<and> ps_snapshot_bytes p = sn_bytes sn \<and> ps_descriptor p = ad_descriptor ad w'
    \<and> pr_compatibility (ps_resolution p) = expected \<and> validate_runtime_descriptor (ps_descriptor p) = Ok ()"
  using assms by (auto simp: prepare_plan_def res_bind_Ok persisted_plan_new_def plan_descriptor_current_def
      Let_def split: prod.splits res.splits)

lemma with_state_route_Ok:
  assumes "with_state_route ad a call state_of rc w = (Ok x, rc', w')"
  shows "\<exists>w''. call w = (Ok x, w'')"
  using assms by (auto simp: with_state_route_def split: prod.splits res.splits option.splits)

text \<open>
  C18. A plan to restore a persisted state is bound to what it was prepared for. If it was
  prepared through the router and restoring it succeeds, at any later time and whatever the
  tables hold by then, then the snapshot, its size and the envelope are those of the
  preparation, the adapter that was asked then is the one that restores, and its descriptor,
  process identity included, is unchanged.
\<close>

theorem restore_bound_to_preparation:
  assumes "routed_prepare_persisted env m sn expected rc w = (Ok p, rc1, w1)"
    and "routed_restore_prepared env p sn' expected' rc2 w2 = (Ok st, rc3, w3)"
  shows "sn' = sn \<and> expected' = expected \<and>
    (\<exists>a w4. ps_binding p = RoutedBinding a \<and>
      ad_descriptor (re_heap env a) w2 = ad_descriptor (re_heap env a) w1 \<and>
      ad_restore (re_heap env a) sn expected w2 = (Ok st, w4))"
proof -
  from assms(1) obtain a w0 where prep: "prepare_plan (re_heap env a) (RoutedBinding a) m sn expected w0 = (Ok p, w1)"
    by (auto simp: routed_prepare_persisted_def routed_bind_Ok on_adapter_Ok recorded_compatibility_def)
  note plan = prepare_plan_Ok [OF prep]
  from assms(2) plan obtain
    v: "validate_restore p sn' expected' = Ok ()"
    and d: "plan_descriptor_current p (ad_descriptor (re_heap env a) w2) = Ok ()"
    and c: "with_state_route (re_heap env a) a (ad_restore (re_heap env a) sn' expected') Some rc2 w2 = (Ok st, rc3, w3)"
    by (auto simp: routed_restore_prepared_def routed_bind_Ok routed_adapter_def)
  from v plan have same: "sn' = sn" "expected' = expected"
    by (auto simp: validate_restore_def res_bind_Ok)
  from with_state_route_Ok [OF c] obtain w4 where "ad_restore (re_heap env a) sn' expected' w2 = (Ok st, w4)" by blast
  with same plan d show ?thesis by (auto simp: plan_descriptor_current_def res_bind_Ok)
qed

text \<open>
  An expert action that reaches a backend through a prepared plan was permitted: the
  request is the one that was prepared, for the model of the manifest, the backend's current
  descriptor is valid, and it declares expert residency as supported, or as experimental with
  the opt-in of the request. Externally managed residency is never controlled.
\<close>

theorem expert_action_permitted:
  assumes "routed_prepare_expert_action env m r rc w = (Ok p, rc1, w1)"
    and "into_routed_action (\<lambda>a. ad_descriptor (re_heap env a) w2) p = Ok (a, r')"
  shows "r' = r \<and> rm_id m = xq_model_id r \<and>
    validate_runtime_descriptor (ad_descriptor (re_heap env a) w2) = Ok () \<and>
    expert_permitted (ad_descriptor (re_heap env a) w2) (xq_allow_experimental r) True"
proof -
  from assms(1) obtain b d where p: "p = \<lparr>ep_manifest = Some m, ep_descriptor = d,
        ep_operation = ActionOperation r, ep_binding = RoutedBinding b\<rparr>"
    and m: "rm_id m = xq_model_id r" and cap: "require_expert_capability d (xq_allow_experimental r) True = Ok ()"
    by (auto simp: routed_prepare_expert_action_def routed_bind_Ok expert_plan_action_def res_bind_Ok
        validate_expert_manifest_binding_def)
  from assms(2) p have "a = b" "r' = r" "ad_descriptor (re_heap env b) w2 = d"
    by (auto simp: into_routed_action_def res_bind_Ok bound_adapter_def planned_request_def
        expert_descriptor_current_def)
  with m require_expert_capability_Ok [OF cap] show ?thesis by simp
qed

section \<open>A backend to try the plans on\<close>

definition demo_envelope :: compatibility_envelope where
  "demo_envelope = \<lparr>ce_model_fingerprint = [65], ce_tokenizer_fingerprint = [65], ce_prompt_fingerprint = [65],
     ce_chat_template_fingerprint = None, ce_backend = [65], ce_backend_version = [65],
     ce_runtime_adapter_version = [65], ce_accelerator_family = [65], ce_tensor_dtype = [65],
     ce_kv_dtype = [65], ce_quantization = [65], ce_cache_layout = [65], ce_block_size = None,
     ce_context = \<lparr>cx_context_size = 1, cx_batch_size = None, cx_rope_configuration_fingerprint = None\<rparr>,
     ce_multimodal_processor_fingerprints = [], ce_producer_protocol = version_V1\<rparr>"

lemma letter_valid [simp]: "\<not> invalid_bounded_text [65]"
  by (simp add: invalid_bounded_text_def trim_id is_whitespace_def is_control_def str_len_def
      utf8_width_def MAX_COMPATIBILITY_FIELD_BYTES_def)

lemma demo_envelope_valid [simp]: "validate_compatibility_envelope demo_envelope = Ok ()"
  by (simp add: validate_compatibility_envelope_def demo_envelope_def optional_invalid_def
      MAX_COMPATIBILITY_MULTIMODAL_PROCESSORS_def)

definition demo_experts :: capability where
  "demo_experts = \<lparr>ca_id = EXPERTS_CAPABILITY, ca_status = Experimental, ca_detail = [65], ca_operations = []\<rparr>"

definition demo_expert_process :: runtime_descriptor where
  "demo_expert_process = (demo_process 7)\<lparr>rd_capabilities := [demo_experts]\<rparr>"

lemma experts_capability_text: "\<not> invalid_bounded_text EXPERTS_CAPABILITY" "str_len EXPERTS_CAPABILITY = 25"
proof -
  have letters: "EXPERTS_CAPABILITY = [114,117,110,116,105,109,101,46,101,120,112,101,114,116,115,46,114,101,115,105,100,101,110,99,121]"
    by (simp add: EXPERTS_CAPABILITY_def lit_def)
  show "\<not> invalid_bounded_text EXPERTS_CAPABILITY" "str_len EXPERTS_CAPABILITY = 25"
    unfolding letters by (simp_all add: invalid_bounded_text_def trim_id is_whitespace_def is_control_def str_len_def
        utf8_width_def MAX_COMPATIBILITY_FIELD_BYTES_def)
qed

lemma demo_expert_process_valid [simp]: "validate_runtime_descriptor demo_expert_process = Ok ()"
proof -
  have "trim [65] = [65]" "str_len [65] = 1" "str_len [263] = 2"
    by (simp_all add: trim_id is_whitespace_def str_len_def utf8_width_def)
  then show ?thesis
    using demo_process_valid [of 7] experts_capability_text
    by (simp add: validate_descriptor_iff descriptor_well_formed_def identity_texts_def demo_expert_process_def
        demo_process_def declared_size_def text_size_def capability_size_def capability_invalid_def
        demo_experts_def is_control_def backend_limits)
qed

definition demo_restorer :: "(unit, unit) adapter" where
  "demo_restorer = (default_adapter (\<lambda>_. demo_expert_process))
     \<lparr>ad_resolve := (\<lambda>_ _ c w. (Ok \<lparr>pr_compatibility = c, pr_scope = CrossRestart\<rparr>, w)),
      ad_restore := (\<lambda>_ _ w. (Ok (demo_state 7), w))\<rparr>"

lemma demo_restorer_simps [simp]:
  "ad_descriptor demo_restorer w = demo_expert_process"
  "ad_resolve demo_restorer m sn c w = (Ok \<lparr>pr_compatibility = c, pr_scope = CrossRestart\<rparr>, w)"
  "ad_restore demo_restorer sn c w = (Ok (demo_state 7), w)"
  "ad_restore_requirement demo_restorer sn c w = (Ok None, w)"
  "ad_release demo_restorer st w = (Ok (), w)"
  by (simp_all add: demo_restorer_def default_adapter_def)

definition demo_env :: "(unit, unit) routing_env" where
  "demo_env = \<lparr>re_heap = (\<lambda>_. demo_restorer), re_fingerprint = (\<lambda>_. Ok [1]),
     re_select = (\<lambda>_ rc w. (Some 3, rc, w)), re_select_request = (\<lambda>_ _ rc w. (Some 3, rc, w))\<rparr>"

definition demo_runtime_manifest :: "unit runtime_manifest" where
  "demo_runtime_manifest = \<lparr>rm_id = [65], rm_fields = ()\<rparr>"

definition demo_snapshot :: snapshot where "demo_snapshot = \<lparr>sn_identity = 11, sn_bytes = 5\<rparr>"

lemma demo_model_route: "adapter_for_model demo_env demo_runtime_manifest (router_new 0) () =
    (Ok 3, (router_new 0)\<lparr>rc_models := [\<lparr>mt_model_id = [65], mt_manifest_fingerprint = [1],
       mt_has_images = False, mt_adapter = 3\<rparr>]\<rparr>, ())"
  by (simp add: adapter_for_model_def resolve_model_route_def demo_env_def cached_model_adapter_def
      keep_selected_def router_new_def demo_runtime_manifest_def push_bounded_def MAX_MODEL_ROUTES_def)

theorem restore_bound_to_preparation_witness:
  "\<exists>p rc1. routed_prepare_persisted demo_env demo_runtime_manifest demo_snapshot demo_envelope (router_new 0) () = (Ok p, rc1, ())
     \<and> ps_binding p = RoutedBinding 3
     \<and> fst (routed_restore_prepared demo_env p demo_snapshot demo_envelope (router_new 0) ()) = Ok (demo_state 7)"
proof -
  let ?p = "persisted_plan_new \<lparr>pr_compatibility = demo_envelope, pr_scope = CrossRestart\<rparr> demo_expert_process
      None demo_snapshot demo_envelope (RoutedBinding 3)"
  have route: "compatibility_route_for_model [65] demo_envelope (router_new 0) = (Err incompatible_route, router_new 0)"
    by (simp add: compatibility_route_for_model_def router_new_def last_index_def)
  have heap: "re_heap demo_env a = demo_restorer" for a by (simp add: demo_env_def)
  have prep: "prepare_plan demo_restorer (RoutedBinding 3) demo_runtime_manifest demo_snapshot demo_envelope () = (Ok ?p, ())"
    by (simp add: prepare_plan_def plan_descriptor_current_def persisted_plan_new_def Let_def envelope_checked_def
        ensure_def validate_compatibility_def mismatch_fields_Nil)
  have "\<exists>rc1. routed_prepare_persisted demo_env demo_runtime_manifest demo_snapshot demo_envelope (router_new 0) () =
      (Ok ?p, rc1, ())"
    using route heap prep demo_model_route
    by (simp add: routed_prepare_persisted_def check_only_def envelope_checked_def persisted_adapter_def
        demo_runtime_manifest_def incompatible_route_def on_adapter_def recorded_compatibility_def)
  then obtain rc1 where one: "routed_prepare_persisted demo_env demo_runtime_manifest demo_snapshot demo_envelope (router_new 0) () =
      (Ok ?p, rc1, ())" by blast
  have new: "record_instance_locked [263] 3 (router_new 0) = (Ok (), (router_new 0)\<lparr>rc_instances :=
      [\<lparr>ir_instance_id = [263], ir_adapter = 3, ir_live_states = 1\<rparr>]\<rparr>)"
    by (simp add: record_instance_locked_def router_new_def MAX_INSTANCE_ROUTES_def)
  have res: "reserve_state_route 3 demo_expert_process (router_new 0) = (Ok NewRoute, (router_new 0)\<lparr>rc_pending := 1\<rparr>)"
    by (simp add: reserve_state_route_def router_new_def sat_add_def u64_max_def MAX_INSTANCE_ROUTES_def)
  have zero: "(router_new 0)\<lparr>rc_pending := 0\<rparr> = router_new 0" by (simp add: router_new_def)
  have "\<exists>rc3. routed_restore_prepared demo_env ?p demo_snapshot demo_envelope (router_new 0) () = (Ok (demo_state 7), rc3, ())"
    using heap new res zero
    by (simp add: routed_restore_prepared_def check_only_def validate_restore_def persisted_plan_new_def
        envelope_checked_def validate_compatibility_def mismatch_fields_Nil ensure_def routed_adapter_def
        plan_descriptor_current_def with_state_route_def commit_state_route_def commit_new drop_reservation_route_def)
  then obtain rc3 where two: "routed_restore_prepared demo_env ?p demo_snapshot demo_envelope (router_new 0) () =
      (Ok (demo_state 7), rc3, ())" by blast
  from restore_bound_to_preparation [OF one two] one two show ?thesis
    by (auto simp: persisted_plan_new_def)
qed

definition demo_expert_request :: expert_request where
  "demo_expert_request = \<lparr>xq_model_id = [65], xq_expert_ids = [], xq_action = PinAction, xq_target_tier = None,
     xq_allow_experimental = True\<rparr>"

theorem expert_action_permitted_witness:
  "expert_permitted demo_expert_process True True"
proof -
  let ?p = "\<lparr>ep_manifest = Some demo_runtime_manifest, ep_descriptor = demo_expert_process,
      ep_operation = ActionOperation demo_expert_request, ep_binding = RoutedBinding 3\<rparr>"
  have heap: "re_heap demo_env a = demo_restorer" for a by (simp add: demo_env_def)
  have cap: "require_expert_capability demo_expert_process True True = Ok ()"
    by (simp add: require_expert_capability_def) (simp add: demo_expert_process_def demo_experts_def)
  obtain rc1 where one: "routed_prepare_expert_action demo_env demo_runtime_manifest demo_expert_request (router_new 0) () =
      (Ok ?p, rc1, ())"
    using demo_model_route heap cap
    by (simp add: routed_prepare_expert_action_def check_only_def expert_plan_action_def
        validate_expert_manifest_binding_def ensure_def demo_runtime_manifest_def demo_expert_request_def)
  have two: "into_routed_action (\<lambda>a. ad_descriptor (re_heap demo_env a) ()) ?p = Ok (3, demo_expert_request)"
    using heap by (simp add: into_routed_action_def validate_bound_expert_operation_def
        validate_expert_manifest_binding_def ensure_def demo_runtime_manifest_def demo_expert_request_def
        bound_adapter_def expert_descriptor_current_def planned_request_def)
  from expert_action_permitted [OF one two] show ?thesis by (simp add: heap demo_expert_request_def)
qed

section \<open>Descriptors\<close>

text \<open>
  C40. A descriptor is accepted exactly when its five identity fields and its capabilities are
  bounded printable texts, the capabilities are distinct and within their limits, and the plain
  sum that bounds its encoded size is at most four MiB; the saturating and checked arithmetic
  of the running estimate never changes that verdict.
\<close>

theorem descriptor_validation_exact:
  "validate_runtime_descriptor d = Ok () \<longleftrightarrow>
     descriptor_well_formed d \<and> declared_size d \<le> MAX_ENCODED_RUNTIME_DESCRIPTOR_BYTES"
  by (rule validate_descriptor_iff)

end
