(* ===== verification/Schema_Tables.thy ===== *)
theory Schema_Tables
  imports Inference_Resolution Rust_Text
begin

text \<open>
  The tables of parameter descriptors (\<open>src/src/inference/schema/\<close>): the builders of
  \<open>builders.rs\<close>, the routing, image, video and audio tables, and the defaults of the tasks
  and model families of \<open>defaults.rs\<close>. A vector that the code fills in place is the list
  passed on, and \<open>retain\<close> is a filter.
\<close>

section \<open>Builders\<close>

definition SPECIAL_FLAGS :: "((rstr \<times> rstr) \<times> rstr) list" where
  "SPECIAL_FLAGS =
     [((lit ''image'', lit ''controls''), lit ''image-control''),
      ((lit ''image'', lit ''reference_images''), lit ''reference-image''),
      ((lit ''image'', lit ''loras''), lit ''image-lora''),
      ((lit ''image'', lit ''adapters''), lit ''image-adapter''),
      ((lit ''image'', lit ''sigmas''), lit ''sigma''),
      ((lit ''image'', lit ''post_upscaling''), lit ''post-upscale''),
      ((lit ''video'', lit ''controls''), lit ''video-control''),
      ((lit ''video'', lit ''reference_images''), lit ''reference-image''),
      ((lit ''video'', lit ''camera_keyframes''), lit ''video-camera-keyframe''),
      ((lit ''video'', lit ''prompt_keyframes''), lit ''video-prompt-keyframe''),
      ((lit ''video'', lit ''guidance_schedule''), lit ''video-guidance-schedule''),
      ((lit ''video'', lit ''denoise_schedule''), lit ''video-denoise-schedule''),
      ((lit ''video'', lit ''adapters''), lit ''video-adapter''),
      ((lit ''video'', lit ''adapter_schedule''), lit ''video-adapter-schedule''),
      ((lit ''video'', lit ''sigmas''), lit ''sigma''),
      ((lit ''video'', lit ''looping''), lit ''loop''),
      ((lit ''audio'', lit ''genres''), lit ''genre''),
      ((lit ''audio'', lit ''subgenres''), lit ''subgenre''),
      ((lit ''audio'', lit ''styles''), lit ''style''),
      ((lit ''audio'', lit ''eras''), lit ''era''),
      ((lit ''audio'', lit ''influences''), lit ''influence''),
      ((lit ''audio'', lit ''moods''), lit ''mood''),
      ((lit ''audio'', lit ''themes''), lit ''theme''),
      ((lit ''audio'', lit ''descriptors''), lit ''descriptor''),
      ((lit ''audio'', lit ''tempo_min''), lit ''bpm-min''),
      ((lit ''audio'', lit ''tempo_max''), lit ''bpm-max''),
      ((lit ''audio'', lit ''instruments''), lit ''music-instrument''),
      ((lit ''audio'', lit ''excluded_instruments''), lit ''excluded-instrument''),
      ((lit ''audio'', lit ''rhythm_instruments''), lit ''rhythm-instrument''),
      ((lit ''audio'', lit ''register''), lit ''vocal-register''),
      ((lit ''audio'', lit ''range''), lit ''vocal-range''),
      ((lit ''audio'', lit ''language''), lit ''vocal-language''),
      ((lit ''audio'', lit ''accent''), lit ''vocal-accent''),
      ((lit ''audio'', lit ''delivery''), lit ''vocal-delivery''),
      ((lit ''audio'', lit ''emotion''), lit ''vocal-emotion''),
      ((lit ''audio'', lit ''power''), lit ''vocal-power''),
      ((lit ''audio'', lit ''mix_controls''), lit ''music-mix-control''),
      ((lit ''audio'', lit ''mastering_controls''), lit ''music-mastering-control''),
      ((lit ''audio'', lit ''stems''), lit ''stem''),
      ((lit ''tts'', lit ''pronunciation_dictionaries''), lit ''pronunciation-dictionary''),
      ((lit ''tts'', lit ''loudness''), lit ''loudness-lufs''),
      ((lit ''stt'', lit ''temperature_fallbacks''), lit ''temperature-fallback''),
      ((lit ''stt'', lit ''hotwords''), lit ''hotword''),
      ((lit ''stt'', lit ''suppress_tokens''), lit ''suppress-token''),
      ((lit ''stt'', lit ''operation''), lit ''task''),
      ((lit ''stt'', lit ''input_audio''), lit ''input'')]"

definition cli_flag_for_parameter :: "rstr \<Rightarrow> rstr \<Rightarrow> rstr" where
  "cli_flag_for_parameter namespace name =
     (let special = (case map_of SPECIAL_FLAGS (namespace, name) of
            Some flag \<Rightarrow> Some flag
          | None \<Rightarrow> if name = lit ''output_path'' then Some (lit ''output'') else None)
      in lit ''--'' @ replace_char 95 45 (case special of Some flag \<Rightarrow> flag | None \<Rightarrow> name))"

text \<open>Only a first character of one byte is a slice of the string that can be upper-cased.\<close>

definition humanize :: "rstr \<Rightarrow> rstr" where
  "humanize name =
     (case replace_char 95 32 name of
        [] \<Rightarrow> []
      | c # s \<Rightarrow> (if c < 128 then ascii_upper c else c) # s)"

definition MEMORY_NEEDLES :: "rstr list" where
  "MEMORY_NEEDLES =
     [lit ''width'', lit ''height'', lit ''frames'', lit ''batch'', lit ''tile'',
      lit ''offload'', lit ''precision'', lit ''quantization'', lit ''context'',
      lit ''chunk'', lit ''stems'', lit ''compile'']"

definition QUALITY_NEEDLES :: "rstr list" where
  "QUALITY_NEEDLES =
     [lit ''steps'', lit ''guidance'', lit ''sampler'', lit ''scheduler'', lit ''strength'',
      lit ''adherence'', lit ''quality'', lit ''precision'', lit ''bitrate'',
      lit ''sample_rate'', lit ''crf'']"

definition RUNTIME_NEEDLES :: "rstr list" where
  "RUNTIME_NEEDLES =
     [lit ''steps'', lit ''sampler'', lit ''scheduler'', lit ''duration'', lit ''fps'',
      lit ''interpolation'', lit ''upscal'', lit ''compile'']"

definition affects_memory :: "rstr \<Rightarrow> bool" where
  "affects_memory name = list_ex (\<lambda>needle. contains_str needle name) MEMORY_NEEDLES"

definition affects_quality :: "rstr \<Rightarrow> bool" where
  "affects_quality name = list_ex (\<lambda>needle. contains_str needle name) QUALITY_NEEDLES"

definition affects_runtime :: "rstr \<Rightarrow> bool" where
  "affects_runtime name =
     (affects_memory name \<or> list_ex (\<lambda>needle. contains_str needle name) RUNTIME_NEEDLES)"

definition named_default :: "parameter_type \<Rightarrow> parameter_value" where
  "named_default t =
     (case t of TBoolean \<Rightarrow> PBoolean False | TList \<Rightarrow> PList [] | _ \<Rightarrow> PNull)"

definition named_descriptor :: "rstr \<Rightarrow> rstr \<Rightarrow> rstr \<Rightarrow> parameter_type \<Rightarrow> parameter_descriptor" where
  "named_descriptor namespace category name t =
     \<lparr>pd_path = namespace @ lit ''.'' @ name,
      pd_cli_flag = cli_flag_for_parameter namespace name,
      pd_value_type = t,
      pd_label = humanize name,
      pd_description = lit ''Normalized '' @ namespace @ lit '' parameter '' @ humanize name,
      pd_category = category,
      pd_default = Some (named_default t),
      pd_minimum = None, pd_maximum = None, pd_step = None,
      pd_allowed_values = [],
      pd_repeatable = (t = TList),
      pd_list_override_operations =
        (if t = TList then [lit ''inherit'', lit ''replace'', lit ''add'', lit ''clear''] else []),
      pd_advanced = True,
      pd_affects_memory = affects_memory name,
      pd_affects_quality = affects_quality name,
      pd_affects_runtime = affects_runtime name\<rparr>"

definition add_named_descriptors ::
  "parameter_descriptor list \<Rightarrow> rstr \<Rightarrow> rstr \<Rightarrow> (rstr \<times> parameter_type) list \<Rightarrow> parameter_descriptor list"
where
  "add_named_descriptors values namespace category specs =
     values @ map (\<lambda>(name, t). named_descriptor namespace category name t) specs"

definition string_descriptor ::
  "rstr \<Rightarrow> rstr \<Rightarrow> rstr \<Rightarrow> rstr \<Rightarrow> rstr \<Rightarrow> rstr option \<Rightarrow> parameter_descriptor"
where
  "string_descriptor path cli_flag label description category dflt =
     \<lparr>pd_path = path, pd_cli_flag = cli_flag, pd_value_type = TString, pd_label = label,
      pd_description = description, pd_category = category,
      pd_default = map_option PString dflt,
      pd_minimum = None, pd_maximum = None, pd_step = None, pd_allowed_values = [],
      pd_repeatable = False, pd_list_override_operations = [],
      pd_advanced = (category = lit ''routing''),
      pd_affects_memory = affects_memory path,
      pd_affects_quality = affects_quality path,
      pd_affects_runtime = affects_runtime path\<rparr>"

definition enum_descriptor ::
  "rstr \<Rightarrow> rstr \<Rightarrow> rstr \<Rightarrow> rstr \<Rightarrow> rstr \<Rightarrow> rstr \<Rightarrow> rstr list \<Rightarrow> parameter_descriptor"
where
  "enum_descriptor path cli_flag label description category dflt allowed =
     (string_descriptor path cli_flag label description category (Some dflt))
       \<lparr>pd_value_type := TEnumeration, pd_allowed_values := map PString allowed\<rparr>"

definition bool_descriptor ::
  "rstr \<Rightarrow> rstr \<Rightarrow> rstr \<Rightarrow> rstr \<Rightarrow> rstr \<Rightarrow> bool \<Rightarrow> parameter_descriptor"
where
  "bool_descriptor path cli_flag label description category dflt =
     \<lparr>pd_path = path, pd_cli_flag = cli_flag, pd_value_type = TBoolean, pd_label = label,
      pd_description = description, pd_category = category,
      pd_default = Some (PBoolean dflt),
      pd_minimum = None, pd_maximum = None, pd_step = None, pd_allowed_values = [],
      pd_repeatable = False, pd_list_override_operations = [],
      pd_advanced = (category = lit ''routing'' \<or> category = lit ''memory''),
      pd_affects_memory = affects_memory path,
      pd_affects_quality = affects_quality path,
      pd_affects_runtime = affects_runtime path\<rparr>"

definition number_descriptor ::
  "rstr \<Rightarrow> rstr \<Rightarrow> rstr \<Rightarrow> rstr \<Rightarrow> rstr \<Rightarrow> f64 \<Rightarrow> f64 \<Rightarrow> f64 \<Rightarrow> parameter_descriptor"
where
  "number_descriptor path cli_flag label description category dflt minimum step =
     \<lparr>pd_path = path, pd_cli_flag = cli_flag, pd_value_type = TNumber, pd_label = label,
      pd_description = description, pd_category = category,
      pd_default = Some (PNumber dflt),
      pd_minimum = Some (PNumber minimum), pd_maximum = None, pd_step = Some (PNumber step),
      pd_allowed_values = [],
      pd_repeatable = False, pd_list_override_operations = [],
      pd_advanced = False,
      pd_affects_memory = affects_memory path,
      pd_affects_quality = affects_quality path,
      pd_affects_runtime = affects_runtime path\<rparr>"

definition integer_descriptor ::
  "rstr \<Rightarrow> rstr \<Rightarrow> rstr \<Rightarrow> rstr \<Rightarrow> rstr \<Rightarrow> int \<Rightarrow> int \<Rightarrow> parameter_descriptor"
where
  "integer_descriptor path cli_flag label description category dflt minimum =
     \<lparr>pd_path = path, pd_cli_flag = cli_flag, pd_value_type = TInteger, pd_label = label,
      pd_description = description, pd_category = category,
      pd_default = Some (PInteger dflt),
      pd_minimum = Some (PInteger minimum), pd_maximum = None, pd_step = Some (PInteger 1),
      pd_allowed_values = [],
      pd_repeatable = False, pd_list_override_operations = [],
      pd_advanced = False,
      pd_affects_memory = affects_memory path,
      pd_affects_quality = affects_quality path,
      pd_affects_runtime = affects_runtime path\<rparr>"

definition bounded_integer_descriptor ::
  "rstr \<Rightarrow> rstr \<Rightarrow> rstr \<Rightarrow> rstr \<Rightarrow> rstr \<Rightarrow> int \<Rightarrow> int \<Rightarrow> int \<Rightarrow> parameter_descriptor"
where
  "bounded_integer_descriptor path cli_flag label description category dflt minimum maximum =
     (integer_descriptor path cli_flag label description category dflt minimum)
       \<lparr>pd_maximum := Some (PInteger maximum)\<rparr>"

section \<open>Routing\<close>

definition routing_descriptors :: "parameter_descriptor list" where
  "routing_descriptors =
     [string_descriptor (lit ''routing.backend'') (lit ''--backend'')
        (lit ''Backend'') (lit ''Runtime backend selection'') (lit ''routing'') (Some (lit ''auto'')),
      string_descriptor (lit ''routing.accelerator'') (lit ''--accelerator'')
        (lit ''Accelerator'') (lit ''Requested accelerator'') (lit ''routing'') (Some (lit ''auto'')),
      string_descriptor (lit ''routing.device'') (lit ''--device'')
        (lit ''Device'') (lit ''Device identifier'') (lit ''routing'') None,
      string_descriptor (lit ''routing.precision'') (lit ''--precision'')
        (lit ''Precision'') (lit ''Compute precision'') (lit ''routing'') (Some (lit ''auto'')),
      string_descriptor (lit ''routing.quantization'') (lit ''--quantization'')
        (lit ''Quantization'') (lit ''Weight quantization'') (lit ''routing'') (Some (lit ''auto'')),
      string_descriptor (lit ''routing.profile'') (lit ''--profile'')
        (lit ''Profile'') (lit ''Saved parameter profile'') (lit ''routing'') None,
      enum_descriptor (lit ''routing.quality'') (lit ''--quality'')
        (lit ''Quality'') (lit ''Quality profile'') (lit ''routing'') (lit ''balanced'') [lit ''draft'', lit ''balanced'', lit ''high'', lit ''maximum''],
      enum_descriptor (lit ''routing.performance_preference'') (lit ''--performance-preference'')
        (lit ''Performance preference'') (lit ''Planner optimization preference'') (lit ''routing'') (lit ''balanced'') [lit ''quality'', lit ''balanced'', lit ''speed'', lit ''latency'', lit ''throughput'', lit ''memory''],
      enum_descriptor (lit ''routing.fallback_policy'') (lit ''--fallback-policy'')
        (lit ''Fallback policy'') (lit ''Allowed backend fallback behavior'') (lit ''routing'') (lit ''backend'') [lit ''none'', lit ''backend'', lit ''degrade''],
      enum_descriptor (lit ''routing.parameter_policy'') (lit ''--parameter-policy'')
        (lit ''Parameter policy'') (lit ''Handling of unsupported explicit parameters'') (lit ''routing'') (lit ''strict'') [lit ''strict'', lit ''warn'', lit ''permissive''],
      bool_descriptor (lit ''routing.allow_cpu_offload'') (lit ''--allow-cpu-offload'')
        (lit ''CPU offload'') (lit ''Allow model components to be offloaded to host memory'') (lit ''routing'') True,
      bool_descriptor (lit ''routing.allow_sequential_offload'') (lit ''--allow-sequential-offload'')
        (lit ''Sequential offload'') (lit ''Allow sequential component offloading'') (lit ''routing'') False,
      bool_descriptor (lit ''routing.allow_component_offload'') (lit ''--allow-component-offload'')
        (lit ''Component offload'') (lit ''Allow selected components to be offloaded'') (lit ''routing'') True,
      bool_descriptor (lit ''routing.allow_disk_offload'') (lit ''--allow-disk-offload'')
        (lit ''Disk offload'') (lit ''Allow disk-backed model offloading'') (lit ''routing'') False,
      string_descriptor (lit ''routing.attention_backend'') (lit ''--attention-backend'')
        (lit ''Attention backend'') (lit ''Attention implementation'') (lit ''routing'') (Some (lit ''auto'')),
      bool_descriptor (lit ''routing.compile'') (lit ''--compile'')
        (lit ''Compile'') (lit ''Enable backend graph compilation'') (lit ''routing'') False,
      integer_descriptor (lit ''routing.timeout'') (lit ''--timeout'')
        (lit ''Timeout'') (lit ''Execution timeout in seconds'') (lit ''routing'') 3600 1]"

section \<open>Image\<close>

definition image_base_descriptors :: "parameter_descriptor list" where
  "image_base_descriptors =
     [integer_descriptor (lit ''image.width'') (lit ''--width'')
        (lit ''Width'') (lit ''Output width in pixels'') (lit ''geometry'') 1024 64,
      integer_descriptor (lit ''image.height'') (lit ''--height'')
        (lit ''Height'') (lit ''Output height in pixels'') (lit ''geometry'') 1024 64,
      integer_descriptor (lit ''image.batch_size'') (lit ''--batch-size'')
        (lit ''Batch size'') (lit ''Images processed per batch'') (lit ''generation'') 1 1,
      integer_descriptor (lit ''image.num_images'') (lit ''--num-images'')
        (lit ''Image count'') (lit ''Number of images to create'') (lit ''generation'') 1 1,
      integer_descriptor (lit ''image.steps'') (lit ''--steps'')
        (lit ''Steps'') (lit ''Denoising steps'') (lit ''sampling'') 28 1,
      number_descriptor (lit ''image.guidance'') (lit ''--guidance'')
        (lit ''Guidance'') (lit ''Classifier-free guidance scale'') (lit ''sampling'') (f64_ratio 7 1) (f64_ratio 0 1) (f64_ratio 1 10),
      bounded_integer_descriptor (lit ''image.seed'') (lit ''--seed'')
        (lit ''Seed'') (lit ''Random seed'') (lit ''sampling'') 0 0 i64_max,
      bool_descriptor (lit ''image.vae_tiling'') (lit ''--image-vae-tiling'')
        (lit ''VAE tiling'') (lit ''Tile VAE encode and decode'') (lit ''memory'') False,
      bool_descriptor (lit ''image.vae_slicing'') (lit ''--image-vae-slicing'')
        (lit ''VAE slicing'') (lit ''Slice VAE batches'') (lit ''memory'') False,
      enum_descriptor (lit ''image.output_format'') (lit ''--output-format'')
        (lit ''Output format'') (lit ''Image output format'') (lit ''output'') (lit ''png'') [lit ''png'', lit ''jpeg'', lit ''webp'']]"

definition IMAGE_GEOMETRY_SPECS :: "(rstr \<times> parameter_type) list" where
  "IMAGE_GEOMETRY_SPECS =
     [(lit ''aspect_ratio'', TString), (lit ''resize_mode'', TEnumeration),
      (lit ''crop_mode'', TEnumeration), (lit ''target_width'', TInteger),
      (lit ''target_height'', TInteger)]"

definition IMAGE_SAMPLING_SPECS :: "(rstr \<times> parameter_type) list" where
  "IMAGE_SAMPLING_SPECS =
     [(lit ''subseed'', TInteger), (lit ''variation_strength'', TNumber),
      (lit ''guidance_rescale'', TNumber), (lit ''true_cfg'', TNumber),
      (lit ''sampler'', TString), (lit ''scheduler'', TString),
      (lit ''prediction_type'', TString), (lit ''eta'', TNumber),
      (lit ''denoise_strength'', TNumber), (lit ''noise_strength'', TNumber),
      (lit ''sigma_min'', TNumber), (lit ''sigma_max'', TNumber), (lit ''rho'', TNumber),
      (lit ''sigmas'', TList), (lit ''shift'', TNumber), (lit ''dynamic_shift'', TBoolean),
      (lit ''clip_skip'', TInteger), (lit ''prompt_weighting'', TString),
      (lit ''prompt_token_limit'', TInteger), (lit ''image_strength'', TNumber)]"

definition IMAGE_INPAINTING_SPECS :: "(rstr \<times> parameter_type) list" where
  "IMAGE_INPAINTING_SPECS =
     [(lit ''mask_blur'', TNumber), (lit ''mask_expand'', TInteger),
      (lit ''mask_invert'', TBoolean), (lit ''mask_fill'', TEnumeration),
      (lit ''inpaint_area'', TEnumeration), (lit ''padding'', TInteger),
      (lit ''preserve_unmasked'', TBoolean)]"

definition IMAGE_CONDITIONING_SPECS :: "(rstr \<times> parameter_type) list" where
  "IMAGE_CONDITIONING_SPECS =
     [(lit ''controls'', TList), (lit ''control_type'', TString),
      (lit ''control_model'', TPath), (lit ''control_weight'', TNumber),
      (lit ''control_start'', TNumber), (lit ''control_end'', TNumber),
      (lit ''control_preprocessor'', TString), (lit ''reference_images'', TList),
      (lit ''reference_weight'', TNumber), (lit ''reference_start'', TNumber),
      (lit ''reference_end'', TNumber), (lit ''identity_preservation'', TNumber),
      (lit ''color_preservation'', TNumber), (lit ''composition_preservation'', TNumber)]"

definition IMAGE_ADAPTERS_SPECS :: "(rstr \<times> parameter_type) list" where
  "IMAGE_ADAPTERS_SPECS =
     [(lit ''loras'', TList), (lit ''adapters'', TList), (lit ''adapter_weight'', TNumber),
      (lit ''text_encoder_weight'', TNumber), (lit ''transformer_weight'', TNumber),
      (lit ''adapter_start'', TNumber), (lit ''adapter_end'', TNumber)]"

definition IMAGE_HIGH_RESOLUTION_SPECS :: "(rstr \<times> parameter_type) list" where
  "IMAGE_HIGH_RESOLUTION_SPECS =
     [(lit ''high_resolution_fix'', TBoolean), (lit ''upscale_scale'', TNumber),
      (lit ''second_sampler'', TString), (lit ''second_scheduler'', TString),
      (lit ''second_denoise'', TNumber), (lit ''refiner'', TPath),
      (lit ''refiner_switch_point'', TNumber), (lit ''vae'', TPath),
      (lit ''vae_precision'', TString), (lit ''tiled_encode'', TBoolean),
      (lit ''tiled_decode'', TBoolean)]"

definition IMAGE_POSTPROCESSING_SPECS :: "(rstr \<times> parameter_type) list" where
  "IMAGE_POSTPROCESSING_SPECS =
     [(lit ''safety_checker_policy'', TEnumeration),
      (lit ''watermark_policy'', TEnumeration), (lit ''face_restoration'', TBoolean),
      (lit ''color_correction'', TBoolean), (lit ''post_upscaling'', TString),
      (lit ''output_path'', TPath)]"

definition IMAGE_UPSCALING_CATEGORIES :: "rstr list" where
  "IMAGE_UPSCALING_CATEGORIES =
     [lit ''geometry'', lit ''generation'', lit ''memory'', lit ''output'',
      lit ''high_resolution'', lit ''postprocessing'']"

definition image_values :: "parameter_descriptor list" where
  "image_values =
     (let values = image_base_descriptors;
          values = add_named_descriptors values (lit ''image'') (lit ''geometry'') IMAGE_GEOMETRY_SPECS;
          values = add_named_descriptors values (lit ''image'') (lit ''sampling'') IMAGE_SAMPLING_SPECS;
          values = add_named_descriptors values (lit ''image'') (lit ''inpainting'') IMAGE_INPAINTING_SPECS;
          values = add_named_descriptors values (lit ''image'') (lit ''conditioning'') IMAGE_CONDITIONING_SPECS;
          values = add_named_descriptors values (lit ''image'') (lit ''adapters'') IMAGE_ADAPTERS_SPECS;
          values = add_named_descriptors values (lit ''image'') (lit ''high_resolution'') IMAGE_HIGH_RESOLUTION_SPECS;
          values = add_named_descriptors values (lit ''image'') (lit ''postprocessing'') IMAGE_POSTPROCESSING_SPECS
      in values)"

definition image_descriptors :: "inference_task \<Rightarrow> parameter_descriptor list" where
  "image_descriptors task =
     (let values = image_values
      in if task = ImageUpscaling
         then filter (\<lambda>d. pd_category d \<in> set IMAGE_UPSCALING_CATEGORIES) values else values)"

section \<open>Video\<close>

definition video_base_descriptors :: "parameter_descriptor list" where
  "video_base_descriptors =
     [integer_descriptor (lit ''video.width'') (lit ''--width'')
        (lit ''Width'') (lit ''Output width in pixels'') (lit ''geometry'') 832 64,
      integer_descriptor (lit ''video.height'') (lit ''--height'')
        (lit ''Height'') (lit ''Output height in pixels'') (lit ''geometry'') 480 64,
      integer_descriptor (lit ''video.frames'') (lit ''--frames'')
        (lit ''Frames'') (lit ''Number of generated frames'') (lit ''temporal'') 81 1,
      number_descriptor (lit ''video.fps'') (lit ''--fps'')
        (lit ''FPS'') (lit ''Frames per second'') (lit ''temporal'') (f64_ratio 24 1) (f64_ratio 1 10) (f64_ratio 1 10),
      integer_descriptor (lit ''video.batch_size'') (lit ''--batch-size'')
        (lit ''Batch size'') (lit ''Videos processed per batch'') (lit ''generation'') 1 1,
      integer_descriptor (lit ''video.num_videos'') (lit ''--num-videos'')
        (lit ''Video count'') (lit ''Number of videos to create'') (lit ''generation'') 1 1,
      integer_descriptor (lit ''video.steps'') (lit ''--steps'')
        (lit ''Steps'') (lit ''Denoising steps'') (lit ''sampling'') 30 1,
      number_descriptor (lit ''video.guidance'') (lit ''--guidance'')
        (lit ''Guidance'') (lit ''Guidance scale'') (lit ''sampling'') (f64_ratio 6 1) (f64_ratio 0 1) (f64_ratio 1 10),
      bounded_integer_descriptor (lit ''video.seed'') (lit ''--seed'')
        (lit ''Seed'') (lit ''Random seed'') (lit ''sampling'') 0 0 i64_max,
      bool_descriptor (lit ''video.temporal_vae_tiling'') (lit ''--temporal-vae-tiling'')
        (lit ''Temporal VAE tiling'') (lit ''Tile temporal VAE operations'') (lit ''memory'') False,
      enum_descriptor (lit ''video.output_format'') (lit ''--output-format'')
        (lit ''Output format'') (lit ''Video container'') (lit ''output'') (lit ''mp4'') [lit ''mp4'', lit ''gif'']]"

definition VIDEO_GEOMETRY_SPECS :: "(rstr \<times> parameter_type) list" where
  "VIDEO_GEOMETRY_SPECS =
     [(lit ''aspect_ratio'', TString), (lit ''duration'', TNumber)]"

definition VIDEO_SAMPLING_SPECS :: "(rstr \<times> parameter_type) list" where
  "VIDEO_SAMPLING_SPECS =
     [(lit ''sampler'', TString), (lit ''scheduler'', TString), (lit ''eta'', TNumber),
      (lit ''denoise_strength'', TNumber), (lit ''noise_augmentation'', TNumber),
      (lit ''sigma_min'', TNumber), (lit ''sigma_max'', TNumber), (lit ''rho'', TNumber),
      (lit ''sigmas'', TList), (lit ''shift'', TNumber), (lit ''flow_shift'', TNumber)]"

definition VIDEO_MOTION_SPECS :: "(rstr \<times> parameter_type) list" where
  "VIDEO_MOTION_SPECS =
     [(lit ''motion_strength'', TNumber), (lit ''motion_bucket'', TInteger),
      (lit ''temporal_guidance'', TNumber), (lit ''temporal_consistency'', TNumber),
      (lit ''camera_motion'', TString), (lit ''camera_strength'', TNumber),
      (lit ''camera_keyframes'', TList), (lit ''prompt_keyframes'', TList),
      (lit ''guidance_schedule'', TList), (lit ''denoise_schedule'', TList),
      (lit ''adapters'', TList), (lit ''adapter_schedule'', TList)]"

definition VIDEO_CONDITIONING_SPECS :: "(rstr \<times> parameter_type) list" where
  "VIDEO_CONDITIONING_SPECS =
     [(lit ''final_image'', TPath), (lit ''mask_video'', TPath), (lit ''pose_video'', TPath),
      (lit ''depth_video'', TPath), (lit ''control_video'', TPath),
      (lit ''controls'', TList), (lit ''reference_images'', TList),
      (lit ''reference_audio'', TPath), (lit ''image_strength'', TNumber),
      (lit ''video_strength'', TNumber), (lit ''first_frame_strength'', TNumber),
      (lit ''last_frame_strength'', TNumber)]"

definition VIDEO_WINDOWING_SPECS :: "(rstr \<times> parameter_type) list" where
  "VIDEO_WINDOWING_SPECS =
     [(lit ''context_frames'', TInteger), (lit ''context_overlap'', TInteger),
      (lit ''context_stride'', TInteger), (lit ''window_size'', TInteger),
      (lit ''window_overlap'', TInteger), (lit ''looping'', TBoolean),
      (lit ''loop_blend_frames'', TInteger), (lit ''extension_frames'', TInteger),
      (lit ''extension_direction'', TEnumeration), (lit ''tile_width'', TInteger),
      (lit ''tile_height'', TInteger), (lit ''tile_frames'', TInteger),
      (lit ''tile_overlap'', TInteger), (lit ''decode_chunk_size'', TInteger)]"

definition VIDEO_POSTPROCESSING_SPECS :: "(rstr \<times> parameter_type) list" where
  "VIDEO_POSTPROCESSING_SPECS =
     [(lit ''frame_interpolation'', TBoolean), (lit ''interpolation_factor'', TNumber),
      (lit ''upscaling'', TBoolean), (lit ''upscale_scale'', TNumber),
      (lit ''stabilization'', TBoolean), (lit ''codec'', TString),
      (lit ''pixel_format'', TString), (lit ''bitrate'', TString), (lit ''crf'', TInteger),
      (lit ''encoding_preset'', TString), (lit ''include_audio'', TBoolean),
      (lit ''output_path'', TPath)]"

definition VIDEO_FRAME_CATEGORIES :: "rstr list" where
  "VIDEO_FRAME_CATEGORIES =
     [lit ''geometry'', lit ''temporal'', lit ''generation'', lit ''sampling'',
      lit ''memory'', lit ''output'', lit ''windowing'', lit ''postprocessing'']"

definition VIDEO_FRAME_MOTION :: "rstr list" where
  "VIDEO_FRAME_MOTION =
     [lit ''video.motion_strength'', lit ''video.motion_bucket'',
      lit ''video.temporal_guidance'', lit ''video.temporal_consistency'']"

definition keeps_frames :: "parameter_descriptor \<Rightarrow> bool" where
  "keeps_frames d =
     (if pd_category d \<in> set VIDEO_FRAME_CATEGORIES then True
      else if pd_category d = lit ''motion'' then pd_path d \<in> set VIDEO_FRAME_MOTION else False)"

definition video_values :: "parameter_descriptor list" where
  "video_values =
     (let values = video_base_descriptors;
          values = add_named_descriptors values (lit ''video'') (lit ''geometry'') VIDEO_GEOMETRY_SPECS;
          values = add_named_descriptors values (lit ''video'') (lit ''sampling'') VIDEO_SAMPLING_SPECS;
          values = add_named_descriptors values (lit ''video'') (lit ''motion'') VIDEO_MOTION_SPECS;
          values = add_named_descriptors values (lit ''video'') (lit ''conditioning'') VIDEO_CONDITIONING_SPECS;
          values = add_named_descriptors values (lit ''video'') (lit ''windowing'') VIDEO_WINDOWING_SPECS;
          values = add_named_descriptors values (lit ''video'') (lit ''postprocessing'') VIDEO_POSTPROCESSING_SPECS
      in values)"

definition video_descriptors :: "inference_task \<Rightarrow> parameter_descriptor list" where
  "video_descriptors task =
     (let values = video_values
      in if task = VideoUpscaling \<or> task = FrameInterpolation then filter keeps_frames values else values)"

section \<open>Audio\<close>

definition audio_base_descriptors :: "parameter_descriptor list" where
  "audio_base_descriptors =
     [number_descriptor (lit ''audio.duration'') (lit ''--duration'')
        (lit ''Duration'') (lit ''Requested duration in seconds'') (lit ''composition'') (f64_ratio 30 1) (f64_ratio 1 10) (f64_ratio 1 10),
      integer_descriptor (lit ''audio.variations'') (lit ''--num-variations'')
        (lit ''Variations'') (lit ''Number of generated variations'') (lit ''generation'') 1 1,
      bounded_integer_descriptor (lit ''audio.seed'') (lit ''--seed'')
        (lit ''Seed'') (lit ''Random seed'') (lit ''sampling'') 0 0 i64_max,
      integer_descriptor (lit ''audio.sample_rate'') (lit ''--sample-rate'')
        (lit ''Sample rate'') (lit ''Output sample rate'') (lit ''output'') 44100 8000,
      integer_descriptor (lit ''audio.bit_depth'') (lit ''--bit-depth'')
        (lit ''Bit depth'') (lit ''PCM output bit depth'') (lit ''output'') 16 8,
      integer_descriptor (lit ''audio.channels'') (lit ''--channels'')
        (lit ''Channels'') (lit ''Output channel count'') (lit ''output'') 2 1,
      bool_descriptor (lit ''audio.instrumental'') (lit ''--instrumental'')
        (lit ''Instrumental'') (lit ''Generate without vocals'') (lit ''vocals'') False,
      enum_descriptor (lit ''audio.output_format'') (lit ''--format'')
        (lit ''Output format'') (lit ''Audio container'') (lit ''output'') (lit ''wav'') [lit ''wav'', lit ''flac'', lit ''ogg'']]"

definition AUDIO_PROMPT_SPECS :: "(rstr \<times> parameter_type) list" where
  "AUDIO_PROMPT_SPECS =
     [(lit ''title'', TString), (lit ''lyrics'', TString),
      (lit ''generate_lyrics'', TBoolean), (lit ''lyrics_language'', TString)]"

definition AUDIO_STYLE_SPECS :: "(rstr \<times> parameter_type) list" where
  "AUDIO_STYLE_SPECS =
     [(lit ''genres'', TList), (lit ''subgenres'', TList), (lit ''styles'', TList),
      (lit ''eras'', TList), (lit ''influences'', TList), (lit ''moods'', TList),
      (lit ''themes'', TList), (lit ''descriptors'', TList)]"

definition AUDIO_HARMONY_SPECS :: "(rstr \<times> parameter_type) list" where
  "AUDIO_HARMONY_SPECS =
     [(lit ''bpm'', TNumber), (lit ''tempo_min'', TNumber), (lit ''tempo_max'', TNumber),
      (lit ''tempo_mode'', TEnumeration), (lit ''time_signature'', TString),
      (lit ''key'', TString), (lit ''scale'', TString), (lit ''tuning'', TString),
      (lit ''chord_progression'', TString), (lit ''chord_complexity'', TNumber),
      (lit ''harmonic_tension'', TNumber), (lit ''song_structure'', TString),
      (lit ''arrangement_prompt'', TString)]"

definition AUDIO_INSTRUMENTS_SPECS :: "(rstr \<times> parameter_type) list" where
  "AUDIO_INSTRUMENTS_SPECS =
     [(lit ''instruments'', TList), (lit ''excluded_instruments'', TList),
      (lit ''lead_instrument'', TString), (lit ''rhythm_instruments'', TList),
      (lit ''bass_instrument'', TString), (lit ''acoustic_electronic_balance'', TNumber),
      (lit ''instrument_density'', TNumber)]"

definition AUDIO_VOCALS_SPECS :: "(rstr \<times> parameter_type) list" where
  "AUDIO_VOCALS_SPECS =
     [(lit ''vocals'', TBoolean), (lit ''voice_reference'', TPath),
      (lit ''speaker_id'', TString), (lit ''vocal_presentation'', TString),
      (lit ''register'', TString), (lit ''range'', TString), (lit ''language'', TString),
      (lit ''accent'', TString), (lit ''vocal_style'', TString), (lit ''delivery'', TString),
      (lit ''emotion'', TString), (lit ''breathiness'', TNumber), (lit ''rasp'', TNumber),
      (lit ''vibrato'', TNumber), (lit ''power'', TNumber), (lit ''intimacy'', TNumber),
      (lit ''articulation'', TNumber), (lit ''pronunciation_strength'', TNumber),
      (lit ''vocal_presence'', TNumber), (lit ''harmony_amount'', TNumber),
      (lit ''choir_amount'', TNumber), (lit ''duet'', TBoolean),
      (lit ''backing_vocals'', TBoolean)]"

definition AUDIO_CONDITIONING_SPECS :: "(rstr \<times> parameter_type) list" where
  "AUDIO_CONDITIONING_SPECS =
     [(lit ''prompt_adherence'', TNumber), (lit ''lyrics_adherence'', TNumber),
      (lit ''style_adherence'', TNumber), (lit ''creativity'', TNumber),
      (lit ''variation_strength'', TNumber), (lit ''originality'', TNumber),
      (lit ''source_audio'', TPath), (lit ''reference_audio'', TPath),
      (lit ''instrumental_audio'', TPath), (lit ''vocal_audio'', TPath),
      (lit ''melody_audio'', TPath), (lit ''rhythm_audio'', TPath),
      (lit ''chord_audio'', TPath), (lit ''audio_strength'', TNumber),
      (lit ''melody_adherence'', TNumber), (lit ''rhythm_adherence'', TNumber),
      (lit ''harmony_adherence'', TNumber), (lit ''continuation_start'', TNumber),
      (lit ''continuation_duration'', TNumber)]"

definition AUDIO_SAMPLING_SPECS :: "(rstr \<times> parameter_type) list" where
  "AUDIO_SAMPLING_SPECS =
     [(lit ''guidance'', TNumber), (lit ''steps'', TInteger), (lit ''temperature'', TNumber),
      (lit ''top_k'', TInteger), (lit ''top_p'', TNumber)]"

definition AUDIO_MIXING_SPECS :: "(rstr \<times> parameter_type) list" where
  "AUDIO_MIXING_SPECS =
     [(lit ''mix_controls'', TList), (lit ''mastering_controls'', TList),
      (lit ''codec'', TString), (lit ''bitrate'', TString),
      (lit ''normalization'', TBoolean), (lit ''loudness_lufs'', TNumber),
      (lit ''export_stems'', TBoolean), (lit ''stems'', TList),
      (lit ''num_stems'', TInteger), (lit ''segment_duration'', TNumber),
      (lit ''segment_overlap'', TNumber), (lit ''output_path'', TPath)]"

definition STEM_PATHS :: "rstr list" where
  "STEM_PATHS =
     [lit ''audio.stems'', lit ''audio.num_stems'', lit ''audio.segment_duration'',
      lit ''audio.segment_overlap'', lit ''audio.sample_rate'', lit ''audio.channels'',
      lit ''audio.output_format'', lit ''audio.normalization'', lit ''audio.output_path'']"

definition STEM_ONLY_PATHS :: "rstr list" where
  "STEM_ONLY_PATHS =
     [lit ''audio.num_stems'', lit ''audio.segment_duration'', lit ''audio.segment_overlap'']"

definition audio_values :: "parameter_descriptor list" where
  "audio_values =
     (let values = audio_base_descriptors;
          values = add_named_descriptors values (lit ''audio'') (lit ''prompt'') AUDIO_PROMPT_SPECS;
          values = add_named_descriptors values (lit ''audio'') (lit ''style'') AUDIO_STYLE_SPECS;
          values = add_named_descriptors values (lit ''audio'') (lit ''harmony'') AUDIO_HARMONY_SPECS;
          values = add_named_descriptors values (lit ''audio'') (lit ''instruments'') AUDIO_INSTRUMENTS_SPECS;
          values = add_named_descriptors values (lit ''audio'') (lit ''vocals'') AUDIO_VOCALS_SPECS;
          values = add_named_descriptors values (lit ''audio'') (lit ''conditioning'') AUDIO_CONDITIONING_SPECS;
          values = add_named_descriptors values (lit ''audio'') (lit ''sampling'') AUDIO_SAMPLING_SPECS;
          values = add_named_descriptors values (lit ''audio'') (lit ''mixing'') AUDIO_MIXING_SPECS
      in values)"

definition audio_descriptors :: "inference_task \<Rightarrow> parameter_descriptor list" where
  "audio_descriptors task =
     (let values = audio_values
      in if task = StemSeparation then filter (\<lambda>d. pd_path d \<in> set STEM_PATHS) values
         else filter (\<lambda>d. pd_path d \<notin> set STEM_ONLY_PATHS) values)"

section \<open>Analysis of audio\<close>

definition audio_classification_descriptors :: "parameter_descriptor list" where
  "audio_classification_descriptors =
     [integer_descriptor (lit ''audio.top_k'') (lit ''--top-k'')
        (lit ''Top labels'') (lit ''Maximum number of classification labels to return'') (lit ''classification'') 5 1,
      enum_descriptor (lit ''audio.output_format'') (lit ''--output-format'')
        (lit ''Output format'') (lit ''Classification result format'') (lit ''output'') (lit ''json'') [lit ''json'', lit ''text'']]"

definition audio_embedding_descriptors :: "parameter_descriptor list" where
  "audio_embedding_descriptors =
     [bool_descriptor (lit ''audio.normalize'') (lit ''--normalize'')
        (lit ''Normalize'') (lit ''L2-normalize the embedding vector'') (lit ''embedding'') True,
      enum_descriptor (lit ''audio.pooling'') (lit ''--pooling'')
        (lit ''Pooling'') (lit ''Frame pooling strategy'') (lit ''embedding'') (lit ''mean'') [lit ''mean''],
      enum_descriptor (lit ''audio.output_format'') (lit ''--output-format'')
        (lit ''Output format'') (lit ''Embedding result format'') (lit ''output'') (lit ''json'') [lit ''json'', lit ''text'']]"

definition AUDIO_TEXT_GENERATION_SPECS :: "(rstr \<times> parameter_type) list" where
  "AUDIO_TEXT_GENERATION_SPECS =
     [(lit ''max_new_tokens'', TInteger), (lit ''temperature'', TNumber),
      (lit ''top_k'', TInteger), (lit ''top_p'', TNumber)]"

definition audio_text_descriptors :: "parameter_descriptor list" where
  "audio_text_descriptors =
     add_named_descriptors [] (lit ''audio'') (lit ''generation'') AUDIO_TEXT_GENERATION_SPECS
     @ [enum_descriptor (lit ''audio.output_format'') (lit ''--output-format'')
        (lit ''Output format'') (lit ''Structured audio-text result format'') (lit ''output'') (lit ''json'') [lit ''json'', lit ''text'']]"

section \<open>Speech\<close>

definition tts_base_descriptors :: "parameter_descriptor list" where
  "tts_base_descriptors =
     [number_descriptor (lit ''tts.speed'') (lit ''--speed'')
        (lit ''Speed'') (lit ''Speech speed multiplier'') (lit ''voice'') (f64_ratio 1 1) (f64_ratio 1 10) (f64_ratio 1 100),
      number_descriptor (lit ''tts.pitch'') (lit ''--pitch'')
        (lit ''Pitch'') (lit ''Pitch shift'') (lit ''voice'') (f64_ratio 0 1) (f64_neg (f64_ratio 48 1)) (f64_ratio 1 10),
      bounded_integer_descriptor (lit ''tts.seed'') (lit ''--seed'')
        (lit ''Seed'') (lit ''Random seed'') (lit ''sampling'') 0 0 i64_max,
      integer_descriptor (lit ''tts.sample_rate'') (lit ''--sample-rate'')
        (lit ''Sample rate'') (lit ''Output sample rate'') (lit ''output'') 24000 8000,
      integer_descriptor (lit ''tts.channels'') (lit ''--channels'')
        (lit ''Channels'') (lit ''Output channels'') (lit ''output'') 1 1,
      enum_descriptor (lit ''tts.output_format'') (lit ''--format'')
        (lit ''Output format'') (lit ''Audio output format'') (lit ''output'') (lit ''wav'') [lit ''wav'', lit ''flac'', lit ''ogg''],
      bool_descriptor (lit ''tts.streaming'') (lit ''--streaming'')
        (lit ''Streaming'') (lit ''Stream audio chunks when supported'') (lit ''output'') False]"

definition TTS_VOICE_SPECS :: "(rstr \<times> parameter_type) list" where
  "TTS_VOICE_SPECS =
     [(lit ''voice'', TString), (lit ''voice_reference'', TPath),
      (lit ''language'', TString), (lit ''accent'', TString), (lit ''dialect'', TString),
      (lit ''volume'', TNumber), (lit ''emotion'', TString),
      (lit ''emotion_strength'', TNumber), (lit ''speaking_style'', TString),
      (lit ''stability'', TNumber), (lit ''similarity'', TNumber),
      (lit ''expressiveness'', TNumber), (lit ''pronunciation_dictionaries'', TList),
      (lit ''phoneme_input'', TBoolean), (lit ''pause_scale'', TNumber),
      (lit ''sentence_silence'', TNumber)]"

definition TTS_OUTPUT_SPECS :: "(rstr \<times> parameter_type) list" where
  "TTS_OUTPUT_SPECS =
     [(lit ''loudness'', TNumber), (lit ''chunk_size'', TInteger),
      (lit ''output_path'', TPath)]"

definition tts_descriptors :: "parameter_descriptor list" where
  "tts_descriptors =
     (let values = tts_base_descriptors;
          values = add_named_descriptors values (lit ''tts'') (lit ''voice'') TTS_VOICE_SPECS;
          values = add_named_descriptors values (lit ''tts'') (lit ''output'') TTS_OUTPUT_SPECS
      in values)"

definition stt_base_descriptors :: "rstr \<Rightarrow> rstr list \<Rightarrow> parameter_descriptor list" where
  "stt_base_descriptors operation allowed_operations =
     [enum_descriptor (lit ''stt.operation'') (lit ''--task'')
        (lit ''Operation'') (lit ''Canonical speech operation'') (lit ''transcription'') operation allowed_operations,
      integer_descriptor (lit ''stt.beam_size'') (lit ''--beam-size'')
        (lit ''Beam size'') (lit ''Beam search width'') (lit ''decoding'') 5 1,
      integer_descriptor (lit ''stt.best_of'') (lit ''--best-of'')
        (lit ''Best of'') (lit ''Candidates sampled'') (lit ''decoding'') 5 1,
      number_descriptor (lit ''stt.temperature'') (lit ''--temperature'')
        (lit ''Temperature'') (lit ''Decoding temperature'') (lit ''decoding'') (f64_ratio 0 1) (f64_ratio 0 1) (f64_ratio 1 100),
      bool_descriptor (lit ''stt.segment_timestamps'') (lit ''--segment-timestamps'')
        (lit ''Segment timestamps'') (lit ''Return segment timestamps'') (lit ''output'') True,
      bool_descriptor (lit ''stt.word_timestamps'') (lit ''--word-timestamps'')
        (lit ''Word timestamps'') (lit ''Return word timestamps'') (lit ''output'') False,
      bool_descriptor (lit ''stt.diarization'') (lit ''--diarization'')
        (lit ''Diarization'') (lit ''Identify speakers'') (lit ''transcription'') False,
      enum_descriptor (lit ''stt.output_format'') (lit ''--output-format'')
        (lit ''Output format'') (lit ''Transcription output format'') (lit ''output'') (lit ''json'') [lit ''json'', lit ''text'', lit ''srt'', lit ''vtt'', lit ''tsv'']]"

definition STT_TRANSCRIPTION_SPECS :: "(rstr \<times> parameter_type) list" where
  "STT_TRANSCRIPTION_SPECS =
     [(lit ''input_audio'', TPath), (lit ''language'', TString),
      (lit ''min_speakers'', TInteger), (lit ''max_speakers'', TInteger),
      (lit ''initial_prompt'', TString), (lit ''hotwords'', TList), (lit ''vad'', TBoolean),
      (lit ''suppress_tokens'', TList), (lit ''condition_on_previous_text'', TBoolean),
      (lit ''hallucination_silence_threshold'', TNumber),
      (lit ''temperature_fallbacks'', TList), (lit ''output_path'', TPath)]"

definition stt_operation :: "inference_task \<Rightarrow> rstr" where
  "stt_operation task = (if task = SpeechTranslation then lit ''translate'' else lit ''transcribe'')"

definition stt_descriptors :: "inference_task \<Rightarrow> parameter_descriptor list" where
  "stt_descriptors task =
     (let operation = stt_operation task
      in add_named_descriptors (stt_base_descriptors operation [operation])
           (lit ''stt'') (lit ''transcription'') STT_TRANSCRIPTION_SPECS)"

section \<open>Defaults\<close>

definition IMAGE_TASK_DEFAULTS :: "(rstr \<times> parameter_value) list" where
  "IMAGE_TASK_DEFAULTS =
     [(lit ''image.width'', PInteger 1024),
      (lit ''image.height'', PInteger 1024),
      (lit ''image.steps'', PInteger 28),
      (lit ''image.guidance'', PNumber (f64_ratio 7 1)),
      (lit ''image.batch_size'', PInteger 1),
      (lit ''image.num_images'', PInteger 1)]"

definition VIDEO_TASK_DEFAULTS :: "(rstr \<times> parameter_value) list" where
  "VIDEO_TASK_DEFAULTS =
     [(lit ''video.width'', PInteger 832),
      (lit ''video.height'', PInteger 480),
      (lit ''video.frames'', PInteger 81),
      (lit ''video.fps'', PNumber (f64_ratio 24 1)),
      (lit ''video.steps'', PInteger 30),
      (lit ''video.batch_size'', PInteger 1),
      (lit ''video.num_videos'', PInteger 1)]"

definition TTS_TASK_DEFAULTS :: "(rstr \<times> parameter_value) list" where
  "TTS_TASK_DEFAULTS =
     [(lit ''tts.speed'', PNumber (f64_ratio 1 1)),
      (lit ''tts.sample_rate'', PInteger 24000),
      (lit ''tts.channels'', PInteger 1)]"

definition STT_TASK_DEFAULTS :: "(rstr \<times> parameter_value) list" where
  "STT_TASK_DEFAULTS =
     [(lit ''stt.beam_size'', PInteger 5),
      (lit ''stt.best_of'', PInteger 5),
      (lit ''stt.temperature'', PNumber (f64_ratio 0 1))]"

definition AUDIO_TASK_DEFAULTS :: "(rstr \<times> parameter_value) list" where
  "AUDIO_TASK_DEFAULTS =
     [(lit ''audio.duration'', PNumber (f64_ratio 30 1)),
      (lit ''audio.variations'', PInteger 1),
      (lit ''audio.sample_rate'', PInteger 44100),
      (lit ''audio.channels'', PInteger 2)]"

definition task_default_values :: "inference_task \<Rightarrow> (rstr \<times> parameter_value) list" where
  "task_default_values task =
     (case task_output_modality task of
        OutImage \<Rightarrow> IMAGE_TASK_DEFAULTS
      | OutVideo \<Rightarrow> VIDEO_TASK_DEFAULTS
      | OutAudio \<Rightarrow> if task = TextToSpeech then TTS_TASK_DEFAULTS else AUDIO_TASK_DEFAULTS
      | OutText \<Rightarrow> if task = SpeechToText \<or> task = SpeechTranslation then STT_TASK_DEFAULTS else []
      | OutEmbedding \<Rightarrow> [])"

definition insert_all :: "(rstr \<times> parameter_value) list \<Rightarrow> layer \<Rightarrow> layer" where
  "insert_all values l = foldl (\<lambda>l (k, v). bt_insert k v l) l values"

definition task_defaults :: "inference_task \<Rightarrow> layer" where
  "task_defaults task = insert_all (task_default_values task) []"

definition FLUX_DEFAULTS :: "(rstr \<times> parameter_value) list" where
  "FLUX_DEFAULTS =
     [(lit ''image.steps'', PInteger 28),
      (lit ''image.guidance'', PNumber (f64_ratio 35 10)),
      (lit ''image.sampler'', PString (lit ''flow_match''))]"

definition SDXL_DEFAULTS :: "(rstr \<times> parameter_value) list" where
  "SDXL_DEFAULTS =
     [(lit ''image.steps'', PInteger 30),
      (lit ''image.guidance'', PNumber (f64_ratio 5 1))]"

definition WAN_TI2V_DEFAULTS :: "(rstr \<times> parameter_value) list" where
  "WAN_TI2V_DEFAULTS =
     [(lit ''video.width'', PInteger 1280),
      (lit ''video.height'', PInteger 704),
      (lit ''video.frames'', PInteger 121),
      (lit ''video.fps'', PNumber (f64_ratio 24 1)),
      (lit ''video.steps'', PInteger 50),
      (lit ''video.guidance'', PNumber (f64_ratio 5 1))]"

definition WAN_DEFAULTS :: "(rstr \<times> parameter_value) list" where
  "WAN_DEFAULTS =
     [(lit ''video.frames'', PInteger 81),
      (lit ''video.fps'', PNumber (f64_ratio 16 1))]"

definition COGVIDEO_DEFAULTS :: "(rstr \<times> parameter_value) list" where
  "COGVIDEO_DEFAULTS =
     [(lit ''video.frames'', PInteger 49),
      (lit ''video.fps'', PNumber (f64_ratio 8 1))]"

definition MUSICGEN_DEFAULTS :: "(rstr \<times> parameter_value) list" where
  "MUSICGEN_DEFAULTS =
     [(lit ''audio.sample_rate'', PInteger 32000)]"

definition family_image_values :: "rstr \<Rightarrow> (rstr \<times> parameter_value) list" where
  "family_image_values family =
     (if contains_str (lit ''flux'') family then FLUX_DEFAULTS
      else if contains_str (lit ''stable-diffusion-xl'') family \<or> contains_str (lit ''sdxl'') family
      then SDXL_DEFAULTS else [])"

definition family_video_values :: "rstr \<Rightarrow> (rstr \<times> parameter_value) list" where
  "family_video_values family =
     (if contains_str (lit ''wan2.2-ti2v'') family then WAN_TI2V_DEFAULTS
      else if contains_str (lit ''wan'') family then WAN_DEFAULTS
      else if contains_str (lit ''cogvideo'') family then COGVIDEO_DEFAULTS else [])"

definition family_defaults :: "rstr option \<Rightarrow> inference_task \<Rightarrow> layer" where
  "family_defaults given task =
     (let family = to_ascii_lowercase (case given of None \<Rightarrow> [] | Some f \<Rightarrow> f);
          values = [];
          values = (if task_output_modality task = OutImage
                    then insert_all (family_image_values family) values else values);
          values = (if task_output_modality task = OutVideo
                    then insert_all (family_video_values family) values else values)
      in if task \<in> {MusicGeneration, SongContinuation, SongVariation} \<and> contains_str (lit ''musicgen'') family
         then insert_all MUSICGEN_DEFAULTS values else values)"

end
