(* ===== verification/Parameter_Schema.thy ===== *)
theory Parameter_Schema
  imports Schema_Tables
begin

text \<open>
  The schema of a task and of a model (\<open>src/src/inference/schema.rs\<close>): the conversion of
  JSON values, the descriptors of a task, the defaults that a manifest gives them and the
  constraints it puts on them. Together with the tables they are the \<open>resolution_tables\<close>
  that request resolution works with.
\<close>

section \<open>JSON values\<close>

text \<open>
  A \<open>serde_json\<close> value: an integer is one of \<open>i64\<close> or \<open>u64\<close>, any other number is an \<open>f64\<close>,
  and an object is ordered by key. The untagged conversion tries the variants in order, so
  an integer beyond \<open>i64\<close> becomes a number; every value converts.
\<close>

datatype json =
    JNull
  | JBool bool
  | JInt int
  | JFloat f64
  | JString rstr
  | JArray "json list"
  | JObject "(rstr \<times> json) list"

fun from_json :: "json \<Rightarrow> parameter_value" where
  "from_json JNull = PNull"
| "from_json (JBool b) = PBoolean b"
| "from_json (JInt i) = (if i \<le> i64_max then PInteger i else PNumber (f64_of_int i))"
| "from_json (JFloat x) = PNumber x"
| "from_json (JString s) = PString s"
| "from_json (JArray js) = PList (map from_json js)"
| "from_json (JObject es) = PObject (map (\<lambda>(k, j). (k, from_json j)) es)"

type_synonym json_layer = "(rstr, json) btree"

definition json_parameter_layer ::
  "inference_task \<Rightarrow> rstr \<Rightarrow> json_layer \<Rightarrow> (resolve_error, layer) res" where
  "json_parameter_layer task label l =
     normalize_entries task label (map (\<lambda>(raw, j). (raw, from_json j)) l) []"

section \<open>The schema of a task\<close>

definition audio_task_descriptors :: "inference_task \<Rightarrow> parameter_descriptor list" where
  "audio_task_descriptors task =
     (if task = TextToSpeech then tts_descriptors
      else if task \<in> {AudioGeneration, MusicGeneration, SongContinuation, SongVariation, StemSeparation}
      then audio_descriptors task
      else [])"

definition text_task_descriptors :: "inference_task \<Rightarrow> parameter_descriptor list" where
  "text_task_descriptors task =
     (if task \<in> {AudioEventDetection, VoiceActivityDetection, SpeakerIdentification,
          LanguageIdentification, SpeechEmotionRecognition, AudioClassification}
      then audio_classification_descriptors
      else if task \<in> {SpeechToText, SpeechTranslation} then stt_descriptors task
      else if task \<in> {AudioCaptioning, AudioUnderstanding} then audio_text_descriptors
      else [])"

definition task_descriptors :: "inference_task \<Rightarrow> parameter_descriptor list" where
  "task_descriptors task =
     (case task_output_modality task of
        OutImage \<Rightarrow> image_descriptors task
      | OutVideo \<Rightarrow> video_descriptors task
      | OutAudio \<Rightarrow> audio_task_descriptors task
      | OutText \<Rightarrow> text_task_descriptors task
      | OutEmbedding \<Rightarrow> if task = AudioEmbedding then audio_embedding_descriptors else [])"

definition parameter_schema :: "inference_task \<Rightarrow> parameter_descriptor list" where
  "parameter_schema task = bt_values (descriptor_map (routing_descriptors @ task_descriptors task))"

section \<open>Constraints of a manifest\<close>

definition CONSTRAINT_FIELDS :: "rstr list" where
  "CONSTRAINT_FIELDS =
     [lit ''default'', lit ''minimum'', lit ''min'', lit ''maximum'', lit ''max'', lit ''step'',
      lit ''allowed_values'', lit ''enum'']"

definition convert_field :: "json_layer \<Rightarrow> rstr \<Rightarrow> parameter_value option" where
  "convert_field object name = map_option from_json (map_of object name)"

definition first_field :: "json_layer \<Rightarrow> rstr \<Rightarrow> rstr \<Rightarrow> parameter_value option \<Rightarrow> parameter_value option" where
  "first_field object name short old =
     (if bt_contains name object then convert_field object name
      else if bt_contains short object then convert_field object short
      else old)"

definition set_fields :: "json_layer \<Rightarrow> parameter_descriptor \<Rightarrow> parameter_descriptor" where
  "set_fields object d =
     (let d = (case convert_field object (lit ''default'') of None \<Rightarrow> d | Some v \<Rightarrow> d\<lparr>pd_default := Some v\<rparr>);
          d = d\<lparr>pd_minimum := first_field object (lit ''minimum'') (lit ''min'') (pd_minimum d)\<rparr>;
          d = d\<lparr>pd_maximum := first_field object (lit ''maximum'') (lit ''max'') (pd_maximum d)\<rparr>
      in case convert_field object (lit ''step'') of None \<Rightarrow> d | Some v \<Rightarrow> d\<lparr>pd_step := Some v\<rparr>)"

definition set_allowed ::
  "json_layer \<Rightarrow> parameter_descriptor \<Rightarrow> (resolve_error, parameter_descriptor) res" where
  "set_allowed object d =
     (case (case map_of object (lit ''allowed_values'') of
              Some j \<Rightarrow> Some j
            | None \<Rightarrow> map_of object (lit ''enum'')) of
        None \<Rightarrow> Ok d
      | Some (JArray values) \<Rightarrow> Ok (d\<lparr>pd_allowed_values := map from_json values\<rparr>)
      | Some _ \<Rightarrow> Err AllowedValuesNotArray)"

definition bound_value :: "parameter_value option \<Rightarrow> f64 option" where
  "bound_value b = Option.bind b as_f64"

definition range_error :: "parameter_descriptor \<Rightarrow> bool" where
  "range_error d =
     (case (bound_value (pd_minimum d), bound_value (pd_maximum d)) of
        (Some minimum, Some maximum) \<Rightarrow> f64_lt maximum minimum
      | _ \<Rightarrow> False)"

definition not_numeric :: "parameter_value option \<Rightarrow> bool" where
  "not_numeric b = (case b of None \<Rightarrow> False | Some v \<Rightarrow> as_f64 v = None)"

definition check_bounds :: "parameter_descriptor \<Rightarrow> (resolve_error, unit) res" where
  "check_bounds d =
     (if range_error d then Err MinimumExceedsMaximum
      else if not_numeric (pd_minimum d) then Err (BoundNotNumeric (lit ''minimum''))
      else if not_numeric (pd_maximum d) then Err (BoundNotNumeric (lit ''maximum''))
      else if not_numeric (pd_step d) then Err (BoundNotNumeric (lit ''step''))
      else if (case bound_value (pd_step d) of None \<Rightarrow> False | Some step \<Rightarrow> f64_le step (f64_ratio 0 1))
      then Err StepNotPositive else Ok ())"

fun validate_values ::
  "parameter_descriptor \<Rightarrow> parameter_value list \<Rightarrow> (resolve_error, unit) res" where
  "validate_values d [] = Ok ()"
| "validate_values d (v # vs) = res_bind (validate_parameter d v) (\<lambda>_. validate_values d vs)"

definition check_descriptor :: "parameter_descriptor \<Rightarrow> (resolve_error, unit) res" where
  "check_descriptor d =
     res_bind (check_bounds d) (\<lambda>_.
     res_bind (case pd_default d of None \<Rightarrow> Ok () | Some v \<Rightarrow> validate_parameter d v) (\<lambda>_.
       validate_values d (pd_allowed_values d)))"

text \<open>A plain value pins the parameter; an object without a known field is left alone.\<close>

definition apply_object_constraint ::
  "json_layer \<Rightarrow> parameter_descriptor \<Rightarrow> (resolve_error, parameter_descriptor) res" where
  "apply_object_constraint object d =
     (if \<not> list_ex (\<lambda>(k, _). k \<in> set CONSTRAINT_FIELDS) object then Ok d
      else (let unknown = filter (\<lambda>k. k \<notin> set CONSTRAINT_FIELDS) (map fst object)
        in if unknown \<noteq> [] then Err (UnknownConstraintFields unknown)
           else res_bind (set_allowed object (set_fields object d)) (\<lambda>d.
                res_bind (check_descriptor d) (\<lambda>_. Ok d))))"

definition apply_manifest_constraint ::
  "json \<Rightarrow> parameter_descriptor \<Rightarrow> (resolve_error, parameter_descriptor) res" where
  "apply_manifest_constraint constraint d =
     (case constraint of
        JObject object \<Rightarrow> apply_object_constraint object d
      | JNull \<Rightarrow> Ok d
      | _ \<Rightarrow> (let v = from_json constraint
          in res_bind (validate_parameter d v) (\<lambda>_.
               Ok (d\<lparr>pd_default := Some v, pd_allowed_values := [v]\<rparr>))))"

section \<open>The schema of a model\<close>

text \<open>The metadata of a manifest that the schema reads, beside those of the planner.\<close>

record schema_manifest = model_manifest +
  mf_generation_defaults :: json_layer
  mf_parameter_constraints :: json_layer

text \<open>
  The code finds a descriptor by the index of its path; paths are unique in a schema, so
  updating that index is updating the descriptor of that path.
\<close>

definition update_path ::
  "rstr \<Rightarrow> (parameter_descriptor \<Rightarrow> parameter_descriptor) \<Rightarrow> parameter_descriptor list \<Rightarrow> parameter_descriptor list"
where
  "update_path path f schema = map (\<lambda>d. if pd_path d = path then f d else d) schema"

definition set_schema_defaults :: "layer \<Rightarrow> parameter_descriptor list \<Rightarrow> parameter_descriptor list" where
  "set_schema_defaults l schema =
     foldl (\<lambda>schema (path, v). update_path path (\<lambda>d. d\<lparr>pd_default := Some v\<rparr>) schema) schema l"

definition find_path :: "rstr \<Rightarrow> parameter_descriptor list \<Rightarrow> parameter_descriptor option" where
  "find_path path schema = find (\<lambda>d. pd_path d = path) schema"

fun apply_constraints ::
  "inference_task \<Rightarrow> rstr \<Rightarrow> (rstr \<times> json) list \<Rightarrow> parameter_descriptor list \<Rightarrow>
     (resolve_error, parameter_descriptor list) res"
where
  "apply_constraints task model [] schema = Ok schema"
| "apply_constraints task model ((raw, constraint) # rest) schema =
     (let path = normalize_parameter_path task raw
      in case find_path path schema of
           None \<Rightarrow> apply_constraints task model rest schema
         | Some d \<Rightarrow>
             (case apply_manifest_constraint constraint d of
                Ok d' \<Rightarrow> apply_constraints task model rest (update_path path (\<lambda>_. d') schema)
              | Err e \<Rightarrow> Err (InvalidConstraint raw model e)
              | Panic \<Rightarrow> Panic))"

definition DEFAULT_LABEL :: rstr where "DEFAULT_LABEL = lit ''model generation default''"

definition parameter_schema_for_manifest ::
  "inference_task \<Rightarrow> schema_manifest \<Rightarrow> (resolve_error, parameter_descriptor list) res" where
  "parameter_schema_for_manifest task m =
     res_bind (json_parameter_layer task DEFAULT_LABEL (mf_generation_defaults m)) (\<lambda>model_defaults.
       (let schema = foldl (\<lambda>schema l. set_schema_defaults l schema) (parameter_schema task)
              [task_defaults task, family_defaults (mf_family m) task, model_defaults]
        in apply_constraints task (mf_id m) (mf_parameter_constraints m) schema))"

text \<open>What resolution takes from the tables, the manifest and the task.\<close>

definition source_tables :: "schema_manifest \<Rightarrow> inference_task \<Rightarrow> resolution_tables" where
  "source_tables m task =
     \<lparr>rt_schema = parameter_schema_for_manifest task m,
      rt_task_defaults = task_defaults task,
      rt_family_defaults = family_defaults (mf_family m) task,
      rt_model_defaults = json_parameter_layer task DEFAULT_LABEL (mf_generation_defaults m)\<rparr>"

definition resolve_for_manifest ::
  "schema_manifest \<Rightarrow> inference_request \<Rightarrow> resolution_context \<Rightarrow> (resolve_error, effective_request) res" where
  "resolve_for_manifest m q rx =
     resolve_request (source_tables m (iq_task q)) (model_manifest.truncate m) q rx"

end
