(* ===== verification/Schema_Facts.thy ===== *)
theory Schema_Facts
  imports Parameter_Schema Resolution_Claims
begin

text \<open>
  Facts about the parameter tables: what each builder guarantees, that the paths of a
  schema are pairwise distinct, how a schema is looked up, and what
  the default layers of a task and a family fit.
\<close>

section \<open>Builders\<close>

named_theorems builder_simps

lemma lit_eq [simp]: "lit a = lit b \<longleftrightarrow> a = b"
proof -
  have "inj (of_char :: char \<Rightarrow> nat)" by (rule inj_of_char)
  then show ?thesis by (simp add: lit_def inj_map_eq_map)
qed

lemma builder_paths [simp]:
  "pd_path (named_descriptor ns c n t) = ns @ lit ''.'' @ n"
  "pd_path (string_descriptor p f l e c ds) = p"
  "pd_path (enum_descriptor p f l e c s as) = p"
  "pd_path (bool_descriptor p f l e c b) = p"
  "pd_path (number_descriptor p f l e c x m st) = p"
  "pd_path (integer_descriptor p f l e c i j) = p"
  "pd_path (bounded_integer_descriptor p f l e c i j k) = p"
  by (simp_all add: named_descriptor_def string_descriptor_def enum_descriptor_def bool_descriptor_def
    number_descriptor_def integer_descriptor_def bounded_integer_descriptor_def)

lemma f64_step_positive:
  "\<not> f64_le (f64_of_int 1) (f64_ratio 0 1)" "\<not> f64_le (f64_ratio 1 10) (f64_ratio 0 1)"
  "\<not> f64_le (f64_ratio 1 100) (f64_ratio 0 1)"
  by (simp_all add: f64_le_def f64_nan_def f64_key_def f64_eval)

text \<open>A number that is finite and not below its minimum fits its descriptor.\<close>

definition number_fits :: "f64 \<Rightarrow> f64 \<Rightarrow> bool" where
  "number_fits x minimum \<longleftrightarrow> f64_is_finite x \<and> \<not> f64_lt x minimum"

lemma check_named [simp]: "check_descriptor (named_descriptor ns c n t) = Ok ()"
  by (cases t) (simp_all add: check_descriptor_def named_descriptor_def check_bounds_def range_error_def
    bound_value_def not_numeric_def named_default_def validate_parameter_def valid_type_def check_number_def)

lemma check_string [simp]: "check_descriptor (string_descriptor p f l e c ds) = Ok ()"
  by (cases ds) (simp_all add: check_descriptor_def string_descriptor_def check_bounds_def range_error_def
    bound_value_def not_numeric_def validate_parameter_def valid_type_def check_number_def)

lemma check_bool [simp]: "check_descriptor (bool_descriptor p f l e c b) = Ok ()"
  by (simp add: check_descriptor_def bool_descriptor_def check_bounds_def range_error_def
    bound_value_def not_numeric_def validate_parameter_def valid_type_def check_number_def)

lemma validate_values_Ok: "validate_values d vs = Ok () \<longleftrightarrow> (\<forall>v \<in> set vs. validate_parameter d v = Ok ())"
  by (induction vs) (auto simp: res_bind_Ok)

lemma check_enum [simp]: "s \<in> set as \<Longrightarrow> check_descriptor (enum_descriptor p f l e c s as) = Ok ()"
  by (auto simp: check_descriptor_def enum_descriptor_def string_descriptor_def check_bounds_def range_error_def
    bound_value_def not_numeric_def validate_parameter_def valid_type_def check_number_def res_bind_Ok
    validate_values_Ok list_ex_iff)

lemma check_integer [simp]:
  "number_fits (f64_of_int i) (f64_of_int j) \<Longrightarrow> check_descriptor (integer_descriptor p f l e c i j) = Ok ()"
  by (simp add: check_descriptor_def integer_descriptor_def check_bounds_def range_error_def f64_step_positive
    number_fits_def bound_value_def not_numeric_def validate_parameter_def valid_type_def check_number_def del: One_nat_def)

lemma check_bounded [simp]:
  "number_fits (f64_of_int i) (f64_of_int j) \<Longrightarrow> \<not> f64_lt (f64_of_int k) (f64_of_int j) \<Longrightarrow>
     check_descriptor (bounded_integer_descriptor p f l e c i j k) = Ok ()"
  by (simp add: check_descriptor_def bounded_integer_descriptor_def integer_descriptor_def check_bounds_def
    range_error_def f64_step_positive number_fits_def bound_value_def not_numeric_def validate_parameter_def
    valid_type_def check_number_def del: One_nat_def)

lemma check_number_descriptor [simp]:
  "number_fits x m \<Longrightarrow> \<not> f64_le st (f64_ratio 0 1) \<Longrightarrow> check_descriptor (number_descriptor p f l e c x m st) = Ok ()"
  by (simp add: check_descriptor_def number_descriptor_def check_bounds_def range_error_def
    number_fits_def bound_value_def not_numeric_def validate_parameter_def valid_type_def check_number_def)

text \<open>A valid entry of a table; only a parameter without allowed values may lack a default.\<close>

definition valid_entry :: "parameter_descriptor \<Rightarrow> bool" where
  "valid_entry d \<longleftrightarrow> check_descriptor d = Ok () \<and> (pd_default d = None \<longrightarrow> pd_allowed_values d = [])"

lemma valid_entryI: "check_descriptor d = Ok () \<Longrightarrow> pd_default d \<noteq> None \<or> pd_allowed_values d = [] \<Longrightarrow> valid_entry d"
  by (auto simp: valid_entry_def)

lemmas builder_defs = named_descriptor_def string_descriptor_def enum_descriptor_def bool_descriptor_def
  number_descriptor_def integer_descriptor_def bounded_integer_descriptor_def

lemma valid_builders [simp]:
  "valid_entry (named_descriptor ns c n t)" "valid_entry (string_descriptor p f l e c ds)"
  "valid_entry (bool_descriptor p f l e c b)" "s \<in> set as \<Longrightarrow> valid_entry (enum_descriptor p f l e c s as)"
  "number_fits x m \<Longrightarrow> \<not> f64_le st (f64_ratio 0 1) \<Longrightarrow> valid_entry (number_descriptor p f l e c x m st)"
  "number_fits (f64_of_int i) (f64_of_int j) \<Longrightarrow> valid_entry (integer_descriptor p f l e c i j)"
  "number_fits (f64_of_int i) (f64_of_int j) \<Longrightarrow> \<not> f64_lt (f64_of_int k) (f64_of_int j) \<Longrightarrow>
     valid_entry (bounded_integer_descriptor p f l e c i j k)"
  by (rule valid_entryI; simp; simp add: builder_defs)+

lemmas number_eval = number_fits_def f64_is_finite_def f64_lt_def f64_nan_def f64_key_def f64_neg_def f64_eval

text \<open>The numbers of the tables.\<close>

lemma table_integers [builder_simps]:
  "number_fits (f64_of_int 1024) (f64_of_int 64)" "number_fits (f64_of_int 832) (f64_of_int 64)"
  "number_fits (f64_of_int 480) (f64_of_int 64)" "number_fits (f64_of_int 81) (f64_of_int 1)"
  "number_fits (f64_of_int 1) (f64_of_int 1)" "number_fits (f64_of_int 28) (f64_of_int 1)"
  "number_fits (f64_of_int 30) (f64_of_int 1)" "number_fits (f64_of_int 0) (f64_of_int 0)"
  "number_fits (f64_of_int 44100) (f64_of_int 8000)" "number_fits (f64_of_int 24000) (f64_of_int 8000)"
  "number_fits (f64_of_int 16) (f64_of_int 8)" "number_fits (f64_of_int 2) (f64_of_int 1)"
  "number_fits (f64_of_int 5) (f64_of_int 1)" "number_fits (f64_of_int 3600) (f64_of_int 1)"
  by (simp_all add: number_eval)

lemma table_maximum [builder_simps]: "\<not> f64_lt (f64_of_int i64_max) (f64_of_int 0)"
  by (simp add: i64_max_def number_eval)

lemma table_numbers [builder_simps]:
  "number_fits (f64_ratio 7 1) (f64_ratio 0 1)" "number_fits (f64_ratio 6 1) (f64_ratio 0 1)"
  "number_fits (f64_ratio 0 1) (f64_ratio 0 1)" "number_fits (f64_ratio 24 1) (f64_ratio 1 10)"
  "number_fits (f64_ratio 30 1) (f64_ratio 1 10)" "number_fits (f64_ratio 1 1) (f64_ratio 1 10)"
  "number_fits (f64_ratio 0 1) (f64_neg (f64_ratio 48 1))"
  by (simp_all add: number_eval)

section \<open>The tables are valid\<close>

lemma list_all_named [simp]:
  "list_all valid_entry (add_named_descriptors vs ns c specs)
    \<longleftrightarrow> list_all valid_entry vs"
  by (auto simp: add_named_descriptors_def list_all_iff)

lemma list_all_filter: "list_all P xs \<Longrightarrow> list_all P (filter Q xs)"
  by (auto simp: list_all_iff)

lemma routing_valid: "list_all valid_entry routing_descriptors"
  by (simp add: routing_descriptors_def builder_simps)

lemma image_valid: "list_all valid_entry (image_descriptors t)"
  by (simp add: image_descriptors_def image_values_def image_base_descriptors_def builder_simps
    Let_def f64_step_positive list_all_filter del: One_nat_def)

lemma video_valid: "list_all valid_entry (video_descriptors t)"
  by (simp add: video_descriptors_def video_values_def video_base_descriptors_def builder_simps
    Let_def f64_step_positive list_all_filter del: One_nat_def)

lemma audio_valid: "list_all valid_entry (audio_descriptors t)"
  by (simp add: audio_descriptors_def audio_values_def audio_base_descriptors_def builder_simps
    Let_def f64_step_positive list_all_filter del: One_nat_def)

lemma analysis_valid:
  "list_all valid_entry audio_classification_descriptors"
  "list_all valid_entry audio_embedding_descriptors"
  "list_all valid_entry audio_text_descriptors"
  by (simp_all add: audio_classification_descriptors_def audio_embedding_descriptors_def
    audio_text_descriptors_def builder_simps)

lemma speech_valid:
  "list_all valid_entry tts_descriptors"
  "list_all valid_entry (stt_descriptors t)"
  by (simp_all add: tts_descriptors_def tts_base_descriptors_def stt_descriptors_def stt_base_descriptors_def
    Let_def builder_simps f64_step_positive del: One_nat_def)

lemma tables_valid: "d \<in> set (routing_descriptors @ task_descriptors t) \<Longrightarrow> valid_entry d"
proof -
  have "list_all valid_entry (routing_descriptors @ task_descriptors t)"
    by (simp add: routing_valid task_descriptors_def image_valid video_valid audio_task_descriptors_def
      audio_valid text_task_descriptors_def analysis_valid speech_valid split: output_modality.split)
  then show "d \<in> set (routing_descriptors @ task_descriptors t) \<Longrightarrow> valid_entry d"
    by (simp add: list_all_iff)
qed

section \<open>Paths\<close>

lemmas spec_lists = IMAGE_GEOMETRY_SPECS_def IMAGE_SAMPLING_SPECS_def IMAGE_INPAINTING_SPECS_def
  IMAGE_CONDITIONING_SPECS_def IMAGE_ADAPTERS_SPECS_def IMAGE_HIGH_RESOLUTION_SPECS_def
  IMAGE_POSTPROCESSING_SPECS_def VIDEO_GEOMETRY_SPECS_def VIDEO_SAMPLING_SPECS_def VIDEO_MOTION_SPECS_def
  VIDEO_CONDITIONING_SPECS_def VIDEO_WINDOWING_SPECS_def VIDEO_POSTPROCESSING_SPECS_def
  AUDIO_PROMPT_SPECS_def AUDIO_STYLE_SPECS_def AUDIO_HARMONY_SPECS_def AUDIO_INSTRUMENTS_SPECS_def
  AUDIO_VOCALS_SPECS_def AUDIO_CONDITIONING_SPECS_def AUDIO_SAMPLING_SPECS_def AUDIO_MIXING_SPECS_def
  AUDIO_TEXT_GENERATION_SPECS_def TTS_VOICE_SPECS_def TTS_OUTPUT_SPECS_def STT_TRANSCRIPTION_SPECS_def

lemmas base_lists = image_base_descriptors_def video_base_descriptors_def audio_base_descriptors_def
  tts_base_descriptors_def stt_base_descriptors_def

lemmas value_lists = image_values_def video_values_def audio_values_def tts_descriptors_def stt_descriptors_def
  audio_classification_descriptors_def audio_embedding_descriptors_def audio_text_descriptors_def

lemma map_add_named [simp]:
  "map f (add_named_descriptors vs ns c specs) = map f vs @ map (\<lambda>(n, t). f (named_descriptor ns c n t)) specs"
  by (simp add: add_named_descriptors_def comp_def case_prod_unfold)

lemma image_paths: "distinct (map pd_path (routing_descriptors @ image_values))"
  by (simp add: routing_descriptors_def value_lists base_lists spec_lists lit_append [symmetric])

lemma video_paths: "distinct (map pd_path (routing_descriptors @ video_values))"
  by (simp add: routing_descriptors_def value_lists base_lists spec_lists lit_append [symmetric])

lemma audio_paths: "distinct (map pd_path (routing_descriptors @ audio_values))"
  by (simp add: routing_descriptors_def value_lists base_lists spec_lists lit_append [symmetric])

lemma speech_paths:
  "distinct (map pd_path (routing_descriptors @ tts_descriptors))"
  "distinct (map pd_path (routing_descriptors @ stt_descriptors t))"
  by (simp_all add: routing_descriptors_def value_lists base_lists spec_lists lit_append [symmetric] Let_def)

lemma analysis_paths:
  "distinct (map pd_path (routing_descriptors @ audio_classification_descriptors))"
  "distinct (map pd_path (routing_descriptors @ audio_embedding_descriptors))"
  "distinct (map pd_path (routing_descriptors @ audio_text_descriptors))"
  by (simp_all add: routing_descriptors_def value_lists base_lists spec_lists lit_append [symmetric])

lemma distinct_filtered:
  "distinct (map f (xs @ ys)) \<Longrightarrow> distinct (map f (xs @ filter P ys))"
  unfolding map_append distinct_append by (auto simp: distinct_map_filter)

lemma routing_paths: "distinct (map pd_path routing_descriptors)"
  using analysis_paths(1) unfolding map_append distinct_append by blast

lemma task_table:
  "task_descriptors t \<in> {image_descriptors t, video_descriptors t, audio_descriptors t, tts_descriptors,
     stt_descriptors t, audio_classification_descriptors, audio_embedding_descriptors,
     audio_text_descriptors, []}"
  by (simp add: task_descriptors_def audio_task_descriptors_def text_task_descriptors_def
    split: output_modality.split)

lemma task_paths: "distinct (map pd_path (routing_descriptors @ task_descriptors t))"
proof -
  have "distinct (map pd_path (routing_descriptors @ image_descriptors t))"
    using image_paths distinct_filtered [OF image_paths] unfolding image_descriptors_def Let_def
    by (simp del: map_append)
  moreover have "distinct (map pd_path (routing_descriptors @ video_descriptors t))"
    using video_paths distinct_filtered [OF video_paths] unfolding video_descriptors_def Let_def
    by (simp del: map_append)
  moreover have "distinct (map pd_path (routing_descriptors @ audio_descriptors t))"
    using distinct_filtered [OF audio_paths] unfolding audio_descriptors_def Let_def
    by (simp del: map_append)
  moreover have "distinct (map pd_path (routing_descriptors @ []))" using routing_paths by simp
  ultimately show ?thesis
    using task_table [of t] speech_paths(1) speech_paths(2) [of t] analysis_paths
    by (elim insertE emptyE; simp only:)
qed

section \<open>Looking up a schema\<close>

lemma descriptor_map_snoc: "descriptor_map (ds @ [d]) = bt_insert (pd_path d) d (descriptor_map ds)"
  by (simp add: descriptor_map_def)

lemma descriptor_map_wf: "bt_wf (descriptor_map ds)"
  by (induction ds rule: rev_induct) (simp_all add: descriptor_map_snoc bt_wf_insert, simp add: descriptor_map_def)

lemma descriptor_map_in: "map_of (descriptor_map ds) p = Some d \<Longrightarrow> d \<in> set ds \<and> pd_path d = p"
proof (induction ds rule: rev_induct)
  case Nil
  then show ?case by (simp add: descriptor_map_def)
next
  case (snoc d' ds)
  then show ?case by (auto simp: descriptor_map_snoc split: if_splits)
qed

lemma descriptor_map_get:
  assumes "distinct (map pd_path ds)"
  shows "map_of (descriptor_map ds) p = Some d \<longleftrightarrow> d \<in> set ds \<and> pd_path d = p"
proof
  assume "d \<in> set ds \<and> pd_path d = p"
  then obtain d' where "map_of (descriptor_map ds) p = Some d'"
    using descriptor_map_dom by (fastforce simp: bt_contains_def)
  moreover from this descriptor_map_in have "d' \<in> set ds" "pd_path d' = p" by blast+
  ultimately show "map_of (descriptor_map ds) p = Some d"
    using assms \<open>d \<in> set ds \<and> pd_path d = p\<close> by (metis distinct_map inj_onD)
qed (rule descriptor_map_in)

lemma descriptor_map_pair: "(p, d) \<in> set (descriptor_map ds) \<Longrightarrow> d \<in> set ds \<and> pd_path d = p"
  by (rule descriptor_map_in) (simp add: bt_wf_get [OF descriptor_map_wf, symmetric])

lemma descriptor_map_values:
  "distinct (map pd_path ds) \<Longrightarrow> set (bt_values (descriptor_map ds)) = set ds"
proof (intro set_eqI iffI)
  fix d
  assume "d \<in> set (bt_values (descriptor_map ds))"
  from bt_values_in [OF this] obtain k where "(k, d) \<in> set (descriptor_map ds)" ..
  then show "d \<in> set ds" by (rule descriptor_map_pair [THEN conjunct1])
next
  fix d
  assume "distinct (map pd_path ds)" "d \<in> set ds"
  then have "(pd_path d, d) \<in> set (descriptor_map ds)"
    by (simp add: descriptor_map_get bt_wf_get [OF descriptor_map_wf])
  then show "d \<in> set (bt_values (descriptor_map ds))" unfolding bt_values_def by force
qed

lemma schema_set: "set (parameter_schema t) = set (routing_descriptors @ task_descriptors t)"
  unfolding parameter_schema_def by (rule descriptor_map_values [OF task_paths])

lemma schema_keys: "map pd_path (parameter_schema t) = map fst (descriptor_map (routing_descriptors @ task_descriptors t))"
proof -
  have "map pd_path (bt_values (descriptor_map ds)) = map fst (descriptor_map ds)" for ds
    unfolding bt_values_def map_map
    by (rule map_cong [OF refl]) (metis comp_apply descriptor_map_pair prod.collapse)
  then show ?thesis unfolding parameter_schema_def .
qed

lemma schema_paths: "distinct (map pd_path (parameter_schema t))"
  unfolding schema_keys by (rule bt_wf_distinct [OF descriptor_map_wf])

end
