(* ===== verification/Schema_Claims.thy ===== *)
theory Schema_Claims
  imports Schema_Facts
begin

text \<open>
  What the parameter schema promises: its tables are valid and their paths unique, the
  constraints of a manifest leave a valid schema, a plain request resolves for every task
  and family, and where the defaults of the tasks overrule the constraints of a manifest.
\<close>

section \<open>Values of the default layers\<close>

lemma check_number_default [simp]: "check_number (d\<lparr>pd_default := x\<rparr>) v = check_number d v"
  by (simp add: check_number_def split: option.split)

lemma validate_default [simp]: "validate_parameter (d\<lparr>pd_default := x\<rparr>) v = validate_parameter d v"
  by (simp add: validate_parameter_def)

lemma check_bounds_default [simp]: "check_bounds (d\<lparr>pd_default := x\<rparr>) = check_bounds d"
  by (simp add: check_bounds_def range_error_def split: option.split)

lemma validate_integer:
  "number_fits (f64_of_int k) (f64_of_int j) \<Longrightarrow>
     validate_parameter (integer_descriptor p f l e c i j) (PInteger k) = Ok ()"
  by (simp add: validate_parameter_def integer_descriptor_def valid_type_def check_number_def number_fits_def)

lemma validate_number:
  "number_fits x m \<Longrightarrow> validate_parameter (number_descriptor p f l e c y m st) (PNumber x) = Ok ()"
  by (simp add: validate_parameter_def number_descriptor_def valid_type_def check_number_def number_fits_def)

lemma validate_named_string:
  "validate_parameter (named_descriptor ns c n TString) (PString s) = Ok ()"
  by (simp add: validate_parameter_def named_descriptor_def valid_type_def check_number_def)

definition fits_table :: "parameter_descriptor list \<Rightarrow> (rstr \<times> parameter_value) list \<Rightarrow> bool" where
  "fits_table ds vs \<longleftrightarrow>
     list_all (\<lambda>(p, v). list_ex (\<lambda>d. pd_path d = p \<and> validate_parameter d v = Ok ()) ds) vs"

lemma fits_table_unique:
  assumes "fits_table ds vs" "distinct (map pd_path (rs @ ds))" "(p, v) \<in> set vs"
    and "d \<in> set (rs @ ds)" "pd_path d = p"
  shows "validate_parameter d v = Ok ()"
proof -
  obtain d' where d': "d' \<in> set ds" "pd_path d' = p" "validate_parameter d' v = Ok ()"
    using assms(1,3) by (fastforce simp: fits_table_def list_all_iff list_ex_iff)
  then have "d' \<in> set (rs @ ds)" by simp
  with assms(2,4,5) d'(2) have "d' = d" by (metis distinct_map inj_onD)
  with d'(3) show ?thesis by simp
qed

lemma layer_numbers [builder_simps]:
  "number_fits (f64_ratio 35 10) (f64_ratio 0 1)" "number_fits (f64_ratio 5 1) (f64_ratio 0 1)"
  "number_fits (f64_ratio 16 1) (f64_ratio 1 10)" "number_fits (f64_ratio 8 1) (f64_ratio 1 10)"
  "number_fits (f64_of_int 1280) (f64_of_int 64)" "number_fits (f64_of_int 704) (f64_of_int 64)"
  "number_fits (f64_of_int 121) (f64_of_int 1)" "number_fits (f64_of_int 50) (f64_of_int 1)"
  "number_fits (f64_of_int 49) (f64_of_int 1)" "number_fits (f64_of_int 32000) (f64_of_int 8000)"
  by (simp_all add: number_eval)

lemma base_in_values:
  "set image_base_descriptors \<subseteq> set image_values" "set video_base_descriptors \<subseteq> set video_values"
  "set audio_base_descriptors \<subseteq> set audio_values" "set tts_base_descriptors \<subseteq> set tts_descriptors"
  "set (stt_base_descriptors (stt_operation t) [stt_operation t]) \<subseteq> set (stt_descriptors t)"
  by (auto simp: value_lists add_named_descriptors_def Let_def)

lemma fits_mono: "fits_table ds vs \<Longrightarrow> set ds \<subseteq> set ds' \<Longrightarrow> fits_table ds' vs"
  by (fastforce simp: fits_table_def list_all_iff list_ex_iff)

lemma fits_append [simp]: "fits_table ds (xs @ ys) \<longleftrightarrow> fits_table ds xs \<and> fits_table ds ys"
  by (simp add: fits_table_def)

lemmas default_lists = IMAGE_TASK_DEFAULTS_def VIDEO_TASK_DEFAULTS_def TTS_TASK_DEFAULTS_def
  STT_TASK_DEFAULTS_def AUDIO_TASK_DEFAULTS_def FLUX_DEFAULTS_def SDXL_DEFAULTS_def
  WAN_TI2V_DEFAULTS_def WAN_DEFAULTS_def COGVIDEO_DEFAULTS_def MUSICGEN_DEFAULTS_def

lemma task_values_fit:
  "fits_table image_base_descriptors IMAGE_TASK_DEFAULTS" "fits_table video_base_descriptors VIDEO_TASK_DEFAULTS"
  "fits_table audio_base_descriptors AUDIO_TASK_DEFAULTS" "fits_table tts_base_descriptors TTS_TASK_DEFAULTS"
  "fits_table (stt_base_descriptors s as) STT_TASK_DEFAULTS"
  by (simp_all add: fits_table_def base_lists default_lists builder_simps validate_integer validate_number
    del: One_nat_def)

lemma family_values_fit:
  "fits_table image_values (family_image_values f)" "fits_table video_values (family_video_values f)"
  "fits_table audio_values MUSICGEN_DEFAULTS"
proof -
  have "named_descriptor (lit ''image'') (lit ''sampling'') (lit ''sampler'') TString \<in> set image_values"
    by (auto simp: image_values_def add_named_descriptors_def IMAGE_SAMPLING_SPECS_def Let_def)
  then have "fits_table image_values [(lit ''image.sampler'', PString (lit ''flow_match''))]"
    by (force simp: fits_table_def list_ex_iff validate_named_string lit_append [symmetric])
  moreover have "fits_table image_values [(lit ''image.steps'', PInteger 28),
      (lit ''image.guidance'', PNumber (f64_ratio 35 10))]"
    by (rule fits_mono [OF _ base_in_values(1)])
      (simp add: fits_table_def base_lists builder_simps validate_integer validate_number del: One_nat_def)
  moreover have "FLUX_DEFAULTS = [(lit ''image.steps'', PInteger 28), (lit ''image.guidance'', PNumber (f64_ratio 35 10))]
      @ [(lit ''image.sampler'', PString (lit ''flow_match''))]"
    by (simp add: FLUX_DEFAULTS_def)
  ultimately have "fits_table image_values FLUX_DEFAULTS" by (metis fits_append)
  moreover have "fits_table image_base_descriptors SDXL_DEFAULTS"
    by (simp add: fits_table_def base_lists default_lists builder_simps validate_integer validate_number
      del: One_nat_def)
  ultimately show "fits_table image_values (family_image_values f)"
    using fits_mono [OF _ base_in_values(1)] by (simp add: family_image_values_def) (simp add: fits_table_def)
next
  have "fits_table video_base_descriptors WAN_TI2V_DEFAULTS" "fits_table video_base_descriptors WAN_DEFAULTS"
    "fits_table video_base_descriptors COGVIDEO_DEFAULTS"
    by (simp_all add: fits_table_def base_lists default_lists builder_simps validate_integer validate_number
      del: One_nat_def)
  then show "fits_table video_values (family_video_values f)"
    using fits_mono [OF _ base_in_values(2)] by (simp add: family_video_values_def) (simp add: fits_table_def)
next
  have "fits_table audio_base_descriptors MUSICGEN_DEFAULTS"
    by (simp add: fits_table_def base_lists default_lists builder_simps validate_integer)
  then show "fits_table audio_values MUSICGEN_DEFAULTS" by (rule fits_mono [OF _ base_in_values(3)])
qed

section \<open>The layers of a task and a family\<close>

definition family_values :: "rstr option \<Rightarrow> inference_task \<Rightarrow> (rstr \<times> parameter_value) list" where
  "family_values given task =
     (let family = to_ascii_lowercase (case given of None \<Rightarrow> [] | Some f \<Rightarrow> f)
      in if task_output_modality task = OutImage then family_image_values family
         else if task_output_modality task = OutVideo then family_video_values family
         else if task \<in> {MusicGeneration, SongContinuation, SongVariation} \<and> contains_str (lit ''musicgen'') family
         then MUSICGEN_DEFAULTS else [])"

lemma family_defaults_values: "family_defaults f t = insert_all (family_values f t) []"
  by (cases t) (simp_all add: family_defaults_def family_values_def insert_all_def Let_def)

lemma insert_all_wf: "bt_wf l \<Longrightarrow> bt_wf (insert_all vs l)"
  unfolding insert_all_def by (induction vs arbitrary: l) (auto simp: bt_wf_insert)

lemma insert_all_get: "map_of (insert_all vs l) p = Some v \<Longrightarrow> (p, v) \<in> set vs \<or> map_of l p = Some v"
  unfolding insert_all_def by (induction vs arbitrary: l) (fastforce split: if_splits)+

lemma layers_wf: "bt_wf (task_defaults t)" "bt_wf (family_defaults f t)"
  by (simp_all add: task_defaults_def family_defaults_values insert_all_wf)

lemma stt_fits: "fits_table (stt_descriptors t) STT_TASK_DEFAULTS"
  by (rule fits_mono [OF task_values_fit(5) base_in_values(5)])

lemma audio_subset: "set (audio_task_descriptors t) \<subseteq> (if t = TextToSpeech then set tts_descriptors else set audio_values)"
  by (auto simp: audio_task_descriptors_def audio_descriptors_def Let_def split: if_splits)

lemma default_values_fit:
  assumes v: "(p, v) \<in> set (task_default_values t) \<union> set (family_values f t)"
    and d: "d \<in> set (routing_descriptors @ task_descriptors t)" "pd_path d = p"
  shows "validate_parameter d v = Ok ()"
proof (cases "task_output_modality t")
  case OutImage
  with v have "(p, v) \<in> set (IMAGE_TASK_DEFAULTS @ family_image_values (to_ascii_lowercase (case f of None \<Rightarrow> [] | Some f \<Rightarrow> f)))"
    by (auto simp: task_default_values_def family_values_def Let_def)
  moreover have "d \<in> set (routing_descriptors @ image_values)"
    using d(1) OutImage by (auto simp: task_descriptors_def image_descriptors_def Let_def split: if_splits)
  ultimately show ?thesis
    using fits_table_unique [OF _ image_paths _ _ d(2)] fits_mono [OF task_values_fit(1) base_in_values(1)]
      family_values_fit(1) fits_append by blast
next
  case OutVideo
  with v have "(p, v) \<in> set (VIDEO_TASK_DEFAULTS @ family_video_values (to_ascii_lowercase (case f of None \<Rightarrow> [] | Some f \<Rightarrow> f)))"
    by (auto simp: task_default_values_def family_values_def Let_def)
  moreover have "d \<in> set (routing_descriptors @ video_values)"
    using d(1) OutVideo by (auto simp: task_descriptors_def video_descriptors_def Let_def split: if_splits)
  ultimately show ?thesis
    using fits_table_unique [OF _ video_paths _ _ d(2)] fits_mono [OF task_values_fit(2) base_in_values(2)]
      family_values_fit(2) fits_append by blast
next
  case OutAudio
  show ?thesis
  proof (cases "t = TextToSpeech")
    case True
    with v have "(p, v) \<in> set TTS_TASK_DEFAULTS"
      by (auto simp: task_default_values_def family_values_def Let_def)
    moreover have "d \<in> set (routing_descriptors @ tts_descriptors)"
      using d(1) True by (auto simp: task_descriptors_def audio_task_descriptors_def)
    ultimately show ?thesis
      using fits_table_unique [OF _ speech_paths(1) _ _ d(2)] fits_mono [OF task_values_fit(4) base_in_values(4)] by blast
  next
    case False
    with v OutAudio have "(p, v) \<in> set (AUDIO_TASK_DEFAULTS @ MUSICGEN_DEFAULTS)"
      by (auto simp: task_default_values_def family_values_def Let_def split: if_splits)
    moreover have "d \<in> set (routing_descriptors @ audio_values)"
      using d(1) OutAudio False audio_subset [of t] by (auto simp: task_descriptors_def)
    ultimately show ?thesis
      using fits_table_unique [OF _ audio_paths _ _ d(2)] fits_mono [OF task_values_fit(3) base_in_values(3)]
        family_values_fit(3) fits_append by blast
  qed
next
  case OutText
  with v have t: "(p, v) \<in> set STT_TASK_DEFAULTS" "t = SpeechToText \<or> t = SpeechTranslation"
    by (cases t; auto simp: task_default_values_def family_values_def Let_def split: if_splits)+
  then have "d \<in> set (routing_descriptors @ stt_descriptors t)"
    using d(1) by (auto simp: task_descriptors_def text_task_descriptors_def)
  with t show ?thesis using fits_table_unique [OF stt_fits speech_paths(2) _ _ d(2)] by blast
next
  case OutEmbedding
  with v show ?thesis by (cases t) (auto simp: task_default_values_def family_values_def Let_def)
qed

section \<open>Defaults in the schema\<close>

text \<open>A descriptor that differs at most in its default, which then comes from a layer.\<close>

definition defaulted :: "layer set \<Rightarrow> parameter_descriptor \<Rightarrow> parameter_descriptor \<Rightarrow> bool" where
  "defaulted ls d d' \<longleftrightarrow> (\<exists>x. d' = d\<lparr>pd_default := x\<rparr>
     \<and> (x = pd_default d \<or> (\<exists>l \<in> ls. \<exists>v. x = Some v \<and> (pd_path d, v) \<in> set l)))"

lemma defaulted_refl: "defaulted ls d d"
  unfolding defaulted_def by (rule exI [of _ "pd_default d"]) simp

lemma defaulted_trans:
  assumes "defaulted ls d e" "defaulted ls e f"
  shows "defaulted ls d f"
proof -
  obtain x where x: "e = d\<lparr>pd_default := x\<rparr>"
      "x = pd_default d \<or> (\<exists>l \<in> ls. \<exists>v. x = Some v \<and> (pd_path d, v) \<in> set l)"
    using assms(1) unfolding defaulted_def by blast
  obtain y where y: "f = e\<lparr>pd_default := y\<rparr>"
      "y = pd_default e \<or> (\<exists>l \<in> ls. \<exists>v. y = Some v \<and> (pd_path e, v) \<in> set l)"
    using assms(2) unfolding defaulted_def by blast
  from x y have "f = d\<lparr>pd_default := y\<rparr>"
      "y = pd_default d \<or> (\<exists>l \<in> ls. \<exists>v. y = Some v \<and> (pd_path d, v) \<in> set l)" by auto
  then show ?thesis unfolding defaulted_def by blast
qed

lemma defaulted_set: "l \<in> ls \<Longrightarrow> (pd_path d, v) \<in> set l \<Longrightarrow> defaulted ls d (d\<lparr>pd_default := Some v\<rparr>)"
  unfolding defaulted_def by blast

lemma defaulted_facts:
  assumes "defaulted ls d d'"
  shows "pd_path d' = pd_path d" "validate_parameter d' v = validate_parameter d v"
    "check_bounds d' = check_bounds d" "pd_allowed_values d' = pd_allowed_values d"
  using assms by (auto simp: defaulted_def)

lemma set_schema_defaults_step:
  assumes "set entries \<subseteq> set l" "l \<in> ls" "list_all2 (defaulted ls) ds es"
  shows "list_all2 (defaulted ls) ds (foldl (\<lambda>schema (path, v). update_path path (\<lambda>d. d\<lparr>pd_default := Some v\<rparr>) schema) es entries)"
  using assms(1,3)
proof (induction entries arbitrary: es)
  case (Cons x entries)
  obtain p v where x: "x = (p, v)" by (cases x)
  have "list_all2 (defaulted ls) ds (update_path p (\<lambda>d. d\<lparr>pd_default := Some v\<rparr>) es)"
    unfolding update_path_def list_all2_map2 using Cons.prems(2)
  proof (rule list_all2_mono)
    fix d e
    assume de: "defaulted ls d e"
    show "defaulted ls d (if pd_path e = p then e\<lparr>pd_default := Some v\<rparr> else e)"
      using de defaulted_trans [OF de defaulted_set [OF assms(2), of e v]] Cons.prems(1) x by auto
  qed
  with Cons x show ?case by simp
qed simp

lemma set_schema_defaults_all:
  assumes "set layers \<subseteq> ls" "list_all2 (defaulted ls) ds es"
  shows "list_all2 (defaulted ls) ds (foldl (\<lambda>schema l. set_schema_defaults l schema) es layers)"
  using assms
proof (induction layers arbitrary: es)
  case (Cons l layers)
  then have "list_all2 (defaulted ls) ds (set_schema_defaults l es)"
    unfolding set_schema_defaults_def by (intro set_schema_defaults_step [of l l]) auto
  with Cons show ?case by simp
qed simp

definition default_schema :: "schema_manifest \<Rightarrow> inference_task \<Rightarrow> layer \<Rightarrow> parameter_descriptor list" where
  "default_schema m task model_defaults =
     foldl (\<lambda>schema l. set_schema_defaults l schema) (parameter_schema task)
       [task_defaults task, family_defaults (mf_family m) task, model_defaults]"

lemma schema_for_manifest_cases:
  assumes "parameter_schema_for_manifest task m = Ok schema"
  obtains model_defaults where
    "json_parameter_layer task DEFAULT_LABEL (mf_generation_defaults m) = Ok model_defaults"
    "apply_constraints task (mf_id m) (mf_parameter_constraints m) (default_schema m task model_defaults) = Ok schema"
  using assms by (auto simp: parameter_schema_for_manifest_def res_bind_Ok default_schema_def Let_def)

lemma default_schema_related:
  "list_all2 (defaulted {task_defaults t, family_defaults (mf_family m) t, l}) (parameter_schema t) (default_schema m t l)"
  unfolding default_schema_def
  by (rule set_schema_defaults_all) (simp_all add: defaulted_refl list.rel_refl)

lemma default_schema_paths: "map pd_path (default_schema m t l) = map pd_path (parameter_schema t)"
proof -
  have "list_all2 (\<lambda>d e. pd_path e = pd_path d) (parameter_schema t) (default_schema m t l)"
    using default_schema_related by (rule list_all2_mono) (rule defaulted_facts(1))
  then show ?thesis by (induction rule: list_all2_induct) simp_all
qed

lemma default_schema_in:
  assumes "e \<in> set (default_schema m t l)"
  obtains d where "d \<in> set (routing_descriptors @ task_descriptors t)"
    "defaulted {task_defaults t, family_defaults (mf_family m) t, l} d e"
proof -
  obtain d where "d \<in> set (parameter_schema t)" "defaulted {task_defaults t, family_defaults (mf_family m) t, l} d e"
    using default_schema_related assms by (metis (no_types, lifting) list_all2_conv_all_nth in_set_conv_nth)
  with that schema_set show thesis by blast
qed

lemma default_schema_bounds: "e \<in> set (default_schema m t l) \<Longrightarrow> check_bounds e = Ok ()"
  by (erule default_schema_in)
    (use tables_valid in \<open>auto simp: defaulted_facts valid_entry_def check_descriptor_def res_bind_Ok\<close>)

section \<open>Constraints\<close>

text \<open>No JSON text denotes an infinite number or not-a-number.\<close>

fun json_finite :: "json \<Rightarrow> bool" where
  "json_finite (JFloat x) = f64_is_finite x"
| "json_finite (JArray js) = list_all json_finite js"
| "json_finite (JObject es) = list_all (\<lambda>(_, j). json_finite j) es"
| "json_finite _ = True"

lemma f64_of_int_not_nan [simp]: "\<not> f64_nan (f64_of_int i)"
  by (simp add: f64_of_int_def)

lemma pv_eq_from_json: "json_finite j \<Longrightarrow> pv_eq (from_json j) (from_json j)"
  by (induction j rule: json_finite.induct)
    (auto simp: f64_eq_def f64_finite_nan list_all_iff list_all2_same list.rel_map)

definition is_constraint :: "json \<Rightarrow> bool" where
  "is_constraint c = (case c of
       JNull \<Rightarrow> False
     | JObject object \<Rightarrow> list_ex (\<lambda>(k, _). k \<in> set CONSTRAINT_FIELDS) object
     | _ \<Rightarrow> True)"

lemma set_fields_path [simp]: "pd_path (set_fields object d) = pd_path d"
  by (simp add: set_fields_def Let_def split: option.split)

lemma set_allowed_path: "set_allowed object d = Ok d' \<Longrightarrow> pd_path d' = pd_path d"
  by (auto simp: set_allowed_def split: option.splits json.splits)

lemma check_pinned:
  assumes "validate_parameter d (from_json c) = Ok ()" "json_finite c" "check_bounds d = Ok ()"
  shows "check_descriptor (d\<lparr>pd_default := Some (from_json c), pd_allowed_values := [from_json c]\<rparr>) = Ok ()"
proof -
  have "check_bounds (d\<lparr>pd_default := Some v, pd_allowed_values := vs\<rparr>) = check_bounds d" for v vs
    by (simp add: check_bounds_def range_error_def split: option.split)
  moreover have "check_number (d\<lparr>pd_default := y, pd_allowed_values := vs\<rparr>) v = check_number d v" for y vs v
    by (simp add: check_number_def split: option.split)
  ultimately show ?thesis using assms pv_eq_from_json [OF assms(2)]
    by (auto simp: check_descriptor_def validate_parameter_def res_bind_Ok split: if_splits)
qed

lemma apply_manifest_constraint_ok:
  assumes "apply_manifest_constraint c d = Ok d'" "json_finite c" "check_bounds d = Ok ()"
  shows "pd_path d' = pd_path d" "check_bounds d' = Ok ()"
    "is_constraint c \<Longrightarrow> check_descriptor d' = Ok ()" "\<not> is_constraint c \<Longrightarrow> d' = d"
proof -
  have bounds: "check_bounds x = Ok ()" if "check_descriptor x = Ok ()" for x
    using that by (auto simp: check_descriptor_def res_bind_Ok)
  have "pd_path d' = pd_path d \<and> (if is_constraint c then check_descriptor d' = Ok () else d' = d)"
  proof (cases c)
    case (JObject object)
    with assms(1) show ?thesis
      by (auto simp: apply_manifest_constraint_def apply_object_constraint_def is_constraint_def Let_def
        res_bind_Ok dest: set_allowed_path split: if_splits)
  next
    case JNull
    with assms(1) show ?thesis by (simp add: apply_manifest_constraint_def is_constraint_def)
  qed (use assms check_pinned in \<open>auto simp: apply_manifest_constraint_def is_constraint_def Let_def res_bind_Ok
        simp del: from_json.simps\<close>)
  with bounds assms(3) show "pd_path d' = pd_path d" "check_bounds d' = Ok ()"
    "is_constraint c \<Longrightarrow> check_descriptor d' = Ok ()" "\<not> is_constraint c \<Longrightarrow> d' = d"
    by (auto split: if_splits)
qed

text \<open>Which paths the constraints of a list reach.\<close>

definition constrained :: "inference_task \<Rightarrow> (rstr \<times> json) list \<Rightarrow> rstr set" where
  "constrained task cs = {normalize_parameter_path task raw |raw c. (raw, c) \<in> set cs \<and> is_constraint c}"

lemma constrained_Cons:
  "constrained task ((raw, c) # cs) =
     (if is_constraint c then {normalize_parameter_path task raw} else {}) \<union> constrained task cs"
  by (auto simp: constrained_def)

lemma find_path_Some: "find_path p ds = Some d \<Longrightarrow> d \<in> set ds \<and> pd_path d = p"
  unfolding find_path_def find_Some_iff by auto

lemma find_path_None: "find_path p ds = None \<longleftrightarrow> p \<notin> set (map pd_path ds)"
  unfolding find_path_def find_None_iff by auto

lemma update_path_paths: "pd_path d' = p \<Longrightarrow> map pd_path (update_path p (\<lambda>_. d') ds) = map pd_path ds"
  unfolding update_path_def by (induction ds) auto

lemma apply_constraints_ok:
  assumes "apply_constraints task model cs ds = Ok es" "\<forall>(_, c) \<in> set cs. json_finite c"
    and "\<forall>d \<in> set ds. check_bounds d = Ok ()"
    and "\<forall>d \<in> set ds. pd_path d \<in> P \<longrightarrow> check_descriptor d = Ok ()"
  shows "map pd_path es = map pd_path ds \<and> (\<forall>d \<in> set es. check_bounds d = Ok ()
    \<and> (pd_path d \<in> P \<union> constrained task cs \<longrightarrow> check_descriptor d = Ok ()))"
  using assms
proof (induction cs arbitrary: ds P)
  case Nil
  then show ?case by (simp add: constrained_def)
next
  case (Cons x cs)
  obtain raw c where x: "x = (raw, c)" by (cases x)
  let ?p = "normalize_parameter_path task raw"
  show ?case
  proof (cases "find_path ?p ds")
    case None
    with Cons.prems(1) x have a: "apply_constraints task model cs ds = Ok es" by (simp add: Let_def)
    have "\<forall>d \<in> set ds. pd_path d \<in> insert ?p P \<longrightarrow> check_descriptor d = Ok ()"
      using Cons.prems(4) None unfolding find_path_None by (metis imageI insertE list.set_map)
    from Cons.IH [OF a _ Cons.prems(3) this] Cons.prems(2) x show ?thesis
      by (auto simp: constrained_Cons split: if_splits)
  next
    case (Some d)
    with Cons.prems(1) x obtain d' where d': "apply_manifest_constraint c d = Ok d'"
        "apply_constraints task model cs (update_path ?p (\<lambda>_. d') ds) = Ok es"
      by (auto simp: Let_def split: res.splits)
    note d = find_path_Some [OF Some]
    have "json_finite c" "check_bounds d = Ok ()" using Cons.prems(2,3) x d by auto
    note ok = apply_manifest_constraint_ok [OF d'(1) this]
    have p: "pd_path d' = ?p" using ok(1) d by simp
    let ?ds = "update_path ?p (\<lambda>_. d') ds" and ?P = "if is_constraint c then insert ?p P else P"
    have in_ds: "e = d' \<or> (e \<in> set ds \<and> pd_path e \<noteq> ?p)" if "e \<in> set ?ds" for e
      using that by (auto simp: update_path_def split: if_splits)
    have b: "\<forall>e \<in> set ?ds. check_bounds e = Ok ()" using in_ds ok(2) Cons.prems(3) by blast
    have c: "\<forall>e \<in> set ?ds. pd_path e \<in> ?P \<longrightarrow> check_descriptor e = Ok ()"
    proof (intro ballI impI)
      fix e
      assume e: "e \<in> set ?ds" "pd_path e \<in> ?P"
      show "check_descriptor e = Ok ()"
        using in_ds [OF e(1)] e(2) ok(3,4) d p Cons.prems(4) by (cases "is_constraint c") auto
    qed
    have f: "\<forall>(_, c) \<in> set cs. json_finite c" using Cons.prems(2) by simp
    have u: "P \<union> constrained task (x # cs) = ?P \<union> constrained task cs"
      unfolding x constrained_Cons by simp
    show ?thesis
      unfolding u update_path_paths [OF p, of ds, symmetric] by (rule Cons.IH [OF d'(2) f b c])
  qed
qed

section \<open>Plain requests\<close>

definition plain_request :: "inference_request \<Rightarrow> bool" where
  "plain_request q \<longleftrightarrow> iq_parameters q = [] \<and> iq_routing q = no_routing_overrides"

definition no_profiles :: "resolution_context \<Rightarrow> bool" where
  "no_profiles rx \<longleftrightarrow> rx_runtime_defaults rx = [] \<and> rx_hardware_profile rx = [] \<and> rx_user_profile rx = []"

lemma no_routing [simp]: "apply_routing_overrides no_routing_overrides s = s"
  by (simp add: apply_routing_overrides_def routing_list_def no_routing_overrides_def)

lemma normalize_empty [simp]: "normalize_parameter_layer t label [] = Ok []"
  by (simp add: normalize_parameter_layer_def)

lemma plain_layers:
  "no_profiles rx \<Longrightarrow> rt_model_defaults rt = Ok l \<Longrightarrow> base_layers rt rx t =
     Ok [(TaskDefault, rt_task_defaults rt), (ModelFamilyDefault, rt_family_defaults rt), (ModelDefault, l),
         (RuntimeDefault, []), (HardwareProfile, []), (UserProfile, [])]"
  by (simp add: no_profiles_def base_layers_def)

lemma bt_wf_descriptor_defaults: "bt_wf ps \<Longrightarrow> bt_wf (apply_descriptor_defaults schema ps)"
  unfolding apply_descriptor_defaults_def by (induction schema arbitrary: ps) (simp_all add: bt_wf_insert)

lemma bt_wf_apply_layer: "bt_wf ps \<Longrightarrow> bt_wf (apply_layer l src ps)"
  unfolding apply_layer_def by (induction l arbitrary: ps) (auto simp: bt_wf_insert)

lemma bt_wf_apply_layers: "bt_wf ps \<Longrightarrow> bt_wf (apply_layers ds ls ps)"
  unfolding apply_layers_def by (induction ls arbitrary: ps) (auto simp: bt_wf_apply_layer)

lemma validate_all_iff:
  "validate_all ds es = Ok () \<longleftrightarrow>
     (\<forall>(p, rp) \<in> set es. \<exists>d. map_of ds p = Some d \<and> validate_parameter d (rp_value rp) = Ok ())"
  by (induction ds es rule: validate_all.induct) (auto simp: res_bind_Ok split: option.splits)

text \<open>The value that the layers give to a path.\<close>

definition plain_value :: "parameter_descriptor list \<Rightarrow> (parameter_source \<times> layer) list \<Rightarrow> rstr \<Rightarrow> resolved_parameter option" where
  "plain_value schema ls p =
     (case top_layer ls p of
        Some rp \<Rightarrow> if bt_contains p (descriptor_map schema) then Some rp else None
      | None \<Rightarrow> map_option descriptor_default (map_of (descriptor_map schema) p))"

definition plain_parameters :: "parameter_descriptor list \<Rightarrow> (parameter_source \<times> layer) list \<Rightarrow> resolved" where
  "plain_parameters schema ls = apply_layers (descriptor_map schema) ls (apply_descriptor_defaults schema [])"

lemma plain_parameters_get:
  "\<forall>l \<in> snd ` set ls. bt_wf l \<Longrightarrow> map_of (plain_parameters schema ls) p = plain_value schema ls p"
  by (auto simp: plain_parameters_def plain_value_def get_apply_layers get_descriptor_defaults bt_contains_def
    split: option.split)

lemma plain_parameters_wf: "bt_wf (plain_parameters schema ls)"
  unfolding plain_parameters_def by (intro bt_wf_apply_layers bt_wf_descriptor_defaults bt_wf_Nil)

lemma plain_resolves:
  assumes "iq_model q = mf_id m" "supports_task m (iq_task q)" "validate_required_inputs q = Ok ()"
    and "rt_schema rt = Ok schema" "base_layers rt rx (iq_task q) = Ok ls" "plain_request q"
    and wf: "\<forall>l \<in> snd ` set ls. bt_wf l"
    and fit: "\<And>d rp. map_of (descriptor_map schema) (pd_path d) = Some d \<Longrightarrow>
      plain_value schema ls (pd_path d) = Some rp \<Longrightarrow> validate_parameter d (rp_value rp) = Ok ()"
    and policy: "resolved_policy (plain_parameters schema ls) = Ok policy"
  shows "\<exists>r. resolve_request rt m q rx = Ok r \<and> er_explicit_parameters r = [] \<and> er_warnings r = []
    \<and> er_parameters r = plain_parameters schema ls \<and> er_parameter_policy r = policy"
proof -
  let ?ds = "descriptor_map schema" and ?ps = "plain_parameters schema ls"
  have "\<exists>d. map_of ?ds p = Some d \<and> validate_parameter d (rp_value rp) = Ok ()" if "(p, rp) \<in> set ?ps" for p rp
  proof -
    have v: "plain_value schema ls p = Some rp"
      using that by (simp add: bt_wf_get [OF plain_parameters_wf] plain_parameters_get [OF wf])
    then obtain d where d: "map_of ?ds p = Some d"
      by (auto simp: plain_value_def bt_contains_def split: option.splits if_splits)
    with descriptor_map_in have "pd_path d = p" by blast
    with fit [of d rp] v d show ?thesis by simp
  qed
  then have all: "validate_all ?ds ?ps = Ok ()" unfolding validate_all_iff by blast
  have "bt_contains (pd_path d) ?ps" if "d \<in> set schema" for d
    using descriptor_map_dom [OF that] plain_parameters_get [OF wf, of schema "pd_path d"]
    by (auto simp: bt_contains_def plain_value_def split: option.splits)
  then have "null_fill schema ?ps = ?ps" by (intro null_fill_id) blast
  with assms(1-6) all policy show ?thesis
    by (simp add: resolve_request_def plain_request_def finish_resolution_def Let_def
      plain_parameters_def [symmetric])
qed

text \<open>Conversely, what a plain request resolves to passed its descriptor.\<close>

lemma plain_resolved:
  assumes "resolve_request rt m q rx = Ok r" "rt_schema rt = Ok schema"
    and "base_layers rt rx (iq_task q) = Ok ls" "plain_request q"
    and wf: "\<forall>l \<in> snd ` set ls. bt_wf l" and v: "plain_value schema ls p = Some rp"
  shows "\<exists>d. map_of (descriptor_map schema) p = Some d \<and> validate_parameter d (rp_value rp) = Ok ()"
proof -
  obtain s ps where "apply_request (iq_task q) (descriptor_map schema) (iq_parameters q)
       (apply_layers (descriptor_map schema) ls (apply_descriptor_defaults schema []), []) = Ok s"
    "apply_routing_overrides (iq_routing q) s = (ps, er_explicit_parameters r)"
    "validate_all (descriptor_map schema) ps = Ok ()"
    by (rule resolved_cases [OF assms(1)]) (use assms(2,3) that in auto)
  with assms(4) have "validate_all (descriptor_map schema) (plain_parameters schema ls) = Ok ()"
    by (simp add: plain_request_def plain_parameters_def)
  moreover have "(p, rp) \<in> set (plain_parameters schema ls)"
    using v by (simp add: bt_wf_get [OF plain_parameters_wf] plain_parameters_get [OF wf])
  ultimately show ?thesis unfolding validate_all_iff by blast
qed

section \<open>The policy\<close>

definition POLICY_PATH :: rstr where "POLICY_PATH = lit ''routing.parameter_policy''"

lemma policy_descriptor:
  "\<exists>d \<in> set routing_descriptors. pd_path d = POLICY_PATH
     \<and> pd_allowed_values d = map (\<lambda>p. PString (policy_name p)) [Strict, Warn, Permissive]"
  by (simp add: routing_descriptors_def POLICY_PATH_def enum_descriptor_def)

lemma policy_allowed:
  assumes "d \<in> set (routing_descriptors @ task_descriptors t)" "pd_path d = POLICY_PATH"
    and "validate_parameter d v = Ok ()"
  shows "\<exists>s policy. as_str v = Some s \<and> policy_from_str s = Ok policy"
proof -
  obtain d' where d': "d' \<in> set (routing_descriptors @ task_descriptors t)" "pd_path d' = POLICY_PATH"
      "pd_allowed_values d' = map (\<lambda>p. PString (policy_name p)) [Strict, Warn, Permissive]"
    using policy_descriptor by auto
  with assms(1,2) task_paths [of t] have "d' = d" by (metis distinct_map inj_onD)
  with d'(3) assms(3) have "\<exists>policy. pv_eq (PString (policy_name policy)) v"
    by (auto simp: validate_parameter_def res_bind_Ok simp del: policy_name.simps split: if_splits)
  then obtain policy where "v = PString (policy_name policy)" by (cases v) auto
  then show ?thesis using policy_roundtrip by auto
qed

section \<open>Manifests\<close>

lemma truncate_manifest [simp]:
  "mf_id (model_manifest.truncate m) = mf_id m" "mf_tasks (model_manifest.truncate m) = mf_tasks m"
  by (simp_all add: model_manifest.truncate_def)

lemma json_layer_wf: "json_parameter_layer t label l = Ok l' \<Longrightarrow> bt_wf l'"
  unfolding json_parameter_layer_def by (rule normalize_entries_wf [OF _ bt_wf_Nil])

lemma json_layer_no_panic: "json_parameter_layer t label l \<noteq> Panic"
proof -
  have "normalize_entries task label es acc \<noteq> Panic" for task es acc
    by (induction es arbitrary: acc) (auto simp: Let_def split: if_splits)
  then show ?thesis by (simp add: json_parameter_layer_def)
qed

definition manifest_layers :: "schema_manifest \<Rightarrow> inference_task \<Rightarrow> layer \<Rightarrow> (parameter_source \<times> layer) list" where
  "manifest_layers m t l =
     [(TaskDefault, task_defaults t), (ModelFamilyDefault, family_defaults (mf_family m) t), (ModelDefault, l),
      (RuntimeDefault, []), (HardwareProfile, []), (UserProfile, [])]"

lemma manifest_base_layers:
  "no_profiles rx \<Longrightarrow> json_parameter_layer t DEFAULT_LABEL (mf_generation_defaults m) = Ok l \<Longrightarrow>
     base_layers (source_tables m t) rx t = Ok (manifest_layers m t l)"
  by (simp add: plain_layers source_tables_def manifest_layers_def)

lemma manifest_layers_wf: "bt_wf l \<Longrightarrow> \<forall>l' \<in> snd ` set (manifest_layers m t l). bt_wf l'"
  by (simp add: manifest_layers_def layers_wf)

lemma top_manifest_layer:
  "top_layer (manifest_layers m t l) p =
     (case map_of l p of
        Some v \<Rightarrow> Some \<lparr>rp_value = v, rp_source = ModelDefault\<rparr>
      | None \<Rightarrow> (case map_of (family_defaults (mf_family m) t) p of
          Some v \<Rightarrow> Some \<lparr>rp_value = v, rp_source = ModelFamilyDefault\<rparr>
        | None \<Rightarrow> map_option (\<lambda>v. \<lparr>rp_value = v, rp_source = TaskDefault\<rparr>) (map_of (task_defaults t) p)))"
  by (simp add: manifest_layers_def split: option.split)

lemma task_default_in: "map_of (task_defaults t) p = Some v \<Longrightarrow> (p, v) \<in> set (task_default_values t)"
  using insert_all_get [of "task_default_values t" "[]"] by (simp add: task_defaults_def)

lemma family_default_in: "map_of (family_defaults f t) p = Some v \<Longrightarrow> (p, v) \<in> set (family_values f t)"
  using insert_all_get [of "family_values f t" "[]"] by (simp add: family_defaults_values)

text \<open>What a plain request gives to a parameter, when the generation defaults fit.\<close>

lemma manifest_value_fits:
  assumes e: "e \<in> set (default_schema m t l)" and wf: "bt_wf l"
    and fit: "\<And>d v. d \<in> set (routing_descriptors @ task_descriptors t) \<Longrightarrow>
      map_of l (pd_path d) = Some v \<Longrightarrow> validate_parameter d v = Ok ()"
    and v: "plain_value (default_schema m t l) (manifest_layers m t l) (pd_path e) = Some rp"
    and get: "map_of (descriptor_map (default_schema m t l)) (pd_path e) = Some e"
  shows "validate_parameter e (rp_value rp) = Ok ()"
proof -
  obtain d where d: "d \<in> set (routing_descriptors @ task_descriptors t)"
      and de: "defaulted {task_defaults t, family_defaults (mf_family m) t, l} d e"
    using e by (rule default_schema_in)
  note f = defaulted_facts [OF de]
  have layer: "validate_parameter d v = Ok ()"
    if "map_of l' (pd_path d) = Some v" "l' \<in> {task_defaults t, family_defaults (mf_family m) t, l}" for l' v
    using that fit [OF d] default_values_fit [OF _ d refl, of v "mf_family m"] task_default_in family_default_in by blast
  have "validate_parameter d (rp_value rp) = Ok ()"
  proof (cases "top_layer (manifest_layers m t l) (pd_path d)")
    case (Some rp')
    with v get have "rp' = rp" by (simp add: plain_value_def f(1) bt_contains_def)
    with Some layer show ?thesis
      by (auto simp: top_manifest_layer split: option.splits)
  next
    case None
    with v get have rp: "rp = descriptor_default e" by (simp add: plain_value_def f(1))
    obtain x where x: "e = d\<lparr>pd_default := x\<rparr>"
        "x = pd_default d \<or> (\<exists>l' \<in> {task_defaults t, family_defaults (mf_family m) t, l}. \<exists>v. x = Some v \<and> (pd_path d, v) \<in> set l')"
      using de by (auto simp: defaulted_def)
    from x(2) show ?thesis
    proof
      assume "x = pd_default d"
      with x(1) rp tables_valid [OF d] show ?thesis
        by (cases "pd_default d") (auto simp: descriptor_default_def valid_entry_def check_descriptor_def
          res_bind_Ok validate_parameter_def check_number_def)
    next
      assume "\<exists>l' \<in> {task_defaults t, family_defaults (mf_family m) t, l}. \<exists>v. x = Some v \<and> (pd_path d, v) \<in> set l'"
      then obtain l' v where l': "l' \<in> {task_defaults t, family_defaults (mf_family m) t, l}"
          "x = Some v" "(pd_path d, v) \<in> set l'" by blast
      then have "bt_wf l'" using wf layers_wf by blast
      with l'(3) have "map_of l' (pd_path d) = Some v" by (simp add: bt_wf_get)
      from layer [OF this l'(1)] x(1) l'(2) rp show ?thesis by (simp add: descriptor_default_def)
    qed
  qed
  with f(2) show ?thesis by simp
qed

lemma manifest_policy:
  assumes "l' = default_schema m t l" "bt_wf l"
    and "\<And>e rp. map_of (descriptor_map l') (pd_path e) = Some e \<Longrightarrow>
      plain_value l' (manifest_layers m t l) (pd_path e) = Some rp \<Longrightarrow> validate_parameter e (rp_value rp) = Ok ()"
  shows "\<exists>policy. resolved_policy (plain_parameters l' (manifest_layers m t l)) = Ok policy"
proof -
  have "POLICY_PATH \<in> set (map pd_path (parameter_schema t))"
    using policy_descriptor schema_set [of t] by force
  then have "POLICY_PATH \<in> set (map pd_path l')" unfolding assms(1) default_schema_paths .
  then obtain e0 where "e0 \<in> set l'" "pd_path e0 = POLICY_PATH" by auto
  moreover have dist: "distinct (map pd_path l')" unfolding assms(1) default_schema_paths by (rule schema_paths)
  ultimately have e: "map_of (descriptor_map l') (pd_path e0) = Some e0" "pd_path e0 = POLICY_PATH" "e0 \<in> set l'"
    by (simp_all add: descriptor_map_get)
  obtain rp where rp: "plain_value l' (manifest_layers m t l) POLICY_PATH = Some rp"
    using e by (cases "top_layer (manifest_layers m t l) POLICY_PATH")
      (simp_all add: plain_value_def bt_contains_def)
  obtain d where d: "d \<in> set (routing_descriptors @ task_descriptors t)"
      "defaulted {task_defaults t, family_defaults (mf_family m) t, l} d e0"
    using e(3) unfolding assms(1) by (rule default_schema_in)
  have "validate_parameter d (rp_value rp) = Ok ()"
    using assms(3) [OF e(1)] rp e(2) defaulted_facts(2) [OF d(2)] by simp
  with policy_allowed [OF d(1)] defaulted_facts(1) [OF d(2)] e(2)
  obtain s policy where "as_str (rp_value rp) = Some s" "policy_from_str s = Ok policy" by force
  moreover have "map_of (plain_parameters l' (manifest_layers m t l)) POLICY_PATH = Some rp"
    using rp plain_parameters_get [OF manifest_layers_wf [OF assms(2)]] by simp
  ultimately show ?thesis by (simp add: resolved_policy_def POLICY_PATH_def Let_def)
qed

section \<open>A pinned parameter\<close>

lemma apply_pin:
  "is_constraint c \<Longrightarrow> \<forall>object. c \<noteq> JObject object \<Longrightarrow> validate_parameter d (from_json c) = Ok () \<Longrightarrow>
     apply_manifest_constraint c d = Ok (d\<lparr>pd_default := Some (from_json c), pd_allowed_values := [from_json c]\<rparr>)"
  by (cases c) (simp_all add: apply_manifest_constraint_def is_constraint_def Let_def del: from_json.simps)

lemma pinned_schema:
  assumes "mf_generation_defaults m = []" "mf_parameter_constraints m = [(raw, c)]"
    and c: "is_constraint c" "\<forall>object. c \<noteq> JObject object"
    and p: "normalize_parameter_path t raw = p"
    and d: "d \<in> set (parameter_schema t)" "pd_path d = p" "validate_parameter d (from_json c) = Ok ()"
  shows "\<exists>schema e. parameter_schema_for_manifest t m = Ok schema \<and> distinct (map pd_path schema)
    \<and> e \<in> set schema \<and> pd_path e = p \<and> pd_default e = Some (from_json c) \<and> pd_allowed_values e = [from_json c]"
proof -
  let ?s = "default_schema m t []"
  have l: "json_parameter_layer t DEFAULT_LABEL (mf_generation_defaults m) = Ok []"
    using assms(1) by (simp add: json_parameter_layer_def)
  have "p \<in> set (map pd_path ?s)" unfolding default_schema_paths using d(1,2) by auto
  then obtain e where e: "find_path p ?s = Some e" using find_path_None [of p ?s] by fastforce
  note ep = find_path_Some [OF e]
  then obtain d' where d': "d' \<in> set (parameter_schema t)"
      "defaulted {task_defaults t, family_defaults (mf_family m) t, []} d' e"
    using default_schema_in unfolding schema_set by metis
  then have "d' = d" using d(1,2) ep schema_paths defaulted_facts(1) [OF d'(2)] by (metis distinct_map inj_onD)
  then have "validate_parameter e (from_json c) = Ok ()" using d(3) defaulted_facts(2) [OF d'(2)] by simp
  note pin = apply_pin [OF c this]
  let ?e = "e\<lparr>pd_default := Some (from_json c), pd_allowed_values := [from_json c]\<rparr>"
  have s: "parameter_schema_for_manifest t m = Ok (update_path p (\<lambda>_. ?e) ?s)"
    using l assms(2) p e pin by (simp add: parameter_schema_for_manifest_def default_schema_def Let_def)
  have "pd_path ?e = p" using ep by simp
  moreover from this have "distinct (map pd_path (update_path p (\<lambda>_. ?e) ?s))"
    by (simp only: update_path_paths default_schema_paths schema_paths)
  moreover have "?e \<in> set (update_path p (\<lambda>_. ?e) ?s)"
    using ep unfolding update_path_def by (auto intro!: rev_image_eqI [of e])
  ultimately show ?thesis using s by (intro exI [of _ "update_path p (\<lambda>_. ?e) ?s"] exI [of _ ?e]) simp
qed

definition STEPS_PATH :: rstr where "STEPS_PATH = lit ''image.steps''"

definition pinned_manifest :: schema_manifest where
  "pinned_manifest = \<lparr>mf_id = lit ''m'', mf_format = SafeTensors, mf_architecture = None,
     mf_family = None, mf_repository_layout = Diffusers, mf_tasks = [ImageGeneration],
     mf_files = [], mf_components = [], mf_generation_defaults = [],
     mf_parameter_constraints = [(STEPS_PATH, JInt 4)]\<rparr>"

definition turbo_manifest :: schema_manifest where
  "turbo_manifest = pinned_manifest\<lparr>mf_generation_defaults := [(STEPS_PATH, JInt 4)],
     mf_parameter_constraints := []\<rparr>"

definition plain_demo :: inference_request where
  "plain_demo = (inference_request_new (lit ''m'') ImageGeneration)\<lparr>iq_prompt := Some (lit ''a cat'')\<rparr>"

lemma plain_demo_facts:
  "iq_model plain_demo = lit ''m''" "iq_task plain_demo = ImageGeneration" "plain_request plain_demo"
  "prompts_fit plain_demo" "roles_present plain_demo"
proof -
  have "prompts_fit demo_raw \<and> roles_present demo_raw" using demo_inputs inputs_Ok by blast
  then show "prompts_fit plain_demo" "roles_present plain_demo"
    by (simp_all add: prompts_fit_def roles_present_def has_input_role_def plain_demo_def demo_raw_def
      inference_request_new_def)
qed (simp_all add: plain_demo_def inference_request_new_def plain_request_def)

lemma demo_profiles: "no_profiles demo_context"
  by (simp add: no_profiles_def demo_context_def)

lemma steps_path: "normalize_parameter_path ImageGeneration STEPS_PATH = STEPS_PATH"
  by (simp add: normalize_parameter_path_def STEPS_PATH_def lit_def trim_def trim_start_def trim_end_def
    is_whitespace_def replace_char_def starts_with_def Let_def)

lemma from_json_small: "from_json (JInt 4) = PInteger 4"
  by (simp add: i64_max_def)

lemma steps_fit:
  assumes "d \<in> set (parameter_schema ImageGeneration)" "pd_path d = STEPS_PATH"
  shows "validate_parameter d (PInteger 4) = Ok ()"
proof -
  have "number_fits (f64_of_int 4) (f64_of_int 1)" by (simp add: number_eval)
  then have "fits_table image_base_descriptors [(STEPS_PATH, PInteger 4)]"
    by (simp add: fits_table_def base_lists STEPS_PATH_def validate_integer)
  from fits_mono [OF this base_in_values(1)] image_paths
  have "fits_table image_values [(STEPS_PATH, PInteger 4)]" by blast
  moreover have "d \<in> set (routing_descriptors @ image_values)"
    using assms(1) by (simp add: schema_set task_descriptors_def image_descriptors_def)
  ultimately show ?thesis using fits_table_unique [OF _ image_paths] assms(2) by (meson list.set_intros(1))
qed

lemma steps_in_schema: "\<exists>d \<in> set (parameter_schema ImageGeneration). pd_path d = STEPS_PATH"
proof -
  have "\<exists>d \<in> set image_base_descriptors. pd_path d = STEPS_PATH" by (simp add: base_lists STEPS_PATH_def)
  then show ?thesis using base_in_values(1) by (auto simp: schema_set task_descriptors_def image_descriptors_def Let_def)
qed

lemma steps_default: "map_of (task_defaults ImageGeneration) STEPS_PATH = Some (PInteger 28)"
  by (simp add: task_defaults_def insert_all_def task_default_values_def IMAGE_TASK_DEFAULTS_def STEPS_PATH_def)

lemma no_family_default: "map_of (family_defaults None ImageGeneration) p = None"
  by (simp add: family_defaults_values family_values_def family_image_values_def insert_all_def
    to_ascii_lowercase_def lit_def)

section \<open>Properties\<close>

text \<open>
  C28. The tables are valid. For every task the paths of the schema are pairwise distinct, so
  no descriptor of the tables is lost, and every descriptor is consistent: its bounds are
  numeric and ordered, its step is positive, and its default and its allowed values pass its
  own check.
\<close>

theorem schema_tables_valid:
  "distinct (map pd_path (parameter_schema t))
    \<and> set (parameter_schema t) = set (routing_descriptors @ task_descriptors t)
    \<and> list_all (\<lambda>d. check_descriptor d = Ok ()) (parameter_schema t)"
  using schema_paths schema_set [of t] tables_valid by (auto simp: list_all_iff valid_entry_def)

text \<open>
  C26. Plain requests resolve. For every task and every family, a request that has its prompt
  and inputs and sets no parameter resolves, under a context without profiles and for a model
  without constraints, exactly when the generation defaults of the model that name a
  parameter of the schema fit its descriptor.
\<close>

theorem plain_requests_resolve:
  assumes "iq_model q = mf_id m" "iq_task q \<in> set (mf_tasks m)" "prompts_fit q" "roles_present q"
    and plain: "plain_request q" "no_profiles rx" and "mf_parameter_constraints m = []"
    and l: "json_parameter_layer (iq_task q) DEFAULT_LABEL (mf_generation_defaults m) = Ok l"
  shows "is_ok (resolve_for_manifest m q rx) \<longleftrightarrow>
    list_all (\<lambda>d. case map_of l (pd_path d) of None \<Rightarrow> True | Some v \<Rightarrow> is_ok (validate_parameter d v))
      (parameter_schema (iq_task q))"
proof -
  let ?t = "iq_task q" and ?m = "model_manifest.truncate m"
  let ?s = "default_schema m ?t l" and ?ls = "manifest_layers m ?t l" and ?rt = "source_tables m ?t"
  have rt: "rt_schema ?rt = Ok ?s" "base_layers ?rt rx ?t = Ok ?ls"
    using assms(7) l manifest_base_layers [OF plain(2) l]
    by (simp_all add: source_tables_def parameter_schema_for_manifest_def default_schema_def Let_def)
  have wf: "bt_wf l" by (rule json_layer_wf [OF l])
  note lwf = manifest_layers_wf [OF wf, of m ?t]
  have dist: "distinct (map pd_path ?s)" unfolding default_schema_paths by (rule schema_paths)
  have unit: "is_ok (validate_parameter d v) \<longleftrightarrow> validate_parameter d v = Ok ()" for d v
    by (cases "validate_parameter d v") simp_all
  have iff: "list_all (\<lambda>d. case map_of l (pd_path d) of None \<Rightarrow> True | Some v \<Rightarrow> is_ok (validate_parameter d v))
      (parameter_schema ?t) \<longleftrightarrow> (\<forall>d \<in> set (routing_descriptors @ task_descriptors ?t). \<forall>v.
        map_of l (pd_path d) = Some v \<longrightarrow> validate_parameter d v = Ok ())"
    unfolding schema_set [symmetric] list_all_iff unit by (auto split: option.splits)
  show ?thesis unfolding iff
  proof
    assume fit: "\<forall>d \<in> set (routing_descriptors @ task_descriptors ?t). \<forall>v.
        map_of l (pd_path d) = Some v \<longrightarrow> validate_parameter d v = Ok ()"
    have ok: "validate_parameter e (rp_value rp) = Ok ()"
      if "map_of (descriptor_map ?s) (pd_path e) = Some e" "plain_value ?s ?ls (pd_path e) = Some rp" for e rp
      using manifest_value_fits [OF _ wf _ that(2,1)] descriptor_map_in [OF that(1)] fit by blast
    from manifest_policy [OF refl wf ok]
    obtain policy where policy: "resolved_policy (plain_parameters ?s ?ls) = Ok policy" by blast
    have "iq_model q = mf_id ?m" "supports_task ?m ?t" "validate_required_inputs q = Ok ()"
      using assms(1-4) by (simp_all add: supports_task_def inputs_Ok)
    from plain_resolves [OF this rt plain(1) lwf ok policy]
    obtain r where "resolve_request ?rt ?m q rx = Ok r" by blast
    then show "is_ok (resolve_for_manifest m q rx)" by (simp add: resolve_for_manifest_def)
  next
    assume "is_ok (resolve_for_manifest m q rx)"
    then obtain r where r: "resolve_request ?rt ?m q rx = Ok r"
      by (cases "resolve_request ?rt ?m q rx") (simp_all add: resolve_for_manifest_def)
    show "\<forall>d \<in> set (routing_descriptors @ task_descriptors ?t). \<forall>v.
        map_of l (pd_path d) = Some v \<longrightarrow> validate_parameter d v = Ok ()"
    proof (intro ballI allI impI)
      fix d v
      assume d: "d \<in> set (routing_descriptors @ task_descriptors ?t)" "map_of l (pd_path d) = Some v"
      then have "pd_path d \<in> set (map pd_path ?s)" unfolding default_schema_paths using schema_set [of ?t] by auto
      then have "bt_contains (pd_path d) (descriptor_map ?s)" using descriptor_map_dom by auto
      with d(2) have "plain_value ?s ?ls (pd_path d) = Some \<lparr>rp_value = v, rp_source = ModelDefault\<rparr>"
        by (simp add: plain_value_def top_manifest_layer)
      from plain_resolved [OF r rt plain(1) lwf this] obtain e where
        e: "map_of (descriptor_map ?s) (pd_path d) = Some e" "validate_parameter e v = Ok ()" by auto
      from descriptor_map_in [OF e(1)] obtain d' where d': "d' \<in> set (routing_descriptors @ task_descriptors ?t)"
          "defaulted {task_defaults ?t, family_defaults (mf_family m) ?t, l} d' e" "pd_path e = pd_path d"
        using default_schema_in by metis
      then have "d' = d" using d(1) task_paths defaulted_facts(1) [OF d'(2)] by (metis distinct_map inj_onD)
      with e(2) defaulted_facts(2) [OF d'(2)] show "validate_parameter d v = Ok ()" by simp
    qed
  qed
qed

theorem plain_requests_resolve_witness:
  "is_ok (resolve_for_manifest turbo_manifest plain_demo demo_context)"
proof -
  have l: "json_parameter_layer (iq_task plain_demo) DEFAULT_LABEL (mf_generation_defaults turbo_manifest)
      = Ok [(STEPS_PATH, PInteger 4)]"
    by (simp add: json_parameter_layer_def turbo_manifest_def plain_demo_facts steps_path from_json_small
      bt_contains_def Let_def del: from_json.simps)
  have fit: "list_all (\<lambda>d. case map_of [(STEPS_PATH, PInteger 4)] (pd_path d) of None \<Rightarrow> True
      | Some v \<Rightarrow> is_ok (validate_parameter d v)) (parameter_schema (iq_task plain_demo))"
    using steps_fit by (auto simp: list_all_iff plain_demo_facts)
  have m: "iq_model plain_demo = mf_id turbo_manifest" "iq_task plain_demo \<in> set (mf_tasks turbo_manifest)"
    "mf_parameter_constraints turbo_manifest = []"
    by (simp_all add: plain_demo_facts turbo_manifest_def pinned_manifest_def)
  from plain_requests_resolve [OF m(1,2) plain_demo_facts(4,5,3) demo_profiles m(3) l] fit
  show ?thesis by blast
qed

text \<open>
  C27. Constraints leave a valid schema. When the schema of a model is built, it has the
  paths of the schema of the task, every descriptor has numeric and ordered bounds and a
  positive step, and the default and allowed values of every descriptor that a constraint
  reaches pass the check of that descriptor, whatever the defaults and constraints are.
\<close>

theorem constraints_leave_valid_schema:
  assumes "parameter_schema_for_manifest t m = Ok schema"
    and "list_all (\<lambda>(_, c). json_finite c) (mf_parameter_constraints m)"
  shows "map pd_path schema = map pd_path (parameter_schema t)
    \<and> list_all (\<lambda>d. check_bounds d = Ok () \<and> (pd_path d \<in> constrained t (mf_parameter_constraints m) \<longrightarrow>
         check_descriptor d = Ok ())) schema"
proof -
  obtain l where l: "apply_constraints t (mf_id m) (mf_parameter_constraints m) (default_schema m t l) = Ok schema"
    using assms(1) by (rule schema_for_manifest_cases)
  have f: "\<forall>(_, c) \<in> set (mf_parameter_constraints m). json_finite c" using assms(2) by (auto simp: list_all_iff)
  have b: "\<forall>d \<in> set (default_schema m t l). check_bounds d = Ok ()" using default_schema_bounds by blast
  from apply_constraints_ok [OF l f b, of "{}"] show ?thesis
    by (simp add: default_schema_paths list_all_iff)
qed

lemma pinned_manifest_schema:
  "\<exists>schema e. parameter_schema_for_manifest ImageGeneration pinned_manifest = Ok schema \<and> distinct (map pd_path schema)
    \<and> e \<in> set schema \<and> pd_path e = STEPS_PATH \<and> pd_default e = Some (PInteger 4) \<and> pd_allowed_values e = [PInteger 4]"
proof -
  obtain d where d: "d \<in> set (parameter_schema ImageGeneration)" "pd_path d = STEPS_PATH"
    using steps_in_schema by blast
  have c: "is_constraint (JInt 4)" by (simp add: is_constraint_def)
  have m: "mf_generation_defaults pinned_manifest = []" "mf_parameter_constraints pinned_manifest = [(STEPS_PATH, JInt 4)]"
    by (simp_all add: pinned_manifest_def)
  from pinned_schema [OF m c _ steps_path d] steps_fit [OF d] show ?thesis by (simp add: from_json_small del: from_json.simps)
qed

theorem constraints_leave_valid_schema_witness:
  "\<exists>schema. parameter_schema_for_manifest ImageGeneration pinned_manifest = Ok schema
    \<and> map pd_path schema = map pd_path (parameter_schema ImageGeneration)
    \<and> list_all (\<lambda>d. pd_path d = STEPS_PATH \<longrightarrow> check_descriptor d = Ok ()) schema"
proof -
  obtain schema where s: "parameter_schema_for_manifest ImageGeneration pinned_manifest = Ok schema"
    using pinned_manifest_schema by blast
  have c: "mf_parameter_constraints pinned_manifest = [(STEPS_PATH, JInt 4)]" by (simp add: pinned_manifest_def)
  have "STEPS_PATH \<in> constrained ImageGeneration [(STEPS_PATH, JInt 4)]"
    by (simp add: constrained_def is_constraint_def steps_path)
  with constraints_leave_valid_schema [OF s] c s show ?thesis by (auto simp: list_all_iff)
qed

text \<open>
  C37. The default of a constraint is overruled. Take a manifest without generation defaults
  whose one constraint pins a parameter to a plain value that the parameter accepts, where the
  task has another default for the parameter and the family has none. Its schema reports the
  pinned value as the default of the parameter, but the task default is layered over it, and a
  request without parameters and routing, resolved without profiles, is refused.
\<close>

theorem constraint_default_overruled:
  assumes "mf_generation_defaults m = []" "mf_parameter_constraints m = [(raw, c)]"
    and c: "is_constraint c" "\<forall>object. c \<noteq> JObject object"
    and p: "normalize_parameter_path (iq_task q) raw = p"
    and d: "d \<in> set (parameter_schema (iq_task q))" "pd_path d = p" "validate_parameter d (from_json c) = Ok ()"
    and v: "map_of (task_defaults (iq_task q)) p = Some v" "\<not> pv_eq (from_json c) v"
    and "map_of (family_defaults (mf_family m) (iq_task q)) p = None"
    and plain: "plain_request q" "no_profiles rx"
  shows "\<exists>schema e err. parameter_schema_for_manifest (iq_task q) m = Ok schema
    \<and> e \<in> set schema \<and> pd_path e = p \<and> pd_default e = Some (from_json c)
    \<and> resolve_for_manifest m q rx = Err err"
proof -
  let ?t = "iq_task q" and ?rt = "source_tables m (iq_task q)" and ?m = "model_manifest.truncate m"
  obtain schema e where s: "parameter_schema_for_manifest ?t m = Ok schema" "distinct (map pd_path schema)"
      and e: "e \<in> set schema" "pd_path e = p" "pd_default e = Some (from_json c)" "pd_allowed_values e = [from_json c]"
    using pinned_schema [OF assms(1,2) c p d] by blast
  have l: "json_parameter_layer ?t DEFAULT_LABEL (mf_generation_defaults m) = Ok []"
    using assms(1) by (simp add: json_parameter_layer_def)
  have rt: "rt_schema ?rt = Ok schema" "rt_model_defaults ?rt = Ok []" using s(1) l by (simp_all add: source_tables_def)
  have get: "map_of (descriptor_map schema) p = Some e" using e(1,2) by (simp add: descriptor_map_get [OF s(2)])
  then have pv: "plain_value schema (manifest_layers m ?t []) p = Some \<lparr>rp_value = v, rp_source = TaskDefault\<rparr>"
    using v(1) assms(11) by (simp add: plain_value_def top_manifest_layer bt_contains_def)
  have "resolve_request ?rt ?m q rx \<noteq> Ok r" for r
  proof
    assume r: "resolve_request ?rt ?m q rx = Ok r"
    from plain_resolved [OF r rt(1) manifest_base_layers [OF plain(2) l] plain(1) manifest_layers_wf [OF bt_wf_Nil] pv]
    have "validate_parameter e v = Ok ()" using get by simp
    with e(4) v(2) show False by (auto simp: validate_parameter_def res_bind_Ok split: if_splits)
  qed
  moreover have "resolve_request ?rt ?m q rx \<noteq> Panic" by (rule resolve_no_panic [OF rt(1)]) (simp add: rt(2))
  ultimately obtain err where "resolve_for_manifest m q rx = Err err"
    unfolding resolve_for_manifest_def by (cases "resolve_request ?rt ?m q rx") auto
  with s(1) e show ?thesis by blast
qed

theorem constraint_default_overruled_witness:
  "\<exists>schema e err. parameter_schema_for_manifest ImageGeneration pinned_manifest = Ok schema
    \<and> e \<in> set schema \<and> pd_path e = STEPS_PATH \<and> pd_default e = Some (PInteger 4)
    \<and> resolve_for_manifest pinned_manifest plain_demo demo_context = Err err"
proof -
  obtain d where d: "d \<in> set (parameter_schema ImageGeneration)" "pd_path d = STEPS_PATH"
    using steps_in_schema by blast
  have m: "mf_generation_defaults pinned_manifest = []" "mf_parameter_constraints pinned_manifest = [(STEPS_PATH, JInt 4)]"
    "mf_family pinned_manifest = None"
    by (simp_all add: pinned_manifest_def)
  have c: "is_constraint (JInt 4)" "\<not> pv_eq (from_json (JInt 4)) (PInteger 28)"
    "validate_parameter d (from_json (JInt 4)) = Ok ()"
    using steps_fit [OF d] by (simp_all add: is_constraint_def from_json_small del: from_json.simps)
  note q = plain_demo_facts(2)
  from constraint_default_overruled [OF m(1,2) c(1) _ steps_path [folded q] d(1) [folded q] d(2) c(3)
      steps_default [folded q] c(2) _ plain_demo_facts(3) demo_profiles]
  show ?thesis using no_family_default by (simp add: q m(3) from_json_small del: from_json.simps)
qed

end
