(* ===== verification/Reasoning_Profile.thy ===== *)
theory Reasoning_Profile
  imports Parameter_Schema
begin

text \<open>
  Reasoning profiles (\<open>src/src/reasoning.rs\<close>) and generation limits
  (\<open>src/src/generation_limits.rs\<close>): the ceilings a manifest and a context put on an answer,
  the tiers of reasoning that fit under them, and the controls a chosen tier sends to the
  backend. Labels and metadata are those of the code; the manifest is a \<open>schema_manifest\<close>.
\<close>

section \<open>Reading JSON\<close>

text \<open>The equality of \<open>serde_json\<close> values: numbers of different kinds differ.\<close>

fun json_eq :: "json \<Rightarrow> json \<Rightarrow> bool" where
  "json_eq JNull JNull = True"
| "json_eq (JBool a) (JBool b) = (a = b)"
| "json_eq (JInt a) (JInt b) = (a = b)"
| "json_eq (JFloat a) (JFloat b) = f64_eq a b"
| "json_eq (JString a) (JString b) = (a = b)"
| "json_eq (JArray as) (JArray bs) = list_all2 json_eq as bs"
| "json_eq (JObject as) (JObject bs) = list_all2 (\<lambda>(k, a) (l, b). k = l \<and> json_eq a b) as bs"
| "json_eq _ _ = False"

fun json_get :: "json \<Rightarrow> rstr \<Rightarrow> json option" where
  "json_get (JObject es) k = map_of es k"
| "json_get _ k = None"

fun json_u64 :: "json \<Rightarrow> nat option" where
  "json_u64 (JInt i) = (if 0 \<le> i then Some (nat i) else None)"
| "json_u64 _ = None"

fun json_str :: "json \<Rightarrow> rstr option" where
  "json_str (JString s) = Some s"
| "json_str _ = None"

fun json_array :: "json \<Rightarrow> json list option" where
  "json_array (JArray js) = Some js"
| "json_array _ = None"

section \<open>Generation limits\<close>

record chat_generation_limits =
  cg_schema_version :: nat
  cg_model :: rstr
  cg_context_tokens :: "nat option"
  cg_max_output_tokens :: "nat option"
  cg_max_concurrent_requests :: "nat option"

definition positive_limit :: "json \<Rightarrow> nat option" where
  "positive_limit v =
     (case (case json_u64 v of Some n \<Rightarrow> Some n | None \<Rightarrow> Option.bind (json_get v (lit ''max'')) json_u64) of
        None \<Rightarrow> None
      | Some n \<Rightarrow> if 0 < n \<and> n \<le> 2000000 then Some n else None)"

fun iter_min :: "nat list \<Rightarrow> nat option" where
  "iter_min [] = None"
| "iter_min (n # ns) = Some (foldl min n ns)"

definition limits_of :: "json_layer \<Rightarrow> rstr list \<Rightarrow> nat list" where
  "limits_of constraints keys = List.map_filter (\<lambda>key. Option.bind (map_of constraints key) positive_limit) keys"

definition CONTEXT_KEYS :: "rstr list" where
  "CONTEXT_KEYS = [lit ''max_position_embeddings'', lit ''model_max_length'', lit ''max_sequence_length'']"

definition OUTPUT_KEYS :: "rstr list" where
  "OUTPUT_KEYS = [lit ''max_output_tokens'', lit ''max_completion_tokens'', lit ''max_new_tokens'']"

definition generation_limits :: "schema_manifest \<Rightarrow> nat option \<Rightarrow> chat_generation_limits" where
  "generation_limits m context_tokens =
     (let constraints = mf_parameter_constraints m;
          ctx = (case context_tokens of Some n \<Rightarrow> Some n | None \<Rightarrow> iter_min (limits_of constraints CONTEXT_KEYS));
          maximum = iter_min (limits_of constraints OUTPUT_KEYS @ (case ctx of None \<Rightarrow> [] | Some n \<Rightarrow> [n - 1]))
      in \<lparr>cg_schema_version = 1, cg_model = mf_id m, cg_context_tokens = ctx,
          cg_max_output_tokens = maximum, cg_max_concurrent_requests = None\<rparr>)"

section \<open>Profiles\<close>

record reasoning_defaults =
  rd_source :: rstr
  rd_effort :: "json option"
  rd_thinking :: "bool option"
  rd_budget_tokens :: "int option"

record backend_reasoning =
  br_backend :: rstr
  br_defaults :: reasoning_defaults
  br_budget_control :: bool
  br_native_efforts :: "json list"

record reasoning_tier =
  tr_id :: rstr
  tr_label :: rstr
  tr_available :: bool
  tr_reasoning_tokens :: "nat option"
  tr_minimum_output_tokens :: nat
  tr_native_effort :: "json option"

record reasoning_limits =
  rl_context_tokens :: "nat option"
  rl_output_tokens :: nat
  rl_answer_reserve_tokens :: nat
  rl_reasoning_tokens :: "nat option"

record reasoning_profile =
  rf_schema_version :: nat
  rf_model :: rstr
  rf_backend :: "rstr option"
  rf_supported :: bool
  rf_source :: rstr
  rf_tiers :: "reasoning_tier list"
  rf_default_tier :: "rstr option"
  rf_default_adjusted_to_limits :: bool
  rf_limits :: reasoning_limits

definition option_json_eq :: "json option \<Rightarrow> json option \<Rightarrow> bool" where
  "option_json_eq a b = (case (a, b) of (None, None) \<Rightarrow> True | (Some x, Some y) \<Rightarrow> json_eq x y | _ \<Rightarrow> False)"

definition reasoning_eq :: "backend_reasoning \<Rightarrow> backend_reasoning \<Rightarrow> bool" where
  "reasoning_eq a b \<longleftrightarrow> br_backend a = br_backend b
     \<and> rd_source (br_defaults a) = rd_source (br_defaults b)
     \<and> option_json_eq (rd_effort (br_defaults a)) (rd_effort (br_defaults b))
     \<and> rd_thinking (br_defaults a) = rd_thinking (br_defaults b)
     \<and> rd_budget_tokens (br_defaults a) = rd_budget_tokens (br_defaults b)
     \<and> br_budget_control a = br_budget_control b
     \<and> list_all2 json_eq (br_native_efforts a) (br_native_efforts b)"

fun consistent :: "backend_reasoning list \<Rightarrow> backend_reasoning option" where
  "consistent [] = None"
| "consistent (first # values) = (if list_all (\<lambda>next. reasoning_eq next first) values then Some first else None)"

definition BUDGET_TIERS :: "(rstr \<times> rstr \<times> nat) list" where
  "BUDGET_TIERS =
     [(lit ''none'', lit ''Off'', 0), (lit ''low'', lit ''Low'', 512), (lit ''medium'', lit ''Medium'', 1024),
      (lit ''high'', lit ''High'', 2048), (lit ''max'', lit ''Max'', 4096), (lit ''ultra'', lit ''Ultra'', 8192)]"

definition budget_tier :: "nat \<Rightarrow> nat \<Rightarrow> rstr \<times> rstr \<times> nat \<Rightarrow> reasoning_tier" where
  "budget_tier output ceiling = (\<lambda>(id', label, tokens).
     \<lparr>tr_id = id', tr_label = label, tr_available = (0 < output \<and> tokens \<le> ceiling),
      tr_reasoning_tokens = Some tokens,
      tr_minimum_output_tokens = (if tokens = 0 then 1 else tokens + 512),
      tr_native_effort = None\<rparr>)"

definition configured_budget :: "backend_reasoning \<Rightarrow> nat option" where
  "configured_budget runtime =
     (case rd_budget_tokens (br_defaults runtime) of
        None \<Rightarrow> None
      | Some n \<Rightarrow> if 0 \<le> n then Some (nat n) else None)"

definition named_budget :: "backend_reasoning \<Rightarrow> reasoning_tier list \<Rightarrow> nat option" where
  "named_budget runtime tiers =
     Option.bind (Option.bind (rd_effort (br_defaults runtime)) json_str) (\<lambda>id'.
       Option.bind (find (\<lambda>tier. tr_id tier = id') tiers) tr_reasoning_tokens)"

definition budget_default :: "backend_reasoning \<Rightarrow> reasoning_tier list \<Rightarrow> reasoning_tier option" where
  "budget_default runtime tiers =
     (if rd_thinking (br_defaults runtime) = Some False \<or> configured_budget runtime = Some 0
      then (case tiers of [] \<Rightarrow> None | tier # _ \<Rightarrow> if tr_available tier then Some tier else None)
      else find (\<lambda>tier. tr_available tier \<and>
             (case named_budget runtime tiers of
                None \<Rightarrow> True
              | Some limit \<Rightarrow> (case tr_reasoning_tokens tier of None \<Rightarrow> False | Some tokens \<Rightarrow> tokens \<le> limit)))
             (rev tiers))"

definition budget_profile :: "backend_reasoning \<Rightarrow> nat \<Rightarrow> reasoning_profile \<Rightarrow> reasoning_profile" where
  "budget_profile runtime reserve profile =
     (let output = rl_output_tokens (rf_limits profile);
          configured = configured_budget runtime;
          ceiling = min (case configured of None \<Rightarrow> u64_max | Some n \<Rightarrow> n) (output - reserve);
          tiers = map (budget_tier output ceiling) BUDGET_TIERS;
          named_default = named_budget runtime tiers;
          default_tier = budget_default runtime tiers
      in profile
           \<lparr>rf_limits := (rf_limits profile)\<lparr>rl_answer_reserve_tokens := reserve, rl_reasoning_tokens := Some ceiling\<rparr>,
            rf_tiers := tiers,
            rf_default_tier := map_option tr_id default_tier,
            rf_default_adjusted_to_limits :=
              (rd_thinking (br_defaults runtime) \<noteq> Some False
               \<and> (case named_default of None \<Rightarrow> configured | Some n \<Rightarrow> Some n)
                 \<noteq> Option.bind default_tier tr_reasoning_tokens)\<rparr>)"

definition valid_effort :: "rstr \<Rightarrow> bool" where
  "valid_effort s \<longleftrightarrow> s \<noteq> [] \<and> str_len s \<le> 64 \<and> list_all (\<lambda>c. is_ascii_alnum c \<or> c = 95 \<or> c = 45) s"

fun native_tiers :: "json list \<Rightarrow> nat \<Rightarrow> json list \<Rightarrow> reasoning_tier list \<Rightarrow> reasoning_tier list" where
  "native_tiers efforts output [] tiers = tiers"
| "native_tiers efforts output (value # allowed) tiers =
     (case json_str value of
        None \<Rightarrow> native_tiers efforts output allowed tiers
      | Some id' \<Rightarrow>
          if \<not> valid_effort id' \<or> \<not> list_ex (\<lambda>effort. json_eq effort value) efforts
             \<or> list_ex (\<lambda>tier. tr_id tier = id') tiers
          then native_tiers efforts output allowed tiers
          else native_tiers efforts output allowed
            (tiers @ [\<lparr>tr_id = id', tr_label = id', tr_available = (0 < output),
                       tr_reasoning_tokens = None, tr_minimum_output_tokens = 1,
                       tr_native_effort = Some value\<rparr>]))"

definition native_profile :: "schema_manifest \<Rightarrow> backend_reasoning \<Rightarrow> reasoning_profile \<Rightarrow> reasoning_profile" where
  "native_profile m runtime profile =
     (let allowed = (case Option.bind (Option.bind (map_of (mf_parameter_constraints m) (lit ''reasoning_effort''))
                (\<lambda>v. json_get v (lit ''enum''))) json_array of
            Some values \<Rightarrow> values
          | None \<Rightarrow> br_native_efforts runtime);
          tiers = native_tiers (br_native_efforts runtime) (rl_output_tokens (rf_limits profile)) allowed [];
          default_effort = (if rd_thinking (br_defaults runtime) = Some False then Some (JString (lit ''none''))
            else (case rd_effort (br_defaults runtime) of
                Some v \<Rightarrow> Some v
              | None \<Rightarrow> map_of (mf_generation_defaults m) (lit ''reasoning_effort'')))
      in profile
           \<lparr>rf_limits := (rf_limits profile)\<lparr>rl_answer_reserve_tokens := 0\<rparr>,
            rf_tiers := tiers,
            rf_default_tier := map_option tr_id
              (find (\<lambda>tier. option_json_eq (tr_native_effort tier) default_effort \<and> tr_available tier) tiers)\<rparr>)"

definition output_budget :: "chat_generation_limits \<Rightarrow> nat \<Rightarrow> nat" where
  "output_budget limits output =
     (let output = (case cg_max_output_tokens limits of None \<Rightarrow> output | Some cap \<Rightarrow> min output cap)
      in case cg_context_tokens limits of None \<Rightarrow> output | Some ctx \<Rightarrow> min output (ctx - 512))"

definition reasoning_profile_of ::
  "schema_manifest \<Rightarrow> backend_reasoning option \<Rightarrow> nat option \<Rightarrow> nat \<Rightarrow> reasoning_profile" where
  "reasoning_profile_of m runtime context_tokens output =
     (let limits = generation_limits m context_tokens;
          output = output_budget limits output;
          reserve = min output 512;
          profile =
            \<lparr>rf_schema_version = 1, rf_model = mf_id m, rf_backend = map_option br_backend runtime,
             rf_supported = False, rf_source = lit ''unknown'', rf_tiers = [], rf_default_tier = None,
             rf_default_adjusted_to_limits = False,
             rf_limits = \<lparr>rl_context_tokens = cg_context_tokens limits, rl_output_tokens = output,
               rl_answer_reserve_tokens = 0, rl_reasoning_tokens = None\<rparr>\<rparr>
      in case runtime of
           None \<Rightarrow> profile
         | Some runtime \<Rightarrow>
             (let profile = profile\<lparr>rf_source := rd_source (br_defaults runtime)\<rparr>;
                  profile = (if br_budget_control runtime then budget_profile runtime reserve profile
                             else native_profile m runtime profile)
              in profile\<lparr>rf_supported := rf_tiers profile \<noteq> []\<rparr>))"

section \<open>Resolving a tier\<close>

datatype reasoning_error = NoReasoningTiers | NoOutputBudget | TierUnavailable rstr

text \<open>The controls of a tier, in the order of a \<open>BTreeMap\<close>.\<close>

definition tier_controls :: "reasoning_tier \<Rightarrow> (reasoning_error, json_layer) res" where
  "tier_controls tier =
     (case tr_reasoning_tokens tier of
        Some tokens \<Rightarrow> Ok [(lit ''__werk_thinking'', JBool (0 < tokens)),
                          (lit ''reasoning_budget_tokens'', JInt (int tokens))]
      | None \<Rightarrow> (case tr_native_effort tier of
          Some effort \<Rightarrow> Ok [(lit ''reasoning_effort'', effort)]
        | None \<Rightarrow> Panic))"

definition resolve_tier :: "reasoning_profile \<Rightarrow> rstr \<Rightarrow> (reasoning_error, json_layer) res" where
  "resolve_tier profile id' =
     (case find (\<lambda>tier. tr_id tier = id' \<and> tr_available tier) (rf_tiers profile) of
        None \<Rightarrow> Err (TierUnavailable id')
      | Some tier \<Rightarrow> tier_controls tier)"

definition resolve_reasoning :: "reasoning_profile \<Rightarrow> rstr \<Rightarrow> (reasoning_error, json_layer) res" where
  "resolve_reasoning profile requested =
     (if \<not> rf_supported profile then Err NoReasoningTiers
      else if rl_output_tokens (rf_limits profile) = 0 then Err NoOutputBudget
      else if requested = lit ''default''
      then (case rf_default_tier profile of None \<Rightarrow> Ok [] | Some id' \<Rightarrow> resolve_tier profile id')
      else resolve_tier profile requested)"

section \<open>Facts\<close>

text \<open>What every tier of a profile satisfies.\<close>

definition tier_ok :: "backend_reasoning \<Rightarrow> nat \<Rightarrow> reasoning_tier \<Rightarrow> bool" where
  "tier_ok runtime output t \<longleftrightarrow>
     (case tr_reasoning_tokens t of
        Some n \<Rightarrow> br_budget_control runtime \<and> (tr_available t \<longrightarrow>
          tr_minimum_output_tokens t \<le> output \<and> n + min output 512 \<le> output
          \<and> (\<forall>b. configured_budget runtime = Some b \<longrightarrow> n \<le> b))
      | None \<Rightarrow> \<not> br_budget_control runtime \<and> (\<exists>e \<in> set (br_native_efforts runtime). \<exists>v.
          tr_native_effort t = Some v \<and> json_eq e v) \<and> (tr_available t \<longrightarrow> tr_minimum_output_tokens t \<le> output))"

lemma budget_tier_sel [simp]:
  "tr_id (budget_tier o' c x) = fst x" "tr_reasoning_tokens (budget_tier o' c x) = Some (snd (snd x))"
  "tr_available (budget_tier o' c x) \<longleftrightarrow> 0 < o' \<and> snd (snd x) \<le> c"
  "tr_minimum_output_tokens (budget_tier o' c x) = (if snd (snd x) = 0 then 1 else snd (snd x) + 512)"
  by (simp_all add: budget_tier_def case_prod_unfold)

lemma budget_steps: "x \<in> set BUDGET_TIERS \<Longrightarrow> snd (snd x) = 0 \<or> 512 \<le> snd (snd x)"
  by (auto simp: BUDGET_TIERS_def)

lemma budget_ids: "distinct (map fst BUDGET_TIERS)"
  by (simp add: BUDGET_TIERS_def lit_def)

lemma budget_tier_ok:
  assumes "x \<in> set BUDGET_TIERS" "br_budget_control runtime"
    and "c = min (case configured_budget runtime of None \<Rightarrow> u64_max | Some n \<Rightarrow> n) (output - min output 512)"
  shows "tier_ok runtime output (budget_tier output c x)"
  using budget_steps [OF assms(1)] assms(2,3) by (auto simp: tier_ok_def min_def split: if_splits)

definition ids_distinct :: "reasoning_tier list \<Rightarrow> bool" where
  "ids_distinct ts \<longleftrightarrow> distinct (map tr_id ts)"

lemma native_tiers_ok:
  assumes "ids_distinct ts" "\<forall>t \<in> set ts. tier_ok runtime output t" "\<not> br_budget_control runtime"
  shows "ids_distinct (native_tiers (br_native_efforts runtime) output allowed ts)
    \<and> (\<forall>t \<in> set (native_tiers (br_native_efforts runtime) output allowed ts). tier_ok runtime output t)"
  using assms
proof (induction allowed arbitrary: ts)
  case (Cons v allowed)
  show ?case
  proof (cases "json_str v")
    case None
    with Cons show ?thesis by simp
  next
    case (Some i)
    let ?t = "\<lparr>tr_id = i, tr_label = i, tr_available = 0 < output, tr_reasoning_tokens = None,
      tr_minimum_output_tokens = 1, tr_native_effort = Some v\<rparr>"
    show ?thesis
    proof (cases "\<not> valid_effort i \<or> \<not> list_ex (\<lambda>effort. json_eq effort v) (br_native_efforts runtime)
        \<or> list_ex (\<lambda>tier. tr_id tier = i) ts")
      case True
      with Cons Some show ?thesis by simp
    next
      case False
      then have new: "ids_distinct (ts @ [?t])" "tier_ok runtime output ?t"
        using Cons.prems by (auto simp: ids_distinct_def list_ex_iff tier_ok_def)
      have "\<forall>t \<in> set (ts @ [?t]). tier_ok runtime output t" using new(2) Cons.prems(2) by auto
      note ih = Cons.IH [OF new(1) this Cons.prems(3)]
      have eq: "native_tiers (br_native_efforts runtime) output (v # allowed) ts
          = native_tiers (br_native_efforts runtime) output allowed (ts @ [?t])"
        using Some False by auto
      show ?thesis unfolding eq by (rule ih)
    qed
  qed
qed simp

lemma profile_output [simp]:
  "rl_output_tokens (rf_limits (reasoning_profile_of m r c out)) = output_budget (generation_limits m c) out"
  by (simp add: reasoning_profile_of_def budget_profile_def native_profile_def Let_def split: option.split)

lemma profile_tiers:
  assumes "p = reasoning_profile_of m (Some r) c out"
  shows "ids_distinct (rf_tiers p)" "t \<in> set (rf_tiers p) \<Longrightarrow> tier_ok r (output_budget (generation_limits m c) out) t"
proof -
  let ?o = "output_budget (generation_limits m c) out"
  have "ids_distinct (rf_tiers p) \<and> (\<forall>t \<in> set (rf_tiers p). tier_ok r ?o t)"
  proof (cases "br_budget_control r")
    case True
    then have "rf_tiers p = map (budget_tier ?o (min (case configured_budget r of None \<Rightarrow> u64_max | Some n \<Rightarrow> n)
        (?o - min ?o 512))) BUDGET_TIERS"
      using assms by (simp add: reasoning_profile_of_def budget_profile_def Let_def)
    with True budget_tier_ok budget_ids show ?thesis by (auto simp: ids_distinct_def comp_def)
  next
    case False
    then obtain allowed where "rf_tiers p = native_tiers (br_native_efforts r) ?o allowed []"
      using assms by (simp add: reasoning_profile_of_def native_profile_def Let_def)
    with native_tiers_ok [OF _ _ False, of "[]"] show ?thesis by (simp add: ids_distinct_def)
  qed
  then show "ids_distinct (rf_tiers p)" "t \<in> set (rf_tiers p) \<Longrightarrow> tier_ok r ?o t" by blast+
qed

lemma find_in: "find P xs = Some x \<Longrightarrow> x \<in> set xs \<and> P x"
  by (induction xs) (auto split: if_splits)

lemma find_distinct: "ids_distinct ts \<Longrightarrow> t \<in> set ts \<Longrightarrow> tr_available t \<Longrightarrow>
    find (\<lambda>tier. tr_id tier = tr_id t \<and> tr_available tier) ts = Some t"
  unfolding ids_distinct_def by (induction ts) auto

lemma profile_default:
  assumes "p = reasoning_profile_of m (Some r) c out" "rf_default_tier p = Some i"
  shows "\<exists>t \<in> set (rf_tiers p). tr_available t \<and> tr_id t = i"
proof (cases "br_budget_control r")
  case True
  then obtain ts where ts: "rf_tiers p = ts" "rf_default_tier p = map_option tr_id (budget_default r ts)"
    using assms(1) by (simp add: reasoning_profile_of_def budget_profile_def Let_def)
  have "t \<in> set ts \<and> tr_available t" if "budget_default r ts = Some t" for t
    using that by (auto simp: budget_default_def dest: find_in split: if_splits list.splits)
  moreover obtain t where "budget_default r ts = Some t" "tr_id t = i"
    using ts(2) assms(2) by (cases "budget_default r ts") auto
  ultimately show ?thesis using ts(1) by blast
next
  case False
  then obtain ts P where "rf_tiers p = ts" "rf_default_tier p = map_option tr_id (find (\<lambda>t. P t \<and> tr_available t) ts)"
    using assms(1) by (simp add: reasoning_profile_of_def native_profile_def Let_def)
  with assms(2) show ?thesis by (auto dest: find_in)
qed

section \<open>Properties\<close>

lemma output_bounds:
  "output_budget limits out \<le> out"
  "cg_context_tokens limits = Some ctx \<Longrightarrow> output_budget limits out \<le> ctx - 512"
  "cg_max_output_tokens limits = Some cap \<Longrightarrow> output_budget limits out \<le> cap"
  by (auto simp: output_budget_def Let_def split: option.split)

lemma profile_reserve:
  "rl_answer_reserve_tokens (rf_limits (reasoning_profile_of m (Some r) c out)) =
     (if br_budget_control r then min (output_budget (generation_limits m c) out) 512 else 0)"
  by (simp add: reasoning_profile_of_def budget_profile_def native_profile_def Let_def)

text \<open>
  C24. Reasoning tiers fit the limits. An available tier of a profile needs no more output
  than the profile allows, which stays within the requested output, the ceiling of the model
  and the context less 512; a tier with a token budget leaves the reserve for the answer and
  stays within the configured budget of the backend.
\<close>

theorem reasoning_tiers_fit:
  assumes "p = reasoning_profile_of m (Some r) c out"
    and "t \<in> set (rf_tiers p)" "tr_available t"
  shows "tr_minimum_output_tokens t \<le> rl_output_tokens (rf_limits p)
    \<and> rl_output_tokens (rf_limits p) \<le> out
    \<and> (case cg_max_output_tokens (generation_limits m c) of None \<Rightarrow> True | Some cap \<Rightarrow> rl_output_tokens (rf_limits p) \<le> cap)
    \<and> (case cg_context_tokens (generation_limits m c) of None \<Rightarrow> True | Some ctx \<Rightarrow> rl_output_tokens (rf_limits p) \<le> ctx - 512)
    \<and> (case tr_reasoning_tokens t of None \<Rightarrow> True
       | Some n \<Rightarrow> n + rl_answer_reserve_tokens (rf_limits p) \<le> rl_output_tokens (rf_limits p)
           \<and> (case configured_budget r of None \<Rightarrow> True | Some b \<Rightarrow> n \<le> b))"
proof (intro conjI)
  let ?o = "output_budget (generation_limits m c) out"
  have o': "rl_output_tokens (rf_limits p) = ?o" using assms(1) by simp
  note ok = profile_tiers(2) [OF assms(1,2)]
  show "tr_minimum_output_tokens t \<le> rl_output_tokens (rf_limits p)"
    using ok assms(3) unfolding o' tier_ok_def by (auto split: option.splits)
  show "rl_output_tokens (rf_limits p) \<le> out" unfolding o' by (rule output_bounds(1))
  show "case cg_max_output_tokens (generation_limits m c) of None \<Rightarrow> True | Some cap \<Rightarrow> rl_output_tokens (rf_limits p) \<le> cap"
    unfolding o' by (simp add: output_bounds(3) split: option.split)
  show "case cg_context_tokens (generation_limits m c) of None \<Rightarrow> True | Some ctx \<Rightarrow> rl_output_tokens (rf_limits p) \<le> ctx - 512"
    unfolding o' by (simp add: output_bounds(2) split: option.split)
  show "case tr_reasoning_tokens t of None \<Rightarrow> True
       | Some n \<Rightarrow> n + rl_answer_reserve_tokens (rf_limits p) \<le> rl_output_tokens (rf_limits p)
           \<and> (case configured_budget r of None \<Rightarrow> True | Some b \<Rightarrow> n \<le> b)"
    using ok assms(3) profile_reserve [of m r c out] assms(1)
    unfolding o' tier_ok_def by (auto split: option.splits)
qed

text \<open>
  C38. Reasoning tiers resolve. For a profile of a runtime, resolving never panics, and it
  succeeds exactly when the profile has tiers, some output is left, and the request asks for
  the default or names an available tier; in particular the advertised default can always
  be used.
\<close>

theorem reasoning_resolution_exact:
  assumes "p = reasoning_profile_of m (Some r) c out"
  shows "resolve_reasoning p requested \<noteq> Panic
    \<and> (is_ok (resolve_reasoning p requested) \<longleftrightarrow>
       rf_tiers p \<noteq> [] \<and> 0 < rl_output_tokens (rf_limits p)
       \<and> (requested = lit ''default'' \<or> list_ex (\<lambda>t. tr_id t = requested \<and> tr_available t) (rf_tiers p)))"
proof -
  have sup: "rf_supported p \<longleftrightarrow> rf_tiers p \<noteq> []"
    using assms by (simp add: reasoning_profile_of_def budget_profile_def native_profile_def Let_def)
  have controls: "\<exists>l. tier_controls t = Ok l" if "t \<in> set (rf_tiers p)" for t
    using profile_tiers(2) [OF assms that] by (auto simp: tier_ok_def tier_controls_def split: option.splits)
  have tier: "resolve_tier p i \<noteq> Panic \<and>
      (is_ok (resolve_tier p i) \<longleftrightarrow> (\<exists>t \<in> set (rf_tiers p). tr_id t = i \<and> tr_available t))" for i
  proof (cases "find (\<lambda>t. tr_id t = i \<and> tr_available t) (rf_tiers p)")
    case None
    then have "\<not> (\<exists>t \<in> set (rf_tiers p). tr_id t = i \<and> tr_available t)" by (auto simp: find_None_iff)
    with None show ?thesis by (simp add: resolve_tier_def)
  next
    case (Some t)
    with find_in controls obtain l where "t \<in> set (rf_tiers p)" "tr_id t = i" "tr_available t" "tier_controls t = Ok l"
      by (metis (mono_tags, lifting))
    with Some show ?thesis by (auto simp: resolve_tier_def)
  qed
  have dflt: "resolve_tier p i \<noteq> Panic \<and> is_ok (resolve_tier p i)" if "rf_default_tier p = Some i" for i
    using tier [of i] profile_default [OF assms that] by blast
  show ?thesis
    using tier [of requested] dflt by (auto simp: resolve_reasoning_def sup list_ex_iff split: option.splits)
qed

definition demo_backend_reasoning :: backend_reasoning where
  "demo_backend_reasoning = \<lparr>br_backend = lit ''vllm'', br_defaults = \<lparr>rd_source = lit ''server'', rd_effort = None,
     rd_thinking = None, rd_budget_tokens = Some 2048\<rparr>, br_budget_control = True, br_native_efforts = []\<rparr>"

definition demo_text_manifest :: schema_manifest where
  "demo_text_manifest = \<lparr>mf_id = lit ''m'', mf_format = SafeTensors, mf_architecture = None,
     mf_family = None, mf_repository_layout = Transformers, mf_tasks = [TextGeneration],
     mf_files = [], mf_components = [], mf_generation_defaults = [],
     mf_parameter_constraints = [(lit ''max_position_embeddings'', JInt 4096)]\<rparr>"

definition demo_reasoning_profile :: reasoning_profile where
  "demo_reasoning_profile = reasoning_profile_of demo_text_manifest (Some demo_backend_reasoning) None 2500"

lemma demo_reasoning_profile_output: "output_budget (generation_limits demo_text_manifest None) 2500 = 2500"
  by (simp add: output_budget_def generation_limits_def demo_text_manifest_def limits_of_def
    CONTEXT_KEYS_def OUTPUT_KEYS_def positive_limit_def Let_def)

definition medium_tier :: reasoning_tier where
  "medium_tier = budget_tier 2500 1988 (lit ''medium'', lit ''Medium'', 1024)"

lemma demo_reasoning_profile_tiers: "rf_tiers demo_reasoning_profile = map (budget_tier 2500 1988) BUDGET_TIERS"
  by (simp add: demo_reasoning_profile_def reasoning_profile_of_def demo_reasoning_profile_output
    budget_profile_def demo_backend_reasoning_def
    configured_budget_def Let_def)

theorem reasoning_tiers_fit_witness:
  "tr_minimum_output_tokens medium_tier \<le> rl_output_tokens (rf_limits demo_reasoning_profile)"
proof -
  have "medium_tier \<in> set (rf_tiers demo_reasoning_profile)" "tr_available medium_tier"
    by (simp_all add: demo_reasoning_profile_tiers BUDGET_TIERS_def medium_tier_def)
  from reasoning_tiers_fit [OF demo_reasoning_profile_def this] show ?thesis by blast
qed

theorem reasoning_resolution_exact_witness:
  "is_ok (resolve_reasoning demo_reasoning_profile (lit ''medium''))
    \<and> is_ok (resolve_reasoning demo_reasoning_profile (lit ''default''))
    \<and> \<not> is_ok (resolve_reasoning demo_reasoning_profile (lit ''ultra''))"
proof -
  have o': "rl_output_tokens (rf_limits demo_reasoning_profile) = 2500"
    by (simp add: demo_reasoning_profile_def demo_reasoning_profile_output)
  show ?thesis
    using reasoning_resolution_exact [OF demo_reasoning_profile_def]
    by (simp add: o' demo_reasoning_profile_tiers BUDGET_TIERS_def lit_def)
qed

end
