(* ===== verification/Spec2Isabelle.thy ===== *)
theory Spec2Isabelle
  imports Memory_Claims Handoff_Registry Job_Store Api_Keys Service_Claims Expert_Listing
    Deployment_Claims Deployment_Registry Platform_Signals Routing_Claims
    Schema_Claims Reasoning_Profile
begin

text \<open>
  Werk1112: a verification development for a local inference server written in Rust.

  The program. A server process accepts inference requests over HTTP and a command line,
  resolves their parameters, plans which runtime may serve them, loads models under memory
  budgets, executes, and keeps the state of long jobs and of hand-overs between prefill and
  decode. This development models the parts of \<open>src/src\<close> that carry that logic and no
  input or output of their own; clock readings, random bytes, telemetry, digests and the
  success of a write are arguments of the definitions that use them.

  Theories, in the order they build on each other:

  \<^item> \<open>Werk_Prelude\<close>: outcomes of Rust operations (value, error, panic), saturating and
    checked \<open>u64\<close> arithmetic, strings as lists of Unicode scalar values, and the locales
    \<open>state_machine\<close> and \<open>monotone_machine\<close> (an invariant or relation every step keeps,
    every run keeps).
  \<^item> \<open>BTree_Map\<close>: ordered association lists for \<open>BTreeMap\<close> and \<open>HashMap\<close>, with the
    contract \<open>finite_map\<close> and its interpretation.
  \<^item> \<open>Memory_Policy\<close>, \<open>Memory_State\<close>, \<open>Memory_Ops\<close>, \<open>Memory_Plan\<close>: the runtime memory
    manager of \<open>runtime_control/memory.rs\<close>. Policy: thresholds, budgets, pressure levels
    and hysteresis. State: \<open>manager_state\<close> with its tier accounts, allocations and pending
    sets, telemetry refresh and snapshots. Ops: reservations and their handles, commits,
    drops, promotions, pinning, orphan accounting and pressure permits. Plan: the relief
    planner with its demotion and eviction loops.
  \<^item> \<open>Memory_System\<close>, \<open>Memory_Safety\<close>, \<open>Memory_Steps\<close>, \<open>Memory_Machine\<close>: the manager as
    a state machine. A world is the state, the outstanding reservation handles and permits,
    and as a ghost the bytes charged for failed releases; an event is one call with what the
    environment supplies. \<open>state_inv\<close> relates the books to the outstanding handles; each
    step keeps it, and \<open>Memory_Machine\<close> interprets \<open>state_machine\<close>.
  \<^item> \<open>Memory_Contract\<close>, \<open>Memory_Claims\<close>: agreement of planning with admission, and the
    properties of the manager with witnesses on a two-tier configuration.
  \<^item> \<open>Handoff_Registry\<close>: \<open>runtime_control/handoff.rs\<close>; single-use tokens, reservations,
    expiry and capacity, as a \<open>state_machine\<close>.
  \<^item> \<open>Job_Store\<close>: \<open>inference_service/jobs.rs\<close>; the persisted jobs, their transitions,
    recovery, and the worker that \<open>submit\<close> spawns, one store call per step, as a
    \<open>monotone_machine\<close> (statuses only move forward).
  \<^item> \<open>Float64\<close>: the \<open>f64\<close> operations the program uses, bit by bit: order, total order,
    conversions, correctly rounded sum, product and quotient.
  \<^item> \<open>Expert_Residency\<close>, \<open>Expert_Machine\<close>, \<open>Expert_Claims\<close>, \<open>Expert_Listing\<close>: the expert
    residency manager of \<open>runtime_control/experts.rs\<close>: its state and operations, the manager as
    a \<open>state_machine\<close> whose world holds the outstanding permits, its properties, and the paged
    listing with its cursors.
  \<^item> \<open>Api_Keys\<close>: \<open>api_keys.rs\<close>; the key file's reader, writer and key generation.
  \<^item> \<open>Capabilities\<close>: \<open>capabilities.rs\<close> and its modules; tasks, layouts, their names and
    the reader that the \<open>string_enum\<close> macro generates, with the contract \<open>string_enum\<close>
    interpreted for both enums.
  \<^item> \<open>Inference_Types\<close>: the request data of \<open>inference/types.rs\<close>.
  \<^item> \<open>Inference_Planner\<close>, \<open>Planner_Claims\<close>: \<open>plan_execution\<close> of \<open>inference/planner.rs\<close>,
    from the reasons of one candidate to the ordered plan, and its properties.
  \<^item> \<open>Inference_Resolution\<close>, \<open>Resolution_Claims\<close>: \<open>resolve_request\<close> of
    \<open>inference/resolution.rs\<close> with the path normalisation and parameter checks of
    \<open>inference/schema.rs\<close>: defaults in layers, list and routing overrides, required inputs,
    validation, policy and warnings, and their properties. The tables are an argument
    (\<open>resolution_tables\<close>), so these hold for every schema.
  \<^item> \<open>Schema_Tables\<close>, \<open>Parameter_Schema\<close>, \<open>Schema_Facts\<close>, \<open>Schema_Claims\<close>: the tables themselves
    (\<open>inference/schema/\<close>: builders, routing, image, video, audio, defaults) and the schema of a
    task and of a model with its JSON defaults and constraints (\<open>inference/schema.rs\<close>);
    \<open>source_tables\<close> instantiates the argument of resolution. Facts: what each builder
    guarantees, distinct paths, lookups. Claims: the tables are valid, constraints leave a valid
    schema, plain requests resolve for every task and family, and
    \<open>constraint_default_overruled\<close>: a task default overrules the default of a constraint.
  \<^item> \<open>Reasoning_Profile\<close>: \<open>inference/generation_limits.rs\<close> and \<open>inference/reasoning.rs\<close>;
    the token limits of a chat model, the reasoning tiers a runtime offers for it, and what a
    requested tier resolves to. The tiers fit the output limit, and \<open>reasoning_resolution_exact\<close>
    says which requests are accepted and with which controls.
  \<^item> \<open>Workload_Estimate\<close>: \<open>inference/estimate.rs\<close>; workloads by medium, peaks, the
    classification against the detected memory, and the texts of an estimate.
  \<^item> \<open>Plan_Notes\<close>, \<open>Inference_Service\<close>, \<open>Service_Claims\<close>: \<open>inference_service/service.rs\<close>;
    the sentences of a plan and what is read back from them, then \<open>resolve\<close>, \<open>estimate\<close>,
    \<open>plan\<close> and \<open>execute\<close> with the loop over attempts, and their properties. The model store,
    the backend, the profile files and the output directory are the record \<open>service_world\<close>.
  \<^item> \<open>Rust_Text\<close>, \<open>Float64_Text\<close>: the string operations of the Rust standard library the
    program uses (splitting, trimming, parsing and printing of integers, UTF-8 bytes), and the
    shortest and fixed point texts of an \<open>f64\<close>.
  \<^item> \<open>Device_Inventory\<close>, \<open>Platform_Signals\<close>: \<open>inference_service/devices.rs\<close> and the detection
    half of \<open>inference_service/resources.rs\<close>; GPUs from \<open>nvidia-smi\<close> rows, visibility masks,
    accelerator, memory and topology signals.
  \<^item> \<open>Deployment_Plan\<close>, \<open>Deployment_Resolve\<close>: \<open>deployments.rs\<close>; the guards, devices, arguments
    and environment of one profile, then a whole deployment file.
  \<^item> \<open>Gpu_Ledger\<close>, \<open>Deployment_Claims\<close>: the \<open>Reservations\<close> of \<open>resources.rs\<close> as a
    \<open>state_machine\<close> of worker starts and drops, and the properties of deployments.
  \<^item> \<open>Deployment_Registry\<close>: \<open>api/deployments.rs\<close>; aliases, replicas, request permits and
    session affinity, as a \<open>state_machine\<close> of selections and releases.
  \<^item> \<open>Runtime_Protocol\<close>, \<open>Runtime_Backend\<close>, \<open>State_Lease\<close>: the data of \<open>werk_protocol\<close>, the
    adapter interface of \<open>runtime_control/backend.rs\<close> with its validation and one-use plans,
    and the lease on a backend state as a \<open>state_machine\<close> of its references.
  \<^item> \<open>Runtime_Routing\<close>, \<open>Routing_Machine\<close>, \<open>Routing_Claims\<close>: \<open>runtime_control/routing.rs\<close>; the
    bounded route tables and the operations through them, the tables as a \<open>state_machine\<close> whose
    events are the critical sections, and their properties. \<open>reserved_route_can_be_lost\<close> shows
    a run in which a reserved route is refused at its commit.

  How the parts interact. Resolution turns a request into an effective request; the planner
  reads it with an estimate and names a runtime; the service attempts the accepted runtimes in
  order (\<open>named_backend_executes\<close> follows a routing override through all of them); loading it goes through \<open>reserve_load\<close>, whose handle is committed or dropped;
  pressure is relieved by planned actions, each begun as a permit and then committed or
  dropped; prefill state is routed to the backend process that owns it, reserved and issued in the
  handoff registry and taken once;
  media requests run as jobs. A deployment file is resolved against the device inventory into
  worker plans; the ledger admits each worker, and the registry routes requests to replicas.

  What the lemmas show. For every stateful component: an invariant, that each operation
  keeps it on every branch (errors and drops of consumed handles included), and what follows
  for any sequence of operations. For the planners: soundness, minimality, optimality of the
  choice and agreement with a declarative specification. For the readers and writers:
  round trips for all inputs. Panics are values, and reachable states are proved free of
  them.

  Bounds and loops. \<open>u64\<close> and \<open>usize\<close> are naturals with saturating or checked operations
  written out; \<open>i32\<close> scores wrap. Every loop of the modelled code is a structural
  recursion, so no fuel is used; \<open>worker_run\<close> counts eight steps because the worker has
  eight points between \<open>submit\<close> and its end, and \<open>follow_pages\<close>, a client that follows the
  cursors of a listing, is shown to need at most one request more than there are experts.

  Not modelled: HTTP and command line layers, backends around external processes, model
  download, the text of JSON, the store of runtime states on disk with its crash recovery, and
  the asynchronous runtime controller, whose stateful pieces are modelled on their own. Locks are taken to be fair:
  each critical section is one step.
\<close>

section \<open>From the request to the plan\<close>

text \<open>
  From the request to the plan. When a client's request names a backend and the fallback
  policy none, then whatever the layers of defaults say, the runtime that the plan made for
  the resolved request selects has that backend, and it matches the device the request
  names, if it names one.
\<close>

theorem routing_override_reaches_plan:
  assumes "resolve_request rt m q rx = Ok r"
    and "ro_backend (iq_routing q) = Some b" and "b \<noteq> lit ''auto''"
    and "ro_fallback_policy (iq_routing q) = Some (lit ''none'')"
    and "ep_selected_runtime (plan_execution m r e cs) = Some i"
  shows "\<exists>c \<in> set cs. rc_id c = i \<and> eq_ignore_ascii_case (rc_backend c) b
    \<and> (\<forall>device a. ro_device (iq_routing q) = Some device \<longrightarrow> concrete_routing_target device = Some a \<longrightarrow>
         runtime_accelerator_matches (rc_accelerator c) a)"
proof -
  note read = routing_override_read [OF assms(1)]
  have b: "requested_backend r = Some b"
    using read [of "lit ''routing.backend''" "PString b"] assms(2,3)
    by (simp add: routing_list_def requested_backend_def string_parameter_def)
  have f: "fallback_policy r = lit ''none''"
    using read [of "lit ''routing.fallback_policy''" "PString (lit ''none'')"] assms(4)
    by (simp add: routing_list_def fallback_policy_def string_parameter_def)
  have a: "requested_accelerator r = Some a"
    if "ro_device (iq_routing q) = Some device" "concrete_routing_target device = Some a" for device a
    using read [of "lit ''routing.device''" "PString device"] that
    by (simp add: routing_list_def requested_accelerator_def string_parameter_def)
  obtain c where c: "c \<in> set cs" "rc_id c = i" "runnable m r e c"
    using planned [OF assms(5)] by metis
  then have "routing_allows r c" by (simp add: runnable_def)
  with a b f c(1,2) show ?thesis unfolding routing_allows_def by blast
qed

theorem routing_override_reaches_plan_witness:
  "eq_ignore_ascii_case (rc_backend demo_runtime) (lit ''diffusers'')"
proof -
  have o': "ro_backend (iq_routing demo_raw) = Some (lit ''diffusers'')"
    "ro_fallback_policy (iq_routing demo_raw) = Some (lit ''none'')" "lit ''diffusers'' \<noteq> lit ''auto''"
    by (simp_all add: demo_raw_def inference_request_new_def lit_def)
  from routing_override_reaches_plan [OF demo_resolves o'(1,3,2) demo_resolved_plan]
  show ?thesis by simp
qed

end
